(* ===== verification/Flood_Prelude.thy ===== *)
theory Flood_Prelude
  imports Complex_Main "HOL-Library.AList" "HOL-Library.Sublist" "HOL-Library.Multiset"
begin

text \<open>
  Shared vocabulary of the development: the Python exceptions the modelled code can raise, Python
  datetimes and timedeltas, the small list idioms the code uses everywhere (order-preserving
  deduplication with \<open>dict.fromkeys\<close>, \<open>min(..., key=..., default=None)\<close>, suffix tests with
  \<open>str.endswith\<close>), and the locale of graded thresholds that the scoring, coverage and freshness
  ladders all instantiate.

  Conventions used in every theory: Python \<open>int\<close> is \<open>int\<close> (or \<open>nat\<close> for a length), Python
  \<open>float\<close> is \<open>rat\<close>, that is exact arithmetic without rounding, infinities or NaN, and Python
  \<open>str\<close> is \<open>string\<close> where the text is an ASCII identifier and a datatype with one
  constructor per text where the text is a (Chinese) message.
\<close>

section \<open>Exceptions\<close>

datatype py_error = TypeError | ValueError | KeyError | IndexError | AssertionError | RuntimeQueueUnavailable

type_synonym 'a result = "py_error + 'a"

text \<open>Sequencing of computations that may raise, and a comprehension over one of them.\<close>

fun rbind :: "'a result \<Rightarrow> ('a \<Rightarrow> 'b result) \<Rightarrow> 'b result" where
  "rbind (Inl e) f = Inl e"
| "rbind (Inr x) f = f x"

fun rtraverse :: "('a \<Rightarrow> 'b result) \<Rightarrow> 'a list \<Rightarrow> 'b list result" where
  "rtraverse f [] = Inr []"
| "rtraverse f (x # xs) = rbind (f x) (\<lambda>y. rbind (rtraverse f xs) (\<lambda>ys. Inr (y # ys)))"

lemma rbind_Inr_iff: "rbind r f = Inr y \<longleftrightarrow> (\<exists>x. r = Inr x \<and> f x = Inr y)"
  by (cases r) auto

lemma rtraverse_map: "(\<And>x. x \<in> set xs \<Longrightarrow> f x = Inr (g x)) \<Longrightarrow> rtraverse f xs = Inr (map g xs)"
  by (induction xs) auto

lemma rtraverse_Inr_iff:
  "rtraverse f xs = Inr ys \<longleftrightarrow> list_all2 (\<lambda>x y. f x = Inr y) xs ys"
  by (induction xs arbitrary: ys) (auto simp: rbind_Inr_iff list_all2_Cons1)

lemma rtraverse_mem: "rtraverse f xs = Inr ys \<Longrightarrow> y \<in> set ys \<Longrightarrow> \<exists>x\<in>set xs. f x = Inr y"
  by (induction xs arbitrary: ys) (auto simp: rbind_Inr_iff)

lemma rtraverse_total: "(\<And>x. x \<in> set xs \<Longrightarrow> \<exists>y. f x = Inr y) \<Longrightarrow> \<exists>ys. rtraverse f xs = Inr ys"
  by (induction xs) force+

lemma list_all2_mem2: "list_all2 P xs ys \<Longrightarrow> y \<in> set ys \<Longrightarrow> \<exists>x\<in>set xs. P x y"
  by (induction rule: list_all2_induct) auto

named_theorems py_simps

section \<open>Datetimes\<close>

text \<open>
  A timedelta is a number of microseconds. A datetime is naive (a wall clock reading) or aware (a
  wall clock reading and the UTC offset of its \<open>tzinfo\<close>); an instant is the UTC wall clock in
  microseconds. The finite range of Python's datetimes is not modelled.
\<close>

definition seconds :: "int \<Rightarrow> int" where
  "seconds n = n * 1000000"

definition minutes :: "int \<Rightarrow> int" where
  "minutes n = seconds (60 * n)"

definition hours :: "int \<Rightarrow> int" where
  "hours n = seconds (3600 * n)"

definition days :: "int \<Rightarrow> int" where
  "days n = hours (24 * n)"

datatype aware_datetime = AwareAt (aw_wall: int) (aw_offset: int)

datatype py_datetime = Naive int | Aware aware_datetime

definition instant :: "aware_datetime \<Rightarrow> int" where
  "instant a = aw_wall a - aw_offset a"

fun is_aware :: "py_datetime \<Rightarrow> bool" where
  "is_aware (Naive w) = False"
| "is_aware (Aware a) = True"

text \<open>\<open>value.replace(tzinfo=UTC)\<close> on a naive value, \<open>value.astimezone(UTC)\<close> on an aware one.\<close>

fun normalized_utc :: "py_datetime \<Rightarrow> int" where
  "normalized_utc (Naive w) = w"
| "normalized_utc (Aware a) = instant a"

text \<open>Ordering comparisons between a naive and an aware datetime raise \<open>TypeError\<close>.\<close>

fun datetime_less :: "py_datetime \<Rightarrow> py_datetime \<Rightarrow> bool result" where
  "datetime_less (Naive v) (Naive w) = Inr (v < w)"
| "datetime_less (Aware a) (Aware b) = Inr (instant a < instant b)"
| "datetime_less _ _ = Inl TypeError"

lemma datetime_less_aware [py_simps]:
  "is_aware a \<Longrightarrow> is_aware b \<Longrightarrow> datetime_less a b = Inr (normalized_utc a < normalized_utc b)"
  by (cases a; cases b) simp_all

text \<open>\<open>int(delta.total_seconds())\<close> truncates towards zero.\<close>

definition int_seconds :: "int \<Rightarrow> int" where
  "int_seconds delta = (if 0 \<le> delta then delta div 1000000 else - ((- delta) div 1000000))"

lemma int_seconds_nonneg: "0 \<le> delta \<Longrightarrow> 0 \<le> int_seconds delta"
  by (simp add: int_seconds_def)

lemma int_seconds_mono: "x \<le> y \<Longrightarrow> int_seconds x \<le> int_seconds y"
proof -
  assume xy: "x \<le> y"
  consider "0 \<le> x" | "x < 0" "0 \<le> y" | "y < 0" using xy by linarith
  then show ?thesis
  proof cases
    case 1
    with xy show ?thesis by (simp add: int_seconds_def zdiv_mono1)
  next
    case 2
    then have "0 \<le> (- x) div 1000000" and "0 \<le> y div 1000000" by simp_all
    with 2 show ?thesis by (simp add: int_seconds_def)
  next
    case 3
    with xy show ?thesis by (simp add: int_seconds_def zdiv_mono1)
  qed
qed

lemma int_seconds_seconds [py_simps]: "int_seconds (seconds n) = n"
  by (simp add: int_seconds_def seconds_def flip: mult_minus_left)

section \<open>List idioms\<close>

text \<open>\<open>tuple(dict.fromkeys(xs))\<close>: the first occurrence of every element, in order.\<close>

fun fromkeys_seen :: "'a list \<Rightarrow> 'a list \<Rightarrow> 'a list" where
  "fromkeys_seen seen [] = []"
| "fromkeys_seen seen (x # xs) =
     (if x \<in> set seen then fromkeys_seen seen xs else x # fromkeys_seen (x # seen) xs)"

definition dict_fromkeys :: "'a list \<Rightarrow> 'a list" where
  "dict_fromkeys xs = fromkeys_seen [] xs"

lemma set_fromkeys_seen: "set (fromkeys_seen seen xs) = set xs - set seen"
  by (induction seen xs rule: fromkeys_seen.induct) auto

lemma distinct_fromkeys_seen: "distinct (fromkeys_seen seen xs)"
  by (induction seen xs rule: fromkeys_seen.induct) (auto simp: set_fromkeys_seen)

lemma subseq_fromkeys_seen: "subseq (fromkeys_seen seen xs) xs"
  by (induction seen xs rule: fromkeys_seen.induct) auto

lemma set_dict_fromkeys [simp]: "set (dict_fromkeys xs) = set xs"
  by (simp add: dict_fromkeys_def set_fromkeys_seen)

lemma distinct_dict_fromkeys [simp]: "distinct (dict_fromkeys xs)"
  by (simp add: dict_fromkeys_def distinct_fromkeys_seen)

lemma subseq_dict_fromkeys: "subseq (dict_fromkeys xs) xs"
  by (simp add: dict_fromkeys_def subseq_fromkeys_seen)

lemma dict_fromkeys_Nil_iff [simp]: "dict_fromkeys xs = [] \<longleftrightarrow> xs = []"
  by (metis set_dict_fromkeys set_empty)

lemma fromkeys_seen_id: "distinct xs \<Longrightarrow> set xs \<inter> set seen = {} \<Longrightarrow> fromkeys_seen seen xs = xs"
  by (induction seen xs rule: fromkeys_seen.induct) auto

lemma dict_fromkeys_idem [simp]: "dict_fromkeys (dict_fromkeys xs) = dict_fromkeys xs"
  by (simp add: dict_fromkeys_def fromkeys_seen_id distinct_fromkeys_seen)

text \<open>\<open>min(xs, key=f, default=None)\<close>: the first element with the least key.\<close>

fun first_min_by :: "('a \<Rightarrow> 'k::linorder) \<Rightarrow> 'a list \<Rightarrow> 'a option" where
  "first_min_by f [] = None"
| "first_min_by f (x # xs) =
     (case first_min_by f xs of
        None \<Rightarrow> Some x
      | Some y \<Rightarrow> if f y < f x then Some y else Some x)"

lemma first_min_by_None [simp]: "first_min_by f xs = None \<longleftrightarrow> xs = []"
  by (cases xs) (auto split: option.splits)

lemma first_min_by_mem: "first_min_by f xs = Some m \<Longrightarrow> m \<in> set xs"
  by (induction xs arbitrary: m) (auto split: option.splits if_splits)

lemma first_min_by_le: "first_min_by f xs = Some m \<Longrightarrow> x \<in> set xs \<Longrightarrow> f m \<le> f x"
  by (induction xs arbitrary: m) (fastforce split: option.splits if_splits)+

lemma first_min_by_Min: "first_min_by f xs = Some m \<Longrightarrow> f m = Min (f ` set xs)"
  by (rule Min_eqI [symmetric]) (auto intro: first_min_by_le first_min_by_mem)

text \<open>\<open>max(xs, key=f)\<close> of Python: the first element with the greatest key.\<close>

fun first_max_by :: "('a \<Rightarrow> 'k::linorder) \<Rightarrow> 'a list \<Rightarrow> 'a option" where
  "first_max_by f [] = None"
| "first_max_by f (x # xs) =
     (case first_max_by f xs of
        None \<Rightarrow> Some x
      | Some y \<Rightarrow> if f x < f y then Some y else Some x)"

lemma first_max_by_None [simp]: "first_max_by f xs = None \<longleftrightarrow> xs = []"
  by (cases xs) (auto split: option.splits)

lemma first_max_by_mem: "first_max_by f xs = Some m \<Longrightarrow> m \<in> set xs"
  by (induction xs arbitrary: m) (auto split: option.splits if_splits)

lemma first_max_by_ge: "first_max_by f xs = Some m \<Longrightarrow> x \<in> set xs \<Longrightarrow> f x \<le> f m"
  by (induction xs arbitrary: m) (fastforce split: option.splits if_splits)+

text \<open>\<open>code.endswith((s1, s2, ...))\<close>.\<close>

definition endswith_any :: "string \<Rightarrow> string list \<Rightarrow> bool" where
  "endswith_any code endings = list_ex (\<lambda>s. suffix s code) endings"

definition startswith :: "string \<Rightarrow> string \<Rightarrow> bool" where
  "startswith p code = prefix p code"

text \<open>\<open>[x for x in xs if x is not None]\<close>, used for the \<open>*values\<close> arguments.\<close>

definition present :: "'a option list \<Rightarrow> 'a list" where
  "present xs = List.map_filter id xs"

text \<open>\<open>a or b\<close> on optional objects whose values are always truthy (datetimes).\<close>

fun or_else :: "'a option \<Rightarrow> 'a option \<Rightarrow> 'a option" where
  "or_else None y = y"
| "or_else (Some x) y = Some x"

lemma or_else_None [simp]: "or_else x y = None \<longleftrightarrow> x = None \<and> y = None"
  by (cases x) auto

text \<open>The same on optional strings, where the empty string is falsy.\<close>

fun or_str :: "string option \<Rightarrow> string option \<Rightarrow> string option" where
  "or_str None y = y"
| "or_str (Some x) y = (if x = [] then y else Some x)"

text \<open>\<open>x or ''\<close> on an optional string.\<close>

definition str_or_empty :: "string option \<Rightarrow> string" where
  "str_or_empty x = (case x of None \<Rightarrow> [] | Some t \<Rightarrow> t)"

text \<open>\<open>str.lower\<close> and \<open>str.isalnum\<close> on ASCII text.\<close>

definition lower_char :: "char \<Rightarrow> char" where
  "lower_char c =
     (if 65 \<le> (of_char c :: int) \<and> (of_char c :: int) \<le> 90 then char_of ((of_char c :: int) + 32)
      else c)"

definition lower_str :: "string \<Rightarrow> string" where
  "lower_str s = map lower_char s"

definition is_digit_char :: "char \<Rightarrow> bool" where
  "is_digit_char c \<longleftrightarrow> 48 \<le> (of_char c :: int) \<and> (of_char c :: int) \<le> 57"

definition is_lower_char :: "char \<Rightarrow> bool" where
  "is_lower_char c \<longleftrightarrow> 97 \<le> (of_char c :: int) \<and> (of_char c :: int) \<le> 122"

definition is_upper_char :: "char \<Rightarrow> bool" where
  "is_upper_char c \<longleftrightarrow> 65 \<le> (of_char c :: int) \<and> (of_char c :: int) \<le> 90"

definition is_alnum_char :: "char \<Rightarrow> bool" where
  "is_alnum_char c \<longleftrightarrow> is_digit_char c \<or> is_lower_char c \<or> is_upper_char c"

lemma lower_char_lower: "is_upper_char c \<Longrightarrow> is_lower_char (lower_char c)"
  by (simp add: is_upper_char_def is_lower_char_def lower_char_def)

lemma lower_char_not_upper: "\<not> is_upper_char (lower_char c)"
  by (simp add: is_upper_char_def lower_char_def)

text \<open>\<open>s.split(sep)\<close> for a one-character separator, and \<open>sep.join(parts)\<close>.\<close>

fun split_on :: "char \<Rightarrow> string \<Rightarrow> string list" where
  "split_on sep [] = [[]]"
| "split_on sep (c # cs) =
     (if c = sep then [] # split_on sep cs
      else case split_on sep cs of
             [] \<Rightarrow> [[c]]
           | part # parts \<Rightarrow> (c # part) # parts)"

fun join_with :: "string \<Rightarrow> string list \<Rightarrow> string" where
  "join_with sep [] = []"
| "join_with sep [part] = part"
| "join_with sep (part # parts) = part @ sep @ join_with sep parts"

lemma set_split_on: "part \<in> set (split_on sep cs) \<Longrightarrow> set part \<subseteq> set cs - {sep}"
  by (induction cs arbitrary: part) (fastforce split: list.splits if_splits)+

lemma set_join_with: "set (join_with sep parts) \<subseteq> set sep \<union> \<Union> (set ` set parts)"
  by (induction sep parts rule: join_with.induct) auto

text \<open>Counting with \<open>sum(1 for x in xs if p(x))\<close>.\<close>

definition count_if :: "('a \<Rightarrow> bool) \<Rightarrow> 'a list \<Rightarrow> nat" where
  "count_if p xs = length (filter p xs)"

lemma count_if_mono: "(\<And>x. x \<in> set xs \<Longrightarrow> p x \<Longrightarrow> q x) \<Longrightarrow> count_if p xs \<le> count_if q xs"
  by (induction xs) (auto simp: count_if_def le_SucI)

lemma count_if_le [simp]: "count_if p xs \<le> length xs"
  by (simp add: count_if_def)

lemma count_if_pos: "0 < count_if p xs \<longleftrightarrow> (\<exists>x\<in>set xs. p x)"
  by (auto simp: count_if_def filter_empty_conv)

lemma count_if_mset: "mset xs = mset ys \<Longrightarrow> count_if p xs = count_if p ys"
  by (metis count_if_def mset_filter size_mset)

lemma sum_list_map_mset:
  "mset xs = mset ys \<Longrightarrow> sum_list (map f xs) = sum_list (map (f :: _ \<Rightarrow> 'b::comm_monoid_add) ys)"
  by (metis mset_map sum_mset_sum_list)

lemma map_filter_Cons':
  "List.map_filter f (x # xs) = (case f x of None \<Rightarrow> List.map_filter f xs | Some y \<Rightarrow> y # List.map_filter f xs)"
  by (simp add: List.map_filter_simps)

lemma set_map_filter: "set (List.map_filter f xs) = {y. \<exists>x\<in>set xs. f x = Some y}"
  by (force simp: List.map_filter_def)

lemma mset_filter_split: "mset (filter P xs) + mset (filter (\<lambda>x. \<not> P x) xs) = mset xs"
  by (induction xs) auto

section \<open>Graded thresholds\<close>

text \<open>
  The program classifies numbers with ladders of thresholds: scores into risk levels, confidence
  into confidence levels, distances into coverage levels, ages into freshness states. What its
  callers rely on is that such a ladder is monotone, so that the class of the best (or worst)
  input is the best (or worst) class. The locale states that contract once.
\<close>

locale monotone_grading =
  fixes grade :: "'k::linorder \<Rightarrow> 'v::linorder"
  assumes grade_mono: "x \<le> y \<Longrightarrow> grade x \<le> grade y"
begin

lemma grade_max: "grade (max x y) = max (grade x) (grade y)"
  by (cases "x \<le> y") (auto simp: max_def grade_mono intro: antisym)

lemma grade_reverse: "grade x < grade y \<Longrightarrow> x < y"
  by (meson grade_mono leD not_le_imp_less)

lemma grade_interval: "x \<le> y \<Longrightarrow> y \<le> z \<Longrightarrow> grade x = grade z \<Longrightarrow> grade y = grade x"
  by (metis antisym grade_mono)

end

locale antitone_grading =
  fixes grade :: "'k::linorder \<Rightarrow> 'v::linorder"
  assumes grade_anti: "x \<le> y \<Longrightarrow> grade y \<le> grade x"
begin

lemma grade_Min: "finite S \<Longrightarrow> S \<noteq> {} \<Longrightarrow> grade (Min S) = Max (grade ` S)"
  by (rule Max_eqI [symmetric]) (auto intro: grade_anti)

lemma grade_nearest:
  assumes "first_min_by f xs = Some m"
  shows "grade (f m) = Max ((\<lambda>x. grade (f x)) ` set xs)"
proof -
  have "set xs \<noteq> {}" using first_min_by_mem [OF assms] by auto
  then have "grade (Min (f ` set xs)) = Max (grade ` f ` set xs)"
    by (intro grade_Min) auto
  then show ?thesis using first_min_by_Min [OF assms] by (simp add: image_image)
qed

end

end
