(* ===== verification/Coverage_Catalog.thy ===== *)
theory Coverage_Catalog
  imports Flood_Prelude "HOL-Library.Char_ord" "HOL-Library.List_Lexorder"
begin

text \<open>
  The vocabulary of \<open>apps/api/app/domain/realtime/nearby_coverage.py\<close> and of the response schemas
  it fills (\<open>apps/api/app/api/schemas.py\<close>): signal types, health states, coverage levels, missing
  causes, the adapter catalog, and the public identifiers and names of sources. Names are sorted by
  the code, so they are kept as lists of Unicode code points (\<open>utext\<close>), which Python compares
  lexicographically.
\<close>

section \<open>Enumerations of the schemas\<close>

type_synonym utext = "nat list"

datatype signal_type =
  Rainfall | WaterLevel | FloodDepth | SewerWaterLevel | PumpOrGateStatus | FloodWarning | StatusOnly

datatype health_status = Healthy | DegradedHealth | FailedHealth | DisabledHealth | UnknownHealth

datatype health_reason =
  Operational | Delayed | UpstreamUnavailable | UpstreamStale | DatabaseUnavailable
| PipelineUnavailable | PipelineStalled | SourceMisconfigured | ReasonDisabled | NotYetObserved

datatype coverage_level =
  CoverageHigh | CoverageMedium | CoverageLow | NoLocalSensor | CoverageUnavailable

datatype availability =
  FreshNearby | DegradedNearby | RegionalReference | AvailStaleObservation | SourceUnavailable
| SourceStatusUnknown | NoStation

datatype missing_cause =
  CauseNone | NoStationInRange | InventoryUnverified | CauseStaleObservation | SourceDegraded
| SourceFailed | UpdatePipelineStalled | SourceNotConfigured | JurisdictionMappingMissing
| JurisdictionUnverified | HealthUnknown

datatype freshness_state = StateFresh | StateDegraded | StateStale

datatype observation_unit = UnitMm1h | UnitM | UnitCm

datatype source_scope = NationalScope | LocalScope

section \<open>Order of the coverage levels\<close>

text \<open>
  \<open>_RANK_BY_LEVEL\<close> ranks four of the five levels; looking \<open>unavailable\<close> up is a \<open>KeyError\<close>. The
  order of the type puts it below the ranked ones.
\<close>

fun rank_by_level :: "coverage_level \<Rightarrow> nat result" where
  "rank_by_level NoLocalSensor = Inr 0"
| "rank_by_level CoverageLow = Inr 1"
| "rank_by_level CoverageMedium = Inr 2"
| "rank_by_level CoverageHigh = Inr 3"
| "rank_by_level CoverageUnavailable = Inl KeyError"

definition level_by_rank :: "nat \<Rightarrow> coverage_level result" where
  "level_by_rank r =
     (if r = 0 then Inr NoLocalSensor
      else if r = 1 then Inr CoverageLow
      else if r = 2 then Inr CoverageMedium
      else if r = 3 then Inr CoverageHigh
      else Inl KeyError)"

lemma level_by_rank_inverse: "rank_by_level l = Inr r \<Longrightarrow> level_by_rank r = Inr l"
  by (cases l) (auto simp: level_by_rank_def)

fun coverage_level_rank :: "coverage_level \<Rightarrow> nat" where
  "coverage_level_rank CoverageUnavailable = 0"
| "coverage_level_rank NoLocalSensor = 1"
| "coverage_level_rank CoverageLow = 2"
| "coverage_level_rank CoverageMedium = 3"
| "coverage_level_rank CoverageHigh = 4"

lemma coverage_level_rank_inj: "coverage_level_rank a = coverage_level_rank b \<Longrightarrow> a = b"
  by (cases a; cases b) simp_all

instantiation coverage_level :: linorder
begin

definition less_eq_coverage_level :: "coverage_level \<Rightarrow> coverage_level \<Rightarrow> bool" where
  "less_eq_coverage_level a b \<longleftrightarrow> coverage_level_rank a \<le> coverage_level_rank b"

definition less_coverage_level :: "coverage_level \<Rightarrow> coverage_level \<Rightarrow> bool" where
  "less_coverage_level a b \<longleftrightarrow> coverage_level_rank a < coverage_level_rank b"

instance
  by standard
    (auto simp: less_eq_coverage_level_def less_coverage_level_def intro: coverage_level_rank_inj)

end

lemmas coverage_order_simps = less_eq_coverage_level_def less_coverage_level_def

section \<open>Catalog\<close>

definition required_signal_types :: "signal_type list" where
  "required_signal_types = [Rainfall, WaterLevel, FloodDepth]"

definition all_signal_types :: "signal_type list" where
  "all_signal_types =
     required_signal_types @ [SewerWaterLevel, PumpOrGateStatus, FloodWarning, StatusOnly]"

lemma mem_all_signal_types [simp]: "t \<in> set all_signal_types"
  by (cases t) (simp_all add: all_signal_types_def required_signal_types_def)

lemma distinct_all_signal_types [simp]: "distinct all_signal_types"
  by (simp add: all_signal_types_def required_signal_types_def)

text \<open>The literals of the signal types, as an event type may spell them.\<close>

fun signal_type_name :: "signal_type \<Rightarrow> string" where
  "signal_type_name Rainfall = ''rainfall''"
| "signal_type_name WaterLevel = ''water_level''"
| "signal_type_name FloodDepth = ''flood_depth''"
| "signal_type_name SewerWaterLevel = ''sewer_water_level''"
| "signal_type_name PumpOrGateStatus = ''pump_or_gate_status''"
| "signal_type_name FloodWarning = ''flood_warning''"
| "signal_type_name StatusOnly = ''status_only''"

definition adapter_signal_types :: "(string \<times> signal_type) list" where
  "adapter_signal_types =
     [(''official.cwa.rainfall'', Rainfall),
      (''official.cwa.tide_level'', WaterLevel),
      (''official.wra.water_level'', WaterLevel),
      (''official.wra_iow.flood_depth'', FloodDepth),
      (''official.civil_iot.flood_sensor'', FloodDepth),
      (''official.civil_iot.river_water_level'', WaterLevel),
      (''official.civil_iot.pond_water_level'', WaterLevel),
      (''official.civil_iot.sewer_water_level'', SewerWaterLevel),
      (''official.civil_iot.pump_water_level'', PumpOrGateStatus),
      (''official.civil_iot.gate_water_level'', PumpOrGateStatus),
      (''official.cwa.heavy_rain_warning'', FloodWarning),
      (''official.ncdr.cap'', FloodWarning),
      (''local.taipei.sewer_water_level'', SewerWaterLevel),
      (''local.taipei.river_water_level'', WaterLevel),
      (''local.taipei.pump_station'', PumpOrGateStatus),
      (''local.new_taipei.water_level'', WaterLevel),
      (''local.new_taipei.flood_sensor'', FloodDepth),
      (''local.new_taipei.rainfall'', Rainfall),
      (''local.new_taipei.drainage_water_level'', SewerWaterLevel),
      (''local.keelung.water_level'', WaterLevel),
      (''local.keelung.flood_sensor'', FloodDepth),
      (''local.keelung.rainfall'', Rainfall),
      (''local.taoyuan.flood_sensor'', FloodDepth),
      (''local.taoyuan.water_level'', WaterLevel),
      (''local.taoyuan.rainfall'', Rainfall),
      (''local.hsinchu_city.sewer_water_level'', SewerWaterLevel),
      (''local.hsinchu_city.flood_sensor'', FloodDepth),
      (''local.hsinchu_county.flood_sensor'', FloodDepth),
      (''local.miaoli.flood_sensor'', FloodDepth),
      (''local.taichung.water_level'', WaterLevel),
      (''local.changhua.flood_sensor'', FloodDepth),
      (''local.nantou.sewer_water_level'', SewerWaterLevel),
      (''local.yunlin.water_level'', WaterLevel),
      (''local.chiayi_city.water_level'', WaterLevel),
      (''local.chiayi_city.rainfall'', Rainfall),
      (''local.chiayi_county.flood_sensor'', FloodDepth),
      (''local.tainan.flood_sensor'', FloodDepth),
      (''local.kaohsiung.sewer_water_level'', SewerWaterLevel),
      (''local.kaohsiung.flood_sensor'', FloodDepth),
      (''local.kaohsiung.rainfall'', Rainfall),
      (''local.pingtung.flood_sensor'', FloodDepth),
      (''local.yilan.flood_sensor'', FloodDepth),
      (''local.yilan.water_level'', WaterLevel),
      (''local.yilan.mobile_pump_status'', PumpOrGateStatus),
      (''local.hualien.flood_sensor'', FloodDepth),
      (''local.taitung.flood_sensor'', FloodDepth),
      (''local.penghu.water_level'', WaterLevel),
      (''local.kinmen.kwis_pump_station'', PumpOrGateStatus)]"

definition event_type_aliases :: "(string \<times> signal_type) list" where
  "event_type_aliases =
     [(''river_water_level'', WaterLevel),
      (''pond_water_level'', WaterLevel),
      (''pump_water_level'', PumpOrGateStatus),
      (''gate_water_level'', PumpOrGateStatus),
      (''pump_status'', PumpOrGateStatus),
      (''gate_status'', PumpOrGateStatus),
      (''flood_report'', FloodDepth),
      (''flood_sensor'', FloodDepth)]"

fun signal_label :: "signal_type \<Rightarrow> utext" where
  "signal_label Rainfall = [38632, 37327]"
| "signal_label WaterLevel = [27700, 20301]"
| "signal_label FloodDepth = [28153, 27700, 28145, 24230]"
| "signal_label SewerWaterLevel = [19979, 27700, 36947, 27700, 20301]"
| "signal_label PumpOrGateStatus = [25277, 27700, 31449, 47, 27700, 38272, 29376, 24907]"
| "signal_label FloodWarning = [28153, 27700, 35686, 25106]"
| "signal_label StatusOnly = [29376, 24907, 32218, 32034]"

definition public_source_names :: "(string \<times> utext) list" where
  "public_source_names =
     [(''official.cwa.rainfall'',
        [20013, 22830, 27683, 35937, 32626, 38632, 37327, 35264, 28204]),
      (''official.cwa.tide_level'',
        [20013, 22830, 27683, 35937, 32626, 28526, 20301, 35264, 28204]),
      (''official.wra.water_level'',
        [32147, 28639, 37096, 27700, 21033, 32626, 27827, 24029, 27700, 20301, 35264, 28204]),
      (''official.wra_iow.flood_depth'',
        [32147, 28639, 37096, 27700, 21033, 32626, 28153, 27700, 24863, 28204]),
      (''official.civil_iot.flood_sensor'',
        [27700, 21033, 32626, 32, 67, 105, 118, 105, 108, 32, 73, 111, 84, 32, 28153, 27700, 24863, 28204]),
      (''official.civil_iot.river_water_level'',
        [27700, 21033, 32626, 32, 67, 105, 118, 105, 108, 32, 73, 111, 84, 32, 27827, 24029, 27700, 20301]),
      (''official.civil_iot.pond_water_level'',
        [27700, 21033, 32626, 32, 67, 105, 118, 105, 108, 32, 73, 111, 84, 32, 22500, 22616, 27700, 20301]),
      (''official.civil_iot.sewer_water_level'',
        [27700, 21033, 32626, 32, 67, 105, 118, 105, 108, 32, 73, 111, 84, 32, 19979, 27700, 36947, 27700, 20301]),
      (''official.civil_iot.pump_water_level'',
        [27700, 21033, 32626, 32, 67, 105, 118, 105, 108, 32, 73, 111, 84, 32, 25277, 27700, 31449, 27700, 20301]),
      (''official.civil_iot.gate_water_level'',
        [27700, 21033, 32626, 32, 67, 105, 118, 105, 108, 32, 73, 111, 84, 32, 27700, 38272, 27700, 20301]),
      (''official.cwa.heavy_rain_warning'',
        [20013, 22830, 27683, 35937, 32626, 35946, 38632, 35686, 25106]),
      (''official.ncdr.cap'',
        [22283, 23478, 28797, 23475, 38450, 25937, 31185, 25216, 20013, 24515, 28153, 27700, 35686, 25106])]"

definition locality_labels :: "(string \<times> utext) list" where
  "locality_labels =
     [(''taipei'', [33274, 21271, 24066]),
      (''new_taipei'', [26032, 21271, 24066]),
      (''keelung'', [22522, 38534, 24066]),
      (''taoyuan'', [26691, 22290, 24066]),
      (''hsinchu_city'', [26032, 31481, 24066]),
      (''hsinchu_county'', [26032, 31481, 32291]),
      (''miaoli'', [33495, 26647, 32291]),
      (''taichung'', [33274, 20013, 24066]),
      (''changhua'', [24432, 21270, 32291]),
      (''nantou'', [21335, 25237, 32291]),
      (''yunlin'', [38642, 26519, 32291]),
      (''chiayi_city'', [22025, 32681, 24066]),
      (''chiayi_county'', [22025, 32681, 32291]),
      (''tainan'', [33274, 21335, 24066]),
      (''kaohsiung'', [39640, 38596, 24066]),
      (''pingtung'', [23631, 26481, 32291]),
      (''yilan'', [23452, 34349, 32291]),
      (''hualien'', [33457, 34030, 32291]),
      (''taitung'', [33274, 26481, 32291]),
      (''penghu'', [28558, 28246, 32291]),
      (''kinmen'', [37329, 38272, 32291])]"

definition realtime_source_adapter_keys :: "string list" where
  "realtime_source_adapter_keys = map fst adapter_signal_types"

definition coverage_signal_type :: "string \<Rightarrow> string \<Rightarrow> signal_type" where
  "coverage_signal_type event_type adapter_key =
     (if event_type = ''status_only'' then StatusOnly
      else case map_of adapter_signal_types adapter_key of
             Some t \<Rightarrow> t
           | None \<Rightarrow>
               (case map_of event_type_aliases event_type of
                  Some t \<Rightarrow> t
                | None \<Rightarrow>
                    (case find (\<lambda>t. signal_type_name t = event_type) all_signal_types of
                       Some t \<Rightarrow> t
                     | None \<Rightarrow> StatusOnly)))"

section \<open>Public identifiers and names\<close>

definition public_realtime_source_id :: "string \<Rightarrow> string" where
  "public_realtime_source_id adapter_key =
     (let normalized = map (\<lambda>c. if is_alnum_char c then c else CHR ''-'') (lower_str adapter_key)
      in take 120 (join_with ''-'' (filter (\<lambda>part. part \<noteq> []) (split_on CHR ''-'' normalized))))"

definition observation_suffix :: utext where
  "observation_suffix = [35264, 28204]"

definition public_source_name :: "string \<Rightarrow> signal_type \<Rightarrow> utext" where
  "public_source_name adapter_key t =
     (case map_of public_source_names adapter_key of
        Some name \<Rightarrow> name
      | None \<Rightarrow>
          if startswith ''official.cwa.'' adapter_key
          then [20013, 22830, 27683, 35937, 32626] @ signal_label t @ observation_suffix
          else if startswith ''official.wra.'' adapter_key
                  \<or> startswith ''official.wra_iow.'' adapter_key
          then [32147, 28639, 37096, 27700, 21033, 32626] @ signal_label t @ observation_suffix
          else if startswith ''official.civil_iot.'' adapter_key
          then [27700, 21033, 32626, 32, 67, 105, 118, 105, 108, 32, 73, 111, 84, 32]
               @ signal_label t @ observation_suffix
          else if startswith ''local.'' adapter_key
          then (let locality_key = takeWhile (\<lambda>c. c \<noteq> CHR ''.'') (drop 6 adapter_key);
                    locality = (case map_of locality_labels locality_key of
                                  Some l \<Rightarrow> l
                                | None \<Rightarrow> [22320, 26041, 25919, 24220])
                in locality @ signal_label t @ observation_suffix)
          else [23448, 26041] @ signal_label t @ [36039, 26009, 20358, 28304])"

text \<open>
  The response schema accepts identifiers of the shape \<open>[a-z0-9][a-z0-9-]{0,119}\<close>; the generated
  identifier has that shape as soon as the adapter key has one alphanumeric character.
\<close>

definition source_id_char :: "char \<Rightarrow> bool" where
  "source_id_char c \<longleftrightarrow> is_digit_char c \<or> is_lower_char c"

definition valid_source_id :: "string \<Rightarrow> bool" where
  "valid_source_id i \<longleftrightarrow>
     i \<noteq> [] \<and> length i \<le> 120 \<and> source_id_char (hd i)
     \<and> (\<forall>c\<in>set i. source_id_char c \<or> c = CHR ''-'')"

lemma source_id_char_lower:
  "is_alnum_char (lower_char c) \<Longrightarrow> source_id_char (lower_char c)"
  using lower_char_not_upper [of c] by (auto simp: is_alnum_char_def source_id_char_def)

lemma is_alnum_lower: "is_alnum_char c \<Longrightarrow> is_alnum_char (lower_char c)"
  using lower_char_lower [of c]
  by (auto simp: is_alnum_char_def is_digit_char_def is_lower_char_def is_upper_char_def
      lower_char_def)

lemma split_on_covers: "c \<in> set cs \<Longrightarrow> c \<noteq> sep \<Longrightarrow> \<exists>part\<in>set (split_on sep cs). c \<in> set part"
  by (induction cs) (fastforce split: list.splits if_splits)+

lemma hd_join_with: "parts \<noteq> [] \<Longrightarrow> hd parts \<noteq> [] \<Longrightarrow> join_with sep parts \<noteq> []
    \<and> hd (join_with sep parts) = hd (hd parts)"
  by (induction sep parts rule: join_with.induct) auto

lemma public_realtime_source_id_valid:
  assumes "\<exists>c\<in>set key. is_alnum_char c"
  shows "valid_source_id (public_realtime_source_id key)"
proof -
  define norm where
    "norm = map (\<lambda>c. if is_alnum_char c then c else CHR ''-'') (lower_str key)"
  define parts where "parts = filter (\<lambda>part. part \<noteq> []) (split_on CHR ''-'' norm)"
  have chars: "source_id_char c \<or> c = CHR ''-''" if "c \<in> set norm" for c
    using that source_id_char_lower by (auto simp: norm_def lower_str_def split: if_splits)
  from assms obtain c where c: "c \<in> set key" "is_alnum_char c" by blast
  have al: "is_alnum_char (lower_char c)" by (rule is_alnum_lower [OF c(2)])
  have "lower_char c \<in> set norm" using c(1) al by (force simp: norm_def lower_str_def)
  moreover have "lower_char c \<noteq> CHR ''-''"
    using al by (auto simp: is_alnum_char_def is_digit_char_def is_lower_char_def is_upper_char_def)
  ultimately obtain part where "part \<in> set (split_on CHR ''-'' norm)" "lower_char c \<in> set part"
    using split_on_covers [of "lower_char c" norm "CHR ''-''"] by blast
  then have "part \<in> set parts" by (auto simp: parts_def)
  then have "parts \<noteq> []" by auto
  moreover have part: "part \<noteq> [] \<and> (\<forall>c\<in>set part. source_id_char c)" if "part \<in> set parts" for part
    using that set_split_on [of part "CHR ''-''" norm] chars by (auto simp: parts_def)
  ultimately have hd_part: "hd parts \<noteq> []" "source_id_char (hd (hd parts))"
    by (metis hd_in_set, metis hd_in_set)
  let ?j = "join_with ''-'' parts"
  have j: "?j \<noteq> []" "hd ?j = hd (hd parts)"
    using hd_join_with [OF \<open>parts \<noteq> []\<close> hd_part(1)] by auto
  have js: "\<forall>c\<in>set ?j. source_id_char c \<or> c = CHR ''-''"
    using set_join_with [of "''-''" parts] part by fastforce
  have eq: "public_realtime_source_id key = take 120 ?j"
    by (simp add: public_realtime_source_id_def norm_def parts_def Let_def)
  have "hd (take 120 ?j) = hd ?j" using j(1) by (cases ?j) auto
  then show ?thesis
    unfolding valid_source_id_def eq using j hd_part(2) js by (auto dest: in_set_takeD)
qed

end
