(* ===== verification/Source_Health.thy ===== *)
theory Source_Health
  imports Coverage_Catalog "HOL-Library.Product_Lexorder"
begin

text \<open>
  The health diagnosis of one realtime source, \<open>_source_health_decision\<close> and its helpers in
  \<open>apps/api/app/domain/realtime/nearby_coverage.py\<close>: a cascade of guards over the row that the
  evidence repository reads for a source. The cascade is cut into the parts the source file has
  (runtime selection, publication outcome, activity, run status, recorded history); each part is an
  optional decision, and the whole is the first decision found.
\<close>

section \<open>Rows and decisions\<close>

record health_row =
  hr_adapter_key :: string
  hr_name :: string
  hr_is_enabled :: bool
  hr_configured_health_status :: string
  hr_last_success_at :: "py_datetime option"
  hr_last_failure_at :: "py_datetime option"
  hr_latest_run_status :: "string option"
  hr_latest_run_at :: "py_datetime option"
  hr_latest_observed_at :: "py_datetime option"
  hr_latest_ingested_at :: "py_datetime option"
  hr_station_count :: "int option"
  hr_inventory_complete :: bool
  hr_is_registered :: bool
  hr_runtime_enabled :: "bool option"
  hr_runtime_enabled_checked_at :: "py_datetime option"
  hr_runtime_pipeline_status :: "string option"
  hr_runtime_pipeline_checked_at :: "py_datetime option"
  hr_runtime_pipeline_run_at :: "py_datetime option"
  hr_runtime_pipeline_complete :: bool
  hr_fresh_station_count :: "int option"
  hr_delayed_station_count :: "int option"
  hr_stale_station_count :: "int option"
  hr_active_station_count :: "int option"
  hr_upstream_station_count :: "int option"
  hr_pages_fetched :: "int option"
  hr_pagination_complete :: "bool option"
  hr_inventory_manifest_sha256 :: "string option"
  hr_inventory_proof_status :: string
  hr_latest_run_error_code :: "string option"
  hr_freshness_threshold_seconds :: "int option"
  hr_runtime_pipeline_error_code :: "string option"

text \<open>One constructor per message text of the source.\<close>

datatype health_message =
  MsgSourceDisabled
| MsgNotRegistered
| MsgWorkerReportsDisabled
| MsgSelectionOverdue
| MsgPublishStepFailed
| MsgDisabledOrStopped
| MsgBeyondSchedule
| MsgPublishUnconfirmedLate
| MsgPublishPending
| MsgPublishPartial
| MsgRunFailed
| MsgRunInProgress
| MsgRunPartial
| MsgRunSkipped
| MsgRunLate
| MsgLastKnownRunFailed
| MsgNoUsableUpdate
| MsgInsufficientRecords
| MsgDatabaseBusy
| MsgMisconfigured
| MsgTimedOut
| MsgTransportError
| MsgUnreadablePayload
| MsgNoActiveEvent
| MsgActiveEvent
| MsgNoEventMarker
| MsgInventoryUnknown
| MsgNoUsableObservation
| MsgMostStationsFresh int int
| MsgSomeStationsSlow int int int
| MsgMostStationsExpired
| MsgAllStationsExpired
| MsgNoObservationTime
| MsgRecentObservation
| MsgSlowObservation
| MsgObservationExpired
| MsgUpstreamStalledSince int

record health_decision =
  hd_health_status :: health_status
  hd_reason_code :: health_reason
  hd_message :: health_message

definition source_decision ::
  "health_status \<Rightarrow> health_reason \<Rightarrow> health_message \<Rightarrow> health_decision" where
  "source_decision h r m = \<lparr> hd_health_status = h, hd_reason_code = r, hd_message = m \<rparr>"

lemma source_decision_simps [simp]:
  "hd_health_status (source_decision h r m) = h"
  "hd_reason_code (source_decision h r m) = r"
  "hd_message (source_decision h r m) = m"
  by (simp_all add: source_decision_def)

section \<open>Constants\<close>

definition database_unavailable_suffixes :: "string list" where
  "database_unavailable_suffixes =
     [''QueryCanceled'', ''LockNotAvailable'', ''DeadlockDetected'', ''OperationalError'',
      ''InterfaceError'', ''AdminShutdown'', ''TooManyConnections'']"

definition upstream_transport_suffixes :: "string list" where
  "upstream_transport_suffixes =
     [''ConnectionError'', ''FetchError'', ''HTTPError'', ''HttpError'', ''RemoteDisconnected'',
      ''URLError'']"

definition default_source_freshness_threshold_seconds :: int where
  "default_source_freshness_threshold_seconds = 1800"

definition source_worker_delayed :: int where
  "source_worker_delayed = minutes 15"

definition source_worker_stopped :: int where
  "source_worker_stopped = minutes 30"

definition source_healthy_fresh_ratio :: rat where
  "source_healthy_fresh_ratio = 0.80"

definition source_degraded_usable_ratio :: rat where
  "source_degraded_usable_ratio = 0.50"

definition event_context_signal_types :: "signal_type list" where
  "event_context_signal_types = [FloodWarning, StatusOnly]"

section \<open>Ages and instants\<close>

definition age :: "py_datetime \<Rightarrow> py_datetime option \<Rightarrow> int option" where
  "age now value =
     map_option (\<lambda>v. max 0 (normalized_utc now - normalized_utc v)) value"

definition is_at_or_after :: "py_datetime \<Rightarrow> py_datetime option \<Rightarrow> bool" where
  "is_at_or_after value reference =
     (case reference of None \<Rightarrow> True | Some r \<Rightarrow> normalized_utc r \<le> normalized_utc value)"

definition same_instant :: "py_datetime \<Rightarrow> py_datetime \<Rightarrow> bool" where
  "same_instant l r \<longleftrightarrow> normalized_utc l = normalized_utc r"

definition latest_timestamp :: "py_datetime option list \<Rightarrow> py_datetime option" where
  "latest_timestamp values = first_max_by normalized_utc (present values)"

definition age_within :: "int option \<Rightarrow> int \<Rightarrow> bool" where
  "age_within a limit = (case a of None \<Rightarrow> False | Some x \<Rightarrow> x \<le> limit)"

definition age_beyond :: "int option \<Rightarrow> int \<Rightarrow> bool" where
  "age_beyond a limit = (case a of None \<Rightarrow> False | Some x \<Rightarrow> x > limit)"

text \<open>
  The assertion in the code that \<open>runtime_pipeline_checked_at\<close> is set fails as an
  \<open>AssertionError\<close>.
\<close>

definition pipeline_outcome_matches_run :: "health_row \<Rightarrow> py_datetime option \<Rightarrow> bool result" where
  "pipeline_outcome_matches_run row run_at =
     (case hr_runtime_pipeline_run_at row of
        Some p \<Rightarrow> Inr (run_at = None \<or> is_at_or_after p run_at)
      | None \<Rightarrow>
          (case hr_runtime_pipeline_checked_at row of
             None \<Rightarrow> Inl AssertionError
           | Some c \<Rightarrow> Inr (is_at_or_after c run_at)))"

section \<open>Failures by error code\<close>

definition pipeline_failure_decision :: "string option \<Rightarrow> health_message \<Rightarrow> health_decision" where
  "pipeline_failure_decision error_code fallback =
     (let code = str_or_empty error_code
      in if endswith_any code database_unavailable_suffixes
         then source_decision DegradedHealth DatabaseUnavailable MsgDatabaseBusy
         else if endswith_any code [''ConfigurationError'']
         then source_decision FailedHealth SourceMisconfigured MsgMisconfigured
         else if endswith_any code [''TimeoutError'']
         then source_decision FailedHealth UpstreamUnavailable MsgTimedOut
         else if endswith_any code upstream_transport_suffixes
         then source_decision FailedHealth UpstreamUnavailable MsgTransportError
         else if endswith_any code [''PayloadError'']
         then source_decision FailedHealth UpstreamUnavailable MsgUnreadablePayload
         else source_decision FailedHealth PipelineUnavailable fallback)"

section \<open>Health from the observations\<close>

text \<open>The message names the minute of the last observation on the Taipei wall clock.\<close>

definition taipei_minute :: "py_datetime \<Rightarrow> int" where
  "taipei_minute t = (normalized_utc t + hours 8) div minutes 1"

definition upstream_stale_decision ::
  "health_row \<Rightarrow> py_datetime \<Rightarrow> int option \<Rightarrow> int \<Rightarrow> health_decision option" where
  "upstream_stale_decision row now run_age fresh_seconds =
     (if run_age = None \<or> age_beyond run_age source_worker_delayed then None
      else case hr_latest_observed_at row of
             None \<Rightarrow> None
           | Some observed \<Rightarrow>
               if \<not> age_beyond (age now (Some observed)) (seconds (fresh_seconds * 3)) then None
               else Some (source_decision DegradedHealth UpstreamStale
                            (MsgUpstreamStalledSince (taipei_minute observed))))"

definition resolved_fresh_seconds :: "health_row \<Rightarrow> int" where
  "resolved_fresh_seconds row =
     (case hr_freshness_threshold_seconds row of
        None \<Rightarrow> default_source_freshness_threshold_seconds
      | Some n \<Rightarrow> if n \<le> 0 then default_source_freshness_threshold_seconds else n)"

definition active_stations :: "health_row \<Rightarrow> int \<Rightarrow> int" where
  "active_stations row station_count =
     max 0 (case hr_active_station_count row of None \<Rightarrow> station_count | Some n \<Rightarrow> n)"

text \<open>The branch over station counts, reached with a positive number of active stations.\<close>

definition station_share_decision ::
  "health_row \<Rightarrow> int \<Rightarrow> int \<Rightarrow> health_decision option \<Rightarrow> health_decision" where
  "station_share_decision row fresh_count active upstream_stale =
     (let fresh = max 0 fresh_count;
          delayed = max 0 (case hr_delayed_station_count row of None \<Rightarrow> 0 | Some n \<Rightarrow> n);
          usable = fresh + delayed
      in if source_healthy_fresh_ratio \<le> of_int fresh / of_int active
         then source_decision Healthy Operational (MsgMostStationsFresh fresh active)
         else if source_degraded_usable_ratio \<le> of_int usable / of_int active
         then source_decision DegradedHealth Delayed (MsgSomeStationsSlow fresh delayed active)
         else if usable > 0
         then source_decision DegradedHealth UpstreamUnavailable MsgMostStationsExpired
         else case upstream_stale of
                Some d \<Rightarrow> d
              | None \<Rightarrow> source_decision FailedHealth UpstreamUnavailable MsgAllStationsExpired)"

definition event_context_decision :: "health_row \<Rightarrow> health_decision" where
  "event_context_decision row =
     (if hr_latest_run_status row = Some ''succeeded''
         \<and> hr_latest_run_error_code row = Some ''no_active_event''
      then source_decision Healthy Operational MsgNoActiveEvent
      else if hr_latest_observed_at row \<noteq> None
      then source_decision Healthy Operational MsgActiveEvent
      else source_decision DegradedHealth UpstreamUnavailable MsgNoEventMarker)"

definition observation_age_decision :: "int option \<Rightarrow> int \<Rightarrow> health_decision" where
  "observation_age_decision observed_age fresh_seconds =
     (case observed_age of
        None \<Rightarrow> source_decision UnknownHealth NotYetObserved MsgNoObservationTime
      | Some a \<Rightarrow>
          if a \<le> seconds fresh_seconds
          then source_decision Healthy Operational MsgRecentObservation
          else if a \<le> seconds (fresh_seconds * 3)
          then source_decision DegradedHealth Delayed MsgSlowObservation
          else source_decision FailedHealth UpstreamUnavailable MsgObservationExpired)"

definition observation_health_decision ::
  "health_row \<Rightarrow> signal_type \<Rightarrow> py_datetime \<Rightarrow> int option \<Rightarrow> health_decision" where
  "observation_health_decision row t now run_age =
     (if t \<in> set event_context_signal_types then event_context_decision row
      else case hr_station_count row of
             None \<Rightarrow> source_decision UnknownHealth NotYetObserved MsgInventoryUnknown
           | Some station_count \<Rightarrow>
               (let fresh_seconds = resolved_fresh_seconds row;
                    upstream_stale = upstream_stale_decision row now run_age fresh_seconds;
                    active = active_stations row station_count
                in if active = 0 \<or> hr_latest_observed_at row = None
                   then (case upstream_stale of
                           Some d \<Rightarrow>
                             if station_count > 0 then d
                             else source_decision DegradedHealth UpstreamUnavailable
                                    MsgNoUsableObservation
                         | None \<Rightarrow> source_decision DegradedHealth UpstreamUnavailable
                                      MsgNoUsableObservation)
                   else case hr_fresh_station_count row of
                          Some fresh_count \<Rightarrow>
                            station_share_decision row fresh_count active upstream_stale
                        | None \<Rightarrow>
                            observation_age_decision (age now (hr_latest_observed_at row))
                              fresh_seconds))"

section \<open>The cascade\<close>

definition run_at_of :: "health_row \<Rightarrow> py_datetime option" where
  "run_at_of row =
     or_else (or_else (hr_latest_run_at row) (hr_last_success_at row)) (hr_last_failure_at row)"

definition run_status_of :: "health_row \<Rightarrow> string" where
  "run_status_of row = lower_str (str_or_empty (hr_latest_run_status row))"

definition runtime_selection_is_fresh :: "health_row \<Rightarrow> py_datetime \<Rightarrow> bool" where
  "runtime_selection_is_fresh row now \<longleftrightarrow>
     hr_runtime_enabled row \<noteq> None
     \<and> age_within (age now (hr_runtime_enabled_checked_at row)) source_worker_stopped"

definition runtime_enabled_now :: "health_row \<Rightarrow> py_datetime \<Rightarrow> bool" where
  "runtime_enabled_now row now \<longleftrightarrow>
     runtime_selection_is_fresh row now \<and> hr_runtime_enabled row = Some True"

definition configured_disabled :: "health_row \<Rightarrow> bool" where
  "configured_disabled row \<longleftrightarrow>
     \<not> hr_is_enabled row \<or> hr_configured_health_status row = ''disabled''"

definition selection_decision :: "health_row \<Rightarrow> py_datetime \<Rightarrow> health_decision option" where
  "selection_decision row now =
     (if \<not> hr_is_enabled row
      then Some (source_decision DisabledHealth ReasonDisabled MsgSourceDisabled)
      else if \<not> hr_is_registered row
      then Some (source_decision UnknownHealth NotYetObserved MsgNotRegistered)
      else if runtime_selection_is_fresh row now \<and> hr_runtime_enabled row = Some False
      then Some (source_decision DisabledHealth ReasonDisabled MsgWorkerReportsDisabled)
      else if hr_runtime_enabled row \<noteq> None \<and> \<not> runtime_selection_is_fresh row now
      then Some (source_decision FailedHealth PipelineStalled MsgSelectionOverdue)
      else None)"

definition publication_failure_decision :: "health_row \<Rightarrow> health_decision option result" where
  "publication_failure_decision row =
     (if hr_runtime_pipeline_status row = Some ''failed''
         \<and> hr_runtime_pipeline_checked_at row \<noteq> None
      then rbind (pipeline_outcome_matches_run row (run_at_of row))
             (\<lambda>matches. Inr
                (if matches
                 then Some (pipeline_failure_decision
                              (or_str (hr_runtime_pipeline_error_code row)
                                 (hr_latest_run_error_code row))
                              MsgPublishStepFailed)
                 else None))
      else Inr None)"

definition runtime_activity_at :: "health_row \<Rightarrow> py_datetime option" where
  "runtime_activity_at row =
     or_else (hr_latest_run_at row)
       (or_else (hr_latest_ingested_at row)
         (or_else (hr_last_success_at row)
           (or_else (hr_last_failure_at row) (hr_latest_observed_at row))))"

definition activity_decision :: "health_row \<Rightarrow> py_datetime \<Rightarrow> health_decision option" where
  "activity_decision row now =
     (if run_status_of row = ''disabled'' \<and> \<not> runtime_enabled_now row now
      then Some (source_decision DisabledHealth ReasonDisabled MsgSourceDisabled)
      else if configured_disabled row \<and> runtime_activity_at row = None
              \<and> \<not> runtime_enabled_now row now
      then Some (source_decision DisabledHealth ReasonDisabled MsgSourceDisabled)
      else if configured_disabled row \<and> \<not> runtime_selection_is_fresh row now
              \<and> age_beyond (age now (runtime_activity_at row)) source_worker_stopped
      then Some (source_decision UnknownHealth NotYetObserved MsgDisabledOrStopped)
      else if age_beyond (age now (run_at_of row)) source_worker_stopped
      then Some (source_decision FailedHealth PipelineStalled MsgBeyondSchedule)
      else None)"

definition pipeline_matches_run :: "health_row \<Rightarrow> bool" where
  "pipeline_matches_run row \<longleftrightarrow>
     hr_runtime_pipeline_status row = Some ''succeeded''
     \<and> hr_runtime_pipeline_checked_at row \<noteq> None
     \<and> (case (hr_runtime_pipeline_run_at row, run_at_of row) of
          (Some p, Some r) \<Rightarrow> same_instant p r
        | _ \<Rightarrow> False)"

definition publication_pending_decision ::
  "health_row \<Rightarrow> py_datetime \<Rightarrow> health_decision option" where
  "publication_pending_decision row now =
     (if runtime_enabled_now row now \<and> run_status_of row = ''succeeded''
      then (if \<not> pipeline_matches_run row
            then (if age_beyond (age now (run_at_of row)) source_worker_delayed
                  then Some (source_decision FailedHealth PipelineUnavailable
                               MsgPublishUnconfirmedLate)
                  else Some (source_decision DegradedHealth Delayed MsgPublishPending))
            else if hr_runtime_pipeline_status row = Some ''succeeded''
                    \<and> \<not> hr_runtime_pipeline_complete row
            then Some (source_decision DegradedHealth Delayed MsgPublishPartial)
            else None)
      else None)"

definition run_status_decision ::
  "health_row \<Rightarrow> signal_type \<Rightarrow> py_datetime \<Rightarrow> health_decision option" where
  "run_status_decision row t now =
     (let status = run_status_of row;
          run_age = age now (run_at_of row);
          observed = observation_health_decision row t now run_age
      in if status = ''failed''
         then Some (pipeline_failure_decision (hr_latest_run_error_code row) MsgRunFailed)
         else if status \<in> {''queued'', ''running''}
         then Some (source_decision DegradedHealth Delayed MsgRunInProgress)
         else if status = ''partial''
         then (if run_age = None \<or> age_within run_age source_worker_delayed
               then Some observed
               else Some (source_decision DegradedHealth Delayed MsgRunPartial))
         else if status = ''skipped''
         then Some (source_decision DegradedHealth UpstreamUnavailable MsgRunSkipped)
         else if status = ''succeeded''
         then (if age_beyond run_age source_worker_delayed \<and> hd_health_status observed = Healthy
               then Some (source_decision DegradedHealth Delayed MsgRunLate)
               else Some observed)
         else None)"

text \<open>
  Without a run status the recorded successes and failures decide. Their comparison is the one
  place that compares two datetimes directly, and raises when one is naive and the other aware.
\<close>

definition last_run_failed :: "health_row \<Rightarrow> bool result" where
  "last_run_failed row =
     (case hr_last_failure_at row of
        None \<Rightarrow> Inr False
      | Some failed \<Rightarrow>
          (case hr_last_success_at row of
             None \<Rightarrow> Inr True
           | Some succeeded \<Rightarrow> datetime_less succeeded failed))"

definition history_decision ::
  "health_row \<Rightarrow> signal_type \<Rightarrow> py_datetime \<Rightarrow> health_decision result" where
  "history_decision row t now =
     rbind (last_run_failed row)
       (\<lambda>failed. Inr
          (let observed = observation_health_decision row t now (age now (run_at_of row))
           in if failed
              then source_decision FailedHealth PipelineUnavailable MsgLastKnownRunFailed
              else if hr_last_success_at row \<noteq> None then observed
              else if hr_latest_observed_at row \<noteq> None then observed
              else if hr_configured_health_status row = ''failed''
              then source_decision FailedHealth PipelineUnavailable MsgNoUsableUpdate
              else if configured_disabled row \<and> \<not> runtime_enabled_now row now
              then source_decision DisabledHealth ReasonDisabled MsgSourceDisabled
              else source_decision UnknownHealth NotYetObserved MsgInsufficientRecords))"

definition source_health_decision ::
  "health_row \<Rightarrow> signal_type \<Rightarrow> py_datetime \<Rightarrow> health_decision result" where
  "source_health_decision row t now =
     (case selection_decision row now of
        Some d \<Rightarrow> Inr d
      | None \<Rightarrow>
          rbind (publication_failure_decision row)
            (\<lambda>published. case published of
               Some d \<Rightarrow> Inr d
             | None \<Rightarrow>
                 (case activity_decision row now of
                    Some d \<Rightarrow> Inr d
                  | None \<Rightarrow>
                      (case publication_pending_decision row now of
                         Some d \<Rightarrow> Inr d
                       | None \<Rightarrow>
                           (case run_status_decision row t now of
                              Some d \<Rightarrow> Inr d
                            | None \<Rightarrow> history_decision row t now)))))"

section \<open>Public health models\<close>

record source_health =
  sh_source_id :: string
  sh_name :: utext
  sh_signal_types :: "signal_type list"
  sh_coverage_scope :: source_scope
  sh_health_status :: health_status
  sh_reason_code :: health_reason
  sh_observed_at :: "py_datetime option"
  sh_checked_at :: "py_datetime option"
  sh_station_count :: "int option"
  sh_upstream_station_count :: "int option"
  sh_pages_fetched :: "int option"
  sh_pagination_complete :: "bool option"
  sh_inventory_manifest_sha256 :: "string option"
  sh_inventory_proof_status :: string
  sh_inventory_complete :: bool
  sh_jurisdictions :: "utext list"
  sh_required_for_absence :: bool
  sh_message :: health_message

definition source_health_model ::
  "health_row \<Rightarrow> signal_type \<Rightarrow> health_decision \<Rightarrow> (string \<rightharpoonup> utext list)
    \<Rightarrow> string set option \<Rightarrow> source_health" where
  "source_health_model row t d jurisdictions required =
     \<lparr> sh_source_id = public_realtime_source_id (hr_adapter_key row),
       sh_name = public_source_name (hr_adapter_key row) t,
       sh_signal_types = [t],
       sh_coverage_scope =
         (if startswith ''official.'' (hr_adapter_key row) then NationalScope else LocalScope),
       sh_health_status = hd_health_status d,
       sh_reason_code = hd_reason_code d,
       sh_observed_at = hr_latest_observed_at row,
       sh_checked_at = latest_timestamp
         [hr_runtime_pipeline_checked_at row, hr_runtime_enabled_checked_at row,
          hr_latest_run_at row, hr_latest_ingested_at row, hr_last_success_at row,
          hr_last_failure_at row],
       sh_station_count = hr_station_count row,
       sh_upstream_station_count = hr_upstream_station_count row,
       sh_pages_fetched = hr_pages_fetched row,
       sh_pagination_complete = hr_pagination_complete row,
       sh_inventory_manifest_sha256 = hr_inventory_manifest_sha256 row,
       sh_inventory_proof_status = hr_inventory_proof_status row,
       sh_inventory_complete = hr_inventory_complete row,
       sh_jurisdictions =
         (case jurisdictions (hr_adapter_key row) of None \<Rightarrow> [] | Some js \<Rightarrow> js),
       sh_required_for_absence =
         (case required of None \<Rightarrow> True | Some keys \<Rightarrow> hr_adapter_key row \<in> keys),
       sh_message = hd_message d \<rparr>"

text \<open>\<open>sorted(models, key=lambda item: (item.name, item.source_id))\<close>, a stable sort.\<close>

definition sort_sources :: "source_health list \<Rightarrow> source_health list" where
  "sort_sources items = sort_key (\<lambda>item. (sh_name item, sh_source_id item)) items"

text \<open>
  The field constraints of the response class \<open>NearbySourceHealth\<close>; constructing it outside them
  is a \<open>ValidationError\<close>, a subclass of \<open>ValueError\<close>.
\<close>

definition nonneg_count :: "int option \<Rightarrow> bool" where
  "nonneg_count n \<longleftrightarrow> (case n of None \<Rightarrow> True | Some k \<Rightarrow> 0 \<le> k)"

definition is_hex_char :: "char \<Rightarrow> bool" where
  "is_hex_char c \<longleftrightarrow> is_digit_char c \<or> c \<in> set ''abcdef''"

definition inventory_proof_statuses :: "string list" where
  "inventory_proof_statuses =
     [''missing'', ''incomplete'', ''awaiting_review'', ''checksum_mismatch'', ''approved'']"

definition source_health_valid :: "source_health \<Rightarrow> bool" where
  "source_health_valid h \<longleftrightarrow>
     valid_source_id (sh_source_id h)
     \<and> nonneg_count (sh_station_count h)
     \<and> nonneg_count (sh_upstream_station_count h)
     \<and> nonneg_count (sh_pages_fetched h)
     \<and> (case sh_inventory_manifest_sha256 h of
          None \<Rightarrow> True
        | Some digest \<Rightarrow> length digest = 64 \<and> list_all is_hex_char digest)
     \<and> sh_inventory_proof_status h \<in> set inventory_proof_statuses"

definition checked_source_health :: "source_health \<Rightarrow> source_health result" where
  "checked_source_health h = (if source_health_valid h then Inr h else Inl ValueError)"

definition known_sources :: "health_row list \<Rightarrow> (health_row \<times> signal_type) list" where
  "known_sources rows =
     List.map_filter
       (\<lambda>row. map_option (Pair row) (map_of adapter_signal_types (hr_adapter_key row))) rows"

definition build_nearby_source_health ::
  "health_row list \<Rightarrow> py_datetime \<Rightarrow> (string \<rightharpoonup> utext list) \<Rightarrow> string set option
    \<Rightarrow> source_health list result" where
  "build_nearby_source_health rows now jurisdictions required =
     rbind (rtraverse
              (\<lambda>(row, t). rbind (source_health_decision row t now)
                 (\<lambda>d. checked_source_health (source_health_model row t d jurisdictions required)))
              (known_sources rows))
       (\<lambda>models. Inr (sort_sources models))"

section \<open>Status and reason agree\<close>

text \<open>What each public status may give as its reason.\<close>

fun coherent :: "health_status \<Rightarrow> health_reason \<Rightarrow> bool" where
  "coherent Healthy r = (r = Operational)"
| "coherent DegradedHealth r =
     (r \<in> {Delayed, UpstreamUnavailable, UpstreamStale, DatabaseUnavailable})"
| "coherent FailedHealth r =
     (r \<in> {PipelineUnavailable, PipelineStalled, SourceMisconfigured, UpstreamUnavailable})"
| "coherent DisabledHealth r = (r = ReasonDisabled)"
| "coherent UnknownHealth r = (r = NotYetObserved)"

definition coherent_decision :: "health_decision \<Rightarrow> bool" where
  "coherent_decision d \<longleftrightarrow> coherent (hd_health_status d) (hd_reason_code d)"

lemma coherent_source_decision [simp]: "coherent_decision (source_decision h r m) = coherent h r"
  by (simp add: coherent_decision_def)

lemma coherent_pipeline_failure [simp]: "coherent_decision (pipeline_failure_decision code m)"
  by (simp add: pipeline_failure_decision_def Let_def)

lemma coherent_upstream_stale:
  "upstream_stale_decision row now run_age n = Some d \<Longrightarrow> coherent_decision d"
  by (auto simp: upstream_stale_decision_def split: if_splits option.splits)

lemma coherent_station_share:
  "(\<And>d. stale = Some d \<Longrightarrow> coherent_decision d) \<Longrightarrow>
     coherent_decision (station_share_decision row f active stale)"
  by (simp add: station_share_decision_def Let_def split: option.splits)

lemma coherent_observation [simp]:
  "coherent_decision (observation_health_decision row t now run_age)"
  unfolding observation_health_decision_def Let_def
  by (auto simp: event_context_decision_def observation_age_decision_def
      intro: coherent_station_share coherent_upstream_stale split: option.splits)

lemma coherent_selection: "selection_decision row now = Some d \<Longrightarrow> coherent_decision d"
  by (auto simp: selection_decision_def split: if_splits)

lemma coherent_publication_failure:
  "publication_failure_decision row = Inr (Some d) \<Longrightarrow> coherent_decision d"
  by (auto simp: publication_failure_decision_def rbind_Inr_iff split: if_splits)

lemma coherent_activity: "activity_decision row now = Some d \<Longrightarrow> coherent_decision d"
  by (auto simp: activity_decision_def split: if_splits)

lemma coherent_publication_pending:
  "publication_pending_decision row now = Some d \<Longrightarrow> coherent_decision d"
  by (auto simp: publication_pending_decision_def split: if_splits)

lemma coherent_run_status: "run_status_decision row t now = Some d \<Longrightarrow> coherent_decision d"
  unfolding run_status_decision_def Let_def by (simp split: if_splits) auto

lemma coherent_history: "history_decision row t now = Inr d \<Longrightarrow> coherent_decision d"
  by (auto simp: history_decision_def rbind_Inr_iff Let_def)

text \<open>The ways the cascade can end, as one case rule.\<close>

lemma source_health_decision_cases:
  assumes "source_health_decision row t now = Inr d"
  obtains (selection) "selection_decision row now = Some d"
  | (publication) "selection_decision row now = None"
      "publication_failure_decision row = Inr (Some d)"
  | (activity) "selection_decision row now = None" "publication_failure_decision row = Inr None"
      "activity_decision row now = Some d"
  | (pending) "selection_decision row now = None" "publication_failure_decision row = Inr None"
      "activity_decision row now = None" "publication_pending_decision row now = Some d"
  | (run_status) "selection_decision row now = None" "publication_failure_decision row = Inr None"
      "activity_decision row now = None" "publication_pending_decision row now = None"
      "run_status_decision row t now = Some d"
  | (history) "selection_decision row now = None" "publication_failure_decision row = Inr None"
      "activity_decision row now = None" "publication_pending_decision row now = None"
      "run_status_decision row t now = None" "history_decision row t now = Inr d"
proof (cases "selection_decision row now")
  case (Some x)
  with assms show ?thesis by (intro selection) (simp add: source_health_decision_def)
next
  case sel: None
  obtain p where p: "publication_failure_decision row = Inr p"
    using assms sel by (auto simp: source_health_decision_def rbind_Inr_iff)
  show ?thesis
  proof (cases p)
    case (Some x)
    with assms sel p show ?thesis by (intro publication) (simp_all add: source_health_decision_def)
  next
    case pub: None
    show ?thesis
    proof (cases "activity_decision row now")
      case (Some x)
      with assms sel p pub show ?thesis
        by (intro activity) (simp_all add: source_health_decision_def)
    next
      case act: None
      show ?thesis
      proof (cases "publication_pending_decision row now")
        case (Some x)
        with assms sel p pub act show ?thesis
          by (intro pending) (simp_all add: source_health_decision_def)
      next
        case pend: None
        with assms sel p pub act show ?thesis
          by (cases "run_status_decision row t now")
            (intro history run_status; simp add: source_health_decision_def)+
      qed
    qed
  qed
qed

lemma source_health_decision_coherent:
  assumes "source_health_decision row t now = Inr d"
  shows "coherent_decision d"
  using assms
  by (cases rule: source_health_decision_cases)
    (auto dest: coherent_selection coherent_publication_failure coherent_activity
      coherent_publication_pending coherent_run_status coherent_history)

section \<open>When the diagnosis can raise\<close>

text \<open>Rows as the repository reads them have aware timestamps (\<open>timestamptz\<close> columns).\<close>

definition aware_history :: "health_row \<Rightarrow> bool" where
  "aware_history row \<longleftrightarrow>
     (case (hr_last_success_at row, hr_last_failure_at row) of
        (Some s, Some f) \<Rightarrow> is_aware s \<and> is_aware f
      | _ \<Rightarrow> True)"

lemma publication_failure_total: "\<exists>x. publication_failure_decision row = Inr x"
  by (auto simp: publication_failure_decision_def pipeline_outcome_matches_run_def
      split: option.splits)

lemma last_run_failed_total: "aware_history row \<Longrightarrow> \<exists>b. last_run_failed row = Inr b"
  by (auto simp: aware_history_def last_run_failed_def datetime_less_aware split: option.splits)

lemma source_health_decision_total:
  assumes "aware_history row"
  shows "\<exists>d. source_health_decision row t now = Inr d"
proof -
  obtain x where "publication_failure_decision row = Inr x"
    using publication_failure_total by blast
  moreover obtain b where "last_run_failed row = Inr b"
    using last_run_failed_total [OF assms] by blast
  ultimately show ?thesis
    by (auto simp: source_health_decision_def history_decision_def split: option.splits)
qed

section \<open>What healthy means\<close>

lemma age_Some: "age now (Some v) = Some (max 0 (normalized_utc now - normalized_utc v))"
  by (simp add: age_def)

lemma age_None [simp]: "age now None = None"
  by (simp add: age_def)

lemma pipeline_failure_not_healthy:
  "hd_health_status (pipeline_failure_decision code m) \<noteq> Healthy"
  by (simp add: pipeline_failure_decision_def Let_def)

lemma upstream_stale_degraded:
  "upstream_stale_decision row now run_age n = Some d \<Longrightarrow> hd_health_status d = DegradedHealth"
  by (auto simp: upstream_stale_decision_def split: if_splits option.splits)

text \<open>
  The observations of a station network earn a healthy state only with at least one active station,
  an observation, and either the healthy share of fresh stations or a fresh newest observation.
\<close>

definition stations_reporting :: "health_row \<Rightarrow> py_datetime \<Rightarrow> bool" where
  "stations_reporting row now \<longleftrightarrow>
     (\<exists>n. hr_station_count row = Some n \<and> 0 < active_stations row n
        \<and> hr_latest_observed_at row \<noteq> None
        \<and> (case hr_fresh_station_count row of
             Some f \<Rightarrow> 4 * active_stations row n \<le> 5 * max 0 f
           | None \<Rightarrow> age_within (age now (hr_latest_observed_at row))
                        (seconds (resolved_fresh_seconds row))))"

lemma station_share_healthy:
  assumes "hd_health_status (station_share_decision row f active stale) = Healthy"
    and "0 < active" "\<And>d. stale = Some d \<Longrightarrow> hd_health_status d = DegradedHealth"
  shows "4 * active \<le> 5 * max 0 f"
proof -
  have "source_healthy_fresh_ratio \<le> (of_int (max 0 f) :: rat) / of_int active"
    using assms by (auto simp: station_share_decision_def Let_def split: if_splits option.splits)
  then have "(of_int (4 * active) :: rat) \<le> of_int (5 * max 0 f)"
    using assms(2) by (simp add: source_healthy_fresh_ratio_def field_simps)
  then show ?thesis by (simp only: of_int_le_iff)
qed

lemma observation_healthy:
  assumes "hd_health_status (observation_health_decision row t now run_age) = Healthy"
    and "t \<notin> set event_context_signal_types"
  shows "stations_reporting row now"
proof -
  obtain n where n: "hr_station_count row = Some n"
    using assms by (auto simp: observation_health_decision_def split: option.splits)
  have a: "active_stations row n \<noteq> 0" "hr_latest_observed_at row \<noteq> None"
    using assms n upstream_stale_degraded
    by (auto simp: observation_health_decision_def Let_def split: if_splits option.splits)
  then have pos: "0 < active_stations row n" by (auto simp: active_stations_def)
  show ?thesis
  proof (cases "hr_fresh_station_count row")
    case None
    with assms n a show ?thesis
      by (auto simp: observation_health_decision_def stations_reporting_def pos Let_def
          observation_age_decision_def age_within_def age_def split: if_splits option.splits)
  next
    case (Some f)
    then have "hd_health_status (station_share_decision row f (active_stations row n)
        (upstream_stale_decision row now run_age (resolved_fresh_seconds row))) = Healthy"
      using assms n a by (simp add: observation_health_decision_def Let_def)
    from station_share_healthy [OF this pos upstream_stale_degraded] show ?thesis
      using n a pos Some by (simp add: stations_reporting_def)
  qed
qed

section \<open>Properties of the diagnosis\<close>

lemma build_source_health_mem:
  assumes "build_nearby_source_health rows now js required = Inr hs" and "h \<in> set hs"
  obtains row t d where "row \<in> set rows"
    and "map_of adapter_signal_types (hr_adapter_key row) = Some t"
    and "source_health_decision row t now = Inr d"
    and "h = source_health_model row t d js required"
proof -
  obtain ms where ms: "rtraverse (\<lambda>(row, t). rbind (source_health_decision row t now)
          (\<lambda>d. checked_source_health (source_health_model row t d js required)))
      (known_sources rows) = Inr ms" and hs: "hs = sort_sources ms"
    using assms(1) by (auto simp: build_nearby_source_health_def rbind_Inr_iff)
  have "h \<in> set ms" using assms(2) hs by (simp add: sort_sources_def)
  from rtraverse_mem [OF ms this] obtain row t where
    "(row, t) \<in> set (known_sources rows)"
    "rbind (source_health_decision row t now)
       (\<lambda>d. checked_source_health (source_health_model row t d js required)) = Inr h" by auto
  then show thesis
    by (auto simp: known_sources_def List.map_filter_def rbind_Inr_iff checked_source_health_def
        split: if_splits intro: that)
qed

definition storable_row :: "health_row \<Rightarrow> bool" where
  "storable_row row \<longleftrightarrow>
     aware_history row
     \<and> nonneg_count (hr_station_count row)
     \<and> nonneg_count (hr_upstream_station_count row)
     \<and> nonneg_count (hr_pages_fetched row)
     \<and> (case hr_inventory_manifest_sha256 row of
          None \<Rightarrow> True
        | Some digest \<Rightarrow> length digest = 64 \<and> list_all is_hex_char digest)
     \<and> hr_inventory_proof_status row \<in> set inventory_proof_statuses"

lemma adapter_keys_alnum: "list_all (\<lambda>p. list_ex is_alnum_char (fst p)) adapter_signal_types"
  by code_simp

lemma adapter_key_alnum:
  assumes "map_of adapter_signal_types key = Some t"
  shows "\<exists>c\<in>set key. is_alnum_char c"
  using map_of_SomeD [OF assms] adapter_keys_alnum by (fastforce simp: list_all_iff list_ex_iff)

lemma checked_model_storable:
  "storable_row row \<Longrightarrow> map_of adapter_signal_types (hr_adapter_key row) = Some t \<Longrightarrow>
     checked_source_health (source_health_model row t d js required)
       = Inr (source_health_model row t d js required)"
  by (auto simp: checked_source_health_def source_health_valid_def source_health_model_def
      storable_row_def intro: public_realtime_source_id_valid adapter_key_alnum)

lemma known_sources_mem:
  "(row, t) \<in> set (known_sources rows) \<longleftrightarrow>
     row \<in> set rows \<and> map_of adapter_signal_types (hr_adapter_key row) = Some t"
  by (induction rows) (auto simp: known_sources_def map_filter_simps split: option.splits)

lemma known_sources_ids:
  "map (\<lambda>(row, t). public_realtime_source_id (hr_adapter_key row)) (known_sources rows)
     = map public_realtime_source_id
         (filter (\<lambda>key. map_of adapter_signal_types key \<noteq> None) (map hr_adapter_key rows))"
proof (induction rows)
  case Nil
  then show ?case by (simp add: known_sources_def map_filter_simps)
next
  case (Cons row rows)
  show ?case
    by (cases "map_of adapter_signal_types (hr_adapter_key row)")
      (simp_all add: Cons.IH [unfolded known_sources_def] known_sources_def map_filter_simps)
qed

lemma source_health_model_id [simp]:
  "sh_source_id (source_health_model row t d js required)
     = public_realtime_source_id (hr_adapter_key row)"
  by (simp add: source_health_model_def)

lemma build_models_ids:
  "rtraverse (\<lambda>(row, t). rbind (source_health_decision row t now)
          (\<lambda>d. checked_source_health (source_health_model row t d js required))) ps = Inr ms \<Longrightarrow>
     map sh_source_id ms = map (\<lambda>(row, t). public_realtime_source_id (hr_adapter_key row)) ps"
  by (induction ps arbitrary: ms)
    (auto simp: rbind_Inr_iff checked_source_health_def split: if_splits prod.splits)

lemma build_source_health_total:
  assumes "\<forall>row\<in>set rows. storable_row row"
  shows "\<exists>hs. build_nearby_source_health rows now js required = Inr hs"
proof -
  have "\<exists>y. (case p of (row, t) \<Rightarrow> rbind (source_health_decision row t now)
          (\<lambda>d. checked_source_health (source_health_model row t d js required))) = Inr y"
    if "p \<in> set (known_sources rows)" for p
  proof -
    obtain row t where p: "p = (row, t)" by (cases p)
    with that assms have row: "storable_row row"
      "map_of adapter_signal_types (hr_adapter_key row) = Some t"
      by (auto simp: known_sources_mem)
    then obtain d where "source_health_decision row t now = Inr d"
      using source_health_decision_total storable_row_def by blast
    with p row show ?thesis by (simp add: checked_model_storable)
  qed
  from rtraverse_total [OF this] show ?thesis
    by (fastforce simp: build_nearby_source_health_def)
qed

text \<open>
  C39. Source health is always published in full: for rows whose columns satisfy the database's own
  types (aware timestamps, nonnegative counts, a hexadecimal digest), the builder raises nothing,
  lists exactly one entry per row of a catalogued adapter (and none for the others), and sorts the
  entries by name and identifier.
\<close>

theorem source_health_published_in_full:
  assumes "\<forall>row\<in>set rows. storable_row row"
  shows "\<exists>hs. build_nearby_source_health rows now js required = Inr hs
    \<and> mset (map sh_source_id hs)
        = mset (map public_realtime_source_id
            (filter (\<lambda>key. map_of adapter_signal_types key \<noteq> None) (map hr_adapter_key rows)))
    \<and> sorted (map (\<lambda>h. (sh_name h, sh_source_id h)) hs)"
proof -
  obtain hs where hs: "build_nearby_source_health rows now js required = Inr hs"
    using build_source_health_total [OF assms] by blast
  then obtain ms where ms: "rtraverse (\<lambda>(row, t). rbind (source_health_decision row t now)
          (\<lambda>d. checked_source_health (source_health_model row t d js required)))
      (known_sources rows) = Inr ms" and hs_ms: "hs = sort_sources ms"
    by (auto simp: build_nearby_source_health_def rbind_Inr_iff)
  have "mset (map sh_source_id hs) = mset (map sh_source_id ms)"
    by (simp add: hs_ms sort_sources_def)
  also have "\<dots> = mset (map public_realtime_source_id
          (filter (\<lambda>key. map_of adapter_signal_types key \<noteq> None) (map hr_adapter_key rows)))"
    by (simp only: build_models_ids [OF ms] known_sources_ids)
  finally have ids: "mset (map sh_source_id hs) = mset (map public_realtime_source_id
          (filter (\<lambda>key. map_of adapter_signal_types key \<noteq> None) (map hr_adapter_key rows)))" .
  have "sorted (map (\<lambda>h. (sh_name h, sh_source_id h)) hs)"
    unfolding hs_ms sort_sources_def by (rule sorted_sort_key)
  with hs ids show ?thesis by blast
qed

text \<open>A row of a source that a worker fetches every ten minutes, for the examples.\<close>

definition sample_instant :: "int \<Rightarrow> py_datetime" where
  "sample_instant m = Aware (AwareAt (minutes m) 0)"

definition sample_row :: health_row where
  "sample_row =
     \<lparr> hr_adapter_key = ''official.wra.water_level'', hr_name = ''WRA'', hr_is_enabled = True,
       hr_configured_health_status = ''healthy'',
       hr_last_success_at = Some (sample_instant 595), hr_last_failure_at = Some (sample_instant 100),
       hr_latest_run_status = Some ''succeeded'', hr_latest_run_at = Some (sample_instant 595),
       hr_latest_observed_at = Some (sample_instant 590),
       hr_latest_ingested_at = Some (sample_instant 595), hr_station_count = Some 10,
       hr_inventory_complete = True, hr_is_registered = True, hr_runtime_enabled = None,
       hr_runtime_enabled_checked_at = None, hr_runtime_pipeline_status = None,
       hr_runtime_pipeline_checked_at = None, hr_runtime_pipeline_run_at = None,
       hr_runtime_pipeline_complete = False, hr_fresh_station_count = Some 9,
       hr_delayed_station_count = Some 1, hr_stale_station_count = Some 0,
       hr_active_station_count = Some 10, hr_upstream_station_count = Some 10,
       hr_pages_fetched = Some 1, hr_pagination_complete = Some True,
       hr_inventory_manifest_sha256 = None, hr_inventory_proof_status = ''approved'',
       hr_latest_run_error_code = None, hr_freshness_threshold_seconds = Some 1800,
       hr_runtime_pipeline_error_code = None \<rparr>"

definition sample_now :: py_datetime where
  "sample_now = sample_instant 600"

lemmas sample_row_eval = sample_row_def sample_now_def sample_instant_def

lemma sample_row_storable: "storable_row sample_row"
  by code_simp

theorem source_health_published_in_full_witness:
  "\<exists>hs. build_nearby_source_health [sample_row] sample_now Map.empty None = Inr hs
    \<and> mset (map sh_source_id hs) = {#''official-wra-water-level''#}
    \<and> sorted (map (\<lambda>h. (sh_name h, sh_source_id h)) hs)"
proof -
  have "public_realtime_source_id ''official.wra.water_level'' = ''official-wra-water-level''"
    by code_simp
  moreover have "map_of adapter_signal_types ''official.wra.water_level'' = Some WaterLevel"
    by code_simp
  ultimately show ?thesis
    using source_health_published_in_full [of "[sample_row]" sample_now Map.empty None]
      sample_row_storable by (simp add: sample_row_def)
qed

text \<open>
  The public status and its reason always agree: healthy means operational, disabled and
  unknown have their own reasons, a failure is never explained by the program's own database being
  busy (that is a degraded state), and a stalled worker is always a failure.
\<close>

theorem source_health_reason_coherent:
  assumes "build_nearby_source_health rows now js required = Inr hs" and "h \<in> set hs"
  shows "coherent (sh_health_status h) (sh_reason_code h)"
  using assms
  by (rule build_source_health_mem)
    (use source_health_decision_coherent in
      \<open>simp add: source_health_model_def coherent_decision_def\<close>)

lemma source_health_reason_coherent_witness:
  "\<exists>hs h. build_nearby_source_health [sample_row] sample_now Map.empty None = Inr hs
     \<and> h \<in> set hs \<and> coherent (sh_health_status h) (sh_reason_code h)"
proof -
  have "\<exists>hs. build_nearby_source_health [sample_row] sample_now Map.empty None = Inr hs"
    by (rule build_source_health_total) (simp add: sample_row_storable)
  then obtain hs where hs:
    "build_nearby_source_health [sample_row] sample_now Map.empty None = Inr hs" by blast
  have "length hs = length (known_sources [sample_row])"
  proof -
    obtain ms where "rtraverse (\<lambda>(row, t). rbind (source_health_decision row t sample_now)
          (\<lambda>d. checked_source_health (source_health_model row t d Map.empty None)))
        (known_sources [sample_row]) = Inr ms" "hs = sort_sources ms"
      using hs by (auto simp: build_nearby_source_health_def rbind_Inr_iff)
    then show ?thesis
      by (auto simp: rtraverse_Inr_iff sort_sources_def dest: list_all2_lengthD)
  qed
  moreover have "length (known_sources [sample_row]) = 1" by code_simp
  ultimately obtain h where "h \<in> set hs" by (cases hs) auto
  with hs source_health_reason_coherent [OF hs] show ?thesis by blast
qed

definition run_evidence_current :: "health_row \<Rightarrow> py_datetime \<Rightarrow> bool" where
  "run_evidence_current row now \<longleftrightarrow>
     \<not> age_beyond (age now (run_at_of row)) source_worker_stopped
     \<and> run_status_of row \<notin> {''failed'', ''queued'', ''running'', ''skipped''}
     \<and> (run_status_of row \<in> {''partial'', ''succeeded''} \<longrightarrow>
          \<not> age_beyond (age now (run_at_of row)) source_worker_delayed)
     \<and> (runtime_enabled_now row now \<and> run_status_of row = ''succeeded'' \<longrightarrow>
          pipeline_matches_run row \<and> hr_runtime_pipeline_complete row)"

lemma selection_passed:
  "selection_decision row now = None \<Longrightarrow>
     hr_is_enabled row \<and> hr_is_registered row \<and> hr_runtime_enabled row \<noteq> Some False
     \<and> (hr_runtime_enabled row \<noteq> None \<longrightarrow> runtime_selection_is_fresh row now)"
  by (auto simp: selection_decision_def split: if_splits)

lemma activity_passed:
  "activity_decision row now = None \<Longrightarrow>
     \<not> age_beyond (age now (run_at_of row)) source_worker_stopped"
  by (auto simp: activity_decision_def split: if_splits)

lemma pending_passed:
  "publication_pending_decision row now = None \<Longrightarrow>
     runtime_enabled_now row now \<and> run_status_of row = ''succeeded'' \<longrightarrow>
       pipeline_matches_run row \<and> hr_runtime_pipeline_complete row"
  by (auto simp: publication_pending_decision_def pipeline_matches_run_def split: if_splits)

lemma run_status_healthy:
  assumes "run_status_decision row t now = Some d" and "hd_health_status d = Healthy"
  shows "run_status_of row \<in> {''partial'', ''succeeded''}
    \<and> \<not> age_beyond (age now (run_at_of row)) source_worker_delayed
    \<and> d = observation_health_decision row t now (age now (run_at_of row))"
  using assms pipeline_failure_not_healthy
  unfolding run_status_decision_def Let_def
  by (auto simp: age_beyond_def age_within_def split: if_splits option.splits)

lemma run_status_passed:
  "run_status_decision row t now = None \<Longrightarrow>
     run_status_of row \<notin> {''failed'', ''queued'', ''running'', ''partial'', ''skipped'', ''succeeded''}"
  unfolding run_status_decision_def Let_def by (auto split: if_splits)

lemma history_healthy:
  "history_decision row t now = Inr d \<Longrightarrow> hd_health_status d = Healthy \<Longrightarrow>
     d = observation_health_decision row t now (age now (run_at_of row))"
  unfolding history_decision_def Let_def by (auto simp: rbind_Inr_iff split: if_splits)

lemma selection_not_healthy: "selection_decision row now = Some d \<Longrightarrow> hd_health_status d \<noteq> Healthy"
  by (auto simp: selection_decision_def split: if_splits)

lemma publication_not_healthy:
  "publication_failure_decision row = Inr (Some d) \<Longrightarrow> hd_health_status d \<noteq> Healthy"
  using pipeline_failure_not_healthy
  by (auto simp: publication_failure_decision_def rbind_Inr_iff split: if_splits)

lemma activity_not_healthy: "activity_decision row now = Some d \<Longrightarrow> hd_health_status d \<noteq> Healthy"
  by (auto simp: activity_decision_def split: if_splits)

lemma pending_not_healthy:
  "publication_pending_decision row now = Some d \<Longrightarrow> hd_health_status d \<noteq> Healthy"
  by (auto simp: publication_pending_decision_def split: if_splits)

lemma healthy_decision:
  assumes "source_health_decision row t now = Inr d" and "hd_health_status d = Healthy"
  shows "selection_decision row now = None
    \<and> publication_failure_decision row = Inr None
    \<and> run_evidence_current row now
    \<and> d = observation_health_decision row t now (age now (run_at_of row))"
  using assms(1)
proof (cases rule: source_health_decision_cases)
  case run_status
  with run_status_healthy [OF run_status(5) assms(2)] show ?thesis
    using activity_passed [OF run_status(3)] pending_passed [OF run_status(4)]
    by (auto simp: run_evidence_current_def)
next
  case history
  with history_healthy [OF history(6) assms(2)] run_status_passed [OF history(5)] show ?thesis
    using activity_passed [OF history(3)] pending_passed [OF history(4)]
    by (auto simp: run_evidence_current_def)
qed (use assms(2) selection_not_healthy publication_not_healthy activity_not_healthy
    pending_not_healthy in blast)+

text \<open>
  No false green light: a source is reported healthy only if it is enabled and registered, the
  worker has not reported it disabled and its report is fresh, no publication failure belongs to
  the last run, the last run is at most thirty minutes old (fifteen when it carries a status) and
  was neither failed, pending nor skipped, its publication is confirmed and complete whenever the
  worker reports the source enabled, and (for every measured signal) stations are reporting: at
  least one active station with four fifths of the active stations fresh, or, without station
  freshness counts, a newest observation within the threshold.
\<close>

theorem healthy_source_is_reporting:
  assumes "source_health_decision row t now = Inr d" and "hd_health_status d = Healthy"
  shows "hr_is_enabled row \<and> hr_is_registered row
    \<and> hr_runtime_enabled row \<noteq> Some False
    \<and> (hr_runtime_enabled row = Some True \<longrightarrow> runtime_selection_is_fresh row now)
    \<and> publication_failure_decision row = Inr None
    \<and> run_evidence_current row now
    \<and> (t \<notin> set event_context_signal_types \<longrightarrow> stations_reporting row now)"
  using healthy_decision [OF assms] selection_passed [of row now] observation_healthy assms(2)
  by blast

lemma healthy_source_is_reporting_witness:
  "\<exists>d. source_health_decision sample_row WaterLevel sample_now = Inr d
     \<and> hd_health_status d = Healthy \<and> stations_reporting sample_row sample_now"
proof -
  have d: "source_health_decision sample_row WaterLevel sample_now
      = Inr (source_decision Healthy Operational (MsgMostStationsFresh 9 10))"
    by code_simp
  have "WaterLevel \<notin> set event_context_signal_types" by code_simp
  with healthy_source_is_reporting [OF d] d show ?thesis by auto
qed

lemma upstream_stale_reason:
  "upstream_stale_decision row now run_age n = Some d \<Longrightarrow>
     run_age \<noteq> None \<and> \<not> age_beyond run_age source_worker_delayed
     \<and> (\<exists>observed. hr_latest_observed_at row = Some observed
          \<and> age_beyond (age now (Some observed)) (seconds (n * 3)))"
  by (auto simp: upstream_stale_decision_def split: if_splits option.splits)

lemma station_share_stale:
  "hd_reason_code (station_share_decision row f active stale) = UpstreamStale \<Longrightarrow> stale \<noteq> None"
  by (auto simp: station_share_decision_def Let_def split: if_splits option.splits)

lemma observation_stale:
  assumes "hd_reason_code (observation_health_decision row t now run_age) = UpstreamStale"
  shows "upstream_stale_decision row now run_age (resolved_fresh_seconds row) \<noteq> None"
  using assms station_share_stale
  unfolding observation_health_decision_def Let_def
  by (auto simp: event_context_decision_def observation_age_decision_def
      split: if_splits option.splits)

lemma pipeline_failure_not_stale:
  "hd_reason_code (pipeline_failure_decision code m) \<noteq> UpstreamStale"
  by (simp add: pipeline_failure_decision_def Let_def)

lemma stale_decision:
  assumes "source_health_decision row t now = Inr d" and "hd_reason_code d = UpstreamStale"
  shows "d = observation_health_decision row t now (age now (run_at_of row))"
  using assms(1)
proof (cases rule: source_health_decision_cases)
  case selection
  with assms(2) show ?thesis by (auto simp: selection_decision_def split: if_splits)
next
  case publication
  with assms(2) pipeline_failure_not_stale show ?thesis
    by (auto simp: publication_failure_decision_def rbind_Inr_iff split: if_splits)
next
  case activity
  with assms(2) show ?thesis by (auto simp: activity_decision_def split: if_splits)
next
  case pending
  with assms(2) show ?thesis by (auto simp: publication_pending_decision_def split: if_splits)
next
  case run_status
  with assms(2) pipeline_failure_not_stale show ?thesis
    unfolding run_status_decision_def Let_def by (auto split: if_splits)
next
  case history
  with assms(2) show ?thesis
    unfolding history_decision_def Let_def by (auto simp: rbind_Inr_iff split: if_splits)
qed

text \<open>
  The upstream is blamed for stale data only when the worker itself is current: an
  \<open>upstream_stale\<close> reason is a degraded state of a source whose last run is at most fifteen minutes
  old while its newest observation is older than three freshness thresholds.
\<close>

theorem upstream_blamed_only_when_worker_current:
  assumes "source_health_decision row t now = Inr d" and "hd_reason_code d = UpstreamStale"
  shows "hd_health_status d = DegradedHealth
    \<and> (\<exists>ran observed. run_at_of row = Some ran \<and> hr_latest_observed_at row = Some observed
        \<and> normalized_utc now - normalized_utc ran \<le> source_worker_delayed
        \<and> seconds (3 * resolved_fresh_seconds row) < normalized_utc now - normalized_utc observed)"
proof -
  have d: "d = observation_health_decision row t now (age now (run_at_of row))"
    by (rule stale_decision [OF assms])
  obtain e where "upstream_stale_decision row now (age now (run_at_of row))
      (resolved_fresh_seconds row) = Some e"
    using observation_stale assms(2) d by blast
  from upstream_stale_reason [OF this] obtain ran observed where
    *: "run_at_of row = Some ran" "hr_latest_observed_at row = Some observed"
      "\<not> age_beyond (age now (Some ran)) source_worker_delayed"
      "age_beyond (age now (Some observed)) (seconds (resolved_fresh_seconds row * 3))"
    by (cases "run_at_of row") auto
  have "0 \<le> seconds (resolved_fresh_seconds row * 3)"
    by (simp add: seconds_def resolved_fresh_seconds_def
        default_source_freshness_threshold_seconds_def split: option.splits)
  with *(3,4) have "normalized_utc now - normalized_utc ran \<le> source_worker_delayed"
    "seconds (3 * resolved_fresh_seconds row) < normalized_utc now - normalized_utc observed"
    by (simp_all add: age_beyond_def age_Some mult.commute)
  moreover have "hd_health_status d = DegradedHealth"
    using source_health_decision_coherent [OF assms(1)] assms(2)
    by (cases "hd_health_status d") (auto simp: coherent_decision_def)
  ultimately show ?thesis using *(1,2) by blast
qed

definition stalled_row :: health_row where
  "stalled_row = sample_row\<lparr> hr_latest_observed_at := Some (sample_instant 300),
     hr_fresh_station_count := Some 0, hr_delayed_station_count := Some 0 \<rparr>"

lemma upstream_blamed_only_when_worker_current_witness:
  "\<exists>d ran. source_health_decision stalled_row WaterLevel sample_now = Inr d
     \<and> hd_reason_code d = UpstreamStale \<and> run_at_of stalled_row = Some ran
     \<and> normalized_utc sample_now - normalized_utc ran \<le> source_worker_delayed"
proof -
  have d: "source_health_decision stalled_row WaterLevel sample_now
      = Inr (source_decision DegradedHealth UpstreamStale
               (MsgUpstreamStalledSince (taipei_minute (sample_instant 300))))"
    by code_simp
  from upstream_blamed_only_when_worker_current [OF d] d show ?thesis by auto
qed

lemma database_failure_decision:
  "endswith_any (str_or_empty code) database_unavailable_suffixes \<Longrightarrow>
     pipeline_failure_decision code m
       = source_decision DegradedHealth DatabaseUnavailable MsgDatabaseBusy"
  by (simp add: pipeline_failure_decision_def)

text \<open>
  A busy database is not a broken source: when the last run failed with one of the error codes
  of the program's own database, and the publication step reported no code of its own, a source is
  reported failed only because its worker has stopped, never because of that error.
\<close>

theorem database_fault_is_not_source_failure:
  assumes "source_health_decision row t now = Inr d"
    and "run_status_of row = ''failed''"
    and "endswith_any (str_or_empty (hr_latest_run_error_code row)) database_unavailable_suffixes"
    and "hr_runtime_pipeline_error_code row \<in> {None, Some []}"
    and "hd_health_status d = FailedHealth"
  shows "hd_reason_code d = PipelineStalled"
  using assms(1)
proof (cases rule: source_health_decision_cases)
  case selection
  with assms(5) show ?thesis by (auto simp: selection_decision_def split: if_splits)
next
  case publication
  with assms(3-5) show ?thesis
    by (auto simp: publication_failure_decision_def rbind_Inr_iff database_failure_decision
        split: if_splits)
next
  case activity
  with assms(5) show ?thesis by (auto simp: activity_decision_def split: if_splits)
next
  case pending
  with assms(2) show ?thesis by (auto simp: publication_pending_decision_def split: if_splits)
next
  case run_status
  with assms(2,3,5) show ?thesis
    by (auto simp: run_status_decision_def Let_def database_failure_decision)
next
  case history
  from run_status_passed [OF history(5)] assms(2) show ?thesis by simp
qed

definition failed_row :: health_row where
  "failed_row = sample_row\<lparr> hr_latest_run_status := Some ''failed'',
     hr_latest_run_error_code := Some ''QueryCanceled'',
     hr_latest_run_at := Some (sample_instant 500) \<rparr>"

lemma database_fault_is_not_source_failure_witness:
  "\<exists>d. source_health_decision failed_row WaterLevel sample_now = Inr d
     \<and> hd_health_status d = FailedHealth \<and> hd_reason_code d = PipelineStalled"
proof -
  have d: "source_health_decision failed_row WaterLevel sample_now
      = Inr (source_decision FailedHealth PipelineStalled MsgBeyondSchedule)"
    by code_simp
  have "run_status_of failed_row = ''failed''" by code_simp
  moreover have "endswith_any (str_or_empty (hr_latest_run_error_code failed_row))
      database_unavailable_suffixes" by code_simp
  moreover have "hr_runtime_pipeline_error_code failed_row \<in> {None, Some []}"
    by (simp add: failed_row_def sample_row_def)
  ultimately show ?thesis
    using database_fault_is_not_source_failure [OF d] d by simp
qed

lemma catalog_ids_distinct: "distinct (map public_realtime_source_id realtime_source_adapter_keys)"
  by code_simp

text \<open>
  Public identifiers: every adapter of the catalog is published under an identifier that the
  response schema accepts, and no two adapters share one.
\<close>

theorem catalog_source_ids_valid_and_distinct:
  "list_all valid_source_id (map public_realtime_source_id realtime_source_adapter_keys)
     \<and> distinct (map public_realtime_source_id realtime_source_adapter_keys)"
proof
  have "valid_source_id (public_realtime_source_id (fst p))" if "p \<in> set adapter_signal_types" for p
    using that adapter_keys_alnum
    by (intro public_realtime_source_id_valid) (auto simp: list_all_iff list_ex_iff)
  then show "list_all valid_source_id (map public_realtime_source_id realtime_source_adapter_keys)"
    by (auto simp: list_all_iff realtime_source_adapter_keys_def)
qed (rule catalog_ids_distinct)

end
