(* ===== verification/Nearby_Coverage.thy ===== *)
theory Nearby_Coverage
  imports Source_Health
begin

text \<open>
  Nearby realtime coverage, the rest of \<open>apps/api/app/domain/realtime/nearby_coverage.py\<close>: which
  measured signals a query point has around it, how near the best usable station is, and, when there
  is none, why. The rows are those of \<open>NearbyCoverageRow\<close> (\<open>domain/evidence/repository.py\<close>), the
  results those of \<open>NearbyCoverageSignal\<close> and \<open>NearbyRealtimeCoverage\<close> (\<open>api/schemas.py\<close>).
  Chinese texts are constructors, one per text; a text with a number in it carries the number.
\<close>

section \<open>Rows and results\<close>

record coverage_row =
  cr_adapter_key :: string
  cr_source_id :: string
  cr_event_type :: string
  cr_station_id :: "string option"
  cr_observed_at :: "py_datetime option"
  cr_ingested_at :: py_datetime
  cr_distance_to_query_m :: rat
  cr_freshness_state :: string
  cr_rainfall_mm_1h :: "rat option"
  cr_water_level_m :: "rat option"
  cr_warning_level_m :: "rat option"
  cr_flood_depth_cm :: "rat option"

datatype missing_reason =
  ReasonNoStation signal_type
| ReasonInventoryUnverified signal_type
| ReasonJurisdictionUnverified signal_type
| ReasonPipelineStalled signal_type
| ReasonSourceFailed signal_type
| ReasonSourceDegraded signal_type
| ReasonNotConfigured signal_type
| ReasonHealthUnknown signal_type
| ReasonOnlyStale signal_type
| ReasonOnlyRegional signal_type rat

record coverage_signal =
  cs_signal_type :: signal_type
  cs_label :: utext
  cs_coverage_level :: coverage_level
  cs_availability_state :: availability
  cs_nearest_distance_m :: "rat option"
  cs_nearest_source_id :: "string option"
  cs_nearest_observed_at :: "py_datetime option"
  cs_nearest_observation_value :: "rat option"
  cs_nearest_observation_unit :: "observation_unit option"
  cs_nearest_reference_value :: "rat option"
  cs_nearest_reference_unit :: "observation_unit option"
  cs_counts_by_radius_m :: "(int \<times> nat) list"
  cs_fresh_count :: nat
  cs_degraded_count :: nat
  cs_stale_count :: nat
  cs_status_only_count :: nat
  cs_nearest_freshness_state :: "freshness_state option"
  cs_source_health_status :: health_status
  cs_source_count :: nat
  cs_failed_source_count :: nat
  cs_missing_cause :: missing_cause
  cs_missing_reason :: "missing_reason option"

record signal_evaluation =
  ev_signal_type :: signal_type
  ev_model :: coverage_signal
  ev_has_rows :: bool

datatype jurisdiction_status =
  JurisdictionVerified | BoundaryUnverified | OutsideCoverage | JurisdictionAmbiguous
| JurisdictionUnavailable

datatype coverage_summary =
  SummaryDatabaseUnavailable
| SummaryBackgroundOnly
| SummarySourceFault
| SummarySourceDegraded
| SummaryJurisdictionUnverified
| SummaryInventoryUnverified
| SummaryRegionalReference
| SummaryStaleObservations
| SummaryStatusCluesOnly
| SummarySourceStatusUnknown
| SummarySourceNotConfigured
| SummaryNoSensorData
| SummaryBestLevel coverage_level "signal_type list"

datatype coverage_limitation =
  LimitSummary coverage_summary
| LimitCountyLevelNote
| LimitHealthUnavailable
| LimitHealthAlsoUnavailable
| LimitNoHealthRecords
| LimitStatusCluesOnly
| LimitRainfallOrWarningOnly
| LimitSourceFault
| LimitSourceDegraded
| LimitInventoryUnverified
| LimitJurisdictionUnverified
| LimitSourceStatusUnknown
| LimitRegionalReference
| LimitStaleObservations
| LimitNoUsableMeasurement
| LimitSourceNotConfigured
| LimitNoSensorData

record nearby_coverage =
  nc_overall_level :: coverage_level
  nc_evaluated_at :: py_datetime
  nc_query_radius_m :: int
  nc_radius_buckets_m :: "int list"
  nc_summary :: coverage_summary
  nc_signal_breakdown :: "coverage_signal list"
  nc_missing_signal_types :: "signal_type list"
  nc_limitations :: "coverage_limitation list"
  nc_source_health :: "source_health list"
  nc_source_health_status :: health_status
  nc_source_health_checked :: bool
  nc_jurisdiction_status :: jurisdiction_status
  nc_jurisdiction_checked :: bool
  nc_jurisdiction_catalog_complete :: bool
  nc_home_jurisdiction :: "utext option"
  nc_considered_jurisdictions :: "utext list"
  nc_jurisdiction_mapping_revisions :: "string list"
  nc_jurisdiction_unverified_signal_types :: "signal_type list"
  nc_county_level_note :: coverage_limitation

section \<open>Constants\<close>

definition local_coverage_radius_m :: int where
  "local_coverage_radius_m = 5000"

definition radius_buckets_m :: "int list" where
  "radius_buckets_m = [500, 1000, 3000, local_coverage_radius_m, 10000, 15000]"

fun thresholds_by_signal :: "signal_type \<Rightarrow> int \<times> int \<times> int" where
  "thresholds_by_signal Rainfall = (1000, 3000, 5000)"
| "thresholds_by_signal WaterLevel = (500, 1000, local_coverage_radius_m)"
| "thresholds_by_signal FloodDepth = (500, 1000, local_coverage_radius_m)"
| "thresholds_by_signal SewerWaterLevel = (500, 1000, local_coverage_radius_m)"
| "thresholds_by_signal PumpOrGateStatus = (500, 1000, local_coverage_radius_m)"
| "thresholds_by_signal FloodWarning = (500, 1000, local_coverage_radius_m)"
| "thresholds_by_signal StatusOnly = (500, 1000, local_coverage_radius_m)"

section \<open>One signal\<close>

definition observation_value ::
  "signal_type \<Rightarrow> coverage_row option \<Rightarrow> rat option \<times> observation_unit option" where
  "observation_value t row =
     (case row of
        None \<Rightarrow> (None, None)
      | Some r \<Rightarrow>
          if t = Rainfall
          then (cr_rainfall_mm_1h r,
                if cr_rainfall_mm_1h r \<noteq> None then Some UnitMm1h else None)
          else if t = FloodDepth
          then (cr_flood_depth_cm r, if cr_flood_depth_cm r \<noteq> None then Some UnitCm else None)
          else if t \<in> {WaterLevel, SewerWaterLevel, PumpOrGateStatus}
          then (cr_water_level_m r, if cr_water_level_m r \<noteq> None then Some UnitM else None)
          else (None, None))"

text \<open>The ladder of distances, and its value at the nearest usable row.\<close>

definition distance_level :: "signal_type \<Rightarrow> rat \<Rightarrow> coverage_level" where
  "distance_level t distance =
     (case thresholds_by_signal t of (near, middle, far) \<Rightarrow>
        if distance \<le> of_int near then CoverageHigh
        else if distance \<le> of_int middle then CoverageMedium
        else if distance \<le> of_int far then CoverageLow
        else NoLocalSensor)"

definition coverage_level_of :: "signal_type \<Rightarrow> coverage_row option \<Rightarrow> coverage_level" where
  "coverage_level_of t nearest_usable_row =
     (case nearest_usable_row of
        None \<Rightarrow> NoLocalSensor
      | Some r \<Rightarrow> distance_level t (cr_distance_to_query_m r))"

definition availability_state ::
  "coverage_level \<Rightarrow> coverage_row option \<Rightarrow> missing_cause \<Rightarrow> availability" where
  "availability_state level nearest_usable_row cause =
     (case nearest_usable_row of
        None \<Rightarrow>
          if cause = CauseStaleObservation then AvailStaleObservation
          else if cause = NoStationInRange then NoStation
          else if cause \<in> {HealthUnknown, InventoryUnverified, JurisdictionUnverified}
          then SourceStatusUnknown
          else SourceUnavailable
      | Some r \<Rightarrow>
          if level = NoLocalSensor then RegionalReference
          else if cr_freshness_state r = ''fresh'' then FreshNearby
          else DegradedNearby)"

definition aggregate_source_health :: "source_health list \<Rightarrow> health_status" where
  "aggregate_source_health source_health =
     (if source_health = [] then UnknownHealth
      else let active = filter (\<lambda>h. sh_health_status h \<noteq> DisabledHealth) source_health;
               statuses = set (map sh_health_status active);
               operational = (Healthy \<in> statuses \<or> DegradedHealth \<in> statuses)
           in if active = [] then DisabledHealth
              else if FailedHealth \<in> statuses
              then (if operational then DegradedHealth else FailedHealth)
              else if UnknownHealth \<in> statuses
              then (if operational then DegradedHealth else UnknownHealth)
              else if DegradedHealth \<in> statuses then DegradedHealth
              else Healthy)"

definition active_required_sources :: "source_health list \<Rightarrow> source_health list" where
  "active_required_sources source_health =
     filter (\<lambda>h. sh_required_for_absence h \<and> sh_health_status h \<noteq> DisabledHealth) source_health"

definition has_conclusive_station_inventory :: "source_health list \<Rightarrow> bool \<Rightarrow> bool" where
  "has_conclusive_station_inventory source_health jurisdiction_verified =
     (let required = filter sh_required_for_absence source_health
      in jurisdiction_verified \<and> required \<noteq> []
         \<and> list_all
             (\<lambda>h. sh_health_status h \<noteq> DisabledHealth
                \<and> sh_health_status h = Healthy
                \<and> sh_reason_code h = Operational
                \<and> sh_inventory_complete h
                \<and> (case sh_station_count h of None \<Rightarrow> False | Some n \<Rightarrow> n > 0))
             required)"

definition runtime_missing_cause :: "source_health list \<Rightarrow> missing_cause option" where
  "runtime_missing_cause source_health =
     (let active = active_required_sources source_health;
          failed = filter (\<lambda>h. sh_health_status h = FailedHealth) active
      in if active = [] then None
         else if failed \<noteq> []
         then (if length failed = length active
                  \<and> list_all (\<lambda>h. sh_reason_code h = PipelineStalled) failed
               then Some UpdatePipelineStalled
               else if list_ex (\<lambda>h. sh_health_status h \<in> {Healthy, DegradedHealth}) active
               then Some SourceDegraded
               else Some SourceFailed)
         else if list_ex (\<lambda>h. sh_health_status h = DegradedHealth) active
         then Some SourceDegraded
         else if list_ex (\<lambda>h. sh_health_status h = UnknownHealth) active
         then Some HealthUnknown
         else None)"

definition missing_cause_of ::
  "coverage_row option \<Rightarrow> bool \<Rightarrow> source_health list \<Rightarrow> bool \<Rightarrow> bool \<Rightarrow> bool \<Rightarrow> bool
    \<Rightarrow> missing_cause" where
  "missing_cause_of nearest_usable_row has_rows source_health health_unavailable health_checked
     mapping_missing jurisdiction_verified =
     (if nearest_usable_row \<noteq> None then CauseNone
      else if has_rows
      then (case runtime_missing_cause source_health of
              Some cause \<Rightarrow> cause
            | None \<Rightarrow> CauseStaleObservation)
      else if health_unavailable then HealthUnknown
      else if source_health = []
      then (if mapping_missing then JurisdictionMappingMissing
            else if health_checked then SourceNotConfigured
            else HealthUnknown)
      else case runtime_missing_cause source_health of
             Some cause \<Rightarrow> cause
           | None \<Rightarrow>
               if \<not> jurisdiction_verified then JurisdictionUnverified
               else if has_conclusive_station_inventory source_health jurisdiction_verified
               then NoStationInRange
               else if list_ex (\<lambda>h. sh_health_status h = DisabledHealth) source_health
               then SourceNotConfigured
               else if list_ex (\<lambda>h. sh_health_status h = UnknownHealth) source_health
               then HealthUnknown
               else if active_required_sources source_health \<noteq> []
                       \<and> list_all (\<lambda>h. sh_health_status h = Healthy \<and> sh_reason_code h = Operational)
                           (active_required_sources source_health)
               then InventoryUnverified
               else HealthUnknown)"

definition normalized_freshness_state :: "string \<Rightarrow> freshness_state" where
  "normalized_freshness_state value =
     (if value = ''fresh'' then StateFresh
      else if value = ''degraded'' then StateDegraded
      else StateStale)"

definition in_range :: "coverage_row \<Rightarrow> bool" where
  "in_range row \<longleftrightarrow> cr_distance_to_query_m row \<le> of_int (last radius_buckets_m)"

definition cause_reason :: "signal_type \<Rightarrow> missing_cause \<Rightarrow> missing_reason" where
  "cause_reason t cause =
     (if cause = NoStationInRange then ReasonNoStation t
      else if cause = InventoryUnverified then ReasonInventoryUnverified t
      else if cause = JurisdictionUnverified then ReasonJurisdictionUnverified t
      else if cause = UpdatePipelineStalled then ReasonPipelineStalled t
      else if cause = SourceFailed then ReasonSourceFailed t
      else if cause = SourceDegraded then ReasonSourceDegraded t
      else if cause = SourceNotConfigured then ReasonNotConfigured t
      else ReasonHealthUnknown t)"

text \<open>The explanation of a gap; its last branch asserts that there is a usable row.\<close>

definition missing_reason_of ::
  "signal_type \<Rightarrow> coverage_row list \<Rightarrow> coverage_row list \<Rightarrow> coverage_row option
    \<Rightarrow> coverage_level \<Rightarrow> missing_cause \<Rightarrow> missing_reason option result" where
  "missing_reason_of t in_range_rows usable_rows nearest_usable_row level cause =
     (if in_range_rows = [] then Inr (Some (cause_reason t cause))
      else if usable_rows = [] \<and> t \<in> set required_signal_types then Inr (Some (ReasonOnlyStale t))
      else if level = NoLocalSensor \<and> t \<in> set required_signal_types
      then (case nearest_usable_row of
              None \<Rightarrow> Inl AssertionError
            | Some r \<Rightarrow> Inr (Some (ReasonOnlyRegional t (cr_distance_to_query_m r / 1000))))
      else Inr None)"

definition counts_by_radius :: "coverage_row list \<Rightarrow> (int \<times> nat) list" where
  "counts_by_radius in_range_rows =
     map (\<lambda>r. (r, count_if (\<lambda>row. cr_distance_to_query_m row \<le> of_int r) in_range_rows))
       radius_buckets_m"

text \<open>\<open>nearest_distance_m\<close> is declared nonnegative; the other counts are lengths.\<close>

definition checked_signal :: "coverage_signal \<Rightarrow> coverage_signal result" where
  "checked_signal s =
     (case cs_nearest_distance_m s of
        None \<Rightarrow> Inr s
      | Some d \<Rightarrow> if 0 \<le> d then Inr s else Inl ValueError)"

definition fresh_rows :: "coverage_row list \<Rightarrow> coverage_row list" where
  "fresh_rows rows = filter (\<lambda>row. cr_freshness_state row = ''fresh'') rows"

definition degraded_rows :: "coverage_row list \<Rightarrow> coverage_row list" where
  "degraded_rows rows = filter (\<lambda>row. cr_freshness_state row = ''degraded'') rows"

definition stale_rows :: "coverage_row list \<Rightarrow> coverage_row list" where
  "stale_rows rows = filter (\<lambda>row. cr_freshness_state row \<notin> {''fresh'', ''degraded''}) rows"

definition usable_rows :: "coverage_row list \<Rightarrow> coverage_row list" where
  "usable_rows rows = fresh_rows rows @ degraded_rows rows"

definition nearest_usable :: "coverage_row list \<Rightarrow> coverage_row option" where
  "nearest_usable rows = first_min_by cr_distance_to_query_m (usable_rows rows)"

text \<open>The model of a signal from its rows in range, and the whole of \<open>_evaluate_signal\<close>.\<close>

definition signal_model ::
  "signal_type \<Rightarrow> coverage_row list \<Rightarrow> source_health list \<Rightarrow> coverage_level \<Rightarrow> missing_cause
    \<Rightarrow> missing_reason option \<Rightarrow> coverage_signal" where
  "signal_model t rows source_health level cause reason =
     (let nearest_usable_row = nearest_usable rows;
          nearest_display_row =
            or_else nearest_usable_row (first_min_by cr_distance_to_query_m rows)
      in \<lparr> cs_signal_type = t,
           cs_label = signal_label t,
           cs_coverage_level = level,
           cs_availability_state = availability_state level nearest_usable_row cause,
           cs_nearest_distance_m = map_option cr_distance_to_query_m nearest_display_row,
           cs_nearest_source_id = map_option cr_source_id nearest_display_row,
           cs_nearest_observed_at = Option.bind nearest_display_row cr_observed_at,
           cs_nearest_observation_value = fst (observation_value t nearest_display_row),
           cs_nearest_observation_unit = snd (observation_value t nearest_display_row),
           cs_nearest_reference_value = Option.bind nearest_display_row cr_warning_level_m,
           cs_nearest_reference_unit =
             (case Option.bind nearest_display_row cr_warning_level_m of
                None \<Rightarrow> None | Some _ \<Rightarrow> Some UnitM),
           cs_counts_by_radius_m = counts_by_radius rows,
           cs_fresh_count = length (fresh_rows rows),
           cs_degraded_count = length (degraded_rows rows),
           cs_stale_count = length (stale_rows rows),
           cs_status_only_count = (if t = StatusOnly then length rows else 0),
           cs_nearest_freshness_state =
             map_option (\<lambda>r. normalized_freshness_state (cr_freshness_state r))
               nearest_display_row,
           cs_source_health_status = aggregate_source_health source_health,
           cs_source_count = length source_health,
           cs_failed_source_count =
             count_if (\<lambda>h. sh_health_status h = FailedHealth) source_health,
           cs_missing_cause = cause,
           cs_missing_reason = reason \<rparr>)"

definition evaluate_signal ::
  "signal_type \<Rightarrow> coverage_row list \<Rightarrow> source_health list \<Rightarrow> bool \<Rightarrow> bool \<Rightarrow> bool \<Rightarrow> bool
    \<Rightarrow> signal_evaluation result" where
  "evaluate_signal t rows source_health health_unavailable health_checked mapping_missing
     jurisdiction_verified =
     (let in_range_rows = filter in_range rows;
          nearest_usable_row = nearest_usable in_range_rows;
          level = coverage_level_of t nearest_usable_row;
          cause = missing_cause_of nearest_usable_row (in_range_rows \<noteq> []) source_health
                    health_unavailable health_checked mapping_missing jurisdiction_verified
      in rbind (missing_reason_of t in_range_rows (usable_rows in_range_rows) nearest_usable_row
                  level cause)
           (\<lambda>reason. rbind (checked_signal
                              (signal_model t in_range_rows source_health level cause reason))
             (\<lambda>model. Inr \<lparr> ev_signal_type = t, ev_model = model,
                             ev_has_rows = (in_range_rows \<noteq> []) \<rparr>)))"

section \<open>All signals\<close>

text \<open>\<open>_group_rows(rows).get(t)\<close> and \<open>_group_source_health(health).get(t)\<close>.\<close>

definition group_rows :: "coverage_row list \<Rightarrow> signal_type \<Rightarrow> coverage_row list" where
  "group_rows rows t =
     filter (\<lambda>row. in_range row
               \<and> coverage_signal_type (cr_event_type row) (cr_adapter_key row) = t) rows"

definition group_source_health :: "source_health list \<Rightarrow> signal_type \<Rightarrow> source_health list" where
  "group_source_health source_health t =
     concat (map (\<lambda>h. map (\<lambda>_. h) (filter (\<lambda>u. u = t) (sh_signal_types h))) source_health)"

definition hydrologic_signal_types :: "signal_type list" where
  "hydrologic_signal_types = [WaterLevel, FloodDepth, SewerWaterLevel]"

definition level_of :: "signal_evaluation \<Rightarrow> coverage_level" where
  "level_of e = cs_coverage_level (ev_model e)"

fun hydrologic_rank :: "nat \<Rightarrow> signal_evaluation list \<Rightarrow> nat result" where
  "hydrologic_rank rank [] = Inr rank"
| "hydrologic_rank rank (e # es) =
     (if ev_signal_type e \<in> set hydrologic_signal_types
      then rbind (rank_by_level (level_of e)) (\<lambda>r. hydrologic_rank (max rank r) es)
      else hydrologic_rank rank es)"

definition overall_level_of :: "signal_evaluation list \<Rightarrow> coverage_level result" where
  "overall_level_of evaluations =
     rbind (hydrologic_rank 0 evaluations)
       (\<lambda>rank. if rank \<noteq> 0 then level_by_rank rank
               else if list_ex (\<lambda>e. ev_signal_type e = Rainfall \<and> level_of e \<noteq> NoLocalSensor)
                         evaluations
               then Inr CoverageLow
               else Inr NoLocalSensor)"

definition has_fresh_coverage :: "signal_evaluation \<Rightarrow> bool" where
  "has_fresh_coverage e \<longleftrightarrow> level_of e \<noteq> NoLocalSensor"

definition has_only_rainfall_or_warning :: "signal_evaluation list \<Rightarrow> bool" where
  "has_only_rainfall_or_warning evaluations =
     (let relevant = filter
            (\<lambda>t. t \<in> {Rainfall, FloodWarning, WaterLevel, FloodDepth, SewerWaterLevel})
            (map ev_signal_type (filter has_fresh_coverage evaluations))
      in relevant \<noteq> [] \<and> list_all (\<lambda>t. t \<in> {Rainfall, FloodWarning}) relevant)"

definition has_local_usable_status_rows :: "signal_evaluation list \<Rightarrow> bool" where
  "has_local_usable_status_rows evaluations =
     list_ex (\<lambda>e. ev_signal_type e = StatusOnly \<and> level_of e \<noteq> NoLocalSensor
                \<and> cs_fresh_count (ev_model e) + cs_degraded_count (ev_model e) > 0) evaluations"

text \<open>The remaining \<open>_has_*\<close> predicates ask for a required signal with some property.\<close>

definition some_required :: "(coverage_signal \<Rightarrow> bool) \<Rightarrow> signal_evaluation list \<Rightarrow> bool" where
  "some_required p evaluations =
     list_ex (\<lambda>e. ev_signal_type e \<in> set required_signal_types \<and> p (ev_model e)) evaluations"

definition has_regional_reference :: "signal_evaluation list \<Rightarrow> bool" where
  "has_regional_reference =
     some_required (\<lambda>s. cs_coverage_level s = NoLocalSensor
                      \<and> cs_fresh_count s + cs_degraded_count s > 0)"

definition has_stale_measurements :: "signal_evaluation list \<Rightarrow> bool" where
  "has_stale_measurements = some_required (\<lambda>s. cs_stale_count s > 0)"

definition has_source_fault :: "signal_evaluation list \<Rightarrow> bool" where
  "has_source_fault =
     some_required (\<lambda>s. cs_missing_cause s \<in> {SourceFailed, UpdatePipelineStalled})"

definition has_source_degraded :: "signal_evaluation list \<Rightarrow> bool" where
  "has_source_degraded = some_required (\<lambda>s. cs_missing_cause s = SourceDegraded)"

definition has_source_not_configured :: "signal_evaluation list \<Rightarrow> bool" where
  "has_source_not_configured = some_required (\<lambda>s. cs_missing_cause s = SourceNotConfigured)"

definition has_source_status_unknown :: "signal_evaluation list \<Rightarrow> bool" where
  "has_source_status_unknown =
     some_required (\<lambda>s. cs_availability_state s = SourceStatusUnknown)"

definition has_jurisdiction_unverified :: "signal_evaluation list \<Rightarrow> bool" where
  "has_jurisdiction_unverified = some_required (\<lambda>s. cs_missing_cause s = JurisdictionUnverified)"

definition has_inventory_unverified :: "signal_evaluation list \<Rightarrow> bool" where
  "has_inventory_unverified = some_required (\<lambda>s. cs_missing_cause s = InventoryUnverified)"

definition build_summary :: "signal_evaluation list \<Rightarrow> coverage_level \<Rightarrow> coverage_summary" where
  "build_summary evaluations overall_level =
     (if overall_level = CoverageUnavailable then SummaryDatabaseUnavailable
      else if overall_level = CoverageLow \<and> has_only_rainfall_or_warning evaluations
      then SummaryBackgroundOnly
      else if overall_level = NoLocalSensor
      then (if has_source_fault evaluations then SummarySourceFault
            else if has_source_degraded evaluations then SummarySourceDegraded
            else if has_jurisdiction_unverified evaluations then SummaryJurisdictionUnverified
            else if has_inventory_unverified evaluations then SummaryInventoryUnverified
            else if has_regional_reference evaluations then SummaryRegionalReference
            else if has_stale_measurements evaluations then SummaryStaleObservations
            else if has_local_usable_status_rows evaluations then SummaryStatusCluesOnly
            else if has_source_status_unknown evaluations then SummarySourceStatusUnknown
            else if has_source_not_configured evaluations then SummarySourceNotConfigured
            else SummaryNoSensorData)
      else SummaryBestLevel overall_level
             (map ev_signal_type (filter has_fresh_coverage evaluations)))"

definition gap_limitation :: "signal_evaluation list \<Rightarrow> coverage_limitation" where
  "gap_limitation evaluations =
     (if has_source_fault evaluations then LimitSourceFault
      else if has_source_degraded evaluations then LimitSourceDegraded
      else if has_inventory_unverified evaluations then LimitInventoryUnverified
      else if has_jurisdiction_unverified evaluations then LimitJurisdictionUnverified
      else if has_source_status_unknown evaluations then LimitSourceStatusUnknown
      else if has_regional_reference evaluations then LimitRegionalReference
      else if has_stale_measurements evaluations then LimitStaleObservations
      else if has_local_usable_status_rows evaluations then LimitNoUsableMeasurement
      else if has_source_not_configured evaluations then LimitSourceNotConfigured
      else LimitNoSensorData)"

definition limitations_of :: "signal_evaluation list \<Rightarrow> coverage_level \<Rightarrow> coverage_limitation list" where
  "limitations_of evaluations overall_level =
     [LimitCountyLevelNote]
     @ (if has_local_usable_status_rows evaluations then [LimitStatusCluesOnly] else [])
     @ (if overall_level = CoverageLow \<and> has_only_rainfall_or_warning evaluations
        then [LimitRainfallOrWarningOnly]
        else if overall_level = NoLocalSensor then [gap_limitation evaluations]
        else [])"

text \<open>The keyword arguments of \<open>build_nearby_realtime_coverage\<close>.\<close>

record coverage_request =
  rq_rows :: "coverage_row list"
  rq_query_radius_m :: int
  rq_evaluated_at :: py_datetime
  rq_repository_unavailable :: bool
  rq_source_health :: "source_health list"
  rq_source_health_unavailable :: bool
  rq_source_health_checked :: bool
  rq_jurisdiction_status :: jurisdiction_status
  rq_jurisdiction_checked :: bool
  rq_jurisdiction_mapping_missing :: bool
  rq_complete_signal_types :: "signal_type list"
  rq_home_jurisdiction :: "utext option"
  rq_considered_jurisdictions :: "utext list"
  rq_mapping_revisions :: "string list"

definition health_limitations :: "coverage_limitation \<Rightarrow> coverage_request \<Rightarrow> coverage_limitation list" where
  "health_limitations unavailable_text rq =
     (if rq_source_health_unavailable rq then [unavailable_text]
      else if rq_source_health_checked rq \<and> rq_source_health rq = [] then [LimitNoHealthRecords]
      else [])"

definition unverified_signal_types :: "coverage_request \<Rightarrow> signal_type list" where
  "unverified_signal_types rq =
     filter (\<lambda>t. t \<notin> set (rq_complete_signal_types rq)) required_signal_types"

text \<open>
  The response: \<open>query_radius_m\<close> is declared between 50 and 2000, and constructing the response
  outside that range is a \<open>ValidationError\<close>. Both constructions of the code agree on the fields that
  only copy the arguments.
\<close>

definition coverage_response ::
  "coverage_request \<Rightarrow> coverage_level \<Rightarrow> coverage_summary \<Rightarrow> coverage_signal list
    \<Rightarrow> signal_type list \<Rightarrow> coverage_limitation list \<Rightarrow> nearby_coverage result" where
  "coverage_response rq level summary breakdown missing limitations =
     (if 50 \<le> rq_query_radius_m rq \<and> rq_query_radius_m rq \<le> 2000
      then Inr
        \<lparr> nc_overall_level = level,
          nc_evaluated_at = rq_evaluated_at rq,
          nc_query_radius_m = rq_query_radius_m rq,
          nc_radius_buckets_m = radius_buckets_m,
          nc_summary = summary,
          nc_signal_breakdown = breakdown,
          nc_missing_signal_types = missing,
          nc_limitations = limitations,
          nc_source_health = rq_source_health rq,
          nc_source_health_status = aggregate_source_health (rq_source_health rq),
          nc_source_health_checked = rq_source_health_checked rq,
          nc_jurisdiction_status = rq_jurisdiction_status rq,
          nc_jurisdiction_checked = rq_jurisdiction_checked rq,
          nc_jurisdiction_catalog_complete = (unverified_signal_types rq = []),
          nc_home_jurisdiction = rq_home_jurisdiction rq,
          nc_considered_jurisdictions = rq_considered_jurisdictions rq,
          nc_jurisdiction_mapping_revisions = rq_mapping_revisions rq,
          nc_jurisdiction_unverified_signal_types = unverified_signal_types rq,
          nc_county_level_note = LimitCountyLevelNote \<rparr>
      else Inl ValueError)"

definition evaluate_request :: "coverage_request \<Rightarrow> signal_type \<Rightarrow> signal_evaluation result" where
  "evaluate_request rq t =
     evaluate_signal t (group_rows (rq_rows rq) t) (group_source_health (rq_source_health rq) t)
       (rq_source_health_unavailable rq) (rq_source_health_checked rq)
       (rq_jurisdiction_mapping_missing rq)
       (rq_jurisdiction_checked rq \<and> t \<in> set (rq_complete_signal_types rq))"

definition build_nearby_realtime_coverage :: "coverage_request \<Rightarrow> nearby_coverage result" where
  "build_nearby_realtime_coverage rq =
     (if rq_repository_unavailable rq
      then coverage_response rq CoverageUnavailable SummaryDatabaseUnavailable []
             required_signal_types
             ([LimitSummary SummaryDatabaseUnavailable, LimitCountyLevelNote]
              @ health_limitations LimitHealthAlsoUnavailable rq)
      else rbind (rtraverse (evaluate_request rq) all_signal_types)
        (\<lambda>evaluations. rbind (overall_level_of evaluations)
          (\<lambda>overall. coverage_response rq overall
             (build_summary evaluations overall)
             (map ev_model evaluations)
             (map ev_signal_type
                (filter (\<lambda>e. ev_signal_type e \<in> set required_signal_types
                            \<and> level_of e = NoLocalSensor) evaluations))
             (limitations_of evaluations overall
              @ health_limitations LimitHealthUnavailable rq))))"

section \<open>The distance ladder\<close>

text \<open>The ladder is antitone: a nearer station is never worth less.\<close>

lemma distance_level_antitone: "x \<le> y \<Longrightarrow> distance_level t y \<le> distance_level t x"
  by (auto simp: distance_level_def coverage_order_simps split: prod.splits)

interpretation distance_ladder: antitone_grading "distance_level t" for t
  by unfold_locales (rule distance_level_antitone)

lemma distance_level_local:
  "distance_level t d \<noteq> NoLocalSensor \<longleftrightarrow> d \<le> of_int local_coverage_radius_m"
  by (cases t) (auto simp: distance_level_def local_coverage_radius_m_def)

lemma distance_level_ranked: "distance_level t d \<noteq> CoverageUnavailable"
  by (simp add: distance_level_def split: prod.splits)

lemma coverage_level_of_ranked [simp]: "coverage_level_of t r \<noteq> CoverageUnavailable"
  by (simp add: coverage_level_of_def distance_level_ranked split: option.splits)

section \<open>Reading a response\<close>

lemma mem_group_rows:
  "row \<in> set (group_rows rows t) \<longleftrightarrow>
     row \<in> set rows \<and> in_range row
     \<and> coverage_signal_type (cr_event_type row) (cr_adapter_key row) = t"
  by (auto simp: group_rows_def)

lemma filter_in_range_group_rows [simp]: "filter in_range (group_rows rows t) = group_rows rows t"
  unfolding group_rows_def by (rule filter_id_conv [THEN iffD2]) simp

lemma set_usable_rows:
  "set (usable_rows rows)
     = {row \<in> set rows. cr_freshness_state row \<in> {''fresh'', ''degraded''}}"
  by (auto simp: usable_rows_def fresh_rows_def degraded_rows_def)

lemma nearest_usable_None: "nearest_usable rows = None \<longleftrightarrow> usable_rows rows = []"
  by (simp add: nearest_usable_def)

definition signal_rows :: "coverage_request \<Rightarrow> signal_type \<Rightarrow> coverage_row list" where
  "signal_rows rq t = group_rows (rq_rows rq) t"

definition signal_level :: "coverage_request \<Rightarrow> signal_type \<Rightarrow> coverage_level" where
  "signal_level rq t = coverage_level_of t (nearest_usable (signal_rows rq t))"

definition signal_cause :: "coverage_request \<Rightarrow> signal_type \<Rightarrow> missing_cause" where
  "signal_cause rq t =
     missing_cause_of (nearest_usable (signal_rows rq t)) (signal_rows rq t \<noteq> [])
       (group_source_health (rq_source_health rq) t) (rq_source_health_unavailable rq)
       (rq_source_health_checked rq) (rq_jurisdiction_mapping_missing rq)
       (rq_jurisdiction_checked rq \<and> t \<in> set (rq_complete_signal_types rq))"

lemma missing_reason_total:
  "\<exists>reason. missing_reason_of t rows (usable_rows rows) (nearest_usable rows) level cause = Inr reason"
  using nearest_usable_None [of rows]
  by (auto simp: missing_reason_of_def split: option.splits)

lemma evaluate_request_iff:
  "evaluate_request rq t = Inr e \<longleftrightarrow>
     (\<exists>reason. missing_reason_of t (signal_rows rq t) (usable_rows (signal_rows rq t))
          (nearest_usable (signal_rows rq t)) (signal_level rq t) (signal_cause rq t) = Inr reason
        \<and> checked_signal (signal_model t (signal_rows rq t)
              (group_source_health (rq_source_health rq) t) (signal_level rq t)
              (signal_cause rq t) reason) = Inr (ev_model e)
        \<and> ev_signal_type e = t \<and> ev_has_rows e = (signal_rows rq t \<noteq> []))"
  by (cases e)
    (auto simp: evaluate_request_def evaluate_signal_def Let_def rbind_Inr_iff signal_rows_def
      signal_level_def signal_cause_def)

lemma checked_signal_Inr: "checked_signal s = Inr s' \<Longrightarrow> s' = s"
  by (auto simp: checked_signal_def split: option.splits if_splits)

lemma evaluate_request_model:
  assumes "evaluate_request rq t = Inr e"
  obtains reason where
    "missing_reason_of t (signal_rows rq t) (usable_rows (signal_rows rq t))
       (nearest_usable (signal_rows rq t)) (signal_level rq t) (signal_cause rq t) = Inr reason"
    and "ev_model e = signal_model t (signal_rows rq t)
           (group_source_health (rq_source_health rq) t) (signal_level rq t) (signal_cause rq t)
           reason"
    and "ev_signal_type e = t"
  using assms checked_signal_Inr by (fastforce simp: evaluate_request_iff)

lemma signal_model_simps [simp]:
  "cs_signal_type (signal_model t rows hs level cause reason) = t"
  "cs_coverage_level (signal_model t rows hs level cause reason) = level"
  "cs_missing_cause (signal_model t rows hs level cause reason) = cause"
  "cs_missing_reason (signal_model t rows hs level cause reason) = reason"
  "cs_fresh_count (signal_model t rows hs level cause reason) = length (fresh_rows rows)"
  "cs_degraded_count (signal_model t rows hs level cause reason) = length (degraded_rows rows)"
  "cs_stale_count (signal_model t rows hs level cause reason) = length (stale_rows rows)"
  "cs_counts_by_radius_m (signal_model t rows hs level cause reason) = counts_by_radius rows"
  "cs_availability_state (signal_model t rows hs level cause reason)
     = availability_state level (nearest_usable rows) cause"
  by (simp_all add: signal_model_def Let_def)

lemma level_of_evaluation: "evaluate_request rq t = Inr e \<Longrightarrow> level_of e = signal_level rq t"
  by (auto simp: level_of_def elim: evaluate_request_model)

lemma type_of_evaluation: "evaluate_request rq t = Inr e \<Longrightarrow> ev_signal_type e = t"
  by (auto elim: evaluate_request_model)

lemma coverage_response_Inr:
  "coverage_response rq level summary breakdown missing limitations = Inr c \<Longrightarrow>
     nc_overall_level c = level \<and> nc_signal_breakdown c = breakdown
     \<and> nc_missing_signal_types c = missing \<and> nc_limitations c = limitations
     \<and> nc_summary c = summary"
  by (auto simp: coverage_response_def split: if_splits)

lemma evaluations_map:
  "list_all2 (\<lambda>t e. evaluate_request rq t = Inr e) ts es \<Longrightarrow>
     map ev_signal_type es = ts \<and> map level_of es = map (signal_level rq) ts"
  by (induction rule: list_all2_induct) (auto simp: type_of_evaluation level_of_evaluation)

lemma build_evaluations:
  assumes "build_nearby_realtime_coverage rq = Inr c" and "\<not> rq_repository_unavailable rq"
  obtains es where "list_all2 (\<lambda>t e. evaluate_request rq t = Inr e) all_signal_types es"
    and "nc_signal_breakdown c = map ev_model es"
    and "overall_level_of es = Inr (nc_overall_level c)"
    and "nc_missing_signal_types c = map ev_signal_type
           (filter (\<lambda>e. ev_signal_type e \<in> set required_signal_types
              \<and> level_of e = NoLocalSensor) es)"
  using assms
  by (auto simp: build_nearby_realtime_coverage_def rbind_Inr_iff rtraverse_Inr_iff
      dest!: coverage_response_Inr)

lemma breakdown_mem:
  assumes "build_nearby_realtime_coverage rq = Inr c" and "s \<in> set (nc_signal_breakdown c)"
  obtains reason where "\<not> rq_repository_unavailable rq"
    and "missing_reason_of (cs_signal_type s) (signal_rows rq (cs_signal_type s))
       (usable_rows (signal_rows rq (cs_signal_type s)))
       (nearest_usable (signal_rows rq (cs_signal_type s))) (signal_level rq (cs_signal_type s))
       (signal_cause rq (cs_signal_type s)) = Inr reason"
    and "s = signal_model (cs_signal_type s) (signal_rows rq (cs_signal_type s))
           (group_source_health (rq_source_health rq) (cs_signal_type s))
           (signal_level rq (cs_signal_type s)) (signal_cause rq (cs_signal_type s)) reason"
proof -
  have avail: "\<not> rq_repository_unavailable rq"
    using assms by (auto simp: build_nearby_realtime_coverage_def dest!: coverage_response_Inr)
  obtain es where es: "list_all2 (\<lambda>t e. evaluate_request rq t = Inr e) all_signal_types es"
    "nc_signal_breakdown c = map ev_model es"
    by (rule build_evaluations [OF assms(1) avail])
  from assms(2) es(2) obtain e where "e \<in> set es" and s: "s = ev_model e" by auto
  from list_all2_mem2 [OF es(1) this(1)] obtain t where e: "evaluate_request rq t = Inr e" by blast
  from e obtain reason where r:
    "missing_reason_of t (signal_rows rq t) (usable_rows (signal_rows rq t))
       (nearest_usable (signal_rows rq t)) (signal_level rq t) (signal_cause rq t) = Inr reason"
    "s = signal_model t (signal_rows rq t) (group_source_health (rq_source_health rq) t)
       (signal_level rq t) (signal_cause rq t) reason"
    by (rule evaluate_request_model) (use s in auto)
  then have "cs_signal_type s = t" by simp
  with r avail show thesis by (intro that) simp_all
qed

section \<open>Properties of the coverage\<close>

text \<open>A request in the middle of a well covered town, for the examples.\<close>

definition sample_coverage_row :: "string \<Rightarrow> string \<Rightarrow> rat \<Rightarrow> coverage_row" where
  "sample_coverage_row key state distance =
     \<lparr> cr_adapter_key = key, cr_source_id = ''s1'', cr_event_type = ''observation'',
       cr_station_id = None, cr_observed_at = Some (sample_instant 590),
       cr_ingested_at = sample_instant 595, cr_distance_to_query_m = distance,
       cr_freshness_state = state, cr_rainfall_mm_1h = Some 5, cr_water_level_m = Some 2,
       cr_warning_level_m = Some 3, cr_flood_depth_cm = None \<rparr>"

definition sample_source_health :: "signal_type \<Rightarrow> source_health" where
  "sample_source_health t =
     (source_health_model sample_row t (source_decision Healthy Operational MsgRecentObservation)
        Map.empty None)"

definition sample_request :: coverage_request where
  "sample_request =
     \<lparr> rq_rows = [sample_coverage_row ''official.wra.water_level'' ''stale'' 100,
                  sample_coverage_row ''official.wra.water_level'' ''degraded'' 800,
                  sample_coverage_row ''official.wra.water_level'' ''fresh'' 4000,
                  sample_coverage_row ''official.cwa.rainfall'' ''fresh'' 9000],
       rq_query_radius_m = 500, rq_evaluated_at = sample_now,
       rq_repository_unavailable = False,
       rq_source_health = [sample_source_health FloodDepth],
       rq_source_health_unavailable = False, rq_source_health_checked = True,
       rq_jurisdiction_status = JurisdictionVerified, rq_jurisdiction_checked = True,
       rq_jurisdiction_mapping_missing = False,
       rq_complete_signal_types = [Rainfall, WaterLevel, FloodDepth],
       rq_home_jurisdiction = None, rq_considered_jurisdictions = [],
       rq_mapping_revisions = [] \<rparr>"

lemma sample_types [simp]:
  "coverage_signal_type ''observation'' ''official.cwa.rainfall'' = Rainfall"
  "coverage_signal_type ''observation'' ''official.wra.water_level'' = WaterLevel"
  by (code_simp, code_simp)

lemma sample_coverage_row_simps [simp]:
  "in_range (sample_coverage_row k st d) \<longleftrightarrow> d \<le> 15000"
  "cr_event_type (sample_coverage_row k st d) = ''observation''"
  "cr_adapter_key (sample_coverage_row k st d) = k"
  "cr_freshness_state (sample_coverage_row k st d) = st"
  "cr_distance_to_query_m (sample_coverage_row k st d) = d"
  by (simp_all add: in_range_def radius_buckets_m_def sample_coverage_row_def)

lemma sample_source_health_simps [simp]:
  "sh_health_status (sample_source_health t) = Healthy"
  "sh_reason_code (sample_source_health t) = Operational"
  "sh_required_for_absence (sample_source_health t)"
  "sh_inventory_complete (sample_source_health t)"
  "sh_station_count (sample_source_health t) = Some 10"
  "sh_signal_types (sample_source_health t) = [t]"
  by (simp_all add: sample_source_health_def source_health_model_def sample_row_def)

lemma evaluate_request_total:
  assumes "\<forall>row\<in>set (rq_rows rq). 0 \<le> cr_distance_to_query_m row"
  shows "\<exists>e. evaluate_request rq t = Inr e"
proof -
  let ?rows = "signal_rows rq t"
  obtain reason where reason: "missing_reason_of t ?rows (usable_rows ?rows)
      (nearest_usable ?rows) (signal_level rq t) (signal_cause rq t) = Inr reason"
    using missing_reason_total by blast
  let ?s = "signal_model t ?rows (group_source_health (rq_source_health rq) t)
      (signal_level rq t) (signal_cause rq t) reason"
  have pos: "0 \<le> cr_distance_to_query_m r" if "r \<in> set ?rows" for r
    using that assms by (auto simp: signal_rows_def mem_group_rows)
  have "0 \<le> d" if "cs_nearest_distance_m ?s = Some d" for d
  proof -
    from that obtain r where r:
      "or_else (nearest_usable ?rows) (first_min_by cr_distance_to_query_m ?rows) = Some r"
      "d = cr_distance_to_query_m r"
      by (auto simp: signal_model_def Let_def)
    then have "r \<in> set ?rows"
      using set_usable_rows [of ?rows]
      by (cases "nearest_usable ?rows")
        (auto simp: nearest_usable_def dest!: first_min_by_mem)
    with r pos show ?thesis by simp
  qed
  then have "checked_signal ?s = Inr ?s" by (simp add: checked_signal_def split: option.splits)
  with reason show ?thesis
    by (intro exI [of _ "\<lparr> ev_signal_type = t, ev_model = ?s, ev_has_rows = (?rows \<noteq> []) \<rparr>"])
      (auto simp: evaluate_request_iff)
qed

lemma hydrologic_rank_total:
  "(\<And>e. e \<in> set es \<Longrightarrow> level_of e \<noteq> CoverageUnavailable) \<Longrightarrow> r \<le> 3 \<Longrightarrow>
     \<exists>r'. hydrologic_rank r es = Inr r' \<and> r' \<le> 3"
proof (induction es arbitrary: r)
  case (Cons e es)
  then have e: "level_of e \<noteq> CoverageUnavailable" by simp
  then obtain k where "rank_by_level (level_of e) = Inr k" "k \<le> 3" by (cases "level_of e") auto
  with Cons.IH [of "max r k"] Cons.IH [of r] Cons.prems show ?case by auto
qed simp

lemma level_by_rank_total: "r \<le> 3 \<Longrightarrow> \<exists>l. level_by_rank r = Inr l"
  by (auto simp: level_by_rank_def)

lemma evaluations_ranked:
  assumes "list_all2 (\<lambda>t e. evaluate_request rq t = Inr e) ts es" and "e \<in> set es"
  shows "level_of e \<noteq> CoverageUnavailable"
  using list_all2_mem2 [OF assms] by (auto simp: level_of_evaluation signal_level_def)

lemma overall_level_total:
  assumes "list_all2 (\<lambda>t e. evaluate_request rq t = Inr e) ts es"
  shows "\<exists>l. overall_level_of es = Inr l"
proof -
  obtain r where "hydrologic_rank 0 es = Inr r" "r \<le> 3"
    using hydrologic_rank_total [of es 0] evaluations_ranked [OF assms] by auto
  then show ?thesis
    using level_by_rank_total [of r] by (auto simp: overall_level_of_def)
qed

lemma evaluations_total:
  assumes "\<forall>row\<in>set (rq_rows rq). 0 \<le> cr_distance_to_query_m row"
  shows "\<exists>es l. rtraverse (evaluate_request rq) all_signal_types = Inr es
    \<and> overall_level_of es = Inr l"
proof -
  obtain es where es: "rtraverse (evaluate_request rq) all_signal_types = Inr es"
    using rtraverse_total [of all_signal_types "evaluate_request rq"]
      evaluate_request_total [OF assms] by blast
  then show ?thesis using overall_level_total by (auto simp: rtraverse_Inr_iff)
qed

text \<open>
  The coverage never fails on its own account: for rows with nonnegative distances, the builder
  raises neither the assertion of its last explanation nor a failed lookup of its rank tables, and
  answers exactly when the query radius is in the range the response schema admits.
\<close>

theorem coverage_answers_iff_radius_admitted:
  assumes "\<forall>row\<in>set (rq_rows rq). 0 \<le> cr_distance_to_query_m row"
  shows "(\<exists>c. build_nearby_realtime_coverage rq = Inr c) \<longleftrightarrow>
    50 \<le> rq_query_radius_m rq \<and> rq_query_radius_m rq \<le> 2000"
  using evaluations_total [OF assms]
  by (auto simp: build_nearby_realtime_coverage_def coverage_response_def)

lemma sample_request_distances: "\<forall>row\<in>set (rq_rows sample_request). 0 \<le> cr_distance_to_query_m row"
  by (simp add: sample_request_def)

lemma coverage_answers_iff_radius_admitted_witness:
  "(\<exists>c. build_nearby_realtime_coverage sample_request = Inr c)
     \<and> \<not> (\<exists>c. build_nearby_realtime_coverage (sample_request\<lparr>rq_query_radius_m := 49\<rparr>) = Inr c)"
proof -
  have "\<forall>row\<in>set (rq_rows (sample_request\<lparr>rq_query_radius_m := 49\<rparr>)). 0 \<le> cr_distance_to_query_m row"
    using sample_request_distances by (simp add: sample_request_def)
  from coverage_answers_iff_radius_admitted [OF this]
    coverage_answers_iff_radius_admitted [OF sample_request_distances]
  show ?thesis by (simp add: sample_request_def)
qed

text \<open>A response to the sample request, for the other examples.\<close>

lemma sample_response:
  obtains c where "build_nearby_realtime_coverage sample_request = Inr c"
proof -
  obtain es l where "rtraverse (evaluate_request sample_request) all_signal_types = Inr es"
    "overall_level_of es = Inr l"
    using evaluations_total [OF sample_request_distances] by blast
  then show thesis
    by (intro that) (auto simp: build_nearby_realtime_coverage_def coverage_response_def
        sample_request_def)
qed

lemma breakdown_types:
  assumes "build_nearby_realtime_coverage rq = Inr c" and "\<not> rq_repository_unavailable rq"
  shows "map cs_signal_type (nc_signal_breakdown c) = all_signal_types"
proof -
  obtain es where es: "list_all2 (\<lambda>t e. evaluate_request rq t = Inr e) all_signal_types es"
    "nc_signal_breakdown c = map ev_model es"
    by (rule build_evaluations [OF assms])
  have "cs_signal_type (ev_model e) = ev_signal_type e" if "e \<in> set es" for e
    using list_all2_mem2 [OF es(1) that] by (auto elim!: evaluate_request_model)
  then have "map cs_signal_type (nc_signal_breakdown c) = map ev_signal_type es"
    using es(2) by simp
  then show ?thesis using evaluations_map [OF es(1)] by simp
qed

lemma sample_breakdown:
  obtains c s where "build_nearby_realtime_coverage sample_request = Inr c"
    and "s \<in> set (nc_signal_breakdown c)" and "cs_signal_type s = t"
proof -
  obtain c where c: "build_nearby_realtime_coverage sample_request = Inr c" by (rule sample_response)
  have "map cs_signal_type (nc_signal_breakdown c) = all_signal_types"
    by (rule breakdown_types [OF c]) (simp add: sample_request_def)
  then have "t \<in> set (map cs_signal_type (nc_signal_breakdown c))" by simp
  with c that show thesis by auto
qed

text \<open>
  The level published for a signal is the best that any fresh or degraded row of that signal
  within range earns by its distance; stale rows count for nothing, however near they are, and
  without usable rows there is no local sensor.
\<close>

theorem signal_level_is_best_usable:
  assumes "build_nearby_realtime_coverage rq = Inr c" and "s \<in> set (nc_signal_breakdown c)"
  shows "cs_coverage_level s
    = Max (insert NoLocalSensor
        ((\<lambda>row. distance_level (cs_signal_type s) (cr_distance_to_query_m row))
           ` {row \<in> set (signal_rows rq (cs_signal_type s)).
                cr_freshness_state row \<in> {''fresh'', ''degraded''}}))"
proof -
  let ?t = "cs_signal_type s"
  let ?rows = "signal_rows rq ?t"
  let ?level = "\<lambda>row. distance_level ?t (cr_distance_to_query_m row)"
  have s: "cs_coverage_level s = coverage_level_of ?t (nearest_usable ?rows)"
    by (rule breakdown_mem [OF assms]) (metis signal_level_def signal_model_simps(2))
  show ?thesis
  proof (cases "nearest_usable ?rows")
    case None
    then have "usable_rows ?rows = []" by (simp add: nearest_usable_None)
    with s None show ?thesis
      unfolding set_usable_rows [symmetric] by (simp add: coverage_level_of_def)
  next
    case (Some m)
    then have "?level m = Max (?level ` set (usable_rows ?rows))"
      unfolding nearest_usable_def by (rule distance_ladder.grade_nearest)
    moreover have "?level ` set (usable_rows ?rows) \<noteq> {}"
      using Some first_min_by_mem by (fastforce simp: nearest_usable_def)
    moreover have "NoLocalSensor \<le> ?level m"
      by (auto simp: less_eq_coverage_level_def distance_level_def split: prod.splits)
    ultimately show ?thesis
      using s Some unfolding set_usable_rows [symmetric] by (simp add: coverage_level_of_def)
  qed
qed

lemma signal_level_is_best_usable_witness:
  "\<exists>c s. build_nearby_realtime_coverage sample_request = Inr c \<and> s \<in> set (nc_signal_breakdown c)
     \<and> cs_coverage_level s
         = Max (insert NoLocalSensor
             ((\<lambda>row. distance_level WaterLevel (cr_distance_to_query_m row))
                ` {row \<in> set (signal_rows sample_request WaterLevel).
                     cr_freshness_state row \<in> {''fresh'', ''degraded''}}))"
proof -
  obtain c s where "build_nearby_realtime_coverage sample_request = Inr c"
    "s \<in> set (nc_signal_breakdown c)" "cs_signal_type s = WaterLevel"
    by (rule sample_breakdown)
  with signal_level_is_best_usable [OF this(1,2)] show ?thesis by auto
qed

lemma group_source_health_mem:
  "h \<in> set (group_source_health hs t) \<longleftrightarrow> h \<in> set hs \<and> t \<in> set (sh_signal_types h)"
  by (auto simp: group_source_health_def)

lemma missing_cause_no_station:
  assumes "missing_cause_of nearest has_rows hs unavailable checked missing verified = NoStationInRange"
  shows "nearest = None \<and> \<not> has_rows \<and> \<not> unavailable \<and> verified
    \<and> has_conclusive_station_inventory hs True"
proof -
  have runtime: "runtime_missing_cause hs \<noteq> Some NoStationInRange"
    by (simp add: runtime_missing_cause_def Let_def)
  have "nearest = None" using assms by (auto simp: missing_cause_of_def split: if_splits)
  moreover have "\<not> has_rows"
    using assms runtime by (auto simp: missing_cause_of_def split: if_splits option.splits)
  moreover have "\<not> unavailable"
    using assms calculation by (auto simp: missing_cause_of_def split: if_splits)
  moreover have "verified \<and> has_conclusive_station_inventory hs verified"
    using assms calculation runtime
    by (auto simp: missing_cause_of_def split: if_splits option.splits)
  ultimately show ?thesis by auto
qed

text \<open>
  Absence needs proof. Telling a user that no station exists within fifteen kilometres requires
  that no row of that signal is in range, that the source health could be read, that the
  jurisdiction was resolved and its catalog reviewed for the signal, and that there is at least one
  required source of the signal and every required one is healthy, operational, has a complete
  station inventory and knows a positive number of stations.
\<close>

theorem no_station_claim_is_proved:
  assumes "build_nearby_realtime_coverage rq = Inr c" and "s \<in> set (nc_signal_breakdown c)"
    and "cs_missing_cause s = NoStationInRange"
  shows "signal_rows rq (cs_signal_type s) = []
    \<and> \<not> rq_source_health_unavailable rq
    \<and> rq_jurisdiction_checked rq \<and> cs_signal_type s \<in> set (rq_complete_signal_types rq)
    \<and> (\<exists>h\<in>set (rq_source_health rq).
          cs_signal_type s \<in> set (sh_signal_types h) \<and> sh_required_for_absence h)
    \<and> (\<forall>h\<in>set (rq_source_health rq).
          cs_signal_type s \<in> set (sh_signal_types h) \<and> sh_required_for_absence h \<longrightarrow>
            sh_health_status h = Healthy \<and> sh_reason_code h = Operational
            \<and> sh_inventory_complete h \<and> (\<exists>n>0. sh_station_count h = Some n))"
proof -
  have cause: "signal_cause rq (cs_signal_type s) = NoStationInRange"
    by (rule breakdown_mem [OF assms(1,2)]) (metis assms(3) signal_model_simps(3))
  from missing_cause_no_station [OF this [unfolded signal_cause_def]]
  have *: "signal_rows rq (cs_signal_type s) = []" "\<not> rq_source_health_unavailable rq"
    "rq_jurisdiction_checked rq" "cs_signal_type s \<in> set (rq_complete_signal_types rq)"
    "has_conclusive_station_inventory
       (group_source_health (rq_source_health rq) (cs_signal_type s)) True" by auto
  from *(5) show ?thesis
    using *(1-4)
    by (auto simp: has_conclusive_station_inventory_def Let_def list_all_iff filter_empty_conv
        group_source_health_mem split: option.splits)
qed

definition gap_request :: coverage_request where
  "gap_request = sample_request\<lparr> rq_rows := [],
     rq_source_health := [sample_source_health WaterLevel] \<rparr>"

lemma no_station_claim_is_proved_witness:
  "\<exists>c s. build_nearby_realtime_coverage gap_request = Inr c \<and> s \<in> set (nc_signal_breakdown c)
     \<and> cs_missing_cause s = NoStationInRange \<and> signal_rows gap_request WaterLevel = []"
proof -
  have "\<forall>row\<in>set (rq_rows gap_request). 0 \<le> cr_distance_to_query_m row"
    by (simp add: gap_request_def)
  then obtain es l where "rtraverse (evaluate_request gap_request) all_signal_types = Inr es"
    "overall_level_of es = Inr l"
    using evaluations_total by blast
  then have "\<exists>c. build_nearby_realtime_coverage gap_request = Inr c"
    by (auto simp: build_nearby_realtime_coverage_def coverage_response_def gap_request_def
        sample_request_def)
  then obtain c where c: "build_nearby_realtime_coverage gap_request = Inr c" by blast
  have "map cs_signal_type (nc_signal_breakdown c) = all_signal_types"
    by (rule breakdown_types [OF c]) (simp add: gap_request_def sample_request_def)
  then have "WaterLevel \<in> set (map cs_signal_type (nc_signal_breakdown c))" by simp
  then obtain s where s: "s \<in> set (nc_signal_breakdown c)" "cs_signal_type s = WaterLevel" by auto
  have "signal_cause gap_request WaterLevel = NoStationInRange"
    by (simp add: signal_cause_def gap_request_def sample_request_def signal_rows_def
        group_rows_def nearest_usable_def usable_rows_def fresh_rows_def degraded_rows_def
        group_source_health_def missing_cause_of_def runtime_missing_cause_def
        active_required_sources_def has_conclusive_station_inventory_def)
  then have cause: "cs_missing_cause s = NoStationInRange"
    by (rule_tac breakdown_mem [OF c s(1)]) (metis s(2) signal_model_simps(3))
  from no_station_claim_is_proved [OF c s(1) cause] c s cause show ?thesis by auto
qed

lemma state_partition:
  "length (fresh_rows rows) + length (degraded_rows rows) + length (stale_rows rows) = length rows"
  by (induction rows) (auto simp: fresh_rows_def degraded_rows_def stale_rows_def)

lemma counts_by_radius_sorted: "sorted (map snd (counts_by_radius rows))"
proof -
  have "count_if (\<lambda>row. cr_distance_to_query_m row \<le> x) rows
      \<le> count_if (\<lambda>row. cr_distance_to_query_m row \<le> y) rows" if "x \<le> y" for x y :: rat
    using that by (intro count_if_mono) auto
  then show ?thesis
    by (simp add: counts_by_radius_def radius_buckets_m_def local_coverage_radius_m_def)
qed

lemma counts_by_radius_last:
  "\<forall>row\<in>set rows. in_range row \<Longrightarrow> snd (last (counts_by_radius rows)) = length rows"
  by (auto simp: counts_by_radius_def radius_buckets_m_def in_range_def count_if_def
      filter_id_conv)

text \<open>
  The numbers shown for a signal add up: every row in range is counted exactly once as fresh,
  degraded or stale, the counts of the growing radii never decrease, and the last one counts all
  rows in range.
\<close>

theorem signal_counts_add_up:
  assumes "build_nearby_realtime_coverage rq = Inr c" and "s \<in> set (nc_signal_breakdown c)"
  shows "cs_fresh_count s + cs_degraded_count s + cs_stale_count s
      = length (signal_rows rq (cs_signal_type s))
    \<and> map fst (cs_counts_by_radius_m s) = radius_buckets_m
    \<and> sorted (map snd (cs_counts_by_radius_m s))
    \<and> snd (last (cs_counts_by_radius_m s)) = length (signal_rows rq (cs_signal_type s))"
proof -
  let ?rows = "signal_rows rq (cs_signal_type s)"
  obtain reason where s: "s = signal_model (cs_signal_type s) ?rows
      (group_source_health (rq_source_health rq) (cs_signal_type s))
      (signal_level rq (cs_signal_type s)) (signal_cause rq (cs_signal_type s)) reason"
    by (rule breakdown_mem [OF assms])
  have "cs_fresh_count s = length (fresh_rows ?rows)"
    "cs_degraded_count s = length (degraded_rows ?rows)"
    "cs_stale_count s = length (stale_rows ?rows)"
    "cs_counts_by_radius_m s = counts_by_radius ?rows"
    by (subst s, simp)+
  moreover have "\<forall>row\<in>set ?rows. in_range row" by (simp add: signal_rows_def mem_group_rows)
  moreover have "map fst (counts_by_radius ?rows) = radius_buckets_m"
    by (simp add: counts_by_radius_def comp_def)
  ultimately show ?thesis
    using state_partition [of ?rows] counts_by_radius_sorted [of ?rows]
      counts_by_radius_last [of ?rows]
    by simp
qed

lemma signal_counts_add_up_witness:
  "\<exists>c s. build_nearby_realtime_coverage sample_request = Inr c \<and> s \<in> set (nc_signal_breakdown c)
     \<and> cs_fresh_count s + cs_degraded_count s + cs_stale_count s = 3"
proof -
  obtain c s where c: "build_nearby_realtime_coverage sample_request = Inr c"
    "s \<in> set (nc_signal_breakdown c)" "cs_signal_type s = WaterLevel"
    by (rule sample_breakdown)
  have "length (signal_rows sample_request WaterLevel) = 3"
    by (simp add: signal_rows_def group_rows_def sample_request_def)
  with signal_counts_add_up [OF c(1,2)] c show ?thesis by auto
qed

lemma signal_level_ranked: "signal_level rq t \<noteq> CoverageUnavailable"
  by (simp add: signal_level_def)

lemma rank_of_level:
  "l \<noteq> CoverageUnavailable \<Longrightarrow> rank_by_level l = Inr (coverage_level_rank l - 1)"
  by (cases l) simp_all

definition overall_of_levels :: "coverage_level list \<Rightarrow> coverage_level \<Rightarrow> coverage_level" where
  "overall_of_levels hydrologic rainfall =
     (if Max (set hydrologic) \<noteq> NoLocalSensor then Max (set hydrologic)
      else if rainfall \<noteq> NoLocalSensor then CoverageLow
      else NoLocalSensor)"

lemma level_by_rank_max:
  assumes "a \<noteq> CoverageUnavailable" "b \<noteq> CoverageUnavailable" "c \<noteq> CoverageUnavailable"
  shows "level_by_rank (max (max (coverage_level_rank a - 1) (coverage_level_rank b - 1))
      (coverage_level_rank c - 1)) = Inr (max a (max b c))"
  using assms
  by (cases a; cases b; cases c)
    (simp_all add: level_by_rank_def max_def less_eq_coverage_level_def)

lemma hydrologic_rank_evaluations:
  assumes "list_all2 (\<lambda>t e. evaluate_request rq t = Inr e) all_signal_types es"
  shows "hydrologic_rank 0 es =
    Inr (max (max (coverage_level_rank (signal_level rq WaterLevel) - 1)
                  (coverage_level_rank (signal_level rq FloodDepth) - 1))
             (coverage_level_rank (signal_level rq SewerWaterLevel) - 1))"
  using assms
  by (auto simp: all_signal_types_def required_signal_types_def list_all2_Cons1
      type_of_evaluation level_of_evaluation hydrologic_signal_types_def rank_of_level
      signal_level_ranked)

lemma rainfall_evaluations:
  assumes "list_all2 (\<lambda>t e. evaluate_request rq t = Inr e) all_signal_types es"
  shows "list_ex (\<lambda>e. ev_signal_type e = Rainfall \<and> level_of e \<noteq> NoLocalSensor) es
    \<longleftrightarrow> signal_level rq Rainfall \<noteq> NoLocalSensor"
  using assms
  by (auto simp: all_signal_types_def required_signal_types_def list_all2_Cons1
      type_of_evaluation level_of_evaluation)

text \<open>
  The overall level is decided by the water itself: it is the best level among water level,
  flood depth and sewer level; without any of them a rainfall station nearby is worth no more than
  low; pumps, gates, warnings and status rows never count.
\<close>

theorem overall_level_from_hydrology:
  assumes "build_nearby_realtime_coverage rq = Inr c" and "\<not> rq_repository_unavailable rq"
  shows "nc_overall_level c =
    overall_of_levels (map (signal_level rq) hydrologic_signal_types) (signal_level rq Rainfall)"
proof -
  obtain es where es: "list_all2 (\<lambda>t e. evaluate_request rq t = Inr e) all_signal_types es"
    "overall_level_of es = Inr (nc_overall_level c)"
    by (rule build_evaluations [OF assms])
  let ?w = "signal_level rq WaterLevel" and ?f = "signal_level rq FloodDepth"
    and ?s = "signal_level rq SewerWaterLevel"
  obtain k where rank: "hydrologic_rank 0 es = Inr k" and level: "level_by_rank k = Inr (max ?w (max ?f ?s))"
    using hydrologic_rank_evaluations [OF es(1)] level_by_rank_max [of ?w ?f ?s] signal_level_ranked
    by simp
  have zero: "k = 0 \<longleftrightarrow> max ?w (max ?f ?s) = NoLocalSensor"
    using level by (auto simp: level_by_rank_def split: if_splits)
  have "nc_overall_level c =
      (if max ?w (max ?f ?s) \<noteq> NoLocalSensor then max ?w (max ?f ?s)
       else if signal_level rq Rainfall \<noteq> NoLocalSensor then CoverageLow else NoLocalSensor)"
  proof (cases "k = 0")
    case True
    with zero es(2) show ?thesis
      by (auto simp: overall_level_of_def rank rainfall_evaluations [OF es(1)] split: if_splits)
  next
    case False
    with zero es(2) show ?thesis by (auto simp: overall_level_of_def rank level)
  qed
  then show ?thesis
    by (simp add: overall_of_levels_def hydrologic_signal_types_def)
qed

lemma sample_levels:
  "signal_level sample_request Rainfall = NoLocalSensor"
  "signal_level sample_request WaterLevel = CoverageMedium"
  "signal_level sample_request FloodDepth = NoLocalSensor"
  "signal_level sample_request SewerWaterLevel = NoLocalSensor"
  by (simp_all add: signal_level_def signal_rows_def group_rows_def sample_request_def
      nearest_usable_def usable_rows_def fresh_rows_def degraded_rows_def coverage_level_of_def
      distance_level_def local_coverage_radius_m_def)

lemma overall_level_from_hydrology_witness:
  "\<exists>c. build_nearby_realtime_coverage sample_request = Inr c
     \<and> nc_overall_level c = CoverageMedium"
proof -
  obtain c where c: "build_nearby_realtime_coverage sample_request = Inr c" by (rule sample_response)
  have "\<not> rq_repository_unavailable sample_request" by (simp add: sample_request_def)
  from overall_level_from_hydrology [OF c this] c show ?thesis
    by (simp add: sample_levels hydrologic_signal_types_def overall_of_levels_def max_def
        less_eq_coverage_level_def)
qed

definition has_near_usable_row :: "coverage_request \<Rightarrow> signal_type \<Rightarrow> bool" where
  "has_near_usable_row rq t =
     list_ex (\<lambda>row. coverage_signal_type (cr_event_type row) (cr_adapter_key row) = t
                 \<and> cr_freshness_state row \<in> {''fresh'', ''degraded''}
                 \<and> cr_distance_to_query_m row \<le> of_int local_coverage_radius_m) (rq_rows rq)"

lemma signal_level_none:
  "signal_level rq t = NoLocalSensor \<longleftrightarrow> \<not> has_near_usable_row rq t"
proof (cases "nearest_usable (signal_rows rq t)")
  case None
  then have "set (usable_rows (signal_rows rq t)) = {}" by (simp add: nearest_usable_None)
  with None show ?thesis
    unfolding set_usable_rows
    by (auto simp: signal_level_def coverage_level_of_def signal_rows_def mem_group_rows
        has_near_usable_row_def list_ex_iff in_range_def radius_buckets_m_def
        local_coverage_radius_m_def)
next
  case (Some m)
  let ?near = "\<lambda>r. cr_distance_to_query_m r \<le> of_int local_coverage_radius_m"
  have m: "m \<in> set (usable_rows (signal_rows rq t))"
    using Some unfolding nearest_usable_def by (rule first_min_by_mem)
  have "?near m \<longleftrightarrow> (\<exists>r\<in>set (usable_rows (signal_rows rq t)). ?near r)"
    using m first_min_by_le [OF Some [unfolded nearest_usable_def]] by (meson order_trans)
  also have "\<dots> \<longleftrightarrow> has_near_usable_row rq t"
    unfolding set_usable_rows
    by (auto simp: signal_rows_def mem_group_rows has_near_usable_row_def list_ex_iff in_range_def
        radius_buckets_m_def local_coverage_radius_m_def)
  finally show ?thesis
    using Some distance_level_local [of t "cr_distance_to_query_m m"]
    by (auto simp: signal_level_def coverage_level_of_def)
qed

text \<open>
  The missing signals listed are exactly the required ones for which no fresh or degraded row
  lies within five kilometres; nothing usable nearby is reported missing and no gap is hidden.
\<close>

theorem missing_signal_types_exact:
  assumes "build_nearby_realtime_coverage rq = Inr c" and "\<not> rq_repository_unavailable rq"
  shows "nc_missing_signal_types c
    = filter (\<lambda>t. \<not> has_near_usable_row rq t) required_signal_types"
proof -
  obtain es where es: "list_all2 (\<lambda>t e. evaluate_request rq t = Inr e) all_signal_types es"
    "nc_missing_signal_types c = map ev_signal_type
       (filter (\<lambda>e. ev_signal_type e \<in> set required_signal_types \<and> level_of e = NoLocalSensor) es)"
    by (rule build_evaluations [OF assms])
  then show ?thesis
    by (auto simp: all_signal_types_def required_signal_types_def list_all2_Cons1
        type_of_evaluation level_of_evaluation signal_level_none)
qed

lemma missing_signal_types_exact_witness:
  "\<exists>c. build_nearby_realtime_coverage sample_request = Inr c
     \<and> nc_missing_signal_types c = [Rainfall, FloodDepth]"
proof -
  obtain c where c: "build_nearby_realtime_coverage sample_request = Inr c" by (rule sample_response)
  have "\<not> rq_repository_unavailable sample_request" by (simp add: sample_request_def)
  from missing_signal_types_exact [OF c this] c show ?thesis
    by (simp add: required_signal_types_def sample_levels flip: signal_level_none)
qed

lemma runtime_cause_not_none: "runtime_missing_cause hs \<noteq> Some CauseNone"
  by (simp add: runtime_missing_cause_def Let_def)

lemma missing_cause_none:
  "missing_cause_of nearest has_rows hs unavailable checked missing verified \<noteq> CauseNone
     \<longleftrightarrow> nearest = None"
proof (cases nearest)
  case None
  show ?thesis
  proof (cases "runtime_missing_cause hs")
    case (Some cause)
    with None runtime_cause_not_none [of hs] show ?thesis by (simp add: missing_cause_of_def)
  qed (simp add: None missing_cause_of_def)
qed (simp add: missing_cause_of_def)

text \<open>
  Every gap is explained: a required signal carries an explanation exactly when it is counted
  as missing, and its cause is set (not \<open>none\<close>) exactly when it has no usable row at all.
\<close>

theorem required_gap_explained:
  assumes "build_nearby_realtime_coverage rq = Inr c" and "s \<in> set (nc_signal_breakdown c)"
    and "cs_signal_type s \<in> set required_signal_types"
  shows "(cs_missing_reason s \<noteq> None \<longleftrightarrow> cs_coverage_level s = NoLocalSensor)
    \<and> (cs_missing_cause s \<noteq> CauseNone \<longleftrightarrow> cs_fresh_count s + cs_degraded_count s = 0)"
proof -
  let ?t = "cs_signal_type s"
  let ?rows = "signal_rows rq ?t"
  obtain reason where r: "missing_reason_of ?t ?rows (usable_rows ?rows) (nearest_usable ?rows)
      (signal_level rq ?t) (signal_cause rq ?t) = Inr reason"
    and s: "s = signal_model ?t ?rows (group_source_health (rq_source_health rq) ?t)
      (signal_level rq ?t) (signal_cause rq ?t) reason"
    by (rule breakdown_mem [OF assms(1,2)])
  have f: "cs_missing_reason s = reason" "cs_coverage_level s = signal_level rq ?t"
    "cs_missing_cause s = signal_cause rq ?t"
    "cs_fresh_count s + cs_degraded_count s = length (usable_rows ?rows)"
    by (subst s, simp add: usable_rows_def)+
  have cause: "signal_cause rq ?t \<noteq> CauseNone \<longleftrightarrow> nearest_usable ?rows = None"
    unfolding signal_cause_def by (rule missing_cause_none)
  have "usable_rows ?rows = [] \<Longrightarrow> signal_level rq ?t = NoLocalSensor"
    by (simp add: signal_level_def coverage_level_of_def flip: nearest_usable_None)
  then have "reason \<noteq> None \<longleftrightarrow> signal_level rq ?t = NoLocalSensor"
    using r assms(3)
    by (auto simp: missing_reason_of_def usable_rows_def fresh_rows_def degraded_rows_def
        split: if_splits option.splits)
  then show ?thesis using cause by (simp add: f nearest_usable_None)
qed

lemma required_gap_explained_witness:
  "\<exists>c s. build_nearby_realtime_coverage sample_request = Inr c \<and> s \<in> set (nc_signal_breakdown c)
     \<and> cs_signal_type s = Rainfall
     \<and> (cs_missing_reason s \<noteq> None \<longleftrightarrow> cs_coverage_level s = NoLocalSensor)"
proof -
  obtain c s where c: "build_nearby_realtime_coverage sample_request = Inr c"
    "s \<in> set (nc_signal_breakdown c)" "cs_signal_type s = Rainfall"
    by (rule sample_breakdown)
  have "cs_signal_type s \<in> set required_signal_types" by (simp add: c required_signal_types_def)
  from required_gap_explained [OF c(1,2) this] c show ?thesis by auto
qed

end
