(* ===== verification/Risk_Scoring.thy ===== *)
theory Risk_Scoring
  imports Flood_Prelude
begin

text \<open>
  The risk scorer, \<open>apps/api/app/domain/risk/scoring.py\<close>: every evidence signal contributes a
  weighted amount to its event type, correlated event types take the maximum and the others the
  sum, each event type is capped, and the capped totals add up to a score between 0 and 100 that a
  ladder turns into a public level. The theory follows the file from top to bottom and then proves
  the shape of the score (a closed form per event type), its bounds, its independence of the order
  of the evidence, and the guarantees the comments of the file state.
\<close>

section \<open>Public levels\<close>

datatype risk_level = RiskUnknown | RiskLow | RiskMedium | RiskHigh | RiskVeryHigh

datatype confidence_level = ConfUnknown | ConfLow | ConfMedium | ConfHigh

text \<open>The order of the levels is \<open>_RISK_LEVEL_RANK\<close> of \<open>domain/assessment/safety.py\<close>.\<close>

fun risk_level_rank :: "risk_level \<Rightarrow> nat" where
  "risk_level_rank RiskUnknown = 0"
| "risk_level_rank RiskLow = 1"
| "risk_level_rank RiskMedium = 2"
| "risk_level_rank RiskHigh = 3"
| "risk_level_rank RiskVeryHigh = 4"

lemma risk_level_rank_inj: "risk_level_rank a = risk_level_rank b \<Longrightarrow> a = b"
  by (cases a; cases b) simp_all

instantiation risk_level :: linorder
begin

definition less_eq_risk_level :: "risk_level \<Rightarrow> risk_level \<Rightarrow> bool" where
  "less_eq_risk_level a b \<longleftrightarrow> risk_level_rank a \<le> risk_level_rank b"

definition less_risk_level :: "risk_level \<Rightarrow> risk_level \<Rightarrow> bool" where
  "less_risk_level a b \<longleftrightarrow> risk_level_rank a < risk_level_rank b"

instance
  by standard (auto simp: less_eq_risk_level_def less_risk_level_def intro: risk_level_rank_inj)

end

fun confidence_level_rank :: "confidence_level \<Rightarrow> nat" where
  "confidence_level_rank ConfUnknown = 0"
| "confidence_level_rank ConfLow = 1"
| "confidence_level_rank ConfMedium = 2"
| "confidence_level_rank ConfHigh = 3"

lemma confidence_level_rank_inj: "confidence_level_rank a = confidence_level_rank b \<Longrightarrow> a = b"
  by (cases a; cases b) simp_all

instantiation confidence_level :: linorder
begin

definition less_eq_confidence_level :: "confidence_level \<Rightarrow> confidence_level \<Rightarrow> bool" where
  "less_eq_confidence_level a b \<longleftrightarrow> confidence_level_rank a \<le> confidence_level_rank b"

definition less_confidence_level :: "confidence_level \<Rightarrow> confidence_level \<Rightarrow> bool" where
  "less_confidence_level a b \<longleftrightarrow> confidence_level_rank a < confidence_level_rank b"

instance
  by standard
    (auto simp: less_eq_confidence_level_def less_confidence_level_def
      intro: confidence_level_rank_inj)

end

lemmas level_order_simps =
  less_eq_risk_level_def less_risk_level_def
  less_eq_confidence_level_def less_confidence_level_def

section \<open>Weight tables and constants\<close>

text \<open>
  The code passes one of two dictionaries and compares it by identity (\<open>weights is
  HISTORICAL_WEIGHTS\<close>); here the argument is the table's name.
\<close>

datatype weight_table = RealtimeWeights | HistoricalWeights

fun weights_of :: "weight_table \<Rightarrow> (string \<times> rat) list" where
  "weights_of RealtimeWeights =
     [(''rainfall'', 40.0), (''water_level'', 35.0), (''flood_warning'', 50.0),
      (''flood_report'', 20.0), (''road_closure'', 20.0)]"
| "weights_of HistoricalWeights =
     [(''flood_potential'', 40.0), (''flood_report'', 35.0), (''road_closure'', 15.0)]"

text \<open>\<open>weights.get(event_type, 0.0)\<close>; \<open>weights[event_type]\<close> is only read where this is positive.\<close>

definition weight_get :: "weight_table \<Rightarrow> string \<Rightarrow> rat" where
  "weight_get w e = (case map_of (weights_of w) e of None \<Rightarrow> 0 | Some x \<Rightarrow> x)"

definition precision_factors :: "(string \<times> rat) list" where
  "precision_factors =
     [(''point'', 1.0), (''map_click'', 1.0), (''poi'', 0.9), (''polygon'', 0.85),
      (''road_or_lane'', 0.7), (''inferred'', 0.5), (''admin_area'', 0.35), (''unknown'', 0.6)]"

definition precision_weighted_event_types :: "string list" where
  "precision_weighted_event_types = [''flood_report'', ''road_closure'']"

definition admin_area_only_historical_cap :: rat where
  "admin_area_only_historical_cap = 40.0"

definition event_score_caps :: "(string \<times> rat) list" where
  "event_score_caps =
     [(''rainfall'', weight_get RealtimeWeights ''rainfall''),
      (''water_level'', weight_get RealtimeWeights ''water_level''),
      (''flood_warning'', weight_get RealtimeWeights ''flood_warning''),
      (''flood_potential'', 40.0)]"

definition correlated_realtime_event_types :: "string list" where
  "correlated_realtime_event_types = [''rainfall'', ''water_level'', ''flood_warning'']"

definition flood_potential_context_cap :: rat where
  "flood_potential_context_cap = 20.0"

definition observed_history_min_score_within_1km :: rat where
  "observed_history_min_score_within_1km = 25.0"

datatype reason_label =
  LabelRainfall | LabelWaterLevel | LabelFloodWarning | LabelFloodReport | LabelRoadClosure

definition realtime_reason_labels :: "(string \<times> reason_label) list" where
  "realtime_reason_labels =
     [(''rainfall'', LabelRainfall), (''water_level'', LabelWaterLevel),
      (''flood_warning'', LabelFloodWarning), (''flood_report'', LabelFloodReport),
      (''road_closure'', LabelRoadClosure)]"

section \<open>Signals and results\<close>

datatype evidence_scope = ScopeCurrent | ScopeHistorical | ScopeContext | ScopeUnspecified

record risk_evidence_signal =
  source_type :: string
  event_type :: string
  confidence :: rat
  distance_to_query_m :: "rat option"
  freshness_score :: rat
  source_weight :: rat
  risk_factor :: rat
  observed_at :: "py_datetime option"
  scope :: evidence_scope
  location_precision :: string

text \<open>
  The texts of the result, one constructor per Chinese text of the source; the last constructor of
  \<open>missing_source\<close> and of \<open>summary_text\<close> are the two texts that
  \<open>domain/assessment/safety.py\<close> puts there.
\<close>

text \<open>
  \<open>RealtimeElevated []\<close> is the text without a list of labels, \<open>RealtimeElevated labels\<close> the one
  that names them.
\<close>

datatype main_reason =
  NoUsableData
| RealtimeElevated "reason_label list"
| ObservedHistoryRecords nat
| FloodPotentialContext nat
| NoStrongRealtimeSignal

datatype missing_source = MissingRainfall | MissingWaterOrFloodSensor | RequiredCoverageInsufficient

datatype summary_text =
  SummaryInsufficient
| SummaryRealtimeUnknown risk_level confidence_level
| SummaryLevels risk_level risk_level confidence_level
| SummaryRealtimeUnsafe

definition SCORE_VERSION :: string where
  "SCORE_VERSION = ''risk-v0.3.0''"

record risk_scoring_result =
  score_version :: string
  realtime_score :: rat
  historical_score :: rat
  confidence_score :: rat
  realtime_level :: risk_level
  historical_level :: risk_level
  confidence_level :: confidence_level
  explanation_summary :: summary_text
  main_reasons :: "main_reason list"
  missing_sources :: "missing_source list"

section \<open>Contribution of one signal\<close>

definition clamp :: "rat \<Rightarrow> rat" where
  "clamp x = min (max x 0) 1"

fun distance_factor :: "rat option \<Rightarrow> rat" where
  "distance_factor None = 0.85"
| "distance_factor (Some d) = (if d \<le> 100 then 1 else if d \<le> 500 then 0.75 else 0.5)"

definition weighted_signal_contribution :: "risk_evidence_signal \<Rightarrow> rat \<Rightarrow> rat" where
  "weighted_signal_contribution s weight =
     weight * clamp (confidence s) * clamp (freshness_score s) * clamp (risk_factor s)
       * distance_factor (distance_to_query_m s) * max (source_weight s) 0"

definition precision_factor :: "risk_evidence_signal \<Rightarrow> rat" where
  "precision_factor s =
     (if event_type s \<notin> set precision_weighted_event_types then 1
      else case map_of precision_factors (location_precision s) of
             Some f \<Rightarrow> f
           | None \<Rightarrow> (case map_of precision_factors ''unknown'' of Some f \<Rightarrow> f | None \<Rightarrow> 0))"

text \<open>
  \<open>_is_recent\<close>: \<open>now\<close> is timezone-aware in every call (\<open>datetime.now(UTC)\<close>); a naive
  observation takes the reference's \<open>tzinfo\<close>.
\<close>

fun with_tz_of :: "aware_datetime \<Rightarrow> py_datetime \<Rightarrow> aware_datetime" where
  "with_tz_of now (Naive w) = AwareAt w (aw_offset now)"
| "with_tz_of now (Aware a) = a"

definition is_recent :: "risk_evidence_signal \<Rightarrow> aware_datetime \<Rightarrow> int \<Rightarrow> bool" where
  "is_recent s now max_age =
     (case observed_at s of
        None \<Rightarrow> False
      | Some t \<Rightarrow>
          let o' = with_tz_of now t
          in instant now - max_age \<le> instant o' \<and> instant o' \<le> instant now + minutes 5)"

definition is_weighted_signal_eligible ::
  "risk_evidence_signal \<Rightarrow> weight_table \<Rightarrow> aware_datetime option \<Rightarrow> int option \<Rightarrow> bool" where
  "is_weighted_signal_eligible s w now max_age =
     (if weight_get w (event_type s) \<le> 0 then False
      else if w = RealtimeWeights \<and> scope s \<in> {ScopeHistorical, ScopeContext} then False
      else if w = HistoricalWeights \<and> scope s \<in> {ScopeCurrent, ScopeContext} then False
      else case (now, max_age) of
             (Some n, Some a) \<Rightarrow> is_recent s n a
           | _ \<Rightarrow> True)"

definition event_score_cap :: "string \<Rightarrow> bool \<Rightarrow> rat option" where
  "event_score_cap e has_observed_history =
     (if e = ''flood_potential'' \<and> has_observed_history then Some flood_potential_context_cap
      else map_of event_score_caps e)"

section \<open>The weighted score\<close>

definition observed_incident :: "risk_evidence_signal \<Rightarrow> bool" where
  "observed_incident s \<longleftrightarrow>
     event_type s \<in> {''flood_report'', ''road_closure''}
     \<and> location_precision s \<notin> {''admin_area'', ''unknown''}"

definition has_observed_history ::
  "risk_evidence_signal list \<Rightarrow> weight_table \<Rightarrow> aware_datetime option \<Rightarrow> int option \<Rightarrow> bool" where
  "has_observed_history signals w now max_age =
     list_ex (\<lambda>s. observed_incident s \<and> is_weighted_signal_eligible s w now max_age) signals"

text \<open>The contribution as the loop body computes it: precision, then the near-incident floor.\<close>

definition contribution :: "weight_table \<Rightarrow> risk_evidence_signal \<Rightarrow> rat" where
  "contribution w s =
     (let weight = weight_get w (event_type s);
          c = weighted_signal_contribution s weight;
          c = (if w = HistoricalWeights then c * precision_factor s else c)
      in if event_type s = ''flood_report''
            \<and> weight_get HistoricalWeights ''flood_report'' \<le> weight
            \<and> (case distance_to_query_m s of None \<Rightarrow> False | Some d \<Rightarrow> d \<le> 1000)
         then max c observed_history_min_score_within_1km
         else c)"

definition capped :: "rat option \<Rightarrow> rat \<Rightarrow> rat" where
  "capped cap x = (case cap of Some c \<Rightarrow> min x c | None \<Rightarrow> x)"

definition event_total_step :: "bool \<Rightarrow> string \<Rightarrow> rat \<Rightarrow> rat \<Rightarrow> rat" where
  "event_total_step observed e previous c =
     capped (event_score_cap e observed)
       (if e \<in> set correlated_realtime_event_types then max previous c else previous + c)"

definition totals_get :: "(string \<times> rat) list \<Rightarrow> string \<Rightarrow> rat" where
  "totals_get totals e = (case map_of totals e of None \<Rightarrow> 0 | Some x \<Rightarrow> x)"

fun accumulate_totals ::
  "weight_table \<Rightarrow> aware_datetime option \<Rightarrow> int option \<Rightarrow> bool
    \<Rightarrow> (string \<times> rat) list \<Rightarrow> risk_evidence_signal list \<Rightarrow> (string \<times> rat) list" where
  "accumulate_totals w now max_age observed totals [] = totals"
| "accumulate_totals w now max_age observed totals (s # ss) =
     (if \<not> is_weighted_signal_eligible s w now max_age
      then accumulate_totals w now max_age observed totals ss
      else accumulate_totals w now max_age observed
             (AList.update (event_type s)
                (event_total_step observed (event_type s)
                   (totals_get totals (event_type s)) (contribution w s))
                totals)
             ss)"

definition weighted_score ::
  "risk_evidence_signal list \<Rightarrow> weight_table \<Rightarrow> aware_datetime option \<Rightarrow> int option \<Rightarrow> rat" where
  "weighted_score signals w now max_age =
     min (sum_list (map snd
            (accumulate_totals w now max_age (has_observed_history signals w now max_age)
               [] signals)))
         100"

definition has_weighted_evidence ::
  "risk_evidence_signal list \<Rightarrow> weight_table \<Rightarrow> aware_datetime option \<Rightarrow> int option \<Rightarrow> bool" where
  "has_weighted_evidence signals w now max_age =
     list_ex (\<lambda>s. is_weighted_signal_eligible s w now max_age) signals"

definition apply_admin_area_only_historical_cap ::
  "risk_evidence_signal list \<Rightarrow> rat \<Rightarrow> rat" where
  "apply_admin_area_only_historical_cap signals score =
     (let eligible = filter (\<lambda>s. is_weighted_signal_eligible s HistoricalWeights None None) signals
      in if eligible \<noteq> [] \<and> list_all (\<lambda>s. location_precision s = ''admin_area'') eligible
         then min score admin_area_only_historical_cap
         else score)"

section \<open>Confidence, levels, missing sources, reasons\<close>

definition confidence_score_of :: "risk_evidence_signal list \<Rightarrow> rat" where
  "confidence_score_of signals =
     (if signals = [] then 0
      else let weighted = map (\<lambda>s. clamp (confidence s) * max (source_weight s) 0) signals;
               total_weight = sum_list (map (\<lambda>s. max (source_weight s) 0) signals)
           in if total_weight = 0 then 0
              else let source_bonus =
                         (if list_ex (\<lambda>s. source_type s = ''official'') signals then 0.06 else 0)
                   in min (sum_list weighted / total_weight + source_bonus) 1)"

definition risk_level_of :: "rat \<Rightarrow> bool \<Rightarrow> risk_level" where
  "risk_level_of score has_evidence =
     (if \<not> has_evidence then RiskUnknown
      else if score \<ge> 85 then RiskVeryHigh
      else if score \<ge> 55 then RiskHigh
      else if score \<ge> 25 then RiskMedium
      else RiskLow)"

definition confidence_level_of :: "rat \<Rightarrow> bool \<Rightarrow> confidence_level" where
  "confidence_level_of score has_evidence =
     (if \<not> has_evidence then ConfUnknown
      else if score \<ge> 0.8 then ConfHigh
      else if score \<ge> 0.5 then ConfMedium
      else ConfLow)"

definition realtime_max_age :: int where
  "realtime_max_age = hours 6"

definition missing_sources_of ::
  "risk_evidence_signal list \<Rightarrow> aware_datetime \<Rightarrow> missing_source list" where
  "missing_sources_of signals now =
     (let usable = filter (\<lambda>s. is_weighted_signal_eligible s RealtimeWeights (Some now)
                                 (Some realtime_max_age)) signals;
          event_types = set (map event_type usable);
          has_official_current_flood_sensor =
            list_ex (\<lambda>s. source_type s = ''official'' \<and> event_type s = ''flood_report''
                          \<and> scope s = ScopeCurrent) usable
      in (if ''rainfall'' \<notin> event_types then [MissingRainfall] else [])
         @ (if ''water_level'' \<notin> event_types \<and> \<not> has_official_current_flood_sensor
            then [MissingWaterOrFloodSensor] else []))"

definition realtime_main_reason ::
  "risk_evidence_signal list \<Rightarrow> aware_datetime \<Rightarrow> main_reason" where
  "realtime_main_reason signals now =
     (let event_types =
            set (map event_type
              (filter (\<lambda>s. is_weighted_signal_eligible s RealtimeWeights (Some now)
                              (Some realtime_max_age)
                            \<and> weighted_signal_contribution s
                                (weight_get RealtimeWeights (event_type s)) > 0) signals))
      in RealtimeElevated
           (map snd (filter (\<lambda>(e, label). e \<in> event_types) realtime_reason_labels)))"

definition main_reasons_of ::
  "risk_evidence_signal list \<Rightarrow> risk_level \<Rightarrow> risk_level \<Rightarrow> aware_datetime
    \<Rightarrow> main_reason list" where
  "main_reasons_of signals rt_level hist_level now =
     (if signals = [] then [NoUsableData]
      else let observed_history_count =
                 count_if (\<lambda>s. event_type s \<in> {''flood_report'', ''road_closure''}
                                 \<and> scope s \<noteq> ScopeCurrent) signals;
               flood_potential_count = count_if (\<lambda>s. event_type s = ''flood_potential'') signals;
               reasons =
                 (if rt_level \<in> {RiskHigh, RiskVeryHigh}
                  then [realtime_main_reason signals now] else [])
                 @ (if observed_history_count \<noteq> 0
                    then [ObservedHistoryRecords observed_history_count] else [])
                 @ (if hist_level \<in> {RiskMedium, RiskHigh, RiskVeryHigh}
                        \<and> flood_potential_count \<noteq> 0
                    then [FloodPotentialContext flood_potential_count] else [])
           in if reasons = [] then [NoStrongRealtimeSignal] else reasons)"

definition summary_of ::
  "risk_level \<Rightarrow> risk_level \<Rightarrow> confidence_level \<Rightarrow> summary_text" where
  "summary_of rt_level hist_level conf_level =
     (if rt_level = RiskUnknown \<and> hist_level = RiskUnknown \<and> conf_level = ConfUnknown
      then SummaryInsufficient
      else if rt_level = RiskUnknown \<and> hist_level \<noteq> RiskUnknown
      then SummaryRealtimeUnknown hist_level conf_level
      else SummaryLevels rt_level hist_level conf_level)"

section \<open>The scorer\<close>

text \<open>Python's \<open>round(x, 3)\<close>: to the nearest thousandth, ties to the even one.\<close>

definition round_half_even :: "rat \<Rightarrow> int" where
  "round_half_even x =
     (let f = \<lfloor>x\<rfloor>; d = x - of_int f
      in if d < 1 / 2 then f else if d > 1 / 2 then f + 1 else if even f then f else f + 1)"

definition round3 :: "rat \<Rightarrow> rat" where
  "round3 x = of_int (round_half_even (x * 1000)) / 1000"

text \<open>The three scores before rounding, as the local variables of \<open>score_risk\<close>.\<close>

definition raw_realtime_score :: "risk_evidence_signal list \<Rightarrow> aware_datetime \<Rightarrow> rat" where
  "raw_realtime_score signals now =
     weighted_score signals RealtimeWeights (Some now) (Some realtime_max_age)"

definition raw_historical_score :: "risk_evidence_signal list \<Rightarrow> rat" where
  "raw_historical_score signals =
     apply_admin_area_only_historical_cap signals
       (weighted_score signals HistoricalWeights None None)"

definition raw_confidence_score :: "risk_evidence_signal list \<Rightarrow> aware_datetime \<Rightarrow> rat" where
  "raw_confidence_score signals now =
     (let c = confidence_score_of signals;
          c = (if missing_sources_of signals now \<noteq> [] \<and> c > 0.74 then 0.74 else c)
      in if \<not> has_weighted_evidence signals HistoricalWeights None None \<and> c > 0.74
         then 0.74 else c)"

definition score_risk ::
  "risk_evidence_signal list \<Rightarrow> aware_datetime \<Rightarrow> risk_scoring_result" where
  "score_risk signals now =
     (let rt = raw_realtime_score signals now;
          hist = raw_historical_score signals;
          conf = raw_confidence_score signals now;
          rt_level = risk_level_of rt
            (has_weighted_evidence signals RealtimeWeights (Some now) (Some realtime_max_age));
          hist_level = risk_level_of hist
            (has_weighted_evidence signals HistoricalWeights None None);
          conf_level = confidence_level_of conf (signals \<noteq> [])
      in \<lparr> score_version = SCORE_VERSION,
           realtime_score = round3 rt,
           historical_score = round3 hist,
           confidence_score = round3 conf,
           realtime_level = rt_level,
           historical_level = hist_level,
           confidence_level = conf_level,
           explanation_summary = summary_of rt_level hist_level conf_level,
           main_reasons = main_reasons_of signals rt_level hist_level now,
           missing_sources = missing_sources_of signals now \<rparr>)"

section \<open>Weights, factors and contributions\<close>

named_theorems scoring_simps

lemma weight_get_nonneg [simp]: "0 \<le> weight_get w e"
  by (cases w) (auto simp: weight_get_def)

lemma weight_get_pos_mem: "0 < weight_get w e \<Longrightarrow> e \<in> set (map fst (weights_of w))"
  by (cases w) (auto simp: weight_get_def split: if_splits)

lemma eligible_event_mem:
  "is_weighted_signal_eligible s w now a \<Longrightarrow> event_type s \<in> set (map fst (weights_of w))"
  by (rule weight_get_pos_mem) (auto simp: is_weighted_signal_eligible_def split: if_splits)

lemma distinct_weight_keys: "distinct (map fst (weights_of w))"
  by (cases w) auto

lemma clamp_bounds [simp]: "0 \<le> clamp x" "clamp x \<le> 1"
  by (simp_all add: clamp_def)

lemma distance_factor_nonneg [simp]: "0 \<le> distance_factor d"
  by (cases d) auto

lemma distance_factor_le_1: "distance_factor d \<le> 1"
  by (cases d) auto

lemma precision_factor_bounds: "0 \<le> precision_factor s" "precision_factor s \<le> 1"
  by (auto simp: precision_factor_def precision_factors_def)

lemma weighted_signal_contribution_nonneg [simp]:
  "0 \<le> weight \<Longrightarrow> 0 \<le> weighted_signal_contribution s weight"
  by (simp add: weighted_signal_contribution_def)

lemma contribution_nonneg [simp]: "0 \<le> contribution w s"
  by (auto simp: contribution_def Let_def precision_factor_bounds le_max_iff_disj)

lemma event_score_cap_nonneg: "event_score_cap e obs = Some c \<Longrightarrow> 0 \<le> c"
  by (auto simp: event_score_cap_def flood_potential_context_cap_def event_score_caps_def
      split: if_splits)

lemma capped_nonneg: "0 \<le> x \<Longrightarrow> (\<And>c. cap = Some c \<Longrightarrow> 0 \<le> c) \<Longrightarrow> 0 \<le> capped cap x"
  by (cases cap) (auto simp: capped_def)

lemma capped_mono: "x \<le> y \<Longrightarrow> capped cap x \<le> capped cap y"
  by (cases cap) (auto simp: capped_def)

lemma capped_le: "capped cap x \<le> x"
  by (cases cap) (auto simp: capped_def)

section \<open>The loop computes a closed form per event type\<close>

text \<open>
  What the loop is for, stated without a loop: an event type contributes the maximum (correlated
  event types) or the sum of its eligible signals' contributions, cut at the event type's cap.
\<close>

definition event_contributions ::
  "weight_table \<Rightarrow> aware_datetime option \<Rightarrow> int option \<Rightarrow> string
    \<Rightarrow> risk_evidence_signal list \<Rightarrow> rat list" where
  "event_contributions w now a e signals =
     map (contribution w)
       (filter (\<lambda>s. event_type s = e \<and> is_weighted_signal_eligible s w now a) signals)"

definition event_aggregate :: "string \<Rightarrow> rat list \<Rightarrow> rat" where
  "event_aggregate e cs =
     (if e \<in> set correlated_realtime_event_types then foldr max cs 0 else sum_list cs)"

definition event_total :: "bool \<Rightarrow> string \<Rightarrow> rat list \<Rightarrow> rat" where
  "event_total observed e cs = capped (event_score_cap e observed) (event_aggregate e cs)"

lemma foldr_max_nonneg: "(0::rat) \<le> foldr max cs 0"
  by (induction cs) (auto simp: le_max_iff_disj)

lemma foldr_max_ge: "c \<in> set cs \<Longrightarrow> (c::rat) \<le> foldr max cs 0"
  by (induction cs) (auto simp: le_max_iff_disj)

lemma event_aggregate_nonneg: "\<forall>c\<in>set cs. 0 \<le> c \<Longrightarrow> 0 \<le> event_aggregate e cs"
  by (auto simp: event_aggregate_def foldr_max_nonneg intro: sum_list_nonneg)

lemma event_total_nonneg: "\<forall>c\<in>set cs. 0 \<le> c \<Longrightarrow> 0 \<le> event_total obs e cs"
  unfolding event_total_def
  by (rule capped_nonneg) (auto simp: event_aggregate_nonneg event_score_cap_nonneg)

lemma foldl_capped_sum:
  assumes "\<forall>c\<in>set cs. (0::rat) \<le> c" "0 \<le> t" "\<And>k. cap = Some k \<Longrightarrow> 0 \<le> k"
  shows "foldl (\<lambda>p c. capped cap (p + c)) (capped cap t) cs = capped cap (t + sum_list cs)"
  using assms
proof (induction cs arbitrary: t)
  case Nil
  then show ?case by simp
next
  case (Cons c cs)
  have "capped cap (capped cap t + c) = capped cap (t + c)"
    using Cons.prems by (cases cap) (auto simp: capped_def min_def)
  then show ?case using Cons.IH [of "t + c"] Cons.prems by (simp add: add.assoc)
qed

lemma foldl_capped_max:
  assumes "\<And>k. cap = Some k \<Longrightarrow> (0::rat) \<le> k"
  shows "foldl (\<lambda>p c. capped cap (max p c)) (capped cap t) cs = capped cap (foldr max cs t)"
proof (induction cs arbitrary: t)
  case Nil
  then show ?case by simp
next
  case (Cons c cs)
  have "capped cap (max (capped cap t) c) = capped cap (max t c)"
    by (cases cap) (auto simp: capped_def min_def max_def)
  moreover have "foldr max cs (max t c) = max c (foldr max cs t)" for t
    by (induction cs) (auto simp: max.left_commute max.commute)
  ultimately show ?case using Cons.IH [of "max t c"] by simp
qed

lemma foldl_event_total_step:
  assumes "\<forall>c\<in>set cs. 0 \<le> c"
  shows "foldl (event_total_step obs e) 0 cs = event_total obs e cs"
proof -
  let ?cap = "event_score_cap e obs"
  have nn: "\<And>k. ?cap = Some k \<Longrightarrow> 0 \<le> k" by (rule event_score_cap_nonneg)
  have z: "capped ?cap 0 = 0" using nn by (cases ?cap) (auto simp: capped_def)
  show ?thesis
  proof (cases "e \<in> set correlated_realtime_event_types")
    case True
    then have "event_total_step obs e = (\<lambda>p c. capped ?cap (max p c))"
      by (simp add: event_total_step_def fun_eq_iff)
    then show ?thesis
      using foldl_capped_max [where t = 0 and cs = cs and cap = ?cap, OF nn] True
      by (simp add: z event_total_def event_aggregate_def)
  next
    case False
    then have "event_total_step obs e = (\<lambda>p c. capped ?cap (p + c))"
      by (simp add: event_total_step_def fun_eq_iff)
    then show ?thesis
      using foldl_capped_sum [where t = 0 and cs = cs and cap = ?cap, OF assms _ nn] False
      by (simp add: z event_total_def event_aggregate_def)
  qed
qed

lemma totals_get_update:
  "totals_get (AList.update k v totals) e = (if e = k then v else totals_get totals e)"
  by (simp add: totals_get_def update_conv')

lemma totals_get_accumulate:
  "totals_get (accumulate_totals w now a obs totals ss) e =
     foldl (event_total_step obs e) (totals_get totals e) (event_contributions w now a e ss)"
  by (induction w now a obs totals ss rule: accumulate_totals.induct)
    (auto simp: event_contributions_def totals_get_update)

lemma distinct_accumulate:
  "distinct (map fst totals) \<Longrightarrow> distinct (map fst (accumulate_totals w now a obs totals ss))"
  by (induction w now a obs totals ss rule: accumulate_totals.induct)
    (auto simp: distinct_update)

lemma keys_accumulate:
  "set (map fst (accumulate_totals w now a obs totals ss))
     \<subseteq> set (map fst totals) \<union> set (map fst (weights_of w))"
proof (induction w now a obs totals ss rule: accumulate_totals.induct)
  case (1 w now a obs totals)
  then show ?case by simp
next
  case (2 w now a obs totals s ss)
  show ?case
  proof (cases "is_weighted_signal_eligible s w now a")
    case True
    have "event_type s \<in> set (map fst (weights_of w))" by (rule eligible_event_mem [OF True])
    then have "set (map fst (AList.update (event_type s) v totals))
        \<subseteq> set (map fst totals) \<union> set (map fst (weights_of w))" for v
      by (simp add: dom_update)
    with "2.IH"(2) True show ?thesis by (simp add: subset_iff) blast
  next
    case False
    with "2.IH"(1) show ?thesis by simp
  qed
qed

lemma sum_totals:
  "distinct (map fst totals) \<Longrightarrow>
     sum_list (map snd totals) = (\<Sum>e\<in>set (map fst totals). totals_get totals e)"
proof (induction totals)
  case Nil
  then show ?case by simp
next
  case (Cons kv totals)
  obtain k v where kv: "kv = (k, v)" by force
  have k: "k \<notin> set (map fst totals)" using Cons.prems kv by simp
  have "totals_get ((k, v) # totals) e = totals_get totals e" if "e \<in> set (map fst totals)" for e
    using that k by (auto simp: totals_get_def)
  then have "(\<Sum>e\<in>set (map fst totals). totals_get ((k, v) # totals) e)
      = (\<Sum>e\<in>set (map fst totals). totals_get totals e)"
    by (rule sum.cong [OF refl])
  then show ?case using Cons k kv by (simp add: totals_get_def)
qed

lemma totals_get_absent: "e \<notin> set (map fst totals) \<Longrightarrow> totals_get totals e = 0"
  by (simp add: totals_get_def iffD2 [OF map_of_eq_None_iff])

lemma event_contributions_nonneg: "\<forall>c\<in>set (event_contributions w now a e ss). 0 \<le> c"
  by (auto simp: event_contributions_def)

lemma weighted_score_sum:
  "weighted_score signals w now a =
     min (\<Sum>e\<in>set (map fst (weights_of w)).
            event_total (has_observed_history signals w now a) e
              (event_contributions w now a e signals)) 100"
proof -
  define obs where "obs = has_observed_history signals w now a"
  define T where "T = accumulate_totals w now a obs [] signals"
  have d: "distinct (map fst T)" unfolding T_def by (rule distinct_accumulate) simp
  have sub: "set (map fst T) \<subseteq> set (map fst (weights_of w))"
    using keys_accumulate [of w now a obs "[]" signals] by (simp add: T_def)
  have get: "totals_get T e = event_total obs e (event_contributions w now a e signals)" for e
    unfolding T_def totals_get_accumulate
    by (simp add: totals_get_def foldl_event_total_step event_contributions_nonneg)
  have "sum_list (map snd T) = (\<Sum>e\<in>set (map fst T). totals_get T e)" by (rule sum_totals [OF d])
  also have "\<dots> = (\<Sum>e\<in>set (map fst (weights_of w)). totals_get T e)"
    by (rule sum.mono_neutral_left) (use sub in \<open>auto intro: totals_get_absent\<close>)
  finally show ?thesis by (simp add: weighted_score_def obs_def [symmetric] T_def [symmetric] get)
qed

lemma weighted_score_bounds: "0 \<le> weighted_score signals w now a" "weighted_score signals w now a \<le> 100"
proof -
  have "0 \<le> (\<Sum>e\<in>set (map fst (weights_of w)).
      event_total (has_observed_history signals w now a) e
        (event_contributions w now a e signals))"
    by (intro sum_nonneg event_total_nonneg event_contributions_nonneg)
  then show "0 \<le> weighted_score signals w now a" by (simp add: weighted_score_sum)
  show "weighted_score signals w now a \<le> 100" by (simp add: weighted_score_sum)
qed

section \<open>The score depends on the multiset of the evidence only\<close>

lemma foldr_max_Max: "foldr max cs (0::rat) = Max (insert 0 (set cs))"
proof (induction cs)
  case (Cons c cs)
  have "Max (insert 0 (set (c # cs))) = Max (insert c (insert 0 (set cs)))"
    by (simp only: list.set insert_commute)
  also have "\<dots> = max c (Max (insert 0 (set cs)))" by (rule Max_insert) auto
  finally show ?case using Cons by simp
qed simp

lemma event_aggregate_mset: "mset cs = mset ds \<Longrightarrow> event_aggregate e cs = event_aggregate e ds"
  using mset_eq_setD [of cs ds] sum_list_map_mset [of cs ds "\<lambda>c. c"]
  by (simp add: event_aggregate_def foldr_max_Max)

lemma has_observed_history_mset:
  "mset xs = mset ys \<Longrightarrow> has_observed_history xs w now a = has_observed_history ys w now a"
  by (auto simp: has_observed_history_def list_ex_iff dest: mset_eq_setD)

lemma has_weighted_evidence_mset:
  "mset xs = mset ys \<Longrightarrow> has_weighted_evidence xs w now a = has_weighted_evidence ys w now a"
  by (auto simp: has_weighted_evidence_def list_ex_iff dest: mset_eq_setD)

lemma event_contributions_mset:
  "mset xs = mset ys \<Longrightarrow>
     mset (event_contributions w now a e xs) = mset (event_contributions w now a e ys)"
  by (simp add: event_contributions_def)

lemma weighted_score_mset:
  "mset xs = mset ys \<Longrightarrow> weighted_score xs w now a = weighted_score ys w now a"
  unfolding weighted_score_sum event_total_def
  using has_observed_history_mset [of xs ys w now a]
    event_aggregate_mset [OF event_contributions_mset, of xs ys]
  by simp

lemma raw_historical_score_mset:
  assumes "mset xs = mset ys"
  shows "raw_historical_score xs = raw_historical_score ys"
proof -
  let ?p = "\<lambda>s. is_weighted_signal_eligible s HistoricalWeights None None"
  have "mset (filter ?p xs) = mset (filter ?p ys)" using assms by simp
  then have "filter ?p xs = [] \<longleftrightarrow> filter ?p ys = []"
    and "set (filter ?p xs) = set (filter ?p ys)"
    by (metis mset_zero_iff, metis mset_eq_setD)
  then show ?thesis
    using weighted_score_mset [OF assms]
    by (simp add: raw_historical_score_def apply_admin_area_only_historical_cap_def
        list_all_iff)
qed

lemma confidence_score_of_mset:
  assumes "mset xs = mset ys"
  shows "confidence_score_of xs = confidence_score_of ys"
proof -
  have "xs = [] \<longleftrightarrow> ys = []" using assms by auto
  then show ?thesis
    unfolding confidence_score_of_def Let_def list_ex_iff mset_eq_setD [OF assms]
      sum_list_map_mset [OF assms]
    by simp
qed

lemma missing_sources_of_mset:
  "mset xs = mset ys \<Longrightarrow> missing_sources_of xs now = missing_sources_of ys now"
  using mset_eq_setD [of xs ys] by (simp add: missing_sources_of_def list_ex_iff)

lemma main_reasons_of_mset:
  assumes "mset xs = mset ys"
  shows "main_reasons_of xs r h now = main_reasons_of ys r h now"
proof -
  have "xs = [] \<longleftrightarrow> ys = []" using assms by auto
  then show ?thesis
    using mset_eq_setD [OF assms]
    by (simp add: main_reasons_of_def realtime_main_reason_def count_if_mset [OF assms])
qed

lemmas scorer_mset =
  weighted_score_mset raw_historical_score_mset confidence_score_of_mset
  missing_sources_of_mset main_reasons_of_mset has_weighted_evidence_mset

section \<open>Rounding and levels\<close>

lemma round_half_even_mono: "x \<le> y \<Longrightarrow> round_half_even x \<le> round_half_even y"
proof -
  assume xy: "x \<le> y"
  then have fl: "\<lfloor>x\<rfloor> \<le> \<lfloor>y\<rfloor>" by (rule floor_mono)
  show ?thesis
  proof (cases "\<lfloor>x\<rfloor> = \<lfloor>y\<rfloor>")
    case True
    with xy show ?thesis by (auto simp: round_half_even_def Let_def)
  next
    case False
    with fl have "\<lfloor>x\<rfloor> + 1 \<le> \<lfloor>y\<rfloor>" by simp
    then show ?thesis by (auto simp: round_half_even_def Let_def)
  qed
qed

lemma round_half_even_of_int [simp]: "round_half_even (of_int n) = n"
  by (simp add: round_half_even_def)

lemma round3_mono: "x \<le> y \<Longrightarrow> round3 x \<le> round3 y"
  by (simp add: round3_def divide_right_mono round_half_even_mono)

lemma round3_fixed: "x * 1000 = of_int n \<Longrightarrow> round3 x = x"
  using round_half_even_of_int [of n] by (simp add: round3_def field_simps)

lemma round3_0 [simp]: "round3 0 = 0" by (rule round3_fixed [of _ 0]) simp
lemma round3_1 [simp]: "round3 1 = 1" by (rule round3_fixed [of _ 1000]) simp
lemma round3_100 [simp]: "round3 100 = 100" by (rule round3_fixed [of _ 100000]) simp
lemma round3_074 [simp]: "round3 (37 / 50) = 37 / 50" by (rule round3_fixed [of _ 740]) simp

lemma round3_within: "0 \<le> x \<Longrightarrow> x \<le> 100 \<Longrightarrow> 0 \<le> round3 x \<and> round3 x \<le> 100"
  using round3_mono [of 0 x] round3_mono [of x 100] by simp

interpretation risk_ladder: monotone_grading "\<lambda>x. risk_level_of x True"
  by unfold_locales (auto simp: risk_level_of_def level_order_simps)

interpretation confidence_ladder: monotone_grading "\<lambda>x. confidence_level_of x True"
  by unfold_locales (auto simp: confidence_level_of_def level_order_simps)

lemma risk_level_of_False [simp]: "risk_level_of x False = RiskUnknown"
  by (simp add: risk_level_of_def)

lemma RiskUnknown_least [simp]: "RiskUnknown \<le> r"
  by (cases r) (simp_all add: level_order_simps)

lemma risk_level_of_Unknown_iff [simp]: "risk_level_of x b = RiskUnknown \<longleftrightarrow> \<not> b"
  by (simp add: risk_level_of_def)

lemma confidence_score_of_bounds: "0 \<le> confidence_score_of signals \<and> confidence_score_of signals \<le> 1"
proof -
  have "0 \<le> sum_list (map (\<lambda>s. clamp (confidence s) * max (source_weight s) 0) signals)"
    and "0 \<le> sum_list (map (\<lambda>s. max (source_weight s) 0) signals)"
    by (auto intro!: sum_list_nonneg)
  then show ?thesis by (simp add: confidence_score_of_def Let_def)
qed

lemma raw_confidence_score_bounds:
  "0 \<le> raw_confidence_score signals now \<and> raw_confidence_score signals now \<le> 1"
  using confidence_score_of_bounds [of signals] by (auto simp: raw_confidence_score_def Let_def)

lemma raw_historical_score_bounds:
  "0 \<le> raw_historical_score signals \<and> raw_historical_score signals \<le> 100"
  using weighted_score_bounds [of signals HistoricalWeights None None]
  by (auto simp: raw_historical_score_def apply_admin_area_only_historical_cap_def
      admin_area_only_historical_cap_def Let_def)

lemma raw_realtime_score_bounds:
  "0 \<le> raw_realtime_score signals now \<and> raw_realtime_score signals now \<le> 100"
  by (simp add: raw_realtime_score_def weighted_score_bounds)

section \<open>Adding one signal\<close>

lemma has_observed_history_Cons:
  "has_observed_history (s # ss) w now a =
     (observed_incident s \<and> is_weighted_signal_eligible s w now a
      \<or> has_observed_history ss w now a)"
  by (simp add: has_observed_history_def)

lemma event_contributions_Cons:
  "event_contributions w now a e (s # ss) =
     (if event_type s = e \<and> is_weighted_signal_eligible s w now a
      then contribution w s # event_contributions w now a e ss
      else event_contributions w now a e ss)"
  by (simp add: event_contributions_def)

lemma event_aggregate_Cons_ge: "0 \<le> c \<Longrightarrow> event_aggregate e cs \<le> event_aggregate e (c # cs)"
  by (simp add: event_aggregate_def)

text \<open>Without a new observed incident the caps stay, and the score can only grow.\<close>

lemma weighted_score_Cons_mono:
  assumes "\<not> (observed_incident s \<and> is_weighted_signal_eligible s w now a)"
  shows "weighted_score ss w now a \<le> weighted_score (s # ss) w now a"
proof -
  have obs: "has_observed_history (s # ss) w now a = has_observed_history ss w now a"
    using assms by (auto simp: has_observed_history_Cons)
  have "event_total b e (event_contributions w now a e ss)
      \<le> event_total b e (event_contributions w now a e (s # ss))" for b e
    by (auto simp: event_total_def event_contributions_Cons
        intro!: capped_mono event_aggregate_Cons_ge)
  then have "(\<Sum>e\<in>E. event_total b e (event_contributions w now a e ss))
      \<le> (\<Sum>e\<in>E. event_total b e (event_contributions w now a e (s # ss)))" for b E
    by (rule sum_mono)
  then show ?thesis unfolding weighted_score_sum obs by (intro min.mono) auto
qed

lemma weighted_score_Cons_ineligible:
  "\<not> is_weighted_signal_eligible s w now a \<Longrightarrow>
     weighted_score (s # ss) w now a = weighted_score ss w now a"
  by (simp add: weighted_score_sum has_observed_history_Cons event_contributions_Cons)

lemma weighted_score_none_eligible:
  "filter (\<lambda>s. is_weighted_signal_eligible s w now a) ss = [] \<Longrightarrow> weighted_score ss w now a = 0"
proof (induction ss)
  case Nil
  then show ?case by (simp add: weighted_score_def)
next
  case (Cons s ss)
  then show ?case by (simp add: weighted_score_Cons_ineligible split: if_splits)
qed

lemma raw_historical_score_Cons_mono:
  assumes low: "location_precision s \<in> {''admin_area'', ''unknown''}"
  shows "raw_historical_score ss \<le> raw_historical_score (s # ss)"
proof -
  let ?el = "\<lambda>s. is_weighted_signal_eligible s HistoricalWeights None None"
  let ?sc = "\<lambda>ss. weighted_score ss HistoricalWeights None None"
  have mono: "?sc ss \<le> ?sc (s # ss)"
    by (rule weighted_score_Cons_mono) (use low in \<open>auto simp: observed_incident_def\<close>)
  show ?thesis
  proof (cases "?el s")
    case False
    then show ?thesis
      by (simp add: raw_historical_score_def apply_admin_area_only_historical_cap_def
          weighted_score_Cons_ineligible)
  next
    case True
    show ?thesis
    proof (cases "filter ?el ss = []")
      case True
      then have "raw_historical_score ss = 0"
        by (simp add: raw_historical_score_def apply_admin_area_only_historical_cap_def
            weighted_score_none_eligible)
      then show ?thesis using raw_historical_score_bounds [of "s # ss"] by simp
    next
      case False
      with \<open>?el s\<close> mono show ?thesis
        by (auto simp: raw_historical_score_def apply_admin_area_only_historical_cap_def)
    qed
  qed
qed

lemma weighted_score_correlated_absorb:
  assumes corr: "event_type t \<in> set correlated_realtime_event_types"
    and s: "s \<in> set ss" "event_type s = event_type t" "is_weighted_signal_eligible s w now a"
    and le: "contribution w t \<le> contribution w s"
  shows "weighted_score (t # ss) w now a = weighted_score ss w now a"
proof -
  have obs: "has_observed_history (t # ss) w now a = has_observed_history ss w now a"
    using corr by (auto simp: has_observed_history_Cons observed_incident_def
        correlated_realtime_event_types_def)
  have mem: "contribution w s \<in> set (event_contributions w now a (event_type t) ss)"
    using s by (auto simp: event_contributions_def)
  have "foldr max (contribution w t # event_contributions w now a (event_type t) ss) 0
      = foldr max (event_contributions w now a (event_type t) ss) 0"
    using foldr_max_ge [OF mem] le by simp
  then have "event_aggregate e (event_contributions w now a e (t # ss))
      = event_aggregate e (event_contributions w now a e ss)" for e
    using corr by (auto simp: event_aggregate_def event_contributions_Cons)
  then show ?thesis by (simp add: weighted_score_sum event_total_def obs)
qed

section \<open>Properties of the scorer\<close>

text \<open>
  C38. Closed form of the realtime score: over the realtime event types, each event type contributes
  the maximum (correlated ones) or the sum of the contributions of its eligible signals, cut at its
  cap; the total is cut at 100 and rounded to three decimals.
\<close>

theorem realtime_score_closed_form:
  "realtime_score (score_risk signals now) =
     round3 (min (\<Sum>e \<in> {''rainfall'', ''water_level'', ''flood_warning'', ''flood_report'',
                         ''road_closure''}.
       event_total
         (has_observed_history signals RealtimeWeights (Some now) (Some realtime_max_age)) e
         (event_contributions RealtimeWeights (Some now) (Some realtime_max_age) e signals)) 100)"
proof -
  have "set (map fst (weights_of RealtimeWeights)) =
      {''rainfall'', ''water_level'', ''flood_warning'', ''flood_report'', ''road_closure''}"
    by simp
  then show ?thesis
    by (simp only: score_risk_def Let_def raw_realtime_score_def weighted_score_sum
        risk_scoring_result.simps)
qed

text \<open>
  Whatever the evidence, the reported scores stay in their ranges: realtime and historical
  between 0 and 100, confidence between 0 and 1.
\<close>

theorem score_risk_bounds:
  "0 \<le> realtime_score (score_risk signals now) \<and> realtime_score (score_risk signals now) \<le> 100
   \<and> 0 \<le> historical_score (score_risk signals now) \<and> historical_score (score_risk signals now) \<le> 100
   \<and> 0 \<le> confidence_score (score_risk signals now) \<and> confidence_score (score_risk signals now) \<le> 1"
  using round3_within raw_realtime_score_bounds [of signals now]
    raw_historical_score_bounds [of signals] raw_confidence_score_bounds [of signals now]
    round3_mono [of 0 "raw_confidence_score signals now"]
    round3_mono [of "raw_confidence_score signals now" 1]
  by (simp add: score_risk_def Let_def)

text \<open>
  The whole result (scores, levels, summary, reasons, missing sources) is independent of the
  order in which the evidence was loaded.
\<close>

theorem score_risk_order_independent:
  assumes "mset xs = mset ys"
  shows "score_risk xs now = score_risk ys now"
proof -
  have "xs = [] \<longleftrightarrow> ys = []" using assms by auto
  then show ?thesis
    unfolding score_risk_def raw_realtime_score_def raw_confidence_score_def
    using scorer_mset [OF assms] by simp
qed

text \<open>Concrete signals for the witnesses.\<close>

definition sample_signal :: "string \<Rightarrow> risk_evidence_signal" where
  "sample_signal e =
     \<lparr> source_type = ''official'', event_type = e, confidence = 1, distance_to_query_m = Some 0,
       freshness_score = 1, source_weight = 1, risk_factor = 1,
       observed_at = Some (Aware (AwareAt 0 0)), scope = ScopeUnspecified,
       location_precision = ''point'' \<rparr>"

lemmas score_eval =
  score_risk_def raw_realtime_score_def raw_historical_score_def raw_confidence_score_def
  weighted_score_def has_observed_history_def observed_incident_def contribution_def
  weighted_signal_contribution_def is_weighted_signal_eligible_def weight_get_def
  event_total_step_def event_score_cap_def capped_def totals_get_def clamp_def
  precision_factor_def precision_factors_def precision_weighted_event_types_def
  correlated_realtime_event_types_def event_score_caps_def flood_potential_context_cap_def
  apply_admin_area_only_historical_cap_def admin_area_only_historical_cap_def
  observed_history_min_score_within_1km_def has_weighted_evidence_def
  risk_level_of_def confidence_level_of_def confidence_score_of_def missing_sources_of_def
  is_recent_def realtime_max_age_def round3_def round_half_even_def instant_def
  sample_signal_def minutes_def hours_def seconds_def Let_def

lemma score_risk_order_independent_witness:
  "score_risk [sample_signal ''rainfall'', sample_signal ''flood_report''] (AwareAt 0 0)
     = score_risk [sample_signal ''flood_report'', sample_signal ''rainfall''] (AwareAt 0 0)
   \<and> sample_signal ''rainfall'' \<noteq> sample_signal ''flood_report''"
proof -
  have h: "mset [sample_signal ''rainfall'', sample_signal ''flood_report'']
      = mset [sample_signal ''flood_report'', sample_signal ''rainfall'']" by simp
  show ?thesis using score_risk_order_independent [OF h] by (simp add: sample_signal_def)
qed

text \<open>
  Station density is not risk: another measurement of a correlated event type (rainfall, water
  level, flood warning) that contributes no more than one already present changes neither the
  realtime score nor the realtime level.
\<close>

theorem station_density_is_not_risk:
  assumes "event_type t \<in> set correlated_realtime_event_types"
    and "s \<in> set signals" "event_type s = event_type t"
    and "is_weighted_signal_eligible s RealtimeWeights (Some now) (Some realtime_max_age)"
    and "contribution RealtimeWeights t \<le> contribution RealtimeWeights s"
  shows "realtime_score (score_risk (t # signals) now) = realtime_score (score_risk signals now)
         \<and> realtime_level (score_risk (t # signals) now) = realtime_level (score_risk signals now)"
proof -
  have "has_weighted_evidence signals RealtimeWeights (Some now) (Some realtime_max_age)"
    and "has_weighted_evidence (t # signals) RealtimeWeights (Some now) (Some realtime_max_age)"
    using assms(2,4) by (auto simp: has_weighted_evidence_def list_ex_iff)
  then show ?thesis
    using weighted_score_correlated_absorb [OF assms]
    by (simp add: score_risk_def raw_realtime_score_def Let_def)
qed

lemma station_density_is_not_risk_witness:
  "realtime_score (score_risk [sample_signal ''rainfall'', sample_signal ''rainfall''] (AwareAt 0 0)) = 40
   \<and> realtime_level (score_risk [sample_signal ''rainfall'', sample_signal ''rainfall''] (AwareAt 0 0))
       = RiskMedium"
proof -
  have one: "realtime_score (score_risk [sample_signal ''rainfall''] (AwareAt 0 0)) = 40"
    "realtime_level (score_risk [sample_signal ''rainfall''] (AwareAt 0 0)) = RiskMedium"
    by (simp_all add: score_eval)
  have "realtime_score (score_risk [sample_signal ''rainfall'', sample_signal ''rainfall''] (AwareAt 0 0))
      = realtime_score (score_risk [sample_signal ''rainfall''] (AwareAt 0 0))
    \<and> realtime_level (score_risk [sample_signal ''rainfall'', sample_signal ''rainfall''] (AwareAt 0 0))
      = realtime_level (score_risk [sample_signal ''rainfall''] (AwareAt 0 0))"
    by (rule station_density_is_not_risk [where s = "sample_signal ''rainfall''"])
      (simp_all add: score_eval)
  with one show ?thesis by simp
qed

text \<open>
  Low-precision evidence (an admin-area citation or one of unknown precision) never lowers the
  historical score or the historical level, wherever it stands in the evidence.
\<close>

theorem low_precision_evidence_never_lowers_history:
  assumes "location_precision s \<in> {''admin_area'', ''unknown''}"
  shows "historical_score (score_risk (xs @ ys) now) \<le> historical_score (score_risk (xs @ s # ys) now)
         \<and> historical_level (score_risk (xs @ ys) now) \<le> historical_level (score_risk (xs @ s # ys) now)"
proof -
  let ?ev = "\<lambda>ss. has_weighted_evidence ss HistoricalWeights None None"
  have le: "raw_historical_score (xs @ ys) \<le> raw_historical_score (xs @ s # ys)"
    using raw_historical_score_Cons_mono [OF assms, of "xs @ ys"]
      raw_historical_score_mset [of "s # xs @ ys" "xs @ s # ys"] by simp
  have "?ev (xs @ ys) \<Longrightarrow> ?ev (xs @ s # ys)" by (auto simp: has_weighted_evidence_def)
  then have "risk_level_of (raw_historical_score (xs @ ys)) (?ev (xs @ ys))
      \<le> risk_level_of (raw_historical_score (xs @ s # ys)) (?ev (xs @ s # ys))"
    using risk_ladder.grade_mono [OF le] by (cases "?ev (xs @ ys)") auto
  with round3_mono [OF le] show ?thesis by (simp add: score_risk_def Let_def)
qed

lemma low_precision_evidence_never_lowers_history_witness:
  "historical_score (score_risk ([sample_signal ''flood_potential''] @ []) (AwareAt 0 0))
   \<le> historical_score (score_risk ([sample_signal ''flood_potential'']
        @ (sample_signal ''flood_report'')\<lparr>location_precision := ''admin_area''\<rparr> # []) (AwareAt 0 0))"
  using low_precision_evidence_never_lowers_history
    [of "(sample_signal ''flood_report'')\<lparr>location_precision := ''admin_area''\<rparr>"
      "[sample_signal ''flood_potential'']" "[]" "AwareAt 0 0"]
  by simp

text \<open>
  The comment above \<open>has_observed_history\<close> says that garbage evidence must never be able to
  lower the historical score. The guard looks at the precision only: a point-precision flood report
  whose contribution is zero (confidence 0) still switches on the context cap of the flood
  potential, and lowers the historical score from 40 to 20 and the level from medium to low.
\<close>

theorem zero_confidence_report_lowers_history:
  "\<exists>pot rep now.
     weighted_signal_contribution rep (weight_get HistoricalWeights (event_type rep)) = 0
     \<and> historical_score (score_risk [pot] now) = 40
     \<and> historical_level (score_risk [pot] now) = RiskMedium
     \<and> historical_score (score_risk [pot, rep] now) = 20
     \<and> historical_level (score_risk [pot, rep] now) = RiskLow"
proof -
  let ?pot = "sample_signal ''flood_potential''"
  let ?rep = "(sample_signal ''flood_report'')\<lparr>confidence := 0, distance_to_query_m := Some 2000\<rparr>"
  have "weighted_signal_contribution ?rep (weight_get HistoricalWeights (event_type ?rep)) = 0"
    by (simp add: score_eval)
  moreover have "historical_score (score_risk [?pot] (AwareAt 0 0)) = 40"
    "historical_level (score_risk [?pot] (AwareAt 0 0)) = RiskMedium"
    by (simp_all add: score_eval)
  moreover have "historical_score (score_risk [?pot, ?rep] (AwareAt 0 0)) = 20"
    "historical_level (score_risk [?pot, ?rep] (AwareAt 0 0)) = RiskLow"
    by (simp_all add: score_eval)
  ultimately show ?thesis by blast
qed

text \<open>
  SDD 9.3: when every eligible historical signal is of admin-area precision, the historical
  level does not exceed medium, however many citations there are.
\<close>

theorem admin_area_only_history_at_most_medium:
  assumes "\<And>s. s \<in> set signals \<Longrightarrow> is_weighted_signal_eligible s HistoricalWeights None None
             \<Longrightarrow> location_precision s = ''admin_area''"
  shows "historical_level (score_risk signals now) \<le> RiskMedium"
proof (cases "has_weighted_evidence signals HistoricalWeights None None")
  case True
  then have "filter (\<lambda>s. is_weighted_signal_eligible s HistoricalWeights None None) signals \<noteq> []"
    by (auto simp: has_weighted_evidence_def list_ex_iff filter_empty_conv)
  with assms have "raw_historical_score signals \<le> 40"
    by (auto simp: raw_historical_score_def apply_admin_area_only_historical_cap_def
        admin_area_only_historical_cap_def list_all_iff)
  then have "risk_level_of (raw_historical_score signals) True \<le> risk_level_of 40 True"
    by (rule risk_ladder.grade_mono)
  with True show ?thesis by (simp add: score_risk_def Let_def risk_level_of_def)
next
  case False
  then show ?thesis by (simp add: score_risk_def Let_def)
qed

lemma admin_area_only_history_at_most_medium_witness:
  "historical_level (score_risk
     (replicate 4 ((sample_signal ''flood_report'')\<lparr>location_precision := ''admin_area''\<rparr>))
     (AwareAt 0 0)) \<le> RiskMedium"
  by (rule admin_area_only_history_at_most_medium) (auto simp: sample_signal_def)

text \<open>
  Confidence is capped below the high level whenever a required realtime source is missing or
  there is no historical evidence.
\<close>

theorem confidence_capped_without_sources:
  assumes "missing_sources (score_risk signals now) \<noteq> []
           \<or> historical_level (score_risk signals now) = RiskUnknown"
  shows "confidence_score (score_risk signals now) \<le> 0.74
         \<and> confidence_level (score_risk signals now) \<noteq> ConfHigh"
proof -
  have le: "raw_confidence_score signals now \<le> 0.74"
    using assms by (auto simp: score_risk_def Let_def raw_confidence_score_def)
  have "confidence_level_of (raw_confidence_score signals now) True \<le> confidence_level_of 0.74 True"
    using confidence_ladder.grade_mono [OF le] .
  also have "confidence_level_of 0.74 True = ConfMedium"
    by (simp add: confidence_level_of_def)
  finally have "confidence_level_of (raw_confidence_score signals now) True \<noteq> ConfHigh"
    by (auto simp: level_order_simps)
  then have "confidence_level_of (raw_confidence_score signals now) b \<noteq> ConfHigh" for b
    by (cases b) (auto simp: confidence_level_of_def)
  moreover have "round3 (raw_confidence_score signals now) \<le> 0.74"
    using round3_mono [OF le] by simp
  ultimately show ?thesis by (simp add: score_risk_def Let_def)
qed

lemma confidence_capped_without_sources_witness:
  "missing_sources (score_risk [sample_signal ''flood_potential''] (AwareAt 0 0))
     = [MissingRainfall, MissingWaterOrFloodSensor]
   \<and> confidence_level (score_risk [sample_signal ''flood_potential''] (AwareAt 0 0)) \<noteq> ConfHigh"
proof -
  have m: "missing_sources (score_risk [sample_signal ''flood_potential''] (AwareAt 0 0))
      = [MissingRainfall, MissingWaterOrFloodSensor]"
    by (simp add: score_eval)
  then show ?thesis
    using confidence_capped_without_sources [of "[sample_signal ''flood_potential'']" "AwareAt 0 0"]
    by simp
qed

text \<open>
  Evidence that is not current (of historical or context scope, or not observed within the last
  six hours) has no influence on the realtime score, the realtime level or the missing sources.
\<close>

theorem stale_evidence_leaves_realtime_unchanged:
  assumes "scope t \<in> {ScopeHistorical, ScopeContext} \<or> \<not> is_recent t now realtime_max_age"
  shows "realtime_score (score_risk (t # signals) now) = realtime_score (score_risk signals now)
         \<and> realtime_level (score_risk (t # signals) now) = realtime_level (score_risk signals now)
         \<and> missing_sources (score_risk (t # signals) now) = missing_sources (score_risk signals now)"
proof -
  have "\<not> is_weighted_signal_eligible t RealtimeWeights (Some now) (Some realtime_max_age)"
    using assms by (auto simp: is_weighted_signal_eligible_def)
  then show ?thesis
    by (simp add: score_risk_def Let_def raw_realtime_score_def weighted_score_Cons_ineligible
        has_weighted_evidence_def missing_sources_of_def)
qed

lemma stale_evidence_leaves_realtime_unchanged_witness:
  "realtime_score (score_risk [sample_signal ''rainfall''] (AwareAt (hours 7) 0))
     = realtime_score (score_risk [] (AwareAt (hours 7) 0))"
proof -
  have "\<not> is_recent (sample_signal ''rainfall'') (AwareAt (hours 7) 0) realtime_max_age"
    by (simp add: score_eval)
  then show ?thesis
    using stale_evidence_leaves_realtime_unchanged
      [of "sample_signal ''rainfall''" "AwareAt (hours 7) 0" "[]"] by simp
qed

end
