(* ===== verification/Assessment_Data.thy ===== *)
theory Assessment_Data
  imports Nearby_Coverage Risk_Scoring
begin

text \<open>
  What one assessment reads, \<open>apps/api/app/domain/assessment/repository.py\<close> and \<open>models.py\<close>: the
  jurisdiction of the query point decides which adapters apply, every read may fail on its own, and
  the results are filtered, merged and diagnosed into one \<open>AssessmentData\<close>. The database itself is
  a parameter: a read is a function from the arguments the loader computes to its rows, or \<open>None\<close>
  where the query raises \<open>EvidenceRepositoryUnavailable\<close>. Timings are not modelled.
\<close>

section \<open>Records\<close>

text \<open>
  \<open>EvidenceRecord\<close> of \<open>domain/evidence/repository.py\<close>. A geometry is a type with its coordinates,
  which nothing here looks into.
\<close>

record evidence_record =
  er_id :: string
  er_source_id :: string
  er_source_type :: string
  er_event_type :: string
  er_title :: utext
  er_summary :: utext
  er_url :: "string option"
  er_occurred_at :: "py_datetime option"
  er_observed_at :: "py_datetime option"
  er_ingested_at :: py_datetime
  er_lat :: "rat option"
  er_lng :: "rat option"
  er_geometry :: "(string \<times> string) option"
  er_distance_to_query_m :: "rat option"
  er_confidence :: rat
  er_freshness_score :: rat
  er_source_weight :: rat
  er_privacy_level :: string
  er_raw_ref :: "string option"
  er_rainfall_mm_1h :: "rat option"
  er_water_level_m :: "rat option"
  er_warning_level_m :: "rat option"
  er_flood_depth_cm :: "rat option"
  er_realtime_risk_factor :: "rat option"
  er_evidence_scope :: evidence_scope
  er_adapter_key :: "string option"
  er_official_event_origin_key :: "string option"
  er_active_from :: "py_datetime option"
  er_active_until :: "py_datetime option"
  er_location_precision :: string
  er_limitations :: "utext list"

record source_mapping =
  sm_adapter_key :: string
  sm_signal_type :: string
  sm_coverage_scope :: string
  sm_jurisdiction_code :: string
  sm_jurisdiction_name :: "utext option"
  sm_requirement_role :: string
  sm_mapping_revision :: string
  sm_redundancy_of_adapter_key :: "string option"

record signal_contract =
  sc_jurisdiction_code :: string
  sc_jurisdiction_name :: utext
  sc_signal_type :: string
  sc_catalog_status :: string
  sc_mapping_revision :: string
  sc_mapping_proof_valid :: bool

record jurisdiction_context =
  jc_resolution_status :: jurisdiction_status
  jc_home_jurisdiction_code :: "string option"
  jc_home_jurisdiction_name :: "utext option"
  jc_considered_jurisdictions :: "(string \<times> utext) list"
  jc_signal_contracts :: "signal_contract list"
  jc_source_mappings :: "source_mapping list"

definition jc_adapter_keys :: "jurisdiction_context \<Rightarrow> string list" where
  "jc_adapter_keys j = sorted_list_of_set (set (map sm_adapter_key (jc_source_mappings j)))"

definition jc_mapping_revisions :: "jurisdiction_context \<Rightarrow> string list" where
  "jc_mapping_revisions j =
     sorted_list_of_set
       (set (map sc_mapping_revision (jc_signal_contracts j)
             @ map sm_mapping_revision (jc_source_mappings j)))"

datatype source_state =
  StatusFresh | StatusDegraded | StatusStale | StatusFailed | StatusDisabled | StatusNotApplicable

datatype source_message = HealthMessage health_message | RequiredSourceUnregistered

record assessment_source_state =
  as_source_key :: string
  as_signal_type :: signal_type
  as_state :: source_state
  as_reason_code :: health_reason
  as_observed_at :: "py_datetime option"
  as_checked_at :: "py_datetime option"
  as_message :: "source_message option"

datatype local_gap = TainanSensorGap | KaohsiungNotApproved | PingtungNotApproved

record assessment_data =
  ad_current_official :: "evidence_record list"
  ad_historical :: "evidence_record list"
  ad_nearby_coverage :: nearby_coverage
  ad_source_states :: "assessment_source_state list"
  ad_required_realtime_source_keys :: "string set"
  ad_current_available :: bool
  ad_historical_available :: bool
  ad_coverage_available :: bool
  ad_health_available :: bool
  ad_jurisdiction_available :: bool
  ad_resolved_admin_code :: "string option"
  ad_resolved_admin_name :: "utext option"
  ad_local_machine_feed_missing :: "local_gap list"
  ad_recent_incident_context :: "evidence_record list"

section \<open>Constants\<close>

definition national_fallback_keys :: "string set" where
  "national_fallback_keys =
     set [''official.cwa.rainfall'', ''official.cwa.heavy_rain_warning'',
          ''official.wra.water_level'', ''official.wra_iow.flood_depth'', ''official.ncdr.cap'']"

definition local_policy :: "(string \<times> (string option \<times> local_gap)) list" where
  "local_policy =
     [(''67000000'', (Some ''local.tainan.flood_sensor'', TainanSensorGap)),
      (''64000000'', (None, KaohsiungNotApproved)),
      (''10013000'', (None, PingtungNotApproved))]"

definition realtime_support_radius_m :: int where
  "realtime_support_radius_m = 5000"

definition observed_flood_history_support_radius_m :: int where
  "observed_flood_history_support_radius_m = 1000"

definition scoring_current_adapter_events :: "(string option \<times> string) list" where
  "scoring_current_adapter_events =
     [(Some ''official.cwa.rainfall'', ''rainfall''),
      (Some ''official.wra.water_level'', ''water_level''),
      (Some ''official.wra_iow.flood_depth'', ''flood_report''),
      (Some ''local.tainan.flood_sensor'', ''flood_report''),
      (Some ''official.cwa.heavy_rain_warning'', ''flood_warning''),
      (Some ''official.ncdr.cap'', ''flood_warning'')]"

definition reviewed_signal_contract_revisions :: "(signal_type \<times> string) list" where
  "reviewed_signal_contract_revisions =
     [(Rainfall, ''2026-08-24-v1-baseline''),
      (WaterLevel, ''2026-08-24-v1-baseline''),
      (FloodDepth, ''2026-08-24-v1-baseline''),
      (SewerWaterLevel, ''2026-08-29-sewer-publication'')]"

section \<open>Current official evidence\<close>

text \<open>
  The rank of a warning: the authority, then the newest observation. A naive timestamp is read as
  UTC, the timezone of the deployment.
\<close>

definition warning_origin_rank :: "evidence_record \<Rightarrow> int \<times> int" where
  "warning_origin_rank item =
     ((case map_of [(''official.cwa.heavy_rain_warning'', 0), (''official.ncdr.cap'', 1)]
              (str_or_empty (er_adapter_key item)) of
         Some r \<Rightarrow> r | None \<Rightarrow> 2),
      - (case er_observed_at item of None \<Rightarrow> 0 | Some t \<Rightarrow> normalized_utc t))"

definition scoring_current :: "evidence_record \<Rightarrow> bool" where
  "scoring_current item \<longleftrightarrow>
     er_source_type item = ''official''
     \<and> er_evidence_scope item = ScopeCurrent
     \<and> (er_adapter_key item, er_event_type item) \<in> set scoring_current_adapter_events"

definition warning_key :: "evidence_record \<Rightarrow> string option" where
  "warning_key item =
     (if er_event_type item = ''flood_warning'' then er_official_event_origin_key item else None)"

text \<open>
  The loop over the filtered records keeps the output so far and the index of the warning kept for
  every origin.
\<close>

fun merge_warnings ::
  "evidence_record list \<Rightarrow> (string \<rightharpoonup> nat) \<Rightarrow> evidence_record list \<Rightarrow> evidence_record list" where
  "merge_warnings output index [] = output"
| "merge_warnings output index (item # items) =
     (case warning_key item of
        None \<Rightarrow> merge_warnings (output @ [item]) index items
      | Some key \<Rightarrow>
          (case index key of
             None \<Rightarrow> merge_warnings (output @ [item]) (index(key \<mapsto> length output)) items
           | Some i \<Rightarrow>
               if warning_origin_rank item < warning_origin_rank (output ! i)
               then merge_warnings (output[i := item]) index items
               else merge_warnings output index items))"

definition official_current :: "evidence_record list \<Rightarrow> evidence_record list" where
  "official_current records = merge_warnings [] Map.empty (filter scoring_current records)"

section \<open>Filters of the reads\<close>

definition without_excluded :: "evidence_record list \<Rightarrow> string set \<Rightarrow> evidence_record list" where
  "without_excluded records excluded =
     filter (\<lambda>r. str_or_empty (er_adapter_key r) \<notin> excluded) records"

definition historical_only :: "evidence_record list \<Rightarrow> evidence_record list" where
  "historical_only records =
     filter (\<lambda>r. er_source_type r \<in> {''official'', ''derived''}
               \<and> (er_evidence_scope r = ScopeHistorical \<or> er_event_type r = ''flood_potential''))
       records"

section \<open>Source states\<close>

fun source_state_by_health :: "health_status \<Rightarrow> source_state" where
  "source_state_by_health Healthy = StatusFresh"
| "source_state_by_health DegradedHealth = StatusDegraded"
| "source_state_by_health FailedHealth = StatusFailed"
| "source_state_by_health DisabledHealth = StatusDisabled"
| "source_state_by_health UnknownHealth = StatusStale"

text \<open>\<open>{item.source_id: item for item in source_health}\<close>: the last item of an identifier wins.\<close>

definition by_public_id :: "source_health list \<Rightarrow> string \<Rightarrow> source_health option" where
  "by_public_id source_health i =
     map_of (map (\<lambda>h. (sh_source_id h, h)) (rev source_health)) i"

definition source_state_of ::
  "source_health list \<Rightarrow> string set \<Rightarrow> string \<Rightarrow> assessment_source_state result" where
  "source_state_of source_health required key =
     (case by_public_id source_health (public_realtime_source_id key) of
        None \<Rightarrow> Inr
          \<lparr> as_source_key = key,
            as_signal_type = coverage_signal_type ''status_only'' key,
            as_state = (if key \<in> required then StatusDisabled else StatusNotApplicable),
            as_reason_code = NotYetObserved,
            as_observed_at = None,
            as_checked_at = None,
            as_message = (if key \<in> required then Some RequiredSourceUnregistered else None) \<rparr>
      | Some item \<Rightarrow>
          (case sh_signal_types item of
             [] \<Rightarrow> Inl IndexError
           | t # _ \<Rightarrow> Inr
               \<lparr> as_source_key = key,
                 as_signal_type = t,
                 as_state = source_state_by_health (sh_health_status item),
                 as_reason_code = sh_reason_code item,
                 as_observed_at = sh_observed_at item,
                 as_checked_at = sh_checked_at item,
                 as_message = Some (HealthMessage (sh_message item)) \<rparr>))"

definition source_states ::
  "source_health list \<Rightarrow> string set \<Rightarrow> string set \<Rightarrow> assessment_source_state list result" where
  "source_states source_health applicable required =
     rtraverse (source_state_of source_health required) (sorted_list_of_set applicable)"

section \<open>Jurisdiction\<close>

definition unavailable_jurisdiction :: jurisdiction_context where
  "unavailable_jurisdiction =
     \<lparr> jc_resolution_status = JurisdictionUnavailable,
       jc_home_jurisdiction_code = None,
       jc_home_jurisdiction_name = None,
       jc_considered_jurisdictions = [],
       jc_signal_contracts = [],
       jc_source_mappings = [] \<rparr>"

definition contract_valid_for :: "signal_type \<Rightarrow> string \<Rightarrow> signal_contract \<Rightarrow> bool" where
  "contract_valid_for t revision c \<longleftrightarrow>
     sc_signal_type c = signal_type_name t
     \<and> sc_catalog_status c = ''reviewed_complete''
     \<and> sc_mapping_proof_valid c
     \<and> sc_mapping_revision c = revision"

definition complete_signal_types :: "jurisdiction_context \<Rightarrow> signal_type list" where
  "complete_signal_types j =
     (let considered = map fst (jc_considered_jurisdictions j)
      in if considered = [] then []
         else sort_key signal_type_name
           (map fst
             (filter (\<lambda>(t, revision).
                set considered \<subseteq>
                  set (map sc_jurisdiction_code
                    (filter (contract_valid_for t revision) (jc_signal_contracts j))))
               reviewed_signal_contract_revisions)))"

definition jurisdictions_by_adapter :: "jurisdiction_context \<Rightarrow> string \<Rightarrow> utext list option" where
  "jurisdictions_by_adapter j key =
     (let names = List.map_filter
            (\<lambda>m. if sm_adapter_key m = key
                 then (case sm_jurisdiction_name m of
                         Some n \<Rightarrow> if n = [] then None else Some n
                       | None \<Rightarrow> None)
                 else None)
            (jc_source_mappings j)
      in if names = [] then None else Some (sorted_list_of_set (set names)))"

definition local_machine_gaps ::
  "jurisdiction_context \<Rightarrow> source_health list \<Rightarrow> local_gap list" where
  "local_machine_gaps j source_health =
     (case Option.bind (jc_home_jurisdiction_code j) (map_of local_policy) of
        None \<Rightarrow> []
      | Some (None, message) \<Rightarrow> [message]
      | Some (Some key, message) \<Rightarrow>
          (case find (\<lambda>h. sh_source_id h = public_realtime_source_id key) source_health of
             Some h \<Rightarrow>
               if sh_health_status h \<in> {Healthy, DegradedHealth} then [] else [message]
           | None \<Rightarrow> [message]))"

section \<open>Loading\<close>

text \<open>The queries of one request; the point and the clock are fixed, the other arguments shown.\<close>

record assessment_reads =
  rd_jurisdiction :: "int \<Rightarrow> jurisdiction_context option"
  rd_latest :: "int \<Rightarrow> evidence_record list option"
  rd_history :: "int \<Rightarrow> evidence_record list option"
  rd_observed_flood_history :: "int \<Rightarrow> evidence_record list option"
  rd_coverage :: "coverage_row list option"
  rd_recent_context :: "int \<Rightarrow> evidence_record list option"
  rd_health :: "string list \<Rightarrow> health_row list option"

definition rows_or_empty :: "'a list option \<Rightarrow> 'a list" where
  "rows_or_empty r = (case r of None \<Rightarrow> [] | Some xs \<Rightarrow> xs)"

definition applicable_keys_of :: "jurisdiction_context \<Rightarrow> bool \<Rightarrow> string set" where
  "applicable_keys_of j available =
     (if available \<and> jc_resolution_status j = JurisdictionVerified
      then set (jc_adapter_keys j) else national_fallback_keys)"

definition required_keys_of :: "jurisdiction_context \<Rightarrow> string set \<Rightarrow> string set" where
  "required_keys_of j applicable =
     (if applicable \<noteq> {}
      then set (map sm_adapter_key
             (filter (\<lambda>m. sm_requirement_role m = ''required'') (jc_source_mappings j)))
      else {})"

definition disabled_data :: "int \<Rightarrow> py_datetime \<Rightarrow> assessment_data result" where
  "disabled_data radius_m as_of =
     rbind (build_nearby_realtime_coverage
              \<lparr> rq_rows = [], rq_query_radius_m = radius_m, rq_evaluated_at = as_of,
                rq_repository_unavailable = True, rq_source_health = [],
                rq_source_health_unavailable = True, rq_source_health_checked = False,
                rq_jurisdiction_status = JurisdictionUnavailable,
                rq_jurisdiction_checked = False, rq_jurisdiction_mapping_missing = False,
                rq_complete_signal_types = [], rq_home_jurisdiction = None,
                rq_considered_jurisdictions = [], rq_mapping_revisions = [] \<rparr>)
       (\<lambda>coverage. Inr
         \<lparr> ad_current_official = [], ad_historical = [], ad_nearby_coverage = coverage,
           ad_source_states = [], ad_required_realtime_source_keys = {},
           ad_current_available = False, ad_historical_available = False,
           ad_coverage_available = False, ad_health_available = False,
           ad_jurisdiction_available = False,
           ad_resolved_admin_code = jc_home_jurisdiction_code unavailable_jurisdiction,
           ad_resolved_admin_name = jc_home_jurisdiction_name unavailable_jurisdiction,
           ad_local_machine_feed_missing = [], ad_recent_incident_context = [] \<rparr>)"

text \<open>The arguments of the coverage builder, as \<open>load\<close> computes them.\<close>

definition coverage_request_of ::
  "assessment_reads \<Rightarrow> int \<Rightarrow> py_datetime \<Rightarrow> source_health list \<Rightarrow> bool \<Rightarrow> coverage_request" where
  "coverage_request_of reads radius_m as_of source_health health_available =
     (let j = (case rd_jurisdiction reads radius_m of
                 None \<Rightarrow> unavailable_jurisdiction | Some j \<Rightarrow> j);
          available = (rd_jurisdiction reads radius_m \<noteq> None);
          applicable = applicable_keys_of j available
      in \<lparr> rq_rows = filter (\<lambda>row. cr_adapter_key row \<in> applicable)
                      (rows_or_empty (rd_coverage reads)),
           rq_query_radius_m = radius_m,
           rq_evaluated_at = as_of,
           rq_repository_unavailable = (rd_coverage reads = None),
           rq_source_health = source_health,
           rq_source_health_unavailable = (\<not> health_available),
           rq_source_health_checked = health_available,
           rq_jurisdiction_status = jc_resolution_status j,
           rq_jurisdiction_checked = available,
           rq_jurisdiction_mapping_missing = (applicable = {}),
           rq_complete_signal_types = complete_signal_types j,
           rq_home_jurisdiction = jc_home_jurisdiction_name j,
           rq_considered_jurisdictions = map snd (jc_considered_jurisdictions j),
           rq_mapping_revisions = jc_mapping_revisions j \<rparr>)"

definition load_assessment ::
  "assessment_reads \<Rightarrow> bool \<Rightarrow> string set \<Rightarrow> int \<Rightarrow> py_datetime \<Rightarrow> assessment_data result" where
  "load_assessment reads enabled excluded radius_m as_of =
     (if \<not> enabled then disabled_data radius_m as_of
      else
        let j = (case rd_jurisdiction reads radius_m of
                   None \<Rightarrow> unavailable_jurisdiction | Some j \<Rightarrow> j);
            jurisdiction_available = (rd_jurisdiction reads radius_m \<noteq> None);
            applicable = applicable_keys_of j jurisdiction_available;
            required = required_keys_of j applicable;
            latest = rd_latest reads (max radius_m realtime_support_radius_m);
            history = rd_history reads radius_m;
            observed = rd_observed_flood_history reads
                         (max radius_m observed_flood_history_support_radius_m);
            health = rd_health reads (sorted_list_of_set applicable)
        in rbind (build_nearby_source_health (rows_or_empty health) as_of
                    (jurisdictions_by_adapter j) (Some required))
          (\<lambda>source_health.
           rbind (build_nearby_realtime_coverage
                    (coverage_request_of reads radius_m as_of source_health (health \<noteq> None)))
          (\<lambda>coverage.
           rbind (source_states source_health applicable required)
          (\<lambda>states. Inr
            \<lparr> ad_current_official = official_current
                (filter (\<lambda>item. case er_adapter_key item of None \<Rightarrow> False | Some key \<Rightarrow> key \<in> applicable)
                   (rows_or_empty latest)),
              ad_historical =
                without_excluded (rows_or_empty observed) excluded
                @ historical_only (without_excluded (rows_or_empty history) excluded),
              ad_nearby_coverage = coverage,
              ad_source_states = states,
              ad_required_realtime_source_keys = required,
              ad_current_available = (latest \<noteq> None),
              ad_historical_available = (history \<noteq> None \<and> observed \<noteq> None),
              ad_coverage_available = (rd_coverage reads \<noteq> None),
              ad_health_available = (health \<noteq> None),
              ad_jurisdiction_available = jurisdiction_available,
              ad_resolved_admin_code = jc_home_jurisdiction_code j,
              ad_resolved_admin_name = jc_home_jurisdiction_name j,
              ad_local_machine_feed_missing = local_machine_gaps j source_health,
              ad_recent_incident_context =
                without_excluded (rows_or_empty (rd_recent_context reads radius_m)) excluded \<rparr>))))"

section \<open>Merging warnings\<close>

text \<open>
  What the loop keeps: the index knows exactly the warnings in the output, and every record seen is
  in the output or is a warning that a better one of its origin stands for.
\<close>

definition index_exact :: "evidence_record list \<Rightarrow> (string \<rightharpoonup> nat) \<Rightarrow> bool" where
  "index_exact outs index \<longleftrightarrow>
     (\<forall>k i. index k = Some i \<longleftrightarrow> i < length outs \<and> warning_key (outs ! i) = Some k)"

definition stands_for :: "evidence_record \<Rightarrow> evidence_record \<Rightarrow> bool" where
  "stands_for y x \<longleftrightarrow>
     y = x \<or> (warning_key y = warning_key x \<and> warning_key x \<noteq> None
              \<and> warning_origin_rank y \<le> warning_origin_rank x)"

definition merged :: "evidence_record list \<Rightarrow> evidence_record list \<Rightarrow> bool" where
  "merged seen outs \<longleftrightarrow>
     set outs \<subseteq> set seen \<and> (\<forall>x\<in>set seen. \<exists>y\<in>set outs. stands_for y x)"

lemma stands_for_refl [simp]: "stands_for x x"
  by (simp add: stands_for_def)

lemma stands_for_trans: "stands_for z y \<Longrightarrow> stands_for y x \<Longrightarrow> stands_for z x"
  by (auto simp: stands_for_def)

lemma index_exact_append_plain:
  "index_exact outs index \<Longrightarrow> warning_key item = None \<Longrightarrow> index_exact (outs @ [item]) index"
  by (auto simp: index_exact_def nth_append less_Suc_eq)

lemma index_exact_append_warning:
  "index_exact outs index \<Longrightarrow> warning_key item = Some k \<Longrightarrow> index k = None \<Longrightarrow>
     index_exact (outs @ [item]) (index(k \<mapsto> length outs))"
  unfolding index_exact_def
  by (auto simp: nth_append less_Suc_eq) (metis option.distinct(1))

lemma index_exact_update:
  "index_exact outs index \<Longrightarrow> warning_key item = Some k \<Longrightarrow> index k = Some i \<Longrightarrow>
     index_exact (outs[i := item]) index"
  unfolding index_exact_def by (auto simp: nth_list_update)

lemma merged_append: "merged seen outs \<Longrightarrow> merged (seen @ [item]) (outs @ [item])"
  by (fastforce simp: merged_def)

lemma merged_keep:
  "merged seen outs \<Longrightarrow> y \<in> set outs \<Longrightarrow> stands_for y item \<Longrightarrow> merged (seen @ [item]) outs"
  by (auto simp: merged_def)

lemma merged_replace:
  assumes "merged seen outs" and "i < length outs" and "stands_for item (outs ! i)"
  shows "merged (seen @ [item]) (outs[i := item])"
proof -
  have "\<exists>y\<in>set (outs[i := item]). stands_for y x" if "x \<in> set (seen @ [item])" for x
  proof (cases "x \<in> set seen")
    case True
    then obtain y where y: "y \<in> set outs" "stands_for y x" using assms(1) by (auto simp: merged_def)
    then obtain j where j: "j < length outs" "y = outs ! j" by (auto simp: in_set_conv_nth)
    show ?thesis
    proof (cases "j = i")
      case True
      then have "stands_for item x" using assms(3) y j stands_for_trans by blast
      then show ?thesis using set_update_memI [OF assms(2)] by blast
    next
      case False
      then have "y \<in> set (outs[i := item])"
        using j by (metis in_set_conv_nth length_list_update nth_list_update_neq)
      with y show ?thesis by blast
    qed
  next
    case False
    then have "x = item" using that by simp
    then show ?thesis using set_update_memI [OF assms(2)] stands_for_refl by blast
  qed
  moreover have "set (outs[i := item]) \<subseteq> insert item (set outs)" by (rule set_update_subset_insert)
  ultimately show ?thesis using assms(1) by (auto simp: merged_def)
qed

lemma merge_warnings_correct:
  "index_exact outs index \<Longrightarrow> merged seen outs \<Longrightarrow>
     (\<exists>index'. index_exact (merge_warnings outs index items) index')
     \<and> merged (seen @ items) (merge_warnings outs index items)"
proof (induction items arbitrary: outs index seen)
  case Nil
  then show ?case by auto
next
  case (Cons item items)
  have step: "seen @ item # items = (seen @ [item]) @ items" by simp
  show ?case
  proof (cases "warning_key item")
    case None
    then show ?thesis
      unfolding step
      using Cons.IH [OF index_exact_append_plain [OF Cons.prems(1) None]
          merged_append [OF Cons.prems(2)]] by simp
  next
    case key: (Some k)
    show ?thesis
    proof (cases "index k")
      case None
      have eq: "merge_warnings outs index (item # items)
          = merge_warnings (outs @ [item]) (index(k \<mapsto> length outs)) items"
        using key None by simp
      show ?thesis
        unfolding step eq
        by (rule Cons.IH [OF index_exact_append_warning [OF Cons.prems(1) key None]
            merged_append [OF Cons.prems(2)]])
    next
      case (Some i)
      then have i: "i < length outs" "warning_key (outs ! i) = Some k"
        using Cons.prems(1) by (auto simp: index_exact_def)
      show ?thesis
      proof (cases "warning_origin_rank item < warning_origin_rank (outs ! i)")
        case True
        from less_imp_le [OF this] have "stands_for item (outs ! i)"
          using key i by (simp add: stands_for_def)
        from Cons.IH [OF index_exact_update [OF Cons.prems(1) key Some]
            merged_replace [OF Cons.prems(2) i(1) this]]
        show ?thesis unfolding step using key Some True by simp
      next
        case False
        then have "warning_origin_rank (outs ! i) \<le> warning_origin_rank item" by (rule leI)
        then have "stands_for (outs ! i) item" using key i by (simp add: stands_for_def)
        from Cons.IH [OF Cons.prems(1) merged_keep [OF Cons.prems(2) nth_mem [OF i(1)] this]]
        show ?thesis unfolding step using key Some False by simp
      qed
    qed
  qed
qed

lemma distinct_map_filter:
  "(\<And>i j k. i < length xs \<Longrightarrow> j < length xs \<Longrightarrow> f (xs ! i) = Some k \<Longrightarrow> f (xs ! j) = Some k \<Longrightarrow>
      i = j) \<Longrightarrow> distinct (List.map_filter f xs)"
proof (induction xs)
  case Nil
  then show ?case by (simp add: map_filter_simps)
next
  case (Cons x xs)
  have IH: "distinct (List.map_filter f xs)"
  proof (rule Cons.IH)
    fix i j k
    assume "i < length xs" "j < length xs" "f (xs ! i) = Some k" "f (xs ! j) = Some k"
    then show "i = j" using Cons.prems [of "Suc i" "Suc j" k] by simp
  qed
  have "k \<notin> set (List.map_filter f xs)" if "f x = Some k" for k
  proof
    assume "k \<in> set (List.map_filter f xs)"
    then obtain i where "i < length xs" "f (xs ! i) = Some k"
      by (auto simp: List.map_filter_def in_set_conv_nth)
    with Cons.prems [of 0 "Suc i" k] that show False by simp
  qed
  with IH show ?case by (simp add: map_filter_simps split: option.splits)
qed

lemma index_exact_distinct: "index_exact outs index \<Longrightarrow> distinct (List.map_filter warning_key outs)"
  by (rule distinct_map_filter) (metis index_exact_def option.inject)

text \<open>
  The same warning republished by several authorities counts once: the current official
  evidence keeps at most one flood warning per event origin and drops a record only for one of the
  same origin whose authority ranks as high or higher (and which is newer, among equals); every
  other scoring record is kept, and nothing is invented.
\<close>

theorem one_warning_per_origin:
  "distinct (List.map_filter warning_key (official_current records))
     \<and> set (official_current records) \<subseteq> set (filter scoring_current records)
     \<and> (\<forall>x\<in>set (filter scoring_current records).
          \<exists>y\<in>set (official_current records). stands_for y x)"
proof -
  have "index_exact [] Map.empty" "merged [] []"
    by (simp_all add: index_exact_def merged_def)
  from merge_warnings_correct [OF this, of "filter scoring_current records"]
  show ?thesis
    using index_exact_distinct by (auto simp: official_current_def merged_def)
qed

definition sample_warning :: "string \<Rightarrow> int \<Rightarrow> evidence_record" where
  "sample_warning key m =
     \<lparr> er_id = ''e'', er_source_id = ''s'', er_source_type = ''official'',
       er_event_type = ''flood_warning'', er_title = [], er_summary = [], er_url = None,
       er_occurred_at = None, er_observed_at = Some (sample_instant m),
       er_ingested_at = sample_instant m, er_lat = None, er_lng = None, er_geometry = None,
       er_distance_to_query_m = None, er_confidence = 1, er_freshness_score = 1,
       er_source_weight = 1, er_privacy_level = ''public'', er_raw_ref = None,
       er_rainfall_mm_1h = None, er_water_level_m = None, er_warning_level_m = None,
       er_flood_depth_cm = None, er_realtime_risk_factor = None,
       er_evidence_scope = ScopeCurrent, er_adapter_key = Some key,
       er_official_event_origin_key = Some ''cwa-1'', er_active_from = None,
       er_active_until = None, er_location_precision = ''polygon'', er_limitations = [] \<rparr>"

lemma one_warning_per_origin_witness:
  "official_current [sample_warning ''official.ncdr.cap'' 5,
       sample_warning ''official.cwa.heavy_rain_warning'' 3]
     = [sample_warning ''official.cwa.heavy_rain_warning'' 3]
   \<and> distinct (List.map_filter warning_key
       (official_current [sample_warning ''official.ncdr.cap'' 5,
          sample_warning ''official.cwa.heavy_rain_warning'' 3]))"
proof
  show "official_current [sample_warning ''official.ncdr.cap'' 5,
       sample_warning ''official.cwa.heavy_rain_warning'' 3]
     = [sample_warning ''official.cwa.heavy_rain_warning'' 3]"
    by (simp add: official_current_def scoring_current_def scoring_current_adapter_events_def
        sample_warning_def warning_key_def warning_origin_rank_def str_or_empty_def)
qed (use one_warning_per_origin [of "[sample_warning ''official.ncdr.cap'' 5,
       sample_warning ''official.cwa.heavy_rain_warning'' 3]"] in simp)

section \<open>What a load guarantees\<close>

lemma build_copies:
  assumes "build_nearby_realtime_coverage rq = Inr c"
  shows "nc_jurisdiction_checked c = rq_jurisdiction_checked rq"
    and "nc_jurisdiction_status c = rq_jurisdiction_status rq"
    and "nc_source_health_checked c = rq_source_health_checked rq"
    and "nc_jurisdiction_catalog_complete c \<longleftrightarrow> unverified_signal_types rq = []"
  using assms
  by (auto simp: build_nearby_realtime_coverage_def rbind_Inr_iff coverage_response_def
      split: if_splits)


lemma source_states_total:
  assumes "build_nearby_source_health rows now js required' = Inr hs"
  shows "\<exists>states. source_states hs applicable required = Inr states"
  unfolding source_states_def
proof (rule rtraverse_total)
  fix key
  show "\<exists>y. source_state_of hs required key = Inr y"
  proof (cases "by_public_id hs (public_realtime_source_id key)")
    case (Some h)
    then have "h \<in> set hs" by (auto simp: by_public_id_def dest!: map_of_SomeD)
    then obtain t where "sh_signal_types h = [t]"
      by (rule build_source_health_mem [OF assms]) (auto simp: source_health_model_def)
    with Some show ?thesis by (simp add: source_state_of_def)
  qed (simp add: source_state_of_def)
qed

lemma coverage_answers:
  assumes "\<forall>row\<in>set (rq_rows rq). 0 \<le> cr_distance_to_query_m row"
    and "50 \<le> rq_query_radius_m rq" "rq_query_radius_m rq \<le> 2000"
  shows "\<exists>c. build_nearby_realtime_coverage rq = Inr c"
  using evaluations_total [OF assms(1)] assms(2,3)
  by (auto simp: build_nearby_realtime_coverage_def coverage_response_def)

lemma coverage_request_of_simps [simp]:
  "rq_query_radius_m (coverage_request_of reads r t hs b) = r"
  "rq_repository_unavailable (coverage_request_of reads r t hs b) \<longleftrightarrow> rd_coverage reads = None"
  "rq_source_health (coverage_request_of reads r t hs b) = hs"
  "rq_source_health_checked (coverage_request_of reads r t hs b) = b"
  "rq_source_health_unavailable (coverage_request_of reads r t hs b) = (\<not> b)"
  "rq_jurisdiction_checked (coverage_request_of reads r t hs b) \<longleftrightarrow> rd_jurisdiction reads r \<noteq> None"
  by (simp_all add: coverage_request_of_def Let_def)

definition resolved_jurisdiction :: "assessment_reads \<Rightarrow> int \<Rightarrow> jurisdiction_context" where
  "resolved_jurisdiction reads r =
     (case rd_jurisdiction reads r of None \<Rightarrow> unavailable_jurisdiction | Some j \<Rightarrow> j)"

definition resolved_keys :: "assessment_reads \<Rightarrow> int \<Rightarrow> string set" where
  "resolved_keys reads r =
     applicable_keys_of (resolved_jurisdiction reads r) (rd_jurisdiction reads r \<noteq> None)"

text \<open>The steps of a successful load of an enabled repository.\<close>

lemma load_enabled:
  assumes "load_assessment reads True excluded r t = Inr d"
  obtains hs where
    "build_nearby_source_health
       (rows_or_empty (rd_health reads (sorted_list_of_set (resolved_keys reads r)))) t
       (jurisdictions_by_adapter (resolved_jurisdiction reads r))
       (Some (ad_required_realtime_source_keys d)) = Inr hs"
    and "build_nearby_realtime_coverage
           (coverage_request_of reads r t hs (ad_health_available d)) = Inr (ad_nearby_coverage d)"
    and "source_states hs (resolved_keys reads r) (ad_required_realtime_source_keys d)
           = Inr (ad_source_states d)"
    and "ad_required_realtime_source_keys d
           = required_keys_of (resolved_jurisdiction reads r) (resolved_keys reads r)"
    and "ad_health_available d
           \<longleftrightarrow> rd_health reads (sorted_list_of_set (resolved_keys reads r)) \<noteq> None"
    and "ad_current_available d \<longleftrightarrow> rd_latest reads (max r realtime_support_radius_m) \<noteq> None"
    and "ad_coverage_available d \<longleftrightarrow> rd_coverage reads \<noteq> None"
    and "ad_jurisdiction_available d \<longleftrightarrow> rd_jurisdiction reads r \<noteq> None"
  using assms
  unfolding load_assessment_def resolved_jurisdiction_def resolved_keys_def
  by (auto simp: Let_def rbind_Inr_iff intro: that)


lemma rows_or_empty_all:
  "(\<And>rows. x = Some rows \<Longrightarrow> \<forall>row\<in>set rows. P row) \<Longrightarrow> \<forall>row\<in>set (rows_or_empty x). P row"
  by (cases x) (simp_all add: rows_or_empty_def)

text \<open>The reads hold rows that satisfy the column types of the database.\<close>

definition storable_reads :: "assessment_reads \<Rightarrow> bool" where
  "storable_reads reads \<longleftrightarrow>
     (\<forall>keys rows. rd_health reads keys = Some rows \<longrightarrow> (\<forall>row\<in>set rows. storable_row row))
     \<and> (\<forall>rows. rd_coverage reads = Some rows \<longrightarrow>
          (\<forall>row\<in>set rows. 0 \<le> cr_distance_to_query_m row))"

lemma load_total:
  assumes "storable_reads reads" and "50 \<le> r" and "r \<le> 2000"
  shows "\<exists>d. load_assessment reads True excluded r t = Inr d"
proof -
  let ?j = "case rd_jurisdiction reads r of None \<Rightarrow> unavailable_jurisdiction | Some j \<Rightarrow> j"
  let ?applicable = "applicable_keys_of ?j (rd_jurisdiction reads r \<noteq> None)"
  let ?required = "required_keys_of ?j ?applicable"
  let ?health = "rd_health reads (sorted_list_of_set ?applicable)"
  have "\<forall>row\<in>set (rows_or_empty ?health). storable_row row"
    using assms(1) unfolding storable_reads_def by (intro rows_or_empty_all) blast
  from build_source_health_total [OF this, of t "jurisdictions_by_adapter ?j" "Some ?required"]
  obtain hs where hs: "build_nearby_source_health (rows_or_empty ?health) t
      (jurisdictions_by_adapter ?j) (Some ?required) = Inr hs" by blast
  have "\<forall>row\<in>set (rows_or_empty (rd_coverage reads)). 0 \<le> cr_distance_to_query_m row"
    using assms(1) unfolding storable_reads_def by (intro rows_or_empty_all) blast
  then have "\<forall>row\<in>set (rq_rows (coverage_request_of reads r t hs (?health \<noteq> None))).
      0 \<le> cr_distance_to_query_m row"
    by (simp add: coverage_request_of_def Let_def)
  from coverage_answers [OF this] obtain c where c:
    "build_nearby_realtime_coverage (coverage_request_of reads r t hs (?health \<noteq> None)) = Inr c"
    using assms(2,3) by auto
  obtain states where "source_states hs ?applicable ?required = Inr states"
    using source_states_total [OF hs] by blast
  with hs c show ?thesis by (simp add: load_assessment_def Let_def)
qed


text \<open>A deployment whose every read fails, and one that resolves an ambiguous boundary.\<close>

definition failing_reads :: assessment_reads where
  "failing_reads =
     \<lparr> rd_jurisdiction = (\<lambda>_. None), rd_latest = (\<lambda>_. None), rd_history = (\<lambda>_. None),
       rd_observed_flood_history = (\<lambda>_. None), rd_coverage = None,
       rd_recent_context = (\<lambda>_. None), rd_health = (\<lambda>_. None) \<rparr>"


text \<open>
  The published flag \<open>jurisdiction_checked\<close> only says that the jurisdiction query answered: it
  is set for every resolution status, an ambiguous or unverified boundary included, although the
  response schema documents it as true only for a uniquely resolved home jurisdiction.
\<close>

theorem jurisdiction_checked_means_query_answered:
  assumes "load_assessment reads True excluded r t = Inr d" and "rd_jurisdiction reads r = Some j"
  shows "nc_jurisdiction_checked (ad_nearby_coverage d)
    \<and> nc_jurisdiction_status (ad_nearby_coverage d) = jc_resolution_status j"
proof -
  obtain hs where c: "build_nearby_realtime_coverage
      (coverage_request_of reads r t hs (ad_health_available d)) = Inr (ad_nearby_coverage d)"
    by (rule load_enabled [OF assms(1)])
  from build_copies(1,2) [OF c] show ?thesis
    using assms(2) by (simp add: coverage_request_of_def Let_def)
qed

definition ambiguous_jurisdiction :: jurisdiction_context where
  "ambiguous_jurisdiction = unavailable_jurisdiction\<lparr> jc_resolution_status := JurisdictionAmbiguous \<rparr>"

definition ambiguous_reads :: assessment_reads where
  "ambiguous_reads = failing_reads\<lparr> rd_jurisdiction := \<lambda>_. Some ambiguous_jurisdiction \<rparr>"

lemma ambiguous_load: "\<exists>d. load_assessment ambiguous_reads True {} 500 sample_now = Inr d"
  by (rule load_total) (simp_all add: storable_reads_def ambiguous_reads_def failing_reads_def)

lemma jurisdiction_checked_means_query_answered_witness:
  "\<exists>d. load_assessment ambiguous_reads True {} 500 sample_now = Inr d
     \<and> nc_jurisdiction_checked (ad_nearby_coverage d)
     \<and> nc_jurisdiction_status (ad_nearby_coverage d) = JurisdictionAmbiguous"
proof -
  obtain d where d: "load_assessment ambiguous_reads True {} 500 sample_now = Inr d"
    using ambiguous_load by blast
  have "rd_jurisdiction ambiguous_reads 500 = Some ambiguous_jurisdiction"
    by (simp add: ambiguous_reads_def)
  from jurisdiction_checked_means_query_answered [OF d this] d show ?thesis
    by (auto simp: ambiguous_jurisdiction_def)
qed

text \<open>
  What the jurisdiction query guarantees: \<open>considered_jurisdictions\<close> is the empty array unless the
  resolution is verified (the \<open>CASE\<close> of its \<open>SELECT\<close>).
\<close>

definition jurisdiction_query_law :: "assessment_reads \<Rightarrow> bool" where
  "jurisdiction_query_law reads \<longleftrightarrow>
     (\<forall>r j. rd_jurisdiction reads r = Some j \<longrightarrow>
        jc_resolution_status j \<noteq> JurisdictionVerified \<longrightarrow> jc_considered_jurisdictions j = [])"

lemma codes_covered:
  "set xs \<subseteq> set (map f (filter p cs)) \<longleftrightarrow> (\<forall>x\<in>set xs. \<exists>c\<in>set cs. p c \<and> f c = x)"
  by (auto simp: subset_iff image_iff)

lemma mem_complete_signal_types:
  "t \<in> set (complete_signal_types j) \<longleftrightarrow>
     jc_considered_jurisdictions j \<noteq> []
     \<and> (\<exists>revision. (t, revision) \<in> set reviewed_signal_contract_revisions
          \<and> (\<forall>code\<in>set (map fst (jc_considered_jurisdictions j)).
               \<exists>c\<in>set (jc_signal_contracts j).
                 contract_valid_for t revision c \<and> sc_jurisdiction_code c = code))"
  unfolding complete_signal_types_def Let_def codes_covered by (auto simp: image_iff)

text \<open>
  C2. End to end, \<open>no station in range\<close> is told to a user only when every read behind it
  succeeded: the boundary resolved to one verified home jurisdiction, every considered jurisdiction
  has a reviewed contract for the signal at the reviewed revision with a valid mapping proof, and
  the health and coverage queries answered.
\<close>

theorem no_station_claim_end_to_end:
  assumes "load_assessment reads True excluded r t = Inr d"
    and "jurisdiction_query_law reads"
    and "s \<in> set (nc_signal_breakdown (ad_nearby_coverage d))"
    and "cs_missing_cause s = NoStationInRange"
  shows "ad_health_available d \<and> ad_coverage_available d
    \<and> (\<exists>j. rd_jurisdiction reads r = Some j
          \<and> jc_resolution_status j = JurisdictionVerified
          \<and> jc_considered_jurisdictions j \<noteq> []
          \<and> (\<exists>revision. (cs_signal_type s, revision) \<in> set reviewed_signal_contract_revisions
               \<and> (\<forall>code\<in>set (map fst (jc_considered_jurisdictions j)).
                    \<exists>c\<in>set (jc_signal_contracts j).
                      contract_valid_for (cs_signal_type s) revision c
                      \<and> sc_jurisdiction_code c = code)))"
proof -
  obtain hs where c: "build_nearby_realtime_coverage
      (coverage_request_of reads r t hs (ad_health_available d)) = Inr (ad_nearby_coverage d)"
    and cov: "ad_coverage_available d \<longleftrightarrow> rd_coverage reads \<noteq> None"
    by (rule load_enabled [OF assms(1)])
  let ?rq = "coverage_request_of reads r t hs (ad_health_available d)"
  have cause: "signal_cause ?rq (cs_signal_type s) = NoStationInRange"
    and avail: "\<not> rq_repository_unavailable ?rq"
    by (rule breakdown_mem [OF c assms(3)], metis assms(4) signal_model_simps(3))
      (rule breakdown_mem [OF c assms(3)], assumption)
  from missing_cause_no_station [OF cause [unfolded signal_cause_def]]
  have *: "ad_health_available d" "rd_jurisdiction reads r \<noteq> None"
    "cs_signal_type s \<in> set (rq_complete_signal_types ?rq)" by auto
  then obtain j where j: "rd_jurisdiction reads r = Some j" by blast
  with *(3) have mem: "cs_signal_type s \<in> set (complete_signal_types j)"
    by (simp add: coverage_request_of_def Let_def)
  then have ne: "jc_considered_jurisdictions j \<noteq> []" by (simp add: mem_complete_signal_types)
  then have "jc_resolution_status j = JurisdictionVerified"
    using assms(2) j by (auto simp: jurisdiction_query_law_def)
  moreover have "ad_coverage_available d" using avail cov by simp
  ultimately show ?thesis using * j ne mem [unfolded mem_complete_signal_types] by blast
qed

text \<open>A verified jurisdiction with one reviewed water level source and no station around.\<close>

definition reviewed_jurisdiction :: jurisdiction_context where
  "reviewed_jurisdiction =
     \<lparr> jc_resolution_status = JurisdictionVerified,
       jc_home_jurisdiction_code = Some ''63000000'',
       jc_home_jurisdiction_name = None,
       jc_considered_jurisdictions = [(''63000000'', [])],
       jc_signal_contracts =
         [\<lparr> sc_jurisdiction_code = ''63000000'', sc_jurisdiction_name = [],
            sc_signal_type = ''water_level'', sc_catalog_status = ''reviewed_complete'',
            sc_mapping_revision = ''2026-08-24-v1-baseline'', sc_mapping_proof_valid = True \<rparr>],
       jc_source_mappings =
         [\<lparr> sm_adapter_key = ''official.wra.water_level'', sm_signal_type = ''water_level'',
            sm_coverage_scope = ''national'', sm_jurisdiction_code = ''63000000'',
            sm_jurisdiction_name = None, sm_requirement_role = ''required'',
            sm_mapping_revision = ''2026-08-24-v1-baseline'',
            sm_redundancy_of_adapter_key = None \<rparr>] \<rparr>"

definition reviewed_reads :: assessment_reads where
  "reviewed_reads = failing_reads\<lparr> rd_jurisdiction := \<lambda>_. Some reviewed_jurisdiction,
     rd_coverage := Some [], rd_health := \<lambda>_. Some [sample_row] \<rparr>"

lemma reviewed_keys:
  "resolved_jurisdiction reviewed_reads r = reviewed_jurisdiction"
  "resolved_keys reviewed_reads r = {''official.wra.water_level''}"
  "required_keys_of reviewed_jurisdiction {''official.wra.water_level''}
     = {''official.wra.water_level''}"
  by (simp_all add: resolved_jurisdiction_def resolved_keys_def reviewed_reads_def
      applicable_keys_of_def reviewed_jurisdiction_def jc_adapter_keys_def required_keys_of_def)

lemma sample_row_key: "hr_adapter_key sample_row = ''official.wra.water_level''"
  by (simp add: sample_row_def)

lemma sample_row_type: "map_of adapter_signal_types ''official.wra.water_level'' = Some WaterLevel"
  by code_simp

lemma sample_row_healthy:
  "source_health_decision sample_row WaterLevel sample_now
     = Inr (source_decision Healthy Operational (MsgMostStationsFresh 9 10))"
  by code_simp

lemma reviewed_health:
  assumes "build_nearby_source_health [sample_row] sample_now js
      (Some {''official.wra.water_level''}) = Inr hs"
  shows "hs = [source_health_model sample_row WaterLevel
      (source_decision Healthy Operational (MsgMostStationsFresh 9 10)) js
      (Some {''official.wra.water_level''})]"
  using assms
  by (auto simp: build_nearby_source_health_def known_sources_def map_filter_simps sample_row_key
      sample_row_type sample_row_healthy rbind_Inr_iff checked_source_health_def sort_sources_def
      split: if_splits)

lemma no_station_claim_end_to_end_witness:
  "\<exists>d s. load_assessment reviewed_reads True {} 500 sample_now = Inr d
     \<and> s \<in> set (nc_signal_breakdown (ad_nearby_coverage d))
     \<and> cs_missing_cause s = NoStationInRange \<and> ad_health_available d"
proof -
  have "storable_reads reviewed_reads"
    using sample_row_storable by (simp add: storable_reads_def reviewed_reads_def failing_reads_def)
  from load_total [OF this, of 500 "{}" sample_now] obtain d where
    d: "load_assessment reviewed_reads True {} 500 sample_now = Inr d" by auto
  have law: "jurisdiction_query_law reviewed_reads"
    by (simp add: jurisdiction_query_law_def reviewed_reads_def reviewed_jurisdiction_def)
  obtain hs where hs: "build_nearby_source_health [sample_row] sample_now
      (jurisdictions_by_adapter reviewed_jurisdiction) (Some {''official.wra.water_level''}) = Inr hs"
    and c: "build_nearby_realtime_coverage (coverage_request_of reviewed_reads 500 sample_now hs True)
      = Inr (ad_nearby_coverage d)"
    by (rule load_enabled [OF d])
      (simp add: reviewed_keys, simp add: reviewed_reads_def rows_or_empty_def)
  let ?rq = "coverage_request_of reviewed_reads 500 sample_now hs True"
  have "map cs_signal_type (nc_signal_breakdown (ad_nearby_coverage d)) = all_signal_types"
    by (rule breakdown_types [OF c]) (simp add: reviewed_reads_def)
  then have "WaterLevel \<in> set (map cs_signal_type (nc_signal_breakdown (ad_nearby_coverage d)))"
    by simp
  then obtain s where s: "s \<in> set (nc_signal_breakdown (ad_nearby_coverage d))"
    "cs_signal_type s = WaterLevel" by auto
  have complete: "WaterLevel \<in> set (complete_signal_types reviewed_jurisdiction)"
    unfolding mem_complete_signal_types
    by (auto simp: reviewed_jurisdiction_def reviewed_signal_contract_revisions_def
        contract_valid_for_def)
  have rows: "signal_rows ?rq WaterLevel = []"
    by (simp add: signal_rows_def coverage_request_of_def Let_def reviewed_reads_def rows_or_empty_def
        group_rows_def)
  have "signal_cause ?rq WaterLevel = NoStationInRange"
    unfolding signal_cause_def rows
    using complete reviewed_health [OF hs]
    by (simp add: nearest_usable_def usable_rows_def fresh_rows_def degraded_rows_def
        group_source_health_def missing_cause_of_def runtime_missing_cause_def
        active_required_sources_def has_conclusive_station_inventory_def source_health_model_def
        sample_row_def) (simp add: coverage_request_of_def reviewed_reads_def Let_def)
  then have cause: "cs_missing_cause s = NoStationInRange"
    by (rule_tac breakdown_mem [OF c s(1)]) (metis s(2) signal_model_simps(3))
  from no_station_claim_end_to_end [OF d law s(1) cause] d s cause show ?thesis by blast
qed

end
