(* ===== verification/Risk_Assessment.thy ===== *)
theory Risk_Assessment
  imports Assessment_Data
begin

text \<open>
  From evidence to the published levels: \<open>apps/api/app/domain/assessment/safety.py\<close>, the evidence
  conversions of \<open>apps/api/app/api/services/public_evidence.py\<close>, and the decisions of
  \<open>AssessmentService.assess\<close> in \<open>apps/api/app/api/services/assessment.py\<close> (which evidence is
  scored, the safety override, the overall level, the status of the data, what may be cached).
  Identifiers, persistence, timings and the evidence preview are not modelled.
\<close>

section \<open>Evidence and its risk factor\<close>

record evidence =
  pe_id :: string
  pe_source_id :: string
  pe_source_type :: string
  pe_event_type :: string
  pe_title :: utext
  pe_summary :: utext
  pe_url :: "string option"
  pe_occurred_at :: "py_datetime option"
  pe_observed_at :: "py_datetime option"
  pe_ingested_at :: py_datetime
  pe_point :: "(rat \<times> rat) option"
  pe_geometry :: "(string \<times> string) option"
  pe_distance_to_query_m :: "rat option"
  pe_confidence :: rat
  pe_freshness_score :: rat
  pe_source_weight :: rat
  pe_privacy_level :: string
  pe_raw_ref :: "string option"
  pe_realtime_risk_factor :: "rat option"
  pe_evidence_scope :: evidence_scope
  pe_location_precision :: string
  pe_limitations :: "utext list"

definition official_data_gov_urls :: "(string \<times> string) list" where
  "official_data_gov_urls =
     [(''rainfall'', ''https://data.gov.tw/dataset/9177''),
      (''water_level'', ''https://data.gov.tw/dataset/25768''),
      (''flood_potential'', ''https://data.gov.tw/dataset/25766''),
      (''flood_report'', ''https://data.gov.tw/dataset/130016'')]"

definition rainfall_realtime_risk_factor :: "rat \<Rightarrow> rat" where
  "rainfall_realtime_risk_factor mm =
     (if mm \<ge> 80 then 1.0
      else if mm \<ge> 40 then 0.7
      else if mm \<ge> 20 then 0.35
      else if mm \<ge> 10 then 0.15
      else 0.0)"

definition ratio_risk_factor :: "rat \<Rightarrow> rat" where
  "ratio_risk_factor ratio =
     (if ratio \<ge> 1.0 then 1.0
      else if ratio \<ge> 0.8 then 0.8
      else if ratio \<ge> 0.5 then 0.5
      else if ratio \<ge> 0.25 then 0.25
      else 0.0)"

definition water_level_realtime_risk_factor :: "rat \<Rightarrow> rat \<Rightarrow> rat" where
  "water_level_realtime_risk_factor water_level_m warning_level_m =
     ratio_risk_factor (water_level_m / warning_level_m)"

definition flood_depth_realtime_risk_factor :: "rat \<Rightarrow> rat" where
  "flood_depth_realtime_risk_factor cm =
     (if cm \<ge> 50 then 1.0
      else if cm \<ge> 30 then 0.8
      else if cm \<ge> 15 then 0.5
      else if cm \<ge> 3 then 0.25
      else 0.0)"

definition evidence_realtime_risk_factor :: "evidence_record \<Rightarrow> rat option" where
  "evidence_realtime_risk_factor r =
     (case er_realtime_risk_factor r of
        Some f \<Rightarrow> Some f
      | None \<Rightarrow>
          (case (if er_event_type r = ''rainfall'' then er_rainfall_mm_1h r else None) of
             Some mm \<Rightarrow> Some (rainfall_realtime_risk_factor mm)
           | None \<Rightarrow>
               (case (if er_event_type r = ''water_level''
                      then (er_water_level_m r, er_warning_level_m r) else (None, None)) of
                  (Some level, Some warning) \<Rightarrow>
                    if warning > 0 then Some (water_level_realtime_risk_factor level warning)
                    else None
                | _ \<Rightarrow>
                    (case (if er_event_type r = ''flood_report'' then er_flood_depth_cm r
                           else None) of
                       Some cm \<Rightarrow> Some (flood_depth_realtime_risk_factor cm)
                     | None \<Rightarrow> None))))"

definition flood_potential_title :: utext where
  "flood_potential_title =
     [23448, 26041, 28153, 27700, 28507, 21218, 35215, 21123, 22294, 36039]"

definition flood_potential_summary :: utext where
  "flood_potential_summary =
     [27492, 31558, 36039, 26009, 34920, 31034, 26597, 35426, 31684, 22285, 33287, 23448,
     26041, 28153, 27700, 28507, 21218, 35215, 21123, 22294, 36039, 30456, 20132, 65292, 23660,
     26044, 27511, 21490, 33287, 24773, 22659, 21443, 32771, 65307, 19981, 20195, 34920, 30446,
     21069, 27491, 22312, 28153, 27700, 65292, 20063, 19981, 26159, 21363, 26178, 28797, 23475,
     35686, 22577, 12290]"

definition localized_evidence_text :: "evidence_record \<Rightarrow> utext \<times> utext" where
  "localized_evidence_text r =
     (if er_event_type r = ''flood_potential''
      then (flood_potential_title, flood_potential_summary)
      else (er_title r, er_summary r))"

definition public_evidence_url :: "string \<Rightarrow> string \<Rightarrow> string option \<Rightarrow> string option" where
  "public_evidence_url kind event fallback_url =
     (if kind = ''official''
      then or_str fallback_url (map_of official_data_gov_urls event)
      else fallback_url)"

text \<open>
  The constraints of the response classes \<open>LatLng\<close>, \<open>GeoJsonGeometry\<close>, \<open>EvidencePreview\<close> and
  \<open>Evidence\<close>; outside them the conversion raises a \<open>ValidationError\<close>.
\<close>

definition evidence_source_types :: "string list" where
  "evidence_source_types =
     [''official'', ''news'', ''forum'', ''social'', ''user_report'', ''derived'']"

definition evidence_event_types :: "string list" where
  "evidence_event_types =
     [''rainfall'', ''water_level'', ''flood_warning'', ''flood_potential'', ''flood_report'',
      ''status_only'', ''road_closure'', ''discussion'']"

definition evidence_location_precisions :: "string list" where
  "evidence_location_precisions =
     [''point'', ''road_or_lane'', ''poi'', ''admin_area'', ''polygon'', ''inferred'',
      ''map_click'', ''unknown'']"

definition evidence_valid :: "evidence \<Rightarrow> bool" where
  "evidence_valid e \<longleftrightarrow>
     pe_source_type e \<in> set evidence_source_types
     \<and> pe_event_type e \<in> set evidence_event_types
     \<and> pe_location_precision e \<in> set evidence_location_precisions
     \<and> pe_privacy_level e \<in> set [''public'', ''aggregated'', ''redacted'']
     \<and> (case pe_point e of
          None \<Rightarrow> True
        | Some (lat, lng) \<Rightarrow> - 90 \<le> lat \<and> lat \<le> 90 \<and> - 180 \<le> lng \<and> lng \<le> 180)
     \<and> (case pe_geometry e of
          None \<Rightarrow> True
        | Some (kind, _) \<Rightarrow> kind \<in> set [''Point'', ''LineString'', ''Polygon'', ''MultiPolygon''])
     \<and> (case pe_distance_to_query_m e of None \<Rightarrow> True | Some d \<Rightarrow> 0 \<le> d)
     \<and> 0 \<le> pe_confidence e \<and> pe_confidence e \<le> 1
     \<and> 0 \<le> pe_freshness_score e \<and> pe_freshness_score e \<le> 1
     \<and> 0 \<le> pe_source_weight e"

definition public_evidence :: "evidence_record \<Rightarrow> evidence" where
  "public_evidence r =
     \<lparr> pe_id = er_id r,
       pe_source_id = er_source_id r,
       pe_source_type = er_source_type r,
       pe_event_type = er_event_type r,
       pe_title = fst (localized_evidence_text r),
       pe_summary = snd (localized_evidence_text r),
       pe_url = public_evidence_url (er_source_type r) (er_event_type r) (er_url r),
       pe_occurred_at = er_occurred_at r,
       pe_observed_at = er_observed_at r,
       pe_ingested_at = er_ingested_at r,
       pe_point = (case (er_lat r, er_lng r) of
                     (Some lat, Some lng) \<Rightarrow> Some (lat, lng) | _ \<Rightarrow> None),
       pe_geometry = er_geometry r,
       pe_distance_to_query_m = er_distance_to_query_m r,
       pe_confidence = er_confidence r,
       pe_freshness_score = er_freshness_score r,
       pe_source_weight = er_source_weight r,
       pe_privacy_level = er_privacy_level r,
       pe_raw_ref = er_raw_ref r,
       pe_realtime_risk_factor = evidence_realtime_risk_factor r,
       pe_evidence_scope = er_evidence_scope r,
       pe_location_precision = er_location_precision r,
       pe_limitations = er_limitations r \<rparr>"

definition evidence_from_record :: "evidence_record \<Rightarrow> evidence result" where
  "evidence_from_record r =
     (if evidence_valid (public_evidence r) then Inr (public_evidence r) else Inl ValueError)"

definition signal_from_evidence :: "evidence \<Rightarrow> risk_evidence_signal" where
  "signal_from_evidence e =
     \<lparr> source_type = pe_source_type e,
       event_type = pe_event_type e,
       confidence = pe_confidence e,
       distance_to_query_m = pe_distance_to_query_m e,
       freshness_score = pe_freshness_score e,
       source_weight = pe_source_weight e,
       risk_factor = (case pe_realtime_risk_factor e of None \<Rightarrow> 1.0 | Some f \<Rightarrow> f),
       observed_at = or_else (pe_observed_at e) (pe_occurred_at e),
       scope = pe_evidence_scope e,
       location_precision = pe_location_precision e \<rparr>"

section \<open>When a low realtime level may stand\<close>

definition usable_local_states :: "availability list" where
  "usable_local_states = [FreshNearby, DegradedNearby]"

definition usable_source_states :: "source_state list" where
  "usable_source_states = [StatusFresh, StatusDegraded]"

definition acceptable_required_states :: "source_state list" where
  "acceptable_required_states = usable_source_states @ [StatusNotApplicable]"

definition hydrology :: "signal_type list" where
  "hydrology = [WaterLevel, FloodDepth, SewerWaterLevel]"

definition query_local_signal_types :: "assessment_data \<Rightarrow> signal_type list" where
  "query_local_signal_types data =
     map cs_signal_type
       (filter (\<lambda>s. cs_availability_state s \<in> set usable_local_states)
          (nc_signal_breakdown (ad_nearby_coverage data)))"

text \<open>\<open>{state.source_key: state for state in data.source_states}\<close>.\<close>

definition state_by_key :: "assessment_data \<Rightarrow> string \<Rightarrow> assessment_source_state option" where
  "state_by_key data key =
     map_of (map (\<lambda>s. (as_source_key s, s)) (rev (ad_source_states data))) key"

definition required_source_supports_low :: "assessment_data \<Rightarrow> string \<Rightarrow> bool" where
  "required_source_supports_low data key =
     (case state_by_key data key of
        None \<Rightarrow> False
      | Some st \<Rightarrow>
          as_state st \<in> set acceptable_required_states
          \<or> (as_signal_type st \<in> set hydrology
             \<and> list_ex (\<lambda>alternative.
                   as_source_key alternative \<noteq> key
                   \<and> as_signal_type alternative \<in> set hydrology
                   \<and> as_state alternative \<in> set usable_source_states)
                 (ad_source_states data)))"

definition required_sources_support_low :: "assessment_data \<Rightarrow> bool" where
  "required_sources_support_low data \<longleftrightarrow>
     (\<forall>key\<in>ad_required_realtime_source_keys data. required_source_supports_low data key)"

definition can_support_low_realtime :: "assessment_data \<Rightarrow> bool" where
  "can_support_low_realtime data =
     (let coverage = ad_nearby_coverage data;
          local_types = query_local_signal_types data
      in if \<not> (ad_current_available data \<and> ad_coverage_available data
               \<and> ad_health_available data \<and> ad_jurisdiction_available data
               \<and> nc_source_health_checked coverage
               \<and> nc_jurisdiction_checked coverage
               \<and> nc_jurisdiction_catalog_complete coverage)
         then False
         else if \<not> required_sources_support_low data then False
         else Rainfall \<in> set local_types
              \<and> list_ex (\<lambda>t. t \<in> set local_types) hydrology)"

definition apply_realtime_safety ::
  "risk_scoring_result \<Rightarrow> assessment_data \<Rightarrow> risk_scoring_result" where
  "apply_realtime_safety scoring data =
     (if realtime_level scoring \<noteq> RiskLow \<or> can_support_low_realtime data then scoring
      else scoring\<lparr> realtime_level := RiskUnknown,
                   explanation_summary := SummaryRealtimeUnsafe,
                   missing_sources :=
                     dict_fromkeys (missing_sources scoring @ [RequiredCoverageInsufficient]) \<rparr>)"

section \<open>The overall level\<close>

datatype dominant_mode = ModeRealtime | ModeHistoricalContext | ModeCommunityWarning | ModeUnknown

datatype overall_reason =
  OnlyHistoricalBackground
| HistoryAboveRealtime risk_level risk_level
| ScorerReason main_reason
| NothingConclusive

record overall_decision =
  od_level :: risk_level
  od_confidence :: confidence_level
  od_dominant_mode :: dominant_mode
  od_reasons :: "overall_reason list"

definition compose_base_overall ::
  "risk_scoring_result \<Rightarrow> risk_scoring_result \<Rightarrow> overall_decision" where
  "compose_base_overall realtime_scoring historical_scoring =
     (let rt = realtime_level realtime_scoring;
          hist = historical_level historical_scoring
      in if risk_level_rank hist > risk_level_rank rt
         then let context_reason =
                    (if rt = RiskUnknown then OnlyHistoricalBackground
                     else HistoryAboveRealtime hist rt)
              in \<lparr> od_level = hist,
                   od_confidence = confidence_level historical_scoring,
                   od_dominant_mode = ModeHistoricalContext,
                   od_reasons = dict_fromkeys
                     (context_reason # map ScorerReason (main_reasons historical_scoring)) \<rparr>
         else if rt \<noteq> RiskUnknown
         then \<lparr> od_level = rt,
                od_confidence = confidence_level realtime_scoring,
                od_dominant_mode = ModeRealtime,
                od_reasons = map ScorerReason (main_reasons realtime_scoring) \<rparr>
         else \<lparr> od_level = RiskUnknown, od_confidence = ConfUnknown,
                od_dominant_mode = ModeUnknown, od_reasons = [NothingConclusive] \<rparr>)"

section \<open>Status of the data\<close>

datatype data_gap =
  GapSource source_message
| GapDelayedSources "utext list"
| GapLocalFeed local_gap
| GapCurrentUnavailable
| GapHistoricalUnavailable
| GapCoverageUnavailable
| GapHealthUnavailable
| GapJurisdictionUnavailable

definition verbatim_required_source_states :: "source_state list" where
  "verbatim_required_source_states =
     [StatusFailed, StatusStale, StatusDisabled, StatusDegraded]"

definition is_merely_delayed :: "assessment_source_state \<Rightarrow> bool" where
  "is_merely_delayed st \<longleftrightarrow> as_state st = StatusDegraded \<and> as_reason_code st = Delayed"

text \<open>\<open>_SIGNAL_LABEL_ORDER\<close>: the position in \<open>SIGNAL_LABELS\<close>, the order of the signal types.\<close>

fun signal_label_order :: "signal_type \<Rightarrow> nat" where
  "signal_label_order Rainfall = 0"
| "signal_label_order WaterLevel = 1"
| "signal_label_order FloodDepth = 2"
| "signal_label_order SewerWaterLevel = 3"
| "signal_label_order PumpOrGateStatus = 4"
| "signal_label_order FloodWarning = 5"
| "signal_label_order StatusOnly = 6"

definition delayed_sources_summary :: "assessment_source_state list \<Rightarrow> data_gap option" where
  "delayed_sources_summary states =
     (let delayed = map as_signal_type (filter is_merely_delayed states)
      in if delayed = [] then None
         else Some (GapDelayedSources
                (dict_fromkeys
                  (map signal_label
                    (sort_key (\<lambda>t. (signal_label_order t, signal_type_name t)) delayed)))))"

definition availability_gaps :: "assessment_data \<Rightarrow> data_gap list" where
  "availability_gaps data =
     map snd (filter (\<lambda>(available, _). \<not> available)
       [(ad_current_available data, GapCurrentUnavailable),
        (ad_historical_available data, GapHistoricalUnavailable),
        (ad_coverage_available data, GapCoverageUnavailable),
        (ad_health_available data, GapHealthUnavailable),
        (ad_jurisdiction_available data, GapJurisdictionUnavailable)])"

definition required_states :: "assessment_data \<Rightarrow> assessment_source_state list" where
  "required_states data =
     filter (\<lambda>st. as_source_key st \<in> ad_required_realtime_source_keys data) (ad_source_states data)"

definition source_gaps :: "assessment_source_state list \<Rightarrow> data_gap list" where
  "source_gaps states =
     List.map_filter
       (\<lambda>st. if as_state st \<in> set verbatim_required_source_states \<and> \<not> is_merely_delayed st
             then map_option GapSource (as_message st) else None) states"

definition data_status_missing :: "assessment_data \<Rightarrow> data_gap list" where
  "data_status_missing data =
     dict_fromkeys
       (source_gaps (required_states data)
        @ (case delayed_sources_summary (required_states data) of None \<Rightarrow> [] | Some g \<Rightarrow> [g])
        @ map GapLocalFeed (ad_local_machine_feed_missing data)
        @ availability_gaps data)"

section \<open>The assessment\<close>

definition recent_history_refresh_after :: int where
  "recent_history_refresh_after = days 30"

definition history_needs_refresh :: "evidence_record list \<Rightarrow> aware_datetime \<Rightarrow> bool" where
  "history_needs_refresh records now =
     (let observed_events = List.map_filter
            (\<lambda>r. if er_event_type r \<in> {''flood_report'', ''road_closure''}
                 then or_else (er_observed_at r) (er_occurred_at r) else None) records
      in case first_max_by (\<lambda>t. instant (with_tz_of now t)) observed_events of
           None \<Rightarrow> True
         | Some newest \<Rightarrow>
             instant (with_tz_of now newest) < instant now - recent_history_refresh_after)"

record level_block =
  lb_level :: risk_level
  lb_confidence :: confidence_level
  lb_reasons :: "overall_reason list"

datatype explanation_text = ReasonText overall_reason | SummaryText summary_text

datatype explanation_gap = ScorerGap missing_source | DataGap data_gap

record assessment =
  ra_score_version :: string
  ra_created_at :: aware_datetime
  ra_expires_at :: int
  ra_realtime :: level_block
  ra_historical :: level_block
  ra_overall :: level_block
  ra_dominant_mode :: dominant_mode
  ra_summary :: explanation_text
  ra_explanation_missing :: "explanation_gap list"
  ra_data_missing :: "data_gap list"
  ra_coverage :: nearby_coverage
  ra_realtime_score :: rat
  ra_historical_score :: rat
  ra_confidence_score :: rat

text \<open>
  The body of \<open>assess\<close> after the load: \<open>lookup\<close> is the optional lookup of recent history, a
  parameter, which runs only when the stored history needs a refresh. The recent incident context
  is converted for display and not scored.
\<close>

definition recent_history_of ::
  "evidence_record list option \<Rightarrow> assessment_data \<Rightarrow> aware_datetime \<Rightarrow> evidence_record list" where
  "recent_history_of lookup data now =
     (case lookup of
        None \<Rightarrow> []
      | Some records \<Rightarrow> if history_needs_refresh (ad_historical data) now then records else [])"

definition assessment_of ::
  "assessment_data \<Rightarrow> risk_scoring_result \<Rightarrow> risk_scoring_result \<Rightarrow> aware_datetime \<Rightarrow> assessment" where
  "assessment_of data current_scoring historical_scoring now =
     (let overall = compose_base_overall current_scoring historical_scoring
      in \<lparr> ra_score_version = score_version current_scoring,
           ra_created_at = now,
           ra_expires_at = instant now + minutes 10,
           ra_realtime = \<lparr> lb_level = realtime_level current_scoring,
                           lb_confidence = confidence_level current_scoring,
                           lb_reasons = map ScorerReason (main_reasons current_scoring) \<rparr>,
           ra_historical = \<lparr> lb_level = historical_level historical_scoring,
                             lb_confidence = confidence_level historical_scoring,
                             lb_reasons = map ScorerReason (main_reasons historical_scoring) \<rparr>,
           ra_overall = \<lparr> lb_level = od_level overall, lb_confidence = od_confidence overall,
                          lb_reasons = od_reasons overall \<rparr>,
           ra_dominant_mode = od_dominant_mode overall,
           ra_summary = (case od_reasons overall of
                           r # _ \<Rightarrow> ReasonText r
                         | [] \<Rightarrow> SummaryText (explanation_summary current_scoring)),
           ra_explanation_missing = dict_fromkeys
             (map ScorerGap (missing_sources current_scoring)
              @ map DataGap (data_status_missing data)),
           ra_data_missing = data_status_missing data,
           ra_coverage = ad_nearby_coverage data,
           ra_realtime_score = realtime_score current_scoring,
           ra_historical_score = historical_score historical_scoring,
           ra_confidence_score =
             max (confidence_score current_scoring) (confidence_score historical_scoring) \<rparr>)"

definition assess_data ::
  "assessment_data \<Rightarrow> evidence_record list option \<Rightarrow> aware_datetime \<Rightarrow> assessment result" where
  "assess_data data lookup now =
     rbind (rtraverse evidence_from_record (ad_current_official data))
       (\<lambda>current_items.
        rbind (rtraverse evidence_from_record
                 (recent_history_of lookup data now @ ad_historical data))
       (\<lambda>historical_items.
        rbind (rtraverse evidence_from_record (ad_recent_incident_context data))
       (\<lambda>context_items. Inr
          (assessment_of data
             (apply_realtime_safety
                (score_risk (map signal_from_evidence current_items) now) data)
             (score_risk (map signal_from_evidence historical_items) now) now))))"

text \<open>A response is put into the cache only if every read succeeded.\<close>

definition may_cache :: "assessment_data \<Rightarrow> bool" where
  "may_cache data \<longleftrightarrow>
     ad_current_available data \<and> ad_historical_available data \<and> ad_coverage_available data
     \<and> ad_health_available data \<and> ad_jurisdiction_available data"

section \<open>The low level\<close>

lemma assess_data_parts:
  assumes "assess_data data lookup now = Inr a"
  obtains current historical where
    "list_all2 (\<lambda>r e. evidence_from_record r = Inr e) (ad_current_official data) current"
    and "list_all2 (\<lambda>r e. evidence_from_record r = Inr e)
           (recent_history_of lookup data now @ ad_historical data) historical"
    and "a = assessment_of data
           (apply_realtime_safety (score_risk (map signal_from_evidence current) now) data)
           (score_risk (map signal_from_evidence historical) now) now"
  using assms by (auto simp: assess_data_def rbind_Inr_iff rtraverse_Inr_iff)

lemma assessment_of_levels [simp]:
  "lb_level (ra_realtime (assessment_of data current hist now)) = realtime_level current"
  "lb_level (ra_historical (assessment_of data current hist now)) = historical_level hist"
  "lb_level (ra_overall (assessment_of data current hist now))
     = od_level (compose_base_overall current hist)"
  "ra_dominant_mode (assessment_of data current hist now)
     = od_dominant_mode (compose_base_overall current hist)"
  "ra_data_missing (assessment_of data current hist now) = data_status_missing data"
  "ra_realtime_score (assessment_of data current hist now) = realtime_score current"
  by (simp_all add: assessment_of_def Let_def)

lemma safety_low:
  "realtime_level (apply_realtime_safety scoring data) = RiskLow \<Longrightarrow> can_support_low_realtime data"
  by (auto simp: apply_realtime_safety_def split: if_splits)

definition usable_local_signal :: "assessment_data \<Rightarrow> signal_type \<Rightarrow> bool" where
  "usable_local_signal data t \<longleftrightarrow>
     (\<exists>s\<in>set (nc_signal_breakdown (ad_nearby_coverage data)).
        cs_signal_type s = t \<and> cs_availability_state s \<in> {FreshNearby, DegradedNearby})"

text \<open>
  C1. A low realtime level is never the absence of data: it is published only when the reads of
  current evidence, coverage, health and jurisdiction succeeded, the source catalog of the
  jurisdiction is complete, every required source is usable (or not applicable, or a hydrologic
  source that another usable hydrologic source stands in for), and the query point has a usable
  rainfall signal and a usable water level, flood depth or sewer signal nearby.
\<close>

theorem low_realtime_needs_support:
  assumes "assess_data data lookup now = Inr a" and "lb_level (ra_realtime a) = RiskLow"
  shows "ad_current_available data \<and> ad_coverage_available data
    \<and> ad_health_available data \<and> ad_jurisdiction_available data
    \<and> nc_jurisdiction_catalog_complete (ad_nearby_coverage data)
    \<and> (\<forall>key\<in>ad_required_realtime_source_keys data.
         \<exists>st. state_by_key data key = Some st
           \<and> (as_state st \<in> {StatusFresh, StatusDegraded, StatusNotApplicable}
              \<or> as_signal_type st \<in> set hydrology
                \<and> (\<exists>other\<in>set (ad_source_states data).
                      as_source_key other \<noteq> key \<and> as_signal_type other \<in> set hydrology
                      \<and> as_state other \<in> {StatusFresh, StatusDegraded})))
    \<and> usable_local_signal data Rainfall
    \<and> (\<exists>t\<in>set hydrology. usable_local_signal data t)"
proof -
  have low: "can_support_low_realtime data"
    using assms(2) by (rule_tac assess_data_parts [OF assms(1)]) (simp add: safety_low)
  then have flags: "ad_current_available data" "ad_coverage_available data"
    "ad_health_available data" "ad_jurisdiction_available data"
    "nc_jurisdiction_catalog_complete (ad_nearby_coverage data)"
    "required_sources_support_low data"
    "Rainfall \<in> set (query_local_signal_types data)"
    "list_ex (\<lambda>t. t \<in> set (query_local_signal_types data)) hydrology"
    by (simp_all add: can_support_low_realtime_def Let_def split: if_splits)
  have local: "t \<in> set (query_local_signal_types data) \<longleftrightarrow> usable_local_signal data t" for t
    by (auto simp: query_local_signal_types_def usable_local_signal_def usable_local_states_def)
  have "\<exists>st. state_by_key data key = Some st
      \<and> (as_state st \<in> {StatusFresh, StatusDegraded, StatusNotApplicable}
         \<or> as_signal_type st \<in> set hydrology
           \<and> (\<exists>other\<in>set (ad_source_states data).
                 as_source_key other \<noteq> key \<and> as_signal_type other \<in> set hydrology
                 \<and> as_state other \<in> {StatusFresh, StatusDegraded}))"
    if "key \<in> ad_required_realtime_source_keys data" for key
  proof -
    have "required_source_supports_low data key"
      using flags(6) that by (simp add: required_sources_support_low_def)
    then show ?thesis
      by (auto simp: required_source_supports_low_def acceptable_required_states_def
          usable_source_states_def list_ex_iff split: option.splits)
  qed
  then show ?thesis using flags by (simp add: local list_ex_iff)
qed

section \<open>The overall level\<close>

lemma compose_level:
  "od_level (compose_base_overall current hist) = max (realtime_level current) (historical_level hist)"
  by (cases "realtime_level current"; cases "historical_level hist")
    (simp_all add: compose_base_overall_def Let_def max_def less_eq_risk_level_def)

lemma compose_mode:
  "od_dominant_mode (compose_base_overall current hist) =
     (if realtime_level current < historical_level hist then ModeHistoricalContext
      else if realtime_level current = RiskUnknown then ModeUnknown
      else ModeRealtime)"
  by (simp add: compose_base_overall_def Let_def less_risk_level_def)

text \<open>
  C3. The overall level is the worse of the two published levels: it is their maximum, it is
  unknown only if both are, and the dominant mode names history exactly when history is strictly
  worse than the present.
\<close>

theorem overall_is_the_worse_level:
  assumes "assess_data data lookup now = Inr a"
  shows "lb_level (ra_overall a) = max (lb_level (ra_realtime a)) (lb_level (ra_historical a))
    \<and> (lb_level (ra_overall a) = RiskUnknown \<longleftrightarrow>
         lb_level (ra_realtime a) = RiskUnknown \<and> lb_level (ra_historical a) = RiskUnknown)
    \<and> (ra_dominant_mode a = ModeHistoricalContext \<longleftrightarrow>
         lb_level (ra_realtime a) < lb_level (ra_historical a))
    \<and> (ra_dominant_mode a = ModeUnknown \<longleftrightarrow> lb_level (ra_overall a) = RiskUnknown)
    \<and> ra_dominant_mode a \<noteq> ModeCommunityWarning"
proof -
  have *: "max x y = RiskUnknown \<longleftrightarrow> x = RiskUnknown \<and> y = RiskUnknown" for x y
    by (cases x; cases y) (simp_all add: max_def less_eq_risk_level_def)
  have "\<not> x < y \<Longrightarrow> x = RiskUnknown \<Longrightarrow> y = RiskUnknown" for x y
    by (cases y) (simp_all add: less_risk_level_def)
  then show ?thesis
    by (rule_tac assess_data_parts [OF assms]) (auto simp: compose_level compose_mode *)
qed

section \<open>What the reader is told is missing\<close>

lemma mem_source_gaps:
  "g \<in> set (source_gaps states) \<longleftrightarrow>
     (\<exists>st\<in>set states. as_state st \<in> set verbatim_required_source_states
        \<and> \<not> is_merely_delayed st \<and> (\<exists>m. as_message st = Some m \<and> g = GapSource m))"
  by (induction states) (auto simp: source_gaps_def map_filter_simps split: option.splits)

lemma delayed_summary_mem:
  assumes "st \<in> set states" and "is_merely_delayed st"
  shows "\<exists>labels. delayed_sources_summary states = Some (GapDelayedSources labels)
    \<and> signal_label (as_signal_type st) \<in> set labels"
  using assms by (auto simp: delayed_sources_summary_def Let_def filter_empty_conv)

lemma verbatim_states:
  "as_state st \<notin> {StatusFresh, StatusNotApplicable} \<longleftrightarrow>
     as_state st \<in> set verbatim_required_source_states"
  by (cases "as_state st") (simp_all add: verbatim_required_source_states_def)

text \<open>
  No silent gap: the list of gaps in the answer has no duplicates, names every required source
  that is not fresh (by its own message, or, when it is merely delayed, by the label of its signal
  in one summary line), and names each of the five reads that failed.
\<close>

theorem every_gap_is_reported:
  assumes "assess_data data lookup now = Inr a"
  shows "distinct (ra_data_missing a)
    \<and> (\<forall>st\<in>set (ad_source_states data).
         as_source_key st \<in> ad_required_realtime_source_keys data
         \<and> as_state st \<notin> {StatusFresh, StatusNotApplicable} \<longrightarrow>
           (if is_merely_delayed st
            then \<exists>labels. GapDelayedSources labels \<in> set (ra_data_missing a)
                   \<and> signal_label (as_signal_type st) \<in> set labels
            else \<forall>m. as_message st = Some m \<longrightarrow> GapSource m \<in> set (ra_data_missing a)))
    \<and> (GapCurrentUnavailable \<in> set (ra_data_missing a) \<longleftrightarrow> \<not> ad_current_available data)
    \<and> (GapHistoricalUnavailable \<in> set (ra_data_missing a) \<longleftrightarrow> \<not> ad_historical_available data)
    \<and> (GapCoverageUnavailable \<in> set (ra_data_missing a) \<longleftrightarrow> \<not> ad_coverage_available data)
    \<and> (GapHealthUnavailable \<in> set (ra_data_missing a) \<longleftrightarrow> \<not> ad_health_available data)
    \<and> (GapJurisdictionUnavailable \<in> set (ra_data_missing a)
         \<longleftrightarrow> \<not> ad_jurisdiction_available data)"
proof -
  have m: "ra_data_missing a = data_status_missing data"
    by (rule assess_data_parts [OF assms]) simp
  have delayed: "delayed_sources_summary states = Some g \<Longrightarrow> \<exists>labels. g = GapDelayedSources labels"
    for states g by (auto simp: delayed_sources_summary_def Let_def split: if_splits)
  have source: "\<exists>labels. GapDelayedSources labels \<in> set (data_status_missing data)
        \<and> signal_label (as_signal_type st) \<in> set labels"
    if "st \<in> set (required_states data)" "is_merely_delayed st" for st
    using delayed_summary_mem [OF that] by (auto simp: data_status_missing_def)
  have verbatim: "GapSource n \<in> set (data_status_missing data)"
    if "st \<in> set (required_states data)" "\<not> is_merely_delayed st" "as_message st = Some n"
      "as_state st \<in> set verbatim_required_source_states" for st n
    using that by (auto simp: data_status_missing_def mem_source_gaps)
  have reads: "g \<in> set (data_status_missing data) \<longleftrightarrow> g \<in> set (availability_gaps data)"
    if "g \<in> {GapCurrentUnavailable, GapHistoricalUnavailable, GapCoverageUnavailable,
      GapHealthUnavailable, GapJurisdictionUnavailable}" for g
    using that
    by (auto simp: data_status_missing_def mem_source_gaps split: option.splits dest!: delayed [OF sym])
  have "distinct (data_status_missing data)" by (simp add: data_status_missing_def)
  moreover have "\<forall>st\<in>set (ad_source_states data).
      as_source_key st \<in> ad_required_realtime_source_keys data
      \<and> as_state st \<notin> {StatusFresh, StatusNotApplicable} \<longrightarrow>
        (if is_merely_delayed st
         then \<exists>labels. GapDelayedSources labels \<in> set (data_status_missing data)
                \<and> signal_label (as_signal_type st) \<in> set labels
         else \<forall>m. as_message st = Some m \<longrightarrow> GapSource m \<in> set (data_status_missing data))"
    using source verbatim unfolding verbatim_states by (simp add: required_states_def) blast
  ultimately show ?thesis unfolding m by (simp add: reads) (simp add: availability_gaps_def)
qed

section \<open>Stronger measurements\<close>

lemma rainfall_factor_mono:
  "x \<le> y \<Longrightarrow> rainfall_realtime_risk_factor x \<le> rainfall_realtime_risk_factor y"
  by (auto simp: rainfall_realtime_risk_factor_def)

lemma ratio_factor_mono: "x \<le> y \<Longrightarrow> ratio_risk_factor x \<le> ratio_risk_factor y"
  by (auto simp: ratio_risk_factor_def)

lemma depth_factor_mono:
  "x \<le> y \<Longrightarrow> flood_depth_realtime_risk_factor x \<le> flood_depth_realtime_risk_factor y"
  by (auto simp: flood_depth_realtime_risk_factor_def)

interpretation rainfall_ladder: monotone_grading rainfall_realtime_risk_factor
  by unfold_locales (rule rainfall_factor_mono)

interpretation water_ratio_ladder: monotone_grading ratio_risk_factor
  by unfold_locales (rule ratio_factor_mono)

interpretation flood_depth_ladder: monotone_grading flood_depth_realtime_risk_factor
  by unfold_locales (rule depth_factor_mono)

text \<open>A record that measures at least as much, everything else being equal.\<close>

fun measured_le :: "rat option \<Rightarrow> rat option \<Rightarrow> bool" where
  "measured_le None None = True"
| "measured_le (Some x) (Some y) = (x \<le> y)"
| "measured_le _ _ = False"

definition measures_at_least :: "evidence_record \<Rightarrow> evidence_record \<Rightarrow> bool" where
  "measures_at_least r r' \<longleftrightarrow>
     measured_le (er_rainfall_mm_1h r) (er_rainfall_mm_1h r')
     \<and> measured_le (er_water_level_m r) (er_water_level_m r')
     \<and> measured_le (er_flood_depth_cm r) (er_flood_depth_cm r')
     \<and> r' = r\<lparr> er_rainfall_mm_1h := er_rainfall_mm_1h r',
                er_water_level_m := er_water_level_m r',
                er_flood_depth_cm := er_flood_depth_cm r' \<rparr>"

text \<open>Signals that only differ in a risk factor at least as high.\<close>

definition riskier :: "risk_evidence_signal \<Rightarrow> risk_evidence_signal \<Rightarrow> bool" where
  "riskier s s' \<longleftrightarrow> risk_factor s \<le> risk_factor s' \<and> s' = s\<lparr> risk_factor := risk_factor s' \<rparr>"

lemma measured_le_cases:
  "measured_le x y \<Longrightarrow> (x = None \<and> y = None \<Longrightarrow> P) \<Longrightarrow>
     (\<And>a b. x = Some a \<Longrightarrow> y = Some b \<Longrightarrow> a \<le> b \<Longrightarrow> P) \<Longrightarrow> P"
  by (cases x; cases y) auto

lemma measures_at_least_same:
  assumes "measures_at_least r r'"
  shows "er_event_type r' = er_event_type r" "er_realtime_risk_factor r' = er_realtime_risk_factor r"
    "er_warning_level_m r' = er_warning_level_m r"
proof -
  have eq: "r' = r\<lparr> er_rainfall_mm_1h := er_rainfall_mm_1h r',
                er_water_level_m := er_water_level_m r',
                er_flood_depth_cm := er_flood_depth_cm r' \<rparr>"
    using assms by (simp add: measures_at_least_def)
  show "er_event_type r' = er_event_type r" "er_realtime_risk_factor r' = er_realtime_risk_factor r"
    "er_warning_level_m r' = er_warning_level_m r"
    using arg_cong [OF eq, of er_event_type] arg_cong [OF eq, of er_realtime_risk_factor]
      arg_cong [OF eq, of er_warning_level_m] by simp_all
qed

lemma risk_factor_measured:
  assumes "measures_at_least r r'"
  shows "measured_le (evidence_realtime_risk_factor r) (evidence_realtime_risk_factor r')"
proof (cases "er_realtime_risk_factor r")
  case (Some f)
  then show ?thesis using measures_at_least_same [OF assms] by (simp add: evidence_realtime_risk_factor_def)
next
  case None
  have m: "measured_le (er_rainfall_mm_1h r) (er_rainfall_mm_1h r')"
    "measured_le (er_water_level_m r) (er_water_level_m r')"
    "measured_le (er_flood_depth_cm r) (er_flood_depth_cm r')"
    using assms by (simp_all add: measures_at_least_def)
  note same = measures_at_least_same [OF assms] None
  consider "er_event_type r = ''rainfall''" | "er_event_type r = ''water_level''"
    | "er_event_type r = ''flood_report''"
    | "er_event_type r \<notin> {''rainfall'', ''water_level'', ''flood_report''}" by blast
  then show ?thesis
  proof cases
    case 1
    with m(1) same show ?thesis
      by (elim measured_le_cases) (simp_all add: evidence_realtime_risk_factor_def rainfall_factor_mono)
  next
    case 2
    with m(2) same show ?thesis
      by (elim measured_le_cases)
        (auto simp: evidence_realtime_risk_factor_def water_level_realtime_risk_factor_def
          intro!: ratio_factor_mono divide_right_mono split: option.splits)
  next
    case 3
    with m(3) same show ?thesis
      by (elim measured_le_cases) (simp_all add: evidence_realtime_risk_factor_def depth_factor_mono)
  next
    case 4
    with same show ?thesis by (simp add: evidence_realtime_risk_factor_def)
  qed
qed

lemma public_evidence_measured:
  assumes "measures_at_least r r'"
  shows "public_evidence r' =
    (public_evidence r)\<lparr> pe_realtime_risk_factor := evidence_realtime_risk_factor r' \<rparr>"
proof -
  have eq: "r' = r\<lparr> er_rainfall_mm_1h := er_rainfall_mm_1h r',
                er_water_level_m := er_water_level_m r',
                er_flood_depth_cm := er_flood_depth_cm r' \<rparr>"
    using assms by (simp add: measures_at_least_def)
  have "public_evidence (r\<lparr> er_rainfall_mm_1h := x, er_water_level_m := y, er_flood_depth_cm := z \<rparr>)
      = (public_evidence r)\<lparr> pe_realtime_risk_factor := evidence_realtime_risk_factor
          (r\<lparr> er_rainfall_mm_1h := x, er_water_level_m := y, er_flood_depth_cm := z \<rparr>) \<rparr>" for x y z
    by (simp add: public_evidence_def localized_evidence_text_def)
  from this [of "er_flood_depth_cm r'" "er_water_level_m r'" "er_rainfall_mm_1h r'"] show ?thesis
    by (simp only: eq [symmetric])
qed

lemma riskier_evidence:
  assumes "measures_at_least r r'"
  shows "riskier (signal_from_evidence (public_evidence r)) (signal_from_evidence (public_evidence r'))"
  using risk_factor_measured [OF assms]
  unfolding public_evidence_measured [OF assms]
  by (elim measured_le_cases)
    (simp_all add: riskier_def signal_from_evidence_def public_evidence_def)

lemma is_recent_update [simp]: "is_recent (s\<lparr> risk_factor := f \<rparr>) n a = is_recent s n a"
  by (simp add: is_recent_def)

lemma eligible_update [simp]:
  "is_weighted_signal_eligible (s\<lparr> risk_factor := f \<rparr>) w now a = is_weighted_signal_eligible s w now a"
  by (cases now; cases a) (auto simp: is_weighted_signal_eligible_def)

lemma observed_incident_update [simp]:
  "observed_incident (s\<lparr> risk_factor := f \<rparr>) = observed_incident s"
  by (simp add: observed_incident_def)

lemma riskier_same:
  assumes "riskier s s'"
  shows "event_type s' = event_type s" "observed_incident s' = observed_incident s"
    "is_weighted_signal_eligible s' w now a = is_weighted_signal_eligible s w now a"
proof -
  have eq: "s' = s\<lparr> risk_factor := risk_factor s' \<rparr>" using assms by (simp add: riskier_def)
  show "event_type s' = event_type s" "observed_incident s' = observed_incident s"
    "is_weighted_signal_eligible s' w now a = is_weighted_signal_eligible s w now a"
    using arg_cong [OF eq, of event_type] arg_cong [OF eq, of observed_incident]
      arg_cong [OF eq, of "\<lambda>s. is_weighted_signal_eligible s w now a"]
    by simp_all
qed

lemma clamp_mono: "x \<le> y \<Longrightarrow> clamp x \<le> clamp y"
  by (auto simp: clamp_def)

lemma realtime_report_weight:
  "\<not> weight_get HistoricalWeights ''flood_report'' \<le> weight_get RealtimeWeights ''flood_report''"
  by (simp add: weight_get_def)

lemma riskier_contribution:
  assumes "riskier s s'"
  shows "contribution RealtimeWeights s \<le> contribution RealtimeWeights s'"
proof -
  have eq: "s' = s\<lparr> risk_factor := risk_factor s' \<rparr>" and le: "risk_factor s \<le> risk_factor s'"
    using assms by (simp_all add: riskier_def)
  have w: "weighted_signal_contribution s k \<le> weighted_signal_contribution (s\<lparr> risk_factor := f \<rparr>) k"
    if "0 \<le> k" "risk_factor s \<le> f" for k f
    unfolding weighted_signal_contribution_def
    using that by (auto intro!: mult_right_mono mult_left_mono clamp_mono)
  have c: "contribution RealtimeWeights u
      = weighted_signal_contribution u (weight_get RealtimeWeights (event_type u))" for u
    using realtime_report_weight by (auto simp: contribution_def Let_def)
  have "contribution RealtimeWeights s
      \<le> contribution RealtimeWeights (s\<lparr> risk_factor := risk_factor s' \<rparr>)"
    unfolding c using w le by simp
  then show ?thesis by (simp only: eq [symmetric])
qed

lemma event_contributions_riskier:
  "list_all2 riskier ss ss' \<Longrightarrow>
     list_all2 (\<le>) (event_contributions RealtimeWeights now a e ss)
       (event_contributions RealtimeWeights now a e ss')"
  by (induction rule: list_all2_induct)
    (simp_all add: event_contributions_Cons event_contributions_def riskier_same riskier_contribution)

lemma event_aggregate_mono: "list_all2 (\<le>) cs ds \<Longrightarrow> event_aggregate e cs \<le> event_aggregate e ds"
  by (induction rule: list_all2_induct)
    (auto simp: event_aggregate_def intro: add_mono max.mono split: if_splits)

lemma has_observed_history_riskier:
  "list_all2 riskier ss ss' \<Longrightarrow> has_observed_history ss' w now a = has_observed_history ss w now a"
  by (induction rule: list_all2_induct) (simp_all add: has_observed_history_def riskier_same)

lemma has_weighted_evidence_riskier:
  "list_all2 riskier ss ss' \<Longrightarrow> has_weighted_evidence ss' w now a = has_weighted_evidence ss w now a"
  by (induction rule: list_all2_induct) (simp_all add: has_weighted_evidence_def riskier_same)

lemma weighted_score_riskier:
  assumes "list_all2 riskier ss ss'"
  shows "weighted_score ss RealtimeWeights now a \<le> weighted_score ss' RealtimeWeights now a"
  unfolding weighted_score_sum has_observed_history_riskier [OF assms] event_total_def
  by (intro min.mono sum_mono capped_mono event_aggregate_mono event_contributions_riskier assms)
    simp

lemma score_risk_riskier:
  assumes "list_all2 riskier ss ss'"
  shows "realtime_score (score_risk ss now) \<le> realtime_score (score_risk ss' now)"
    and "realtime_level (score_risk ss now) \<le> realtime_level (score_risk ss' now)"
proof -
  have raw: "raw_realtime_score ss now \<le> raw_realtime_score ss' now"
    unfolding raw_realtime_score_def by (rule weighted_score_riskier [OF assms])
  then show "realtime_score (score_risk ss now) \<le> realtime_score (score_risk ss' now)"
    by (simp add: score_risk_def Let_def round3_mono)
  show "realtime_level (score_risk ss now) \<le> realtime_level (score_risk ss' now)"
    using risk_ladder.grade_mono [OF raw]
    by (cases "has_weighted_evidence ss RealtimeWeights (Some now) (Some realtime_max_age)")
      (simp_all add: score_risk_def Let_def has_weighted_evidence_riskier [OF assms])
qed

lemma safety_mono:
  "realtime_level x \<le> realtime_level y \<Longrightarrow>
     realtime_level (apply_realtime_safety x data) \<le> realtime_level (apply_realtime_safety y data)"
  by (cases "realtime_level x"; cases "realtime_level y")
    (simp_all add: apply_realtime_safety_def less_eq_risk_level_def)

lemma safety_score [simp]:
  "realtime_score (apply_realtime_safety x data) = realtime_score x"
  by (simp add: apply_realtime_safety_def)

lemma evidence_from_record_Inr: "evidence_from_record r = Inr e \<Longrightarrow> e = public_evidence r"
  by (auto simp: evidence_from_record_def split: if_splits)

lemma converted_riskier:
  assumes "list_all2 measures_at_least rs rs'"
    and "list_all2 (\<lambda>r e. evidence_from_record r = Inr e) rs es"
    and "list_all2 (\<lambda>r e. evidence_from_record r = Inr e) rs' es'"
  shows "list_all2 riskier (map signal_from_evidence es) (map signal_from_evidence es')"
  using assms
proof (induction rs rs' arbitrary: es es' rule: list_all2_induct)
  case (Cons r rs r' rs')
  then show ?case
    by (auto simp: list_all2_Cons1 riskier_evidence dest!: evidence_from_record_Inr)
qed simp

text \<open>
  C4. Measuring more never looks safer: if every current record of one assessment measures at least
  as much rain, water or flood depth as in another (everything else being equal), neither its
  realtime score nor its published realtime level is lower, safety override included.
\<close>

theorem higher_measurements_never_lower_realtime:
  assumes "assess_data data lookup now = Inr a"
    and "assess_data (data\<lparr> ad_current_official := rs' \<rparr>) lookup now = Inr a'"
    and "list_all2 measures_at_least (ad_current_official data) rs'"
  shows "ra_realtime_score a \<le> ra_realtime_score a'
    \<and> lb_level (ra_realtime a) \<le> lb_level (ra_realtime a')"
proof -
  let ?data' = "data\<lparr> ad_current_official := rs' \<rparr>"
  obtain es hist where es: "list_all2 (\<lambda>r e. evidence_from_record r = Inr e) (ad_current_official data) es"
    and a: "a = assessment_of data
      (apply_realtime_safety (score_risk (map signal_from_evidence es) now) data) hist now"
    by (rule assess_data_parts [OF assms(1)]) (rule that)
  obtain es' hist' where es': "list_all2 (\<lambda>r e. evidence_from_record r = Inr e) rs' es'"
    and a': "a' = assessment_of ?data'
      (apply_realtime_safety (score_risk (map signal_from_evidence es') now) ?data') hist' now"
    by (rule assess_data_parts [OF assms(2)]) (rule that, simp_all)
  have same: "apply_realtime_safety x ?data' = apply_realtime_safety x data" for x
    by (simp add: apply_realtime_safety_def can_support_low_realtime_def
        required_sources_support_low_def required_source_supports_low_def state_by_key_def
        query_local_signal_types_def cong: option.case_cong)
  from score_risk_riskier [OF converted_riskier [OF assms(3) es es'], of now] safety_mono
  show ?thesis unfolding a a' same by simp
qed

section \<open>Examples\<close>

text \<open>A dry afternoon with a rain gauge and a water level station around the corner.\<close>

definition rain_record :: "rat \<Rightarrow> evidence_record" where
  "rain_record mm =
     (sample_warning ''official.cwa.rainfall'' 590)\<lparr> er_event_type := ''rainfall'',
        er_rainfall_mm_1h := Some mm, er_location_precision := ''point'' \<rparr>"

definition near_signal :: "signal_type \<Rightarrow> coverage_signal" where
  "near_signal t =
     signal_model t [sample_coverage_row ''official.cwa.rainfall'' ''fresh'' 100] [] CoverageHigh
       CauseNone None"

definition covered_town :: nearby_coverage where
  "covered_town =
     \<lparr> nc_overall_level = CoverageHigh, nc_evaluated_at = sample_now, nc_query_radius_m = 500,
       nc_radius_buckets_m = radius_buckets_m,
       nc_summary = SummaryBestLevel CoverageHigh [Rainfall, WaterLevel],
       nc_signal_breakdown = [near_signal Rainfall, near_signal WaterLevel],
       nc_missing_signal_types = [FloodDepth], nc_limitations = [LimitCountyLevelNote],
       nc_source_health = [], nc_source_health_status = UnknownHealth,
       nc_source_health_checked = True, nc_jurisdiction_status = JurisdictionVerified,
       nc_jurisdiction_checked = True, nc_jurisdiction_catalog_complete = True,
       nc_home_jurisdiction = None, nc_considered_jurisdictions = [],
       nc_jurisdiction_mapping_revisions = [], nc_jurisdiction_unverified_signal_types = [],
       nc_county_level_note = LimitCountyLevelNote \<rparr>"

definition dry_data :: assessment_data where
  "dry_data =
     \<lparr> ad_current_official = [rain_record 2], ad_historical = [],
       ad_nearby_coverage = covered_town,
       ad_source_states =
         [\<lparr> as_source_key = ''official.cwa.rainfall'', as_signal_type = Rainfall,
            as_state = StatusDegraded, as_reason_code = Delayed, as_observed_at = None,
            as_checked_at = None, as_message = None \<rparr>],
       ad_required_realtime_source_keys = {''official.cwa.rainfall''},
       ad_current_available = True, ad_historical_available = True,
       ad_coverage_available = True, ad_health_available = True,
       ad_jurisdiction_available = True, ad_resolved_admin_code = None,
       ad_resolved_admin_name = None, ad_local_machine_feed_missing = [],
       ad_recent_incident_context = [] \<rparr>"

definition sample_clock :: aware_datetime where
  "sample_clock = AwareAt (minutes 600) 0"

lemma rain_record_valid [simp]: "evidence_from_record (rain_record mm) = Inr (public_evidence (rain_record mm))"
  by (simp add: evidence_from_record_def evidence_valid_def public_evidence_def rain_record_def
      sample_warning_def evidence_source_types_def evidence_event_types_def
      evidence_location_precisions_def)

definition rain_assessment :: "rat \<Rightarrow> assessment" where
  "rain_assessment mm =
     assessment_of (dry_data\<lparr> ad_current_official := [rain_record mm] \<rparr>)
       (apply_realtime_safety
          (score_risk [signal_from_evidence (public_evidence (rain_record mm))] sample_clock)
          (dry_data\<lparr> ad_current_official := [rain_record mm] \<rparr>))
       (score_risk [] sample_clock) sample_clock"

lemma assess_rain:
  "assess_data (dry_data\<lparr> ad_current_official := [rain_record mm] \<rparr>) None sample_clock
     = Inr (rain_assessment mm)"
  by (simp add: assess_data_def dry_data_def recent_history_of_def rain_assessment_def)

lemma dry_data_update: "dry_data\<lparr> ad_current_official := [rain_record 2] \<rparr> = dry_data"
  by (simp add: dry_data_def)

lemma assess_dry: "assess_data dry_data None sample_clock = Inr (rain_assessment 2)"
  using assess_rain [of 2] by (simp add: dry_data_update)

lemma dry_support: "can_support_low_realtime dry_data"
  by (simp add: can_support_low_realtime_def dry_data_def covered_town_def
      query_local_signal_types_def usable_local_states_def near_signal_def availability_state_def
      nearest_usable_def usable_rows_def fresh_rows_def degraded_rows_def
      required_sources_support_low_def required_source_supports_low_def state_by_key_def
      acceptable_required_states_def usable_source_states_def hydrology_def)

lemma dry_low: "realtime_level (score_risk [signal_from_evidence (public_evidence (rain_record 2))] sample_clock) = RiskLow"
  by (simp add: score_eval signal_from_evidence_def public_evidence_def rain_record_def
      sample_warning_def evidence_realtime_risk_factor_def rainfall_realtime_risk_factor_def
      sample_clock_def sample_instant_def)

lemma low_realtime_needs_support_witness:
  "\<exists>a. assess_data dry_data None sample_clock = Inr a \<and> lb_level (ra_realtime a) = RiskLow
     \<and> usable_local_signal dry_data Rainfall"
proof -
  have low: "lb_level (ra_realtime (rain_assessment 2)) = RiskLow"
    using dry_low dry_support
    by (simp add: rain_assessment_def dry_data_update apply_realtime_safety_def)
  from low_realtime_needs_support [OF assess_dry low] assess_dry low show ?thesis by blast
qed

lemma overall_is_the_worse_level_witness:
  "\<exists>a. assess_data dry_data None sample_clock = Inr a
     \<and> lb_level (ra_overall a) = max (lb_level (ra_realtime a)) (lb_level (ra_historical a))"
  using overall_is_the_worse_level [OF assess_dry] assess_dry by blast

lemma every_gap_is_reported_witness:
  "\<exists>a labels. assess_data dry_data None sample_clock = Inr a
     \<and> GapDelayedSources labels \<in> set (ra_data_missing a) \<and> signal_label Rainfall \<in> set labels"
proof -
  have "as_source_key (hd (ad_source_states dry_data)) \<in> ad_required_realtime_source_keys dry_data"
    "hd (ad_source_states dry_data) \<in> set (ad_source_states dry_data)"
    "as_state (hd (ad_source_states dry_data)) \<notin> {StatusFresh, StatusNotApplicable}"
    "is_merely_delayed (hd (ad_source_states dry_data))"
    "as_signal_type (hd (ad_source_states dry_data)) = Rainfall"
    by (simp_all add: dry_data_def is_merely_delayed_def)
  with every_gap_is_reported [OF assess_dry] assess_dry show ?thesis by fastforce
qed

lemma higher_measurements_never_lower_realtime_witness:
  "ra_realtime_score (rain_assessment 2) \<le> ra_realtime_score (rain_assessment 90)
     \<and> lb_level (ra_realtime (rain_assessment 2)) \<le> lb_level (ra_realtime (rain_assessment 90))"
proof -
  have "list_all2 measures_at_least (ad_current_official dry_data) [rain_record 90]"
    by (simp add: dry_data_def measures_at_least_def rain_record_def sample_warning_def)
  from higher_measurements_never_lower_realtime [OF assess_dry assess_rain this]
  show ?thesis .
qed

end
