(* ===== verification/Runtime_Queue.thy ===== *)
theory Runtime_Queue
  imports Flood_Prelude "HOL-Library.Product_Lexorder" "HOL-Library.List_Lexorder" "HOL-Library.Char_ord"
begin

text \<open>
  The durable job queue of the workers, \<open>apps/workers/app/jobs/queue.py\<close>: a table of jobs, a table
  of scheduler leases and a table of scheduler heartbeats, changed by one SQL statement per
  operation. A statement runs as one transaction, so an operation is a function from the tables and
  the transaction's \<open>now()\<close> to the new tables and the answer, or to \<open>RuntimeQueueUnavailable\<close> with
  the tables unchanged where a constraint of the migrations
  (\<open>infra/migrations/0006\<close>, \<open>0008\<close>, \<open>0057\<close>) rejects it. Timestamps are microseconds. Rows that another
  transaction has locked (\<open>FOR UPDATE SKIP LOCKED\<close>) do not occur, since transactions run one after
  the other. The range of \<open>integer\<close> columns is a constraint; the range of
  \<open>timestamptz\<close> is not modelled, nor is the privacy trigger of migration \<open>0036\<close>;
  columns that no operation reads or answers with are left out.
\<close>

section \<open>Tables and results\<close>

text \<open>A payload is a JSON object, its entries in the order of the text with distinct keys.\<close>

datatype json =
  JsonNull | JsonBool bool | JsonNumber rat | JsonString string
| JsonArray "json list" | JsonObject "(string \<times> json) list"

type_synonym payload = "(string \<times> json) list"

datatype job_status =
  JobQueued | JobRunning | JobSucceeded | JobFailed | JobSkipped | JobCancelled

record runtime_job =
  rj_id :: nat
  rj_queue_name :: string
  rj_job_key :: string
  rj_adapter_key :: "string option"
  rj_status :: job_status
  rj_priority :: int
  rj_attempts :: int
  rj_max_attempts :: int
  rj_run_after :: int
  rj_leased_by :: "string option"
  rj_lease_expires_at :: "int option"
  rj_started_at :: "int option"
  rj_finished_at :: "int option"
  rj_final_failed_at :: "int option"
  rj_payload :: payload
  rj_last_error :: "string option"
  rj_dedupe_key :: "string option"
  rj_created_at :: int
  rj_updated_at :: int

record scheduler_lease =
  sl_holder_id :: string
  sl_lease_expires_at :: int

record scheduler_heartbeat =
  hb_running :: bool
  hb_last_seen_at :: int
  hb_stale_after_seconds :: int

record queue_tables =
  qt_jobs :: "runtime_job list"
  qt_leases :: "string \<rightharpoonup> scheduler_lease"
  qt_heartbeats :: "string \<rightharpoonup> scheduler_heartbeat"

datatype enqueue_status = Enqueued | Deduped | EnqueueSkipped

record enqueue_result =
  eq_status :: enqueue_status
  eq_job_id :: "nat option"
  eq_dedupe_key :: "string option"

record queue_job =
  qj_id :: nat
  qj_queue_name :: string
  qj_job_key :: string
  qj_adapter_key :: "string option"
  qj_payload :: payload
  qj_attempts :: int
  qj_max_attempts :: int

record dead_letter_job =
  dl_id :: nat
  dl_queue_name :: string
  dl_job_key :: string
  dl_adapter_key :: "string option"
  dl_payload :: payload
  dl_attempts :: int
  dl_max_attempts :: int
  dl_last_error :: "string option"
  dl_final_failed_at :: "int option"
  dl_dedupe_key :: "string option"

record dead_letter_summary =
  ds_queue_name :: "string option"
  ds_failed_terminal_count :: nat
  ds_oldest_final_failed_at :: "int option"
  ds_newest_final_failed_at :: "int option"
  ds_max_attempts_observed :: "int option"
  ds_max_configured_attempts :: "int option"

record queue_metrics =
  qm_queue_name :: string
  qm_queued_count :: nat
  qm_running_count :: nat
  qm_final_failed_count :: nat
  qm_expired_lease_count :: nat
  qm_oldest_queued_at :: "int option"
  qm_oldest_final_failed_at :: "int option"

record requeue_result =
  rr_job_id :: nat
  rr_requeued :: bool
  rr_reset_attempts :: bool
  rr_attempts :: "int option"

section \<open>Constraints\<close>

definition active_status :: "job_status list" where
  "active_status = [JobQueued, JobRunning]"

definition is_active :: "runtime_job \<Rightarrow> bool" where
  "is_active j \<longleftrightarrow> rj_status j \<in> set active_status"

text \<open>The key of the partial unique index on active jobs, where the row takes part in it.\<close>

definition dedupe_identity :: "runtime_job \<Rightarrow> (string \<times> string \<times> string \<times> string) option" where
  "dedupe_identity j =
     (if is_active j
      then map_option
             (\<lambda>d. (rj_queue_name j, rj_job_key j, str_or_empty (rj_adapter_key j), d))
             (rj_dedupe_key j)
      else None)"

text \<open>The range of an \<open>integer\<close> column, and the constraints of one row.\<close>

definition int4 :: "int \<Rightarrow> bool" where
  "int4 n \<longleftrightarrow> - 2147483648 \<le> n \<and> n \<le> 2147483647"

definition row_admitted :: "runtime_job \<Rightarrow> bool" where
  "row_admitted j \<longleftrightarrow>
     int4 (rj_priority j) \<and> int4 (rj_attempts j) \<and> int4 (rj_max_attempts j)
     \<and> 0 \<le> rj_attempts j \<and> 0 < rj_max_attempts j
     \<and> (case (rj_finished_at j, rj_started_at j) of
          (Some f, Some s) \<Rightarrow> s \<le> f
        | _ \<Rightarrow> True)"

definition conflicts_with :: "runtime_job list \<Rightarrow> runtime_job \<Rightarrow> bool" where
  "conflicts_with jobs j =
     (dedupe_identity j \<noteq> None
      \<and> list_ex (\<lambda>k. rj_id k \<noteq> rj_id j \<and> dedupe_identity k = dedupe_identity j) jobs)"

text \<open>An \<open>UPDATE\<close> of the rows with some identifier, under the constraints of the table.\<close>

definition update_job ::
  "queue_tables \<Rightarrow> nat \<Rightarrow> (runtime_job \<Rightarrow> runtime_job) \<Rightarrow> queue_tables result" where
  "update_job q i f =
     (let jobs = map (\<lambda>j. if rj_id j = i then f j else j) (qt_jobs q)
      in if list_all (\<lambda>j. rj_id j = i \<longrightarrow> row_admitted j \<and> \<not> conflicts_with jobs j) jobs
         then Inr (q\<lparr> qt_jobs := jobs \<rparr>)
         else Inl RuntimeQueueUnavailable)"

section \<open>Scheduler leases\<close>

definition acquire_scheduler_lease ::
  "queue_tables \<Rightarrow> int \<Rightarrow> string \<Rightarrow> string \<Rightarrow> int \<Rightarrow> (queue_tables \<times> bool) result" where
  "acquire_scheduler_lease q now lease_key holder_id ttl_seconds =
     (let acquired =
            (case qt_leases q lease_key of
               None \<Rightarrow> True
             | Some l \<Rightarrow> sl_lease_expires_at l \<le> now \<or> sl_holder_id l = holder_id)
      in if \<not> acquired then Inr (q, False)
         else if \<not> (0 < ttl_seconds \<and> int4 ttl_seconds) then Inl RuntimeQueueUnavailable
         else Inr
           (q\<lparr> qt_leases := (qt_leases q)(lease_key \<mapsto>
                 \<lparr> sl_holder_id = holder_id, sl_lease_expires_at = now + seconds ttl_seconds \<rparr>),
               qt_heartbeats := (qt_heartbeats q)(lease_key \<mapsto>
                 \<lparr> hb_running = True, hb_last_seen_at = now,
                   hb_stale_after_seconds = ttl_seconds \<rparr>) \<rparr>, True))"

definition release_scheduler_lease ::
  "queue_tables \<Rightarrow> int \<Rightarrow> string \<Rightarrow> string \<Rightarrow> queue_tables" where
  "release_scheduler_lease q now lease_key holder_id =
     (case qt_leases q lease_key of
        None \<Rightarrow> q
      | Some l \<Rightarrow>
          if sl_holder_id l = holder_id
          then q\<lparr> qt_leases := (qt_leases q)(lease_key := None),
                  qt_heartbeats := (case qt_heartbeats q lease_key of
                     None \<Rightarrow> qt_heartbeats q
                   | Some h \<Rightarrow> (qt_heartbeats q)(lease_key \<mapsto>
                       h\<lparr> hb_running := False, hb_last_seen_at := now \<rparr>)) \<rparr>
          else q)"

section \<open>Enqueue and dequeue\<close>

record enqueue_request =
  en_adapter_key :: "string option"
  en_job_key :: string
  en_queue_name :: string
  en_payload :: "payload option"
  en_priority :: int
  en_max_attempts :: int
  en_run_after :: "int option"
  en_dedupe_key :: "string option"

definition new_job :: "enqueue_request \<Rightarrow> nat \<Rightarrow> int \<Rightarrow> runtime_job" where
  "new_job r new_id now =
     \<lparr> rj_id = new_id, rj_queue_name = en_queue_name r, rj_job_key = en_job_key r,
       rj_adapter_key = en_adapter_key r, rj_status = JobQueued, rj_priority = en_priority r,
       rj_attempts = 0, rj_max_attempts = en_max_attempts r,
       rj_run_after = (case en_run_after r of None \<Rightarrow> now | Some t \<Rightarrow> t),
       rj_leased_by = None, rj_lease_expires_at = None, rj_started_at = None,
       rj_finished_at = None, rj_final_failed_at = None, rj_payload = (case en_payload r of None \<Rightarrow> [] | Some p \<Rightarrow> p),
       rj_last_error = None, rj_dedupe_key = en_dedupe_key r,
       rj_created_at = now, rj_updated_at = now \<rparr>"

definition existing_active_job :: "queue_tables \<Rightarrow> enqueue_request \<Rightarrow> runtime_job option" where
  "existing_active_job q r =
     first_min_by rj_created_at
       (filter (\<lambda>j. rj_queue_name j = en_queue_name r \<and> rj_job_key j = en_job_key r
                  \<and> rj_adapter_key j = en_adapter_key r \<and> rj_dedupe_key j = en_dedupe_key r
                  \<and> rj_dedupe_key j \<noteq> None \<and> is_active j) (qt_jobs q))"

text \<open>
  Without an existing job the row is inserted, unless the unique index (which reads a missing
  adapter key as the empty one) finds another active job; then that job is returned.
\<close>

definition enqueue_adapter_job ::
  "queue_tables \<Rightarrow> int \<Rightarrow> nat \<Rightarrow> enqueue_request \<Rightarrow> (queue_tables \<times> enqueue_result) result" where
  "enqueue_adapter_job q now new_id r =
     (let answer = (\<lambda>status i. \<lparr> eq_status = status, eq_job_id = Some i,
                                   eq_dedupe_key = en_dedupe_key r \<rparr>);
          job = new_job r new_id now
      in case existing_active_job q r of
           Some j \<Rightarrow> Inr (q, answer Deduped (rj_id j))
         | None \<Rightarrow>
             if \<not> row_admitted job then Inl RuntimeQueueUnavailable
             else case find (\<lambda>k. dedupe_identity job \<noteq> None
                              \<and> dedupe_identity k = dedupe_identity job) (qt_jobs q) of
                    Some k \<Rightarrow> Inr (q, answer Deduped (rj_id k))
                  | None \<Rightarrow> Inr (q\<lparr> qt_jobs := qt_jobs q @ [job] \<rparr>, answer Enqueued new_id))"

definition lease_expired :: "int \<Rightarrow> runtime_job \<Rightarrow> bool" where
  "lease_expired now j =
     (case rj_lease_expires_at j of None \<Rightarrow> False | Some t \<Rightarrow> t \<le> now)"

definition dequeueable :: "string \<Rightarrow> int \<Rightarrow> runtime_job \<Rightarrow> bool" where
  "dequeueable queue_name now j \<longleftrightarrow>
     rj_queue_name j = queue_name
     \<and> (rj_status j = JobQueued \<and> rj_run_after j \<le> now
        \<or> rj_status j = JobRunning \<and> lease_expired now j \<and> rj_attempts j < rj_max_attempts j)"

definition dequeue_rank :: "runtime_job \<Rightarrow> int \<times> int \<times> int" where
  "dequeue_rank j = (- rj_priority j, rj_run_after j, rj_created_at j)"

definition lease_job :: "string \<Rightarrow> int \<Rightarrow> int \<Rightarrow> runtime_job \<Rightarrow> runtime_job" where
  "lease_job worker_id lease_seconds now j =
     j\<lparr> rj_status := JobRunning, rj_attempts := rj_attempts j + 1,
        rj_leased_by := Some worker_id,
        rj_lease_expires_at := Some (now + seconds lease_seconds),
        rj_started_at := (case rj_started_at j of None \<Rightarrow> Some now | Some t \<Rightarrow> Some t),
        rj_updated_at := now \<rparr>"

definition queue_job_of :: "runtime_job \<Rightarrow> queue_job" where
  "queue_job_of j =
     \<lparr> qj_id = rj_id j, qj_queue_name = rj_queue_name j, qj_job_key = rj_job_key j,
       qj_adapter_key = rj_adapter_key j, qj_payload = rj_payload j,
       qj_attempts = rj_attempts j, qj_max_attempts = rj_max_attempts j \<rparr>"

definition next_job :: "queue_tables \<Rightarrow> string \<Rightarrow> int \<Rightarrow> runtime_job option" where
  "next_job q queue_name now =
     first_min_by dequeue_rank (filter (dequeueable queue_name now) (qt_jobs q))"

definition dequeue_adapter_job ::
  "queue_tables \<Rightarrow> int \<Rightarrow> string \<Rightarrow> string \<Rightarrow> int
    \<Rightarrow> (queue_tables \<times> queue_job option) result" where
  "dequeue_adapter_job q now queue_name worker_id lease_seconds =
     (case next_job q queue_name now of
        None \<Rightarrow> Inr (q, None)
      | Some j \<Rightarrow>
          rbind (update_job q (rj_id j) (lease_job worker_id lease_seconds now))
            (\<lambda>q'. Inr (q', Some (queue_job_of (lease_job worker_id lease_seconds now j)))))"

section \<open>Completion\<close>

definition held_by :: "queue_tables \<Rightarrow> nat \<Rightarrow> string \<Rightarrow> bool" where
  "held_by q job_id worker_id =
     list_ex (\<lambda>j. rj_id j = job_id \<and> rj_leased_by j = Some worker_id \<and> rj_status j = JobRunning)
       (qt_jobs q)"

definition succeed_job :: "int \<Rightarrow> runtime_job \<Rightarrow> runtime_job" where
  "succeed_job now j =
     j\<lparr> rj_status := JobSucceeded, rj_leased_by := None, rj_lease_expires_at := None,
        rj_final_failed_at := None, rj_finished_at := Some now, rj_updated_at := now \<rparr>"

definition mark_job_succeeded ::
  "queue_tables \<Rightarrow> int \<Rightarrow> nat \<Rightarrow> string \<Rightarrow> (queue_tables \<times> bool) result" where
  "mark_job_succeeded q now job_id worker_id =
     (if held_by q job_id worker_id
      then rbind (update_job q job_id (succeed_job now)) (\<lambda>q'. Inr (q', True))
      else Inr (q, False))"

definition fail_job :: "int \<Rightarrow> int \<Rightarrow> string \<Rightarrow> runtime_job \<Rightarrow> runtime_job" where
  "fail_job now retry_delay_seconds error j =
     (let retry = rj_attempts j < rj_max_attempts j
      in j\<lparr> rj_status := (if retry then JobQueued else JobFailed),
            rj_run_after := (if retry then now + seconds retry_delay_seconds else rj_run_after j),
            rj_leased_by := None, rj_lease_expires_at := None,
            rj_final_failed_at := (if retry then None else Some now),
            rj_finished_at := (if retry then rj_finished_at j else Some now),
            rj_last_error := Some (take 1000 error), rj_updated_at := now \<rparr>)"

definition mark_job_failed ::
  "queue_tables \<Rightarrow> int \<Rightarrow> nat \<Rightarrow> string \<Rightarrow> string \<Rightarrow> int \<Rightarrow> (queue_tables \<times> bool) result" where
  "mark_job_failed q now job_id worker_id error retry_delay_seconds =
     (if held_by q job_id worker_id
      then rbind (update_job q job_id (fail_job now retry_delay_seconds error))
             (\<lambda>q'. Inr (q', True))
      else Inr (q, False))"

section \<open>Dead letters and metrics\<close>

definition dead_letter :: "runtime_job \<Rightarrow> bool" where
  "dead_letter j \<longleftrightarrow> rj_status j = JobFailed \<and> rj_attempts j \<ge> rj_max_attempts j"

definition in_queue :: "string option \<Rightarrow> runtime_job \<Rightarrow> bool" where
  "in_queue queue_name j = (case queue_name of None \<Rightarrow> True | Some n \<Rightarrow> rj_queue_name j = n)"

definition failed_at :: "runtime_job \<Rightarrow> int" where
  "failed_at j =
     (case rj_final_failed_at j of
        Some t \<Rightarrow> t
      | None \<Rightarrow> (case rj_finished_at j of Some t \<Rightarrow> t | None \<Rightarrow> rj_updated_at j))"

definition dead_letter_job_of :: "runtime_job \<Rightarrow> dead_letter_job" where
  "dead_letter_job_of j =
     \<lparr> dl_id = rj_id j, dl_queue_name = rj_queue_name j, dl_job_key = rj_job_key j,
       dl_adapter_key = rj_adapter_key j, dl_payload = rj_payload j,
       dl_attempts = rj_attempts j, dl_max_attempts = rj_max_attempts j,
       dl_last_error = rj_last_error j, dl_final_failed_at = rj_final_failed_at j,
       dl_dedupe_key = rj_dedupe_key j \<rparr>"

definition list_dead_letter_jobs :: "queue_tables \<Rightarrow> string option \<Rightarrow> int \<Rightarrow> dead_letter_job list" where
  "list_dead_letter_jobs q queue_name limit =
     map dead_letter_job_of
       (take (nat (max 1 (min limit 500)))
         (sort_key (\<lambda>j. (- failed_at j, - rj_created_at j))
           (filter (\<lambda>j. dead_letter j \<and> in_queue queue_name j) (qt_jobs q))))"

text \<open>The SQL aggregates \<open>min\<close> and \<open>max\<close>, null over no rows.\<close>

definition sql_min :: "int list \<Rightarrow> int option" where
  "sql_min xs = (if xs = [] then None else Some (Min (set xs)))"

definition sql_max :: "int list \<Rightarrow> int option" where
  "sql_max xs = (if xs = [] then None else Some (Max (set xs)))"

definition summarize_dead_letter_jobs ::
  "queue_tables \<Rightarrow> string option \<Rightarrow> dead_letter_summary" where
  "summarize_dead_letter_jobs q queue_name =
     (let dead = filter (\<lambda>j. dead_letter j \<and> in_queue queue_name j) (qt_jobs q)
      in \<lparr> ds_queue_name = queue_name,
           ds_failed_terminal_count = length dead,
           ds_oldest_final_failed_at = sql_min (map failed_at dead),
           ds_newest_final_failed_at = sql_max (map failed_at dead),
           ds_max_attempts_observed = sql_max (map rj_attempts dead),
           ds_max_configured_attempts = sql_max (map rj_max_attempts dead) \<rparr>)"

definition queue_metrics_of :: "runtime_job list \<Rightarrow> int \<Rightarrow> string \<Rightarrow> queue_metrics" where
  "queue_metrics_of jobs now name =
     \<lparr> qm_queue_name = name,
       qm_queued_count = count_if (\<lambda>j. rj_status j = JobQueued) jobs,
       qm_running_count = count_if (\<lambda>j. rj_status j = JobRunning) jobs,
       qm_final_failed_count = count_if dead_letter jobs,
       qm_expired_lease_count =
         count_if (\<lambda>j. rj_status j = JobRunning \<and> lease_expired now j) jobs,
       qm_oldest_queued_at =
         sql_min (map rj_run_after
           (filter (\<lambda>j. rj_status j = JobQueued \<and> rj_run_after j \<le> now) jobs)),
       qm_oldest_final_failed_at = sql_min (map failed_at (filter dead_letter jobs)) \<rparr>"

definition collect_metrics :: "queue_tables \<Rightarrow> int \<Rightarrow> string option \<Rightarrow> queue_metrics list" where
  "collect_metrics q now queue_name =
     (let jobs = filter (in_queue queue_name) (qt_jobs q)
      in if jobs = []
         then [queue_metrics_of [] now
                 (case queue_name of
                    Some n \<Rightarrow> if n = [] then ''runtime-adapters'' else n
                  | None \<Rightarrow> ''runtime-adapters'')]
         else map (\<lambda>n. queue_metrics_of (filter (\<lambda>j. rj_queue_name j = n) jobs) now n)
                (sorted_list_of_set (set (map rj_queue_name jobs))))"

section \<open>Requeue\<close>

definition requeue_job :: "int \<Rightarrow> bool \<Rightarrow> int option \<Rightarrow> runtime_job \<Rightarrow> runtime_job" where
  "requeue_job now reset_attempts run_after j =
     j\<lparr> rj_status := JobQueued,
        rj_attempts := (if reset_attempts then 0 else rj_attempts j),
        rj_run_after := (case run_after of None \<Rightarrow> now | Some t \<Rightarrow> t),
        rj_leased_by := None, rj_lease_expires_at := None, rj_final_failed_at := None,
        rj_finished_at := None, rj_last_error := None, rj_updated_at := now \<rparr>"

definition requeue_failed_job ::
  "queue_tables \<Rightarrow> int \<Rightarrow> nat \<Rightarrow> bool \<Rightarrow> int option \<Rightarrow> (queue_tables \<times> requeue_result) result" where
  "requeue_failed_job q now job_id reset_attempts run_after =
     (case find (\<lambda>j. rj_id j = job_id \<and> rj_status j = JobFailed) (qt_jobs q) of
        None \<Rightarrow> Inr (q, \<lparr> rr_job_id = job_id, rr_requeued = False,
                         rr_reset_attempts = reset_attempts, rr_attempts = None \<rparr>)
      | Some j \<Rightarrow>
          rbind (update_job q job_id (requeue_job now reset_attempts run_after))
            (\<lambda>q'. Inr (q', \<lparr> rr_job_id = job_id, rr_requeued = True,
                            rr_reset_attempts = reset_attempts,
                            rr_attempts = Some (rj_attempts
                              (requeue_job now reset_attempts run_after j)) \<rparr>)))"

section \<open>The queue without a database\<close>

text \<open>\<open>NullRuntimeQueue\<close> keeps no state; its answers depend on the arguments alone.\<close>

definition null_acquire_scheduler_lease :: "string \<Rightarrow> string \<Rightarrow> int \<Rightarrow> bool" where
  "null_acquire_scheduler_lease lease_key holder_id ttl_seconds = True"

definition null_enqueue_adapter_job :: "enqueue_request \<Rightarrow> enqueue_result" where
  "null_enqueue_adapter_job r =
     \<lparr> eq_status = EnqueueSkipped, eq_job_id = None, eq_dedupe_key = en_dedupe_key r \<rparr>"

definition null_dequeue_adapter_job :: "string \<Rightarrow> string \<Rightarrow> int \<Rightarrow> queue_job option" where
  "null_dequeue_adapter_job queue_name worker_id lease_seconds = None"

definition null_mark_job_succeeded :: "nat \<Rightarrow> string \<Rightarrow> bool" where
  "null_mark_job_succeeded job_id worker_id = False"

definition null_mark_job_failed :: "nat \<Rightarrow> string \<Rightarrow> string \<Rightarrow> int \<Rightarrow> bool" where
  "null_mark_job_failed job_id worker_id error retry_delay_seconds = False"

definition null_list_dead_letter_jobs :: "string option \<Rightarrow> int \<Rightarrow> dead_letter_job list" where
  "null_list_dead_letter_jobs queue_name limit = []"

definition null_summarize_dead_letter_jobs :: "string option \<Rightarrow> dead_letter_summary" where
  "null_summarize_dead_letter_jobs queue_name =
     \<lparr> ds_queue_name = queue_name, ds_failed_terminal_count = 0,
       ds_oldest_final_failed_at = None, ds_newest_final_failed_at = None,
       ds_max_attempts_observed = None, ds_max_configured_attempts = None \<rparr>"

definition null_collect_metrics :: "string option \<Rightarrow> queue_metrics list" where
  "null_collect_metrics queue_name =
     [\<lparr> qm_queue_name = (case queue_name of
            Some n \<Rightarrow> if n = [] then ''runtime-adapters'' else n
          | None \<Rightarrow> ''runtime-adapters''),
        qm_queued_count = 0, qm_running_count = 0, qm_final_failed_count = 0,
        qm_expired_lease_count = 0, qm_oldest_queued_at = None,
        qm_oldest_final_failed_at = None \<rparr>]"

definition null_requeue_failed_job :: "nat \<Rightarrow> bool \<Rightarrow> int option \<Rightarrow> requeue_result" where
  "null_requeue_failed_job job_id reset_attempts run_after =
     \<lparr> rr_job_id = job_id, rr_requeued = False, rr_reset_attempts = reset_attempts,
       rr_attempts = None \<rparr>"

text \<open>Over an empty table the durable queue gives the same summaries.\<close>

lemma null_reads_empty_tables:
  assumes "qt_jobs q = []"
  shows "list_dead_letter_jobs q n limit = null_list_dead_letter_jobs n limit"
    and "summarize_dead_letter_jobs q n = null_summarize_dead_letter_jobs n"
    and "collect_metrics q now n = null_collect_metrics n"
  using assms
  by (simp_all add: list_dead_letter_jobs_def null_list_dead_letter_jobs_def
      summarize_dead_letter_jobs_def null_summarize_dead_letter_jobs_def sql_min_def sql_max_def
      collect_metrics_def null_collect_metrics_def queue_metrics_of_def count_if_def split: option.splits)

end
