(* ===== verification/Queue_Executions.thy ===== *)
theory Queue_Executions
  imports Runtime_Queue
begin

text \<open>
  Executions of the job queue: transactions at non-decreasing times, by any number of workers,
  schedulers and operators in any order. The invariant of the tables holds in every reachable
  state, and from it follow the contracts of the operations.
\<close>

section \<open>Executions\<close>

datatype queue_op =
  OpAcquire string string int
| OpRelease string string
| OpEnqueue nat enqueue_request
| OpDequeue string string int
| OpSucceed nat string
| OpFail nat string string int
| OpRequeue nat bool "int option"

fun run_op :: "queue_op \<Rightarrow> int \<Rightarrow> queue_tables \<Rightarrow> queue_tables result" where
  "run_op (OpAcquire k h ttl) now q = map_sum id fst (acquire_scheduler_lease q now k h ttl)"
| "run_op (OpRelease k h) now q = Inr (release_scheduler_lease q now k h)"
| "run_op (OpEnqueue i r) now q = map_sum id fst (enqueue_adapter_job q now i r)"
| "run_op (OpDequeue n w s) now q = map_sum id fst (dequeue_adapter_job q now n w s)"
| "run_op (OpSucceed i w) now q = map_sum id fst (mark_job_succeeded q now i w)"
| "run_op (OpFail i w e d) now q = map_sum id fst (mark_job_failed q now i w e d)"
| "run_op (OpRequeue i b t) now q = map_sum id fst (requeue_failed_job q now i b t)"

text \<open>\<open>gen_random_uuid()\<close> gives the inserted row an identifier that no row has.\<close>

fun fresh_op :: "queue_op \<Rightarrow> queue_tables \<Rightarrow> bool" where
  "fresh_op (OpEnqueue i r) q = (i \<notin> set (map rj_id (qt_jobs q)))"
| "fresh_op _ q = True"

text \<open>
  A transaction at a later time commits, or is rejected (or cannot reach the database) and leaves
  the tables alone.
\<close>

inductive queue_step :: "int \<times> queue_tables \<Rightarrow> queue_op \<Rightarrow> int \<times> queue_tables \<Rightarrow> bool" where
  committed: "t \<le> now \<Longrightarrow> fresh_op p q \<Longrightarrow> run_op p now q = Inr q' \<Longrightarrow> queue_step (t, q) p (now, q')"
| rejected: "t \<le> now \<Longrightarrow> queue_step (t, q) p (now, q)"

inductive queue_steps :: "int \<times> queue_tables \<Rightarrow> queue_op list \<Rightarrow> int \<times> queue_tables \<Rightarrow> bool" where
  no_steps: "queue_steps s [] s"
| more_steps: "queue_steps s ps s' \<Longrightarrow> queue_step s' p s'' \<Longrightarrow> queue_steps s (ps @ [p]) s''"

inductive_cases queue_stepE [elim]: "queue_step s p s'"
inductive_simps queue_step_simps: "queue_step (t, q) p s'"

definition empty_tables :: queue_tables where
  "empty_tables = \<lparr> qt_jobs = [], qt_leases = Map.empty, qt_heartbeats = Map.empty \<rparr>"

definition reachable :: "int \<times> queue_tables \<Rightarrow> bool" where
  "reachable s \<longleftrightarrow> (\<exists>t ps. queue_steps (t, empty_tables) ps s)"

section \<open>The invariant of the tables\<close>

definition job_inv :: "int \<Rightarrow> runtime_job \<Rightarrow> bool" where
  "job_inv t j \<longleftrightarrow>
     row_admitted j
     \<and> rj_status j \<in> {JobQueued, JobRunning, JobSucceeded, JobFailed}
     \<and> (rj_leased_by j \<noteq> None \<longleftrightarrow> rj_status j = JobRunning)
     \<and> (rj_lease_expires_at j \<noteq> None \<longleftrightarrow> rj_status j = JobRunning)
     \<and> (rj_final_failed_at j \<noteq> None \<longleftrightarrow> rj_status j = JobFailed)
     \<and> (rj_status j = JobFailed \<longrightarrow> rj_max_attempts j \<le> rj_attempts j)
     \<and> (is_active j \<longrightarrow> rj_finished_at j = None)
     \<and> (\<forall>s. rj_started_at j = Some s \<longrightarrow> s \<le> t)"

definition unique_active :: "runtime_job list \<Rightarrow> bool" where
  "unique_active jobs \<longleftrightarrow>
     (\<forall>j\<in>set jobs. \<forall>k\<in>set jobs.
        dedupe_identity j \<noteq> None \<longrightarrow> dedupe_identity j = dedupe_identity k \<longrightarrow> rj_id j = rj_id k)"

definition queue_inv :: "int \<times> queue_tables \<Rightarrow> bool" where
  "queue_inv s \<longleftrightarrow>
     distinct (map rj_id (qt_jobs (snd s))) \<and> unique_active (qt_jobs (snd s))
     \<and> (\<forall>j\<in>set (qt_jobs (snd s)). job_inv (fst s) j)"

lemma job_inv_mono: "job_inv t j \<Longrightarrow> t \<le> t' \<Longrightarrow> job_inv t' j"
  by (auto simp: job_inv_def)

lemma queue_inv_mono: "queue_inv (t, q) \<Longrightarrow> t \<le> t' \<Longrightarrow> queue_inv (t', q)"
  by (auto simp: queue_inv_def intro: job_inv_mono)

lemma queue_inv_empty: "queue_inv (t, empty_tables)"
  by (simp add: queue_inv_def empty_tables_def unique_active_def)

lemma same_id_same_job:
  "distinct (map rj_id jobs) \<Longrightarrow> j \<in> set jobs \<Longrightarrow> k \<in> set jobs \<Longrightarrow> rj_id j = rj_id k \<Longrightarrow> j = k"
  by (auto simp: distinct_map dest: inj_onD)



text \<open>One lemma for all updates: a row that the update takes to an admissible row.\<close>

lemma conflicts_withD:
  "\<not> conflicts_with jobs j \<Longrightarrow> k \<in> set jobs \<Longrightarrow> dedupe_identity k = dedupe_identity j \<Longrightarrow>
   dedupe_identity j \<noteq> None \<Longrightarrow> rj_id k = rj_id j"
  by (auto simp: conflicts_with_def list_ex_iff)

lemma update_job_Inr:
  assumes d: "distinct (map rj_id (qt_jobs q))" and row: "j \<in> set (qt_jobs q)" "rj_id j = i"
    and f: "rj_id (f j) = i" and upd: "update_job q i f = Inr q'"
  obtains jobs where "q' = q\<lparr> qt_jobs := jobs \<rparr>" "map rj_id jobs = map rj_id (qt_jobs q)"
    "f j \<in> set jobs" "set jobs \<subseteq> insert (f j) (set (qt_jobs q))"
    "row_admitted (f j)" "\<not> conflicts_with jobs (f j)"
proof
  let ?jobs = "map (\<lambda>k. if rj_id k = i then f k else k) (qt_jobs q)"
  have g: "rj_id k = i \<longleftrightarrow> k = j" if "k \<in> set (qt_jobs q)" for k
    using same_id_same_job [OF d that row(1)] row(2) by metis
  show q': "q' = q\<lparr> qt_jobs := ?jobs \<rparr>"
    using upd by (auto simp: update_job_def Let_def split: if_splits)
  have ok: "\<forall>k\<in>set ?jobs. rj_id k = i \<longrightarrow> row_admitted k \<and> \<not> conflicts_with ?jobs k"
    using upd by (auto simp: update_job_def Let_def list_all_iff split: if_splits)
  show "map rj_id ?jobs = map rj_id (qt_jobs q)"
    using g f row(2) by (auto simp: map_eq_conv)
  show fj: "f j \<in> set ?jobs" using row by force
  show "set ?jobs \<subseteq> insert (f j) (set (qt_jobs q))" using g by auto
  show "row_admitted (f j)" "\<not> conflicts_with ?jobs (f j)" using ok fj f by blast+
qed

lemma update_job_inv:
  assumes inv: "queue_inv (t, q)" and now: "t \<le> now"
    and row: "j \<in> set (qt_jobs q)" "rj_id j = i"
    and f: "rj_id (f j) = i" "row_admitted (f j) \<Longrightarrow> job_inv now (f j)"
    and upd: "update_job q i f = Inr q'"
  shows "queue_inv (now, q')"
proof -
  have d: "distinct (map rj_id (qt_jobs q))" and u: "unique_active (qt_jobs q)"
    and all: "\<forall>k\<in>set (qt_jobs q). job_inv t k"
    using inv by (simp_all add: queue_inv_def)
  obtain jobs where q': "q' = q\<lparr> qt_jobs := jobs \<rparr>" and ids: "map rj_id jobs = map rj_id (qt_jobs q)"
    and "f j \<in> set jobs" and mem: "set jobs \<subseteq> insert (f j) (set (qt_jobs q))"
    and adm: "row_admitted (f j)" and free: "\<not> conflicts_with jobs (f j)"
    by (rule update_job_Inr [where f = f, OF d row f(1) upd])
  have "rj_id x = rj_id y"
    if xy: "x \<in> set jobs" "y \<in> set jobs" "dedupe_identity x \<noteq> None"
      "dedupe_identity x = dedupe_identity y" for x y
  proof (cases "x = f j \<or> y = f j")
    case True
    then show ?thesis using conflicts_withD [OF free] xy by metis
  next
    case False
    then have "x \<in> set (qt_jobs q)" "y \<in> set (qt_jobs q)" using xy(1,2) mem by auto
    then show ?thesis using u xy(3,4) unfolding unique_active_def by blast
  qed
  then have "unique_active jobs" unfolding unique_active_def by blast
  moreover have "\<forall>k\<in>set jobs. job_inv now k"
    using mem f(2) [OF adm] all job_inv_mono [OF _ now] by blast
  ultimately show ?thesis using d by (simp add: queue_inv_def q' ids)
qed

text \<open>An update of a row that stays in the index under its identity, or leaves it, is accepted.\<close>

lemma update_job_accepts:
  assumes inv: "queue_inv (t, q)"
    and row: "j \<in> set (qt_jobs q)" "rj_id j = i"
    and f: "rj_id (f j) = i" "row_admitted (f j)"
    and same: "dedupe_identity (f j) = None \<or> dedupe_identity (f j) = dedupe_identity j"
  shows "\<exists>q'. update_job q i f = Inr q'"
proof -
  let ?jobs = "map (\<lambda>k. if rj_id k = i then f k else k) (qt_jobs q)"
  have d: "distinct (map rj_id (qt_jobs q))" and u: "unique_active (qt_jobs q)"
    using inv by (simp_all add: queue_inv_def)
  have mem: "k = f j \<or> k \<in> set (qt_jobs q) \<and> rj_id k \<noteq> i" if "k \<in> set ?jobs" for k
  proof -
    from that obtain x where x: "x \<in> set (qt_jobs q)" "k = (if rj_id x = i then f x else x)" by auto
    then have "rj_id x = i \<longleftrightarrow> x = j" using same_id_same_job [OF d x(1) row(1)] row(2) by metis
    then show ?thesis using x by (cases "x = j") auto
  qed
  have "row_admitted k \<and> \<not> conflicts_with ?jobs k" if "k \<in> set ?jobs" "rj_id k = i" for k
  proof
    from mem [OF that(1)] that(2) have k: "k = f j" by auto
    show "row_admitted k" using k f(2) by simp
    show "\<not> conflicts_with ?jobs k"
    proof
      assume c: "conflicts_with ?jobs k"
      then obtain m where m: "m \<in> set ?jobs" "rj_id m \<noteq> i" "dedupe_identity m = dedupe_identity (f j)"
        "dedupe_identity (f j) \<noteq> None"
        using c unfolding k conflicts_with_def list_ex_iff f(1) by blast
      then have "m \<in> set (qt_jobs q)" using mem f(1) by blast
      with u m same row show False unfolding unique_active_def by metis
    qed
  qed
  then have "list_all (\<lambda>k. rj_id k = i \<longrightarrow> row_admitted k \<and> \<not> conflicts_with ?jobs k) ?jobs"
    by (simp only: list_all_iff) blast
  then show ?thesis by (simp only: update_job_def Let_def if_True) blast
qed

section \<open>Every operation keeps the invariant\<close>

lemma row_inv: "queue_inv (t, q) \<Longrightarrow> j \<in> set (qt_jobs q) \<Longrightarrow> job_inv t j"
  by (simp add: queue_inv_def)

lemma next_job_Some:
  "next_job q n now = Some j \<Longrightarrow> j \<in> set (qt_jobs q) \<and> dequeueable n now j"
  unfolding next_job_def by (auto dest!: first_min_by_mem)

lemma lease_job_inv:
  "job_inv t j \<Longrightarrow> t \<le> now \<Longrightarrow> dequeueable n now j \<Longrightarrow>
   row_admitted (lease_job w s now j) \<Longrightarrow> job_inv now (lease_job w s now j)"
  by (auto simp: job_inv_def lease_job_def dequeueable_def int4_def row_admitted_def is_active_def
      active_status_def split: option.splits)

lemma succeed_job_inv:
  "job_inv t j \<Longrightarrow> t \<le> now \<Longrightarrow> rj_status j = JobRunning \<Longrightarrow> job_inv now (succeed_job now j)"
  by (auto simp: job_inv_def succeed_job_def row_admitted_def is_active_def active_status_def
      split: option.splits)

lemma fail_job_inv:
  "job_inv t j \<Longrightarrow> t \<le> now \<Longrightarrow> rj_status j = JobRunning \<Longrightarrow> job_inv now (fail_job now d e j)"
  by (auto simp: job_inv_def fail_job_def row_admitted_def is_active_def active_status_def Let_def
      split: option.splits)

lemma requeue_job_inv:
  "job_inv t j \<Longrightarrow> t \<le> now \<Longrightarrow> rj_status j = JobFailed \<Longrightarrow> job_inv now (requeue_job now b r j)"
  by (auto simp: job_inv_def requeue_job_def int4_def row_admitted_def is_active_def active_status_def
      split: option.splits)

lemma job_ids [simp]:
  "rj_id (lease_job w s now j) = rj_id j" "rj_id (succeed_job now j) = rj_id j"
  "rj_id (fail_job now d e j) = rj_id j" "rj_id (requeue_job now b r j) = rj_id j"
  by (simp_all add: lease_job_def succeed_job_def fail_job_def requeue_job_def Let_def)

lemma held_by_row:
  "held_by q i w \<Longrightarrow> \<exists>j\<in>set (qt_jobs q). rj_id j = i \<and> rj_leased_by j = Some w \<and> rj_status j = JobRunning"
  by (auto simp: held_by_def list_ex_iff)

lemma new_job_inv:
  "row_admitted (new_job r i now) \<Longrightarrow> job_inv now (new_job r i now)"
  by (simp add: job_inv_def new_job_def is_active_def active_status_def)

lemma append_job_inv:
  assumes inv: "queue_inv (now, q)" and fresh: "rj_id j \<notin> set (map rj_id (qt_jobs q))"
    and j: "job_inv now j"
    and free: "\<And>k. k \<in> set (qt_jobs q) \<Longrightarrow> dedupe_identity j \<noteq> None \<Longrightarrow>
      dedupe_identity k \<noteq> dedupe_identity j"
  shows "queue_inv (now, q\<lparr> qt_jobs := qt_jobs q @ [j] \<rparr>)"
  using inv fresh j free unfolding queue_inv_def unique_active_def by (simp, metis)

lemma enqueue_inv:
  assumes inv: "queue_inv (t, q)" and now: "t \<le> now" and fresh: "i \<notin> set (map rj_id (qt_jobs q))"
    and e: "enqueue_adapter_job q now i r = Inr (q', x)"
  shows "queue_inv (now, q')"
proof -
  have inv': "queue_inv (now, q)" by (rule queue_inv_mono [OF inv now])
  show ?thesis
  proof (cases "q' = q")
    case True
    with inv' show ?thesis by simp
  next
    case False
    let ?j = "new_job r i now"
    from e False have a: "row_admitted ?j"
      and none: "find (\<lambda>k. dedupe_identity ?j \<noteq> None \<and> dedupe_identity k = dedupe_identity ?j) (qt_jobs q) = None"
      and q': "q' = q\<lparr> qt_jobs := qt_jobs q @ [?j] \<rparr>"
      by (auto simp: enqueue_adapter_job_def Let_def split: option.splits if_splits)
    have id: "rj_id ?j = i" by (simp add: new_job_def)
    show ?thesis
      unfolding q'
      by (rule append_job_inv [OF inv'])
        (use fresh id new_job_inv [OF a] none in \<open>auto simp: find_None_iff\<close>)
  qed
qed

lemma run_op_inv:
  assumes inv: "queue_inv (t, q)" and now: "t \<le> now" and fresh: "fresh_op p q"
    and run: "run_op p now q = Inr q'"
  shows "queue_inv (now, q')"
proof (cases p)
  case (OpAcquire k h ttl)
  with run have "qt_jobs q' = qt_jobs q"
    by (auto simp: acquire_scheduler_lease_def Let_def split: option.splits if_splits)
  then show ?thesis using queue_inv_mono [OF inv now] by (simp add: queue_inv_def)
next
  case (OpRelease k h)
  with run have "qt_jobs q' = qt_jobs q"
    by (auto simp: release_scheduler_lease_def split: option.splits if_splits)
  then show ?thesis using queue_inv_mono [OF inv now] by (simp add: queue_inv_def)
next
  case (OpEnqueue i r)
  with run fresh obtain x where "enqueue_adapter_job q now i r = Inr (q', x)"
    by (cases "enqueue_adapter_job q now i r") auto
  with OpEnqueue fresh show ?thesis by (intro enqueue_inv [OF inv now]) auto
next
  case (OpDequeue n w s)
  show ?thesis
  proof (cases "next_job q n now")
    case None
    with run OpDequeue have "q' = q" by (simp add: dequeue_adapter_job_def)
    then show ?thesis using queue_inv_mono [OF inv now] by simp
  next
    case (Some j)
    from next_job_Some [OF this] have j: "j \<in> set (qt_jobs q)" "dequeueable n now j" by auto
    from run OpDequeue Some have "update_job q (rj_id j) (lease_job w s now) = Inr q'"
      by (cases "update_job q (rj_id j) (lease_job w s now)") (auto simp: dequeue_adapter_job_def)
    then show ?thesis
      using lease_job_inv [OF row_inv [OF inv j(1)] now j(2)]
      by (intro update_job_inv [where f = "lease_job w s now", OF inv now j(1)]) simp_all
  qed
next
  case (OpSucceed i w)
  show ?thesis
  proof (cases "held_by q i w")
    case False
    with run OpSucceed have "q' = q" by (simp add: mark_job_succeeded_def)
    then show ?thesis using queue_inv_mono [OF inv now] by simp
  next
    case True
    from held_by_row [OF this] obtain j where j: "j \<in> set (qt_jobs q)" "rj_id j = i"
      "rj_status j = JobRunning" by blast
    from run OpSucceed True have "update_job q i (succeed_job now) = Inr q'"
      by (cases "update_job q i (succeed_job now)") (auto simp: mark_job_succeeded_def)
    then show ?thesis
      using succeed_job_inv [OF row_inv [OF inv j(1)] now j(3)] j(2)
      by (intro update_job_inv [where f = "succeed_job now", OF inv now j(1,2)]) simp_all
  qed
next
  case (OpFail i w e d)
  show ?thesis
  proof (cases "held_by q i w")
    case False
    with run OpFail have "q' = q" by (simp add: mark_job_failed_def)
    then show ?thesis using queue_inv_mono [OF inv now] by simp
  next
    case True
    from held_by_row [OF this] obtain j where j: "j \<in> set (qt_jobs q)" "rj_id j = i"
      "rj_status j = JobRunning" by blast
    from run OpFail True have "update_job q i (fail_job now d e) = Inr q'"
      by (cases "update_job q i (fail_job now d e)") (auto simp: mark_job_failed_def)
    then show ?thesis
      using fail_job_inv [OF row_inv [OF inv j(1)] now j(3)] j(2)
      by (intro update_job_inv [where f = "fail_job now d e", OF inv now j(1,2)]) simp_all
  qed
next
  case (OpRequeue i b r)
  show ?thesis
  proof (cases "find (\<lambda>j. rj_id j = i \<and> rj_status j = JobFailed) (qt_jobs q)")
    case None
    with run OpRequeue have "q' = q" by (simp add: requeue_failed_job_def)
    then show ?thesis using queue_inv_mono [OF inv now] by simp
  next
    case (Some j)
    then have j: "j \<in> set (qt_jobs q)" "rj_id j = i" "rj_status j = JobFailed"
      by (auto simp: find_Some_iff)
    from run OpRequeue Some have "update_job q i (requeue_job now b r) = Inr q'"
      by (cases "update_job q i (requeue_job now b r)") (auto simp: requeue_failed_job_def)
    then show ?thesis
      using requeue_job_inv [OF row_inv [OF inv j(1)] now j(3)] j(2)
      by (intro update_job_inv [where f = "requeue_job now b r", OF inv now j(1,2)]) simp_all
  qed
qed

lemma queue_step_inv: "queue_step s p s' \<Longrightarrow> queue_inv s \<Longrightarrow> queue_inv s'"
  by (induction rule: queue_step.induct) (auto intro: run_op_inv queue_inv_mono)

lemma queue_steps_inv: "queue_steps s ps s' \<Longrightarrow> queue_inv s \<Longrightarrow> queue_inv s'"
  by (induction rule: queue_steps.induct) (auto intro: queue_step_inv)

lemma reachable_inv: "reachable s \<Longrightarrow> queue_inv s"
  unfolding reachable_def by (elim exE) (rule queue_steps_inv, assumption, rule queue_inv_empty)



section \<open>What the operations answer in a reachable state\<close>

definition with_job :: "queue_tables \<Rightarrow> runtime_job \<Rightarrow> runtime_job \<Rightarrow> queue_tables" where
  "with_job q j j' = q\<lparr> qt_jobs := map (\<lambda>k. if k = j then j' else k) (qt_jobs q) \<rparr>"

lemma update_job_row:
  assumes inv: "queue_inv (t, q)" and row: "j \<in> set (qt_jobs q)" "rj_id j = i"
    and f: "rj_id (f j) = i" "row_admitted (f j)"
    and same: "dedupe_identity (f j) = None \<or> dedupe_identity (f j) = dedupe_identity j"
  shows "update_job q i f = Inr (with_job q j (f j))"
proof -
  have d: "distinct (map rj_id (qt_jobs q))" using inv by (simp add: queue_inv_def)
  have "rj_id k = i \<longleftrightarrow> k = j" if "k \<in> set (qt_jobs q)" for k
    using same_id_same_job [OF d that row(1)] row(2) by metis
  then have eq: "map (\<lambda>k. if rj_id k = i then f k else k) (qt_jobs q) =
      map (\<lambda>k. if k = j then f j else k) (qt_jobs q)"
    by (intro map_cong) auto
  obtain q' where q': "update_job q i f = Inr q'"
    using update_job_accepts [where f = f, OF inv row f same] by blast
  then have "q' = q\<lparr> qt_jobs := map (\<lambda>k. if rj_id k = i then f k else k) (qt_jobs q) \<rparr>"
    by (simp add: update_job_def Let_def split: if_splits)
  then show ?thesis unfolding q' eq with_job_def by simp
qed

lemma identity_active: "is_active j \<Longrightarrow> is_active k \<Longrightarrow> rj_queue_name j = rj_queue_name k \<Longrightarrow>
  rj_job_key j = rj_job_key k \<Longrightarrow> rj_adapter_key j = rj_adapter_key k \<Longrightarrow>
  rj_dedupe_key j = rj_dedupe_key k \<Longrightarrow> dedupe_identity j = dedupe_identity k"
  by (simp add: dedupe_identity_def)

lemma lease_job_identity: "dequeueable n now j \<Longrightarrow> dedupe_identity (lease_job w s now j) = dedupe_identity j"
  by (rule identity_active) (auto simp: lease_job_def dequeueable_def is_active_def active_status_def)

lemma succeed_job_identity: "dedupe_identity (succeed_job now j) = None"
  by (simp add: dedupe_identity_def succeed_job_def is_active_def active_status_def)

lemma fail_job_identity:
  "rj_status j = JobRunning \<Longrightarrow> dedupe_identity (fail_job now d e j) = None
    \<or> dedupe_identity (fail_job now d e j) = dedupe_identity j"
  by (simp add: dedupe_identity_def fail_job_def Let_def is_active_def active_status_def)

lemma lease_job_admitted:
  "job_inv t j \<Longrightarrow> dequeueable n now j \<Longrightarrow> rj_attempts j < 2147483647 \<Longrightarrow> row_admitted (lease_job w s now j)"
  by (auto simp: job_inv_def lease_job_def dequeueable_def row_admitted_def is_active_def int4_def
      active_status_def split: option.splits)

lemma job_inv_admitted: "job_inv t j \<Longrightarrow> row_admitted j"
  by (simp add: job_inv_def)

lemma dequeue_None: "next_job q n now = None \<longleftrightarrow> (\<forall>j\<in>set (qt_jobs q). \<not> dequeueable n now j)"
  by (simp add: next_job_def first_min_by_None filter_empty_conv)

lemma next_job_least:
  "next_job q n now = Some j \<Longrightarrow> k \<in> set (qt_jobs q) \<Longrightarrow> dequeueable n now k \<Longrightarrow>
   dequeue_rank j \<le> dequeue_rank k"
  unfolding next_job_def by (auto dest: first_min_by_le)

lemma dequeue_Some:
  assumes inv: "queue_inv (t, q)" and n: "next_job q n now = Some j"
    and b: "rj_attempts j < 2147483647"
  shows "dequeue_adapter_job q now n w s =
    Inr (with_job q j (lease_job w s now j), Some (queue_job_of (lease_job w s now j)))"
proof -
  from next_job_Some [OF n] have j: "j \<in> set (qt_jobs q)" "dequeueable n now j" by auto
  have "update_job q (rj_id j) (lease_job w s now) = Inr (with_job q j (lease_job w s now j))"
    by (rule update_job_row [OF inv j(1)])
      (simp_all add: lease_job_admitted [OF row_inv [OF inv j(1)] j(2) b] lease_job_identity [OF j(2)])
  then show ?thesis by (simp add: dequeue_adapter_job_def n)
qed

lemma held_row:
  assumes "held_by q i w"
  obtains j where "j \<in> set (qt_jobs q)" "rj_id j = i" "rj_leased_by j = Some w" "rj_status j = JobRunning"
  using held_by_row [OF assms] by blast

lemma succeed_held:
  assumes inv: "queue_inv (t, q)" and now: "t \<le> now"
    and j: "j \<in> set (qt_jobs q)" "rj_id j = i" "rj_leased_by j = Some w" "rj_status j = JobRunning"
  shows "mark_job_succeeded q now i w = Inr (with_job q j (succeed_job now j), True)"
proof -
  have "held_by q i w" using j by (auto simp: held_by_def list_ex_iff)
  moreover have "update_job q i (succeed_job now) = Inr (with_job q j (succeed_job now j))"
    using job_inv_admitted [OF succeed_job_inv [OF row_inv [OF inv j(1)] now j(4)]] j(2)
    by (intro update_job_row [OF inv j(1,2)]) (simp_all add: succeed_job_identity)
  ultimately show ?thesis by (simp add: mark_job_succeeded_def)
qed

lemma fail_held:
  assumes inv: "queue_inv (t, q)" and now: "t \<le> now"
    and j: "j \<in> set (qt_jobs q)" "rj_id j = i" "rj_leased_by j = Some w" "rj_status j = JobRunning"
  shows "mark_job_failed q now i w e d = Inr (with_job q j (fail_job now d e j), True)"
proof -
  have "held_by q i w" using j by (auto simp: held_by_def list_ex_iff)
  moreover have "update_job q i (fail_job now d e) = Inr (with_job q j (fail_job now d e j))"
    using job_inv_admitted [OF fail_job_inv [OF row_inv [OF inv j(1)] now j(4)]] j(2,4)
    by (intro update_job_row [OF inv j(1,2)]) (simp_all add: fail_job_identity)
  ultimately show ?thesis by (simp add: mark_job_failed_def)
qed


lemma map_sum_fst_Inr: "map_sum id fst r = Inr y \<longleftrightarrow> (\<exists>x. r = Inr (y, x))"
  by (cases r) auto

section \<open>Enqueueing\<close>

lemma existing_identity:
  assumes "existing_active_job q r = Some k"
  shows "k \<in> set (qt_jobs q) \<and> dedupe_identity (new_job r i now) \<noteq> None
    \<and> dedupe_identity k = dedupe_identity (new_job r i now)"
proof -
  have k: "k \<in> set (qt_jobs q)" "is_active k" "rj_dedupe_key k \<noteq> None"
    "rj_queue_name k = en_queue_name r" "rj_job_key k = en_job_key r"
    "rj_adapter_key k = en_adapter_key r" "rj_dedupe_key k = en_dedupe_key r"
    using first_min_by_mem [OF assms [unfolded existing_active_job_def]]
    unfolding set_filter mem_Collect_eq by blast+
  have "dedupe_identity k = dedupe_identity (new_job r i now)"
    by (rule identity_active [OF k(2)]) (simp_all add: k(4-7) new_job_def is_active_def active_status_def)
  moreover have "dedupe_identity k \<noteq> None" using k(2,3) by (simp add: dedupe_identity_def)
  ultimately show ?thesis using k(1) by metis
qed

lemma new_job_identity: "dedupe_identity (new_job r i now) = dedupe_identity (new_job r i' now')"
  by (simp add: dedupe_identity_def new_job_def is_active_def active_status_def)

lemma new_job_admitted: "row_admitted (new_job r i now) = row_admitted (new_job r i' now')"
  by (simp add: row_admitted_def new_job_def)

lemma new_job_id [simp]: "rj_id (new_job r i now) = i"
  by (simp add: new_job_def)

text \<open>The answer names an active job with the identity of the request.\<close>

lemma enqueue_answer:
  assumes "enqueue_adapter_job q now i r = Inr (q', x)" and d: "en_dedupe_key r \<noteq> None"
  obtains k where "k \<in> set (qt_jobs q')" "eq_job_id x = Some (rj_id k)"
    "dedupe_identity k = dedupe_identity (new_job r i now)" "dedupe_identity k \<noteq> None"
    "eq_dedupe_key x = en_dedupe_key r"
    "row_admitted (new_job r i now) \<or> (\<exists>k. existing_active_job q' r = Some k)"
proof -
  let ?j = "new_job r i now"
  have n: "dedupe_identity ?j \<noteq> None"
    using d by (auto simp: dedupe_identity_def new_job_def is_active_def active_status_def)
  show ?thesis
  proof (cases "existing_active_job q r")
    case (Some k)
    from existing_identity [OF this, of i now] have k: "k \<in> set (qt_jobs q)"
      "dedupe_identity k = dedupe_identity ?j" by auto
    show ?thesis by (rule that [of k]) (use assms(1) Some k n in \<open>auto simp: enqueue_adapter_job_def Let_def\<close>)
  next
    case None
    let ?p = "\<lambda>k. dedupe_identity ?j \<noteq> None \<and> dedupe_identity k = dedupe_identity ?j"
    from None assms(1) have a: "row_admitted ?j"
      by (auto simp: enqueue_adapter_job_def Let_def split: if_splits)
    show ?thesis
    proof (cases "find ?p (qt_jobs q)")
      case (Some k)
      then have k: "k \<in> set (qt_jobs q)" "dedupe_identity k = dedupe_identity ?j"
        by (auto simp: find_Some_iff)
      show ?thesis by (rule that [of k])
          (use assms(1) Some \<open>existing_active_job q r = None\<close> a k n in \<open>auto simp: enqueue_adapter_job_def Let_def\<close>)
    next
      case none: None
      have "q' = q\<lparr> qt_jobs := qt_jobs q @ [?j] \<rparr> \<and>
          x = \<lparr> eq_status = Enqueued, eq_job_id = Some i, eq_dedupe_key = en_dedupe_key r \<rparr>"
        using assms(1) none None a unfolding enqueue_adapter_job_def Let_def by simp
      then show ?thesis by (intro that [of ?j]) (use a n in auto)
    qed
  qed
qed

text \<open>A request whose identity an active job has is answered with such a job.\<close>

lemma enqueue_duplicate:
  assumes k: "k \<in> set (qt_jobs q)" "dedupe_identity k = dedupe_identity (new_job r i now)"
    "dedupe_identity k \<noteq> None"
    and ok: "row_admitted (new_job r i now) \<or> (\<exists>k. existing_active_job q r = Some k)"
  obtains m where "m \<in> set (qt_jobs q)" "dedupe_identity m = dedupe_identity k"
    "enqueue_adapter_job q now i r =
       Inr (q, \<lparr> eq_status = Deduped, eq_job_id = Some (rj_id m), eq_dedupe_key = en_dedupe_key r \<rparr>)"
proof (cases "existing_active_job q r")
  case (Some m)
  from existing_identity [OF this, of i now] k(2)
  show ?thesis by (intro that [of m]) (auto simp: Some enqueue_adapter_job_def Let_def)
next
  case None
  let ?p = "\<lambda>k. dedupe_identity (new_job r i now) \<noteq> None
    \<and> dedupe_identity k = dedupe_identity (new_job r i now)"
  have "find ?p (qt_jobs q) \<noteq> None" using k by (auto simp: find_None_iff)
  then obtain m where m: "find ?p (qt_jobs q) = Some m" by blast
  then have "m \<in> set (qt_jobs q)" "dedupe_identity m = dedupe_identity k"
    using k(2) by (auto simp: find_Some_iff)
  then show ?thesis using None m ok by (intro that [of m]) (auto simp: enqueue_adapter_job_def Let_def)
qed

section \<open>Jobs that an execution leaves alone\<close>

lemma update_job_other:
  "update_job q i f = Inr q' \<Longrightarrow> j \<in> set (qt_jobs q) \<Longrightarrow> rj_id j \<noteq> i \<Longrightarrow> j \<in> set (qt_jobs q')"
  by (force simp: update_job_def Let_def split: if_splits)

fun hands_over :: "nat \<Rightarrow> string \<Rightarrow> queue_op \<Rightarrow> bool" where
  "hands_over i w (OpSucceed i' w') = (i = i' \<and> w = w')"
| "hands_over i w (OpFail i' w' _ _) = (i = i' \<and> w = w')"
| "hands_over i w _ = False"

definition exhausted :: "runtime_job \<Rightarrow> string \<Rightarrow> bool" where
  "exhausted j w \<longleftrightarrow>
     rj_status j = JobRunning \<and> rj_leased_by j = Some w \<and> rj_max_attempts j \<le> rj_attempts j"

lemma exhausted_not_dequeueable: "exhausted j w \<Longrightarrow> \<not> dequeueable n now j"
  by (simp add: exhausted_def dequeueable_def)

lemma held_by_other:
  assumes "queue_inv (t, q)" "j \<in> set (qt_jobs q)" "held_by q i v"
    and "rj_leased_by j = Some v \<Longrightarrow> rj_id j \<noteq> i"
  shows "rj_id j \<noteq> i"
proof
  assume i: "rj_id j = i"
  from held_by_row [OF assms(3)] obtain k where "k \<in> set (qt_jobs q)" "rj_id k = i" "rj_leased_by k = Some v"
    by blast
  moreover from this(1,2) have "k = j"
    using assms(1,2) i same_id_same_job [of "qt_jobs q" k j] by (simp add: queue_inv_def)
  ultimately show False using assms(4) i by simp
qed

text \<open>
  An operation leaves the row of a job alone that it does not hand out, whose lease holder does not
  hand it over with it, and that has not failed.
\<close>

lemma run_op_untouched:
  assumes inv: "queue_inv (t, q)" and j: "j \<in> set (qt_jobs q)" "rj_status j \<noteq> JobFailed"
    and p: "\<And>w. rj_leased_by j = Some w \<Longrightarrow> \<not> hands_over (rj_id j) w p"
    and d: "\<And>n w s. p = OpDequeue n w s \<Longrightarrow> next_job q n now \<noteq> Some j"
    and run: "run_op p now q = Inr q'"
  shows "j \<in> set (qt_jobs q')"
proof (cases p)
  case (OpAcquire k h ttl)
  with run j show ?thesis
    by (auto simp: acquire_scheduler_lease_def Let_def split: option.splits if_splits)
next
  case (OpRelease k h)
  with run j show ?thesis by (auto simp: release_scheduler_lease_def split: option.splits if_splits)
next
  case (OpEnqueue i r)
  with run j show ?thesis
    by (auto simp: enqueue_adapter_job_def Let_def split: option.splits if_splits)
next
  case (OpDequeue n v s)
  show ?thesis
  proof (cases "next_job q n now")
    case None
    with run OpDequeue j show ?thesis by (simp add: dequeue_adapter_job_def)
  next
    case (Some k)
    from next_job_Some [OF this] have k: "k \<in> set (qt_jobs q)" "dequeueable n now k" by auto
    then have "rj_id j \<noteq> rj_id k"
      using d [OF OpDequeue] Some same_id_same_job [of "qt_jobs q" j k] inv j(1)
      by (auto simp: queue_inv_def)
    moreover from run OpDequeue Some have "update_job q (rj_id k) (lease_job v s now) = Inr q'"
      by (cases "update_job q (rj_id k) (lease_job v s now)") (auto simp: dequeue_adapter_job_def)
    ultimately show ?thesis using update_job_other j(1) by blast
  qed
next
  case (OpSucceed i v)
  show ?thesis
  proof (cases "held_by q i v")
    case False
    with run OpSucceed j show ?thesis by (simp add: mark_job_succeeded_def)
  next
    case True
    from run OpSucceed True have "update_job q i (succeed_job now) = Inr q'"
      by (cases "update_job q i (succeed_job now)") (auto simp: mark_job_succeeded_def)
    moreover have "rj_id j \<noteq> i" using held_by_other [OF inv j(1) True] p [of v] OpSucceed by auto
    ultimately show ?thesis using update_job_other j(1) by blast
  qed
next
  case (OpFail i v e d)
  show ?thesis
  proof (cases "held_by q i v")
    case False
    with run OpFail j show ?thesis by (simp add: mark_job_failed_def)
  next
    case True
    from run OpFail True have "update_job q i (fail_job now d e) = Inr q'"
      by (cases "update_job q i (fail_job now d e)") (auto simp: mark_job_failed_def)
    moreover have "rj_id j \<noteq> i" using held_by_other [OF inv j(1) True] p [of v] OpFail by auto
    ultimately show ?thesis using update_job_other j(1) by blast
  qed
next
  case (OpRequeue i b r)
  show ?thesis
  proof (cases "find (\<lambda>j. rj_id j = i \<and> rj_status j = JobFailed) (qt_jobs q)")
    case None
    with run OpRequeue j show ?thesis by (simp add: requeue_failed_job_def)
  next
    case (Some k)
    then have k: "k \<in> set (qt_jobs q)" "rj_id k = i" "rj_status k = JobFailed"
      by (auto simp: find_Some_iff)
    have "rj_id j \<noteq> i"
      using same_id_same_job [of "qt_jobs q" j k] inv j k by (auto simp: queue_inv_def)
    moreover from run OpRequeue Some have "update_job q i (requeue_job now b r) = Inr q'"
      by (cases "update_job q i (requeue_job now b r)") (auto simp: requeue_failed_job_def)
    ultimately show ?thesis using update_job_other j(1) by blast
  qed
qed

lemma run_op_exhausted:
  assumes "queue_inv (t, q)" and "j \<in> set (qt_jobs q)" and e: "exhausted j w"
    and "\<not> hands_over (rj_id j) w p" and "run_op p now q = Inr q'"
  shows "j \<in> set (qt_jobs q')"
proof (rule run_op_untouched [OF assms(1,2) _ _ _ assms(5)])
  show "next_job q n now \<noteq> Some j" for n
    using next_job_Some [of q n now j] exhausted_not_dequeueable [OF e] by auto
qed (use e assms(4) in \<open>auto simp: exhausted_def\<close>)

lemma queue_step_exhausted:
  "queue_step s p s' \<Longrightarrow> queue_inv s \<Longrightarrow> j \<in> set (qt_jobs (snd s)) \<Longrightarrow> exhausted j w \<Longrightarrow>
   \<not> hands_over (rj_id j) w p \<Longrightarrow> j \<in> set (qt_jobs (snd s'))"
  by (induction rule: queue_step.induct) (auto intro: run_op_exhausted)

lemma queue_steps_exhausted:
  "queue_steps s ps s' \<Longrightarrow> queue_inv s \<Longrightarrow> j \<in> set (qt_jobs (snd s)) \<Longrightarrow> exhausted j w \<Longrightarrow>
   \<forall>p\<in>set ps. \<not> hands_over (rj_id j) w p \<Longrightarrow> j \<in> set (qt_jobs (snd s'))"
proof (induction rule: queue_steps.induct)
  case (more_steps s ps s' p s'')
  then have "queue_inv s'" by (blast intro: queue_steps_inv)
  with more_steps show ?case by (auto intro: queue_step_exhausted)
qed simp

section \<open>Scheduler leases over an execution\<close>

fun uses_lease :: "string \<Rightarrow> string \<Rightarrow> queue_op \<Rightarrow> bool" where
  "uses_lease k h (OpAcquire k' h' _) = (k = k' \<and> h = h')"
| "uses_lease k h (OpRelease k' h') = (k = k' \<and> h = h')"
| "uses_lease k h _ = False"

lemma update_job_leases: "update_job q i f = Inr q' \<Longrightarrow> qt_leases q' = qt_leases q"
  by (auto simp: update_job_def Let_def split: if_splits)

lemma run_op_lease:
  assumes l: "qt_leases q k = Some l" "now < sl_lease_expires_at l"
    and p: "\<not> uses_lease k (sl_holder_id l) p" and run: "run_op p now q = Inr q'"
  shows "qt_leases q' k = Some l"
proof (cases p)
  case (OpAcquire k' h ttl)
  with assms show ?thesis
    by (cases "k' = k") (auto simp: acquire_scheduler_lease_def Let_def split: option.splits if_splits)
next
  case (OpRelease k' h)
  with assms show ?thesis
    by (cases "k' = k") (auto simp: release_scheduler_lease_def split: option.splits if_splits)
next
  case (OpEnqueue i r)
  with run l show ?thesis by (auto simp: enqueue_adapter_job_def Let_def split: option.splits if_splits)
next
  case (OpDequeue n v s)
  with run l show ?thesis
    by (auto simp: dequeue_adapter_job_def map_sum_fst_Inr rbind_Inr_iff dest: update_job_leases split: option.splits)
next
  case (OpSucceed i v)
  with run l show ?thesis
    by (auto simp: mark_job_succeeded_def map_sum_fst_Inr rbind_Inr_iff dest: update_job_leases split: if_splits)
next
  case (OpFail i v e d)
  with run l show ?thesis
    by (auto simp: mark_job_failed_def map_sum_fst_Inr rbind_Inr_iff dest: update_job_leases split: if_splits)
next
  case (OpRequeue i b r)
  with run l show ?thesis
    by (auto simp: requeue_failed_job_def map_sum_fst_Inr rbind_Inr_iff dest: update_job_leases split: option.splits)
qed

lemma queue_step_time: "queue_step s p s' \<Longrightarrow> fst s \<le> fst s'"
  by (induction rule: queue_step.induct) auto

lemma queue_step_lease:
  "queue_step s p s' \<Longrightarrow> qt_leases (snd s) k = Some l \<Longrightarrow> fst s' < sl_lease_expires_at l \<Longrightarrow>
   \<not> uses_lease k (sl_holder_id l) p \<Longrightarrow> qt_leases (snd s') k = Some l"
  by (induction rule: queue_step.induct) (auto intro: run_op_lease)

lemma queue_steps_lease:
  "queue_steps s ps s' \<Longrightarrow> qt_leases (snd s) k = Some l \<Longrightarrow> fst s' < sl_lease_expires_at l \<Longrightarrow>
   \<forall>p\<in>set ps. \<not> uses_lease k (sl_holder_id l) p \<Longrightarrow> qt_leases (snd s') k = Some l"
proof (induction rule: queue_steps.induct)
  case (more_steps s ps s' p s'')
  then have "fst s' < sl_lease_expires_at l" using queue_step_time by fastforce
  with more_steps show ?case by (auto intro: queue_step_lease)
qed simp

section \<open>Properties of the queue\<close>

lemma reachable_start: "reachable (t, empty_tables)"
  unfolding reachable_def by (blast intro: no_steps)

lemma reachable_step:
  assumes "reachable (t, q)" "t \<le> now" "fresh_op p q" "run_op p now q = Inr q'"
  shows "reachable (now, q')"
  using assms unfolding reachable_def by (blast intro: more_steps committed)

definition sample_request :: enqueue_request where
  "sample_request =
     \<lparr> en_adapter_key = Some ''official.cwa.rainfall'', en_job_key = ''runtime.adapter.ingest'',
       en_queue_name = ''runtime-adapters'', en_payload = None, en_priority = 0,
       en_max_attempts = 1, en_run_after = None, en_dedupe_key = Some ''d'' \<rparr>"

definition sample_queued :: queue_tables where
  "sample_queued = empty_tables\<lparr> qt_jobs := [new_job sample_request 0 0] \<rparr>"

definition sample_running :: queue_tables where
  "sample_running = empty_tables\<lparr> qt_jobs := [lease_job ''w1'' 60 10 (new_job sample_request 0 0)] \<rparr>"

definition sample_failed :: queue_tables where
  "sample_failed = empty_tables\<lparr> qt_jobs :=
     [fail_job 20 60 ''boom'' (lease_job ''w1'' 60 10 (new_job sample_request 0 0))] \<rparr>"

lemmas sample_defs = sample_queued_def sample_running_def sample_failed_def empty_tables_def
  sample_request_def new_job_def lease_job_def fail_job_def Let_def

lemma enqueue_sample: "run_op (OpEnqueue 0 sample_request) 0 empty_tables = Inr sample_queued"
    by (simp add: sample_queued_def enqueue_adapter_job_def existing_active_job_def empty_tables_def
        row_admitted_def int4_def sample_request_def new_job_def Let_def)

lemma dequeue_sample: "run_op (OpDequeue ''runtime-adapters'' ''w1'' 60) 10 sample_queued = Inr sample_running"
    by (simp add: sample_defs dequeue_adapter_job_def next_job_def dequeueable_def update_job_def
        row_admitted_def int4_def conflicts_with_def)

lemma fail_sample: "run_op (OpFail 0 ''w1'' ''boom'' 60) 20 sample_running = Inr sample_failed"
    by (simp add: sample_defs mark_job_failed_def held_by_def update_job_def seconds_def
        row_admitted_def int4_def conflicts_with_def)

lemma reachable_queued: "reachable (0, sample_queued)"
  by (rule reachable_step [OF reachable_start [of 0] _ _ enqueue_sample]) (simp_all add: empty_tables_def)

lemma reachable_running: "reachable (10, sample_running)"
  by (rule reachable_step [OF reachable_queued _ _ dequeue_sample]) simp_all

lemma reachable_failed: "reachable (20, sample_failed)"
  by (rule reachable_step [OF reachable_running _ _ fail_sample]) simp_all

text \<open>
  C6. In every state reached by transactions of any workers, schedulers and operators, job
  identifiers are distinct, no two active jobs share their deduplication identity, a job is leased
  exactly while it runs, failed exactly when it has a final failure time and then has used up its
  attempts, and an active job has no finish time.
\<close>

theorem queue_invariant:
  "reachable (t, q) \<Longrightarrow>
   distinct (map rj_id (qt_jobs q))
   \<and> (\<forall>j\<in>set (qt_jobs q). \<forall>k\<in>set (qt_jobs q).
        dedupe_identity j \<noteq> None \<longrightarrow> dedupe_identity j = dedupe_identity k \<longrightarrow> j = k)
   \<and> (\<forall>j\<in>set (qt_jobs q).
        (rj_leased_by j \<noteq> None \<longleftrightarrow> rj_status j = JobRunning)
        \<and> (rj_lease_expires_at j \<noteq> None \<longleftrightarrow> rj_status j = JobRunning)
        \<and> (rj_final_failed_at j \<noteq> None \<longleftrightarrow> rj_status j = JobFailed)
        \<and> (rj_status j = JobFailed \<longrightarrow> rj_max_attempts j \<le> rj_attempts j)
        \<and> (is_active j \<longrightarrow> rj_finished_at j = None))"
proof (intro conjI ballI impI)
  assume "reachable (t, q)"
  then have d: "distinct (map rj_id (qt_jobs q))" and u: "unique_active (qt_jobs q)"
    and all: "\<And>j. j \<in> set (qt_jobs q) \<Longrightarrow> job_inv t j"
    using reachable_inv [of "(t, q)"] by (simp_all add: queue_inv_def)
  show "distinct (map rj_id (qt_jobs q))" by (fact d)
  show "j = k" if "j \<in> set (qt_jobs q)" "k \<in> set (qt_jobs q)" "dedupe_identity j \<noteq> None"
    "dedupe_identity j = dedupe_identity k" for j k
    using u that same_id_same_job [OF d that(1,2)] unfolding unique_active_def by blast
  fix j assume "j \<in> set (qt_jobs q)"
  then have j: "job_inv t j" by (rule all)
  show "rj_leased_by j \<noteq> None \<longleftrightarrow> rj_status j = JobRunning"
    and "rj_lease_expires_at j \<noteq> None \<longleftrightarrow> rj_status j = JobRunning"
    and "rj_final_failed_at j \<noteq> None \<longleftrightarrow> rj_status j = JobFailed"
    using j by (simp_all add: job_inv_def)
  show "rj_max_attempts j \<le> rj_attempts j" if "rj_status j = JobFailed"
    using j that by (simp add: job_inv_def)
  show "rj_finished_at j = None" if "is_active j"
    using j that by (simp add: job_inv_def)
qed

lemma queue_invariant_witness:
  "rj_leased_by (hd (qt_jobs sample_running)) \<noteq> None
   \<and> rj_final_failed_at (hd (qt_jobs sample_failed)) \<noteq> None"
proof -
  have r: "hd (qt_jobs sample_running) \<in> set (qt_jobs sample_running)"
    "hd (qt_jobs sample_failed) \<in> set (qt_jobs sample_failed)"
    by (simp_all add: sample_running_def sample_failed_def)
  have "rj_status (hd (qt_jobs sample_running)) = JobRunning"
    "rj_status (hd (qt_jobs sample_failed)) = JobFailed" by code_simp+
  with queue_invariant [OF reachable_running] queue_invariant [OF reachable_failed] r
  show ?thesis by blast
qed


text \<open>
  A dequeue is answered with the due job of the highest priority, then the earliest run time,
  then the earliest creation, whose row alone changes: it runs under the worker's lease with one more
  attempt. Without a due job the answer is none and nothing changes. No constraint rejects it, as long
  as the attempts fit their column.
\<close>

theorem dequeue_takes_the_first_due_job:
  assumes r: "reachable (t, q)" and b: "\<forall>j\<in>set (qt_jobs q). rj_attempts j < 2147483647"
  shows "if list_ex (dequeueable n now) (qt_jobs q)
    then \<exists>j\<in>set (qt_jobs q). dequeueable n now j
      \<and> (\<forall>k\<in>set (qt_jobs q). dequeueable n now k \<longrightarrow>
            (- rj_priority j, rj_run_after j, rj_created_at j)
              \<le> (- rj_priority k, rj_run_after k, rj_created_at k))
      \<and> dequeue_adapter_job q now n w s =
          Inr (with_job q j (lease_job w s now j), Some (queue_job_of (lease_job w s now j)))
    else dequeue_adapter_job q now n w s = Inr (q, None)"
proof (cases "next_job q n now")
  case None
  then show ?thesis
    using iffD1 [OF dequeue_None None] by (simp add: list_ex_iff dequeue_adapter_job_def)
next
  case (Some j)
  from next_job_Some [OF this] have j: "j \<in> set (qt_jobs q)" "dequeueable n now j" by auto
  then have "list_ex (dequeueable n now) (qt_jobs q)" by (auto simp: list_ex_iff)
  moreover have "dequeue_adapter_job q now n w s =
      Inr (with_job q j (lease_job w s now j), Some (queue_job_of (lease_job w s now j)))"
    using dequeue_Some [OF reachable_inv [OF r] Some] b j(1) by blast
  ultimately show ?thesis using j next_job_least [OF Some] unfolding dequeue_rank_def by auto
qed

lemma dequeue_takes_the_first_due_job_witness:
  "\<exists>q'. dequeue_adapter_job sample_queued 10 ''runtime-adapters'' ''w1'' 60 =
     Inr (q', Some \<lparr> qj_id = 0, qj_queue_name = ''runtime-adapters'',
       qj_job_key = ''runtime.adapter.ingest'', qj_adapter_key = Some ''official.cwa.rainfall'',
       qj_payload = [], qj_attempts = 1, qj_max_attempts = 1 \<rparr>)"
proof -
  have "\<forall>j\<in>set (qt_jobs sample_queued). rj_attempts j < 2147483647" by (simp add: sample_defs)
  from dequeue_takes_the_first_due_job [OF reachable_queued this,
      of "''runtime-adapters''" 10 "''w1''" 60]
  show ?thesis by (simp add: sample_queued_def queue_job_of_def sample_request_def new_job_def
        dequeueable_def lease_job_def)
qed

text \<open>
  A mark is answered true exactly when the worker holds the lease of the job, and no constraint
  rejects it. Success finishes the job; failure puts it back after the retry delay while attempts are
  left, and fails it for good otherwise. A worker whose lease another worker took over changes nothing.
\<close>

theorem marks_of_the_lease_holder:
  assumes r: "reachable (t, q)" and now: "t \<le> now" and j: "j \<in> set (qt_jobs q)"
  shows "mark_job_succeeded q now (rj_id j) w =
      (if rj_leased_by j = Some w then Inr (with_job q j (succeed_job now j), True)
       else Inr (q, False))
    \<and> mark_job_failed q now (rj_id j) w e d =
      (if rj_leased_by j = Some w then Inr (with_job q j (fail_job now d e j), True)
       else Inr (q, False))"
proof (cases "rj_leased_by j = Some w")
  case True
  have inv: "queue_inv (t, q)" by (rule reachable_inv [OF r])
  have run: "rj_status j = JobRunning" using row_inv [OF inv j] True by (simp add: job_inv_def)
  show ?thesis
    using True succeed_held [OF inv now j refl True run] fail_held [OF inv now j refl True run] by simp
next
  case False
  have "\<not> held_by q (rj_id j) w"
  proof
    assume "held_by q (rj_id j) w"
    from held_by_row [OF this] obtain k where "k \<in> set (qt_jobs q)" "rj_id k = rj_id j"
      "rj_leased_by k = Some w" by blast
    with False j reachable_inv [OF r] same_id_same_job [of "qt_jobs q" k j] show False
      by (simp add: queue_inv_def)
  qed
  with False show ?thesis by (simp add: mark_job_succeeded_def mark_job_failed_def)
qed

lemma marks_of_the_lease_holder_witness:
  "mark_job_succeeded sample_running 20 0 ''w2'' = Inr (sample_running, False)"
  using marks_of_the_lease_holder [OF reachable_running, of 20 "hd (qt_jobs sample_running)" "''w2''"]
  by (simp add: sample_defs)

fun resets_attempts :: "queue_op \<Rightarrow> bool" where
  "resets_attempts (OpRequeue i b r) = b"
| "resets_attempts _ = True"

definition within_attempts :: "runtime_job \<Rightarrow> bool" where
  "within_attempts j \<longleftrightarrow> rj_attempts j \<le> rj_max_attempts j
     \<and> (rj_status j = JobQueued \<longrightarrow> rj_attempts j < rj_max_attempts j)"

lemma update_job_all:
  "update_job q i f = Inr q' \<Longrightarrow> \<forall>j\<in>set (qt_jobs q). P j \<Longrightarrow>
   (\<And>j. j \<in> set (qt_jobs q) \<Longrightarrow> rj_id j = i \<Longrightarrow> row_admitted (f j) \<Longrightarrow> rj_id (f j) = i \<Longrightarrow> P (f j)) \<Longrightarrow>
   (\<And>j. rj_id (f j) = rj_id j) \<Longrightarrow> \<forall>j\<in>set (qt_jobs q'). P j"
  by (auto simp: update_job_def Let_def list_all_iff split: if_splits)

lemma same_id_row:
  "queue_inv (t, q) \<Longrightarrow> j \<in> set (qt_jobs q) \<Longrightarrow> k \<in> set (qt_jobs q) \<Longrightarrow> rj_id j = rj_id k \<Longrightarrow> j = k"
  by (auto simp: queue_inv_def dest: same_id_same_job)

lemma run_op_within:
  assumes inv: "queue_inv (t, q)" and all: "\<forall>j\<in>set (qt_jobs q). within_attempts j"
    and p: "resets_attempts p" and run: "run_op p now q = Inr q'"
  shows "\<forall>j\<in>set (qt_jobs q'). within_attempts j"
proof (cases p)
  case (OpAcquire k h ttl)
  with run all show ?thesis
    by (auto simp: acquire_scheduler_lease_def Let_def split: option.splits if_splits)
next
  case (OpRelease k h)
  with run all show ?thesis by (auto simp: release_scheduler_lease_def split: option.splits if_splits)
next
  case (OpEnqueue i r)
  with run all show ?thesis
    by (auto simp: enqueue_adapter_job_def Let_def within_attempts_def new_job_def row_admitted_def
        split: option.splits if_splits)
next
  case (OpDequeue n v s)
  show ?thesis
  proof (cases "next_job q n now")
    case None
    with run OpDequeue all show ?thesis by (simp add: dequeue_adapter_job_def)
  next
    case (Some k)
    from next_job_Some [OF this] have k: "k \<in> set (qt_jobs q)" "dequeueable n now k" by auto
    from run OpDequeue Some have u: "update_job q (rj_id k) (lease_job v s now) = Inr q'"
      by (auto simp: dequeue_adapter_job_def map_sum_fst_Inr rbind_Inr_iff)
    show ?thesis
    proof (rule update_job_all [OF u all])
      fix j assume "j \<in> set (qt_jobs q)" "rj_id j = rj_id k"
      then have "j = k" using same_id_row [OF inv] k(1) by blast
      with k all show "within_attempts (lease_job v s now j)"
        by (auto simp: within_attempts_def dequeueable_def lease_job_def)
    qed simp
  qed
next
  case (OpSucceed i v)
  with run show ?thesis
    by (auto simp: mark_job_succeeded_def map_sum_fst_Inr rbind_Inr_iff all split: if_splits
        elim!: update_job_all [OF _ all, THEN bspec])
      (use all in \<open>auto simp: within_attempts_def succeed_job_def\<close>)
next
  case (OpFail i v e d)
  with run show ?thesis
    by (auto simp: mark_job_failed_def map_sum_fst_Inr rbind_Inr_iff all split: if_splits
        elim!: update_job_all [OF _ all, THEN bspec])
      (use all in \<open>auto simp: within_attempts_def fail_job_def Let_def\<close>)
next
  case (OpRequeue i b r)
  with run p show ?thesis
    by (auto simp: requeue_failed_job_def map_sum_fst_Inr rbind_Inr_iff all split: option.splits
        elim!: update_job_all [OF _ all, THEN bspec])
      (auto simp: within_attempts_def requeue_job_def row_admitted_def)
qed

lemma queue_step_within:
  "queue_step s p s' \<Longrightarrow> queue_inv s \<Longrightarrow> \<forall>j\<in>set (qt_jobs (snd s)). within_attempts j \<Longrightarrow>
   resets_attempts p \<Longrightarrow> \<forall>j\<in>set (qt_jobs (snd s')). within_attempts j"
proof (induction rule: queue_step.induct)
  case (committed t now p q q')
  show ?case
    using run_op_within [of t q p now q'] committed.prems committed.hyps(3) by simp
qed simp

lemma queue_steps_within:
  "queue_steps s ps s' \<Longrightarrow> queue_inv s \<Longrightarrow> \<forall>j\<in>set (qt_jobs (snd s)). within_attempts j \<Longrightarrow>
   \<forall>p\<in>set ps. resets_attempts p \<Longrightarrow> \<forall>j\<in>set (qt_jobs (snd s')). within_attempts j"
proof (induction rule: queue_steps.induct)
  case (more_steps s ps s' p s'')
  have "\<forall>j\<in>set (qt_jobs (snd s')). within_attempts j"
    by (rule more_steps.IH [OF more_steps.prems(1,2)]) (use more_steps.prems(3) in simp)
  moreover have "resets_attempts p" using more_steps.prems(3) by simp
  ultimately show ?case
    by (rule queue_step_within [OF more_steps.hyps(2) queue_steps_inv [OF more_steps.hyps(1) more_steps.prems(1)]])
qed simp

text \<open>
  C8. While every requeue resets the attempts, no job is attempted more often than its maximum, a
  queued job has an attempt left, and so no dequeue is ever rejected.
\<close>

theorem attempts_stay_within_the_maximum:
  assumes r: "queue_steps (t, empty_tables) ps (t', q)" and p: "list_all resets_attempts ps"
  shows "(\<forall>j\<in>set (qt_jobs q). rj_attempts j \<le> rj_max_attempts j
      \<and> (rj_status j = JobQueued \<longrightarrow> rj_attempts j < rj_max_attempts j))
    \<and> (\<exists>x. dequeue_adapter_job q now n w s = Inr x)"
proof -
  have inv: "queue_inv (t', q)" by (rule queue_steps_inv [OF r queue_inv_empty])
  have w: "\<forall>j\<in>set (qt_jobs q). within_attempts j"
    using queue_steps_within [OF r queue_inv_empty] p by (simp add: empty_tables_def list_all_iff)
  have "\<exists>x. dequeue_adapter_job q now n w s = Inr x"
  proof (cases "next_job q n now")
    case None
    then show ?thesis by (simp add: dequeue_adapter_job_def)
  next
    case (Some j)
    from next_job_Some [OF this] have j: "j \<in> set (qt_jobs q)" "dequeueable n now j" by auto
    have "rj_max_attempts j \<le> 2147483647"
      using row_inv [OF inv j(1)] by (simp add: job_inv_def row_admitted_def int4_def)
    moreover have "rj_attempts j < rj_max_attempts j"
      using w j by (auto simp: dequeueable_def within_attempts_def)
    ultimately show ?thesis using dequeue_Some [OF inv Some] by auto
  qed
  with w show ?thesis by (simp add: within_attempts_def)
qed

lemma attempts_stay_within_the_maximum_witness:
  "\<exists>x. dequeue_adapter_job sample_queued 10 ''runtime-adapters'' ''w1'' 60 = Inr x"
proof -
  have "queue_steps (0, empty_tables) ([] @ [OpEnqueue 0 sample_request]) (0, sample_queued)"
    by (rule more_steps [OF no_steps committed [OF _ _ enqueue_sample]]) (simp_all add: empty_tables_def)
  from attempts_stay_within_the_maximum [OF this] show ?thesis by simp
qed

lemma ex_some_key:
  "(\<exists>k\<in>S. P k \<and> g k \<noteq> None \<and> g k = x) \<longleftrightarrow> x \<noteq> None \<and> (\<exists>k\<in>S. P k \<and> g k = x)"
  by blast

text \<open>
  An operator's requeue of a failed job is rejected exactly when another active job has taken its
  deduplication identity meanwhile; otherwise the job is queued again, with its attempts reset or kept,
  and the answer says so.
\<close>

theorem requeue_of_a_failed_job:
  assumes r: "reachable (t, q)" and now: "t \<le> now"
    and j: "j \<in> set (qt_jobs q)" "rj_status j = JobFailed"
  shows "requeue_failed_job q now (rj_id j) b ra =
    (let j' = requeue_job now b ra j
     in if list_ex (\<lambda>k. k \<noteq> j \<and> dedupe_identity k \<noteq> None \<and> dedupe_identity k = dedupe_identity j')
             (qt_jobs q)
        then Inl RuntimeQueueUnavailable
        else Inr (with_job q j j', \<lparr> rr_job_id = rj_id j, rr_requeued = True,
               rr_reset_attempts = b, rr_attempts = Some (if b then 0 else rj_attempts j) \<rparr>))"
proof -
  let ?f = "requeue_job now b ra"
  let ?jobs = "map (\<lambda>k. if k = j then ?f j else k) (qt_jobs q)"
  have inv: "queue_inv (t, q)" by (rule reachable_inv [OF r])
  have same: "rj_id k = rj_id j \<longleftrightarrow> k = j" if "k \<in> set (qt_jobs q)" for k
    using same_id_row [OF inv that j(1)] by blast
  have find: "find (\<lambda>k. rj_id k = rj_id j \<and> rj_status k = JobFailed) (qt_jobs q) = Some j"
  proof (cases "find (\<lambda>k. rj_id k = rj_id j \<and> rj_status k = JobFailed) (qt_jobs q)")
    case None
    with j show ?thesis by (auto simp: find_None_iff)
  next
    case (Some k)
    then have "k \<in> set (qt_jobs q)" "rj_id k = rj_id j" by (auto simp: find_Some_iff)
    with same Some show ?thesis by simp
  qed
  have eq: "map (\<lambda>k. if rj_id k = rj_id j then ?f k else k) (qt_jobs q) = ?jobs"
    using same by (intro map_cong) auto
  have adm: "row_admitted (?f j)"
    by (rule job_inv_admitted [OF requeue_job_inv [OF row_inv [OF inv j(1)] now j(2)]])
  have conf: "conflicts_with ?jobs (?f j) \<longleftrightarrow>
      list_ex (\<lambda>k. k \<noteq> j \<and> dedupe_identity k \<noteq> None \<and> dedupe_identity k = dedupe_identity (?f j))
        (qt_jobs q)"
  proof -
    have "(\<exists>m\<in>set ?jobs. rj_id m \<noteq> rj_id (?f j) \<and> dedupe_identity m = dedupe_identity (?f j))
        \<longleftrightarrow> (\<exists>k\<in>set (qt_jobs q). k \<noteq> j \<and> dedupe_identity k = dedupe_identity (?f j))"
      using same by auto
    then show ?thesis by (simp only: conflicts_with_def list_ex_iff ex_some_key)
  qed
  have all: "list_all (\<lambda>k. rj_id k = rj_id j \<longrightarrow> row_admitted k \<and> \<not> conflicts_with ?jobs k) ?jobs
      \<longleftrightarrow> \<not> conflicts_with ?jobs (?f j)"
    using same j(1) adm by (auto simp: list_all_iff)
  show ?thesis
    unfolding requeue_failed_job_def find option.case update_job_def eq Let_def all conf with_job_def
    by (simp add: requeue_job_def)
qed

lemma requeue_of_a_failed_job_witness:
  "\<exists>q'. requeue_failed_job sample_failed 30 0 True None =
     Inr (q', \<lparr> rr_job_id = 0, rr_requeued = True, rr_reset_attempts = True, rr_attempts = Some 0 \<rparr>)"
  using requeue_of_a_failed_job [OF reachable_failed, of 30 "hd (qt_jobs sample_failed)" True None]
  by (simp add: sample_defs)

text \<open>
  Enqueueing is idempotent for a request with a deduplication key: sent again before its job
  finishes, it is answered as a duplicate with the same identifier and the tables stay as they are.
\<close>

theorem enqueue_again_is_deduped:
  assumes r: "reachable (t, q)" and now: "t \<le> now" and fresh: "i \<notin> set (map rj_id (qt_jobs q))"
    and d: "en_dedupe_key rq \<noteq> None" and e: "enqueue_adapter_job q now i rq = Inr (q', x)"
  shows "enqueue_adapter_job q' now' i' rq = Inr (q', x\<lparr> eq_status := Deduped \<rparr>)"
proof -
  from enqueue_answer [OF e d] obtain k where k: "k \<in> set (qt_jobs q')"
    "eq_job_id x = Some (rj_id k)" "dedupe_identity k = dedupe_identity (new_job rq i now)"
    "dedupe_identity k \<noteq> None" "eq_dedupe_key x = en_dedupe_key rq"
    "row_admitted (new_job rq i now) \<or> (\<exists>k. existing_active_job q' rq = Some k)" by metis
  have k3: "dedupe_identity k = dedupe_identity (new_job rq i' now')"
    and k6: "row_admitted (new_job rq i' now') \<or> (\<exists>k. existing_active_job q' rq = Some k)"
    using k(3,6) new_job_identity new_job_admitted by metis+
  from enqueue_duplicate [OF k(1) k3 k(4) k6] obtain m where m: "m \<in> set (qt_jobs q')"
    "dedupe_identity m = dedupe_identity k"
    "enqueue_adapter_job q' now' i' rq =
       Inr (q', \<lparr> eq_status = Deduped, eq_job_id = Some (rj_id m), eq_dedupe_key = en_dedupe_key rq \<rparr>)"
    by metis
  have "unique_active (qt_jobs q')"
    using enqueue_inv [OF reachable_inv [OF r] now fresh e] by (simp add: queue_inv_def)
  then have "rj_id m = rj_id k" using m(1,2) k(1,4) unfolding unique_active_def by metis
  with m(3) k(2,5) show ?thesis by (cases x) simp
qed

lemma enqueue_again_is_deduped_witness:
  "enqueue_adapter_job sample_queued 5 1 sample_request =
     Inr (sample_queued, \<lparr> eq_status = Deduped, eq_job_id = Some 0, eq_dedupe_key = Some ''d'' \<rparr>)"
proof -
  have "enqueue_adapter_job empty_tables 0 0 sample_request =
      Inr (sample_queued, \<lparr> eq_status = Enqueued, eq_job_id = Some 0, eq_dedupe_key = Some ''d'' \<rparr>)"
    by (simp add: sample_queued_def enqueue_adapter_job_def existing_active_job_def empty_tables_def
        row_admitted_def int4_def sample_request_def new_job_def Let_def)
  from enqueue_again_is_deduped [OF reachable_start _ _ _ this, of 0 5 1]
  show ?thesis by (simp add: empty_tables_def sample_request_def)
qed

text \<open>
  C5. A running job that has used its last attempt is out of reach of every operation but a mark by
  the worker that leased it: if that worker died, the job is never dequeued again, never becomes
  failed and keeps its lease for ever, however long the lease has expired.
\<close>

theorem last_attempt_is_never_recovered:
  assumes r: "reachable (t, q)" and j: "j \<in> set (qt_jobs q)" "rj_status j = JobRunning"
    "rj_leased_by j = Some w" "rj_max_attempts j \<le> rj_attempts j"
    and s: "queue_steps (t, q) ps (t', q')" and p: "\<not> list_ex (hands_over (rj_id j) w) ps"
  shows "j \<in> set (qt_jobs q') \<and> next_job q' n now \<noteq> Some j"
proof -
  have x: "exhausted j w" using j by (simp add: exhausted_def)
  have "j \<in> set (qt_jobs q')"
    using queue_steps_exhausted [OF s reachable_inv [OF r] _ x] j(1) p by (simp add: list_ex_iff)
  moreover have "next_job q' n now \<noteq> Some j"
    using next_job_Some exhausted_not_dequeueable [OF x] by blast
  ultimately show ?thesis ..
qed

lemma last_attempt_is_never_recovered_witness:
  "next_job sample_running ''runtime-adapters'' 1000000000 \<noteq> Some (hd (qt_jobs sample_running))"
  using last_attempt_is_never_recovered [OF reachable_running _ _ _ _ no_steps,
      of "hd (qt_jobs sample_running)" "''w1''" "''runtime-adapters''" 1000000000]
  by (simp add: sample_defs)

text \<open>
  C7. A scheduler lease excludes: from its acquisition until it expires, and while its holder neither
  renews nor releases it, no transaction takes it away and every other holder's acquisition is
  answered false without an effect.
\<close>

theorem scheduler_lease_excludes:
  assumes s: "queue_steps (t, q) ps (t', q')" and l: "qt_leases q key = Some l"
    and e: "t' \<le> now" "now < sl_lease_expires_at l"
    and p: "\<not> list_ex (uses_lease key (sl_holder_id l)) ps" and h: "h \<noteq> sl_holder_id l"
  shows "qt_leases q' key = Some l
    \<and> acquire_scheduler_lease q' now key h ttl = Inr (q', False)
    \<and> release_scheduler_lease q' now key h = q'"
proof -
  have "qt_leases q' key = Some l"
    using queue_steps_lease [OF s] l e p by (simp add: list_ex_iff)
  with e h show ?thesis
    by (simp add: acquire_scheduler_lease_def release_scheduler_lease_def)
qed

definition sample_leased :: queue_tables where
  "sample_leased = empty_tables\<lparr> qt_leases :=
     [''scheduler'' \<mapsto> \<lparr> sl_holder_id = ''h1'', sl_lease_expires_at = 100 \<rparr>] \<rparr>"

lemma scheduler_lease_excludes_witness:
  "acquire_scheduler_lease sample_leased 50 ''scheduler'' ''h2'' 60 = Inr (sample_leased, False)"
  using scheduler_lease_excludes [OF no_steps, of sample_leased "''scheduler''"
      "\<lparr> sl_holder_id = ''h1'', sl_lease_expires_at = 100 \<rparr>" 0 50 "''h2''" 60]
  by (simp add: sample_leased_def)

section \<open>Dead letters\<close>

lemma dead_letter_failed: "job_inv t j \<Longrightarrow> dead_letter j \<longleftrightarrow> rj_status j = JobFailed"
  by (auto simp: dead_letter_def job_inv_def)

lemma failed_at_final: "job_inv t j \<Longrightarrow> rj_status j = JobFailed \<Longrightarrow> rj_final_failed_at j = Some (failed_at j)"
  by (auto simp: failed_at_def job_inv_def split: option.splits)

definition failed_jobs :: "queue_tables \<Rightarrow> string option \<Rightarrow> runtime_job list" where
  "failed_jobs q n =
     sort_key (\<lambda>j. (- failed_at j, - rj_created_at j))
       (filter (\<lambda>j. rj_status j = JobFailed \<and> in_queue n j) (qt_jobs q))"

lemma list_dead_letter_failed:
  assumes "queue_inv (t, q)"
  shows "list_dead_letter_jobs q n limit =
    map dead_letter_job_of (take (nat (max 1 (min limit 500))) (failed_jobs q n))"
proof -
  have "filter (\<lambda>j. dead_letter j \<and> in_queue n j) (qt_jobs q) =
      filter (\<lambda>j. rj_status j = JobFailed \<and> in_queue n j) (qt_jobs q)"
    by (intro filter_cong refl) (use dead_letter_failed row_inv [OF assms] in blast)
  then show ?thesis by (simp add: list_dead_letter_jobs_def failed_jobs_def)
qed

lemma failed_jobs_newest_first:
  "sorted_wrt (\<lambda>j k. failed_at k \<le> failed_at j) (failed_jobs q n)"
proof -
  have "sorted (map (\<lambda>j. (- failed_at j, - rj_created_at j)) (failed_jobs q n))"
    by (simp add: failed_jobs_def)
  then show ?thesis by (auto simp: sorted_map less_eq_prod_def elim!: sorted_wrt_mono_rel [rotated])
qed

text \<open>
  The dead letter list holds failed jobs only, at most 500 of them, the most recently failed
  first, each with its failure time; none that it leaves out failed later than one it shows; and the
  summary counts all failed jobs of the queue.
\<close>

theorem dead_letters_are_the_failed_jobs:
  assumes r: "reachable (t, q)"
  shows "\<exists>shown hidden.
      mset (shown @ hidden) = mset (filter (\<lambda>j. rj_status j = JobFailed \<and> in_queue n j) (qt_jobs q))
      \<and> list_dead_letter_jobs q n limit = map dead_letter_job_of shown
      \<and> length shown \<le> 500
      \<and> sorted_wrt (\<lambda>j k. failed_at k \<le> failed_at j) (shown @ hidden)
      \<and> list_all (\<lambda>j. dl_final_failed_at (dead_letter_job_of j) = Some (failed_at j)) shown
      \<and> ds_failed_terminal_count (summarize_dead_letter_jobs q n) = length (shown @ hidden)"
proof -
  have inv: "queue_inv (t, q)" by (rule reachable_inv [OF r])
  let ?m = "nat (max 1 (min limit 500))"
  let ?l = "failed_jobs q n"
  have "set ?l \<subseteq> {j \<in> set (qt_jobs q). rj_status j = JobFailed}" by (auto simp: failed_jobs_def)
  then have "list_all (\<lambda>j. dl_final_failed_at (dead_letter_job_of j) = Some (failed_at j)) (take ?m ?l)"
    using failed_at_final [OF row_inv [OF inv]]
    by (auto simp: list_all_iff dead_letter_job_of_def dest!: in_set_takeD)
  moreover have "ds_failed_terminal_count (summarize_dead_letter_jobs q n) = length ?l"
  proof -
    have "filter (\<lambda>j. dead_letter j \<and> in_queue n j) (qt_jobs q) =
        filter (\<lambda>j. rj_status j = JobFailed \<and> in_queue n j) (qt_jobs q)"
      by (intro filter_cong refl) (use dead_letter_failed row_inv [OF inv] in blast)
    then show ?thesis by (simp add: summarize_dead_letter_jobs_def failed_jobs_def Let_def)
  qed
  moreover have "mset ?l = mset (filter (\<lambda>j. rj_status j = JobFailed \<and> in_queue n j) (qt_jobs q))"
    by (simp add: failed_jobs_def)
  ultimately show ?thesis
    using list_dead_letter_failed [OF inv, of n limit] failed_jobs_newest_first [of q n]
    by (intro exI [of _ "take ?m ?l"] exI [of _ "drop ?m ?l"]) simp
qed

lemma dead_letters_are_the_failed_jobs_witness:
  "length (list_dead_letter_jobs sample_failed None 100) \<le> 500
   \<and> ds_failed_terminal_count (summarize_dead_letter_jobs sample_failed None) = 1"
proof -
  have "filter (\<lambda>j. rj_status j = JobFailed \<and> in_queue None j) (qt_jobs sample_failed) = qt_jobs sample_failed"
    by (simp add: sample_defs in_queue_def)
  with dead_letters_are_the_failed_jobs [OF reachable_failed, of None 100] obtain shown hidden where
    *: "mset (shown @ hidden) = mset (qt_jobs sample_failed)" "length shown \<le> 500"
      "list_dead_letter_jobs sample_failed None 100 = map dead_letter_job_of shown"
      "ds_failed_terminal_count (summarize_dead_letter_jobs sample_failed None) = length (shown @ hidden)"
    by metis
  have "length (shown @ hidden) = 1" using mset_eq_length [OF *(1)] by (simp add: sample_failed_def)
  with * show ?thesis by simp
qed

section \<open>The contract of a runtime queue\<close>

text \<open>
  What a worker relies on, whichever queue it is given: a claim makes the worker the holder of the job,
  one worker holds a job at a time, and a mark is answered with whether the worker holds the job and
  then ends its hold.
\<close>

locale runtime_queue =
  fixes good :: "int \<Rightarrow> 's \<Rightarrow> bool"
    and holds :: "'s \<Rightarrow> nat \<Rightarrow> string \<Rightarrow> bool"
    and claim :: "'s \<Rightarrow> int \<Rightarrow> string \<Rightarrow> string \<Rightarrow> int \<Rightarrow> ('s \<times> queue_job option) result"
    and complete :: "'s \<Rightarrow> int \<Rightarrow> nat \<Rightarrow> string \<Rightarrow> ('s \<times> bool) result"
    and abandon :: "'s \<Rightarrow> int \<Rightarrow> nat \<Rightarrow> string \<Rightarrow> string \<Rightarrow> int \<Rightarrow> ('s \<times> bool) result"
  assumes one_holder: "good t s \<Longrightarrow> holds s i w \<Longrightarrow> holds s i w' \<Longrightarrow> w = w'"
    and claim_holds: "good t s \<Longrightarrow> t \<le> now \<Longrightarrow> claim s now n w l = Inr (s', Some v) \<Longrightarrow>
      good now s' \<and> holds s' (qj_id v) w"
    and complete_answer: "good t s \<Longrightarrow> t \<le> now \<Longrightarrow>
      \<exists>s'. complete s now i w = Inr (s', holds s i w) \<and> good now s'
        \<and> (if holds s i w then \<forall>w'. \<not> holds s' i w' else s' = s)"
    and abandon_answer: "good t s \<Longrightarrow> t \<le> now \<Longrightarrow>
      \<exists>s'. abandon s now i w e d = Inr (s', holds s i w) \<and> good now s'
        \<and> (if holds s i w then \<forall>w'. \<not> holds s' i w' else s' = s)"
begin

lemma others_cannot_mark:
  assumes "good t s" "t \<le> now" "holds s i w" "w' \<noteq> w"
  shows "complete s now i w' = Inr (s, False) \<and> abandon s now i w' e d = Inr (s, False)"
proof -
  have "\<not> holds s i w'" using one_holder assms by blast
  with complete_answer [OF assms(1,2), of i w'] abandon_answer [OF assms(1,2), of i w' e d]
  show ?thesis by auto
qed

lemma claimed_job_is_marked_once:
  assumes g: "good t s" and now: "t \<le> now" "now \<le> now1" "now1 \<le> now2"
    and c: "claim s now n w l = Inr (s1, Some v)"
  shows "\<exists>s2. complete s1 now1 (qj_id v) w = Inr (s2, True)
    \<and> (\<forall>w' e d. complete s2 now2 (qj_id v) w' = Inr (s2, False)
        \<and> abandon s2 now2 (qj_id v) w' e d = Inr (s2, False))"
proof -
  from claim_holds [OF g now(1) c] have s1: "good now s1" "holds s1 (qj_id v) w" by auto
  from complete_answer [OF s1(1) now(2), of "qj_id v" w] s1(2) obtain s2 where
    s2: "complete s1 now1 (qj_id v) w = Inr (s2, True)" "good now1 s2" "\<forall>w'. \<not> holds s2 (qj_id v) w'"
    by auto
  have "complete s2 now2 (qj_id v) w' = Inr (s2, False)
      \<and> abandon s2 now2 (qj_id v) w' e d = Inr (s2, False)" for w' e d
    using complete_answer [OF s2(2) now(3), of "qj_id v" w']
      abandon_answer [OF s2(2) now(3), of "qj_id v" w' e d] s2(3) by auto
  with s2(1) show ?thesis by blast
qed

end

interpretation null_queue: runtime_queue "\<lambda>t s. True" "\<lambda>s i w. null_mark_job_succeeded i w"
  "\<lambda>s now n w l. Inr (s, null_dequeue_adapter_job n w l)"
  "\<lambda>s now i w. Inr (s, null_mark_job_succeeded i w)"
  "\<lambda>s now i w e d. Inr (s, null_mark_job_failed i w e d)"
  by unfold_locales
    (simp_all add: null_mark_job_succeeded_def null_dequeue_adapter_job_def null_mark_job_failed_def)

lemma with_job_held:
  assumes inv: "queue_inv (t, q)" and j: "j \<in> set (qt_jobs q)" and f: "rj_id j' = rj_id j"
  shows "held_by (with_job q j j') (rj_id j) w \<longleftrightarrow> rj_leased_by j' = Some w \<and> rj_status j' = JobRunning"
proof -
  have "rj_id k = rj_id j \<longleftrightarrow> k = j" if "k \<in> set (qt_jobs q)" for k
    using same_id_row [OF inv that j] by blast
  then show ?thesis using j f by (auto simp: held_by_def list_ex_iff with_job_def)
qed

lemma pg_mark:
  assumes inv: "queue_inv (t, q)" and now: "t \<le> now"
    and run: "\<And>j. j \<in> set (qt_jobs q) \<Longrightarrow> rj_id j = i \<Longrightarrow> rj_leased_by j = Some w \<Longrightarrow>
      rj_status j = JobRunning \<Longrightarrow> \<exists>j'. r = Inr (with_job q j j', True) \<and> rj_id j' = i
        \<and> rj_status j' \<noteq> JobRunning \<and> queue_inv (now, with_job q j j')"
    and no: "\<not> held_by q i w \<Longrightarrow> r = Inr (q, False)"
  shows "\<exists>q'. r = Inr (q', held_by q i w) \<and> queue_inv (now, q')
    \<and> (if held_by q i w then \<forall>w'. \<not> held_by q' i w' else q' = q)"
proof (cases "held_by q i w")
  case True
  from held_by_row [OF this] obtain j where j: "j \<in> set (qt_jobs q)" "rj_id j = i"
    "rj_leased_by j = Some w" "rj_status j = JobRunning" by blast
  from run [OF j] obtain j' where j': "r = Inr (with_job q j j', True)" "rj_id j' = i"
    "rj_status j' \<noteq> JobRunning" "queue_inv (now, with_job q j j')" by blast
  have "\<not> held_by (with_job q j j') i w'" for w'
    using with_job_held [OF inv j(1), of j' w'] j(2) j'(2,3) by simp
  with True j' show ?thesis by auto
next
  case False
  with no queue_inv_mono [OF inv now] show ?thesis by auto
qed

lemma pg_claim:
  assumes inv: "queue_inv (t, q)" and now: "t \<le> now"
    and c: "dequeue_adapter_job q now n w s = Inr (q', Some v)"
  shows "queue_inv (now, q') \<and> held_by q' (qj_id v) w"
proof
  show "queue_inv (now, q')"
    by (rule run_op_inv [OF inv now, where p = "OpDequeue n w s"]) (simp_all add: c)
  from c obtain j where j: "next_job q n now = Some j"
    and u: "update_job q (rj_id j) (lease_job w s now) = Inr q'"
    and v: "v = queue_job_of (lease_job w s now j)"
    by (auto simp: dequeue_adapter_job_def rbind_Inr_iff split: option.splits)
  have d: "distinct (map rj_id (qt_jobs q))" using inv by (simp add: queue_inv_def)
  have m: "j \<in> set (qt_jobs q)" using next_job_Some [OF j] by simp
  obtain jobs where "q' = q\<lparr> qt_jobs := jobs \<rparr>" "map rj_id jobs = map rj_id (qt_jobs q)"
    "lease_job w s now j \<in> set jobs" "set jobs \<subseteq> insert (lease_job w s now j) (set (qt_jobs q))"
    "row_admitted (lease_job w s now j)" "\<not> conflicts_with jobs (lease_job w s now j)"
    by (rule update_job_Inr [where f = "lease_job w s now", OF d m refl _ u]) simp
  moreover have "rj_leased_by (lease_job w s now j) = Some w" "rj_status (lease_job w s now j) = JobRunning"
    "rj_id (lease_job w s now j) = rj_id j" by (simp_all add: lease_job_def)
  ultimately show "held_by q' (qj_id v) w"
    by (simp add: held_by_def list_ex_iff v queue_job_of_def)
      (rule bexI [of _ "lease_job w s now j"], simp_all)
qed

lemma one_lease_holder:
  "queue_inv (t, q) \<Longrightarrow> held_by q i w \<Longrightarrow> held_by q i w' \<Longrightarrow> w = w'"
  using same_id_row by (fastforce simp: held_by_def list_ex_iff)

interpretation postgres_queue: runtime_queue "\<lambda>t q. queue_inv (t, q)" held_by dequeue_adapter_job
  mark_job_succeeded mark_job_failed
proof
  fix t now :: int and s s' :: queue_tables and i :: nat and w w' n e :: string and l d :: int and v
  assume inv: "queue_inv (t, s)"
  show "held_by s i w \<Longrightarrow> held_by s i w' \<Longrightarrow> w = w'" by (rule one_lease_holder [OF inv])
  assume now: "t \<le> now"
  show "dequeue_adapter_job s now n w l = Inr (s', Some v) \<Longrightarrow>
      queue_inv (now, s') \<and> held_by s' (qj_id v) w" by (rule pg_claim [OF inv now])
  show "\<exists>s'. mark_job_succeeded s now i w = Inr (s', held_by s i w) \<and> queue_inv (now, s')
      \<and> (if held_by s i w then \<forall>w'. \<not> held_by s' i w' else s' = s)"
  proof (rule pg_mark [OF inv now])
    fix j assume j: "j \<in> set (qt_jobs s)" "rj_id j = i" "rj_leased_by j = Some w" "rj_status j = JobRunning"
    have "mark_job_succeeded s now i w = Inr (with_job s j (succeed_job now j), True)"
      by (rule succeed_held [OF inv now j])
    moreover from this have "queue_inv (now, with_job s j (succeed_job now j))"
      by (intro run_op_inv [OF inv now, where p = "OpSucceed i w"]) simp_all
    ultimately show "\<exists>j'. mark_job_succeeded s now i w = Inr (with_job s j j', True) \<and> rj_id j' = i
        \<and> rj_status j' \<noteq> JobRunning \<and> queue_inv (now, with_job s j j')"
      using j(2) by (intro exI [of _ "succeed_job now j"]) (simp add: succeed_job_def)
  qed (simp add: mark_job_succeeded_def)
  show "\<exists>s'. mark_job_failed s now i w e d = Inr (s', held_by s i w) \<and> queue_inv (now, s')
      \<and> (if held_by s i w then \<forall>w'. \<not> held_by s' i w' else s' = s)"
  proof (rule pg_mark [OF inv now])
    fix j assume j: "j \<in> set (qt_jobs s)" "rj_id j = i" "rj_leased_by j = Some w" "rj_status j = JobRunning"
    have "mark_job_failed s now i w e d = Inr (with_job s j (fail_job now d e j), True)"
      by (rule fail_held [OF inv now j])
    moreover from this have "queue_inv (now, with_job s j (fail_job now d e j))"
      by (intro run_op_inv [OF inv now, where p = "OpFail i w e d"]) simp_all
    ultimately show "\<exists>j'. mark_job_failed s now i w e d = Inr (with_job s j j', True) \<and> rj_id j' = i
        \<and> rj_status j' \<noteq> JobRunning \<and> queue_inv (now, with_job s j j')"
      using j(2) by (intro exI [of _ "fail_job now d e j"]) (simp add: fail_job_def Let_def)
  qed (simp add: mark_job_failed_def)
qed

text \<open>
  A dequeued job is marked at most once per lease: the worker that dequeued it marks it done with
  the answer true, and from then on every mark of that job, by whichever worker, is answered false
  without an effect.
\<close>

theorem dequeued_job_is_marked_once:
  assumes "reachable (t, q)" "t \<le> now" "now \<le> now1" "now1 \<le> now2"
    and "dequeue_adapter_job q now n w s = Inr (q1, Some v)"
  shows "\<exists>q2. mark_job_succeeded q1 now1 (qj_id v) w = Inr (q2, True)
    \<and> (\<forall>w' e d. mark_job_succeeded q2 now2 (qj_id v) w' = Inr (q2, False)
        \<and> mark_job_failed q2 now2 (qj_id v) w' e d = Inr (q2, False))"
  by (rule postgres_queue.claimed_job_is_marked_once [OF reachable_inv [OF assms(1)] assms(2-5)])

lemma dequeued_job_is_marked_once_witness:
  "\<exists>q2. mark_job_succeeded sample_running 20 0 ''w1'' = Inr (q2, True)
    \<and> mark_job_succeeded q2 30 0 ''w1'' = Inr (q2, False)"
proof -
  have "dequeue_adapter_job sample_queued 10 ''runtime-adapters'' ''w1'' 60 =
      Inr (sample_running, Some (queue_job_of (lease_job ''w1'' 60 10 (new_job sample_request 0 0))))"
    by (simp add: sample_defs dequeue_adapter_job_def next_job_def dequeueable_def update_job_def
        row_admitted_def int4_def conflicts_with_def)
  from dequeued_job_is_marked_once [OF reachable_queued _ _ _ this, of 20 30] show ?thesis
    by (auto simp: queue_job_of_def lease_job_def)
qed

end
