(* ===== verification/Python_Values.thy ===== *)
theory Python_Values
  imports Flood_Prelude "HOL-Library.Product_Lexorder" "HOL-Library.List_Lexorder" "HOL-Library.Char_ord"
begin

text \<open>
  Values of Python as they occur in the payloads of raw items and jobs, the dictionary operations on
  them, exceptions as the code reports them, and the library functions of the workers that are not
  part of this repository: the ISO 8601 parser and printer, \<open>str\<close> and \<open>repr\<close>, and the checksum of a
  list of payloads. Text is read as a list of 8-bit characters.
\<close>

section \<open>Values\<close>

datatype py_value =
  PyNone | PyBool bool | PyInt int | PyFloat rat | PyStr string | PyDatetime py_datetime
| PyList "py_value list" | PyTuple "py_value list" | PyDict "(string \<times> py_value) list"

type_synonym py_dict = "(string \<times> py_value) list"

text \<open>\<open>d.get(key)\<close>, and \<open>{**d, **e}\<close>: a key keeps its place and takes the later value.\<close>

definition dict_get :: "py_dict \<Rightarrow> string \<Rightarrow> py_value" where
  "dict_get d k = (case map_of d k of None \<Rightarrow> PyNone | Some v \<Rightarrow> v)"

definition dict_merge :: "py_dict \<Rightarrow> py_dict \<Rightarrow> py_dict" where
  "dict_merge d e = fold (\<lambda>(k, v). AList.update k v) e d"

lemma map_of_dict_merge: "map_of (dict_merge d e) = map_of d ++ map_of (rev e)"
proof (induction e arbitrary: d)
  case (Cons x e)
  obtain k v where x: "x = (k, v)" by (cases x)
  have "dict_merge d (x # e) = dict_merge (AList.update k v d) e"
    by (simp add: dict_merge_def x)
  then show ?case using Cons [of "AList.update k v d"]
    by (simp add: x update_conv' fun_eq_iff map_add_def split: option.splits)
qed (simp add: dict_merge_def)

lemma dict_get_merge_other: "k \<notin> fst ` set e \<Longrightarrow> dict_get (dict_merge d e) k = dict_get d k"
  by (simp add: dict_get_def map_of_dict_merge map_add_def map_of_eq_None_iff
      split: option.splits) (metis map_of_SomeD image_eqI fst_conv set_rev)

lemma dict_get_Nil [simp]: "dict_get [] k = PyNone"
  by (simp add: dict_get_def)

lemma dict_get_Cons [simp]: "dict_get ((k', v) # d) k = (if k = k' then v else dict_get d k)"
  by (simp add: dict_get_def)

lemma dict_get_update [simp]: "dict_get (AList.update k v d) k' = (if k = k' then v else dict_get d k')"
  by (simp add: dict_get_def update_conv')

lemma dict_get_merge:
  assumes "distinct (map fst e)"
  shows "dict_get (dict_merge d e) k = (case map_of e k of None \<Rightarrow> dict_get d k | Some v \<Rightarrow> v)"
proof -
  have "map_of (rev e) = map_of e"
    using assms by (metis distinct_rev map_of_inject_set rev_map set_rev)
  then show ?thesis by (simp add: dict_get_def map_of_dict_merge map_add_def split: option.splits)
qed

lemma distinct_dict_merge: "distinct (map fst d) \<Longrightarrow> distinct (map fst (dict_merge d e))"
  unfolding dict_merge_def
  by (induction e arbitrary: d) (auto simp: distinct_update)

fun py_truthy :: "py_value \<Rightarrow> bool" where
  "py_truthy PyNone = False"
| "py_truthy (PyBool b) = b"
| "py_truthy (PyInt n) = (n \<noteq> 0)"
| "py_truthy (PyFloat x) = (x \<noteq> 0)"
| "py_truthy (PyStr s) = (s \<noteq> [])"
| "py_truthy (PyDatetime _) = True"
| "py_truthy (PyList xs) = (xs \<noteq> [])"
| "py_truthy (PyTuple xs) = (xs \<noteq> [])"
| "py_truthy (PyDict d) = (d \<noteq> [])"

fun is_str :: "py_value \<Rightarrow> bool" where
  "is_str (PyStr s) = True"
| "is_str _ = False"

fun as_str :: "py_value \<Rightarrow> string option" where
  "as_str (PyStr s) = Some s"
| "as_str _ = None"

lemma as_str_Some: "as_str v = Some s \<longleftrightarrow> v = PyStr s"
  by (cases v) simp_all

text \<open>Lists and dictionaries have no hash; a tuple has one if its elements do.\<close>

fun py_hashable :: "py_value \<Rightarrow> bool" where
  "py_hashable (PyList xs) = False"
| "py_hashable (PyDict d) = False"
| "py_hashable (PyTuple xs) = list_all py_hashable xs"
| "py_hashable _ = True"

section \<open>Exceptions\<close>

text \<open>An exception by its class name and its message.\<close>

type_synonym py_exc = "string \<times> string"

type_synonym 'a outcome = "py_exc + 'a"

fun obind :: "'a outcome \<Rightarrow> ('a \<Rightarrow> 'b outcome) \<Rightarrow> 'b outcome" where
  "obind (Inl e) f = Inl e"
| "obind (Inr x) f = f x"

lemma obind_Inr_iff: "obind r f = Inr y \<longleftrightarrow> (\<exists>x. r = Inr x \<and> f x = Inr y)"
  by (cases r) auto

fun otraverse :: "('a \<Rightarrow> 'b outcome) \<Rightarrow> 'a list \<Rightarrow> 'b list outcome" where
  "otraverse f [] = Inr []"
| "otraverse f (x # xs) = obind (f x) (\<lambda>y. obind (otraverse f xs) (\<lambda>ys. Inr (y # ys)))"

lemma otraverse_Inr_iff:
  "otraverse f xs = Inr ys \<longleftrightarrow> list_all2 (\<lambda>x y. f x = Inr y) xs ys"
  by (induction xs arbitrary: ys) (auto simp: obind_Inr_iff list_all2_Cons1)

definition value_error :: "string \<Rightarrow> py_exc" where
  "value_error message = (''ValueError'', message)"

definition unhashable :: py_exc where
  "unhashable = (''TypeError'', ''unhashable type'')"

definition naive_aware_mix :: py_exc where
  "naive_aware_mix = (''TypeError'', ''can't compare offset-naive and offset-aware datetimes'')"

text \<open>Membership of a value in a set of strings.\<close>

definition in_strings :: "py_value \<Rightarrow> string list \<Rightarrow> bool outcome" where
  "in_strings v names =
     (if py_hashable v then Inr (case as_str v of None \<Rightarrow> False | Some s \<Rightarrow> s \<in> set names)
      else Inl unhashable)"

lemma in_strings_True: "in_strings v names = Inr True \<longleftrightarrow> v \<in> PyStr ` set names"
  by (cases v) (auto simp: in_strings_def)

definition before :: "py_datetime \<Rightarrow> py_datetime \<Rightarrow> bool outcome" where
  "before a b = (case datetime_less a b of Inl _ \<Rightarrow> Inl naive_aware_mix | Inr x \<Rightarrow> Inr x)"

text \<open>\<open>min\<close> and \<open>max\<close> of date and time values: the first least, the first greatest.\<close>

fun min_datetime :: "py_datetime \<Rightarrow> py_datetime list \<Rightarrow> py_datetime outcome" where
  "min_datetime m [] = Inr m"
| "min_datetime m (x # xs) = obind (before x m) (\<lambda>b. min_datetime (if b then x else m) xs)"

fun max_datetime :: "py_datetime \<Rightarrow> py_datetime list \<Rightarrow> py_datetime outcome" where
  "max_datetime m [] = Inr m"
| "max_datetime m (x # xs) = obind (before m x) (\<lambda>b. max_datetime (if b then x else m) xs)"

text \<open>A naive value is read as UTC, an aware one converted to it.\<close>

definition aware_utc :: "py_datetime \<Rightarrow> py_datetime" where
  "aware_utc v = Aware (AwareAt (normalized_utc v) 0)"

lemma normalized_aware_utc [simp]: "normalized_utc (aware_utc v) = normalized_utc v"
  by (simp add: aware_utc_def instant_def)

lemma aware_utc_idem [simp]: "aware_utc (aware_utc v) = aware_utc v"
  by (simp add: aware_utc_def instant_def)

lemma before_aware [simp]:
  "is_aware a \<Longrightarrow> is_aware b \<Longrightarrow> before a b = Inr (normalized_utc a < normalized_utc b)"
  by (simp add: before_def datetime_less_aware)

lemma is_aware_utc [simp]: "is_aware (aware_utc v)"
  by (simp add: aware_utc_def)

lemma min_datetime_aware:
  assumes "min_datetime m xs = Inr y" and "\<forall>x\<in>set (m # xs). is_aware x"
  shows "y \<in> set (m # xs) \<and> (\<forall>x\<in>set (m # xs). normalized_utc y \<le> normalized_utc x)"
  using assms
proof (induction xs arbitrary: m)
  case (Cons a xs)
  let ?m = "if normalized_utc a < normalized_utc m then a else m"
  have "min_datetime ?m xs = Inr y" using Cons.prems by simp
  from Cons.IH [OF this] Cons.prems(2) have "y \<in> set (?m # xs)"
    "\<forall>x\<in>set (?m # xs). normalized_utc y \<le> normalized_utc x" by auto
  then show ?case by (auto split: if_splits)
qed simp

lemma max_datetime_aware:
  assumes "max_datetime m xs = Inr y" and "\<forall>x\<in>set (m # xs). is_aware x"
  shows "y \<in> set (m # xs) \<and> (\<forall>x\<in>set (m # xs). normalized_utc x \<le> normalized_utc y)"
  using assms
proof (induction xs arbitrary: m)
  case (Cons a xs)
  let ?m = "if normalized_utc m < normalized_utc a then a else m"
  have "max_datetime ?m xs = Inr y" using Cons.prems by simp
  from Cons.IH [OF this] Cons.prems(2) have "y \<in> set (?m # xs)"
    "\<forall>x\<in>set (?m # xs). normalized_utc x \<le> normalized_utc y" by auto
  then show ?case by (auto split: if_splits)
qed simp

lemma before_Inr: "before a b = Inr x \<Longrightarrow> is_aware a = is_aware b"
  by (cases a; cases b) (auto simp: before_def)

section \<open>Steps\<close>

text \<open>Steps that change a state and return a value or raise.\<close>

type_synonym ('s, 'r) step = "'s \<Rightarrow> 'r outcome \<times> 's"

definition wreturn :: "'r \<Rightarrow> ('s, 'r) step" where
  "wreturn r st = (Inr r, st)"

definition wbind :: "('s, 'a) step \<Rightarrow> ('a \<Rightarrow> ('s, 'r) step) \<Rightarrow> ('s, 'r) step" where
  "wbind m f st =
     (case m st of
        (Inl e, st') \<Rightarrow> (Inl e, st')
      | (Inr a, st') \<Rightarrow> f a st')"

definition wcatch :: "('s, 'r) step \<Rightarrow> (py_exc \<Rightarrow> ('s, 'r) step) \<Rightarrow> ('s, 'r) step" where
  "wcatch m h st =
     (case m st of
        (Inl e, st') \<Rightarrow> h e st'
      | (Inr r, st') \<Rightarrow> (Inr r, st'))"

lemma wbind_Inr:
  "wbind m f st = (Inr r, st') \<longleftrightarrow> (\<exists>a st1. m st = (Inr a, st1) \<and> f a st1 = (Inr r, st'))"
  by (auto simp: wbind_def split: prod.splits sum.splits)

lemma wbind_Inl:
  "wbind m f st = (Inl e, st') \<longleftrightarrow>
   m st = (Inl e, st') \<or> (\<exists>a st1. m st = (Inr a, st1) \<and> f a st1 = (Inl e, st'))"
  by (auto simp: wbind_def split: prod.splits sum.splits)

lemma wreturn_eq: "wreturn a st = (Inr r, st') \<longleftrightarrow> a = r \<and> st = st'"
  by (auto simp: wreturn_def)

lemma wreturn_Inl [simp]: "wreturn a st \<noteq> (Inl e, st')"
  by (simp add: wreturn_def)

lemma wcatch_Inr:
  "wcatch m h st = (Inr r, st') \<longleftrightarrow>
   m st = (Inr r, st') \<or> (\<exists>e st1. m st = (Inl e, st1) \<and> h e st1 = (Inr r, st'))"
  by (auto simp: wcatch_def split: prod.splits sum.splits)

definition raise_error :: "string \<Rightarrow> ('s, 'a) step" where
  "raise_error message st = (Inl (value_error message), st)"

text \<open>The checks of the arguments of a function, in order: the message of the first that fails.\<close>

fun checked :: "(bool \<times> string) list \<Rightarrow> ('s, 'a) step \<Rightarrow> ('s, 'a) step" where
  "checked [] m = m"
| "checked ((ok, message) # cs) m = (if ok then checked cs m else raise_error message)"

lemma checked_pass: "list_all fst cs \<Longrightarrow> checked cs m = m"
  by (induction cs m rule: checked.induct) auto

lemma checked_fail: "\<not> list_all fst cs \<Longrightarrow> \<exists>e. \<forall>st. checked cs m st = (Inl e, st)"
  by (induction cs m rule: checked.induct) (auto simp: raise_error_def)

lemma checked_failed:
  "\<not> list_all fst cs \<Longrightarrow> checked cs m st = (r, st') \<Longrightarrow> st' = st \<and> (\<exists>e. r = Inl e)"
  by (induction cs m rule: checked.induct) (auto simp: raise_error_def split: if_splits)

section \<open>Text\<close>

text \<open>\<open>str.strip()\<close>, with the white space of Latin-1.\<close>

definition is_space_char :: "char \<Rightarrow> bool" where
  "is_space_char c \<longleftrightarrow>
     (let n = (of_char c :: int) in (9 \<le> n \<and> n \<le> 13) \<or> (28 \<le> n \<and> n \<le> 32) \<or> n = 133 \<or> n = 160)"

definition strip_str :: "string \<Rightarrow> string" where
  "strip_str s = rev (dropWhile is_space_char (rev (dropWhile is_space_char s)))"

lemma dropWhile_fixed: "xs = [] \<or> \<not> P (hd xs) \<Longrightarrow> dropWhile P xs = xs"
  by (cases xs) auto

lemma dropWhile_rev_dropWhile:
  "dropWhile P (rev (dropWhile P (rev (dropWhile P s)))) = rev (dropWhile P (rev (dropWhile P s)))"
proof (cases "rev (dropWhile P (rev (dropWhile P s))) = []")
  case False
  let ?t = "dropWhile P s" and ?u = "dropWhile P (rev (dropWhile P s))"
  obtain p where "rev ?t = p @ ?u" by (metis takeWhile_dropWhile_id)
  then have t: "?t = rev ?u @ rev p" by (metis rev_append rev_rev_ident)
  have "hd (rev ?u @ rev p) = hd (rev ?u)" using False by (rule hd_append2)
  then have "hd ?t = hd (rev ?u)" using t by argo
  moreover have "?t \<noteq> []" using False by (cases "?t") simp_all
  ultimately have "\<not> P (hd (rev ?u))" using hd_dropWhile [of P s] by argo
  then show ?thesis by (simp add: dropWhile_fixed)
next
  case True
  then show ?thesis by (metis dropWhile.simps(1))
qed

lemma strip_str_idem [simp]: "strip_str (strip_str s) = strip_str s"
proof -
  let ?u = "dropWhile is_space_char (rev (dropWhile is_space_char s))"
  have "dropWhile is_space_char (rev ?u) = rev ?u" by (rule dropWhile_rev_dropWhile)
  moreover have "dropWhile is_space_char ?u = ?u" by simp
  ultimately show ?thesis by (simp add: strip_str_def)
qed

text \<open>\<open>re.fullmatch("[0-9]{n}", text)\<close>.\<close>

definition is_digits :: "nat \<Rightarrow> string \<Rightarrow> bool" where
  "is_digits n s \<longleftrightarrow> length s = n \<and> list_all is_digit_char s"

text \<open>\<open>int(text)\<close> of ASCII digits.\<close>

definition decimal_value :: "string \<Rightarrow> int" where
  "decimal_value s = foldl (\<lambda>n c. 10 * n + ((of_char c :: int) - 48)) 0 s"

text \<open>The library functions, as arguments of the code that uses them.\<close>

record text_library =
  tl_fromisoformat :: "string \<Rightarrow> py_datetime option"
  tl_isoformat :: "py_datetime \<Rightarrow> string"
  tl_str :: "py_value \<Rightarrow> string"
  tl_repr :: "string \<Rightarrow> string"
  tl_content_hash :: "py_value list \<Rightarrow> string"
  tl_manifest_hash :: "string list \<Rightarrow> string"

text \<open>\<open>str(value)\<close> of a string is the string.\<close>

definition str_of :: "text_library \<Rightarrow> py_value \<Rightarrow> string" where
  "str_of lib v = (case v of PyStr s \<Rightarrow> s | _ \<Rightarrow> tl_str lib v)"

end
