(* ===== verification/Evidence_Staging.thy ===== *)
theory Evidence_Staging
  imports Python_Values
begin

text \<open>
  From the result of an adapter run to a staging batch: the validation of normalized evidence
  (\<open>apps/workers/app/pipelines/validation.py\<close>), the review of the metadata that comes with it and the
  rows that are written (\<open>apps/workers/app/pipelines/staging.py\<close>), over the data types of
  \<open>apps/workers/app/adapters/contracts.py\<close>. The type checks of fields that the types fix here
  (source family and event type) always pass.
\<close>

section \<open>Adapter results\<close>

datatype source_family =
  FamilyOfficial | FamilyNews | FamilyForum | FamilySocial | FamilyUserReport | FamilyDerived

fun source_family_value :: "source_family \<Rightarrow> string" where
  "source_family_value FamilyOfficial = ''official''"
| "source_family_value FamilyNews = ''news''"
| "source_family_value FamilyForum = ''forum''"
| "source_family_value FamilySocial = ''social''"
| "source_family_value FamilyUserReport = ''user_report''"
| "source_family_value FamilyDerived = ''derived''"

datatype ingestion_status = StatusFetched | StatusNormalized | StatusRejected

datatype event_type_kind =
  EventRainfall | EventWaterLevel | EventFloodWarning | EventFloodPotential | EventFloodReport
| EventStatusOnly | EventRoadClosure | EventDiscussion

fun event_type_value :: "event_type_kind \<Rightarrow> string" where
  "event_type_value EventRainfall = ''rainfall''"
| "event_type_value EventWaterLevel = ''water_level''"
| "event_type_value EventFloodWarning = ''flood_warning''"
| "event_type_value EventFloodPotential = ''flood_potential''"
| "event_type_value EventFloodReport = ''flood_report''"
| "event_type_value EventStatusOnly = ''status_only''"
| "event_type_value EventRoadClosure = ''road_closure''"
| "event_type_value EventDiscussion = ''discussion''"

datatype snapshot_generation_mode = CompleteReplace

record raw_item =
  ri_source_id :: string
  ri_source_url :: string
  ri_fetched_at :: py_datetime
  ri_payload :: py_value
  ri_raw_snapshot_key :: "string option"

record normalized_evidence =
  ne_evidence_id :: string
  ne_adapter_key :: string
  ne_source_family :: source_family
  ne_event_type :: event_type_kind
  ne_source_id :: string
  ne_source_url :: string
  ne_source_title :: string
  ne_source_timestamp :: py_datetime
  ne_fetched_at :: py_datetime
  ne_summary :: string
  ne_location_text :: "string option"
  ne_confidence :: rat
  ne_status :: ingestion_status
  ne_attribution :: "string option"
  ne_tags :: "string list"

record station_inventory_proof =
  sp_upstream_total :: "int option"
  sp_pages_fetched :: int
  sp_pagination_complete :: bool
  sp_source_items_seen :: int
  sp_missing_station_id_count :: int
  sp_duplicate_station_id_count :: int
  sp_station_ids :: "string list"

text \<open>The checks of \<open>StationInventoryProof.__post_init__\<close>, and \<open>inventory_complete\<close>.\<close>

definition proof_admitted :: "station_inventory_proof \<Rightarrow> bool" where
  "proof_admitted p \<longleftrightarrow>
     (case sp_upstream_total p of None \<Rightarrow> True | Some n \<Rightarrow> 0 \<le> n)
     \<and> 0 \<le> sp_pages_fetched p \<and> 0 \<le> sp_source_items_seen p
     \<and> 0 \<le> sp_missing_station_id_count p \<and> 0 \<le> sp_duplicate_station_id_count p
     \<and> \<not> (sp_pagination_complete p \<and> sp_pages_fetched p = 0)
     \<and> list_all (\<lambda>i. i \<noteq> [] \<and> i = strip_str i) (sp_station_ids p)
     \<and> sp_station_ids p = sorted_list_of_set (set (sp_station_ids p))"

definition inventory_complete :: "station_inventory_proof \<Rightarrow> bool" where
  "inventory_complete p \<longleftrightarrow>
     sp_upstream_total p \<noteq> None \<and> sp_pagination_complete p \<and> sp_pages_fetched p > 0
     \<and> sp_missing_station_id_count p = 0 \<and> sp_duplicate_station_id_count p = 0
     \<and> sp_source_items_seen p = int (length (sp_station_ids p))
     \<and> Some (int (length (sp_station_ids p))) = sp_upstream_total p"

record source_rejection =
  sj_source_id :: string
  sj_reason_code :: string

text \<open>\<open>re.fullmatch("[a-z][a-z0-9_]{0,63}", reason_code)\<close>.\<close>

definition is_reason_code :: "string \<Rightarrow> bool" where
  "is_reason_code s \<longleftrightarrow>
     s \<noteq> [] \<and> is_lower_char (hd s) \<and> length s \<le> 64
     \<and> list_all (\<lambda>c. is_lower_char c \<or> is_digit_char c \<or> c = CHR ''_'') (tl s)"

definition rejection_admitted :: "source_rejection \<Rightarrow> bool" where
  "rejection_admitted r \<longleftrightarrow>
     sj_source_id r \<noteq> [] \<and> sj_source_id r = strip_str (sj_source_id r)
     \<and> length (sj_source_id r) \<le> 512 \<and> is_reason_code (sj_reason_code r)"

record adapter_run_result =
  ar_adapter_key :: string
  ar_fetched :: "raw_item list"
  ar_normalized :: "normalized_evidence list"
  ar_rejected :: "string list"
  ar_source_rejections :: "source_rejection list"
  ar_station_inventory_proof :: "station_inventory_proof option"
  ar_no_active_event :: bool

text \<open>The checks of \<open>AdapterRunResult.__post_init__\<close> and of the parts.\<close>

definition result_admitted :: "adapter_run_result \<Rightarrow> bool" where
  "result_admitted r \<longleftrightarrow>
     (let ids = map sj_source_id (ar_source_rejections r)
      in length ids \<le> 256 \<and> distinct ids \<and> set ids \<subseteq> set (ar_rejected r)
         \<and> set ids \<inter> set (map ne_source_id (ar_normalized r)) = {})
     \<and> list_all rejection_admitted (ar_source_rejections r)
     \<and> (case ar_station_inventory_proof r of None \<Rightarrow> True | Some p \<Rightarrow> proof_admitted p)"

section \<open>Validation\<close>

definition evidence_errors :: "normalized_evidence \<Rightarrow> string list" where
  "evidence_errors e =
     (if ne_evidence_id e = [] then [''missing evidence_id''] else [])
     @ (if ne_adapter_key e = [] then [''missing adapter_key''] else [])
     @ (if ne_source_id e = [] then [''missing source_id''] else [])
     @ (if ne_source_url e = [] then [''missing source_url''] else [])
     @ (if ne_source_title e = [] then [''missing source_title''] else [])
     @ (if ne_summary e = [] then [''missing summary''] else [])
     @ (if 0 \<le> ne_confidence e \<and> ne_confidence e \<le> 1 then []
        else [''confidence must be between 0.0 and 1.0''])
     @ (if ne_status e = StatusNormalized then []
        else [''status must be normalized before promotion''])"

definition validate_evidence_for_promotion ::
  "normalized_evidence list \<Rightarrow> normalized_evidence list \<times> (normalized_evidence \<times> string list) list" where
  "validate_evidence_for_promotion items =
     (filter (\<lambda>e. evidence_errors e = []) items,
      map (\<lambda>e. (e, evidence_errors e)) (filter (\<lambda>e. evidence_errors e \<noteq> []) items))"

section \<open>Metadata review\<close>

definition evidence_scopes :: "string list" where
  "evidence_scopes = [''current'', ''historical'', ''context'']"

definition location_precisions :: "string list" where
  "location_precisions =
     [''point'', ''road_or_lane'', ''poi'', ''admin_area'', ''polygon'', ''inferred'', ''map_click'',
      ''unknown'']"

definition aware_rfc3339 :: "text_library \<Rightarrow> py_value \<Rightarrow> aware_datetime option" where
  "aware_rfc3339 lib v =
     (case v of
        PyStr s \<Rightarrow>
          if strip_str s = [] then None
          else (case tl_fromisoformat lib (strip_str s) of
                  Some (Aware a) \<Rightarrow> Some a
                | _ \<Rightarrow> None)
      | _ \<Rightarrow> None)"

text \<open>A text with something in it, of bounded length once stripped.\<close>

definition bounded_text :: "nat \<Rightarrow> py_value \<Rightarrow> bool" where
  "bounded_text n v =
     (case v of PyStr s \<Rightarrow> strip_str s \<noteq> [] \<and> length (strip_str s) \<le> n | _ \<Rightarrow> False)"

definition stripped :: "py_value \<Rightarrow> string" where
  "stripped v = (case v of PyStr s \<Rightarrow> strip_str s | _ \<Rightarrow> [])"

text \<open>One reference as the triple of sender, identifier and time of sending in UTC.\<close>

definition canonical_reference :: "text_library \<Rightarrow> py_value \<Rightarrow> (string \<times> string \<times> string) option" where
  "canonical_reference lib item =
     (case item of
        PyDict d \<Rightarrow>
          if set (map fst d) = {''sender'', ''identifier'', ''sent''}
             \<and> bounded_text 512 (dict_get d ''sender'') \<and> bounded_text 512 (dict_get d ''identifier'')
          then map_option
                 (\<lambda>sent. (stripped (dict_get d ''sender''), stripped (dict_get d ''identifier''),
                          tl_isoformat lib (Aware (AwareAt (instant sent) 0))))
                 (aware_rfc3339 lib (dict_get d ''sent''))
          else None
      | _ \<Rightarrow> None)"

definition canonical_cap_references ::
  "text_library \<Rightarrow> py_value list \<Rightarrow> (string \<times> string \<times> string) list option" where
  "canonical_cap_references lib items =
     (if list_all (\<lambda>i. canonical_reference lib i \<noteq> None) items
      then Some (sorted_list_of_set (set (List.map_filter (canonical_reference lib) items)))
      else None)"

definition reference_value :: "string \<times> string \<times> string \<Rightarrow> py_value" where
  "reference_value t =
     (case t of (sender, identifier, sent) \<Rightarrow>
        PyDict [(''sender'', PyStr sender), (''identifier'', PyStr identifier),
                (''sent'', PyStr sent)])"

text \<open>A field outside its set of names is an error, unless it is missing.\<close>

definition choice_error :: "py_dict \<Rightarrow> string \<Rightarrow> string list \<Rightarrow> string \<Rightarrow> string list outcome" where
  "choice_error d key names message =
     (if dict_get d key = PyNone then Inr []
      else obind (in_strings (dict_get d key) names) (\<lambda>ok. Inr (if ok then [] else [message])))"

definition admin_errors :: "py_dict \<Rightarrow> string list" where
  "admin_errors d =
     (let admin = dict_get d ''admin_code''; profile = dict_get d ''ncdr_geocode_profile'';
          code = dict_get d ''ncdr_geocode''
      in (if admin \<noteq> PyNone
             \<and> \<not> (case admin of PyStr s \<Rightarrow> is_digits 8 s | _ \<Rightarrow> False)
          then [''admin_code must be a canonical 8-digit code''] else [])
         @ (if profile = PyNone \<and> code = PyNone then []
            else
              (if profile = PyStr ''Taiwan_Geocode_103'' then []
               else [''ncdr_geocode_profile is not reviewed''])
              @ (case code of
                   PyStr s \<Rightarrow>
                     (if is_digits 7 s then [] else [''ncdr_geocode must be a canonical 7-digit code''])
                     @ (if admin = PyStr (s @ ''0'') then []
                        else [''admin_code does not match ncdr_geocode''])
                 | _ \<Rightarrow> [''ncdr_geocode must be a canonical 7-digit code''])))"

definition list_elements :: "py_value \<Rightarrow> py_value list option" where
  "list_elements v = (case v of PyList xs \<Rightarrow> Some xs | PyTuple xs \<Rightarrow> Some xs | _ \<Rightarrow> None)"

text \<open>The loop over the limitations stops at the first value that is not a short text.\<close>

definition limitations_errors :: "py_dict \<Rightarrow> string list" where
  "limitations_errors d =
     (case dict_get d ''limitations'' of
        PyNone \<Rightarrow> []
      | v \<Rightarrow>
          (case list_elements v of
             None \<Rightarrow> [''limitations must be a list'']
           | Some values \<Rightarrow>
               (if list_all (bounded_text 256) values then []
                else [''limitations must contain 1..256 character strings''])
               @ (if length (dict_fromkeys (map stripped (takeWhile (bounded_text 256) values))) > 16
                  then [''limitations must contain at most 16 unique values''] else [])))"

definition revision_errors :: "py_dict \<Rightarrow> string list" where
  "revision_errors d =
     (if dict_get d ''dataset_revision'' = PyNone
         \<or> bounded_text 256 (dict_get d ''dataset_revision'')
      then [] else [''dataset_revision must be a 1..256 character string''])"

definition cap_keys :: "string list" where
  "cap_keys =
     [''cap_sender'', ''cap_identifier'', ''cap_sent'', ''cap_references'', ''cap_status'',
      ''cap_message_type'', ''active_from'', ''active_until'']"

definition canonical_references_of ::
  "text_library \<Rightarrow> py_dict \<Rightarrow> (string \<times> string \<times> string) list option" where
  "canonical_references_of lib d =
     (case dict_get d ''cap_references'' of
        PyList items \<Rightarrow> canonical_cap_references lib items
      | _ \<Rightarrow> None)"

definition has_earlier_reference :: "text_library \<Rightarrow> py_dict \<Rightarrow> bool" where
  "has_earlier_reference lib d =
     (case (aware_rfc3339 lib (dict_get d ''cap_sent''), canonical_references_of lib d) of
        (Some sent, Some refs) \<Rightarrow>
          list_ex (\<lambda>(_, _, s).
            case aware_rfc3339 lib (PyStr s) of
              None \<Rightarrow> False
            | Some r \<Rightarrow> instant r < instant sent) refs
      | _ \<Rightarrow> False)"

definition has_active_window :: "text_library \<Rightarrow> py_dict \<Rightarrow> bool" where
  "has_active_window lib d =
     (case (aware_rfc3339 lib (dict_get d ''active_from''),
            aware_rfc3339 lib (dict_get d ''active_until'')) of
        (Some a, Some b) \<Rightarrow> instant a < instant b
      | _ \<Rightarrow> False)"

definition lifecycle_errors ::
  "text_library \<Rightarrow> py_dict \<Rightarrow> py_datetime option \<Rightarrow> string list outcome" where
  "lifecycle_errors lib d generation =
     (let kind = dict_get d ''cap_message_type'' in
      obind (in_strings kind [''Alert'', ''Update'', ''Cancel''])
        (\<lambda>known. Inr
          ((if generation = None then [''CAP lifecycle requires an ingestion generation''] else [])
           @ (if bounded_text 512 (dict_get d ''cap_sender'') then []
              else [''cap_sender must be a 1..512 character string''])
           @ (if bounded_text 512 (dict_get d ''cap_identifier'') then []
              else [''cap_identifier must be a 1..512 character string''])
           @ (if aware_rfc3339 lib (dict_get d ''cap_sent'') = None
              then [''cap_sent must be timezone-aware RFC3339''] else [])
           @ (if dict_get d ''cap_status'' = PyStr ''Actual'' then []
              else [''cap_status must be Actual''])
           @ (if known then [] else [''cap_message_type is invalid''])
           @ (case dict_get d ''cap_references'' of
                PyList items \<Rightarrow>
                  (case canonical_cap_references lib items of
                     None \<Rightarrow> [''cap_references must contain exact canonical triples'']
                   | Some refs \<Rightarrow>
                       if length refs > 64
                       then [''cap_references must contain at most 64 unique triples''] else [])
              | _ \<Rightarrow> [''cap_references must be a list''])
           @ (if kind \<in> {PyStr ''Update'', PyStr ''Cancel''} \<and> \<not> has_earlier_reference lib d
              then [''Update and Cancel require an earlier reference''] else [])
           @ (if kind \<in> {PyStr ''Alert'', PyStr ''Update''} \<and> \<not> has_active_window lib d
              then [''Alert and Update require a valid active window''] else []))))"

definition staging_metadata_errors ::
  "text_library \<Rightarrow> raw_item option \<Rightarrow> event_type_kind \<Rightarrow> py_datetime option \<Rightarrow> string list outcome" where
  "staging_metadata_errors lib raw event generation =
     (case raw of
        None \<Rightarrow> Inr [''normalized evidence requires a matching fetched raw item'']
      | Some item \<Rightarrow>
          (case ri_payload item of
             PyDict d \<Rightarrow>
               obind (choice_error d ''evidence_scope'' evidence_scopes
                        ''evidence_scope is not reviewed'')
               (\<lambda>e1. obind (choice_error d ''location_precision'' location_precisions
                              ''location_precision is not public'')
               (\<lambda>e2.
                 let errors = e1 @ e2 @ admin_errors d @ limitations_errors d @ revision_errors d
                 in if event \<noteq> EventFloodWarning
                    then Inr (errors
                      @ (if list_ex (\<lambda>k. k \<in> set (map fst d)) cap_keys
                         then [''CAP lifecycle fields require flood_warning''] else []))
                    else obind (lifecycle_errors lib d generation) (\<lambda>e3. Inr (errors @ e3))))
           | _ \<Rightarrow> Inr [''matching fetched raw item payload must be a mapping'']))"

section \<open>Raw snapshots\<close>

record raw_snapshot =
  rw_adapter_key :: string
  rw_raw_ref :: string
  rw_content_hash :: string
  rw_fetched_at :: py_datetime
  rw_source_timestamp_min :: "py_datetime option"
  rw_source_timestamp_max :: "py_datetime option"
  rw_retention_expires_at :: py_datetime
  rw_metadata :: py_dict

fun retention_days :: "source_family \<Rightarrow> int" where
  "retention_days FamilyOfficial = 180"
| "retention_days FamilyNews = 60"
| "retention_days FamilyForum = 30"
| "retention_days FamilySocial = 30"
| "retention_days FamilyUserReport = 90"
| "retention_days FamilyDerived = 180"

text \<open>\<open>value + timedelta(...)\<close>: the wall clock moves, the offset stays.\<close>

fun plus_delta :: "py_datetime \<Rightarrow> int \<Rightarrow> py_datetime" where
  "plus_delta (Naive w) d = Naive (w + d)"
| "plus_delta (Aware a) d = Aware (AwareAt (aw_wall a + d) (aw_offset a))"

definition source_family_for_retention :: "adapter_run_result \<Rightarrow> source_family" where
  "source_family_for_retention r =
     (case remdups (map ne_source_family (ar_normalized r)) of
        [family] \<Rightarrow> family
      | _ \<Rightarrow>
          if startswith ''official.'' (ar_adapter_key r) then FamilyOfficial
          else if startswith ''news.'' (ar_adapter_key r) then FamilyNews
          else FamilyDerived)"

definition adapter_path :: "string \<Rightarrow> string" where
  "adapter_path key = map (\<lambda>c. if c = CHR ''.'' then CHR ''/'' else c) key"

definition raw_ref_of ::
  "adapter_run_result \<Rightarrow> string \<Rightarrow> snapshot_generation_mode option \<Rightarrow> string" where
  "raw_ref_of r content_hash mode =
     (if mode = Some CompleteReplace
      then ''raw/'' @ adapter_path (ar_adapter_key r) @ ''/'' @ content_hash @ ''.json''
      else
        (case remdups (filter (\<lambda>k. k \<noteq> []) (present (map ri_raw_snapshot_key (ar_fetched r)))) of
           [key] \<Rightarrow> key
         | _ \<Rightarrow> ''raw/'' @ adapter_path (ar_adapter_key r) @ ''/'' @ take 16 content_hash @ ''.json''))"

definition option_int :: "int option \<Rightarrow> py_value" where
  "option_int n = (case n of None \<Rightarrow> PyNone | Some k \<Rightarrow> PyInt k)"

definition public_summary :: "text_library \<Rightarrow> station_inventory_proof \<Rightarrow> py_dict" where
  "public_summary lib p =
     [(''upstream_total'', option_int (sp_upstream_total p)),
      (''pages_fetched'', PyInt (sp_pages_fetched p)),
      (''pagination_complete'', PyBool (sp_pagination_complete p)),
      (''source_items_seen'', PyInt (sp_source_items_seen p)),
      (''station_ids_seen'', PyInt (int (length (sp_station_ids p)))),
      (''missing_station_id_count'', PyInt (sp_missing_station_id_count p)),
      (''duplicate_station_id_count'', PyInt (sp_duplicate_station_id_count p)),
      (''manifest_version'', PyStr ''station-id-json-v1''),
      (''manifest_sha256'', PyStr (tl_manifest_hash lib (sp_station_ids p))),
      (''inventory_complete'', PyBool (inventory_complete p))]"

definition mode_entry :: "snapshot_generation_mode option \<Rightarrow> py_dict" where
  "mode_entry mode =
     (case mode of
        None \<Rightarrow> []
      | Some CompleteReplace \<Rightarrow> [(''snapshot_generation_mode'', PyStr ''complete_replace'')])"

definition snapshot_metadata ::
  "text_library \<Rightarrow> adapter_run_result \<Rightarrow> snapshot_generation_mode option \<Rightarrow> py_dict" where
  "snapshot_metadata lib r mode =
     [(''items_fetched'', PyInt (int (length (ar_fetched r)))),
      (''items_normalized'', PyInt (int (length (ar_normalized r)))),
      (''items_rejected'', PyInt (int (length (ar_rejected r)))),
      (''source_rejection_count'', PyInt (int (length (ar_source_rejections r)))),
      (''source_rejections'', PyList (map
         (\<lambda>j. PyDict [(''source_id'', PyStr (sj_source_id j)),
                        (''reason_code'', PyStr (sj_reason_code j))])
         (sort_key sj_source_id (ar_source_rejections r)))),
      (''retention_source_family'',
         PyStr (source_family_value (source_family_for_retention r)))]
     @ mode_entry mode
     @ (case ar_station_inventory_proof r of None \<Rightarrow> [] | Some p \<Rightarrow> public_summary lib p)"

text \<open>Least and greatest of the timestamps, if there are any.\<close>

definition extremes ::
  "py_datetime list \<Rightarrow> (py_datetime option \<times> py_datetime option) outcome" where
  "extremes ts =
     (case ts of
        [] \<Rightarrow> Inr (None, None)
      | t # ts' \<Rightarrow>
          obind (min_datetime t ts') (\<lambda>a. obind (max_datetime t ts') (\<lambda>b. Inr (Some a, Some b))))"

definition build_raw_snapshot ::
  "text_library \<Rightarrow> adapter_run_result \<Rightarrow> string option \<Rightarrow> snapshot_generation_mode option
    \<Rightarrow> raw_snapshot outcome" where
  "build_raw_snapshot lib r raw_ref mode =
     (case map ri_fetched_at (ar_fetched r) of
        [] \<Rightarrow> Inl (value_error
          ''adapter run must include at least one fetched raw item before raw snapshot'')
      | f # fs \<Rightarrow>
          (let content_hash = tl_content_hash lib (map ri_payload (ar_fetched r)) in
           obind (max_datetime f fs) (\<lambda>fetched_at.
           obind (extremes (map ne_source_timestamp (ar_normalized r))) (\<lambda>(oldest, newest).
             Inr \<lparr> rw_adapter_key = ar_adapter_key r,
                   rw_raw_ref =
                     (if mode = Some CompleteReplace then raw_ref_of r content_hash mode
                      else case or_str raw_ref None of
                             Some given \<Rightarrow> given
                           | None \<Rightarrow> raw_ref_of r content_hash None),
                   rw_content_hash = content_hash,
                   rw_fetched_at = fetched_at,
                   rw_source_timestamp_min = oldest,
                   rw_source_timestamp_max = newest,
                   rw_retention_expires_at =
                     plus_delta fetched_at (days (retention_days (source_family_for_retention r))),
                   rw_metadata = snapshot_metadata lib r mode \<rparr>))))"

section \<open>Staging rows\<close>

datatype validation_status = ValidationAccepted | ValidationRejected

record staging_row =
  sg_raw_ref :: string
  sg_evidence_id :: string
  sg_adapter_key :: string
  sg_source_id :: string
  sg_source_type :: string
  sg_event_type :: string
  sg_title :: string
  sg_summary :: string
  sg_url :: string
  sg_occurred_at :: py_datetime
  sg_observed_at :: py_datetime
  sg_confidence :: rat
  sg_validation_status :: validation_status
  sg_rejection_reason :: "string option"
  sg_payload :: py_dict

record staging_batch =
  sb_adapter_key :: string
  sb_raw_snapshot :: raw_snapshot
  sb_accepted :: "staging_row list"
  sb_rejected :: "staging_row list"
  sb_rejected_raw_source_ids :: "string list"

definition realtime_metric_keys :: "string list" where
  "realtime_metric_keys =
     [''rainfall_mm'', ''rainfall_mm_10m'', ''rainfall_mm_1h'', ''rainfall_mm_3h'', ''rainfall_mm_6h'',
      ''rainfall_mm_12h'', ''rainfall_mm_24h'', ''flood_depth_cm'', ''water_level_m'',
      ''warning_level_m'']"

definition passthrough_keys :: "string list" where
  "passthrough_keys =
     [''station_id'', ''station_name'', ''authority'', ''station_type'', ''station_attribute'',
      ''realtime_station_enabled'', ''metadata_station_enabled'', ''alarm_state'', ''status_only'',
      ''source_url'', ''resource_url'', ''station_metadata_url'', ''source_weight'', ''county'', ''town'',
      ''area'', ''tide_level_label'', ''county_code'', ''area_code'', ''areaDesc'', ''identifier'',
      ''effective'', ''expires'', ''expired'', ''severity'', ''certainty'', ''urgency'',
      ''evidence_scope'', ''location_precision'', ''context_kind'', ''verification_status'',
      ''incident_state'', ''upstream_updated_at'', ''warning_kind'', ''network_link_source_url'',
      ''limitations'', ''admin_code'', ''ncdr_geocode_profile'', ''ncdr_geocode_name'',
      ''ncdr_geocode'', ''dataset_revision'']"

definition payload_of :: "raw_item option \<Rightarrow> py_dict option" where
  "payload_of raw =
     (case raw of
        None \<Rightarrow> None
      | Some item \<Rightarrow> (case ri_payload item of PyDict d \<Rightarrow> Some d | _ \<Rightarrow> None))"

definition metric_entry :: "py_dict \<Rightarrow> string \<Rightarrow> (string \<times> py_value) option" where
  "metric_entry d key =
     (case dict_get d key of
        PyInt n \<Rightarrow> Some (key, PyFloat (of_int n))
      | PyFloat x \<Rightarrow> Some (key, PyFloat x)
      | _ \<Rightarrow> None)"

definition realtime_metrics_payload :: "raw_item option \<Rightarrow> py_dict" where
  "realtime_metrics_payload raw =
     (case payload_of raw of
        None \<Rightarrow> []
      | Some d \<Rightarrow> List.map_filter (metric_entry d) realtime_metric_keys)"

definition kept_entry :: "(py_value \<Rightarrow> py_value) \<Rightarrow> py_dict \<Rightarrow> string \<Rightarrow> (string \<times> py_value) option" where
  "kept_entry f d key = (if dict_get d key = PyNone then None else Some (key, f (dict_get d key)))"

definition strip_value :: "py_value \<Rightarrow> py_value" where
  "strip_value v = (case v of PyStr s \<Rightarrow> PyStr (strip_str s) | _ \<Rightarrow> v)"

definition retained_limitations :: "text_library \<Rightarrow> py_value list \<Rightarrow> py_value" where
  "retained_limitations lib values =
     PyList (map PyStr (dict_fromkeys
       (filter (\<lambda>t. t \<noteq> []) (map (\<lambda>v. strip_str (str_of lib v)) values))))"

definition lifecycle_text_keys :: "string list" where
  "lifecycle_text_keys =
     [''cap_sender'', ''cap_identifier'', ''cap_sent'', ''cap_status'', ''cap_message_type'',
      ''active_from'', ''active_until'']"

definition lifecycle_payload :: "text_library \<Rightarrow> py_dict \<Rightarrow> py_dict" where
  "lifecycle_payload lib d =
     List.map_filter (kept_entry strip_value d) lifecycle_text_keys
     @ (case canonical_references_of lib d of
          None \<Rightarrow> []
        | Some refs \<Rightarrow> [(''cap_references'', PyList (map reference_value refs))])"

definition passthrough_payload :: "text_library \<Rightarrow> raw_item option \<Rightarrow> event_type_kind \<Rightarrow> py_dict" where
  "passthrough_payload lib raw event =
     (case payload_of raw of
        None \<Rightarrow> []
      | Some d \<Rightarrow>
          let kept = List.map_filter (kept_entry id d) passthrough_keys;
              kept = (case list_elements (dict_get d ''limitations'') of
                        None \<Rightarrow> kept
                      | Some values \<Rightarrow>
                          AList.update ''limitations'' (retained_limitations lib values) kept);
              kept = (case dict_get d ''dataset_revision'' of
                        PyStr s \<Rightarrow>
                          if strip_str s = [] then kept
                          else AList.update ''dataset_revision'' (PyStr (strip_str s)) kept
                      | _ \<Rightarrow> kept)
          in if event = EventFloodWarning then dict_merge kept (lifecycle_payload lib d) else kept)"

definition location_payload :: "raw_item option \<Rightarrow> py_dict" where
  "location_payload raw =
     (case payload_of raw of
        None \<Rightarrow> []
      | Some d \<Rightarrow>
          let parts = List.map_filter
                (\<lambda>k. case dict_get d k of PyDict m \<Rightarrow> Some (k, PyDict m) | _ \<Rightarrow> None)
                [''geometry'', ''query_place'']
          in if parts = [] then [] else [(''location_payload'', PyDict parts)])"

definition option_str :: "string option \<Rightarrow> py_value" where
  "option_str s = (case s of None \<Rightarrow> PyNone | Some t \<Rightarrow> PyStr t)"

definition to_staging_row ::
  "text_library \<Rightarrow> normalized_evidence \<Rightarrow> string \<Rightarrow> validation_status \<Rightarrow> string option \<Rightarrow> raw_item option
    \<Rightarrow> py_datetime option \<Rightarrow> snapshot_generation_mode option \<Rightarrow> staging_row" where
  "to_staging_row lib e raw_ref status reason raw generation mode =
     \<lparr> sg_raw_ref = raw_ref, sg_evidence_id = ne_evidence_id e, sg_adapter_key = ne_adapter_key e,
       sg_source_id = ne_source_id e, sg_source_type = source_family_value (ne_source_family e),
       sg_event_type = event_type_value (ne_event_type e), sg_title = ne_source_title e,
       sg_summary = ne_summary e, sg_url = ne_source_url e,
       sg_occurred_at = ne_source_timestamp e, sg_observed_at = ne_source_timestamp e,
       sg_confidence = ne_confidence e, sg_validation_status = status,
       sg_rejection_reason = reason,
       sg_payload = fold (\<lambda>part d. dict_merge d part)
         [location_payload raw, realtime_metrics_payload raw,
          passthrough_payload lib raw (ne_event_type e),
          (case generation of
             None \<Rightarrow> []
           | Some g \<Rightarrow> [(''ingestion_generation_started_at'', PyStr (tl_isoformat lib g))]),
          mode_entry mode,
          [(''attribution'', option_str (ne_attribution e)),
           (''tags'', PyList (map PyStr (ne_tags e)))]]
         [(''location_text'', option_str (ne_location_text e))] \<rparr>"

text \<open>The last fetched item with a source identifier is the one that counts.\<close>

definition raw_item_of :: "adapter_run_result \<Rightarrow> string \<Rightarrow> raw_item option" where
  "raw_item_of r source_id = map_of (rev (map (\<lambda>i. (ri_source_id i, i)) (ar_fetched r))) source_id"

definition reviewed_row ::
  "text_library \<Rightarrow> adapter_run_result \<Rightarrow> string \<Rightarrow> py_datetime option \<Rightarrow> snapshot_generation_mode option
    \<Rightarrow> normalized_evidence \<Rightarrow> staging_row outcome" where
  "reviewed_row lib r raw_ref generation mode e =
     (let raw = raw_item_of r (ne_source_id e) in
      obind (staging_metadata_errors lib raw (ne_event_type e) generation)
        (\<lambda>errors. Inr
          (if errors = []
           then to_staging_row lib e raw_ref ValidationAccepted None raw generation mode
           else to_staging_row lib e raw_ref ValidationRejected
                  (Some (''invalid staging metadata: '' @ join_with ''; '' errors)) raw None mode)))"

definition is_accepted :: "staging_row \<Rightarrow> bool" where
  "is_accepted row \<longleftrightarrow> sg_validation_status row = ValidationAccepted"

definition build_staging_batch ::
  "text_library \<Rightarrow> adapter_run_result \<Rightarrow> string option \<Rightarrow> py_datetime option
    \<Rightarrow> snapshot_generation_mode option \<Rightarrow> staging_batch outcome" where
  "build_staging_batch lib r raw_ref generation mode =
     (if ar_fetched r = []
      then Inl (value_error
        ''adapter run must include at least one fetched raw item before staging'')
      else if (case generation of None \<Rightarrow> False | Some g \<Rightarrow> \<not> is_aware g)
      then Inl (value_error ''ingestion generation must be timezone-aware'')
      else
        (case validate_evidence_for_promotion (ar_normalized r) of (valid, invalid) \<Rightarrow>
           obind (build_raw_snapshot lib r raw_ref mode) (\<lambda>snapshot.
           obind (otraverse (reviewed_row lib r (rw_raw_ref snapshot) generation mode) valid) (\<lambda>rows.
             Inr \<lparr> sb_adapter_key = ar_adapter_key r,
                   sb_raw_snapshot = snapshot,
                   sb_accepted = filter is_accepted rows,
                   sb_rejected = filter (\<lambda>row. \<not> is_accepted row) rows
                     @ map (\<lambda>(e, errors).
                         to_staging_row lib e (rw_raw_ref snapshot) ValidationRejected
                           (Some (join_with ''; '' errors)) (raw_item_of r (ne_source_id e)) None mode)
                         invalid,
                   sb_rejected_raw_source_ids = ar_rejected r \<rparr>))))"

section \<open>Properties of staging\<close>

lemma choice_error_none:
  "choice_error d key names message = Inr [] \<longleftrightarrow>
   dict_get d key \<in> insert PyNone (PyStr ` set names)"
  by (auto simp: choice_error_def obind_Inr_iff in_strings_True split: if_splits)

lemma evidence_errors_none:
  "evidence_errors e = [] \<longleftrightarrow>
   ne_evidence_id e \<noteq> [] \<and> ne_adapter_key e \<noteq> [] \<and> ne_source_id e \<noteq> [] \<and> ne_source_url e \<noteq> []
   \<and> ne_source_title e \<noteq> [] \<and> ne_summary e \<noteq> [] \<and> 0 \<le> ne_confidence e \<and> ne_confidence e \<le> 1
   \<and> ne_status e = StatusNormalized"
  by (auto simp: evidence_errors_def)

lemma lifecycle_errors_none:
  assumes "lifecycle_errors lib d gen = Inr []"
  shows "gen \<noteq> None \<and> bounded_text 512 (dict_get d ''cap_sender'')
    \<and> bounded_text 512 (dict_get d ''cap_identifier'')
    \<and> aware_rfc3339 lib (dict_get d ''cap_sent'') \<noteq> None
    \<and> dict_get d ''cap_status'' = PyStr ''Actual''
    \<and> dict_get d ''cap_message_type'' \<in> PyStr ` {''Alert'', ''Update'', ''Cancel''}
    \<and> (\<exists>refs. canonical_references_of lib d = Some refs \<and> length refs \<le> 64)
    \<and> (dict_get d ''cap_message_type'' \<in> PyStr ` {''Update'', ''Cancel''} \<longrightarrow> has_earlier_reference lib d)
    \<and> (dict_get d ''cap_message_type'' \<in> PyStr ` {''Alert'', ''Update''} \<longrightarrow> has_active_window lib d)"
  using assms in_strings_True [of "dict_get d ''cap_message_type''" "[''Alert'', ''Update'', ''Cancel'']"]
  by (auto simp: lifecycle_errors_def Let_def obind_Inr_iff canonical_references_of_def
      split: if_splits py_value.splits option.splits)

lemma admin_errors_none:
  assumes "admin_errors d = []"
  shows "dict_get d ''admin_code'' = PyNone \<or> (\<exists>c. dict_get d ''admin_code'' = PyStr c \<and> is_digits 8 c)"
    and "dict_get d ''ncdr_geocode_profile'' = PyNone \<and> dict_get d ''ncdr_geocode'' = PyNone
      \<or> (\<exists>c. dict_get d ''ncdr_geocode_profile'' = PyStr ''Taiwan_Geocode_103''
           \<and> dict_get d ''ncdr_geocode'' = PyStr c \<and> is_digits 7 c
           \<and> dict_get d ''admin_code'' = PyStr (c @ ''0''))"
proof -
  from assms have "dict_get d ''admin_code'' = PyNone
      \<or> (case dict_get d ''admin_code'' of PyStr s \<Rightarrow> is_digits 8 s | _ \<Rightarrow> False)"
    by (simp add: admin_errors_def Let_def split: if_splits)
  then show "dict_get d ''admin_code'' = PyNone \<or> (\<exists>c. dict_get d ''admin_code'' = PyStr c \<and> is_digits 8 c)"
    by (cases "dict_get d ''admin_code''") simp_all
next
  show "dict_get d ''ncdr_geocode_profile'' = PyNone \<and> dict_get d ''ncdr_geocode'' = PyNone
      \<or> (\<exists>c. dict_get d ''ncdr_geocode_profile'' = PyStr ''Taiwan_Geocode_103''
           \<and> dict_get d ''ncdr_geocode'' = PyStr c \<and> is_digits 7 c
           \<and> dict_get d ''admin_code'' = PyStr (c @ ''0''))"
    using assms by (cases "dict_get d ''ncdr_geocode''") (simp_all add: admin_errors_def Let_def split: if_splits)
qed

lemma limitations_errors_none:
  assumes "limitations_errors d = []"
  shows "dict_get d ''limitations'' = PyNone
    \<or> (\<exists>xs. list_elements (dict_get d ''limitations'') = Some xs
         \<and> list_all (bounded_text 256) xs \<and> card (stripped ` set xs) \<le> 16)"
proof (cases "dict_get d ''limitations'' = PyNone")
  case False
  with assms obtain xs where xs: "list_elements (dict_get d ''limitations'') = Some xs"
    "list_all (bounded_text 256) xs"
    and few: "length (dict_fromkeys (map stripped (takeWhile (bounded_text 256) xs))) \<le> 16"
    by (auto simp: limitations_errors_def split: py_value.splits option.splits if_splits)
  have all: "takeWhile (bounded_text 256) xs = xs"
    using xs(2) by (simp add: takeWhile_eq_all_conv list_all_iff)
  have "card (stripped ` set xs) \<le> 16"
    using few [unfolded all] card_length [of "dict_fromkeys (map stripped xs)"] by simp
  with xs show ?thesis by blast
qed simp

lemma revision_errors_none:
  "revision_errors d = [] \<Longrightarrow>
   dict_get d ''dataset_revision'' = PyNone \<or> bounded_text 256 (dict_get d ''dataset_revision'')"
  by (simp add: revision_errors_def split: if_splits)

lemma staging_metadata_errors_none:
  assumes "staging_metadata_errors lib raw event gen = Inr []"
  obtains d where "payload_of raw = Some d"
    "dict_get d ''evidence_scope'' \<in> insert PyNone (PyStr ` set evidence_scopes)"
    "dict_get d ''location_precision'' \<in> insert PyNone (PyStr ` set location_precisions)"
    "admin_errors d = []" "limitations_errors d = []" "revision_errors d = []"
    "event \<noteq> EventFloodWarning \<Longrightarrow> set (map fst d) \<inter> set cap_keys = {}"
    "event = EventFloodWarning \<Longrightarrow> lifecycle_errors lib d gen = Inr []"
proof -
  from assms obtain item d where raw: "raw = Some item" "ri_payload item = PyDict d"
    by (auto simp: staging_metadata_errors_def split: option.splits py_value.splits)
  from assms have
    "choice_error d ''evidence_scope'' evidence_scopes ''evidence_scope is not reviewed'' = Inr []"
    "choice_error d ''location_precision'' location_precisions ''location_precision is not public'' = Inr []"
    "admin_errors d = []" "limitations_errors d = []" "revision_errors d = []"
    "event \<noteq> EventFloodWarning \<longrightarrow> \<not> list_ex (\<lambda>k. k \<in> set (map fst d)) cap_keys"
    "event = EventFloodWarning \<longrightarrow> lifecycle_errors lib d gen = Inr []"
    by (auto simp: staging_metadata_errors_def raw obind_Inr_iff Let_def split: if_splits)
  then show thesis
    by (intro that [of d]) (auto simp: raw payload_of_def choice_error_none list_ex_iff)
qed

lemma dict_get_kept:
  "dict_get (List.map_filter (kept_entry f d) keys) k =
   (if k \<in> set keys \<and> dict_get d k \<noteq> PyNone then f (dict_get d k) else PyNone)"
  by (induction keys) (auto simp: map_filter_Cons' kept_entry_def List.map_filter_simps split: option.splits)

lemma kept_keys: "fst ` set (List.map_filter (kept_entry f d) keys) \<subseteq> set keys"
  by (auto simp: set_map_filter kept_entry_def split: if_splits)

lemma lifecycle_text_keys_cap: "set lifecycle_text_keys \<subseteq> set cap_keys"
  by code_simp

lemma lifecycle_payload_keys: "fst ` set (lifecycle_payload lib d) \<subseteq> set cap_keys"
proof -
  have 1: "fst ` set (List.map_filter (kept_entry strip_value d) lifecycle_text_keys) \<subseteq> set cap_keys"
    by (rule order_trans [OF kept_keys lifecycle_text_keys_cap])
  have 2: "''cap_references'' \<in> set cap_keys" by code_simp
  show ?thesis
    unfolding lifecycle_payload_def set_append image_Un
    using 1 2 by (cases "canonical_references_of lib d") auto
qed

lemma metric_entry_key: "metric_entry d k = Some x \<Longrightarrow> fst x = k"
  by (cases "dict_get d k") (auto simp: metric_entry_def)

lemma realtime_metrics_keys: "fst ` set (realtime_metrics_payload raw) \<subseteq> set realtime_metric_keys"
  by (cases "payload_of raw") (auto simp: realtime_metrics_payload_def set_map_filter dest: metric_entry_key)

lemma location_payload_keys: "fst ` set (location_payload raw) \<subseteq> {''location_payload''}"
  by (auto simp: location_payload_def Let_def split: option.splits if_splits)

lemma passthrough_get:
  assumes "payload_of raw = Some d" and "k \<in> set passthrough_keys" and "k \<notin> set cap_keys"
    and "k \<noteq> ''limitations''" and "k \<noteq> ''dataset_revision''"
  shows "dict_get (passthrough_payload lib raw event) k = dict_get d k"
proof -
  have "k \<notin> fst ` set (lifecycle_payload lib d)" using lifecycle_payload_keys assms(3) by blast
  then show ?thesis using assms
    by (auto simp: passthrough_payload_def Let_def dict_get_merge_other dict_get_kept
        split: option.splits py_value.splits)
qed



lemma distinct_kept: "distinct keys \<Longrightarrow> distinct (map fst (List.map_filter (kept_entry f d) keys))"
proof (induction keys)
  case (Cons k keys)
  show ?case
  proof (cases "kept_entry f d k")
    case (Some x)
    then have "fst x = k" by (auto simp: kept_entry_def split: if_splits)
    then show ?thesis using Cons kept_keys [of f d keys] Some by (auto simp: map_filter_Cons')
  qed (use Cons in \<open>simp add: map_filter_Cons'\<close>)
qed (simp add: List.map_filter_simps)

lemma distinct_passthrough: "distinct (map fst (passthrough_payload lib raw event))"
proof -
  have "distinct passthrough_keys" by code_simp
  then show ?thesis
    by (auto simp: passthrough_payload_def Let_def distinct_update distinct_kept distinct_dict_merge
        split: option.splits py_value.splits)
qed

lemma staging_row_payload_get:
  assumes d: "payload_of raw = Some d" and "k \<in> {''evidence_scope'', ''location_precision''}"
  shows "dict_get (sg_payload (to_staging_row lib e ref st re raw gen mode)) k = dict_get d k"
proof -
  have k: "k \<in> set passthrough_keys" "k \<notin> set cap_keys" "k \<noteq> ''limitations''"
    "k \<noteq> ''dataset_revision''" "k \<notin> set realtime_metric_keys" "k \<noteq> ''location_payload''"
    "k \<noteq> ''attribution''" "k \<noteq> ''tags''" "k \<noteq> ''location_text''"
    "k \<noteq> ''ingestion_generation_started_at''" "k \<noteq> ''snapshot_generation_mode''"
    using assms(2) by (auto simp: passthrough_keys_def cap_keys_def realtime_metric_keys_def)
  let ?p = "passthrough_payload lib raw (ne_event_type e)"
  let ?x = "dict_merge (dict_merge [(''location_text'', option_str (ne_location_text e))]
      (location_payload raw)) (realtime_metrics_payload raw)"
  have "k \<notin> fst ` set (location_payload raw)" "k \<notin> fst ` set (realtime_metrics_payload raw)"
    using location_payload_keys realtime_metrics_keys k by blast+
  then have x: "dict_get ?x k = PyNone" using k by (simp add: dict_get_merge_other)
  have p: "dict_get ?p k = dict_get d k" by (rule passthrough_get [OF d k(1-4)])
  have "dict_get (dict_merge ?x ?p) k = dict_get d k"
  proof (cases "map_of ?p k")
    case None
    then have "dict_get d k = PyNone" using p by (simp add: dict_get_def)
    with None x show ?thesis by (simp only: dict_get_merge [OF distinct_passthrough] option.case)
  next
    case (Some v)
    then have "dict_get d k = v" using p by (simp add: dict_get_def)
    with Some show ?thesis by (simp only: dict_get_merge [OF distinct_passthrough] option.case)
  qed
  then show ?thesis
    by (simp add: to_staging_row_def dict_get_merge_other k mode_entry_def split: option.splits snapshot_generation_mode.splits)
qed

lemma to_staging_row_simps [simp]:
  "sg_evidence_id (to_staging_row lib e ref st re raw g m) = ne_evidence_id e"
  "sg_raw_ref (to_staging_row lib e ref st re raw g m) = ref"
  "sg_validation_status (to_staging_row lib e ref st re raw g m) = st"
  "sg_rejection_reason (to_staging_row lib e ref st re raw g m) = re"
  "sg_source_id (to_staging_row lib e ref st re raw g m) = ne_source_id e"
  "sg_adapter_key (to_staging_row lib e ref st re raw g m) = ne_adapter_key e"
  by (simp_all add: to_staging_row_def)

lemma build_staging_batch_Inr:
  assumes "build_staging_batch lib r ref gen mode = Inr b"
  obtains snap rows where
    "build_raw_snapshot lib r ref mode = Inr snap"
    "list_all2 (\<lambda>e row. reviewed_row lib r (rw_raw_ref snap) gen mode e = Inr row)
       (filter (\<lambda>e. evidence_errors e = []) (ar_normalized r)) rows"
    "ar_fetched r \<noteq> []"
    "sb_adapter_key b = ar_adapter_key r" "sb_raw_snapshot b = snap"
    "sb_accepted b = filter is_accepted rows"
    "sb_rejected b = filter (\<lambda>row. \<not> is_accepted row) rows
       @ map (\<lambda>e. to_staging_row lib e (rw_raw_ref snap) ValidationRejected
                 (Some (join_with ''; '' (evidence_errors e))) (raw_item_of r (ne_source_id e)) None mode)
           (filter (\<lambda>e. evidence_errors e \<noteq> []) (ar_normalized r))"
    "sb_rejected_raw_source_ids b = ar_rejected r"
proof -
  from assms obtain snap rows where
    1: "build_raw_snapshot lib r ref mode = Inr snap"
    and 2: "otraverse (reviewed_row lib r (rw_raw_ref snap) gen mode)
       (filter (\<lambda>e. evidence_errors e = []) (ar_normalized r)) = Inr rows"
    and 3: "ar_fetched r \<noteq> []"
    and 4: "b = \<lparr> sb_adapter_key = ar_adapter_key r, sb_raw_snapshot = snap,
       sb_accepted = filter is_accepted rows,
       sb_rejected = filter (\<lambda>row. \<not> is_accepted row) rows
       @ map (\<lambda>e. to_staging_row lib e (rw_raw_ref snap) ValidationRejected
                 (Some (join_with ''; '' (evidence_errors e))) (raw_item_of r (ne_source_id e)) None mode)
           (filter (\<lambda>e. evidence_errors e \<noteq> []) (ar_normalized r)),
       sb_rejected_raw_source_ids = ar_rejected r \<rparr>"
    by (auto simp: build_staging_batch_def validate_evidence_for_promotion_def obind_Inr_iff
        split: if_splits simp: comp_def)
  show thesis by (rule that [OF 1 2 [unfolded otraverse_Inr_iff] 3]) (simp_all add: 4)
qed

lemma reviewed_row_Inr:
  assumes "reviewed_row lib r ref gen mode e = Inr row"
  obtains errors where
    "staging_metadata_errors lib (raw_item_of r (ne_source_id e)) (ne_event_type e) gen = Inr errors"
    "row = (if errors = []
      then to_staging_row lib e ref ValidationAccepted None (raw_item_of r (ne_source_id e)) gen mode
      else to_staging_row lib e ref ValidationRejected
        (Some (''invalid staging metadata: '' @ join_with ''; '' errors))
        (raw_item_of r (ne_source_id e)) None mode)"
  using assms by (auto simp: reviewed_row_def Let_def obind_Inr_iff)

lemma reviewed_rows_ids:
  "list_all2 (\<lambda>e row. reviewed_row lib r ref gen mode e = Inr row) es rows \<Longrightarrow>
   map sg_evidence_id rows = map ne_evidence_id es"
  by (induction rule: list_all2_induct) (auto elim!: reviewed_row_Inr)

lemma reviewed_row_facts:
  "reviewed_row lib r ref gen mode e = Inr row \<Longrightarrow>
   sg_raw_ref row = ref \<and> (is_accepted row \<longleftrightarrow> sg_rejection_reason row = None)"
  by (auto simp: is_accepted_def elim!: reviewed_row_Inr split: if_splits)

lemma staging_ids:
  assumes "build_staging_batch lib r ref gen mode = Inr b"
  shows "mset (map sg_evidence_id (sb_accepted b @ sb_rejected b)) = mset (map ne_evidence_id (ar_normalized r))"
proof -
  obtain snap rows where s: "list_all2 (\<lambda>e row. reviewed_row lib r (rw_raw_ref snap) gen mode e = Inr row)
       (filter (\<lambda>e. evidence_errors e = []) (ar_normalized r)) rows" (is "list_all2 _ ?valid rows")
    and b: "sb_raw_snapshot b = snap" "sb_accepted b = filter is_accepted rows"
    "sb_rejected b = filter (\<lambda>row. \<not> is_accepted row) rows
       @ map (\<lambda>e. to_staging_row lib e (rw_raw_ref snap) ValidationRejected
                 (Some (join_with ''; '' (evidence_errors e))) (raw_item_of r (ne_source_id e)) None mode)
           (filter (\<lambda>e. evidence_errors e \<noteq> []) (ar_normalized r))"
    by (rule build_staging_batch_Inr [OF assms])
  have "mset (map sg_evidence_id rows) = mset (map ne_evidence_id ?valid)"
    by (simp only: reviewed_rows_ids [OF s])
  then have valid: "image_mset sg_evidence_id (mset rows) = image_mset ne_evidence_id (mset ?valid)"
    by (simp only: mset_map)
  have "mset (map sg_evidence_id (sb_accepted b @ sb_rejected b)) =
      image_mset sg_evidence_id (mset rows)
      + mset (map ne_evidence_id (filter (\<lambda>e. evidence_errors e \<noteq> []) (ar_normalized r)))"
    unfolding mset_filter_split [of is_accepted rows, symmetric] image_mset_union
    by (simp add: b comp_def)
  also have "\<dots> = mset (map ne_evidence_id ?valid)
      + mset (map ne_evidence_id (filter (\<lambda>e. evidence_errors e \<noteq> []) (ar_normalized r)))"
    by (simp only: valid mset_map)
  also have "\<dots> = mset (map ne_evidence_id (ar_normalized r))"
    using mset_filter_split [of "\<lambda>e. evidence_errors e = []" "ar_normalized r"]
    by (metis image_mset_union mset_map)
  finally show ?thesis .
qed

text \<open>
  Every normalized item of a run ends in exactly one row of its staging batch, accepted or rejected;
  all rows point to the raw snapshot of the batch, and a row is rejected exactly if it says why.
\<close>

theorem staging_partitions_evidence:
  assumes "build_staging_batch lib r ref gen mode = Inr b"
  shows "mset (map sg_evidence_id (sb_accepted b @ sb_rejected b)) = mset (map ne_evidence_id (ar_normalized r))
    \<and> (\<forall>row\<in>set (sb_accepted b @ sb_rejected b). sg_raw_ref row = rw_raw_ref (sb_raw_snapshot b))
    \<and> (\<forall>row\<in>set (sb_accepted b). sg_rejection_reason row = None)
    \<and> (\<forall>row\<in>set (sb_rejected b). sg_rejection_reason row \<noteq> None)"
proof -
  obtain snap rows where s: "list_all2 (\<lambda>e row. reviewed_row lib r (rw_raw_ref snap) gen mode e = Inr row)
       (filter (\<lambda>e. evidence_errors e = []) (ar_normalized r)) rows" (is "list_all2 _ ?valid rows")
    and b: "sb_raw_snapshot b = snap" "sb_accepted b = filter is_accepted rows"
    "sb_rejected b = filter (\<lambda>row. \<not> is_accepted row) rows
       @ map (\<lambda>e. to_staging_row lib e (rw_raw_ref snap) ValidationRejected
                 (Some (join_with ''; '' (evidence_errors e))) (raw_item_of r (ne_source_id e)) None mode)
           (filter (\<lambda>e. evidence_errors e \<noteq> []) (ar_normalized r))"
    by (rule build_staging_batch_Inr [OF assms])
  have f: "sg_raw_ref row = rw_raw_ref snap \<and> (is_accepted row \<longleftrightarrow> sg_rejection_reason row = None)"
    if "row \<in> set rows" for row
    using list_all2_mem2 [OF s that] reviewed_row_facts by blast
  moreover have "sg_raw_ref row = rw_raw_ref snap \<and> sg_rejection_reason row \<noteq> None"
    if "row \<in> set (sb_rejected b)" for row
    using that f unfolding b(3) set_append set_map set_filter Un_iff by (elim disjE) auto
  ultimately show ?thesis using staging_ids [OF assms] by (simp only: b(1,2) set_append set_filter) blast
qed

text \<open>
  C12. A row that staging accepts is backed by a fetched item with the same source identifier, by complete
  evidence with a confidence between 0 and 1, and by reviewed metadata. Of the item's payload: the
  evidence scope and the location precision are missing or from the public lists (and so they are in
  the row); the administrative code is missing or of 8 digits; where a profile or a code of NCDR is
  given, the profile is the reviewed one and the code is of 7 digits and is the administrative code
  up to its final 0; the limitations are missing or a list of texts of 1 to 256 characters, at most 16
  of them different; the revision of the data set is missing or of 1 to 256 characters. Evidence of
  any other event has none of the lifecycle fields of a warning. A flood warning has the whole of
  them, and a generation of the ingestion: a sender and an identifier of 1 to 512 characters, a time
  of sending with an offset, the status of an actual message, one of the three message types, and at
  most 64 references, of which an update or a cancel has one sent earlier; and an alert or an update
  has a window that ends after it starts.
\<close>

theorem accepted_rows_are_reviewed:
  assumes "build_staging_batch lib r ref gen mode = Inr b" and "row \<in> set (sb_accepted b)"
  shows "\<exists>e\<in>set (ar_normalized r). \<exists>item\<in>set (ar_fetched r). \<exists>d.
      sg_evidence_id row = ne_evidence_id e \<and> ri_source_id item = ne_source_id e
      \<and> ri_payload item = PyDict d \<and> evidence_errors e = []
      \<and> 0 \<le> sg_confidence row \<and> sg_confidence row \<le> 1
      \<and> dict_get (sg_payload row) ''evidence_scope'' = dict_get d ''evidence_scope''
      \<and> dict_get d ''evidence_scope'' \<in> insert PyNone (PyStr ` set evidence_scopes)
      \<and> dict_get (sg_payload row) ''location_precision'' = dict_get d ''location_precision''
      \<and> dict_get d ''location_precision'' \<in> insert PyNone (PyStr ` set location_precisions)
      \<and> (dict_get d ''admin_code'' = PyNone
         \<or> (\<exists>c. dict_get d ''admin_code'' = PyStr c \<and> is_digits 8 c))
      \<and> (dict_get d ''ncdr_geocode_profile'' = PyNone \<and> dict_get d ''ncdr_geocode'' = PyNone
         \<or> (\<exists>c. dict_get d ''ncdr_geocode_profile'' = PyStr ''Taiwan_Geocode_103''
              \<and> dict_get d ''ncdr_geocode'' = PyStr c \<and> is_digits 7 c
              \<and> dict_get d ''admin_code'' = PyStr (c @ ''0'')))
      \<and> (dict_get d ''limitations'' = PyNone
         \<or> (\<exists>values. list_elements (dict_get d ''limitations'') = Some values
              \<and> list_all (bounded_text 256) values \<and> card (stripped ` set values) \<le> 16))
      \<and> (dict_get d ''dataset_revision'' = PyNone \<or> bounded_text 256 (dict_get d ''dataset_revision''))
      \<and> (ne_event_type e \<noteq> EventFloodWarning \<longrightarrow> set (map fst d) \<inter> set cap_keys = {})
      \<and> (ne_event_type e = EventFloodWarning \<longrightarrow>
           gen \<noteq> None
           \<and> bounded_text 512 (dict_get d ''cap_sender'')
           \<and> bounded_text 512 (dict_get d ''cap_identifier'')
           \<and> aware_rfc3339 lib (dict_get d ''cap_sent'') \<noteq> None
           \<and> dict_get d ''cap_status'' = PyStr ''Actual''
           \<and> dict_get d ''cap_message_type'' \<in> PyStr ` {''Alert'', ''Update'', ''Cancel''}
           \<and> (\<exists>refs. canonical_references_of lib d = Some refs \<and> length refs \<le> 64)
           \<and> (dict_get d ''cap_message_type'' \<in> PyStr ` {''Update'', ''Cancel''} \<longrightarrow>
                has_earlier_reference lib d)
           \<and> (dict_get d ''cap_message_type'' \<in> PyStr ` {''Alert'', ''Update''} \<longrightarrow>
                has_active_window lib d))"
proof -
  obtain snap :: raw_snapshot and rows where
    s: "list_all2 (\<lambda>e row. reviewed_row lib r (rw_raw_ref snap) gen mode e = Inr row)
       (filter (\<lambda>e. evidence_errors e = []) (ar_normalized r)) rows"
    and b: "sb_accepted b = filter is_accepted rows"
    by (rule build_staging_batch_Inr [OF assms(1)]) (rule that)
  from assms(2) b have row: "row \<in> set rows" "is_accepted row" by simp_all
  from list_all2_mem2 [OF s row(1)] obtain e where e: "e \<in> set (ar_normalized r)" "evidence_errors e = []"
    "reviewed_row lib r (rw_raw_ref snap) gen mode e = Inr row" by auto
  let ?raw = "raw_item_of r (ne_source_id e)"
  from e(3) obtain errors where
    errors: "staging_metadata_errors lib ?raw (ne_event_type e) gen = Inr errors"
    and row_eq: "row = (if errors = []
      then to_staging_row lib e (rw_raw_ref snap) ValidationAccepted None ?raw gen mode
      else to_staging_row lib e (rw_raw_ref snap) ValidationRejected
        (Some (''invalid staging metadata: '' @ join_with ''; '' errors)) ?raw None mode)"
    by (rule reviewed_row_Inr)
  have none: "errors = []" using row(2) row_eq by (simp add: is_accepted_def split: if_splits)
  from errors [unfolded none] obtain d where d: "payload_of ?raw = Some d"
    "dict_get d ''evidence_scope'' \<in> insert PyNone (PyStr ` set evidence_scopes)"
    "dict_get d ''location_precision'' \<in> insert PyNone (PyStr ` set location_precisions)"
    "admin_errors d = []" "limitations_errors d = []" "revision_errors d = []"
    and o: "ne_event_type e \<noteq> EventFloodWarning \<Longrightarrow> set (map fst d) \<inter> set cap_keys = {}"
    and l: "ne_event_type e = EventFloodWarning \<Longrightarrow> lifecycle_errors lib d gen = Inr []"
    by (rule staging_metadata_errors_none) (rule that)
  from d(1) obtain item where item: "?raw = Some item" "ri_payload item = PyDict d"
    by (auto simp: payload_of_def split: option.splits py_value.splits)
  from item(1) have mem: "item \<in> set (ar_fetched r)" "ri_source_id item = ne_source_id e"
    by (auto simp: raw_item_of_def dest!: map_of_SomeD)
  have row_is: "row = to_staging_row lib e (rw_raw_ref snap) ValidationAccepted None ?raw gen mode"
    using row_eq none by simp
  have conf: "sg_confidence row = ne_confidence e" unfolding row_is by (simp add: to_staging_row_def)
  have get: "dict_get (sg_payload row) k = dict_get d k"
    if "k \<in> {''evidence_scope'', ''location_precision''}" for k
    unfolding row_is by (rule staging_row_payload_get [OF d(1) that])
  have fields: "sg_evidence_id row = ne_evidence_id e"
    "dict_get (sg_payload row) ''evidence_scope'' = dict_get d ''evidence_scope''"
    "dict_get (sg_payload row) ''location_precision'' = dict_get d ''location_precision''"
    "0 \<le> sg_confidence row" "sg_confidence row \<le> 1"
    using get evidence_errors_none [of e] e(2) conf by (auto simp: row_is)
  show ?thesis
    by (rule bexI [OF _ e(1)], rule bexI [OF _ mem(1)], rule exI [of _ d])
      (intro conjI fields mem(2) item(2) e(2) d(2,3) impI [OF o] impI [OF lifecycle_errors_none [OF l]]
        admin_errors_none [OF d(4)] limitations_errors_none [OF d(5)] revision_errors_none [OF d(6)])
qed

lemma canonical_reference_again:
  assumes law: "\<And>t. strip_str (fmt t) = fmt t \<and> fmt t \<noteq> []
      \<and> tl_fromisoformat lib (fmt t) = Some (Aware (AwareAt t 0))"
    and fmt: "fmt = (\<lambda>t. tl_isoformat lib (Aware (AwareAt t 0)))"
    and c: "canonical_reference lib item = Some x"
  shows "canonical_reference lib (reference_value x) = Some x"
proof -
  obtain s i u where x: "x = (s, i, u)" by (cases x)
  from c obtain d a where d: "item = PyDict d" "bounded_text 512 (dict_get d ''sender'')"
    "bounded_text 512 (dict_get d ''identifier'')" "s = stripped (dict_get d ''sender'')"
    "i = stripped (dict_get d ''identifier'')" and u: "u = fmt (instant a)"
    by (auto simp: canonical_reference_def x fmt split: py_value.splits if_splits)
  have tidy: "bounded_text 512 (PyStr (stripped v)) \<and> stripped (PyStr (stripped v)) = stripped v"
    if "bounded_text 512 v" for v
    using that by (cases v) (simp_all add: bounded_text_def stripped_def)
  have "aware_rfc3339 lib (PyStr u) = Some (AwareAt (instant a) 0)"
    using law [of "instant a"] by (simp add: aware_rfc3339_def u)
  then show ?thesis
    using tidy [OF d(2)] tidy [OF d(3)]
    by (simp add: canonical_reference_def reference_value_def x d(4,5)) (simp add: u fmt instant_def)
qed

text \<open>
  C13. The references of a message do not depend on their order or repetition, and read back as they are
  written, where the library reads the texts it writes for UTC values.
\<close>

theorem canonical_references_roundtrip:
  assumes law: "\<forall>t. strip_str (tl_isoformat lib (Aware (AwareAt t 0))) = tl_isoformat lib (Aware (AwareAt t 0))
      \<and> tl_isoformat lib (Aware (AwareAt t 0)) \<noteq> []
      \<and> tl_fromisoformat lib (tl_isoformat lib (Aware (AwareAt t 0))) = Some (Aware (AwareAt t 0))"
    and c: "canonical_cap_references lib items = Some refs"
  shows "canonical_cap_references lib (map reference_value refs) = Some refs
    \<and> (\<forall>items'. set items' = set items \<longrightarrow> canonical_cap_references lib items' = Some refs)"
proof
  let ?f = "canonical_reference lib"
  have again: "?f item = Some x \<Longrightarrow> ?f (reference_value x) = Some x" for item x
    using canonical_reference_again [of "\<lambda>t. tl_isoformat lib (Aware (AwareAt t 0))"] law by blast
  from c have refs: "refs = sorted_list_of_set (set (List.map_filter ?f items))"
    by (auto simp: canonical_cap_references_def split: if_splits)
  have set_refs: "set refs = set (List.map_filter ?f items)" by (simp add: refs)
  have mem: "?f (reference_value x) = Some x" if "x \<in> set refs" for x
    using that again unfolding set_refs set_map_filter by blast
  have "set (List.map_filter ?f (map reference_value refs)) = set refs"
    using mem by (auto simp: set_map_filter) 
  moreover have "list_all (\<lambda>i. ?f i \<noteq> None) (map reference_value refs)"
    using mem by (auto simp: list_all_iff)
  ultimately show "canonical_cap_references lib (map reference_value refs) = Some refs"
    unfolding canonical_cap_references_def refs by simp
  show "\<forall>items'. set items' = set items \<longrightarrow> canonical_cap_references lib items' = Some refs"
    using c by (auto simp: canonical_cap_references_def set_map_filter list_all_iff split: if_splits)
qed

section \<open>Concrete runs\<close>

text \<open>A library that writes an instant in unary with a sign, and reads it back.\<close>

definition sample_isoformat :: "py_datetime \<Rightarrow> string" where
  "sample_isoformat d =
     (if normalized_utc d < 0 then CHR ''-'' else CHR ''+'')
       # replicate (nat \<bar>normalized_utc d\<bar>) CHR ''1''"

definition sample_fromisoformat :: "string \<Rightarrow> py_datetime option" where
  "sample_fromisoformat s =
     (case s of
        [] \<Rightarrow> None
      | c # cs \<Rightarrow>
          Some (Aware (AwareAt (if c = CHR ''-'' then - int (length cs) else int (length cs)) 0)))"

definition sample_library :: text_library where
  "sample_library =
     \<lparr> tl_fromisoformat = sample_fromisoformat, tl_isoformat = sample_isoformat,
       tl_str = (\<lambda>_. ''value''), tl_repr = (\<lambda>s. s), tl_content_hash = (\<lambda>_. ''hash''),
       tl_manifest_hash = (\<lambda>_. ''hash'') \<rparr>"

definition sample_warning :: normalized_evidence where
  "sample_warning =
     \<lparr> ne_evidence_id = ''e1'', ne_adapter_key = ''official.ncdr.cap'',
       ne_source_family = FamilyOfficial, ne_event_type = EventFloodWarning, ne_source_id = ''s1'',
       ne_source_url = ''https://alerts.ncdr.nat.gov.tw'', ne_source_title = ''alert'',
       ne_source_timestamp = Aware (AwareAt 3 0), ne_fetched_at = Aware (AwareAt 4 0),
       ne_summary = ''flood warning'', ne_location_text = None, ne_confidence = 9 / 10,
       ne_status = StatusNormalized, ne_attribution = None, ne_tags = [] \<rparr>"

definition sample_references :: "py_value list" where
  "sample_references =
     [PyDict [(''sender'', PyStr ''ncdr''), (''identifier'', PyStr ''b ''), (''sent'', PyStr ''+11'')],
      PyDict [(''sent'', PyStr '' +1''), (''sender'', PyStr ''ncdr''), (''identifier'', PyStr ''a'')]]"

definition sample_payload :: "string \<Rightarrow> py_dict" where
  "sample_payload kind =
     [(''evidence_scope'', PyStr ''current''), (''cap_sender'', PyStr ''ncdr''),
      (''cap_identifier'', PyStr ''c''), (''cap_sent'', PyStr ''+111''),
      (''cap_references'', PyList sample_references), (''cap_status'', PyStr ''Actual''),
      (''cap_message_type'', PyStr kind), (''active_from'', PyStr ''+111''),
      (''active_until'', PyStr ''+11111111'')]"

definition sample_run :: "string \<Rightarrow> adapter_run_result" where
  "sample_run kind =
     \<lparr> ar_adapter_key = ''official.ncdr.cap'',
       ar_fetched = [\<lparr> ri_source_id = ''s1'', ri_source_url = ''https://alerts.ncdr.nat.gov.tw'',
         ri_fetched_at = Aware (AwareAt 4 0), ri_payload = PyDict (sample_payload kind),
         ri_raw_snapshot_key = None \<rparr>],
       ar_normalized = [sample_warning, sample_warning\<lparr> ne_evidence_id := ''e2'', ne_summary := [] \<rparr>],
       ar_rejected = [], ar_source_rejections = [],
       ar_station_inventory_proof = None, ar_no_active_event = False \<rparr>"

definition sample_batch :: staging_batch where
  "sample_batch =
     projr (build_staging_batch sample_library (sample_run ''Update'') None (Some (Aware (AwareAt 5 0))) None)"

lemma build_sample_batch:
  "build_staging_batch sample_library (sample_run ''Update'') None (Some (Aware (AwareAt 5 0))) None =
   Inr sample_batch"
proof -
  have "isl (build_staging_batch sample_library (sample_run ''Update'') None
      (Some (Aware (AwareAt 5 0))) None) = False" by code_simp
  then show ?thesis unfolding sample_batch_def by (metis sum.collapse(2))
qed

lemma staging_partitions_evidence_witness:
  "map sg_evidence_id (sb_accepted sample_batch) = [''e1'']
   \<and> mset (map sg_evidence_id (sb_accepted sample_batch @ sb_rejected sample_batch)) =
     {# ''e1'', ''e2'' #}"
proof
  show "map sg_evidence_id (sb_accepted sample_batch) = [''e1'']" by code_simp
  have "mset (map sg_evidence_id (sb_accepted sample_batch @ sb_rejected sample_batch)) =
      mset (map ne_evidence_id (ar_normalized (sample_run ''Update'')))"
    using staging_partitions_evidence [OF build_sample_batch] by (rule conjunct1)
  then show "mset (map sg_evidence_id (sb_accepted sample_batch @ sb_rejected sample_batch)) =
      {# ''e1'', ''e2'' #}"
    by (simp add: sample_run_def sample_warning_def add_mset_commute)
qed

lemma accepted_rows_are_reviewed_witness:
  "\<exists>row\<in>set (sb_accepted sample_batch). 0 \<le> sg_confidence row \<and> sg_confidence row \<le> 1
     \<and> dict_get (sg_payload row) ''evidence_scope'' = PyStr ''current''"
proof -
  let ?row = "hd (sb_accepted sample_batch)"
  have "sb_accepted sample_batch \<noteq> []" by code_simp
  then have row: "?row \<in> set (sb_accepted sample_batch)" by simp
  have "0 \<le> sg_confidence ?row \<and> sg_confidence ?row \<le> 1"
    using accepted_rows_are_reviewed [OF build_sample_batch row] by blast
  moreover have "dict_get (sg_payload ?row) ''evidence_scope'' = PyStr ''current''" by code_simp
  ultimately show ?thesis using row by blast
qed

lemma sample_library_reads_back:
  "strip_str (sample_isoformat d) = sample_isoformat d
   \<and> sample_fromisoformat (sample_isoformat d) = Some (Aware (AwareAt (normalized_utc d) 0))"
proof
  have blank: "\<not> is_space_char c" if "c \<in> set (sample_isoformat d)" for c
    using that by (auto simp: sample_isoformat_def is_space_char_def split: if_splits)
  have keep: "dropWhile is_space_char s = s" if "set s \<subseteq> set (sample_isoformat d)" for s
    using that blank by (cases s) auto
  show "strip_str (sample_isoformat d) = sample_isoformat d"
    by (simp add: strip_str_def keep)
qed (simp add: sample_isoformat_def sample_fromisoformat_def)

lemma canonical_references_roundtrip_witness:
  "canonical_cap_references sample_library sample_references =
     Some [(''ncdr'', ''a'', ''+1''), (''ncdr'', ''b'', ''+11'')]
   \<and> canonical_cap_references sample_library
       (map reference_value [(''ncdr'', ''a'', ''+1''), (''ncdr'', ''b'', ''+11'')]) =
     Some [(''ncdr'', ''a'', ''+1''), (''ncdr'', ''b'', ''+11'')]"
proof
  show c: "canonical_cap_references sample_library sample_references =
     Some [(''ncdr'', ''a'', ''+1''), (''ncdr'', ''b'', ''+11'')]" by code_simp
  show "canonical_cap_references sample_library
       (map reference_value [(''ncdr'', ''a'', ''+1''), (''ncdr'', ''b'', ''+11'')]) =
     Some [(''ncdr'', ''a'', ''+1''), (''ncdr'', ''b'', ''+11'')]"
    by (rule canonical_references_roundtrip [OF _ c, THEN conjunct1])
      (use sample_library_reads_back [of "Aware (AwareAt t 0)" for t] in
        \<open>simp add: sample_library_def sample_isoformat_def instant_def\<close>)
qed

end
