(* ===== verification/Batch_Ingestion.thy ===== *)
theory Batch_Ingestion
  imports Evidence_Staging
begin

text \<open>
  The adapter batches of the workers, \<open>apps/workers/app/jobs/ingestion.py\<close>: an adapter is run, its
  result is staged and judged, the batch is written and a run summary is recorded. An adapter's run
  is a value or an exception; the writers of batches, summaries, selections and pipeline statuses are
  arguments, and answer an exception where they raise. Clock readings are arguments. Log events and
  the parameters that are only handed on to the summary writer are left out.
\<close>

section \<open>Run summaries\<close>

datatype batch_status = BatchSucceeded | BatchPartial | BatchFailed | BatchSkipped

fun batch_status_name :: "batch_status \<Rightarrow> string" where
  "batch_status_name BatchSucceeded = ''succeeded''"
| "batch_status_name BatchPartial = ''partial''"
| "batch_status_name BatchFailed = ''failed''"
| "batch_status_name BatchSkipped = ''skipped''"

record run_summary =
  rs_adapter_key :: string
  rs_status :: batch_status
  rs_started_at :: py_datetime
  rs_finished_at :: py_datetime
  rs_items_fetched :: int
  rs_items_promoted :: int
  rs_items_rejected :: int
  rs_snapshot_generation_mode :: "snapshot_generation_mode option"
  rs_snapshot_activation_eligible :: bool
  rs_raw_ref :: "string option"
  rs_error_code :: "string option"
  rs_error_message :: "string option"
  rs_source_timestamp_min :: "py_datetime option"
  rs_source_timestamp_max :: "py_datetime option"
  rs_station_inventory_proof :: "station_inventory_proof option"
  rs_event_active_from_min :: "py_datetime option"
  rs_event_active_until_max :: "py_datetime option"

definition ncdr_cap_adapter_key :: string where
  "ncdr_cap_adapter_key = ''official.ncdr.cap''"

definition warning_event_adapter_keys :: "string list" where
  "warning_event_adapter_keys = [''official.cwa.heavy_rain_warning'', ncdr_cap_adapter_key]"

definition is_successful_no_active_warning_summary :: "run_summary \<Rightarrow> bool" where
  "is_successful_no_active_warning_summary s =
     (if \<not> (rs_adapter_key s \<in> set warning_event_adapter_keys
            \<and> rs_status s = BatchSucceeded
            \<and> rs_error_code s = Some ''no_active_event''
            \<and> rs_items_rejected s = 0
            \<and> rs_station_inventory_proof s = None
            \<and> rs_event_active_from_min s = None
            \<and> rs_event_active_until_max s = None)
      then False
      else if rs_items_fetched s = 0
      then rs_items_promoted s = 0 \<and> rs_raw_ref s = None
           \<and> rs_source_timestamp_min s = None \<and> rs_source_timestamp_max s = None
      else rs_adapter_key s = ncdr_cap_adapter_key
           \<and> rs_items_fetched s = rs_items_promoted s
           \<and> rs_items_promoted s > 0
           \<and> rs_snapshot_generation_mode s = Some CompleteReplace
           \<and> rs_snapshot_activation_eligible s
           \<and> rs_raw_ref s \<noteq> None
           \<and> rs_source_timestamp_min s \<noteq> None
           \<and> rs_source_timestamp_max s \<noteq> None)"

section \<open>Audit rows\<close>

record pipeline_entry =
  pe_adapter_keys :: "string list"
  pe_succeeded :: bool
  pe_complete :: bool
  pe_run_at :: py_datetime
  pe_active_snapshot_raw_ref :: "string option"
  pe_error_code :: "string option"

text \<open>
  A writer answers an exception, or none where it wrote; its answer may depend on how many writes
  were tried before. The state keeps what was written.
\<close>

record audit_env =
  we_pipeline_writer :: "(nat \<Rightarrow> pipeline_entry \<Rightarrow> py_exc option) option"
  we_selection_writer :: "(nat \<Rightarrow> string list \<Rightarrow> py_exc option) option"

record audit_state =
  ws_pipeline :: "pipeline_entry list"
  ws_selections :: "string list list"
  ws_writes :: nat

definition record_pipeline_entry ::
  "'e audit_env_scheme \<Rightarrow> pipeline_entry \<Rightarrow> ('s audit_state_scheme, unit) step" where
  "record_pipeline_entry env entry st =
     (case we_pipeline_writer env of
        None \<Rightarrow> (Inr (), st)
      | Some writer \<Rightarrow>
          if pe_adapter_keys entry = [] then (Inr (), st)
          else
            let tried = st\<lparr> ws_writes := Suc (ws_writes st) \<rparr>
            in case writer (ws_writes st) entry of
                 Some e \<Rightarrow> (Inl e, tried)
               | None \<Rightarrow> (Inr (), tried\<lparr> ws_pipeline := ws_pipeline st @ [entry] \<rparr>))"

text \<open>Without an active snapshot and without an error code.\<close>

definition record_pipeline_status ::
  "'e audit_env_scheme \<Rightarrow> string list \<Rightarrow> bool \<Rightarrow> bool \<Rightarrow> py_datetime
    \<Rightarrow> ('s audit_state_scheme, unit) step" where
  "record_pipeline_status env keys succeeded finished run_at =
     record_pipeline_entry env
       \<lparr> pe_adapter_keys = keys, pe_succeeded = succeeded, pe_complete = finished,
         pe_run_at = run_at, pe_active_snapshot_raw_ref = None, pe_error_code = None \<rparr>"

definition record_runtime_selection ::
  "'e audit_env_scheme \<Rightarrow> string list \<Rightarrow> ('s audit_state_scheme, unit) step" where
  "record_runtime_selection env keys st =
     (case we_selection_writer env of
        None \<Rightarrow> (Inr (), st)
      | Some writer \<Rightarrow>
          let tried = st\<lparr> ws_writes := Suc (ws_writes st) \<rparr>
          in case writer (ws_writes st) keys of
               Some e \<Rightarrow> (Inl e, tried)
             | None \<Rightarrow> (Inr (), tried\<lparr> ws_selections := ws_selections st @ [keys] \<rparr>))"

section \<open>Reading the staged batch\<close>

definition wra_flood_warning_adapter_key :: string where
  "wra_flood_warning_adapter_key = ''official.wra.flood_warning''"

definition valid_empty_warning_adapter_keys :: "string list" where
  "valid_empty_warning_adapter_keys = warning_event_adapter_keys @ [wra_flood_warning_adapter_key]"

definition complete_replace_min_valid_fraction :: rat where
  "complete_replace_min_valid_fraction = 3 / 4"

definition snapshot_activation_eligible ::
  "staging_batch \<Rightarrow> snapshot_generation_mode option \<Rightarrow> bool" where
  "snapshot_activation_eligible batch mode =
     (if mode \<noteq> Some CompleteReplace then False
      else if sb_accepted batch = [] \<or> sb_rejected batch \<noteq> [] then False
      else
        let outcomes = length (sb_accepted batch) + length (sb_rejected_raw_source_ids batch)
        in if outcomes = 0 then False
           else complete_replace_min_valid_fraction
                \<le> of_nat (length (sb_accepted batch)) / of_nat outcomes)"

definition is_valid_cancel_only_no_active_result ::
  "adapter_run_result \<Rightarrow> staging_batch \<Rightarrow> snapshot_generation_mode option \<Rightarrow> bool \<Rightarrow> bool" where
  "is_valid_cancel_only_no_active_result r batch mode eligible \<longleftrightarrow>
     ar_adapter_key r = ncdr_cap_adapter_key \<and> ar_no_active_event r
     \<and> ar_rejected r = [] \<and> ar_source_rejections r = [] \<and> ar_station_inventory_proof r = None
     \<and> mode = Some CompleteReplace \<and> eligible \<and> sb_accepted batch \<noteq> []
     \<and> length (ar_fetched r) = length (sb_accepted batch)
     \<and> sb_rejected batch = [] \<and> sb_rejected_raw_source_ids batch = []
     \<and> list_all (\<lambda>row. dict_get (sg_payload row) ''cap_message_type'' = PyStr ''Cancel'')
          (sb_accepted batch)"

text \<open>\<open>parse_datetime\<close> and \<open>parse_observed_at_utc\<close>.\<close>

definition zulu_as_offset :: "string \<Rightarrow> string" where
  "zulu_as_offset s = concat (map (\<lambda>c. if c = CHR ''Z'' then ''+00:00'' else [c]) s)"

definition parse_datetime :: "text_library \<Rightarrow> py_value \<Rightarrow> py_datetime option" where
  "parse_datetime lib v =
     (let t = strip_str (if py_truthy v then str_of lib v else [])
      in if t = [] then None else tl_fromisoformat lib (zulu_as_offset t))"

definition parse_observed_at_utc :: "text_library \<Rightarrow> py_value \<Rightarrow> py_datetime option" where
  "parse_observed_at_utc lib v = map_option aware_utc (parse_datetime lib v)"

text \<open>The window of one accepted warning, if it is in force at the time of evaluation.\<close>

definition window_of ::
  "text_library \<Rightarrow> py_datetime \<Rightarrow> staging_row \<Rightarrow> (py_datetime \<times> py_datetime) option outcome" where
  "window_of lib evaluated_at row =
     obind (in_strings (dict_get (sg_payload row) ''cap_message_type'') [''Alert'', ''Update''])
       (\<lambda>live.
          if \<not> live then Inr None
          else case (parse_observed_at_utc lib (dict_get (sg_payload row) ''active_from''),
                     parse_observed_at_utc lib (dict_get (sg_payload row) ''active_until'')) of
                 (Some a, Some b) \<Rightarrow>
                   obind (before a b) (\<lambda>ordered.
                     if \<not> ordered then Inr None
                     else obind (before evaluated_at a) (\<lambda>early.
                       if early then Inr None
                       else obind (before evaluated_at b) (\<lambda>running.
                         Inr (if running then Some (a, b) else None))))
               | _ \<Rightarrow> Inr None)"

definition validated_warning_active_window ::
  "text_library \<Rightarrow> adapter_run_result \<Rightarrow> staging_batch \<Rightarrow> py_datetime
    \<Rightarrow> (py_datetime \<times> py_datetime) option outcome" where
  "validated_warning_active_window lib r batch evaluated_at =
     (if ar_adapter_key r \<notin> set warning_event_adapter_keys then Inr None
      else obind (otraverse (window_of lib evaluated_at) (sb_accepted batch))
        (\<lambda>windows.
           case present windows of
             [] \<Rightarrow> Inr None
           | (a, b) # rest \<Rightarrow>
               obind (min_datetime a (map fst rest)) (\<lambda>a'.
               obind (max_datetime b (map snd rest)) (\<lambda>b'. Inr (Some (a', b'))))))"

section \<open>Running one adapter\<close>

definition utc_at :: "int \<Rightarrow> py_datetime" where
  "utc_at n = Aware (AwareAt n 0)"

text \<open>
  The readings of \<open>_now()\<close>: at the start, at the end of a run, in the handler of a failure, and in
  the handler of a summary that could not be written.
\<close>

record batch_clock =
  bc_started :: int
  bc_finished :: int
  bc_failed :: int
  bc_unwritten :: int

record source_adapter =
  sa_key :: string
  sa_mode :: "snapshot_generation_mode option"
  sa_run :: "adapter_run_result outcome"

record ingest_env = audit_env +
  in_batch_writer :: "(nat \<Rightarrow> staging_batch \<Rightarrow> py_exc option) option"
  in_summary_writer :: "(nat \<Rightarrow> run_summary \<Rightarrow> py_exc option) option"

record ingest_state = audit_state +
  is_batches :: "staging_batch list"
  is_summaries :: "run_summary list"

definition persist_staging_batch :: "ingest_env \<Rightarrow> staging_batch \<Rightarrow> (ingest_state, unit) step" where
  "persist_staging_batch env batch st =
     (case in_batch_writer env of
        None \<Rightarrow> (Inr (), st)
      | Some writer \<Rightarrow>
          let tried = st\<lparr> ws_writes := Suc (ws_writes st) \<rparr>
          in case writer (ws_writes st) batch of
               Some e \<Rightarrow> (Inl e, tried)
             | None \<Rightarrow> (Inr (), tried\<lparr> is_batches := is_batches st @ [batch] \<rparr>))"

definition write_summary :: "ingest_env \<Rightarrow> run_summary \<Rightarrow> (ingest_state, unit) step" where
  "write_summary env summary st =
     (case in_summary_writer env of
        None \<Rightarrow> (Inr (), st)
      | Some writer \<Rightarrow>
          let tried = st\<lparr> ws_writes := Suc (ws_writes st) \<rparr>
          in case writer (ws_writes st) summary of
               Some e \<Rightarrow> (Inl e, tried)
             | None \<Rightarrow> (Inr (), tried\<lparr> is_summaries := is_summaries st @ [summary] \<rparr>))"

text \<open>A run summary with the defaults of its class.\<close>

definition summary_with ::
  "string \<Rightarrow> batch_status \<Rightarrow> int \<Rightarrow> int \<Rightarrow> nat \<Rightarrow> nat \<Rightarrow> nat \<Rightarrow> snapshot_generation_mode option
    \<Rightarrow> run_summary" where
  "summary_with key status started finished fetched promoted rejected mode =
     \<lparr> rs_adapter_key = key, rs_status = status, rs_started_at = utc_at started,
       rs_finished_at = utc_at finished, rs_items_fetched = int fetched,
       rs_items_promoted = int promoted, rs_items_rejected = int rejected,
       rs_snapshot_generation_mode = mode, rs_snapshot_activation_eligible = False,
       rs_raw_ref = None, rs_error_code = None, rs_error_message = None,
       rs_source_timestamp_min = None, rs_source_timestamp_max = None,
       rs_station_inventory_proof = None, rs_event_active_from_min = None,
       rs_event_active_until_max = None \<rparr>"

definition with_error :: "string \<Rightarrow> string \<Rightarrow> run_summary \<Rightarrow> run_summary" where
  "with_error code message s = s\<lparr> rs_error_code := Some code, rs_error_message := Some message \<rparr>"

text \<open>A run that fetched nothing.\<close>

definition empty_fetch_summary ::
  "adapter_run_result \<Rightarrow> batch_clock \<Rightarrow> snapshot_generation_mode option \<Rightarrow> run_summary" where
  "empty_fetch_summary r clock mode =
     (let base = (\<lambda>status rejected. (summary_with (ar_adapter_key r) status (bc_started clock)
            (bc_finished clock) 0 0 rejected mode)
            \<lparr> rs_station_inventory_proof := ar_station_inventory_proof r \<rparr>)
      in if ar_adapter_key r \<in> set valid_empty_warning_adapter_keys \<and> ar_no_active_event r
            \<and> ar_normalized r = [] \<and> ar_rejected r = [] \<and> ar_station_inventory_proof r = None
         then with_error ''no_active_event'' ''valid warning poll returned no active event''
                (base BatchSucceeded 0)
         else if (case ar_station_inventory_proof r of
                    None \<Rightarrow> False
                  | Some p \<Rightarrow>
                      (case sp_upstream_total p of None \<Rightarrow> False | Some n \<Rightarrow> n > 0)
                      \<and> sp_pagination_complete p
                      \<and> Some (sp_source_items_seen p) = sp_upstream_total p)
         then with_error ''upstream_observations_empty''
                ''upstream returned a complete nonempty station collection but no usable observations''
                (base BatchFailed (length (ar_rejected r)))
         else with_error ''empty_fetch'' ''adapter returned no fetched raw items''
                (base BatchSkipped (length (ar_rejected r))))"

definition staged_summary ::
  "adapter_run_result \<Rightarrow> staging_batch \<Rightarrow> (py_datetime \<times> py_datetime) option \<Rightarrow> batch_clock
    \<Rightarrow> snapshot_generation_mode option \<Rightarrow> run_summary" where
  "staged_summary r batch window clock mode =
     (let rejected = length (sb_rejected batch) + length (sb_rejected_raw_source_ids batch);
          eligible = snapshot_activation_eligible batch mode;
          summary = (summary_with (ar_adapter_key r)
            (if rejected = 0 then BatchSucceeded else BatchPartial) (bc_started clock)
            (bc_finished clock) (length (ar_fetched r)) (length (sb_accepted batch)) rejected mode)
            \<lparr> rs_snapshot_activation_eligible := eligible,
              rs_raw_ref := Some (rw_raw_ref (sb_raw_snapshot batch)),
              rs_source_timestamp_min := rw_source_timestamp_min (sb_raw_snapshot batch),
              rs_source_timestamp_max := rw_source_timestamp_max (sb_raw_snapshot batch),
              rs_station_inventory_proof := ar_station_inventory_proof r,
              rs_event_active_from_min := map_option fst window,
              rs_event_active_until_max := map_option snd window \<rparr>
      in if is_valid_cancel_only_no_active_result r batch mode eligible
         then with_error ''no_active_event''
                ''valid complete CAP snapshot contained cancellation lifecycle messages only'' summary
         else summary)"

definition summary_from_result ::
  "text_library \<Rightarrow> ingest_env \<Rightarrow> batch_clock \<Rightarrow> snapshot_generation_mode option \<Rightarrow> adapter_run_result
    \<Rightarrow> (ingest_state, run_summary) step" where
  "summary_from_result lib env clock mode r =
     (if ar_fetched r = []
      then if ar_normalized r \<noteq> []
           then (\<lambda>st. (Inl (value_error
                  ''adapter returned normalized items without fetched raw items''), st))
           else wreturn (empty_fetch_summary r clock mode)
      else case build_staging_batch lib r None (Some (utc_at (bc_started clock))) mode of
             Inl e \<Rightarrow> (\<lambda>st. (Inl e, st))
           | Inr batch \<Rightarrow>
               wbind (persist_staging_batch env batch)
                 (\<lambda>_ st.
                    case validated_warning_active_window lib r batch
                           (rw_fetched_at (sb_raw_snapshot batch)) of
                      Inl e \<Rightarrow> (Inl e, st)
                    | Inr window \<Rightarrow> (Inr (staged_summary r batch window clock mode), st)))"

definition key_mismatch :: "text_library \<Rightarrow> string \<Rightarrow> adapter_run_result \<Rightarrow> string option" where
  "key_mismatch lib key r =
     (if ar_adapter_key r \<noteq> key
      then Some (''adapter result key mismatch: configured='' @ tl_repr lib key
                 @ '', returned='' @ tl_repr lib (ar_adapter_key r))
      else case find (\<lambda>(i, e). ne_adapter_key e \<noteq> key \<or> ne_adapter_key e \<noteq> ar_adapter_key r)
                  (enumerate 0 (ar_normalized r)) of
             None \<Rightarrow> None
           | Some (i, e) \<Rightarrow>
               Some (''normalized adapter key mismatch: configured='' @ tl_repr lib key
                     @ '', result='' @ tl_repr lib (ar_adapter_key r)
                     @ '', normalized['' @ tl_str lib (PyInt (int i)) @ '']=''
                     @ tl_repr lib (ne_adapter_key e)))"

definition validate_adapter_result_identity ::
  "text_library \<Rightarrow> string \<Rightarrow> adapter_run_result \<Rightarrow> ('s, unit) step" where
  "validate_adapter_result_identity lib key r st =
     (case key_mismatch lib key r of
        Some message \<Rightarrow> (Inl (value_error message), st)
      | None \<Rightarrow> (Inr (), st))"

definition failed_summary ::
  "source_adapter \<Rightarrow> batch_clock \<Rightarrow> nat \<Rightarrow> nat \<Rightarrow> py_exc \<Rightarrow> run_summary" where
  "failed_summary adapter clock fetched rejected e =
     with_error (fst e) (snd e)
       (summary_with (sa_key adapter) BatchFailed (bc_started clock) (bc_failed clock) fetched 0
         rejected (sa_mode adapter))"

definition judge_adapter_run ::
  "text_library \<Rightarrow> ingest_env \<Rightarrow> batch_clock \<Rightarrow> source_adapter \<Rightarrow> (ingest_state, run_summary) step" where
  "judge_adapter_run lib env clock adapter =
     (case sa_run adapter of
        Inl e \<Rightarrow> wreturn (failed_summary adapter clock 0 0 e)
      | Inr r \<Rightarrow>
          wcatch
            (wbind (validate_adapter_result_identity lib (sa_key adapter) r)
              (\<lambda>_. summary_from_result lib env clock (sa_mode adapter) r))
            (\<lambda>e. wreturn ((failed_summary adapter clock (length (ar_fetched r))
                     (length (ar_rejected r)) e)
                   \<lparr> rs_station_inventory_proof := ar_station_inventory_proof r \<rparr>)))"

definition unwritten_summary :: "run_summary \<Rightarrow> batch_clock \<Rightarrow> py_exc \<Rightarrow> run_summary" where
  "unwritten_summary s clock e =
     with_error (fst e) (''run summary write failed: '' @ snd e)
       (s\<lparr> rs_status := BatchFailed, rs_finished_at := utc_at (bc_unwritten clock) \<rparr>)"

definition run_adapter_batch ::
  "text_library \<Rightarrow> ingest_env \<Rightarrow> batch_clock \<Rightarrow> source_adapter \<Rightarrow> (ingest_state, run_summary) step" where
  "run_adapter_batch lib env clock adapter =
     wbind (judge_adapter_run lib env clock adapter)
       (\<lambda>summary. wcatch
          (wbind (write_summary env summary) (\<lambda>_. wreturn summary))
          (\<lambda>e. wreturn (unwritten_summary summary clock e)))"

section \<open>Running several adapters\<close>

fun run_adapter_batches ::
  "text_library \<Rightarrow> ingest_env \<Rightarrow> (nat \<Rightarrow> batch_clock) \<Rightarrow> nat \<Rightarrow> source_adapter list
    \<Rightarrow> (ingest_state, run_summary list) step" where
  "run_adapter_batches lib env clocks n [] = wreturn []"
| "run_adapter_batches lib env clocks n (a # as) =
     wbind (run_adapter_batch lib env (clocks n) a)
       (\<lambda>s. wbind (run_adapter_batches lib env clocks (Suc n) as)
       (\<lambda>ss. wreturn (s # ss)))"

text \<open>
  \<open>selected\<close> is \<open>enabled_adapter_keys(settings)\<close>; \<open>checked_at\<close> is the clock reading that stands in
  for a missing \<open>pipeline_run_at\<close>.
\<close>

definition run_enabled_adapter_batches ::
  "text_library \<Rightarrow> ingest_env \<Rightarrow> (nat \<Rightarrow> batch_clock) \<Rightarrow> int \<Rightarrow> (string \<times> source_adapter) list
    \<Rightarrow> string list outcome \<Rightarrow> string list option \<Rightarrow> bool \<Rightarrow> py_datetime option
    \<Rightarrow> (ingest_state, run_summary list) step" where
  "run_enabled_adapter_batches lib env clocks checked_at adapter_by_key selected reported
      write_selection pipeline_run_at =
     wbind (\<lambda>st. (selected, st))
       (\<lambda>keys. wbind
         (if write_selection
          then record_runtime_selection env (case reported of None \<Rightarrow> keys | Some ks \<Rightarrow> ks)
          else wreturn ())
       (\<lambda>_. wbind
         (record_pipeline_status env (filter (\<lambda>k. map_of adapter_by_key k = None) keys) False False
            (case pipeline_run_at of None \<Rightarrow> utc_at checked_at | Some t \<Rightarrow> t))
       (\<lambda>_. run_adapter_batches lib env clocks 0 (List.map_filter (map_of adapter_by_key) keys))))"

section \<open>Properties of batches\<close>

lemma persist_result:
  "persist_staging_batch env batch st = (Inr u, st') \<Longrightarrow>
   (case in_batch_writer env of None \<Rightarrow> st' = st
    | Some _ \<Rightarrow> is_batches st' = is_batches st @ [batch] \<and> is_summaries st' = is_summaries st)"
  by (auto simp: persist_staging_batch_def Let_def split: option.splits)

lemma write_summary_result:
  "write_summary env s st = (x, st') \<Longrightarrow>
   is_batches st' = is_batches st
   \<and> (x = Inr () \<longrightarrow> is_summaries st' =
        is_summaries st @ (if in_summary_writer env = None then [] else [s]))"
  by (auto simp: write_summary_def Let_def split: option.splits)

lemma summary_with_status [simp]: "rs_status (summary_with k s a b f p r m) = s"
  by (simp add: summary_with_def)

lemma with_error_status [simp]: "rs_status (with_error c m s) = rs_status s"
  by (simp add: with_error_def)

lemma failed_summary_status [simp]: "rs_status (failed_summary a c f r e) = BatchFailed"
  by (simp add: failed_summary_def)

lemma window_case:
  "(case x of Inl e \<Rightarrow> (Inl e, st) | Inr w \<Rightarrow> (Inr (f w), st)) = (Inr s, st') \<longleftrightarrow>
   (\<exists>w. x = Inr w \<and> s = f w \<and> st' = st)"
  by (cases x) auto

text \<open>What a run comes to that does not fail: nothing fetched, or a staged batch.\<close>

lemma summary_from_result_Inr:
  assumes "summary_from_result lib env clock mode r st = (Inr s, st')"
  obtains (polled) "ar_fetched r = []" "ar_normalized r = []" "s = empty_fetch_summary r clock mode" "st' = st"
  | (staged) batch window where
      "build_staging_batch lib r None (Some (utc_at (bc_started clock))) mode = Inr batch"
      "validated_warning_active_window lib r batch (rw_fetched_at (sb_raw_snapshot batch)) = Inr window"
      "persist_staging_batch env batch st = (Inr (), st')"
      "s = staged_summary r batch window clock mode"
  using assms
  by (auto simp: summary_from_result_def wreturn_eq wbind_Inr window_case split: if_splits sum.splits)

lemma judge_adapter_run_Inr:
  "\<exists>s st'. judge_adapter_run lib env clock adapter st = (Inr s, st')"
  by (cases "sa_run adapter")
    (auto simp: judge_adapter_run_def wreturn_def wcatch_def split: prod.splits sum.splits)

lemma judge_not_failed:
  assumes "judge_adapter_run lib env clock adapter st = (Inr s, st')" and "rs_status s \<noteq> BatchFailed"
  obtains r where "sa_run adapter = Inr r" "key_mismatch lib (sa_key adapter) r = None"
    "summary_from_result lib env clock (sa_mode adapter) r st = (Inr s, st')"
  using assms
  by (auto simp: judge_adapter_run_def wreturn_eq wcatch_Inr wbind_Inr validate_adapter_result_identity_def
      split: sum.splits option.splits)

lemma run_adapter_batch_cases:
  obtains (audited) s st1 st' where "judge_adapter_run lib env clock adapter st = (Inr s, st1)"
      "write_summary env s st1 = (Inr (), st')" "run_adapter_batch lib env clock adapter st = (Inr s, st')"
  | (unwritten) s st1 e st' where "judge_adapter_run lib env clock adapter st = (Inr s, st1)"
      "write_summary env s st1 = (Inl e, st')"
      "run_adapter_batch lib env clock adapter st = (Inr (unwritten_summary s clock e), st')"
proof -
  obtain s st1 where j: "judge_adapter_run lib env clock adapter st = (Inr s, st1)"
    using judge_adapter_run_Inr by blast
  obtain x st' where w: "write_summary env s st1 = (x, st')" by (cases "write_summary env s st1")
  show thesis
  proof (cases x)
    case (Inl e)
    then show thesis using unwritten [OF j w [unfolded Inl]] j w
      by (simp add: run_adapter_batch_def wbind_def wcatch_def wreturn_def)
  next
    case (Inr u)
    then show thesis using audited [OF j] j w
      by (simp add: run_adapter_batch_def wbind_def wcatch_def wreturn_def)
  qed
qed

text \<open>A batch always comes to a summary, whatever the adapter, the staging or the writers raise.\<close>

lemma run_adapter_batch_total: "\<exists>s st'. run_adapter_batch lib env clock adapter st = (Inr s, st')"
  by (rule run_adapter_batch_cases) blast+

lemma unwritten_status [simp]: "rs_status (unwritten_summary s c e) = BatchFailed"
  by (simp add: unwritten_summary_def)

lemma run_not_failed:
  assumes "run_adapter_batch lib env clock adapter st = (Inr s, st')" and "rs_status s \<noteq> BatchFailed"
  obtains r st1 where "sa_run adapter = Inr r" "key_mismatch lib (sa_key adapter) r = None"
    "summary_from_result lib env clock (sa_mode adapter) r st = (Inr s, st1)"
    "write_summary env s st1 = (Inr (), st')"
proof (rule run_adapter_batch_cases [of lib env clock adapter st])
  fix s' st1 st2 assume j: "judge_adapter_run lib env clock adapter st = (Inr s', st1)"
    and w: "write_summary env s' st1 = (Inr (), st2)"
    and "run_adapter_batch lib env clock adapter st = (Inr s', st2)"
  then have eq: "s' = s" "st2 = st'" using assms(1) by simp_all
  from judge_not_failed [OF j [unfolded eq] assms(2)] w eq show thesis using that by metis
qed (use assms in auto)

lemma no_key_mismatch:
  assumes "key_mismatch lib key r = None"
  shows "ar_adapter_key r = key" and "\<forall>e\<in>set (ar_normalized r). ne_adapter_key e = key"
proof -
  from assms show key: "ar_adapter_key r = key"
    by (simp add: key_mismatch_def split: if_splits)
  with assms have "find (\<lambda>(i, e). ne_adapter_key e \<noteq> key \<or> ne_adapter_key e \<noteq> ar_adapter_key r)
      (enumerate 0 (ar_normalized r)) = None"
    by (simp add: key_mismatch_def split: option.splits prod.splits)
  then have "\<forall>p\<in>set (enumerate 0 (ar_normalized r)). ne_adapter_key (snd p) = key"
    by (auto simp: find_None_iff)
  then have "\<forall>e\<in>snd ` set (enumerate 0 (ar_normalized r)). ne_adapter_key e = key" by blast
  then show "\<forall>e\<in>set (ar_normalized r). ne_adapter_key e = key"
    by (simp only: set_map [symmetric] map_snd_enumerate)
qed

lemma empty_fetch_status:
  "rs_status (empty_fetch_summary r clock mode) = BatchSucceeded \<longleftrightarrow>
     ar_adapter_key r \<in> set valid_empty_warning_adapter_keys \<and> ar_no_active_event r
     \<and> ar_normalized r = [] \<and> ar_rejected r = [] \<and> ar_station_inventory_proof r = None"
  "rs_status (empty_fetch_summary r clock mode) \<noteq> BatchPartial"
  by (simp_all add: empty_fetch_summary_def Let_def)

lemma empty_fetch_simps [simp]:
  "rs_adapter_key (empty_fetch_summary r clock mode) = ar_adapter_key r"
  "rs_items_fetched (empty_fetch_summary r clock mode) = 0"
  "rs_items_promoted (empty_fetch_summary r clock mode) = 0"
  "rs_snapshot_activation_eligible (empty_fetch_summary r clock mode) = False"
  "rs_event_active_from_min (empty_fetch_summary r clock mode) = None"
  by (simp_all add: empty_fetch_summary_def Let_def with_error_def summary_with_def)

lemma staged_simps [simp]:
  "rs_adapter_key (staged_summary r batch window clock mode) = ar_adapter_key r"
  "rs_items_fetched (staged_summary r batch window clock mode) = int (length (ar_fetched r))"
  "rs_items_promoted (staged_summary r batch window clock mode) = int (length (sb_accepted batch))"
  "rs_items_rejected (staged_summary r batch window clock mode) =
     int (length (sb_rejected batch) + length (sb_rejected_raw_source_ids batch))"
  "rs_snapshot_generation_mode (staged_summary r batch window clock mode) = mode"
  "rs_snapshot_activation_eligible (staged_summary r batch window clock mode) =
     snapshot_activation_eligible batch mode"
  "rs_event_active_from_min (staged_summary r batch window clock mode) = map_option fst window"
  "rs_event_active_until_max (staged_summary r batch window clock mode) = map_option snd window"
  "rs_status (staged_summary r batch window clock mode) =
     (if length (sb_rejected batch) + length (sb_rejected_raw_source_ids batch) = 0
      then BatchSucceeded else BatchPartial)"
  by (simp_all add: staged_summary_def Let_def with_error_def summary_with_def)

lemma failed_simps [simp]:
  "rs_adapter_key (failed_summary a c f j e) = sa_key a"
  "rs_snapshot_activation_eligible (failed_summary a c f j e) = False"
  by (simp_all add: failed_summary_def with_error_def summary_with_def)

lemma unwritten_simps [simp]:
  "rs_adapter_key (unwritten_summary s c e) = rs_adapter_key s"
  "rs_snapshot_activation_eligible (unwritten_summary s c e) = rs_snapshot_activation_eligible s"
  "rs_snapshot_generation_mode (unwritten_summary s c e) = rs_snapshot_generation_mode s"
  "rs_items_promoted (unwritten_summary s c e) = rs_items_promoted s"
  "rs_items_rejected (unwritten_summary s c e) = rs_items_rejected s"
  by (simp_all add: unwritten_summary_def with_error_def)

lemma persist_writes:
  assumes "persist_staging_batch env batch st = (Inr (), st1)" and "write_summary env s st1 = (Inr (), st')"
  shows "is_batches st' = is_batches st @ (if in_batch_writer env = None then [] else [batch])
    \<and> is_summaries st' = is_summaries st @ (if in_summary_writer env = None then [] else [s])"
  using persist_result [OF assms(1)] write_summary_result [OF assms(2)] by (auto split: option.splits)

text \<open>
  C11. A batch whose summary says it succeeded, wholly or in part, is backed by a run of the adapter under
  its own key. Either the run is a valid poll of a warning source without an event, or all of its
  items were staged, the batch and the summary were written where there are writers for them, the
  counts are those of the batch, and full success means that nothing was rejected.
\<close>

theorem successful_batch_is_written:
  assumes run: "run_adapter_batch lib env clock adapter st = (Inr s, st')"
    and "rs_status s \<in> {BatchSucceeded, BatchPartial}"
  shows "\<exists>r. sa_run adapter = Inr r \<and> rs_adapter_key s = sa_key adapter
    \<and> (\<forall>e\<in>set (ar_normalized r). ne_adapter_key e = sa_key adapter)
    \<and> is_summaries st' = is_summaries st @ (if in_summary_writer env = None then [] else [s])
    \<and> (ar_fetched r = [] \<and> ar_no_active_event r \<and> ar_normalized r = [] \<and> ar_rejected r = []
         \<and> sa_key adapter \<in> set valid_empty_warning_adapter_keys \<and> is_batches st' = is_batches st
       \<or> (\<exists>batch. build_staging_batch lib r None (Some (utc_at (bc_started clock))) (sa_mode adapter) =
                Inr batch
            \<and> is_batches st' = is_batches st @ (if in_batch_writer env = None then [] else [batch])
            \<and> rs_items_promoted s = int (length (sb_accepted batch))
            \<and> rs_items_rejected s = int (length (sb_rejected batch) + length (ar_rejected r))
            \<and> (rs_status s = BatchSucceeded \<longleftrightarrow> rs_items_rejected s = 0)))"
proof -
  have "rs_status s \<noteq> BatchFailed" using assms(2) by auto
  from run_not_failed [OF run this] obtain r st1 where r: "sa_run adapter = Inr r"
    and m: "key_mismatch lib (sa_key adapter) r = None"
    and f: "summary_from_result lib env clock (sa_mode adapter) r st = (Inr s, st1)"
    and w: "write_summary env s st1 = (Inr (), st')" by blast
  note keys = no_key_mismatch [OF m]
  from f show ?thesis
  proof (cases rule: summary_from_result_Inr)
    case polled
    then have "rs_status s = BatchSucceeded" using assms(2) empty_fetch_status(2) by auto
    then have "ar_no_active_event r" "ar_normalized r = []" "ar_rejected r = []"
      "sa_key adapter \<in> set valid_empty_warning_adapter_keys"
      using polled(3) empty_fetch_status(1) keys(1) by auto
    then show ?thesis using polled r keys write_summary_result [OF w] by auto
  next
    case (staged batch window)
    then have "sb_rejected_raw_source_ids batch = ar_rejected r"
      by (auto elim!: build_staging_batch_Inr)
    then have batch: "rs_items_promoted s = int (length (sb_accepted batch))
        \<and> rs_items_rejected s = int (length (sb_rejected batch) + length (ar_rejected r))
        \<and> (rs_status s = BatchSucceeded \<longleftrightarrow> rs_items_rejected s = 0)
        \<and> rs_adapter_key s = sa_key adapter"
      unfolding staged(4) using keys(1) by (simp add: of_nat_eq_0_iff del: of_nat_add)
    show ?thesis
      by (intro exI [of _ r] conjI disjI2 exI [of _ batch])
        (use batch r keys(2) staged(1) persist_writes [OF staged(3) w] in simp_all)
  qed
qed

text \<open>Any summary of a batch: the adapter or its staging failed, or the run was judged.\<close>

lemma judge_cases:
  assumes "judge_adapter_run lib env clock adapter st = (Inr s, st')"
  obtains (failed) "rs_status s = BatchFailed" "\<not> rs_snapshot_activation_eligible s"
      "rs_adapter_key s = sa_key adapter" "rs_event_active_from_min s = None"
  | (judged) r where "sa_run adapter = Inr r" "key_mismatch lib (sa_key adapter) r = None"
      "summary_from_result lib env clock (sa_mode adapter) r st = (Inr s, st')"
  using assms
  by (auto simp: judge_adapter_run_def wreturn_eq wcatch_Inr wbind_Inr validate_adapter_result_identity_def
      failed_summary_def with_error_def summary_with_def split: sum.splits option.splits)

lemma eligible_facts:
  assumes "snapshot_activation_eligible batch mode"
  shows "mode = Some CompleteReplace \<and> sb_accepted batch \<noteq> [] \<and> sb_rejected batch = []
    \<and> 3 * length (sb_rejected_raw_source_ids batch) \<le> length (sb_accepted batch)"
proof -
  let ?a = "length (sb_accepted batch)" and ?j = "length (sb_rejected_raw_source_ids batch)"
  from assms have m: "mode = Some CompleteReplace" "sb_accepted batch \<noteq> []" "sb_rejected batch = []"
    and q: "(3 / 4 :: rat) \<le> of_nat ?a / of_nat (?a + ?j)"
    by (auto simp: snapshot_activation_eligible_def complete_replace_min_valid_fraction_def Let_def
        split: if_splits)
  from m(2) have "0 < ?a + ?j" by simp
  then have "0 < (of_nat (?a + ?j) :: rat)" by (simp only: of_nat_0_less_iff)
  with q have "(3 / 4) * of_nat (?a + ?j) \<le> (of_nat ?a :: rat)" by (simp add: pos_le_divide_eq)
  then have "(of_nat (3 * ?j) :: rat) \<le> of_nat ?a" by simp
  then have "3 * ?j \<le> ?a" by (simp only: of_nat_le_iff)
  with m show ?thesis by simp
qed

text \<open>
  A run may replace a whole snapshot only under complete replacement, with at least one accepted
  row, none of the normalized items rejected and at most one source item in four refused; also
  where its summary could not be written.
\<close>

theorem activation_needs_a_sound_snapshot:
  assumes run: "run_adapter_batch lib env clock adapter st = (Inr s, st')"
    and e: "rs_snapshot_activation_eligible s"
  shows "rs_snapshot_generation_mode s = Some CompleteReplace \<and> 0 < rs_items_promoted s
    \<and> 3 * rs_items_rejected s \<le> rs_items_promoted s
    \<and> (\<exists>r. sa_run adapter = Inr r \<and> rs_items_promoted s = int (length (ar_normalized r))
          \<and> rs_items_rejected s = int (length (ar_rejected r)))"
proof -
  have judged: "rs_snapshot_generation_mode s1 = Some CompleteReplace \<and> 0 < rs_items_promoted s1
      \<and> 3 * rs_items_rejected s1 \<le> rs_items_promoted s1
      \<and> (\<exists>r. sa_run adapter = Inr r \<and> rs_items_promoted s1 = int (length (ar_normalized r))
          \<and> rs_items_rejected s1 = int (length (ar_rejected r)))"
    if j: "judge_adapter_run lib env clock adapter st = (Inr s1, st1)"
      and el: "rs_snapshot_activation_eligible s1" for s1 st1
    using j
  proof (cases rule: judge_cases)
    case (judged r)
    from judged(3) show ?thesis
    proof (cases rule: summary_from_result_Inr)
      case (staged batch window)
      have el': "snapshot_activation_eligible batch (sa_mode adapter)" using el staged(4) by simp
      note f = eligible_facts [OF el']
      have raw: "sb_rejected_raw_source_ids batch = ar_rejected r"
        using staged(1) by (auto elim!: build_staging_batch_Inr)
      have "size (mset (map sg_evidence_id (sb_accepted batch @ sb_rejected batch))) =
          size (mset (map ne_evidence_id (ar_normalized r)))"
        using staging_ids [OF staged(1)] by simp
      then have "length (sb_accepted batch) = length (ar_normalized r)" using f by simp
      then show ?thesis using f raw judged(1) unfolding staged(4) by auto
    qed (use el in simp)
  qed (use el in simp)
  show ?thesis
  proof (rule run_adapter_batch_cases [of lib env clock adapter st])
    fix s1 st1 st2 assume "judge_adapter_run lib env clock adapter st = (Inr s1, st1)"
      and "run_adapter_batch lib env clock adapter st = (Inr s1, st2)"
    then show ?thesis using judged run e by simp
  next
    fix s1 st1 x st2 assume j: "judge_adapter_run lib env clock adapter st = (Inr s1, st1)"
      and "run_adapter_batch lib env clock adapter st = (Inr (unwritten_summary s1 clock x), st2)"
    then have "s = unwritten_summary s1 clock x" using run by simp
    then show ?thesis using judged [OF j] e by simp
  qed
qed

text \<open>
  C10. Reviewed warnings are retired by a run only if the adapter itself reported that no event is active,
  nothing was rejected, and either nothing was fetched or every fetched item was accepted and is a
  cancellation.
\<close>

theorem warnings_retired_only_on_audited_runs:
  assumes run: "run_adapter_batch lib env clock adapter st = (Inr s, st')"
    and q: "is_successful_no_active_warning_summary s"
  shows "\<exists>r. sa_run adapter = Inr r \<and> sa_key adapter \<in> set warning_event_adapter_keys
    \<and> ar_no_active_event r \<and> ar_rejected r = [] \<and> ar_station_inventory_proof r = None
    \<and> (ar_fetched r = [] \<and> ar_normalized r = []
       \<or> sa_key adapter = ncdr_cap_adapter_key \<and> ar_source_rejections r = []
         \<and> (\<exists>batch. build_staging_batch lib r None (Some (utc_at (bc_started clock))) (sa_mode adapter) =
                Inr batch
            \<and> length (sb_accepted batch) = length (ar_fetched r) \<and> sb_rejected batch = []
            \<and> (\<forall>row\<in>set (sb_accepted batch).
                 dict_get (sg_payload row) ''cap_message_type'' = PyStr ''Cancel'')))"
proof -
  from q have ok: "rs_status s = BatchSucceeded" "rs_error_code s = Some ''no_active_event''"
    "rs_adapter_key s \<in> set warning_event_adapter_keys"
    by (simp_all add: is_successful_no_active_warning_summary_def split: if_splits)
  from ok(1) have "rs_status s \<noteq> BatchFailed" by simp
  from run_not_failed [OF run this] obtain r st1 where r: "sa_run adapter = Inr r"
    and m: "key_mismatch lib (sa_key adapter) r = None"
    and f: "summary_from_result lib env clock (sa_mode adapter) r st = (Inr s, st1)" by blast
  note key = no_key_mismatch(1) [OF m]
  from f show ?thesis
  proof (cases rule: summary_from_result_Inr)
    case polled
    then show ?thesis using ok r key empty_fetch_status(1) [of r clock "sa_mode adapter"] by auto
  next
    case (staged batch window)
    have "is_valid_cancel_only_no_active_result r batch (sa_mode adapter)
        (snapshot_activation_eligible batch (sa_mode adapter))"
      using ok(2) unfolding staged(4)
      by (rule_tac ccontr) (simp add: staged_summary_def Let_def summary_with_def)
    then show ?thesis
      using ok(3) key r staged(1) unfolding staged(4)
      by (intro exI [of _ r] conjI disjI2 exI [of _ batch])
        (simp_all add: is_valid_cancel_only_no_active_result_def list_all_iff)
  qed
qed

lemma parse_observed_aware: "parse_observed_at_utc lib v = Some a \<Longrightarrow> is_aware a"
  by (auto simp: parse_observed_at_utc_def)

lemma window_of_Inr:
  assumes "window_of lib ev row = Inr (Some (a, b))"
  shows "is_aware a \<and> is_aware b \<and> normalized_utc a \<le> normalized_utc ev
    \<and> normalized_utc ev < normalized_utc b
    \<and> dict_get (sg_payload row) ''cap_message_type'' \<in> PyStr ` {''Alert'', ''Update''}"
proof -
  from assms have k: "in_strings (dict_get (sg_payload row) ''cap_message_type'') [''Alert'', ''Update''] = Inr True"
    and p: "parse_observed_at_utc lib (dict_get (sg_payload row) ''active_from'') = Some a"
      "parse_observed_at_utc lib (dict_get (sg_payload row) ''active_until'') = Some b"
    and b: "before ev a = Inr False" "before ev b = Inr True"
    by (auto simp: window_of_def obind_Inr_iff split: if_splits option.splits)
  have aware: "is_aware a" "is_aware b" using p parse_observed_aware by blast+
  moreover have "is_aware ev" using before_Inr [OF b(1)] aware by simp
  ultimately show ?thesis using b k in_strings_True
    by (simp add: not_less)
qed

lemma active_window_facts:
  assumes "validated_warning_active_window lib r batch ev = Inr (Some (a, b))"
  shows "normalized_utc a \<le> normalized_utc ev \<and> normalized_utc ev < normalized_utc b
    \<and> ar_adapter_key r \<in> set warning_event_adapter_keys
    \<and> (\<exists>row\<in>set (sb_accepted batch).
         dict_get (sg_payload row) ''cap_message_type'' \<in> PyStr ` {''Alert'', ''Update''})"
proof -
  from assms obtain ws where
    t: "otraverse (window_of lib ev) (sb_accepted batch) = Inr ws"
    and c: "(case present ws of [] \<Rightarrow> Inr None
      | (a, b) # rest \<Rightarrow> obind (min_datetime a (map fst rest)) (\<lambda>a'.
          obind (max_datetime b (map snd rest)) (\<lambda>b'. Inr (Some (a', b'))))) = Inr (Some (a, b))"
    and key: "ar_adapter_key r \<in> set warning_event_adapter_keys"
    by (auto simp: validated_warning_active_window_def obind_Inr_iff split: if_splits)
  from c obtain x y rest where ws: "present ws = (x, y) # rest"
    and mm: "min_datetime x (map fst rest) = Inr a" "max_datetime y (map snd rest) = Inr b"
    by (cases "present ws") (auto simp: obind_Inr_iff)
  have w: "\<exists>row\<in>set (sb_accepted batch). window_of lib ev row = Inr (Some p)"
    if "p \<in> set ((x, y) # rest)" for p
  proof -
    have "Some p \<in> set ws" using that ws [symmetric] by (auto simp: present_def set_map_filter)
    then show ?thesis using t unfolding otraverse_Inr_iff by (blast dest: list_all2_mem2)
  qed
  have f: "is_aware (fst p) \<and> is_aware (snd p) \<and> normalized_utc (fst p) \<le> normalized_utc ev
      \<and> normalized_utc ev < normalized_utc (snd p)" if p: "p \<in> set ((x, y) # rest)" for p
  proof -
    obtain row where "window_of lib ev row = Inr (Some (fst p, snd p))" using w [OF p] by auto
    from window_of_Inr [OF this] show ?thesis by blast
  qed
  have x: "\<forall>z\<in>set (x # map fst rest). is_aware z \<and> normalized_utc z \<le> normalized_utc ev"
    and y: "\<forall>z\<in>set (y # map snd rest). is_aware z \<and> normalized_utc ev < normalized_utc z"
    using f [of "(x, y)"] f by auto
  have "normalized_utc a \<le> normalized_utc ev"
    using min_datetime_aware [OF mm(1)] x by blast
  moreover have "normalized_utc ev < normalized_utc b"
    using max_datetime_aware [OF mm(2)] y by blast
  moreover obtain row where "row \<in> set (sb_accepted batch)" "window_of lib ev row = Inr (Some (x, y))"
    using w [of "(x, y)"] by auto
  ultimately show ?thesis using key window_of_Inr by blast
qed

text \<open>
  The active window in a summary starts no later than the fetch it was judged at and ends after it,
  and an accepted alert or update of a reviewed warning source is behind it.
\<close>

theorem published_warning_window_is_in_force:
  assumes run: "run_adapter_batch lib env clock adapter st = (Inr s, st')"
    and a: "rs_event_active_from_min s = Some a"
  shows "\<exists>b r batch. rs_event_active_until_max s = Some b \<and> sa_run adapter = Inr r
    \<and> sa_key adapter \<in> set warning_event_adapter_keys
    \<and> build_staging_batch lib r None (Some (utc_at (bc_started clock))) (sa_mode adapter) = Inr batch
    \<and> normalized_utc a \<le> normalized_utc (rw_fetched_at (sb_raw_snapshot batch))
    \<and> normalized_utc (rw_fetched_at (sb_raw_snapshot batch)) < normalized_utc b
    \<and> (\<exists>row\<in>set (sb_accepted batch).
         dict_get (sg_payload row) ''cap_message_type'' \<in> PyStr ` {''Alert'', ''Update''})"
proof -
  have "\<exists>s1 st1. judge_adapter_run lib env clock adapter st = (Inr s1, st1)
      \<and> rs_event_active_from_min s1 = Some a
      \<and> rs_event_active_until_max s1 = rs_event_active_until_max s"
    by (rule run_adapter_batch_cases [of lib env clock adapter st])
      (use run a in \<open>auto simp: unwritten_summary_def with_error_def\<close>)
  then obtain s1 st1 where j: "judge_adapter_run lib env clock adapter st = (Inr s1, st1)"
    and a1: "rs_event_active_from_min s1 = Some a"
      "rs_event_active_until_max s1 = rs_event_active_until_max s" by blast
  from j show ?thesis
  proof (cases rule: judge_cases)
    case (judged r)
    note key = no_key_mismatch(1) [OF judged(2)]
    from judged(3) show ?thesis
    proof (cases rule: summary_from_result_Inr)
      case (staged batch window)
      obtain b where w: "window = Some (a, b)" using a1(1) unfolding staged(4) by auto
      then have "rs_event_active_until_max s = Some b" using a1(2) unfolding staged(4) by simp
      then show ?thesis
        using active_window_facts [OF staged(2) [unfolded w]] staged(1) judged(1) key by metis
    qed (use a1 in simp)
  qed (use a1 in simp)
qed

lemma run_batch_key:
  assumes "run_adapter_batch lib env clock adapter st = (Inr s, st')"
  shows "rs_adapter_key s = sa_key adapter"
proof -
  have j: "rs_adapter_key s1 = sa_key adapter"
    if "judge_adapter_run lib env clock adapter st = (Inr s1, st1)" for s1 st1
    using that
    by (cases rule: judge_cases) (auto elim!: summary_from_result_Inr dest: no_key_mismatch(1))
  show ?thesis
    by (rule run_adapter_batch_cases [of lib env clock adapter st]) (use assms j in auto)
qed

lemma writes_keep_pipeline:
  "persist_staging_batch env batch st = (x, st') \<Longrightarrow> ws_pipeline st' = ws_pipeline st"
  "write_summary env s st = (y, st') \<Longrightarrow> ws_pipeline st' = ws_pipeline st"
  by (auto simp: persist_staging_batch_def write_summary_def Let_def split: option.splits)

lemma summary_keeps_pipeline:
  "summary_from_result lib env clock mode r st = (x, st') \<Longrightarrow> ws_pipeline st' = ws_pipeline st"
  by (auto simp: summary_from_result_def wreturn_def wbind_def
      split: if_splits sum.splits prod.splits dest!: writes_keep_pipeline(1))

lemma judge_keeps_pipeline:
  "judge_adapter_run lib env clock adapter st = (x, st') \<Longrightarrow> ws_pipeline st' = ws_pipeline st"
  by (auto simp: judge_adapter_run_def wreturn_def wcatch_def wbind_def validate_adapter_result_identity_def
      split: sum.splits prod.splits option.splits dest!: summary_keeps_pipeline)

lemma run_batch_keeps_pipeline:
  assumes "run_adapter_batch lib env clock adapter st = (x, st')"
  shows "ws_pipeline st' = ws_pipeline st"
  by (rule run_adapter_batch_cases [of lib env clock adapter st])
    (use assms in \<open>auto dest!: judge_keeps_pipeline writes_keep_pipeline(2)\<close>)

lemma run_batches_total:
  "\<exists>ss st'. run_adapter_batches lib env clocks n as st = (Inr ss, st')
     \<and> map rs_adapter_key ss = map sa_key as \<and> ws_pipeline st' = ws_pipeline st"
proof (induction as arbitrary: n st)
  case (Cons a as)
  obtain s st1 where s: "run_adapter_batch lib env (clocks n) a st = (Inr s, st1)"
    using run_adapter_batch_total by blast
  obtain ss st2 where "run_adapter_batches lib env clocks (Suc n) as st1 = (Inr ss, st2)"
    "map rs_adapter_key ss = map sa_key as" "ws_pipeline st2 = ws_pipeline st1"
    using Cons.IH by blast
  then show ?case using s run_batch_key [OF s] run_batch_keeps_pipeline [OF s]
    by (simp add: wbind_def wreturn_def)
qed (simp add: wreturn_def)

lemma map_filter_keys:
  "(\<And>k a. (k, a) \<in> set m \<Longrightarrow> g a = k) \<Longrightarrow>
   map g (List.map_filter (map_of m) keys) = filter (\<lambda>k. map_of m k \<noteq> None) keys"
  by (induction keys) (auto simp: map_filter_Cons' List.map_filter_simps split: option.splits dest: map_of_SomeD)

lemma record_pipeline_written:
  assumes "\<forall>w n en. we_pipeline_writer env = Some w \<longrightarrow> w n en = None"
  shows "\<exists>st'. record_pipeline_status env keys ok fin t st = (Inr (), st')
    \<and> (we_pipeline_writer env \<noteq> None \<and> keys \<noteq> [] \<longrightarrow>
         (\<exists>en. ws_pipeline st' = ws_pipeline st @ [en] \<and> pe_adapter_keys en = keys
            \<and> pe_succeeded en = ok))"
proof (cases "we_pipeline_writer env")
  case (Some w)
  then show ?thesis using assms by (cases "keys = []") (simp_all add: record_pipeline_status_def record_pipeline_entry_def Let_def)
qed (simp add: record_pipeline_status_def record_pipeline_entry_def)

text \<open>
  C14. One run of the enabled adapters answers a summary for each of them that is available, in the order
  in which they are enabled, whatever adapters, staging, batch writers and summary writers raise; the
  enabled adapters that are not available are recorded as failed. Only the writers of selections and
  pipeline statuses can stop it.
\<close>

theorem every_available_adapter_is_summed_up:
  assumes keys: "\<forall>(k, a)\<in>set adapters. sa_key a = k"
    and sel: "\<forall>w n ks. we_selection_writer env = Some w \<longrightarrow> w n ks = None"
    and pip: "\<forall>w n en. we_pipeline_writer env = Some w \<longrightarrow> w n en = None"
  shows "\<exists>ss st'. run_enabled_adapter_batches lib env clocks checked_at adapters (Inr enabled) reported
      write_selection run_at st = (Inr ss, st')
    \<and> map rs_adapter_key ss = filter (\<lambda>k. map_of adapters k \<noteq> None) enabled
    \<and> (let missing = filter (\<lambda>k. map_of adapters k = None) enabled in
       we_pipeline_writer env \<noteq> None \<and> missing \<noteq> [] \<longrightarrow>
         (\<exists>entry. ws_pipeline st' = ws_pipeline st @ [entry]
            \<and> pe_adapter_keys entry = missing \<and> \<not> pe_succeeded entry))"
proof -
  let ?missing = "filter (\<lambda>k. map_of adapters k = None) enabled"
  obtain st1 where st1: "(if write_selection
      then record_runtime_selection env (case reported of None \<Rightarrow> enabled | Some ks \<Rightarrow> ks) else wreturn ()) st
      = (Inr (), st1)" "ws_pipeline st1 = ws_pipeline st"
    using sel by (cases write_selection; cases "we_selection_writer env")
      (simp_all add: record_runtime_selection_def wreturn_def Let_def)
  obtain run st2 where st2: "(case run_at of None \<Rightarrow> utc_at checked_at | Some t \<Rightarrow> t) = run"
      "record_pipeline_status env ?missing False False run st1 = (Inr (), st2)"
    and entry: "we_pipeline_writer env \<noteq> None \<and> ?missing \<noteq> [] \<longrightarrow>
      (\<exists>en. ws_pipeline st2 = ws_pipeline st1 @ [en] \<and> pe_adapter_keys en = ?missing \<and> \<not> pe_succeeded en)"
    using record_pipeline_written [OF pip, of ?missing False False _ st1] by metis
  obtain ss st' where ss: "run_adapter_batches lib env clocks 0 (List.map_filter (map_of adapters) enabled) st2
      = (Inr ss, st')"
    "map rs_adapter_key ss = map sa_key (List.map_filter (map_of adapters) enabled)"
    "ws_pipeline st' = ws_pipeline st2" using run_batches_total by blast
  have "run_enabled_adapter_batches lib env clocks checked_at adapters (Inr enabled) reported
      write_selection run_at st = (Inr ss, st')"
    unfolding run_enabled_adapter_batches_def wbind_def using st1 st2 ss by simp
  then show ?thesis using ss entry st1(2) map_filter_keys [of adapters sa_key enabled] keys by auto
qed

section \<open>Concrete batches\<close>

definition sample_ingest_env :: ingest_env where
  "sample_ingest_env =
     \<lparr> we_pipeline_writer = Some (\<lambda>_ _. None), we_selection_writer = Some (\<lambda>_ _. None),
       in_batch_writer = Some (\<lambda>_ _. None), in_summary_writer = Some (\<lambda>_ _. None) \<rparr>"

definition nothing_written :: ingest_state where
  "nothing_written =
     \<lparr> ws_pipeline = [], ws_selections = [], ws_writes = 0, is_batches = [], is_summaries = [] \<rparr>"

definition sample_batch_clock :: batch_clock where
  "sample_batch_clock = \<lparr> bc_started = 2, bc_finished = 6, bc_failed = 6, bc_unwritten = 7 \<rparr>"

definition sample_cap_adapter :: "string \<Rightarrow> source_adapter" where
  "sample_cap_adapter kind =
     \<lparr> sa_key = ''official.ncdr.cap'', sa_mode = Some CompleteReplace,
       sa_run = Inr ((sample_run kind)\<lparr> ar_normalized := [sample_warning],
         ar_no_active_event := (kind = ''Cancel'') \<rparr>) \<rparr>"

definition sample_batch_run :: "string \<Rightarrow> run_summary outcome \<times> ingest_state" where
  "sample_batch_run kind =
     run_adapter_batch sample_library sample_ingest_env sample_batch_clock (sample_cap_adapter kind)
       nothing_written"

definition sample_run_summary :: "string \<Rightarrow> run_summary" where
  "sample_run_summary kind = projr (fst (sample_batch_run kind))"

lemma sample_batch_run_eq:
  "run_adapter_batch sample_library sample_ingest_env sample_batch_clock (sample_cap_adapter kind)
     nothing_written = (Inr (sample_run_summary kind), snd (sample_batch_run kind))"
  using run_adapter_batch_total [of sample_library sample_ingest_env sample_batch_clock
      "sample_cap_adapter kind" nothing_written]
  by (auto simp: sample_run_summary_def sample_batch_run_def)

lemma successful_batch_is_written_witness:
  "rs_status (sample_run_summary ''Update'') = BatchSucceeded
   \<and> is_summaries (snd (sample_batch_run ''Update'')) = [sample_run_summary ''Update'']"
proof
  show ok: "rs_status (sample_run_summary ''Update'') = BatchSucceeded" by code_simp
  show "is_summaries (snd (sample_batch_run ''Update'')) = [sample_run_summary ''Update'']"
    using successful_batch_is_written [OF sample_batch_run_eq, of "''Update''"] ok
    by (auto simp: sample_ingest_env_def nothing_written_def)
qed

lemma activation_needs_a_sound_snapshot_witness:
  "rs_snapshot_activation_eligible (sample_run_summary ''Update'')
   \<and> 0 < rs_items_promoted (sample_run_summary ''Update'')"
proof
  show e: "rs_snapshot_activation_eligible (sample_run_summary ''Update'')" by code_simp
  show "0 < rs_items_promoted (sample_run_summary ''Update'')"
    using activation_needs_a_sound_snapshot [OF sample_batch_run_eq e] by blast
qed

lemma warnings_retired_only_on_audited_runs_witness:
  "is_successful_no_active_warning_summary (sample_run_summary ''Cancel'')
   \<and> (\<exists>r. sa_run (sample_cap_adapter ''Cancel'') = Inr r \<and> ar_no_active_event r)"
proof
  show q: "is_successful_no_active_warning_summary (sample_run_summary ''Cancel'')" by code_simp
  show "\<exists>r. sa_run (sample_cap_adapter ''Cancel'') = Inr r \<and> ar_no_active_event r"
    using warnings_retired_only_on_audited_runs [OF sample_batch_run_eq q] by blast
qed

lemma published_warning_window_is_in_force_witness:
  "rs_event_active_from_min (sample_run_summary ''Update'') = Some (Aware (AwareAt 3 0))
   \<and> (\<exists>b. rs_event_active_until_max (sample_run_summary ''Update'') = Some b)"
proof
  show a: "rs_event_active_from_min (sample_run_summary ''Update'') = Some (Aware (AwareAt 3 0))"
    by code_simp
  show "\<exists>b. rs_event_active_until_max (sample_run_summary ''Update'') = Some b"
    using published_warning_window_is_in_force [OF sample_batch_run_eq a] by blast
qed

lemma every_available_adapter_is_summed_up_witness:
  "\<exists>ss st'. run_enabled_adapter_batches sample_library sample_ingest_env (\<lambda>_. sample_batch_clock) 1
      [(''official.ncdr.cap'', sample_cap_adapter ''Update'')]
      (Inr [''official.cwa.rainfall'', ''official.ncdr.cap'']) None True None nothing_written = (Inr ss, st')
    \<and> map rs_adapter_key ss = [''official.ncdr.cap'']
    \<and> map pe_adapter_keys (ws_pipeline st') = [[''official.cwa.rainfall'']]"
proof -
  let ?adapters = "[(''official.ncdr.cap'', sample_cap_adapter ''Update'')]"
  let ?enabled = "[''official.cwa.rainfall'', ''official.ncdr.cap'']"
  have "\<exists>ss st'. run_enabled_adapter_batches sample_library sample_ingest_env (\<lambda>_. sample_batch_clock) 1
      ?adapters (Inr ?enabled) None True None nothing_written = (Inr ss, st')
    \<and> map rs_adapter_key ss = filter (\<lambda>k. map_of ?adapters k \<noteq> None) ?enabled
    \<and> (let missing = filter (\<lambda>k. map_of ?adapters k = None) ?enabled in
       we_pipeline_writer sample_ingest_env \<noteq> None \<and> missing \<noteq> [] \<longrightarrow>
         (\<exists>entry. ws_pipeline st' = ws_pipeline nothing_written @ [entry]
            \<and> pe_adapter_keys entry = missing \<and> \<not> pe_succeeded entry))"
    by (rule every_available_adapter_is_summed_up)
      (simp_all add: sample_cap_adapter_def sample_ingest_env_def)
  then show ?thesis by (auto simp: sample_ingest_env_def nothing_written_def)
qed

end
