(* ===== verification/Source_Freshness.thy ===== *)
theory Source_Freshness
  imports Batch_Ingestion
begin

text \<open>
  The freshness check of the workers, \<open>apps/workers/app/jobs/freshness.py\<close>, over the run summary of
  an adapter batch from \<open>apps/workers/app/jobs/ingestion.py\<close>. The clock is a parameter; log events
  are left out. A check that finds a source stale or failed is an alert and fails the job of the
  batch.
\<close>

section \<open>Cadences and thresholds\<close>

datatype freshness_status = SourceFresh | SourceDegraded | SourceStale | SourceFailed

datatype freshness_cadence = RealtimeCadence | EventCadence | StaticCadence | LegacyCadence

fun freshness_status_rank :: "freshness_status \<Rightarrow> nat" where
  "freshness_status_rank SourceFresh = 0"
| "freshness_status_rank SourceDegraded = 1"
| "freshness_status_rank SourceStale = 2"
| "freshness_status_rank SourceFailed = 3"

fun freshness_status_name :: "freshness_status \<Rightarrow> string" where
  "freshness_status_name SourceFresh = ''fresh''"
| "freshness_status_name SourceDegraded = ''degraded''"
| "freshness_status_name SourceStale = ''stale''"
| "freshness_status_name SourceFailed = ''failed''"

lemma freshness_status_rank_inj: "freshness_status_rank a = freshness_status_rank b \<Longrightarrow> a = b"
  by (cases a; cases b) simp_all

instantiation freshness_status :: linorder
begin

definition less_eq_freshness_status :: "freshness_status \<Rightarrow> freshness_status \<Rightarrow> bool" where
  "less_eq_freshness_status a b \<longleftrightarrow> freshness_status_rank a \<le> freshness_status_rank b"

definition less_freshness_status :: "freshness_status \<Rightarrow> freshness_status \<Rightarrow> bool" where
  "less_freshness_status a b \<longleftrightarrow> freshness_status_rank a < freshness_status_rank b"

instance
  by standard
    (auto simp: less_eq_freshness_status_def less_freshness_status_def
      intro: freshness_status_rank_inj)

end

definition realtime_thresholds :: "int \<times> int \<times> int" where
  "realtime_thresholds = (30 * 60, 90 * 60, 3 * 60 * 60)"

definition realtime_thresholds_by_adapter :: "(string \<times> int \<times> int \<times> int) list" where
  "realtime_thresholds_by_adapter =
     [(''official.cwa.tide_level'', (90 * 60, 2 * 60 * 60, 3 * 60 * 60)),
      (''official.wra_iow.flood_depth'', (90 * 60, 2 * 60 * 60, 3 * 60 * 60))]"

definition realtime_adapter_keys :: "string list" where
  "realtime_adapter_keys =
     [''official.cwa.rainfall'', ''official.cwa.tide_level'', ''official.wra.water_level'',
      ''official.wra_iow.flood_depth'', ''official.civil_iot.flood_sensor'',
      ''official.civil_iot.river_water_level'', ''official.civil_iot.pond_water_level'',
      ''official.civil_iot.sewer_water_level'', ''official.civil_iot.pump_water_level'',
      ''official.civil_iot.gate_water_level'', ''local.taipei.sewer_water_level'',
      ''local.taipei.river_water_level'', ''local.taipei.pump_station'',
      ''local.taoyuan.flood_sensor'', ''local.taoyuan.water_level'', ''local.taoyuan.rainfall'',
      ''local.chiayi_city.water_level'', ''local.chiayi_city.rainfall'',
      ''local.taichung.water_level'', ''local.tainan.flood_sensor'']"

definition static_slow_cadence_adapter_keys :: "string list" where
  "static_slow_cadence_adapter_keys =
     [''official.wra.historical_flood'', ''official.nstc.flood_disaster_points'',
      ''official.flood_potential.geojson'']"

definition cadence_for_adapter :: "string \<Rightarrow> freshness_cadence" where
  "cadence_for_adapter key =
     (if key \<in> set static_slow_cadence_adapter_keys then StaticCadence
      else if key \<in> set warning_event_adapter_keys then EventCadence
      else if key \<in> set realtime_adapter_keys then RealtimeCadence
      else LegacyCadence)"

section \<open>Checks\<close>

record freshness_check =
  fc_adapter_key :: string
  fc_status :: freshness_status
  fc_checked_at :: py_datetime
  fc_max_age_seconds :: int
  fc_cadence :: freshness_cadence
  fc_source_timestamp_max :: "py_datetime option"
  fc_age_seconds :: "int option"
  fc_reason :: "string option"

definition is_alert :: "freshness_check \<Rightarrow> bool" where
  "is_alert c =
     (if fc_cadence c = EventCadence then fc_status c = SourceFailed
      else fc_status c \<in> {SourceStale, SourceFailed})"

text \<open>\<open>max(0, int((later - earlier).total_seconds()))\<close> of two UTC values.\<close>

definition age_in_seconds :: "py_datetime \<Rightarrow> py_datetime \<Rightarrow> int" where
  "age_in_seconds later earlier = max 0 (int_seconds (normalized_utc later - normalized_utc earlier))"

definition realtime_thresholds_of :: "string \<Rightarrow> int \<times> int \<times> int" where
  "realtime_thresholds_of key =
     (case map_of realtime_thresholds_by_adapter key of
        Some t \<Rightarrow> t
      | None \<Rightarrow> realtime_thresholds)"

definition realtime_status :: "string \<Rightarrow> int \<Rightarrow> freshness_status" where
  "realtime_status key age =
     (case realtime_thresholds_of key of (fresh, degraded, stale) \<Rightarrow>
        if age \<le> fresh then SourceFresh
        else if age \<le> degraded then SourceDegraded
        else if age \<le> stale then SourceStale
        else SourceFailed)"

fun realtime_reason :: "freshness_status \<Rightarrow> string option" where
  "realtime_reason SourceFresh = None"
| "realtime_reason SourceDegraded = Some ''source data is older than fresh freshness threshold''"
| "realtime_reason SourceStale = Some ''source data is older than stale freshness threshold''"
| "realtime_reason SourceFailed = Some ''source data is older than failed freshness threshold''"

definition realtime_freshness_check ::
  "string \<Rightarrow> py_datetime \<Rightarrow> py_datetime \<Rightarrow> int \<Rightarrow> freshness_check" where
  "realtime_freshness_check key checked_at source_timestamp_max age =
     \<lparr> fc_adapter_key = key, fc_status = realtime_status key age, fc_checked_at = checked_at,
       fc_max_age_seconds = snd (snd (realtime_thresholds_of key)),
       fc_cadence = RealtimeCadence, fc_source_timestamp_max = Some source_timestamp_max,
       fc_age_seconds = Some age, fc_reason = realtime_reason (realtime_status key age) \<rparr>"

definition check_ncdr_cap_freshness ::
  "string \<Rightarrow> py_datetime option \<Rightarrow> py_datetime option \<Rightarrow> py_datetime \<Rightarrow> freshness_check" where
  "check_ncdr_cap_freshness key effective_at expires_at checked_at =
     (let now = aware_utc checked_at;
          answer = (\<lambda>status max_age timestamp age reason.
            \<lparr> fc_adapter_key = key, fc_status = status, fc_checked_at = now,
              fc_max_age_seconds = max_age, fc_cadence = EventCadence,
              fc_source_timestamp_max = timestamp, fc_age_seconds = age, fc_reason = reason \<rparr>)
      in case (effective_at, expires_at) of
           (Some effective, Some expires) \<Rightarrow>
             let effective = aware_utc effective; expires = aware_utc expires in
             if normalized_utc effective \<ge> normalized_utc expires
             then answer SourceStale 0 None None (Some ''CAP alert has an invalid active window'')
             else
               let max_age = age_in_seconds expires effective; age = age_in_seconds now effective in
               if normalized_utc expires \<le> normalized_utc now
               then answer SourceStale max_age (Some effective) (Some age)
                      (Some ''CAP alert expired; no active alert'')
               else if normalized_utc effective > normalized_utc now
               then answer SourceDegraded max_age (Some effective) (Some 0)
                      (Some ''CAP alert is not yet effective'')
               else answer SourceFresh max_age (Some effective) (Some age) None
         | _ \<Rightarrow> answer SourceStale 0 None None
                  (Some ''CAP alert is missing effective or expires timestamp''))"

definition static_snapshot_activated :: "run_summary \<Rightarrow> bool" where
  "static_snapshot_activated s \<longleftrightarrow>
     cadence_for_adapter (rs_adapter_key s) = StaticCadence
     \<and> rs_snapshot_generation_mode s = Some CompleteReplace
     \<and> rs_snapshot_activation_eligible s \<and> rs_items_promoted s > 0"

definition check_summary_freshness :: "run_summary \<Rightarrow> py_datetime \<Rightarrow> int \<Rightarrow> freshness_check" where
  "check_summary_freshness s checked_at max_age_seconds =
     (let now = aware_utc checked_at;
          cadence = cadence_for_adapter (rs_adapter_key s);
          answer = (\<lambda>status cadence timestamp age reason.
            \<lparr> fc_adapter_key = rs_adapter_key s, fc_status = status, fc_checked_at = now,
              fc_max_age_seconds = max_age_seconds, fc_cadence = cadence,
              fc_source_timestamp_max = timestamp, fc_age_seconds = age, fc_reason = reason \<rparr>)
      in if rs_status s = BatchFailed
         then answer SourceFailed cadence (rs_source_timestamp_max s) None
                (or_str (rs_error_message s)
                  (or_str (rs_error_code s) (Some ''adapter batch failed'')))
         else if is_successful_no_active_warning_summary s
         then answer SourceFresh EventCadence None None
                (Some ''warning source operational; no active event'')
         else if rs_adapter_key s \<in> set warning_event_adapter_keys
         then check_ncdr_cap_freshness (rs_adapter_key s) (rs_event_active_from_min s)
                (rs_event_active_until_max s) now
         else if cadence = StaticCadence \<and> rs_status s \<noteq> BatchSucceeded
                 \<and> \<not> static_snapshot_activated s
         then answer SourceStale cadence (rs_source_timestamp_max s) None
                (Some (''static/slow-cadence batch did not succeed: ''
                  @ str_or_empty (or_str (rs_error_message s)
                      (or_str (rs_error_code s) (Some (batch_status_name (rs_status s)))))))
         else if cadence = StaticCadence
         then let operational = aware_utc (rs_finished_at s) in
              answer SourceFresh cadence (Some operational) (Some (age_in_seconds now operational))
                (Some (if static_snapshot_activated s
                       then ''static complete-replace snapshot activated with bounded source rejections''
                       else ''static/slow-cadence source is not evaluated against realtime thresholds''))
         else case rs_source_timestamp_max s of
                None \<Rightarrow> answer SourceStale cadence None None
                          (Some ''adapter batch has no source timestamp'')
              | Some timestamp \<Rightarrow>
                  let newest = aware_utc timestamp; age = age_in_seconds now newest in
                  if cadence = RealtimeCadence
                  then realtime_freshness_check (rs_adapter_key s) now newest age
                  else if normalized_utc now - normalized_utc newest > seconds max_age_seconds
                  then answer SourceStale cadence (Some newest) (Some age)
                         (Some ''source data is older than freshness threshold'')
                  else answer SourceFresh cadence (Some newest) (Some age) None)"

definition check_batch_freshness ::
  "run_summary list \<Rightarrow> py_datetime \<Rightarrow> int \<Rightarrow> freshness_check list" where
  "check_batch_freshness summaries checked_at max_age_seconds =
     map (\<lambda>s. check_summary_freshness s checked_at max_age_seconds) summaries"

section \<open>Properties\<close>

lemma cadence_event: "cadence_for_adapter key = EventCadence \<longleftrightarrow> key \<in> set warning_event_adapter_keys"
  by (auto simp: cadence_for_adapter_def static_slow_cadence_adapter_keys_def
      warning_event_adapter_keys_def ncdr_cap_adapter_key_def)

lemma successful_no_active_event:
  "is_successful_no_active_warning_summary s \<Longrightarrow> cadence_for_adapter (rs_adapter_key s) = EventCadence"
  by (simp add: is_successful_no_active_warning_summary_def cadence_event split: if_splits)

lemma cap_check:
  "fc_cadence (check_ncdr_cap_freshness key a b now) = EventCadence"
  "fc_status (check_ncdr_cap_freshness key a b now) \<noteq> SourceFailed"
  by (simp_all add: check_ncdr_cap_freshness_def Let_def split: option.splits)

lemma age_in_seconds_aware [simp]:
  "age_in_seconds (aware_utc a) (aware_utc b) = age_in_seconds a b"
  by (simp add: age_in_seconds_def)

text \<open>The status and the cadence of a check, branch by branch.\<close>

lemma check_status:
  assumes "cadence_for_adapter (rs_adapter_key s) \<noteq> EventCadence"
  shows "fc_cadence (check_summary_freshness s now m) = cadence_for_adapter (rs_adapter_key s)"
    and "fc_status (check_summary_freshness s now m) =
      (if rs_status s = BatchFailed then SourceFailed
       else if cadence_for_adapter (rs_adapter_key s) = StaticCadence
       then (if rs_status s = BatchSucceeded \<or> static_snapshot_activated s then SourceFresh
             else SourceStale)
       else case rs_source_timestamp_max s of
              None \<Rightarrow> SourceStale
            | Some t \<Rightarrow>
                if cadence_for_adapter (rs_adapter_key s) = RealtimeCadence
                then realtime_status (rs_adapter_key s) (age_in_seconds now t)
                else if normalized_utc now - normalized_utc t > seconds m then SourceStale
                else SourceFresh)"
  using assms successful_no_active_event [of s] cadence_event [of "rs_adapter_key s"]
  by (auto simp: check_summary_freshness_def Let_def realtime_freshness_check_def split: option.splits)

lemma check_event:
  assumes "cadence_for_adapter (rs_adapter_key s) = EventCadence"
  shows "fc_cadence (check_summary_freshness s now m) = EventCadence"
    and "fc_status (check_summary_freshness s now m) = SourceFailed \<longleftrightarrow> rs_status s = BatchFailed"
  using assms cadence_event [of "rs_adapter_key s"] cap_check
  by (auto simp: check_summary_freshness_def Let_def)

lemma realtime_thresholds_sorted:
  "realtime_thresholds_of key = (a, b, c) \<Longrightarrow> a \<le> b \<and> b \<le> c"
  by (auto simp: realtime_thresholds_of_def realtime_thresholds_def realtime_thresholds_by_adapter_def
      split: if_splits)

lemma realtime_status_mono: "x \<le> y \<Longrightarrow> realtime_status key x \<le> realtime_status key y"
  by (cases "realtime_thresholds_of key")
    (auto simp: realtime_status_def less_eq_freshness_status_def)

interpretation realtime_ladder: monotone_grading "realtime_status key" for key
  by unfold_locales (rule realtime_status_mono)

lemma realtime_alert:
  "realtime_status key age \<in> {SourceStale, SourceFailed}
    \<longleftrightarrow> fst (snd (realtime_thresholds_of key)) < age"
  using realtime_thresholds_sorted [of key]
  by (cases "realtime_thresholds_of key") (auto simp: realtime_status_def)

text \<open>
  When a check raises an alert, which fails the job of the batch: the batch failed; or a static
  source neither succeeded nor replaced its snapshot; or a realtime or other source has no timestamp
  or one older than its threshold. A warning source alerts only through a failed batch, however old
  or invalid its warning is.
\<close>

theorem freshness_alert_exactly_when:
  "is_alert (check_summary_freshness s now max_age) \<longleftrightarrow>
     rs_status s = BatchFailed
     \<or> (case cadence_for_adapter (rs_adapter_key s) of
          EventCadence \<Rightarrow> False
        | StaticCadence \<Rightarrow> rs_status s \<noteq> BatchSucceeded
            \<and> \<not> (rs_snapshot_generation_mode s = Some CompleteReplace
                  \<and> rs_snapshot_activation_eligible s \<and> 0 < rs_items_promoted s)
        | RealtimeCadence \<Rightarrow>
            (case rs_source_timestamp_max s of
               None \<Rightarrow> True
             | Some t \<Rightarrow> fst (snd (realtime_thresholds_of (rs_adapter_key s))) < age_in_seconds now t)
        | LegacyCadence \<Rightarrow>
            (case rs_source_timestamp_max s of
               None \<Rightarrow> True
             | Some t \<Rightarrow> seconds max_age < normalized_utc now - normalized_utc t))"
proof (cases "cadence_for_adapter (rs_adapter_key s)")
  case EventCadence
  then show ?thesis using check_event [of s now max_age] by (simp add: is_alert_def)
next
  case RealtimeCadence
  then show ?thesis
    using check_status [of s now max_age] realtime_alert [of "rs_adapter_key s"]
    by (auto simp: is_alert_def split: option.splits)
qed (auto simp: is_alert_def check_status static_snapshot_activated_def split: option.splits)

text \<open>
  Without news a source only gets worse: the same run summary checked later never has a better
  status, except for a warning source, whose warning may come into effect.
\<close>

theorem freshness_never_improves_by_waiting:
  assumes "cadence_for_adapter (rs_adapter_key s) \<noteq> EventCadence"
    and "normalized_utc now \<le> normalized_utc later"
  shows "fc_status (check_summary_freshness s now max_age)
    \<le> fc_status (check_summary_freshness s later max_age)"
proof -
  have age: "age_in_seconds now t \<le> age_in_seconds later t" for t
    using assms(2) int_seconds_mono by (simp add: age_in_seconds_def max.coboundedI2)
  show ?thesis
    using assms(2) realtime_ladder.grade_mono [OF age]
    unfolding check_status(2) [OF assms(1)]
    by (auto simp: less_eq_freshness_status_def split: option.splits)
qed

definition sample_rainfall_summary :: run_summary where
  "sample_rainfall_summary =
     \<lparr> rs_adapter_key = ''official.cwa.rainfall'', rs_status = BatchSucceeded, rs_started_at = Naive 0,
       rs_finished_at = Naive 0, rs_items_fetched = 1, rs_items_promoted = 1, rs_items_rejected = 0,
       rs_snapshot_generation_mode = None, rs_snapshot_activation_eligible = False,
       rs_raw_ref = None, rs_error_code = None, rs_error_message = None,
       rs_source_timestamp_min = Some (Naive 0), rs_source_timestamp_max = Some (Naive 0),
       rs_station_inventory_proof = None, rs_event_active_from_min = None,
       rs_event_active_until_max = None \<rparr>"

lemma freshness_never_improves_by_waiting_witness:
  "fc_status (check_summary_freshness sample_rainfall_summary (Naive (minutes 20)) 0)
    \<le> fc_status (check_summary_freshness sample_rainfall_summary (Naive (minutes 120)) 0)"
proof (rule freshness_never_improves_by_waiting)
  show "cadence_for_adapter (rs_adapter_key sample_rainfall_summary) \<noteq> EventCadence" by code_simp
  show "normalized_utc (Naive (minutes 20)) \<le> normalized_utc (Naive (minutes 120))" by code_simp
qed

end
