(* ===== verification/Queue_Worker.thy ===== *)
theory Queue_Worker
  imports Queue_Executions Source_Freshness
begin

text \<open>
  The clients of the job queue in \<open>apps/workers/app/jobs/runtime.py\<close>: the producer that enqueues one
  job per runnable adapter, and the worker that takes one job, runs its adapter, judges the run by its
  freshness and marks the job.

  The queue's methods are arguments, so that the model serves every queue of the locale
  \<open>runtime_queue\<close>. Adapters, their batch runs, the promotion of evidence, the source catalog and the
  writer of pipeline statuses are arguments as well: each returns a value or raises, an exception
  being its class name and its message. Whatever other processes do to the queue while an adapter
  runs is an argument too. Log events are left out.
\<close>

section \<open>Environment and results\<close>

datatype worker_status = WorkSucceeded | WorkFailed | WorkSkipped

record worker_result =
  wr_status :: worker_status
  wr_job_id :: "nat option"
  wr_adapter_key :: "string option"
  wr_reason :: "string option"
  wr_summary :: "run_summary option"
  wr_freshness_checks :: "freshness_check list"
  wr_promoted :: int
  wr_evidence_ids :: "string list"

text \<open>
  The settings and collaborators of a worker. The reader of the catalog answers the enabled ones of
  the given keys; \<open>None\<close> is a raise. \<open>we_enabled_keys\<close> is \<open>enabled_adapter_keys(settings)\<close>, and
  \<open>we_build\<close> is \<open>build_runtime_adapters\<close> on the settings narrowed to the given keys, if any. A
  writer answers an exception, or none where it wrote; its answer may depend on how many writes were
  tried before. \<open>we_has_queue\<close> tells whether a queue or a database address was given.
\<close>

record 'a worker_env = audit_env +
  we_has_queue :: bool
  we_worker_id :: string
  we_queue_name :: string
  we_lease_seconds :: int
  we_retry_delay_seconds :: int
  we_promote :: bool
  we_freshness_max_age_seconds :: int
  we_catalog :: "(string list \<Rightarrow> string list option) option"
  we_enabled_keys :: "py_exc + string list"
  we_adapter_by_key :: "(string \<times> 'a) list option"
  we_build :: "string list option \<Rightarrow> py_exc + (string \<times> 'a) list"
  we_run :: "'a \<Rightarrow> queue_job \<Rightarrow> py_exc + run_summary"
  we_promotion :: "(string list \<Rightarrow> py_exc + (int \<times> string list)) option"

text \<open>The times at which a worker dequeues, starts, checks the run and marks.\<close>

record worker_times =
  wt_claim :: int
  wt_started :: py_datetime
  wt_checked :: py_datetime
  wt_mark :: int

record 's worker_state = audit_state +
  ws_queue :: 's

text \<open>The operations of the queue.\<close>

type_synonym ('s, 'r) work = "('s worker_state, 'r) step"
type_synonym 's claim_op = "'s \<Rightarrow> int \<Rightarrow> string \<Rightarrow> string \<Rightarrow> int \<Rightarrow> ('s \<times> queue_job option) result"
type_synonym 's complete_op = "'s \<Rightarrow> int \<Rightarrow> nat \<Rightarrow> string \<Rightarrow> ('s \<times> bool) result"
type_synonym 's abandon_op =
  "'s \<Rightarrow> int \<Rightarrow> nat \<Rightarrow> string \<Rightarrow> string \<Rightarrow> int \<Rightarrow> ('s \<times> bool) result"

section \<open>Helpers\<close>

definition job_adapter_key :: "queue_job \<Rightarrow> string option" where
  "job_adapter_key job =
     (case or_str (qj_adapter_key job) None of
        Some k \<Rightarrow> Some k
      | None \<Rightarrow>
          (case map_of (qj_payload job) ''adapter_key'' of
             Some (JsonString k) \<Rightarrow> if strip_str k \<noteq> [] then Some (strip_str k) else None
           | _ \<Rightarrow> None))"

definition runtime_adapter_dedupe_key :: "string \<Rightarrow> string \<Rightarrow> string \<Rightarrow> string" where
  "runtime_adapter_dedupe_key queue_name job_key adapter_key =
     queue_name @ '':'' @ job_key @ '':'' @ adapter_key"

definition runtime_cycle_failure_reason :: "run_summary \<Rightarrow> freshness_check list \<Rightarrow> string option" where
  "runtime_cycle_failure_reason summary checks =
     (if rs_status summary = BatchFailed
      then or_str (rs_error_message summary)
             (or_str (rs_error_code summary) (Some ''adapter batch failed''))
      else case find is_alert checks of
             None \<Rightarrow> None
           | Some alert \<Rightarrow>
               or_str (fc_reason alert)
                 (Some (''freshness check '' @ freshness_status_name (fc_status alert))))"

section \<open>Effects\<close>

definition exc_text :: "py_exc \<Rightarrow> string" where
  "exc_text e = fst e @ '': '' @ snd e"

text \<open>A queue that is unavailable leaves the mark undone; it is the only exception a queue raises.\<close>

definition mark_runtime_adapter_job_succeeded ::
  "'s complete_op \<Rightarrow> 'a worker_env \<Rightarrow> int \<Rightarrow> nat \<Rightarrow> ('s, bool) work" where
  "mark_runtime_adapter_job_succeeded complete_job env now i st =
     (case complete_job (ws_queue st) now i (we_worker_id env) of
        Inl _ \<Rightarrow> (Inr False, st)
      | Inr (q, updated) \<Rightarrow> (Inr updated, st\<lparr> ws_queue := q \<rparr>))"

definition mark_runtime_adapter_job_failed ::
  "'s abandon_op \<Rightarrow> 'a worker_env \<Rightarrow> int \<Rightarrow> nat \<Rightarrow> string \<Rightarrow> ('s, bool) work" where
  "mark_runtime_adapter_job_failed abandon env now i error st =
     (case abandon (ws_queue st) now i (we_worker_id env) error (we_retry_delay_seconds env) of
        Inl _ \<Rightarrow> (Inr False, st)
      | Inr (q, updated) \<Rightarrow> (Inr updated, st\<lparr> ws_queue := q \<rparr>))"

definition skipped_result :: "string \<Rightarrow> worker_result" where
  "skipped_result reason =
     \<lparr> wr_status = WorkSkipped, wr_job_id = None, wr_adapter_key = None, wr_reason = Some reason,
       wr_summary = None, wr_freshness_checks = [], wr_promoted = 0, wr_evidence_ids = [] \<rparr>"

definition fail_runtime_queue_job ::
  "'s abandon_op \<Rightarrow> 'a worker_env \<Rightarrow> worker_times \<Rightarrow> queue_job \<Rightarrow> string option \<Rightarrow> string
    \<Rightarrow> run_summary option \<Rightarrow> freshness_check list \<Rightarrow> ('s, worker_result) work" where
  "fail_runtime_queue_job abandon env clock job adapter_key error summary checks =
     wbind
       (case adapter_key of
          None \<Rightarrow> wreturn ()
        | Some key \<Rightarrow>
            record_pipeline_status env [key] False False
              (case summary of None \<Rightarrow> wt_started clock | Some s \<Rightarrow> rs_started_at s))
       (\<lambda>_. wbind (mark_runtime_adapter_job_failed abandon env (wt_mark clock) (qj_id job) error)
       (\<lambda>_. wreturn
         \<lparr> wr_status = WorkFailed, wr_job_id = Some (qj_id job), wr_adapter_key = adapter_key,
           wr_reason = Some error, wr_summary = summary, wr_freshness_checks = checks,
           wr_promoted = 0, wr_evidence_ids = [] \<rparr>))"

section \<open>The worker\<close>

definition filter_catalog_enabled_adapter_keys ::
  "(string list \<Rightarrow> string list option) \<Rightarrow> string list \<Rightarrow> string list option" where
  "filter_catalog_enabled_adapter_keys reader keys =
     (if keys = [] then Some keys
      else case reader (dict_fromkeys keys) of
             None \<Rightarrow> None
           | Some enabled \<Rightarrow> Some (filter (\<lambda>k. k \<in> set enabled) keys))"

text \<open>
  What running the adapter comes to: a failure the code reports itself, an exception it catches (with
  what was known by then), or a run to complete.
\<close>

datatype cycle_outcome =
  CycleRejected string "run_summary option" "freshness_check list"
| CycleRaised py_exc "run_summary option" "freshness_check list"
| CycleDone run_summary "freshness_check list" int "string list"

definition promote_run ::
  "'a worker_env \<Rightarrow> string \<Rightarrow> run_summary \<Rightarrow> freshness_check list \<Rightarrow> cycle_outcome" where
  "promote_run env key summary checks =
     (if \<not> we_promote env then CycleDone summary checks 0 []
      else case we_promotion env of
             None \<Rightarrow> CycleRaised
               (''RuntimeError'', ''promotion_writer is required when promote=True'')
               (Some summary) checks
           | Some promotion \<Rightarrow>
               (case promotion [key] of
                  Inl e \<Rightarrow> CycleRaised e (Some summary) checks
                | Inr (promoted, ids) \<Rightarrow> CycleDone summary checks promoted ids))"

definition run_cycle ::
  "'a worker_env \<Rightarrow> worker_times \<Rightarrow> queue_job \<Rightarrow> string \<Rightarrow> string list option \<Rightarrow> cycle_outcome" where
  "run_cycle env clock job key narrowed =
     (case (case we_adapter_by_key env of
              None \<Rightarrow> we_build env narrowed
            | Some adapters \<Rightarrow>
                Inr (case narrowed of
                       None \<Rightarrow> adapters
                     | Some keys \<Rightarrow> filter (\<lambda>(k, _). k \<in> set keys) adapters)) of
        Inl e \<Rightarrow> CycleRaised e None []
      | Inr adapters \<Rightarrow>
          (case map_of adapters key of
             None \<Rightarrow> CycleRejected (''unknown runtime adapter_key: '' @ key) None []
           | Some adapter \<Rightarrow>
               (case we_run env adapter job of
                  Inl e \<Rightarrow> CycleRaised e None []
                | Inr summary \<Rightarrow>
                    let checks = check_batch_freshness [summary] (wt_checked clock)
                                   (we_freshness_max_age_seconds env)
                    in case runtime_cycle_failure_reason summary checks of
                         Some reason \<Rightarrow> CycleRejected reason (Some summary) checks
                       | None \<Rightarrow> promote_run env key summary checks)))"

definition completed_result ::
  "worker_status \<Rightarrow> string option \<Rightarrow> queue_job \<Rightarrow> string \<Rightarrow> worker_result" where
  "completed_result status reason job key =
     \<lparr> wr_status = status, wr_job_id = Some (qj_id job), wr_adapter_key = Some key,
       wr_reason = reason, wr_summary = None, wr_freshness_checks = [], wr_promoted = 0,
       wr_evidence_ids = [] \<rparr>"

definition finish_disabled ::
  "'s complete_op \<Rightarrow> 'a worker_env \<Rightarrow> worker_times \<Rightarrow> queue_job \<Rightarrow> string
    \<Rightarrow> ('s, worker_result) work" where
  "finish_disabled complete_job env clock job key =
     wbind (mark_runtime_adapter_job_succeeded complete_job env (wt_mark clock) (qj_id job))
       (\<lambda>updated.
          if updated
          then wreturn (completed_result WorkSkipped (Some ''source_catalog_disabled'') job key)
          else wbind (record_pipeline_status env [key] False False (wt_started clock))
            (\<lambda>_. wreturn
               (completed_result WorkFailed (Some ''queue_completion_not_updated'') job key)))"

definition finish_run ::
  "'s complete_op \<Rightarrow> 'a worker_env \<Rightarrow> worker_times \<Rightarrow> queue_job \<Rightarrow> string \<Rightarrow> run_summary
    \<Rightarrow> freshness_check list \<Rightarrow> int \<Rightarrow> string list \<Rightarrow> ('s, worker_result) work" where
  "finish_run complete_job env clock job key summary checks promoted ids =
     wbind (mark_runtime_adapter_job_succeeded complete_job env (wt_mark clock) (qj_id job))
       (\<lambda>updated.
          let result = (\<lambda>status reason. (completed_result status reason job key)
                \<lparr> wr_summary := Some summary, wr_freshness_checks := checks,
                  wr_promoted := promoted, wr_evidence_ids := ids \<rparr>)
          in if \<not> updated
             then wbind (record_pipeline_status env [key] False False (rs_started_at summary))
               (\<lambda>_. wreturn (result WorkFailed (Some ''queue_completion_not_updated'')))
             else wbind
               (if we_promote env
                then record_pipeline_status env [key] True True (rs_started_at summary)
                else wreturn ())
               (\<lambda>_. wreturn (result WorkSucceeded None)))"

definition process_job ::
  "'s complete_op \<Rightarrow> 's abandon_op \<Rightarrow> 'a worker_env \<Rightarrow> worker_times \<Rightarrow> queue_job
    \<Rightarrow> ('s, worker_result) work" where
  "process_job complete_job abandon env clock job =
     (let fail_job = fail_runtime_queue_job abandon env clock job;
          run = (\<lambda>key narrowed.
            case run_cycle env clock job key narrowed of
              CycleRejected reason summary checks \<Rightarrow>
                wcatch (fail_job (Some key) reason summary checks)
                  (\<lambda>e. fail_job (Some key) (exc_text e) summary checks)
            | CycleRaised e summary checks \<Rightarrow> fail_job (Some key) (exc_text e) summary checks
            | CycleDone summary checks promoted ids \<Rightarrow>
                finish_run complete_job env clock job key summary checks promoted ids)
      in case job_adapter_key job of
           None \<Rightarrow> fail_job None ''runtime queue job is missing adapter_key'' None []
         | Some key \<Rightarrow>
             (case we_catalog env of
                None \<Rightarrow> run key None
              | Some reader \<Rightarrow>
                  (case filter_catalog_enabled_adapter_keys reader [key] of
                     None \<Rightarrow> fail_job (Some key) ''source_catalog_unavailable'' None []
                   | Some enabled \<Rightarrow>
                       if enabled = [] then finish_disabled complete_job env clock job key
                       else (case we_enabled_keys env of
                               Inl e \<Rightarrow> (\<lambda>st. (Inl e, st))
                             | Inr keys \<Rightarrow> run key (Some (filter (\<lambda>k. k = key) keys))))))"

text \<open>\<open>others\<close> is what other processes do to the queue between the dequeue and the mark.\<close>

definition work_runtime_queue_once ::
  "'s claim_op \<Rightarrow> 's complete_op \<Rightarrow> 's abandon_op \<Rightarrow> ('s \<Rightarrow> 's) \<Rightarrow> 'a worker_env \<Rightarrow> worker_times
    \<Rightarrow> ('s, worker_result) work" where
  "work_runtime_queue_once claim complete_job abandon others env clock st =
     (if \<not> we_has_queue env then (Inr (skipped_result ''no_database_url''), st)
      else case claim (ws_queue st) (wt_claim clock) (we_queue_name env) (we_worker_id env)
                  (we_lease_seconds env) of
             Inl _ \<Rightarrow> (Inr (skipped_result ''queue_unavailable''), st)
           | Inr (q, None) \<Rightarrow> (Inr (skipped_result ''no_job''), st\<lparr> ws_queue := q \<rparr>)
           | Inr (q, Some job) \<Rightarrow>
               process_job complete_job abandon env clock job (st\<lparr> ws_queue := others q \<rparr>))"

section \<open>The producer\<close>

datatype producer_status = ProduceSucceeded | ProduceSkipped | ProduceDeduped

record producer_result =
  pr_status :: producer_status
  pr_adapter_keys :: "string list"
  pr_job_ids :: "nat list"
  pr_enqueued_job_ids :: "nat list"
  pr_deduped_job_ids :: "nat list"
  pr_dedupe_keys :: "string list"
  pr_reason :: "string option"

type_synonym 's enqueue_op = "'s \<Rightarrow> enqueue_request \<Rightarrow> ('s \<times> enqueue_result) result"

definition skipped_production :: "string list \<Rightarrow> string \<Rightarrow> producer_result" where
  "skipped_production adapter_keys reason =
     \<lparr> pr_status = ProduceSkipped, pr_adapter_keys = adapter_keys, pr_job_ids = [],
       pr_enqueued_job_ids = [], pr_deduped_job_ids = [], pr_dedupe_keys = [],
       pr_reason = Some reason \<rparr>"

definition adapter_request :: "string \<Rightarrow> string \<Rightarrow> string \<Rightarrow> enqueue_request" where
  "adapter_request queue_name job_key key =
     \<lparr> en_adapter_key = Some key, en_job_key = job_key, en_queue_name = queue_name,
       en_payload = Some [(''adapter_key'', JsonString key)], en_priority = 0, en_max_attempts = 3,
       en_run_after = None,
       en_dedupe_key = Some (runtime_adapter_dedupe_key queue_name job_key key) \<rparr>"

text \<open>What one answer adds to the lists of the result.\<close>

definition add_answer :: "producer_result \<Rightarrow> string \<Rightarrow> enqueue_result \<Rightarrow> producer_result" where
  "add_answer p dedupe_key x =
     (let p = p\<lparr> pr_dedupe_keys := pr_dedupe_keys p @ [dedupe_key] \<rparr>
      in case eq_job_id x of
           None \<Rightarrow> p
         | Some i \<Rightarrow>
             let p = p\<lparr> pr_job_ids := pr_job_ids p @ [i] \<rparr>
             in case eq_status x of
                  Enqueued \<Rightarrow> p\<lparr> pr_enqueued_job_ids := pr_enqueued_job_ids p @ [i] \<rparr>
                | Deduped \<Rightarrow> p\<lparr> pr_deduped_job_ids := pr_deduped_job_ids p @ [i] \<rparr>
                | EnqueueSkipped \<Rightarrow> p)"

text \<open>The loop over the adapters, ended early where the queue is unavailable.\<close>

fun enqueue_all ::
  "'s enqueue_op \<Rightarrow> string \<Rightarrow> string \<Rightarrow> string list \<Rightarrow> producer_result \<Rightarrow> 's
    \<Rightarrow> bool \<times> producer_result \<times> 's" where
  "enqueue_all enqueue queue_name job_key [] p q = (True, p, q)"
| "enqueue_all enqueue queue_name job_key (k # ks) p q =
     (case enqueue q (adapter_request queue_name job_key k) of
        Inl _ \<Rightarrow> (False, p, q)
      | Inr (q', x) \<Rightarrow>
          enqueue_all enqueue queue_name job_key ks
            (add_answer p (runtime_adapter_dedupe_key queue_name job_key k) x) q')"

definition production_result :: "bool \<Rightarrow> producer_result \<Rightarrow> producer_result" where
  "production_result available p =
     (if \<not> available
      then p\<lparr> pr_status := ProduceSkipped, pr_reason := Some ''queue_unavailable'' \<rparr>
      else if pr_job_ids p = []
      then p\<lparr> pr_status := ProduceSkipped, pr_reason := Some ''no_durable_jobs'' \<rparr>
      else if pr_enqueued_job_ids p = [] \<and> pr_deduped_job_ids p \<noteq> []
      then p\<lparr> pr_status := ProduceDeduped, pr_reason := Some ''active_jobs_already_exist'' \<rparr>
      else p\<lparr> pr_status := ProduceSucceeded, pr_reason := None \<rparr>)"

definition enqueue_runnable ::
  "'s enqueue_op \<Rightarrow> 'a worker_env \<Rightarrow> string \<Rightarrow> string list \<Rightarrow> string list
    \<Rightarrow> ('s, producer_result) work" where
  "enqueue_runnable enqueue env job_key enabled adapter_keys st =
     (if adapter_keys = []
      then (Inr (skipped_production []
              (if enabled = [] then ''no_enabled_adapters'' else ''no_runnable_adapters'')), st)
      else if \<not> we_has_queue env
      then (Inr (skipped_production adapter_keys ''no_database_url''), st)
      else case enqueue_all enqueue (we_queue_name env) job_key adapter_keys
                  (skipped_production adapter_keys []) (ws_queue st) of
             (available, p, q) \<Rightarrow> (Inr (production_result available p), st\<lparr> ws_queue := q \<rparr>))"

definition produce_runnable ::
  "'s enqueue_op \<Rightarrow> 'a worker_env \<Rightarrow> string \<Rightarrow> py_datetime \<Rightarrow> string list
    \<Rightarrow> ('s, producer_result) work" where
  "produce_runnable enqueue env job_key started enabled =
     wbind (record_runtime_selection env enabled)
       (\<lambda>_. case we_build env (Some enabled) of
          Inl e \<Rightarrow> wbind (record_pipeline_status env enabled False False started)
                    (\<lambda>_ st. (Inl e, st))
        | Inr adapters \<Rightarrow>
            let runnable = (\<lambda>k. k \<in> set (map fst adapters))
            in wbind (record_pipeline_status env (filter (\<lambda>k. \<not> runnable k) enabled)
                        False False started)
                 (\<lambda>_. enqueue_runnable enqueue env job_key enabled (filter runnable enabled)))"

definition produce_enabled_runtime_adapter_jobs ::
  "'s enqueue_op \<Rightarrow> 'a worker_env \<Rightarrow> string \<Rightarrow> py_datetime \<Rightarrow> ('s, producer_result) work" where
  "produce_enabled_runtime_adapter_jobs enqueue env job_key started =
     wbind (\<lambda>st. (we_enabled_keys env, st))
       (\<lambda>enabled.
          case (if enabled = [] then None else we_catalog env) of
            None \<Rightarrow> produce_runnable enqueue env job_key started enabled
          | Some reader \<Rightarrow>
              (case filter_catalog_enabled_adapter_keys reader enabled of
                 None \<Rightarrow>
                   wbind
                     (wcatch
                       (wbind (record_runtime_selection env enabled)
                         (\<lambda>_. record_pipeline_status env enabled False False started))
                       (\<lambda>_. wreturn ()))
                     (\<lambda>_. wreturn (skipped_production [] ''source_catalog_unavailable''))
               | Some kept \<Rightarrow>
                   if kept = []
                   then wbind (record_runtime_selection env [])
                          (\<lambda>_. wreturn (skipped_production [] ''source_catalog_disabled''))
                   else produce_runnable enqueue env job_key started kept))"

section \<open>What the worker's steps do to the queue\<close>

lemma record_pipeline_queue:
  "record_pipeline_status env keys ok fin ra st = (x, st') \<Longrightarrow> ws_queue st' = ws_queue st"
  by (auto simp: record_pipeline_status_def record_pipeline_entry_def Let_def split: option.splits if_splits)

lemma mark_succeeded_result:
  "mark_runtime_adapter_job_succeeded c env now i st = (Inr b, st') \<longleftrightarrow>
   (case c (ws_queue st) now i (we_worker_id env) of
      Inl e \<Rightarrow> \<not> b \<and> st' = st
    | Inr (q, u) \<Rightarrow> b = u \<and> st' = st\<lparr> ws_queue := q \<rparr>)"
  by (auto simp: mark_runtime_adapter_job_succeeded_def split: sum.splits)

lemma mark_failed_result:
  "mark_runtime_adapter_job_failed a env now i e st = (Inr b, st') \<longleftrightarrow>
   (case a (ws_queue st) now i (we_worker_id env) e (we_retry_delay_seconds env) of
      Inl _ \<Rightarrow> \<not> b \<and> st' = st
    | Inr (q, u) \<Rightarrow> b = u \<and> st' = st\<lparr> ws_queue := q \<rparr>)"
  by (auto simp: mark_runtime_adapter_job_failed_def split: sum.splits)

lemma marks_never_raise [simp]:
  "mark_runtime_adapter_job_succeeded c env now i st \<noteq> (Inl x, st')"
  "mark_runtime_adapter_job_failed a env now i e st \<noteq> (Inl x, st')"
  by (auto simp: mark_runtime_adapter_job_succeeded_def mark_runtime_adapter_job_failed_def
      split: sum.splits)

lemma fail_returns:
  assumes "fail_runtime_queue_job a env clock job k e sm ch st = (Inr r, st')"
  shows "wr_status r = WorkFailed \<and> wr_job_id r = Some (qj_id job)
    \<and> (\<exists>b st1. mark_runtime_adapter_job_failed a env (wt_mark clock) (qj_id job) e st1 = (Inr b, st')
          \<and> ws_queue st1 = ws_queue st)"
  using assms
  by (auto simp: fail_runtime_queue_job_def wbind_Inr wreturn_eq split: option.splits
      dest!: record_pipeline_queue) 

lemma fail_raises:
  "fail_runtime_queue_job a env clock job k e sm ch st = (Inl x, st') \<Longrightarrow> ws_queue st' = ws_queue st"
  by (auto simp: fail_runtime_queue_job_def wbind_Inl split: option.splits dest!: record_pipeline_queue)

lemma finish_run_returns:
  assumes "finish_run c env clock job key summary checks n ids st = (Inr r, st')"
  shows "\<exists>b st1. mark_runtime_adapter_job_succeeded c env (wt_mark clock) (qj_id job) st = (Inr b, st1)
    \<and> ws_queue st' = ws_queue st1 \<and> wr_status r = (if b then WorkSucceeded else WorkFailed)
    \<and> wr_job_id r = Some (qj_id job) \<and> wr_summary r = Some summary \<and> wr_freshness_checks r = checks"
  using assms
  by (auto simp: finish_run_def Let_def wbind_Inr wreturn_eq completed_result_def split: if_splits
      dest!: record_pipeline_queue)

lemma finish_disabled_returns:
  assumes "finish_disabled c env clock job key st = (Inr r, st')"
  shows "\<exists>b st1. mark_runtime_adapter_job_succeeded c env (wt_mark clock) (qj_id job) st = (Inr b, st1)
    \<and> ws_queue st' = ws_queue st1 \<and> wr_status r = (if b then WorkSkipped else WorkFailed)"
  using assms
  by (auto simp: finish_disabled_def wbind_Inr wreturn_eq completed_result_def split: if_splits
      dest!: record_pipeline_queue)

text \<open>A worker that returns has marked the job once, as failed or as succeeded.\<close>

lemma process_job_returns:
  assumes "process_job c a env clock job st = (Inr r, st')"
  shows "(wr_status r = WorkFailed
      \<and> (\<exists>b e st1 st2. mark_runtime_adapter_job_failed a env (wt_mark clock) (qj_id job) e st1 = (Inr b, st2)
          \<and> ws_queue st1 = ws_queue st \<and> ws_queue st' = ws_queue st2))
    \<or> (\<exists>b st1. mark_runtime_adapter_job_succeeded c env (wt_mark clock) (qj_id job) st = (Inr b, st1)
          \<and> ws_queue st' = ws_queue st1
          \<and> (wr_status r = WorkSucceeded \<longrightarrow> b \<and> wr_job_id r = Some (qj_id job)
              \<and> (\<exists>key narrowed summary checks n ids.
                   run_cycle env clock job key narrowed = CycleDone summary checks n ids
                   \<and> wr_summary r = Some summary \<and> wr_freshness_checks r = checks)))"
  using assms
  by (auto simp: process_job_def Let_def wcatch_Inr
      split: option.splits if_splits sum.splits cycle_outcome.splits
      dest!: fail_returns fail_raises finish_run_returns finish_disabled_returns; fastforce)

lemma work_once_claimed:
  assumes "claim (ws_queue st) (wt_claim clock) (we_queue_name env) (we_worker_id env)
      (we_lease_seconds env) = Inr (q, Some job)" and "we_has_queue env"
  shows "work_runtime_queue_once claim c a others env clock st =
    process_job c a env clock job (st\<lparr> ws_queue := others q \<rparr>)"
  using assms by (simp add: work_runtime_queue_once_def)

context runtime_queue
begin

lemma marked_failed_lets_go:
  assumes g: "good t (ws_queue st)" and now: "t \<le> now"
    and m: "mark_runtime_adapter_job_failed abandon env now i e st = (Inr b, st')"
  shows "\<not> holds (ws_queue st') i (we_worker_id env)"
  using abandon_answer [OF g now, of i "we_worker_id env" e "we_retry_delay_seconds env"] m
  by (auto simp: mark_failed_result split: if_splits)

lemma marked_succeeded_lets_go:
  assumes g: "good t (ws_queue st)" and now: "t \<le> now"
    and m: "mark_runtime_adapter_job_succeeded complete env now i st = (Inr b, st')"
  shows "\<not> holds (ws_queue st') i (we_worker_id env)"
    and "b \<longleftrightarrow> holds (ws_queue st) i (we_worker_id env)"
    and "\<not> b \<Longrightarrow> ws_queue st' = ws_queue st"
  using complete_answer [OF g now, of i "we_worker_id env"] m
  by (auto simp: mark_succeeded_result split: if_splits)

text \<open>A worker that returns no longer holds the job; it reports success only if it held it to the end.\<close>

lemma returning_worker_lets_go:
  assumes g: "good t (ws_queue st)" and now: "t \<le> wt_mark clock"
    and r: "process_job complete abandon env clock job st = (Inr r, st')"
  shows "\<not> holds (ws_queue st') (qj_id job) (we_worker_id env)
    \<and> (wr_status r = WorkSucceeded \<longrightarrow> holds (ws_queue st) (qj_id job) (we_worker_id env))"
proof -
  from process_job_returns [OF r] consider
    (failed) b e st1 st2 where "wr_status r = WorkFailed"
      "mark_runtime_adapter_job_failed abandon env (wt_mark clock) (qj_id job) e st1 = (Inr b, st2)"
      "ws_queue st1 = ws_queue st" "ws_queue st' = ws_queue st2"
  | (marked) b st1 where
      "mark_runtime_adapter_job_succeeded complete env (wt_mark clock) (qj_id job) st = (Inr b, st1)"
      "ws_queue st' = ws_queue st1" "wr_status r = WorkSucceeded \<longrightarrow> b"
    by metis
  then show ?thesis
  proof cases
    case failed
    then show ?thesis using marked_failed_lets_go [of t st1 "wt_mark clock"] g now by simp
  next
    case marked
    then show ?thesis using marked_succeeded_lets_go [OF g now marked(1)] by simp
  qed
qed

end

section \<open>Properties of the worker\<close>

lemma or_str_None: "or_str x y = None \<longleftrightarrow> y = None \<and> (x = None \<or> x = Some [])"
  by (cases x) auto

lemma no_failure_reason:
  "runtime_cycle_failure_reason summary checks = None \<Longrightarrow>
   rs_status summary \<noteq> BatchFailed \<and> \<not> list_ex is_alert checks"
  by (auto simp: runtime_cycle_failure_reason_def or_str_None list_ex_iff find_None_iff
      split: if_splits option.splits)

lemma cycle_done:
  "run_cycle env clock job key narrowed = CycleDone summary checks n ids \<Longrightarrow>
   checks = [check_summary_freshness summary (wt_checked clock) (we_freshness_max_age_seconds env)]
   \<and> runtime_cycle_failure_reason summary checks = None"
  by (auto simp: run_cycle_def promote_run_def Let_def check_batch_freshness_def
      split: sum.splits option.splits if_splits)

text \<open>
  C9. A worker reports success only for a job it held until the mark, whose adapter run did not fail
  and raised no freshness alert; and then the job is succeeded in the tables. Whatever other workers,
  schedulers and operators did to the queue while the adapter ran.
\<close>

theorem worker_success_is_backed:
  assumes r: "reachable (t, ws_queue st)" and t: "t \<le> wt_claim clock" and h: "we_has_queue env"
    and c: "dequeue_adapter_job (ws_queue st) (wt_claim clock) (we_queue_name env) (we_worker_id env)
      (we_lease_seconds env) = Inr (q, Some job)"
    and o: "queue_steps (wt_claim clock, q) ps (t', others q)" and t': "t' \<le> wt_mark clock"
    and w: "work_runtime_queue_once dequeue_adapter_job mark_job_succeeded mark_job_failed others
      env clock st = (Inr res, st')" and s: "wr_status res = WorkSucceeded"
  shows "held_by (others q) (qj_id job) (we_worker_id env)
    \<and> (\<exists>summary. wr_summary res = Some summary \<and> rs_status summary \<noteq> BatchFailed
        \<and> \<not> is_alert (check_summary_freshness summary (wt_checked clock)
              (we_freshness_max_age_seconds env)))
    \<and> (\<exists>j\<in>set (qt_jobs (ws_queue st')). rj_id j = qj_id job \<and> rj_status j = JobSucceeded)
    \<and> wr_job_id res = Some (qj_id job)"
proof -
  have "queue_inv (wt_claim clock, q)"
    using postgres_queue.claim_holds [OF reachable_inv [OF r] t c] by simp
  then have inv: "queue_inv (t', ws_queue (st\<lparr> ws_queue := others q \<rparr>))"
    using queue_steps_inv [OF o] by simp
  have p: "process_job mark_job_succeeded mark_job_failed env clock job (st\<lparr> ws_queue := others q \<rparr>) =
      (Inr res, st')"
    using w work_once_claimed [where claim = dequeue_adapter_job, OF c h] by metis
  have held: "held_by (others q) (qj_id job) (we_worker_id env)"
    using postgres_queue.returning_worker_lets_go [OF inv t' p] s by simp
  from process_job_returns [OF p] s obtain b st1 key narrowed summary checks n ids where
    m: "mark_runtime_adapter_job_succeeded mark_job_succeeded env (wt_mark clock) (qj_id job)
        (st\<lparr> ws_queue := others q \<rparr>) = (Inr b, st1)" "ws_queue st' = ws_queue st1"
    and d: "run_cycle env clock job key narrowed = CycleDone summary checks n ids"
      "wr_summary res = Some summary" "wr_job_id res = Some (qj_id job)"
    by auto
  from cycle_done [OF d(1)] no_failure_reason [of summary checks]
  have ok: "rs_status summary \<noteq> BatchFailed" "\<not> is_alert (check_summary_freshness summary (wt_checked clock)
      (we_freshness_max_age_seconds env))" by auto
  from held obtain j where j: "j \<in> set (qt_jobs (others q))" "rj_id j = qj_id job"
    "rj_leased_by j = Some (we_worker_id env)" "rj_status j = JobRunning" by (rule held_row)
  have "ws_queue st' = with_job (others q) j (succeed_job (wt_mark clock) j)"
    using m succeed_held [OF _ t' j] inv by (simp add: mark_succeeded_result)
  then have "\<exists>k\<in>set (qt_jobs (ws_queue st')). rj_id k = qj_id job \<and> rj_status k = JobSucceeded"
    using j(1,2) by (auto simp: with_job_def succeed_job_def image_iff intro!: bexI [of _ j])
  with held ok d(2,3) show ?thesis by blast
qed

text \<open>
  A worker that returns has let go of its job: it is no longer the holder, whatever the outcome,
  so the job is finished, queued again, failed for good or taken over. A job stays leased only when
  the worker dies or a writer of pipeline statuses or a setting raises.
\<close>

theorem worker_that_returns_lets_go:
  assumes r: "reachable (t, ws_queue st)" and t: "t \<le> wt_claim clock" and h: "we_has_queue env"
    and c: "dequeue_adapter_job (ws_queue st) (wt_claim clock) (we_queue_name env) (we_worker_id env)
      (we_lease_seconds env) = Inr (q, Some job)"
    and o: "queue_steps (wt_claim clock, q) ps (t', others q)" and t': "t' \<le> wt_mark clock"
    and w: "work_runtime_queue_once dequeue_adapter_job mark_job_succeeded mark_job_failed others
      env clock st = (Inr res, st')"
  shows "\<not> held_by (ws_queue st') (qj_id job) (we_worker_id env)"
proof -
  have "queue_inv (wt_claim clock, q)"
    using postgres_queue.claim_holds [OF reachable_inv [OF r] t c] by simp
  then have inv: "queue_inv (t', ws_queue (st\<lparr> ws_queue := others q \<rparr>))"
    using queue_steps_inv [OF o] by simp
  have "process_job mark_job_succeeded mark_job_failed env clock job (st\<lparr> ws_queue := others q \<rparr>) =
      (Inr res, st')"
    using w work_once_claimed [where claim = dequeue_adapter_job, OF c h] by metis
  from postgres_queue.returning_worker_lets_go [OF inv t' this] show ?thesis by blast
qed

lemma enqueue_keeps_jobs:
  "enqueue_adapter_job q now i r = Inr (q', x) \<Longrightarrow> set (qt_jobs q) \<subseteq> set (qt_jobs q')"
  by (auto simp: enqueue_adapter_job_def Let_def split: option.splits if_splits)

lemma enqueue_has_id: "enqueue_adapter_job q now i r = Inr (q', x) \<Longrightarrow> eq_job_id x \<noteq> None"
  by (auto simp: enqueue_adapter_job_def Let_def split: option.splits if_splits)

definition adapter_identity :: "string \<Rightarrow> string \<Rightarrow> string \<Rightarrow> string \<times> string \<times> string \<times> string" where
  "adapter_identity queue_name job_key key =
     (queue_name, job_key, key, runtime_adapter_dedupe_key queue_name job_key key)"

lemma adapter_request_identity:
  "dedupe_identity (new_job (adapter_request n jk k) i now) = Some (adapter_identity n jk k)"
  by (simp add: dedupe_identity_def new_job_def adapter_request_def adapter_identity_def
      is_active_def active_status_def str_or_empty_def)

lemma adapter_request_dedupes: "en_dedupe_key (adapter_request n jk k) \<noteq> None"
  by (simp add: adapter_request_def)

lemma enqueue_all_jobs:
  assumes "enqueue_all (\<lambda>q r. enqueue_adapter_job q now (fresh q) r) n jk keys p q = (True, p', q')"
    and "queue_inv (now, q)" and fresh: "\<forall>q. fresh q \<notin> set (map rj_id (qt_jobs q))"
  shows "queue_inv (now, q') \<and> set (qt_jobs q) \<subseteq> set (qt_jobs q')
    \<and> (\<forall>k\<in>set keys. \<exists>j\<in>set (qt_jobs q'). dedupe_identity j = Some (adapter_identity n jk k))"
  using assms(1,2)
proof (induction keys arbitrary: p q)
  case (Cons k ks)
  from Cons.prems(1) obtain q1 x where
    e: "enqueue_adapter_job q now (fresh q) (adapter_request n jk k) = Inr (q1, x)"
    and r: "enqueue_all (\<lambda>q r. enqueue_adapter_job q now (fresh q) r) n jk ks
      (add_answer p (runtime_adapter_dedupe_key n jk k) x) q1 = (True, p', q')"
    by (auto split: sum.splits)
  have inv: "queue_inv (now, q1)"
    using enqueue_inv [OF Cons.prems(2) order_refl _ e] fresh by blast
  obtain j where j: "j \<in> set (qt_jobs q1)" "dedupe_identity j = Some (adapter_identity n jk k)"
    using enqueue_answer [OF e adapter_request_dedupes] unfolding adapter_request_identity by metis
  from Cons.IH [OF r inv] j enqueue_keeps_jobs [OF e] show ?case by auto
qed simp

lemma record_selection_queue:
  "record_runtime_selection env keys st = (x, st') \<Longrightarrow> ws_queue st' = ws_queue st"
  by (auto simp: record_runtime_selection_def Let_def split: option.splits)

lemma add_answer_keeps [simp]:
  "pr_adapter_keys (add_answer p d x) = pr_adapter_keys p"
  by (simp add: add_answer_def Let_def split: option.splits enqueue_status.splits)

lemma enqueue_all_keys:
  "enqueue_all e n jk keys p q = (b, p', q') \<Longrightarrow> pr_adapter_keys p' = pr_adapter_keys p"
  by (induction keys arbitrary: p q) (auto split: sum.splits)

lemma produced_runnable:
  assumes "enqueue_runnable e env jk enabled keys st = (Inr res, st')"
    and "pr_status res \<noteq> ProduceSkipped"
  shows "\<exists>p0 p1. enqueue_all e (we_queue_name env) jk (pr_adapter_keys res) p0 (ws_queue st) =
    (True, p1, ws_queue st')"
proof -
  obtain b p1 q where l: "enqueue_all e (we_queue_name env) jk keys (skipped_production keys [])
      (ws_queue st) = (b, p1, q)"
    by (cases "enqueue_all e (we_queue_name env) jk keys (skipped_production keys []) (ws_queue st)")
  have r: "b" "res = production_result b p1" "ws_queue st' = q"
    using assms l
    by (auto simp: enqueue_runnable_def production_result_def skipped_production_def split: if_splits)
  have "pr_adapter_keys res = keys"
    using enqueue_all_keys [OF l] by (simp add: r(2) production_result_def skipped_production_def)
  with l r show ?thesis by auto
qed

lemma produced_after_catalog:
  assumes "produce_runnable e env jk started enabled st = (Inr res, st')"
    and "pr_status res \<noteq> ProduceSkipped"
  shows "\<exists>p0 p1. enqueue_all e (we_queue_name env) jk (pr_adapter_keys res) p0 (ws_queue st) =
    (True, p1, ws_queue st')"
  using assms
  by (auto simp: produce_runnable_def wbind_Inr Let_def split: sum.splits
      dest!: produced_runnable record_pipeline_queue record_selection_queue; metis)

lemma produced_by_loop:
  assumes "produce_enabled_runtime_adapter_jobs e env jk started st = (Inr res, st')"
    and "pr_status res \<noteq> ProduceSkipped"
  shows "\<exists>p0 p1. enqueue_all e (we_queue_name env) jk (pr_adapter_keys res) p0 (ws_queue st) =
    (True, p1, ws_queue st')"
proof -
  from assms(1) obtain enabled st1 where st1: "st1 = st"
    and c: "(case (if enabled = [] then None else we_catalog env) of
       None \<Rightarrow> produce_runnable e env jk started enabled
     | Some reader \<Rightarrow>
         (case filter_catalog_enabled_adapter_keys reader enabled of
            None \<Rightarrow> wbind (wcatch (wbind (record_runtime_selection env enabled)
                (\<lambda>_. record_pipeline_status env enabled False False started)) (\<lambda>_. wreturn ()))
              (\<lambda>_. wreturn (skipped_production [] ''source_catalog_unavailable''))
          | Some kept \<Rightarrow>
              if kept = []
              then wbind (record_runtime_selection env [])
                     (\<lambda>_. wreturn (skipped_production [] ''source_catalog_disabled''))
              else produce_runnable e env jk started kept)) st1 = (Inr res, st')"
    unfolding produce_enabled_runtime_adapter_jobs_def wbind_Inr by auto
  have no_skip: "res \<noteq> skipped_production ks reason" for ks reason
    using assms(2) by (auto simp: skipped_production_def)
  from c no_skip obtain keys where "produce_runnable e env jk started keys st = (Inr res, st')"
    unfolding st1 by (auto simp: wbind_Inr wreturn_eq split: option.splits if_splits)
  from produced_after_catalog [OF this assms(2)] show ?thesis .
qed

text \<open>
  A production that is not skipped leaves exactly one active job in the queue for every runnable
  adapter, however many producers ran before it.
\<close>

theorem one_active_job_per_adapter:
  assumes r: "reachable (t, ws_queue st)" and t: "t \<le> now"
    and fresh: "\<forall>q. fresh q \<notin> set (map rj_id (qt_jobs q))"
    and p: "produce_enabled_runtime_adapter_jobs (\<lambda>q r. enqueue_adapter_job q now (fresh q) r) env
      job_key started st = (Inr res, st')"
    and s: "pr_status res \<noteq> ProduceSkipped" and k: "k \<in> set (pr_adapter_keys res)"
  shows "\<exists>!j. j \<in> set (qt_jobs (ws_queue st'))
    \<and> dedupe_identity j = Some (adapter_identity (we_queue_name env) job_key k)"
proof -
  let ?e = "\<lambda>q r. enqueue_adapter_job q now (fresh q) r"
  from produced_by_loop [OF p s] obtain p0 p1 q where
    l: "enqueue_all ?e (we_queue_name env) job_key (pr_adapter_keys res) p0 (ws_queue st) = (True, p1, q)"
    and q: "ws_queue st' = q" by blast
  have inv: "queue_inv (now, ws_queue st)" by (rule queue_inv_mono [OF reachable_inv [OF r] t])
  from enqueue_all_jobs [OF l inv fresh] k q obtain j where
    j: "j \<in> set (qt_jobs (ws_queue st'))"
      "dedupe_identity j = Some (adapter_identity (we_queue_name env) job_key k)"
    and i: "queue_inv (now, ws_queue st')" by blast
  show ?thesis
  proof (rule ex1I [of _ j])
    fix k' assume "k' \<in> set (qt_jobs (ws_queue st'))
      \<and> dedupe_identity k' = Some (adapter_identity (we_queue_name env) job_key k)"
    with i j show "k' = j" using same_id_row [OF i, of k' j]
      unfolding queue_inv_def unique_active_def snd_conv by (metis option.distinct(1))
  qed (use j in simp)
qed

definition sample_worker :: "unit worker_env" where
  "sample_worker =
     \<lparr> we_pipeline_writer = None, we_selection_writer = None, we_has_queue = True, we_worker_id = ''w1'', we_queue_name = ''runtime-adapters'',
       we_lease_seconds = 60, we_retry_delay_seconds = 60, we_promote = False,
       we_freshness_max_age_seconds = 3600, we_catalog = None,
       we_enabled_keys = Inr [''official.cwa.rainfall''],
       we_adapter_by_key = Some [(''official.cwa.rainfall'', ())],
       we_build = (\<lambda>_. Inr [(''official.cwa.rainfall'', ())]),
       we_run = (\<lambda>_ _. Inr sample_rainfall_summary), we_promotion = None \<rparr>"

definition sample_clock :: worker_times where
  "sample_clock =
     \<lparr> wt_claim = 10, wt_started = Naive 10, wt_checked = Naive (minutes 20), wt_mark = 20 \<rparr>"

definition state_of :: "queue_tables \<Rightarrow> queue_tables worker_state" where
  "state_of q = \<lparr> ws_pipeline = [], ws_selections = [], ws_writes = 0, ws_queue = q \<rparr>"

lemma sample_simps [simp]:
  "we_has_queue sample_worker" "we_worker_id sample_worker = ''w1''"
  "we_queue_name sample_worker = ''runtime-adapters''" "we_lease_seconds sample_worker = 60"
  "wt_claim sample_clock = 10" "wt_mark sample_clock = 20" "ws_queue (state_of q) = q"
  by (simp_all add: sample_worker_def sample_clock_def state_of_def)

definition sample_job :: queue_job where
  "sample_job = queue_job_of (lease_job ''w1'' 60 10 (new_job sample_request 0 0))"

lemma dequeue_sample_job:
  "dequeue_adapter_job sample_queued 10 ''runtime-adapters'' ''w1'' 60 = Inr (sample_running, Some sample_job)"
  by (simp add: sample_job_def sample_defs dequeue_adapter_job_def next_job_def dequeueable_def
      update_job_def row_admitted_def int4_def conflicts_with_def)

lemma sample_cycle:
  "\<exists>checks. run_cycle sample_worker sample_clock sample_job ''official.cwa.rainfall'' None =
     CycleDone sample_rainfall_summary checks 0 []"
proof -
  have "runtime_cycle_failure_reason sample_rainfall_summary
      (check_batch_freshness [sample_rainfall_summary] (Naive (minutes 20)) 3600) = None"
    by code_simp
  then show ?thesis
    by (simp add: run_cycle_def sample_worker_def sample_clock_def promote_run_def)
qed

lemma sample_mark:
  "\<exists>q. mark_job_succeeded sample_running 20 0 ''w1'' = Inr (q, True)"
proof -
  let ?j = "hd (qt_jobs sample_running)"
  have "?j \<in> set (qt_jobs sample_running)" "rj_id ?j = 0" "rj_leased_by ?j = Some ''w1''"
    "rj_status ?j = JobRunning" by (simp_all add: sample_defs)
  from succeed_held [OF reachable_inv [OF reachable_running] _ this, of 20] show ?thesis by auto
qed

lemma sample_work:
  "\<exists>res st'. work_runtime_queue_once dequeue_adapter_job mark_job_succeeded mark_job_failed (\<lambda>q. q)
     sample_worker sample_clock (state_of sample_queued) = (Inr res, st') \<and> wr_status res = WorkSucceeded"
proof -
  obtain q where q: "mark_job_succeeded sample_running 20 0 ''w1'' = Inr (q, True)"
    using sample_mark by blast
  obtain checks where c: "run_cycle sample_worker sample_clock sample_job ''official.cwa.rainfall'' None =
      CycleDone sample_rainfall_summary checks 0 []"
    using sample_cycle by blast
  have k: "job_adapter_key sample_job = Some ''official.cwa.rainfall''" "qj_id sample_job = 0"
    by (simp_all add: job_adapter_key_def sample_job_def queue_job_of_def lease_job_def new_job_def
        sample_request_def)
  have "work_runtime_queue_once dequeue_adapter_job mark_job_succeeded mark_job_failed (\<lambda>q. q)
      sample_worker sample_clock (state_of sample_queued) =
      process_job mark_job_succeeded mark_job_failed sample_worker sample_clock sample_job
        (state_of sample_running)"
    using dequeue_sample_job
    by (simp add: work_runtime_queue_once_def sample_worker_def sample_clock_def state_of_def)
  also have "\<dots> = finish_run mark_job_succeeded sample_worker sample_clock sample_job
      ''official.cwa.rainfall'' sample_rainfall_summary checks 0 [] (state_of sample_running)"
    using c k by (simp add: process_job_def Let_def sample_worker_def)
  finally show ?thesis
    using q k by (simp add: finish_run_def mark_runtime_adapter_job_succeeded_def wbind_def wreturn_def
        state_of_def sample_worker_def sample_clock_def completed_result_def Let_def)
qed

lemma worker_success_is_backed_witness:
  "held_by sample_running 0 ''w1''"
proof -
  obtain res st' where w: "work_runtime_queue_once dequeue_adapter_job mark_job_succeeded mark_job_failed
      (\<lambda>q. q) sample_worker sample_clock (state_of sample_queued) = (Inr res, st')"
    "wr_status res = WorkSucceeded" using sample_work by blast
  have "held_by sample_running (qj_id sample_job) (we_worker_id sample_worker)"
    by (rule worker_success_is_backed [where t = 0 and t' = 10 and ps = "[]" and clock = sample_clock
          and st = "state_of sample_queued" and others = "\<lambda>q. q" and res = res and st' = st',
          THEN conjunct1])
      (use reachable_queued dequeue_sample_job no_steps w in simp_all)
  then show ?thesis
    by (simp add: sample_worker_def sample_job_def queue_job_of_def lease_job_def new_job_def)
qed

lemma worker_that_returns_lets_go_witness:
  "\<exists>q. \<not> held_by q 0 ''w1'' \<and> held_by sample_running 0 ''w1''"
proof -
  obtain res st' where w: "work_runtime_queue_once dequeue_adapter_job mark_job_succeeded mark_job_failed
      (\<lambda>q. q) sample_worker sample_clock (state_of sample_queued) = (Inr res, st')"
    using sample_work by blast
  have "\<not> held_by (ws_queue st') (qj_id sample_job) (we_worker_id sample_worker)"
    by (rule worker_that_returns_lets_go [where t = 0 and t' = 10 and ps = "[]" and clock = sample_clock
          and st = "state_of sample_queued" and others = "\<lambda>q. q" and res = res])
      (use reachable_queued dequeue_sample_job no_steps w in simp_all)
  moreover have "held_by sample_running 0 ''w1''"
    by (simp add: held_by_def sample_defs)
  ultimately show ?thesis
    by (auto simp: sample_worker_def sample_job_def queue_job_of_def lease_job_def new_job_def)
qed

definition next_free_id :: "queue_tables \<Rightarrow> nat" where
  "next_free_id q = Suc (sum_list (map rj_id (qt_jobs q)))"

lemma next_free_id_fresh: "next_free_id q \<notin> set (map rj_id (qt_jobs q))"
proof
  assume "next_free_id q \<in> set (map rj_id (qt_jobs q))"
  then have "next_free_id q \<le> sum_list (map rj_id (qt_jobs q))" by (intro member_le_sum_list) auto
  then show False by (simp add: next_free_id_def)
qed

lemma one_active_job_per_adapter_witness:
  "\<exists>q::queue_tables. \<exists>!j. j \<in> set (qt_jobs q) \<and> dedupe_identity j =
     Some (adapter_identity ''runtime-adapters'' ''runtime.adapter.ingest'' ''official.cwa.rainfall'')"
proof -
  let ?e = "\<lambda>q r. enqueue_adapter_job q 5 (next_free_id q) r"
  obtain res st' where p: "produce_enabled_runtime_adapter_jobs ?e sample_worker
      ''runtime.adapter.ingest'' (Naive 5) (state_of empty_tables) = (Inr res, st')"
    "pr_status res = ProduceSucceeded" "pr_adapter_keys res = [''official.cwa.rainfall'']"
    by (simp add: produce_enabled_runtime_adapter_jobs_def produce_runnable_def wbind_def
        record_runtime_selection_def record_pipeline_status_def record_pipeline_entry_def sample_worker_def enqueue_runnable_def
        enqueue_adapter_job_def existing_active_job_def empty_tables_def state_of_def
        adapter_request_def new_job_def row_admitted_def int4_def skipped_production_def
        production_result_def add_answer_def)
  have "\<exists>!j. j \<in> set (qt_jobs (ws_queue st')) \<and> dedupe_identity j =
     Some (adapter_identity (we_queue_name sample_worker) ''runtime.adapter.ingest'' ''official.cwa.rainfall'')"
    by (rule one_active_job_per_adapter [where t = 0 and now = 5 and fresh = next_free_id
          and env = sample_worker and st = "state_of empty_tables" and res = res and started = "Naive 5"])
      (use p reachable_start next_free_id_fresh in simp_all)
  then have "\<exists>!j. j \<in> set (qt_jobs (ws_queue st')) \<and> dedupe_identity j =
     Some (adapter_identity ''runtime-adapters'' ''runtime.adapter.ingest'' ''official.cwa.rainfall'')"
    by (simp only: sample_simps)
  then show ?thesis by (rule exI [of _ "ws_queue st'"])
qed

end
