(* ===== verification/Queue_Lifecycle.thy ===== *)
theory Queue_Lifecycle
  imports Queue_Executions
begin

text \<open>
  The job queue against an abstract machine: the life of one job, from its submission to its end, is
  a state machine over waiting, held, finished and dead; every execution of the tables of
  \<open>apps/workers/app/jobs/queue.py\<close> is one of that machine, by a forward simulation. And a due job is
  handed out, whatever other operations come in between: the attempts that the active jobs have left,
  with those that enqueues and requeues add, bound how many dequeues can pass it over.
\<close>

section \<open>Runs and simulation\<close>

inductive runs :: "('s \<Rightarrow> 'l \<Rightarrow> 's \<Rightarrow> bool) \<Rightarrow> 's \<Rightarrow> 'l list \<Rightarrow> 's \<Rightarrow> bool" for step where
  runs_none: "runs step s [] s"
| runs_more: "runs step s ls s' \<Longrightarrow> step s' l s'' \<Longrightarrow> runs step s (ls @ [l]) s''"

lemma runs_invariant:
  assumes "runs step s ls s'" and "I s" and "\<And>s l s'. step s l s' \<Longrightarrow> I s \<Longrightarrow> I s'"
  shows "I s'"
  using assms by (induction rule: runs.induct) blast+

text \<open>
  A forward simulation by an abstraction function: what the concrete steps keep, and the abstract
  step that each of them is.
\<close>

locale forward_simulation =
  fixes good :: "'s \<Rightarrow> bool" and step :: "'s \<Rightarrow> 'l \<Rightarrow> 's \<Rightarrow> bool"
    and abstract_step :: "'a \<Rightarrow> 'l \<Rightarrow> 'a \<Rightarrow> bool" and abstract :: "'s \<Rightarrow> 'a"
  assumes good_step: "good s \<Longrightarrow> step s l s' \<Longrightarrow> good s'"
    and simulates: "good s \<Longrightarrow> step s l s' \<Longrightarrow> abstract_step (abstract s) l (abstract s')"
begin

lemma runs_refine:
  "runs step s ls s' \<Longrightarrow> good s \<Longrightarrow> good s' \<and> runs abstract_step (abstract s) ls (abstract s')"
  by (induction rule: runs.induct) (auto intro: runs.intros good_step simulates)

lemma abstract_invariant:
  assumes "runs step s ls s'" "good s" "I (abstract s)"
    and "\<And>a l a'. abstract_step a l a' \<Longrightarrow> I a \<Longrightarrow> I a'"
  shows "I (abstract s')"
  using runs_invariant [of abstract_step "abstract s" ls "abstract s'" I] runs_refine [OF assms(1,2)]
    assms(3,4) by blast

end

section \<open>The life of a job\<close>

datatype job_life =
  NoJob | Waiting int int | Held string int int | Finished | Dead int int | Withdrawn

definition life_of :: "runtime_job \<Rightarrow> job_life" where
  "life_of j =
     (case rj_status j of
        JobQueued \<Rightarrow> Waiting (rj_attempts j) (rj_max_attempts j)
      | JobRunning \<Rightarrow> Held (str_or_empty (rj_leased_by j)) (rj_attempts j) (rj_max_attempts j)
      | JobSucceeded \<Rightarrow> Finished
      | JobFailed \<Rightarrow> Dead (rj_attempts j) (rj_max_attempts j)
      | JobSkipped \<Rightarrow> Withdrawn
      | JobCancelled \<Rightarrow> Withdrawn)"

definition lives :: "queue_tables \<Rightarrow> nat \<Rightarrow> job_life" where
  "lives q i =
     (case find (\<lambda>j. rj_id j = i) (qt_jobs q) of
        None \<Rightarrow> NoJob
      | Some j \<Rightarrow> life_of j)"

text \<open>The contract of the queue: one operation changes the life of at most one job, in these ways.\<close>

inductive lives_step :: "(nat \<Rightarrow> job_life) \<Rightarrow> queue_op \<Rightarrow> (nat \<Rightarrow> job_life) \<Rightarrow> bool" where
  idle: "lives_step L p L"
| submit: "L i = NoJob \<Longrightarrow> lives_step L (OpEnqueue i r) (L(i := Waiting 0 (en_max_attempts r)))"
| claim: "L i = Waiting a m \<Longrightarrow> lives_step L (OpDequeue n w s) (L(i := Held w (a + 1) m))"
| take_over: "L i = Held w' a m \<Longrightarrow> a < m \<Longrightarrow> lives_step L (OpDequeue n w s) (L(i := Held w (a + 1) m))"
| finish: "L i = Held w a m \<Longrightarrow> lives_step L (OpSucceed i w) (L(i := Finished))"
| retry: "L i = Held w a m \<Longrightarrow> a < m \<Longrightarrow> lives_step L (OpFail i w e d) (L(i := Waiting a m))"
| give_up: "L i = Held w a m \<Longrightarrow> m \<le> a \<Longrightarrow> lives_step L (OpFail i w e d) (L(i := Dead a m))"
| replay: "L i = Dead a m \<Longrightarrow> lives_step L (OpRequeue i b t) (L(i := Waiting (if b then 0 else a) m))"

inductive_cases lives_stepE: "lives_step L p L'"

lemma lives_step_finished: "lives_step L p L' \<Longrightarrow> L i = Finished \<Longrightarrow> L' i = Finished"
  by (erule lives_stepE) auto

lemma lives_row:
  assumes "queue_inv (t, q)" and "j \<in> set (qt_jobs q)"
  shows "lives q (rj_id j) = life_of j"
proof -
  obtain k where k: "find (\<lambda>k. rj_id k = rj_id j) (qt_jobs q) = Some k"
    using assms(2) by (cases "find (\<lambda>k. rj_id k = rj_id j) (qt_jobs q)") (auto simp: find_None_iff)
  then have "k \<in> set (qt_jobs q)" "rj_id k = rj_id j" by (auto simp: find_Some_iff)
  then have "k = j" using same_id_row [OF assms(1)] assms(2) by blast
  with k show ?thesis by (simp add: lives_def)
qed

lemma find_map_id:
  "(\<And>j. rj_id (g j) = rj_id j) \<Longrightarrow>
   find (\<lambda>j. rj_id j = i) (map g js) = map_option g (find (\<lambda>j. rj_id j = i) js)"
  by (induction js) auto

lemma lives_update:
  assumes inv: "queue_inv (t, q)" and j: "j \<in> set (qt_jobs q)"
    and f: "\<And>k. rj_id (f k) = rj_id k" and u: "update_job q (rj_id j) f = Inr q'"
  shows "lives q' = (lives q)(rj_id j := life_of (f j))"
proof
  fix i
  let ?g = "\<lambda>k. if rj_id k = rj_id j then f k else k"
  have q': "qt_jobs q' = map ?g (qt_jobs q)"
    using u by (auto simp: update_job_def Let_def split: if_splits)
  have "find (\<lambda>k. rj_id k = i) (qt_jobs q') = map_option ?g (find (\<lambda>k. rj_id k = i) (qt_jobs q))"
    unfolding q' by (rule find_map_id) (simp add: f)
  then have upd: "lives q' i = (case find (\<lambda>k. rj_id k = i) (qt_jobs q) of
      None \<Rightarrow> NoJob | Some k \<Rightarrow> life_of (?g k))"
    by (simp add: lives_def split: option.splits)
  show "lives q' i = ((lives q)(rj_id j := life_of (f j))) i"
  proof (cases "find (\<lambda>k. rj_id k = i) (qt_jobs q)")
    case None
    then have "i \<noteq> rj_id j" using j by (auto simp: find_None_iff)
    with None show ?thesis unfolding upd by (simp add: lives_def)
  next
    case (Some k)
    then have k: "k \<in> set (qt_jobs q)" "rj_id k = i" by (auto simp: find_Some_iff)
    show ?thesis
    proof (cases "i = rj_id j")
      case True
      then have "k = j" using same_id_row [OF inv k(1) j] k(2) by simp
      with Some True show ?thesis unfolding upd by simp
    next
      case False
      with Some k(2) show ?thesis unfolding upd by (simp add: lives_def)
    qed
  qed
qed

lemma lives_append:
  assumes "rj_id j \<notin> set (map rj_id (qt_jobs q))"
  shows "lives (q\<lparr> qt_jobs := qt_jobs q @ [j] \<rparr>) = (lives q)(rj_id j := life_of j)"
    and "lives q (rj_id j) = NoJob"
proof -
  have app: "find P (xs @ [x]) = (case find P xs of None \<Rightarrow> if P x then Some x else None | Some y \<Rightarrow> Some y)"
    for P :: "runtime_job \<Rightarrow> bool" and xs x
    by (induction xs) auto
  have none: "find (\<lambda>k. rj_id k = rj_id j) (qt_jobs q) = None"
    using assms unfolding find_None_iff set_map by (metis imageI)
  show "lives (q\<lparr> qt_jobs := qt_jobs q @ [j] \<rparr>) = (lives q)(rj_id j := life_of j)"
    using none by (auto simp: lives_def app fun_eq_iff split: option.splits)
  show "lives q (rj_id j) = NoJob" by (simp add: lives_def none)
qed

lemma life_simps:
  "rj_status j = JobQueued \<Longrightarrow> life_of j = Waiting (rj_attempts j) (rj_max_attempts j)"
  "rj_status j = JobRunning \<Longrightarrow> rj_leased_by j = Some w \<Longrightarrow>
     life_of j = Held w (rj_attempts j) (rj_max_attempts j)"
  "rj_status j = JobFailed \<Longrightarrow> life_of j = Dead (rj_attempts j) (rj_max_attempts j)"
  by (simp_all add: life_of_def str_or_empty_def)

lemma life_of_changes:
  "life_of (lease_job w s now j) = Held w (rj_attempts j + 1) (rj_max_attempts j)"
  "life_of (succeed_job now j) = Finished"
  "life_of (fail_job now d e j) = (if rj_attempts j < rj_max_attempts j
     then Waiting (rj_attempts j) (rj_max_attempts j) else Dead (rj_attempts j) (rj_max_attempts j))"
  "life_of (requeue_job now b ra j) = Waiting (if b then 0 else rj_attempts j) (rj_max_attempts j)"
  "life_of (new_job r i now) = Waiting 0 (en_max_attempts r)"
  by (simp_all add: life_of_def lease_job_def succeed_job_def fail_job_def requeue_job_def new_job_def
      Let_def str_or_empty_def)

lemma run_op_lives:
  assumes inv: "queue_inv (t, q)" and fresh: "fresh_op p q" and run: "run_op p now q = Inr q'"
  shows "lives_step (lives q) p (lives q')"
proof (cases p)
  case (OpAcquire k h ttl)
  with run have "lives q' = lives q"
    by (auto simp: acquire_scheduler_lease_def Let_def lives_def split: option.splits if_splits)
  then show ?thesis by (simp add: idle)
next
  case (OpRelease k h)
  with run have "lives q' = lives q"
    by (auto simp: release_scheduler_lease_def lives_def split: option.splits if_splits)
  then show ?thesis by (simp add: idle)
next
  case (OpEnqueue i r)
  show ?thesis
  proof (cases "q' = q")
    case False
    with run OpEnqueue have q': "q' = q\<lparr> qt_jobs := qt_jobs q @ [new_job r i now] \<rparr>"
      by (auto simp: enqueue_adapter_job_def Let_def split: option.splits if_splits)
    have "rj_id (new_job r i now) \<notin> set (map rj_id (qt_jobs q))" using fresh OpEnqueue by simp
    from lives_append [OF this] show ?thesis
      using submit [of "lives q" i r] unfolding q' OpEnqueue by (simp add: life_of_changes)
  qed (simp add: idle)
next
  case (OpDequeue n w s)
  show ?thesis
  proof (cases "next_job q n now")
    case None
    with run OpDequeue show ?thesis by (simp add: dequeue_adapter_job_def idle)
  next
    case (Some j)
    from next_job_Some [OF this] have j: "j \<in> set (qt_jobs q)" "dequeueable n now j" by auto
    from run OpDequeue Some have "update_job q (rj_id j) (lease_job w s now) = Inr q'"
      by (auto simp: dequeue_adapter_job_def map_sum_fst_Inr rbind_Inr_iff)
    from lives_update [OF inv j(1) _ this] have l: "lives q' =
        (lives q)(rj_id j := Held w (rj_attempts j + 1) (rj_max_attempts j))"
      by (simp add: life_of_changes)
    have row: "lives q (rj_id j) = life_of j" by (rule lives_row [OF inv j(1)])
    from j(2) consider "rj_status j = JobQueued" | "rj_status j = JobRunning" "rj_attempts j < rj_max_attempts j"
      by (auto simp: dequeueable_def)
    then show ?thesis
    proof cases
      case 1
      then show ?thesis unfolding l OpDequeue using row by (intro claim) (simp add: life_simps)
    next
      case 2
      have "rj_leased_by j \<noteq> None" using row_inv [OF inv j(1)] 2(1) by (simp add: job_inv_def)
      then show ?thesis unfolding l OpDequeue using row 2 by (auto intro!: take_over simp: life_simps)
    qed
  qed
next
  case (OpSucceed i w)
  show ?thesis
  proof (cases "held_by q i w")
    case True
    from held_row [OF this] obtain j where j: "j \<in> set (qt_jobs q)" "rj_id j = i"
      "rj_leased_by j = Some w" "rj_status j = JobRunning" .
    have "update_job q (rj_id j) (succeed_job now) = Inr q'"
      using run OpSucceed True j(2) by (auto simp: mark_job_succeeded_def map_sum_fst_Inr rbind_Inr_iff)
    from lives_update [OF inv j(1) _ this] lives_row [OF inv j(1)] show ?thesis
      unfolding OpSucceed using j by (auto intro!: finish simp: life_of_changes life_simps)
  qed (use run OpSucceed in \<open>simp add: mark_job_succeeded_def idle\<close>)
next
  case (OpFail i w e d)
  show ?thesis
  proof (cases "held_by q i w")
    case True
    from held_row [OF this] obtain j where j: "j \<in> set (qt_jobs q)" "rj_id j = i"
      "rj_leased_by j = Some w" "rj_status j = JobRunning" .
    have "update_job q (rj_id j) (fail_job now d e) = Inr q'"
      using run OpFail True j(2) by (auto simp: mark_job_failed_def map_sum_fst_Inr rbind_Inr_iff)
    from lives_update [OF inv j(1) _ this] lives_row [OF inv j(1)] show ?thesis
      unfolding OpFail using j by (auto intro!: retry give_up simp: life_of_changes life_simps)
  qed (use run OpFail in \<open>simp add: mark_job_failed_def idle\<close>)
next
  case (OpRequeue i b r)
  show ?thesis
  proof (cases "find (\<lambda>j. rj_id j = i \<and> rj_status j = JobFailed) (qt_jobs q)")
    case None
    with run OpRequeue show ?thesis by (simp add: requeue_failed_job_def idle)
  next
    case (Some j)
    then have j: "j \<in> set (qt_jobs q)" "rj_id j = i" "rj_status j = JobFailed"
      by (auto simp: find_Some_iff)
    have "update_job q (rj_id j) (requeue_job now b r) = Inr q'"
      using run OpRequeue Some j(2) by (auto simp: requeue_failed_job_def map_sum_fst_Inr rbind_Inr_iff)
    from lives_update [OF inv j(1) _ this] have "lives q' =
        (lives q)(i := Waiting (if b then 0 else rj_attempts j) (rj_max_attempts j))"
      by (simp only: life_of_changes j(2) job_ids)
    moreover have "lives q i = Dead (rj_attempts j) (rj_max_attempts j)"
      using lives_row [OF inv j(1)] j(2,3) by (simp add: life_simps)
    ultimately show ?thesis unfolding OpRequeue using replay [of "lives q" i] by simp
  qed
qed

lemma queue_step_lives:
  "queue_inv s \<Longrightarrow> queue_step s p s' \<Longrightarrow> lives_step (lives (snd s)) p (lives (snd s'))"
  by (erule queue_step.cases) (auto intro: run_op_lives idle)

lemma queue_steps_runs: "queue_steps s ps s' \<Longrightarrow> runs queue_step s ps s'"
  by (induction rule: queue_steps.induct) (auto intro: runs.intros)

interpretation job_lives: forward_simulation queue_inv queue_step lives_step "\<lambda>s. lives (snd s)"
  by unfold_locales (use queue_step_inv queue_step_lives in blast)+

text \<open>
  C15. Every execution of the queue is one of the machine of job lives. So each operation changes at
  most one job and only as that machine allows: submitted, claimed, taken over with an attempt left,
  finished or failed by the worker that holds it, given up with the attempts used, and replayed once
  dead. A finished job stays finished.
\<close>

theorem queue_refines_job_lives:
  assumes r: "reachable (t, q)" and s: "queue_steps (t, q) ps (t', q')"
  shows "runs lives_step (lives q) ps (lives q')
    \<and> (\<forall>i. lives q i = Finished \<longrightarrow> lives q' i = Finished)"
proof -
  note run = queue_steps_runs [OF s] and inv = reachable_inv [OF r]
  have "lives q' i = Finished" if "lives q i = Finished" for i
    using job_lives.abstract_invariant [OF run inv, of "\<lambda>L. L i = Finished"] that lives_step_finished
    by simp
  then show ?thesis using job_lives.runs_refine [OF run inv] by simp
qed

lemma queue_refines_job_lives_witness:
  "runs lives_step (lives sample_queued) [OpDequeue ''runtime-adapters'' ''w1'' 60, OpFail 0 ''w1'' ''boom'' 60]
     (lives sample_failed)
   \<and> lives sample_queued 0 = Waiting 0 1 \<and> lives sample_failed 0 = Dead 1 1"
proof -
  have "queue_steps (0, sample_queued) (([] @ [OpDequeue ''runtime-adapters'' ''w1'' 60])
      @ [OpFail 0 ''w1'' ''boom'' 60]) (20, sample_failed)"
    by (rule more_steps [OF more_steps [OF no_steps committed [OF _ _ dequeue_sample]]
          committed [OF _ _ fail_sample]]) simp_all
  from queue_refines_job_lives [OF reachable_queued this]
  have "runs lives_step (lives sample_queued) [OpDequeue ''runtime-adapters'' ''w1'' 60,
      OpFail 0 ''w1'' ''boom'' 60] (lives sample_failed)" by simp
  moreover have "lives sample_queued 0 = Waiting 0 1" by code_simp
  moreover have "lives sample_failed 0 = Dead 1 1" by code_simp
  ultimately show ?thesis by blast
qed

section \<open>Due jobs are handed out\<close>

text \<open>
  Operations of any kind, each at its time: one that is refused leaves the tables alone, and an
  insertion brings an identifier that no row has.
\<close>

definition after_op :: "queue_tables \<Rightarrow> int \<Rightarrow> queue_op \<Rightarrow> queue_tables" where
  "after_op q now p = (case run_op p now q of Inl _ \<Rightarrow> q | Inr q' \<Rightarrow> q')"

fun after_ops :: "queue_tables \<Rightarrow> (int \<times> queue_op) list \<Rightarrow> queue_tables" where
  "after_ops q [] = q"
| "after_ops q ((now, p) # ops) = after_ops (after_op q now p) ops"

fun fresh_ops :: "queue_tables \<Rightarrow> (int \<times> queue_op) list \<Rightarrow> bool" where
  "fresh_ops q [] = True"
| "fresh_ops q ((now, p) # ops) \<longleftrightarrow> fresh_op p q \<and> fresh_ops (after_op q now p) ops"

text \<open>The attempts that the active jobs of a queue have left, and those that an operation can add.\<close>

definition attempts_left :: "runtime_job \<Rightarrow> nat" where
  "attempts_left j = (if is_active j then nat (rj_max_attempts j - rj_attempts j) else 0)"

definition work_of :: "string \<Rightarrow> runtime_job \<Rightarrow> nat" where
  "work_of n j = (if rj_queue_name j = n then attempts_left j else 0)"

definition work_left :: "queue_tables \<Rightarrow> string \<Rightarrow> nat" where
  "work_left q n = (\<Sum>j\<leftarrow>qt_jobs q. work_of n j)"

fun added_work :: "string \<Rightarrow> queue_tables \<Rightarrow> queue_op \<Rightarrow> nat" where
  "added_work n q (OpEnqueue i r) = (if en_queue_name r = n then nat (en_max_attempts r) else 0)"
| "added_work n q (OpRequeue i b t) =
     (\<Sum>j\<leftarrow>qt_jobs q. if rj_id j = i \<and> rj_status j = JobFailed \<and> rj_queue_name j = n
                      then nat (rj_max_attempts j) else 0)"
| "added_work n q _ = 0"

fun work_added :: "string \<Rightarrow> queue_tables \<Rightarrow> (int \<times> queue_op) list \<Rightarrow> nat" where
  "work_added n q [] = 0"
| "work_added n q ((now, p) # ops) = added_work n q p + work_added n (after_op q now p) ops"

fun dequeues_from :: "string \<Rightarrow> queue_op \<Rightarrow> bool" where
  "dequeues_from n (OpDequeue m w s) = (m = n)"
| "dequeues_from n _ = False"

lemma sum_list_replace:
  "distinct xs \<Longrightarrow> k \<in> set xs \<Longrightarrow> Suc (g k') = g k \<Longrightarrow>
   Suc (\<Sum>x\<leftarrow>map (\<lambda>x. if x = k then k' else x) xs. g x) = (\<Sum>x\<leftarrow>xs. (g x :: nat))"
proof (induction xs)
  case (Cons x xs)
  show ?case
  proof (cases "x = k")
    case True
    then have "map (\<lambda>x. if x = k then k' else x) xs = xs" using Cons.prems(1) by (intro map_idI) auto
    then show ?thesis using True Cons.prems(3) by simp
  next
    case False
    then show ?thesis using Cons by simp
  qed
qed simp

lemma dequeueable_mono: "dequeueable n t j \<Longrightarrow> t \<le> now \<Longrightarrow> dequeueable n now j"
  by (auto simp: dequeueable_def lease_expired_def split: option.splits)

lemma dequeue_within:
  assumes inv: "queue_inv (t, q)" and now: "t \<le> now" and all: "\<forall>j\<in>set (qt_jobs q). within_attempts j"
    and n: "next_job q n now = Some k"
  shows "dequeue_adapter_job q now n w s =
      Inr (with_job q k (lease_job w s now k), Some (queue_job_of (lease_job w s now k)))"
    and "queue_inv (now, with_job q k (lease_job w s now k))"
    and "\<forall>j\<in>set (qt_jobs (with_job q k (lease_job w s now k))). within_attempts j"
    and "Suc (work_left (with_job q k (lease_job w s now k)) n) = work_left q n"
proof -
  from next_job_Some [OF n] have k: "k \<in> set (qt_jobs q)" "dequeueable n now k" by auto
  have w: "within_attempts k" using all k(1) by blast
  have "rj_max_attempts k \<le> 2147483647"
    using row_inv [OF inv k(1)] by (simp add: job_inv_def row_admitted_def int4_def)
  moreover have lt: "rj_attempts k < rj_max_attempts k"
    using w k(2) by (auto simp: dequeueable_def within_attempts_def)
  ultimately show d: "dequeue_adapter_job q now n w s =
      Inr (with_job q k (lease_job w s now k), Some (queue_job_of (lease_job w s now k)))" for w s
    using dequeue_Some [OF inv n] by auto
  have run: "run_op (OpDequeue n w s) now q = Inr (with_job q k (lease_job w s now k))" by (simp add: d)
  show "queue_inv (now, with_job q k (lease_job w s now k))"
    by (rule run_op_inv [OF inv now _ run]) simp
  show "\<forall>j\<in>set (qt_jobs (with_job q k (lease_job w s now k))). within_attempts j"
    by (rule run_op_within [OF inv all _ run]) simp
  have dist: "distinct (qt_jobs q)" using inv by (auto simp: queue_inv_def distinct_map)
  have "Suc (work_of n (lease_job w s now k)) = work_of n k" using lt k(2)
    by (auto simp: work_of_def attempts_left_def lease_job_def is_active_def active_status_def dequeueable_def)
  then show "Suc (work_left (with_job q k (lease_job w s now k)) n) = work_left q n"
    unfolding work_left_def with_job_def
    using sum_list_replace [OF dist k(1), of "work_of n" "lease_job w s now k"] by simp
qed

lemma update_job_work:
  assumes "update_job q i f = Inr q'"
    and f: "\<And>j. j \<in> set (qt_jobs q) \<Longrightarrow> rj_id j = i \<Longrightarrow> work_of n (f j) \<le> work_of n j + g j"
  shows "work_left q' n \<le> work_left q n + (\<Sum>j\<leftarrow>qt_jobs q. if rj_id j = i then g j else 0)"
proof -
  have q': "qt_jobs q' = map (\<lambda>j. if rj_id j = i then f j else j) (qt_jobs q)"
    using assms(1) by (auto simp: update_job_def Let_def split: if_splits)
  have "work_left q' n \<le> (\<Sum>j\<leftarrow>qt_jobs q. work_of n j + (if rj_id j = i then g j else 0))"
    unfolding work_left_def q' map_map by (rule sum_list_mono) (use f in auto)
  then show ?thesis by (simp add: work_left_def sum_list_addf)
qed

lemma work_changes:
  "work_of n (succeed_job now j) = 0"
  "is_active j \<Longrightarrow> work_of n (fail_job now d e j) \<le> work_of n j"
  "0 \<le> rj_attempts j \<Longrightarrow> work_of n (requeue_job now b ra j)
     \<le> (if rj_queue_name j = n then nat (rj_max_attempts j) else 0)"
  "work_of n (new_job r i now) = (if en_queue_name r = n then nat (en_max_attempts r) else 0)"
  by (auto simp: work_of_def attempts_left_def is_active_def active_status_def lease_job_def
      succeed_job_def fail_job_def requeue_job_def new_job_def Let_def)

text \<open>Only an insertion or a replay adds work, and no more than the attempts it may have.\<close>

lemma run_op_work:
  assumes inv: "queue_inv (t, q)" and run: "run_op p now q = Inr q'"
  shows "work_left q' n \<le> work_left q n + added_work n q p"
proof (cases p)
  case (OpAcquire k h ttl)
  with run show ?thesis
    by (auto simp: work_left_def acquire_scheduler_lease_def Let_def split: option.splits if_splits)
next
  case (OpRelease k h)
  with run show ?thesis
    by (auto simp: work_left_def release_scheduler_lease_def split: option.splits if_splits)
next
  case (OpEnqueue i r)
  with run show ?thesis
    by (auto simp: work_left_def work_changes enqueue_adapter_job_def Let_def split: option.splits if_splits)
next
  case (OpDequeue m w s)
  show ?thesis
  proof (cases "next_job q m now")
    case None
    with run OpDequeue show ?thesis by (simp add: dequeue_adapter_job_def)
  next
    case (Some k)
    from next_job_Some [OF this] have k: "k \<in> set (qt_jobs q)" "dequeueable m now k" by auto
    from run OpDequeue Some have u: "update_job q (rj_id k) (lease_job w s now) = Inr q'"
      by (auto simp: dequeue_adapter_job_def map_sum_fst_Inr rbind_Inr_iff)
    have "work_of n (lease_job w s now j) \<le> work_of n j + 0"
      if "j \<in> set (qt_jobs q)" "rj_id j = rj_id k" for j
      using same_id_row [OF inv that(1) k(1) that(2)] k(2)
      by (auto simp: work_of_def attempts_left_def is_active_def active_status_def lease_job_def
          dequeueable_def)
    from update_job_work [OF u this] show ?thesis by simp
  qed
next
  case (OpSucceed i w)
  with run update_job_work [of q i "succeed_job now" q' n "\<lambda>_. 0"] show ?thesis
    by (auto simp: mark_job_succeeded_def map_sum_fst_Inr rbind_Inr_iff work_changes split: if_splits)
next
  case (OpFail i w e d)
  show ?thesis
  proof (cases "held_by q i w")
    case True
    from held_row [OF this] obtain k where k: "k \<in> set (qt_jobs q)" "rj_id k = i"
      "rj_leased_by k = Some w" "rj_status k = JobRunning" .
    have u: "update_job q i (fail_job now d e) = Inr q'"
      using run OpFail True by (auto simp: mark_job_failed_def map_sum_fst_Inr rbind_Inr_iff)
    have "work_of n (fail_job now d e j) \<le> work_of n j + 0" if "j \<in> set (qt_jobs q)" "rj_id j = i" for j
      using same_id_row [OF inv that(1) k(1)] that(2) k(2,4)
      by (simp add: work_changes is_active_def active_status_def)
    from update_job_work [OF u this] show ?thesis by simp
  qed (use run OpFail in \<open>simp add: mark_job_failed_def\<close>)
next
  case (OpRequeue i b r)
  show ?thesis
  proof (cases "find (\<lambda>j. rj_id j = i \<and> rj_status j = JobFailed) (qt_jobs q)")
    case None
    with run OpRequeue show ?thesis by (simp add: requeue_failed_job_def)
  next
    case (Some k)
    then have k: "k \<in> set (qt_jobs q)" "rj_id k = i" "rj_status k = JobFailed"
      by (auto simp: find_Some_iff)
    let ?g = "\<lambda>j. if rj_status j = JobFailed \<and> rj_queue_name j = n then nat (rj_max_attempts j) else 0"
    from run OpRequeue Some have u: "update_job q i (requeue_job now b r) = Inr q'"
      by (auto simp: requeue_failed_job_def map_sum_fst_Inr rbind_Inr_iff)
    have "work_of n (requeue_job now b r j) \<le> work_of n j + ?g j"
      if "j \<in> set (qt_jobs q)" "rj_id j = i" for j
    proof -
      have "j = k" using same_id_row [OF inv that(1) k(1)] that(2) k(2) by simp
      moreover have "0 \<le> rj_attempts k" using row_inv [OF inv k(1)] by (simp add: job_inv_def row_admitted_def)
      ultimately show ?thesis using work_changes(3) [of k n now b r] k(3)
        by (cases "rj_queue_name k = n") simp_all
    qed
    from update_job_work [OF u this] OpRequeue show ?thesis
      by (simp add: if_distrib [of "\<lambda>b. if b then _ else _"] conj_commute cong: if_cong)
        (simp add: conj_assoc if_conn(1) cong: if_cong)
  qed
qed

lemma after_op_keeps:
  assumes "queue_inv (t, q)" and "\<forall>j\<in>set (qt_jobs q). within_attempts j" and "t \<le> now"
    and "fresh_op p q" and "resets_attempts p"
  shows "queue_inv (now, after_op q now p)" and "\<forall>j\<in>set (qt_jobs (after_op q now p)). within_attempts j"
    and "work_left (after_op q now p) n \<le> work_left q n + added_work n q p"
  using run_op_inv [OF assms(1,3,4)] run_op_within [OF assms(1,2,5)] run_op_work [OF assms(1)]
    queue_inv_mono [OF assms(1,3)] assms(2)
  by (auto simp: after_op_def split: sum.splits)

lemma due_work_left:
  assumes "j \<in> set (qt_jobs q)" and "dequeueable n now j" and "within_attempts j"
  shows "0 < work_left q n"
proof -
  have "0 < work_of n j" using assms(2,3)
    by (auto simp: dequeueable_def within_attempts_def work_of_def attempts_left_def is_active_def active_status_def)
  moreover have "work_of n j \<le> work_left q n"
    unfolding work_left_def using assms(1) by (intro member_le_sum_list) simp_all
  ultimately show ?thesis by simp
qed

lemma due_job_handed_out:
  assumes "queue_inv (t, q)" and "\<forall>j\<in>set (qt_jobs q). within_attempts j" and "sorted (t # map fst ops)"
    and "j \<in> set (qt_jobs q)" and "dequeueable n t j"
    and "list_all (resets_attempts \<circ> snd) ops" and "fresh_ops q ops"
    and "\<forall>w. rj_leased_by j = Some w \<longrightarrow> list_all (\<lambda>(_, p). \<not> hands_over (rj_id j) w p) ops"
    and "work_left q n + work_added n q ops \<le> length (filter (dequeues_from n \<circ> snd) ops)"
  shows "\<exists>before now w s later q' a. ops = before @ (now, OpDequeue n w s) # later
    \<and> dequeue_adapter_job (after_ops q before) now n w s = Inr (q', Some a) \<and> qj_id a = rj_id j"
  using assms
proof (induction ops arbitrary: t q)
  case Nil
  then show ?case using due_work_left [OF Nil.prems(4,5)] by simp
next
  case (Cons o' ops)
  obtain now p where o': "o' = (now, p)" by (cases o')
  have now: "t \<le> now" "sorted (now # map fst ops)" using Cons.prems(3) o' by auto
  have p: "resets_attempts p" "fresh_op p q" using Cons.prems(6,7) o' by simp_all
  have due: "dequeueable n now j" by (rule dequeueable_mono [OF Cons.prems(5) now(1)])
  note keeps = after_op_keeps [OF Cons.prems(1,2) now(1) p(2,1)]
  show ?case
  proof (cases "\<exists>w s. p = OpDequeue n w s \<and> next_job q n now = Some j")
    case True
    then obtain w s where ws: "p = OpDequeue n w s" "next_job q n now = Some j" by blast
    have "qj_id (queue_job_of (lease_job w s now j)) = rj_id j" by (simp add: queue_job_of_def)
    with dequeue_within(1) [OF Cons.prems(1) now(1) Cons.prems(2) ws(2), of w s] ws(1) show ?thesis
      by (intro exI [of _ "[]"] exI [of _ now] exI [of _ w] exI [of _ s] exI [of _ ops]) (simp add: o')
  next
    case False
    have "j \<in> set (qt_jobs (after_op q now p))"
    proof (cases "run_op p now q")
      case (Inr q')
      have "j \<in> set (qt_jobs q')"
      proof (rule run_op_untouched [OF Cons.prems(1,4) _ _ _ Inr])
        show "rj_status j \<noteq> JobFailed" using due by (auto simp: dequeueable_def)
        show "\<not> hands_over (rj_id j) w p" if "rj_leased_by j = Some w" for w
          using Cons.prems(8) that o' by simp
        show "next_job q m now \<noteq> Some j" if "p = OpDequeue m w s" for m w s
          using False that next_job_Some [of q m now j] due by (auto simp: dequeueable_def)
      qed
      with Inr show ?thesis by (simp add: after_op_def)
    qed (use Cons.prems(4) in \<open>simp add: after_op_def\<close>)
    moreover have "work_left (after_op q now p) n + work_added n (after_op q now p) ops
        \<le> length (filter (dequeues_from n \<circ> snd) ops)"
    proof (cases "dequeues_from n p")
      case True
      then obtain w s where ws: "p = OpDequeue n w s" by (cases p) auto
      obtain k where k: "next_job q n now = Some k"
        using Cons.prems(4) due dequeue_None by (cases "next_job q n now") blast+
      note d = dequeue_within [OF Cons.prems(1) now(1) Cons.prems(2) k, of w s]
      have "after_op q now p = with_job q k (lease_job w s now k)" by (simp add: after_op_def ws d(1))
      with d(4) Cons.prems(9) show ?thesis by (simp add: o' ws o_def)
    next
      case False
      with keeps(3) [of n] Cons.prems(9) show ?thesis by (simp add: o' o_def)
    qed
    moreover have rest: "list_all (resets_attempts \<circ> snd) ops" "fresh_ops (after_op q now p) ops"
      using Cons.prems(6,7) by (simp_all add: o' o_def)
    moreover have "\<forall>w. rj_leased_by j = Some w \<longrightarrow> list_all (\<lambda>(_, p). \<not> hands_over (rj_id j) w p) ops"
      using Cons.prems(8) by (simp add: o')
    ultimately obtain before now' w s later q' a where ih: "ops = before @ (now', OpDequeue n w s) # later"
      "dequeue_adapter_job (after_ops (after_op q now p) before) now' n w s = Inr (q', Some a)"
      "qj_id a = rj_id j"
      using Cons.IH [OF keeps(1,2) now(2) _ due rest] by blast
    then show ?thesis
      by (intro exI [of _ "(now, p) # before"] exI [of _ now'] exI [of _ w] exI [of _ s] exI [of _ later])
        (simp add: o')
  qed
qed

text \<open>
  C16. A due job is handed out, whatever else goes on. Take a reachable queue, where requeues reset the
  attempts, a job of it that is due, and any operations from then on, at non-decreasing times, by any
  workers, schedulers and operators in any order: enqueues of more urgent jobs, marks, leases and
  requeues (which again reset the attempts) among them. The only mark they do not hold is that of the
  job itself by a worker whose lease of it has run out: such a mark takes the job away rightfully. If
  there are as many dequeues of the queue among them as its active jobs have attempts left at the
  start, with those that the enqueues and requeues in between add at most, then one of the dequeues
  succeeds and is handed the job.
\<close>

theorem due_job_is_handed_out:
  assumes "queue_steps (t0, empty_tables) ps (t, q)" and "list_all resets_attempts ps"
    and "j \<in> set (qt_jobs q)" and "dequeueable n t j"
    and "sorted (t # map fst ops)" and "list_all (resets_attempts \<circ> snd) ops" and "fresh_ops q ops"
    and "\<forall>w. rj_leased_by j = Some w \<longrightarrow> list_all (\<lambda>(_, p). \<not> hands_over (rj_id j) w p) ops"
    and "work_left q n + work_added n q ops \<le> length (filter (dequeues_from n \<circ> snd) ops)"
  shows "\<exists>before now w s later q' a. ops = before @ (now, OpDequeue n w s) # later
    \<and> dequeue_adapter_job (after_ops q before) now n w s = Inr (q', Some a) \<and> qj_id a = rj_id j"
proof (rule due_job_handed_out [OF _ _ assms(5,3,4,6,7,8,9)])
  show "queue_inv (t, q)" by (rule queue_steps_inv [OF assms(1) queue_inv_empty])
  show "\<forall>j\<in>set (qt_jobs q). within_attempts j"
    using queue_steps_within [OF assms(1) queue_inv_empty] assms(2) by (simp add: empty_tables_def list_all_iff)
qed

text \<open>A more urgent job comes in between: two dequeues are enough for the first one.\<close>

definition sample_urgent_ops :: "(int \<times> queue_op) list" where
  "sample_urgent_ops =
     [(5, OpEnqueue 1 (sample_request\<lparr> en_priority := 99, en_dedupe_key := Some ''urgent'' \<rparr>)),
      (10, OpDequeue ''runtime-adapters'' ''w1'' 60), (12, OpSucceed 1 ''w1''),
      (20, OpDequeue ''runtime-adapters'' ''w2'' 60)]"

lemma due_job_is_handed_out_witness:
  "\<exists>before now w s later q' a. sample_urgent_ops = before @ (now, OpDequeue ''runtime-adapters'' w s) # later
    \<and> dequeue_adapter_job (after_ops sample_queued before) now ''runtime-adapters'' w s = Inr (q', Some a)
    \<and> qj_id a = 0"
proof -
  let ?j = "new_job sample_request 0 0"
  have "queue_steps (0, empty_tables) ([] @ [OpEnqueue 0 sample_request]) (0, sample_queued)"
    by (rule more_steps [OF no_steps committed [OF _ _ enqueue_sample]]) (simp_all add: empty_tables_def)
  then have "\<exists>before now w s later q' a. sample_urgent_ops = before @ (now, OpDequeue ''runtime-adapters'' w s) # later
    \<and> dequeue_adapter_job (after_ops sample_queued before) now ''runtime-adapters'' w s = Inr (q', Some a)
    \<and> qj_id a = rj_id ?j"
  proof (rule due_job_is_handed_out)
    show "?j \<in> set (qt_jobs sample_queued)" by (simp add: sample_queued_def)
    show "dequeueable ''runtime-adapters'' 0 ?j" by (simp add: dequeueable_def new_job_def sample_request_def)
    show "fresh_ops sample_queued sample_urgent_ops" by code_simp
    show "work_left sample_queued ''runtime-adapters''
        + work_added ''runtime-adapters'' sample_queued sample_urgent_ops
      \<le> length (filter (dequeues_from ''runtime-adapters'' \<circ> snd) sample_urgent_ops)" by code_simp
    show "\<forall>w. rj_leased_by ?j = Some w \<longrightarrow>
        list_all (\<lambda>(_, p). \<not> hands_over (rj_id ?j) w p) sample_urgent_ops" by (simp add: new_job_def)
  qed (simp_all add: sample_urgent_ops_def)
  then show ?thesis by simp
qed

end
