(* ===== verification/Ingestion_Readiness.thy ===== *)
theory Ingestion_Readiness
  imports Source_Health Queue_Executions Python_Values
begin

text \<open>
  The public readiness of the ingestion, \<open>apps/api/app/domain/ingestion/readiness.py\<close> and its route
  in \<open>apps/api/app/api/routes/public.py\<close>: the state of the scheduler, of the sources of the
  production backbone and of the jurisdictions, and the overall answer. The rows of the three queries
  are arguments; a failed connection is an argument too. Names of sources and counties are lists of
  code points. Truthiness of the boolean columns is that of SQL booleans, a null being false.
\<close>

section \<open>Rows and results\<close>

datatype scheduler_status = SchedulerHealthy | SchedulerStale | SchedulerStopped | SchedulerMissing

datatype readiness_status =
  ReadyOperational | ReadyDegraded | ReadyStale | ReadyFailed | ReadyDisabled | ReadyMissing

datatype county_status = CountyOperational | CountyDegraded | CountyUnavailable

text \<open>The reason codes, one constructor per text.\<close>

datatype readiness_reason =
  CatalogMissing | CatalogDisabled | SelectionMissing | SelectionStale | RuntimeDisabled
| RunMissing | RunStale | DatabaseBusy | UpstreamOutage | ContractChanged | RunFailed
| PipelineFailed | RunIncomplete | PipelineIncomplete | UpstreamStalled | NothingWrong

record scheduler_row =
  sr_runtime_status :: string
  sr_last_seen_at :: py_datetime
  sr_stale_after_seconds :: int

record readiness_row =
  rq_adapter_key :: string
  rq_name :: utext
  rq_coverage_kind :: string
  rq_stale_after_seconds :: int
  rq_is_registered :: bool
  rq_is_enabled :: bool
  rq_last_success_at :: "py_datetime option"
  rq_last_failure_at :: "py_datetime option"
  rq_runtime_enabled :: "bool option"
  rq_runtime_enabled_checked_at :: "py_datetime option"
  rq_pipeline_status :: "string option"
  rq_pipeline_checked_at :: "py_datetime option"
  rq_pipeline_run_at :: "py_datetime option"
  rq_pipeline_complete :: bool
  rq_pipeline_error_code :: "string option"
  rq_run_status :: "string option"
  rq_run_error_code :: "string option"
  rq_run_at :: "py_datetime option"
  rq_observed_at :: "py_datetime option"
  rq_threshold_text :: "string option"

record contract_row =
  cw_jurisdiction_code :: string
  cw_jurisdiction_name :: utext
  cw_required_adapter_keys :: "string list option"
  cw_mapping_proof_valid :: bool

record scheduler_readiness =
  sc_status :: scheduler_status
  sc_checked_at :: py_datetime
  sc_last_heartbeat_at :: "py_datetime option"
  sc_stale_after :: "int option"

record source_readiness =
  so_adapter_key :: string
  so_source_id :: string
  so_name :: utext
  so_coverage_kind :: string
  so_status :: readiness_status
  so_reason :: readiness_reason
  so_checked_at :: "py_datetime option"
  so_last_attempted_at :: "py_datetime option"
  so_last_succeeded_at :: "py_datetime option"
  so_stale_after_seconds :: int

record county_readiness =
  co_code :: string
  co_name :: utext
  co_status :: county_status
  co_operational :: nat
  co_degraded :: nat
  co_unavailable :: nat

record readiness_snapshot =
  sn_generated_at :: py_datetime
  sn_scheduler :: scheduler_readiness
  sn_sources :: "source_readiness list"
  sn_counties :: "county_readiness list"

section \<open>Constants\<close>

definition expected_jurisdiction_count :: nat where
  "expected_jurisdiction_count = 22"

definition expected_source_count :: nat where
  "expected_source_count = 12"

definition readiness_signal_types :: "string list" where
  "readiness_signal_types = [''rainfall'', ''water_level'', ''flood_depth'', ''flood_warning'']"

definition default_threshold_seconds :: int where
  "default_threshold_seconds = 1800"

definition max_threshold_seconds :: int where
  "max_threshold_seconds = 86400"

definition upstream_stale_multiplier :: int where
  "upstream_stale_multiplier = 3"

definition stale_exempt_adapter_keys :: "string list" where
  "stale_exempt_adapter_keys = [''official.ncdr.cap'', ''official.cwa.heavy_rain_warning'']"

definition stale_exempt_coverage_kinds :: "string list" where
  "stale_exempt_coverage_kinds = [''nationwide_history'']"

definition transport_error_suffixes :: "string list" where
  "transport_error_suffixes =
     [''ConnectionError'', ''FetchError'', ''HTTPError'', ''HttpError'', ''RemoteDisconnected'',
      ''TimeoutError'', ''URLError'']"

definition contract_error_suffixes :: "string list" where
  "contract_error_suffixes = [''PayloadError'']"

definition database_error_suffixes :: "string list" where
  "database_error_suffixes =
     [''QueryCanceled'', ''LockNotAvailable'', ''DeadlockDetected'', ''OperationalError'',
      ''InterfaceError'', ''AdminShutdown'', ''TooManyConnections'']"

section \<open>The scheduler\<close>

definition age_of :: "py_datetime \<Rightarrow> py_datetime \<Rightarrow> int" where
  "age_of now value = max 0 (normalized_utc now - normalized_utc value)"

definition scheduler_readiness_of :: "scheduler_row option \<Rightarrow> py_datetime \<Rightarrow> scheduler_readiness" where
  "scheduler_readiness_of row now =
     (case row of
        None \<Rightarrow> \<lparr> sc_status = SchedulerMissing, sc_checked_at = now, sc_last_heartbeat_at = None,
                  sc_stale_after = None \<rparr>
      | Some r \<Rightarrow>
          \<lparr> sc_status =
              (if sr_runtime_status r = ''stopped'' then SchedulerStopped
               else if age_of now (sr_last_seen_at r) > seconds (sr_stale_after_seconds r)
               then SchedulerStale else SchedulerHealthy),
            sc_checked_at = now, sc_last_heartbeat_at = Some (sr_last_seen_at r),
            sc_stale_after = Some (sr_stale_after_seconds r) \<rparr>)"

section \<open>A source\<close>

definition failed_run_decision ::
  "string option \<Rightarrow> readiness_reason \<Rightarrow> readiness_status \<times> readiness_reason" where
  "failed_run_decision error_code fallback =
     (let code = str_or_empty error_code
      in if endswith_any code database_error_suffixes then (ReadyDegraded, DatabaseBusy)
         else if endswith_any code transport_error_suffixes then (ReadyFailed, UpstreamOutage)
         else if endswith_any code contract_error_suffixes then (ReadyFailed, ContractChanged)
         else (ReadyFailed, fallback))"

definition pipeline_failed_for_latest_run :: "readiness_row \<Rightarrow> py_datetime \<Rightarrow> bool" where
  "pipeline_failed_for_latest_run row run_at =
     (str_or_empty (rq_pipeline_status row) = ''failed''
      \<and> (case or_else (rq_pipeline_run_at row) (rq_pipeline_checked_at row) of
           None \<Rightarrow> False
         | Some c \<Rightarrow> normalized_utc run_at \<le> normalized_utc c))"

definition pipeline_complete_for_latest_run :: "readiness_row \<Rightarrow> py_datetime \<Rightarrow> bool" where
  "pipeline_complete_for_latest_run row run_at \<longleftrightarrow>
     rq_pipeline_complete row \<and> str_or_empty (rq_pipeline_status row) = ''succeeded''
     \<and> (case rq_pipeline_run_at row of
          None \<Rightarrow> False
        | Some p \<Rightarrow> normalized_utc p = normalized_utc run_at)"

definition freshness_threshold_seconds :: "readiness_row \<Rightarrow> int" where
  "freshness_threshold_seconds row =
     (let raw = strip_str (str_or_empty (rq_threshold_text row))
      in if raw \<noteq> [] \<and> list_all is_digit_char raw \<and> decimal_value raw > 0
         then min (decimal_value raw) max_threshold_seconds
         else default_threshold_seconds)"

definition upstream_stale :: "readiness_row \<Rightarrow> py_datetime \<Rightarrow> bool" where
  "upstream_stale row now =
     (if rq_adapter_key row \<in> set stale_exempt_adapter_keys then False
      else if rq_coverage_kind row \<in> set stale_exempt_coverage_kinds then False
      else case rq_observed_at row of
             None \<Rightarrow> False
           | Some t \<Rightarrow>
               age_of now t > seconds (freshness_threshold_seconds row * upstream_stale_multiplier))"

definition readiness_decision :: "readiness_row \<Rightarrow> py_datetime \<Rightarrow> readiness_status \<times> readiness_reason" where
  "readiness_decision row now =
     (if \<not> rq_is_registered row then (ReadyMissing, CatalogMissing)
      else if \<not> rq_is_enabled row then (ReadyDisabled, CatalogDisabled)
      else case rq_runtime_enabled_checked_at row of
             None \<Rightarrow> (ReadyMissing, SelectionMissing)
           | Some selected_at \<Rightarrow>
               if age_of now selected_at > seconds (rq_stale_after_seconds row)
               then (ReadyStale, SelectionStale)
               else if rq_runtime_enabled row \<noteq> Some True then (ReadyDisabled, RuntimeDisabled)
               else case rq_run_at row of
                      None \<Rightarrow> (ReadyMissing, RunMissing)
                    | Some run_at \<Rightarrow>
                        if age_of now run_at > seconds (rq_stale_after_seconds row)
                        then (ReadyStale, RunStale)
                        else if str_or_empty (rq_run_status row) = ''failed''
                        then failed_run_decision (rq_run_error_code row) RunFailed
                        else if pipeline_failed_for_latest_run row run_at
                        then failed_run_decision (rq_pipeline_error_code row) PipelineFailed
                        else if str_or_empty (rq_run_status row) \<noteq> ''succeeded''
                        then (ReadyDegraded, RunIncomplete)
                        else if \<not> pipeline_complete_for_latest_run row run_at
                        then (ReadyDegraded, PipelineIncomplete)
                        else if upstream_stale row now then (ReadyDegraded, UpstreamStalled)
                        else (ReadyOperational, NothingWrong))"

definition source_readiness_of :: "readiness_row \<Rightarrow> py_datetime \<Rightarrow> source_readiness" where
  "source_readiness_of row now =
     \<lparr> so_adapter_key = rq_adapter_key row,
       so_source_id = public_realtime_source_id (rq_adapter_key row), so_name = rq_name row,
       so_coverage_kind = rq_coverage_kind row, so_status = fst (readiness_decision row now),
       so_reason = snd (readiness_decision row now),
       so_checked_at = latest_timestamp
         [rq_runtime_enabled_checked_at row, rq_pipeline_checked_at row, rq_run_at row,
          rq_last_success_at row, rq_last_failure_at row],
       so_last_attempted_at = rq_run_at row, so_last_succeeded_at = rq_last_success_at row,
       so_stale_after_seconds = rq_stale_after_seconds row \<rparr>"

section \<open>Jurisdictions\<close>

text \<open>The statuses by adapter key; of several sources with one key the last one counts.\<close>

definition status_by_key :: "source_readiness list \<Rightarrow> string \<Rightarrow> readiness_status" where
  "status_by_key sources key =
     (case map_of (rev (map (\<lambda>s. (so_adapter_key s, so_status s)) sources)) key of
        None \<Rightarrow> ReadyMissing
      | Some status \<Rightarrow> status)"

definition contract_status :: "(string \<Rightarrow> readiness_status) \<Rightarrow> contract_row \<Rightarrow> county_status" where
  "contract_status status_of row =
     (let keys = (case cw_required_adapter_keys row of None \<Rightarrow> [] | Some ks \<Rightarrow> ks);
          statuses = map status_of keys
      in if \<not> cw_mapping_proof_valid row \<or> keys = [] then CountyUnavailable
         else if list_all (\<lambda>s. s = ReadyOperational) statuses then CountyOperational
         else if list_ex (\<lambda>s. s \<in> {ReadyStale, ReadyFailed, ReadyDisabled, ReadyMissing}) statuses
         then CountyUnavailable
         else CountyDegraded)"

definition county_key :: "contract_row \<Rightarrow> string \<times> utext" where
  "county_key row = (cw_jurisdiction_code row, cw_jurisdiction_name row)"

definition county_readiness_of ::
  "(string \<Rightarrow> readiness_status) \<Rightarrow> contract_row list \<Rightarrow> string \<times> utext \<Rightarrow> county_readiness" where
  "county_readiness_of status_of rows key =
     (let statuses = map (contract_status status_of) (filter (\<lambda>r. county_key r = key) rows);
          operational = count_if (\<lambda>s. s = CountyOperational) statuses;
          degraded = count_if (\<lambda>s. s = CountyDegraded) statuses;
          unavailable = count_if (\<lambda>s. s = CountyUnavailable) statuses
      in \<lparr> co_code = fst key, co_name = snd key,
           co_status =
             (if length statuses \<noteq> length readiness_signal_types \<or> unavailable \<noteq> 0
              then CountyUnavailable
              else if degraded \<noteq> 0 then CountyDegraded else CountyOperational),
           co_operational = operational, co_degraded = degraded,
           co_unavailable =
             unavailable + (length readiness_signal_types - length statuses) \<rparr>)"

definition jurisdiction_readiness ::
  "(string \<Rightarrow> readiness_status) \<Rightarrow> contract_row list \<Rightarrow> county_readiness list" where
  "jurisdiction_readiness status_of rows =
     map (county_readiness_of status_of rows) (sort (dict_fromkeys (map county_key rows)))"

text \<open>\<open>None\<close> for the rows is a database that cannot be read.\<close>

definition fetch_ingestion_readiness ::
  "(scheduler_row option \<times> readiness_row list \<times> contract_row list) option \<Rightarrow> py_datetime
    \<Rightarrow> readiness_snapshot option" where
  "fetch_ingestion_readiness rows evaluated_at =
     map_option
       (\<lambda>(scheduler, source_rows, contract_rows).
          let now = aware_utc evaluated_at;
              sources = map (\<lambda>r. source_readiness_of r now) source_rows
          in \<lparr> sn_generated_at = now,
               sn_scheduler = scheduler_readiness_of scheduler now,
               sn_sources = sources,
               sn_counties = jurisdiction_readiness (status_by_key sources) contract_rows \<rparr>)
       rows"

section \<open>The public answer\<close>

datatype overall_readiness = OverallReady | OverallDegraded | OverallDown

record readiness_response =
  ro_status :: overall_readiness
  ro_generated_at :: py_datetime
  ro_scheduler :: scheduler_readiness
  ro_operational :: nat
  ro_degraded :: nat
  ro_stale :: nat
  ro_failed :: nat
  ro_upstream_unavailable :: nat
  ro_disabled :: nat
  ro_missing :: nat
  ro_latest_success_at :: "py_datetime option"
  ro_sources :: "source_readiness list"
  ro_returned_counties :: nat
  ro_operational_counties :: nat
  ro_degraded_counties :: nat
  ro_unavailable_counties :: nat
  ro_minimum_coverage_met :: bool
  ro_counties :: "county_readiness list"

definition sources_with :: "readiness_status \<Rightarrow> readiness_snapshot \<Rightarrow> nat" where
  "sources_with status sn = count_if (\<lambda>s. so_status s = status) (sn_sources sn)"

definition counties_with :: "county_status \<Rightarrow> readiness_snapshot \<Rightarrow> nat" where
  "counties_with status sn = count_if (\<lambda>c. co_status c = status) (sn_counties sn)"

definition upstream_unavailable_count :: "readiness_snapshot \<Rightarrow> nat" where
  "upstream_unavailable_count sn =
     count_if (\<lambda>s. so_status s = ReadyFailed \<and> so_reason s = UpstreamOutage) (sn_sources sn)"

definition only_outage_blocks :: "readiness_snapshot \<Rightarrow> bool" where
  "only_outage_blocks sn \<longleftrightarrow>
     upstream_unavailable_count sn > 0
     \<and> int (upstream_unavailable_count sn) =
         int (length (sn_sources sn)) - int (sources_with ReadyOperational sn)"

definition minimum_coverage_met :: "readiness_snapshot \<Rightarrow> bool" where
  "minimum_coverage_met sn \<longleftrightarrow>
     length (sn_counties sn) = expected_jurisdiction_count
     \<and> counties_with CountyOperational sn = expected_jurisdiction_count"

definition overall_readiness_of :: "readiness_snapshot \<Rightarrow> overall_readiness" where
  "overall_readiness_of sn =
     (if sc_status (sn_scheduler sn) \<noteq> SchedulerHealthy
         \<or> length (sn_sources sn) \<noteq> expected_source_count
         \<or> length (sn_counties sn) \<noteq> expected_jurisdiction_count
         \<or> sources_with ReadyOperational sn = 0 \<and> \<not> only_outage_blocks sn
      then OverallDown
      else if sources_with ReadyOperational sn = expected_source_count \<and> minimum_coverage_met sn
      then OverallReady
      else OverallDegraded)"

text \<open>\<open>max\<close> of the times themselves: a naive and an aware one cannot be compared.\<close>

definition latest_success :: "source_readiness list \<Rightarrow> py_datetime option result" where
  "latest_success sources =
     (case present (map so_last_succeeded_at sources) of
        [] \<Rightarrow> Inr None
      | t # ts \<Rightarrow> (case max_datetime t ts of Inl _ \<Rightarrow> Inl TypeError | Inr m \<Rightarrow> Inr (Some m)))"

text \<open>The constraints of the response classes.\<close>

definition readiness_valid :: "readiness_snapshot \<Rightarrow> bool" where
  "readiness_valid sn \<longleftrightarrow>
     (case sc_stale_after (sn_scheduler sn) of None \<Rightarrow> True | Some n \<Rightarrow> 0 < n)
     \<and> list_all (\<lambda>s. 0 < so_stale_after_seconds s
          \<and> so_coverage_kind s \<in> {''national_realtime'', ''local_realtime'', ''nationwide_history''})
          (sn_sources sn)
     \<and> list_all (\<lambda>c. is_digits 8 (co_code c)) (sn_counties sn)"

definition ingestion_readiness_response :: "readiness_snapshot \<Rightarrow> readiness_response result" where
  "ingestion_readiness_response sn =
     rbind (latest_success (sn_sources sn))
       (\<lambda>latest.
          if \<not> readiness_valid sn then Inl ValueError
          else Inr
            \<lparr> ro_status = overall_readiness_of sn,
              ro_generated_at = sn_generated_at sn,
              ro_scheduler = sn_scheduler sn,
              ro_operational = sources_with ReadyOperational sn,
              ro_degraded = sources_with ReadyDegraded sn,
              ro_stale = sources_with ReadyStale sn,
              ro_failed = sources_with ReadyFailed sn - upstream_unavailable_count sn,
              ro_upstream_unavailable = upstream_unavailable_count sn,
              ro_disabled = sources_with ReadyDisabled sn,
              ro_missing = sources_with ReadyMissing sn
                + (expected_source_count - length (sn_sources sn)),
              ro_latest_success_at = latest,
              ro_sources = sn_sources sn,
              ro_returned_counties = length (sn_counties sn),
              ro_operational_counties = counties_with CountyOperational sn,
              ro_degraded_counties = counties_with CountyDegraded sn,
              ro_unavailable_counties = counties_with CountyUnavailable sn
                + (expected_jurisdiction_count - length (sn_counties sn)),
              ro_minimum_coverage_met = minimum_coverage_met sn,
              ro_counties = sn_counties sn \<rparr>)"

section \<open>The scheduler's lease behind its heartbeat\<close>

text \<open>The row the query reads for a scheduler.\<close>

definition heartbeat_row :: "queue_tables \<Rightarrow> string \<Rightarrow> scheduler_row option" where
  "heartbeat_row q key =
     map_option
       (\<lambda>h. \<lparr> sr_runtime_status = (if hb_running h then ''running'' else ''stopped''),
              sr_last_seen_at = Aware (AwareAt (hb_last_seen_at h) 0),
              sr_stale_after_seconds = hb_stale_after_seconds h \<rparr>)
       (qt_heartbeats q key)"

fun heartbeat_matches :: "int \<Rightarrow> scheduler_lease option \<Rightarrow> scheduler_heartbeat option \<Rightarrow> bool" where
  "heartbeat_matches t None None = True"
| "heartbeat_matches t None (Some h) = (\<not> hb_running h)"
| "heartbeat_matches t (Some l) None = False"
| "heartbeat_matches t (Some l) (Some h) =
     (hb_running h \<and> 0 < hb_stale_after_seconds h \<and> hb_last_seen_at h \<le> t
      \<and> sl_lease_expires_at l = hb_last_seen_at h + seconds (hb_stale_after_seconds h))"

definition heartbeat_inv :: "int \<Rightarrow> queue_tables \<Rightarrow> bool" where
  "heartbeat_inv t q \<longleftrightarrow> (\<forall>k. heartbeat_matches t (qt_leases q k) (qt_heartbeats q k))"

lemma heartbeat_matches_mono: "heartbeat_matches t l h \<Longrightarrow> t \<le> now \<Longrightarrow> heartbeat_matches now l h"
  by (induction t l h rule: heartbeat_matches.induct) auto

lemma heartbeat_inv_mono: "heartbeat_inv t q \<Longrightarrow> t \<le> now \<Longrightarrow> heartbeat_inv now q"
  unfolding heartbeat_inv_def using heartbeat_matches_mono by blast

lemma update_job_heartbeats:
  "update_job q i f = Inr q' \<Longrightarrow> qt_leases q' = qt_leases q \<and> qt_heartbeats q' = qt_heartbeats q"
  by (auto simp: update_job_def Let_def split: if_splits)

lemma heartbeat_inv_same:
  "heartbeat_inv t q \<Longrightarrow> qt_leases q' = qt_leases q \<Longrightarrow> qt_heartbeats q' = qt_heartbeats q \<Longrightarrow> heartbeat_inv t q'"
  by (simp add: heartbeat_inv_def)

lemma acquire_heartbeat:
  assumes inv: "heartbeat_inv now q" and a: "acquire_scheduler_lease q now k h ttl = Inr (q', b)"
  shows "heartbeat_inv now q'"
proof (cases "q' = q")
  case False
  then have "0 < ttl" and q': "q' = q\<lparr> qt_leases := (qt_leases q)(k \<mapsto>
        \<lparr> sl_holder_id = h, sl_lease_expires_at = now + seconds ttl \<rparr>),
      qt_heartbeats := (qt_heartbeats q)(k \<mapsto>
        \<lparr> hb_running = True, hb_last_seen_at = now, hb_stale_after_seconds = ttl \<rparr>) \<rparr>"
    using a by (auto simp: acquire_scheduler_lease_def Let_def split: if_splits)
  with inv show ?thesis unfolding heartbeat_inv_def q' by simp
qed (use inv in simp)

lemma release_heartbeat:
  assumes inv: "heartbeat_inv now q"
  shows "heartbeat_inv now (release_scheduler_lease q now k h)"
proof (cases "qt_leases q k")
  case (Some l)
  obtain hb where hb: "qt_heartbeats q k = Some hb"
    using inv Some unfolding heartbeat_inv_def by (cases "qt_heartbeats q k") (auto dest!: spec [of _ k])
  show ?thesis
    using inv by (simp add: release_scheduler_lease_def Some hb heartbeat_inv_def)
qed (simp add: release_scheduler_lease_def inv)

lemma run_op_heartbeat:
  assumes inv: "heartbeat_inv now q" and run: "run_op p now q = Inr q'"
  shows "heartbeat_inv now q'"
proof (cases p)
  case (OpAcquire k h ttl)
  with run acquire_heartbeat [OF inv] show ?thesis by (auto simp: map_sum_fst_Inr)
next
  case (OpRelease k h)
  with run release_heartbeat [OF inv] show ?thesis by auto
next
  case (OpEnqueue i r)
  with run show ?thesis
    by (intro heartbeat_inv_same [OF inv]) (auto simp: enqueue_adapter_job_def Let_def split: option.splits if_splits)
next
  case (OpDequeue n v s)
  with run show ?thesis
    by (intro heartbeat_inv_same [OF inv])
      (auto simp: dequeue_adapter_job_def map_sum_fst_Inr rbind_Inr_iff dest!: update_job_heartbeats split: option.splits)
next
  case (OpSucceed i v)
  with run show ?thesis
    by (intro heartbeat_inv_same [OF inv])
      (auto simp: mark_job_succeeded_def map_sum_fst_Inr rbind_Inr_iff dest!: update_job_heartbeats split: if_splits)
next
  case (OpFail i v e d)
  with run show ?thesis
    by (intro heartbeat_inv_same [OF inv])
      (auto simp: mark_job_failed_def map_sum_fst_Inr rbind_Inr_iff dest!: update_job_heartbeats split: if_splits)
next
  case (OpRequeue i b ra)
  with run show ?thesis
    by (intro heartbeat_inv_same [OF inv])
      (auto simp: requeue_failed_job_def map_sum_fst_Inr rbind_Inr_iff dest!: update_job_heartbeats split: option.splits)
qed

lemma queue_step_heartbeat:
  "queue_step s p s' \<Longrightarrow> heartbeat_inv (fst s) (snd s) \<Longrightarrow> heartbeat_inv (fst s') (snd s')"
  by (induction rule: queue_step.induct) (auto intro: run_op_heartbeat heartbeat_inv_mono)

lemma queue_steps_heartbeat:
  "queue_steps s ps s' \<Longrightarrow> heartbeat_inv (fst s) (snd s) \<Longrightarrow> heartbeat_inv (fst s') (snd s')"
  by (induction rule: queue_steps.induct) (auto intro: queue_step_heartbeat)

lemma reachable_heartbeat: "reachable (t, q) \<Longrightarrow> heartbeat_inv t q"
  unfolding reachable_def using queue_steps_heartbeat
  by (fastforce simp: heartbeat_inv_def empty_tables_def)

text \<open>
  The public state of the scheduler agrees with its lease in the job queue: it is healthy exactly
  while some scheduler holds the lease and the lease has not run out, stale exactly when the lease
  has run out and nobody released it, and otherwise stopped or missing.
\<close>

theorem scheduler_healthy_while_leased:
  assumes r: "reachable (t, q)" and now: "t \<le> now"
  shows "(sc_status (scheduler_readiness_of (heartbeat_row q key) (Aware (AwareAt now 0))) = SchedulerHealthy \<longleftrightarrow>
            (\<exists>l. qt_leases q key = Some l \<and> now \<le> sl_lease_expires_at l))
    \<and> (sc_status (scheduler_readiness_of (heartbeat_row q key) (Aware (AwareAt now 0))) = SchedulerStale \<longleftrightarrow>
            (\<exists>l. qt_leases q key = Some l \<and> sl_lease_expires_at l < now))"
proof -
  have m: "heartbeat_matches t (qt_leases q key) (qt_heartbeats q key)"
    using reachable_heartbeat [OF r] by (simp add: heartbeat_inv_def)
  show ?thesis
  proof (cases "qt_heartbeats q key")
    case None
    with m show ?thesis
      by (cases "qt_leases q key") (simp_all add: scheduler_readiness_of_def heartbeat_row_def)
  next
    case (Some h)
    have "age_of (Aware (AwareAt now 0)) (Aware (AwareAt (hb_last_seen_at h) 0)) =
        max 0 (now - hb_last_seen_at h)"
      by (simp add: age_of_def instant_def)
    with m Some now show ?thesis
      by (cases "qt_leases q key") (auto simp: scheduler_readiness_of_def heartbeat_row_def seconds_def)
  qed
qed

definition sample_scheduled :: queue_tables where
  "sample_scheduled = empty_tables
     \<lparr> qt_leases := [''scheduler'' \<mapsto> \<lparr> sl_holder_id = ''h1'', sl_lease_expires_at = 60000000 \<rparr>],
       qt_heartbeats := [''scheduler'' \<mapsto>
         \<lparr> hb_running = True, hb_last_seen_at = 0, hb_stale_after_seconds = 60 \<rparr>] \<rparr>"

lemma scheduler_healthy_while_leased_witness:
  "sc_status (scheduler_readiness_of (heartbeat_row sample_scheduled ''scheduler'')
     (Aware (AwareAt 5 0))) = SchedulerHealthy"
proof -
  have "run_op (OpAcquire ''scheduler'' ''h1'' 60) 0 empty_tables = Inr sample_scheduled"
    by (simp add: acquire_scheduler_lease_def empty_tables_def sample_scheduled_def int4_def seconds_def)
  from reachable_step [OF reachable_start [of 0] _ _ this] have "reachable (0, sample_scheduled)" by simp
  from scheduler_healthy_while_leased [OF this, of 5 "''scheduler''"] show ?thesis
    by (simp add: sample_scheduled_def)
qed

section \<open>What readiness means\<close>

lemma all_filter_length: "length (filter P xs) = length xs \<longleftrightarrow> (\<forall>x\<in>set xs. P x)"
  by (metis filter_id_conv length_filter_less less_irrefl)

lemma count_all: "count_if P xs = length xs \<longleftrightarrow> (\<forall>x\<in>set xs. P x)"
  by (simp add: count_if_def all_filter_length)

lemma failed_run_not_operational [simp]:
  "failed_run_decision code fallback \<noteq> (ReadyOperational, r)"
  by (simp add: failed_run_decision_def Let_def)

lemma readiness_operational:
  assumes "fst (readiness_decision row now) = ReadyOperational"
  shows "rq_is_registered row \<and> rq_is_enabled row \<and> rq_runtime_enabled row = Some True
    \<and> (\<exists>run_at. rq_run_at row = Some run_at \<and> age_of now run_at \<le> seconds (rq_stale_after_seconds row)
         \<and> rq_run_status row = Some ''succeeded'' \<and> rq_pipeline_complete row
         \<and> rq_pipeline_status row = Some ''succeeded''
         \<and> (\<exists>p. rq_pipeline_run_at row = Some p \<and> normalized_utc p = normalized_utc run_at))
    \<and> \<not> upstream_stale row now"
proof -
  have succ: "str_or_empty x = ''succeeded'' \<longleftrightarrow> x = Some ''succeeded''" for x
    by (cases x) (auto simp: str_or_empty_def)
  have failed: "fst (failed_run_decision c r) \<noteq> ReadyOperational" for c r
    by (simp add: failed_run_decision_def Let_def)
  show ?thesis
    using assms
    by (auto simp: readiness_decision_def succ failed pipeline_complete_for_latest_run_def
        split: if_splits option.splits)
qed

lemma contract_operational:
  assumes "contract_status f row = CountyOperational"
  shows "cw_mapping_proof_valid row
    \<and> (\<exists>keys. cw_required_adapter_keys row = Some keys \<and> keys \<noteq> [] \<and> (\<forall>k\<in>set keys. f k = ReadyOperational))"
  using assms
  by (auto simp: contract_status_def Let_def list_all_iff split: if_splits option.splits)

lemma county_operational:
  assumes "co_status (county_readiness_of f rows key) = CountyOperational"
  shows "length (filter (\<lambda>r. county_key r = key) rows) = 4
    \<and> (\<forall>r\<in>set rows. county_key r = key \<longrightarrow> contract_status f r = CountyOperational)"
proof -
  let ?rows = "filter (\<lambda>r. county_key r = key) rows"
  from assms have l: "length ?rows = 4"
    and n: "count_if (\<lambda>s. s = CountyUnavailable) (map (contract_status f) ?rows) = 0"
      "count_if (\<lambda>s. s = CountyDegraded) (map (contract_status f) ?rows) = 0"
    by (auto simp: county_readiness_of_def Let_def readiness_signal_types_def split: if_splits)
  have "contract_status f r = CountyOperational" if "r \<in> set rows" "county_key r = key" for r
    using n that by (cases "contract_status f r") (auto simp: count_if_def filter_empty_conv)
  with l show ?thesis by blast
qed

text \<open>The counties of the snapshot are the distinct counties of the contracts, in order.\<close>

lemma snapshot_facts:
  assumes "fetch_ingestion_readiness (Some (scheduler, source_rows, contract_rows)) evaluated_at = Some sn"
  shows "sn_scheduler sn = scheduler_readiness_of scheduler (aware_utc evaluated_at)"
    and "sn_sources sn = map (\<lambda>r. source_readiness_of r (aware_utc evaluated_at)) source_rows"
    and "sn_counties sn = jurisdiction_readiness (status_by_key (sn_sources sn)) contract_rows"
  using assms by (auto simp: fetch_ingestion_readiness_def Let_def)

lemma operational_key:
  assumes "status_by_key sources k = ReadyOperational"
  shows "\<exists>s\<in>set sources. so_adapter_key s = k \<and> so_status s = ReadyOperational"
proof -
  from assms have "map_of (rev (map (\<lambda>s. (so_adapter_key s, so_status s)) sources)) k =
      Some ReadyOperational"
    by (auto simp: status_by_key_def split: option.splits)
  from map_of_SomeD [OF this] show ?thesis by force
qed

text \<open>
  C17. The overall answer is ready only if nothing is missing: the scheduler is healthy; there are twelve
  sources, each selected, run in time, run to success with its rows published for that very run, and
  not stalled upstream; and there are 22 counties, each with four signal contracts whose mapping is
  proved and whose required sources are among those that are operational.
\<close>

theorem ready_means_everything_operational:
  assumes sn: "fetch_ingestion_readiness (Some (scheduler, source_rows, contract_rows)) now = Some sn"
    and ready: "overall_readiness_of sn = OverallReady"
  shows "sc_status (scheduler_readiness_of scheduler (aware_utc now)) = SchedulerHealthy
    \<and> length source_rows = 12
    \<and> (\<forall>row\<in>set source_rows. rq_is_enabled row \<and> rq_runtime_enabled row = Some True
         \<and> rq_run_status row = Some ''succeeded'' \<and> rq_pipeline_status row = Some ''succeeded''
         \<and> (\<exists>run_at p. rq_run_at row = Some run_at
              \<and> age_of (aware_utc now) run_at \<le> seconds (rq_stale_after_seconds row)
              \<and> rq_pipeline_run_at row = Some p \<and> normalized_utc p = normalized_utc run_at)
         \<and> \<not> upstream_stale row (aware_utc now))
    \<and> card (set (map county_key contract_rows)) = 22
    \<and> (\<forall>key\<in>set (map county_key contract_rows).
         length (filter (\<lambda>r. county_key r = key) contract_rows) = 4)
    \<and> (\<forall>c\<in>set contract_rows. cw_mapping_proof_valid c
         \<and> (\<exists>keys. cw_required_adapter_keys c = Some keys \<and> keys \<noteq> []
              \<and> set keys \<subseteq> set (map rq_adapter_key source_rows)))"
proof -
  note f = snapshot_facts [OF sn]
  let ?f = "status_by_key (sn_sources sn)"
  from ready have r: "sc_status (sn_scheduler sn) = SchedulerHealthy" "length (sn_sources sn) = 12"
    "sources_with ReadyOperational sn = 12" "length (sn_counties sn) = 22"
    "counties_with CountyOperational sn = 22"
    by (auto simp: overall_readiness_of_def minimum_coverage_met_def expected_source_count_def
        expected_jurisdiction_count_def split: if_splits)
  have src: "fst (readiness_decision row (aware_utc now)) = ReadyOperational" if "row \<in> set source_rows" for row
  proof -
    have "\<forall>s\<in>set (sn_sources sn). so_status s = ReadyOperational"
      using r(2,3) count_all [of "\<lambda>s. so_status s = ReadyOperational" "sn_sources sn"]
      by (simp add: sources_with_def)
    with that show ?thesis by (simp add: f(2) source_readiness_of_def)
  qed
  have "\<forall>c\<in>set (sn_counties sn). co_status c = CountyOperational"
    using r(4,5) count_all [of "\<lambda>c. co_status c = CountyOperational" "sn_counties sn"]
    by (simp add: counties_with_def)
  then have county: "co_status (county_readiness_of ?f contract_rows key) = CountyOperational"
    if "key \<in> set (map county_key contract_rows)" for key
    using that unfolding f(3) jurisdiction_readiness_def by auto
  have "length (sn_counties sn) = card (set (map county_key contract_rows))"
    unfolding f(3) jurisdiction_readiness_def
    by (simp add: distinct_card [symmetric])
  then have card: "card (set (map county_key contract_rows)) = 22" using r(4) by simp
  have contract: "cw_mapping_proof_valid c \<and> (\<exists>keys. cw_required_adapter_keys c = Some keys \<and> keys \<noteq> []
      \<and> set keys \<subseteq> set (map rq_adapter_key source_rows))" if c: "c \<in> set contract_rows" for c
  proof -
    have "contract_status ?f c = CountyOperational" using county_operational [OF county [of "county_key c"]] c by simp
    from contract_operational [OF this] obtain keys where k: "cw_mapping_proof_valid c"
      "cw_required_adapter_keys c = Some keys" "keys \<noteq> []" "\<forall>k\<in>set keys. ?f k = ReadyOperational" by blast
    have "k \<in> set (map rq_adapter_key source_rows)" if "k \<in> set keys" for k
      using operational_key [of "sn_sources sn" k] k(4) that by (auto simp: f(2) source_readiness_of_def)
    with k show ?thesis by blast
  qed
  have source: "rq_is_enabled row \<and> rq_runtime_enabled row = Some True
      \<and> rq_run_status row = Some ''succeeded'' \<and> rq_pipeline_status row = Some ''succeeded''
      \<and> (\<exists>run_at p. rq_run_at row = Some run_at
           \<and> age_of (aware_utc now) run_at \<le> seconds (rq_stale_after_seconds row)
           \<and> rq_pipeline_run_at row = Some p \<and> normalized_utc p = normalized_utc run_at)
      \<and> \<not> upstream_stale row (aware_utc now)" if "row \<in> set source_rows" for row
    using readiness_operational [OF src [OF that]] by blast
  have "length source_rows = 12" using r(2) by (simp add: f(2))
  moreover have "\<forall>key\<in>set (map county_key contract_rows).
      length (filter (\<lambda>r. county_key r = key) contract_rows) = 4"
    using county_operational county by blast
  ultimately show ?thesis using r(1) f(1) source contract card by simp
qed


definition sample_source_rows :: "readiness_row list" where
  "sample_source_rows =
     map (\<lambda>key. \<lparr> rq_adapter_key = key, rq_name = [], rq_coverage_kind = ''national_realtime'',
            rq_stale_after_seconds = 900, rq_is_registered = True, rq_is_enabled = True,
            rq_last_success_at = Some (Aware (AwareAt 0 0)), rq_last_failure_at = None,
            rq_runtime_enabled = Some True,
            rq_runtime_enabled_checked_at = Some (Aware (AwareAt 0 0)),
            rq_pipeline_status = Some ''succeeded'',
            rq_pipeline_checked_at = Some (Aware (AwareAt 0 0)),
            rq_pipeline_run_at = Some (Aware (AwareAt 0 0)), rq_pipeline_complete = True,
            rq_pipeline_error_code = None, rq_run_status = Some ''succeeded'',
            rq_run_error_code = None, rq_run_at = Some (Aware (AwareAt 0 0)),
            rq_observed_at = Some (Aware (AwareAt 0 0)), rq_threshold_text = Some ''600'' \<rparr>)
       [''a'', ''b'', ''c'', ''d'', ''e'', ''f'', ''g'', ''h'', ''i'', ''j'', ''k'', ''l'']"

definition sample_contract_rows :: "contract_row list" where
  "sample_contract_rows =
     concat (map (\<lambda>n. replicate 4 \<lparr> cw_jurisdiction_code = ''6'', cw_jurisdiction_name = [n],
            cw_required_adapter_keys = Some [''a''], cw_mapping_proof_valid = True \<rparr>) [0..<22])"

definition sample_heartbeat_row :: scheduler_row where
  "sample_heartbeat_row =
     \<lparr> sr_runtime_status = ''running'', sr_last_seen_at = Aware (AwareAt 0 0),
       sr_stale_after_seconds = 60 \<rparr>"

definition sample_snapshot :: readiness_snapshot where
  "sample_snapshot =
     the (fetch_ingestion_readiness
        (Some (Some sample_heartbeat_row, sample_source_rows, sample_contract_rows))
        (Aware (AwareAt 5 0)))"

lemma ready_means_everything_operational_witness:
  "overall_readiness_of sample_snapshot = OverallReady
   \<and> list_all (\<lambda>row. rq_run_status row = Some ''succeeded'') sample_source_rows"
proof
  show r: "overall_readiness_of sample_snapshot = OverallReady" by code_simp
  have "fetch_ingestion_readiness (Some (Some sample_heartbeat_row, sample_source_rows, sample_contract_rows))
      (Aware (AwareAt 5 0)) = Some sample_snapshot"
    by (simp add: sample_snapshot_def fetch_ingestion_readiness_def)
  from ready_means_everything_operational [OF this r]
  show "list_all (\<lambda>row. rq_run_status row = Some ''succeeded'') sample_source_rows"
    unfolding list_all_iff by blast
qed

section \<open>The published answer\<close>

lemma readiness_counts:
  "count_if (\<lambda>s. so_status s = ReadyOperational) xs + count_if (\<lambda>s. so_status s = ReadyDegraded) xs
   + count_if (\<lambda>s. so_status s = ReadyStale) xs + count_if (\<lambda>s. so_status s = ReadyFailed) xs
   + count_if (\<lambda>s. so_status s = ReadyDisabled) xs + count_if (\<lambda>s. so_status s = ReadyMissing) xs = length xs"
proof (induction xs)
  case (Cons x xs)
  then show ?case by (cases "so_status x") (simp_all add: count_if_def)
qed (simp add: count_if_def)

lemma county_counts:
  "count_if (\<lambda>c. co_status c = CountyOperational) xs + count_if (\<lambda>c. co_status c = CountyDegraded) xs
   + count_if (\<lambda>c. co_status c = CountyUnavailable) xs = length xs"
proof (induction xs)
  case (Cons x xs)
  then show ?case by (cases "co_status x") (simp_all add: count_if_def)
qed (simp add: count_if_def)

lemma outage_count_le: "upstream_unavailable_count sn \<le> sources_with ReadyFailed sn"
  unfolding upstream_unavailable_count_def sources_with_def by (rule count_if_mono) simp

text \<open>
  The published counts leave no source and no county out: the seven source counts add up to the
  sources found or to the twelve expected ones, whichever are more, and the three county counts to the
  counties found or to the 22 expected ones.
\<close>

theorem readiness_counts_add_up:
  assumes "ingestion_readiness_response sn = Inr ro"
  shows "ro_operational ro + ro_degraded ro + ro_stale ro + ro_failed ro + ro_upstream_unavailable ro
      + ro_disabled ro + ro_missing ro = max 12 (length (ro_sources ro))
    \<and> ro_operational_counties ro + ro_degraded_counties ro + ro_unavailable_counties ro =
      max 22 (length (ro_counties ro))"
proof -
  obtain latest where ro: "ro = \<lparr> ro_status = overall_readiness_of sn,
      ro_generated_at = sn_generated_at sn, ro_scheduler = sn_scheduler sn,
      ro_operational = sources_with ReadyOperational sn,
      ro_degraded = sources_with ReadyDegraded sn, ro_stale = sources_with ReadyStale sn,
      ro_failed = sources_with ReadyFailed sn - upstream_unavailable_count sn,
      ro_upstream_unavailable = upstream_unavailable_count sn,
      ro_disabled = sources_with ReadyDisabled sn,
      ro_missing = sources_with ReadyMissing sn + (expected_source_count - length (sn_sources sn)),
      ro_latest_success_at = latest, ro_sources = sn_sources sn,
      ro_returned_counties = length (sn_counties sn),
      ro_operational_counties = counties_with CountyOperational sn,
      ro_degraded_counties = counties_with CountyDegraded sn,
      ro_unavailable_counties = counties_with CountyUnavailable sn
        + (expected_jurisdiction_count - length (sn_counties sn)),
      ro_minimum_coverage_met = minimum_coverage_met sn, ro_counties = sn_counties sn \<rparr>"
    using assms by (auto simp: ingestion_readiness_response_def rbind_Inr_iff split: if_splits)
  show ?thesis
    using readiness_counts [of "sn_sources sn"] county_counts [of "sn_counties sn"] outage_count_le [of sn]
    by (simp add: ro sources_with_def counties_with_def expected_source_count_def
        expected_jurisdiction_count_def) linarith
qed

definition outage_snapshot :: readiness_snapshot where
  "outage_snapshot =
     \<lparr> sn_generated_at = Aware (AwareAt 5 0),
       sn_scheduler = scheduler_readiness_of (Some sample_heartbeat_row) (Aware (AwareAt 5 0)),
       sn_sources = replicate 12 \<lparr> so_adapter_key = ''a'', so_source_id = ''a'', so_name = [],
         so_coverage_kind = ''national_realtime'', so_status = ReadyFailed,
         so_reason = UpstreamOutage, so_checked_at = None, so_last_attempted_at = None,
         so_last_succeeded_at = None, so_stale_after_seconds = 900 \<rparr>,
       sn_counties = replicate 22 \<lparr> co_code = ''63000000'', co_name = [],
         co_status = CountyUnavailable, co_operational = 0, co_degraded = 0, co_unavailable = 4 \<rparr> \<rparr>"

lemma readiness_counts_add_up_witness:
  "\<exists>ro. ingestion_readiness_response outage_snapshot = Inr ro
     \<and> ro_failed ro = 0 \<and> ro_upstream_unavailable ro = 12
     \<and> ro_operational ro + ro_degraded ro + ro_stale ro + ro_failed ro + ro_upstream_unavailable ro
         + ro_disabled ro + ro_missing ro = max 12 (length (ro_sources ro))"
proof -
  let ?ro = "projr (ingestion_readiness_response outage_snapshot)"
  have "isl (ingestion_readiness_response outage_snapshot) = False" by code_simp
  then have ro: "ingestion_readiness_response outage_snapshot = Inr ?ro" by (metis sum.collapse(2))
  have "ro_failed ?ro = 0 \<and> ro_upstream_unavailable ?ro = 12" by code_simp
  then show ?thesis using ro readiness_counts_add_up [OF ro] by metis
qed

lemma outage_blocks_iff:
  "only_outage_blocks sn \<longleftrightarrow>
     (\<exists>s\<in>set (sn_sources sn). so_status s = ReadyFailed \<and> so_reason s = UpstreamOutage)
     \<and> (\<forall>s\<in>set (sn_sources sn). so_status s = ReadyOperational
          \<or> so_status s = ReadyFailed \<and> so_reason s = UpstreamOutage)"
proof -
  let ?xs = "sn_sources sn"
  let ?o = "\<lambda>s. so_status s = ReadyFailed \<and> so_reason s = UpstreamOutage"
  let ?p = "\<lambda>s. so_status s = ReadyOperational"
  have "count_if (\<lambda>s. ?p s \<or> ?o s) xs = count_if ?p xs + count_if ?o xs" for xs
    by (induction xs) (auto simp: count_if_def)
  note split = this [of ?xs]
  have "int (count_if ?o ?xs) = int (length ?xs) - int (count_if ?p ?xs) \<longleftrightarrow>
      count_if (\<lambda>s. ?p s \<or> ?o s) ?xs = length ?xs" by (simp add: split) linarith
  also have "\<dots> \<longleftrightarrow> (\<forall>s\<in>set ?xs. ?p s \<or> ?o s)" by (rule count_all)
  finally show ?thesis
    by (simp add: only_outage_blocks_def upstream_unavailable_count_def sources_with_def count_if_pos)
qed

lemma blocked_by_other:
  "x \<in> S \<Longrightarrow> ((\<forall>s\<in>S. \<not> P s) \<and> \<not> ((\<exists>s\<in>S. F s) \<and> (\<forall>s\<in>S. P s \<or> F s)))
     \<longleftrightarrow> (\<forall>s\<in>S. \<not> P s) \<and> (\<exists>s\<in>S. \<not> F s)"
  by blast

text \<open>
  An outage of upstream services alone never takes the readiness down: with a healthy scheduler and
  complete contracts the answer is down exactly if no source is operational and some source failed for
  another reason than an outage, a changed upstream contract included.
\<close>

theorem outage_alone_is_not_down:
  assumes "sc_status (sn_scheduler sn) = SchedulerHealthy"
    and "length (sn_sources sn) = 12" and "length (sn_counties sn) = 22"
  shows "overall_readiness_of sn = OverallDown \<longleftrightarrow>
    (\<forall>s\<in>set (sn_sources sn). so_status s \<noteq> ReadyOperational)
    \<and> (\<exists>s\<in>set (sn_sources sn). \<not> (so_status s = ReadyFailed \<and> so_reason s = UpstreamOutage))"
proof -
  have zero: "sources_with ReadyOperational sn = 0 \<longleftrightarrow> (\<forall>s\<in>set (sn_sources sn). so_status s \<noteq> ReadyOperational)"
    by (simp add: sources_with_def count_if_def filter_empty_conv)
  have "sn_sources sn \<noteq> []" using assms(2) by auto
  then obtain s where s: "s \<in> set (sn_sources sn)" by (cases "sn_sources sn") auto
  have "overall_readiness_of sn = OverallDown \<longleftrightarrow>
      sources_with ReadyOperational sn = 0 \<and> \<not> only_outage_blocks sn"
    using assms by (simp add: overall_readiness_of_def expected_source_count_def expected_jurisdiction_count_def)
  then show ?thesis
    by (simp only: zero outage_blocks_iff blocked_by_other [OF s])
qed

lemma outage_alone_is_not_down_witness:
  "\<not> overall_readiness_of outage_snapshot = OverallDown
   \<and> sources_with ReadyOperational outage_snapshot = 0"
proof
  have s: "sc_status (sn_scheduler outage_snapshot) = SchedulerHealthy"
    "length (sn_sources outage_snapshot) = 12" "length (sn_counties outage_snapshot) = 22"
    by code_simp+
  have "list_all (\<lambda>s. so_status s = ReadyFailed \<and> so_reason s = UpstreamOutage)
      (sn_sources outage_snapshot)" by code_simp
  then show "\<not> overall_readiness_of outage_snapshot = OverallDown"
    using outage_alone_is_not_down [OF s] by (auto simp: list_all_iff)
qed code_simp

section \<open>Agreement with the nearby source health\<close>

lemma suffix_comparable: "suffix s c \<Longrightarrow> suffix t c \<Longrightarrow> suffix s t \<or> suffix t s"
  by (metis suffix_same_cases)

text \<open>
  Both public surfaces read an error code alike: as a fault of the own database, as an outage or a
  changed contract of the upstream service, or as a failure of the deployment, a configuration
  error included.
\<close>

theorem error_codes_mean_the_same:
  assumes "fallback \<in> {RunFailed, PipelineFailed}"
  shows "(snd (failed_run_decision code fallback) = DatabaseBusy \<longleftrightarrow>
            hd_reason_code (pipeline_failure_decision code m) = DatabaseUnavailable)
    \<and> (snd (failed_run_decision code fallback) \<in> {UpstreamOutage, ContractChanged} \<longleftrightarrow>
            hd_reason_code (pipeline_failure_decision code m) = UpstreamUnavailable)
    \<and> (fst (failed_run_decision code fallback) = ReadyDegraded \<longleftrightarrow>
            hd_health_status (pipeline_failure_decision code m) = DegradedHealth)"
proof -
  let ?c = "str_or_empty code"
  have db: "database_error_suffixes = database_unavailable_suffixes"
    by (simp add: database_error_suffixes_def database_unavailable_suffixes_def)
  have transport: "endswith_any ?c transport_error_suffixes \<longleftrightarrow>
      endswith_any ?c [''TimeoutError''] \<or> endswith_any ?c upstream_transport_suffixes"
    by (auto simp: endswith_any_def transport_error_suffixes_def upstream_transport_suffixes_def)
  have "\<not> endswith_any ?c [''ConfigurationError'']"
    if e: "endswith_any ?c (transport_error_suffixes @ contract_error_suffixes)"
  proof
    assume "endswith_any ?c [''ConfigurationError'']"
    then have conf: "suffix ''ConfigurationError'' ?c" by (simp add: endswith_any_def)
    from e obtain s where s: "s \<in> set (transport_error_suffixes @ contract_error_suffixes)" "suffix s ?c"
      by (auto simp: endswith_any_def list_ex_iff)
    from suffix_comparable [OF conf s(2)] s(1)
    have "list_ex (\<lambda>s. suffix ''ConfigurationError'' s \<or> suffix s ''ConfigurationError'')
        (transport_error_suffixes @ contract_error_suffixes)"
      unfolding list_ex_iff by blast
    moreover have "\<not> list_ex (\<lambda>s. suffix ''ConfigurationError'' s \<or> suffix s ''ConfigurationError'')
        (transport_error_suffixes @ contract_error_suffixes)" by code_simp
    ultimately show False by blast
  qed
  then have conf: "endswith_any ?c [''ConfigurationError''] \<Longrightarrow> \<not> endswith_any ?c transport_error_suffixes
      \<and> \<not> endswith_any ?c contract_error_suffixes"
    by (auto simp: endswith_any_def)
  show ?thesis
    using assms conf transport
    by (auto simp: failed_run_decision_def pipeline_failure_decision_def Let_def db contract_error_suffixes_def)
qed

lemma error_codes_mean_the_same_witness:
  "snd (failed_run_decision (Some ''WraPayloadError'') RunFailed) = ContractChanged
   \<and> hd_reason_code (pipeline_failure_decision (Some ''WraPayloadError'') MsgRunFailed) = UpstreamUnavailable"
proof
  show c: "snd (failed_run_decision (Some ''WraPayloadError'') RunFailed) = ContractChanged" by code_simp
  show "hd_reason_code (pipeline_failure_decision (Some ''WraPayloadError'') MsgRunFailed) = UpstreamUnavailable"
    using error_codes_mean_the_same [of RunFailed "Some ''WraPayloadError''" MsgRunFailed] c by simp
qed

end
