(* ===== verification/Evidence_Retention.thy ===== *)
theory Evidence_Retention
  imports Source_Freshness
begin

text \<open>
  The retention of evidence, \<open>apps/workers/app/jobs/evidence_retention.py\<close>: the deletion of aged realtime
  evidence, location queries and expired raw snapshots, and the two passes over \<open>staging_evidence\<close> with
  their batches, timeouts, windows and the watermark that outlives a cycle. A statement of the database
  may fail, before or after its transaction was committed, and other processes may change the tables
  between any two statements; both are given by the environment.
\<close>

section \<open>Tables\<close>

text \<open>The columns the statements read. Identifiers are the texts of the uuids.\<close>

record evidence_entry =
  ee_id :: string
  ee_source_type :: string
  ee_event_type :: string
  ee_observed_at :: "int option"
  ee_ingested_at :: "int option"
  ee_created_at :: int
  ee_staging_id :: "string option"

record query_entry =
  qe_id :: string
  qe_created_at :: int

record snapshot_entry =
  sp_id :: string
  sp_expires_at :: "int option"

record staging_entry =
  se_id :: string
  se_status :: string
  se_created_at :: int
  se_source :: "string option"
  se_snapshot :: "string option"

text \<open>An index is absent, or present and valid or not.\<close>

record retention_tables =
  rt_evidence :: "evidence_entry list"
  rt_queries :: "query_entry list"
  rt_snapshots :: "snapshot_entry list"
  rt_staging :: "staging_entry list"
  rt_sources :: "(string option \<times> string option) list"
  rt_indexes :: "string \<Rightarrow> bool option"

text \<open>
  \<open>WITH stale AS (SELECT id ... WHERE P ORDER BY time LIMIT n) DELETE ... WHERE id IN stale\<close>; rows of
  the same time are taken in the order of the table.
\<close>

definition stale_ids ::
  "('r \<Rightarrow> string) \<Rightarrow> ('r \<Rightarrow> bool) \<Rightarrow> ('r \<Rightarrow> int) \<Rightarrow> int \<Rightarrow> 'r list \<Rightarrow> string list" where
  "stale_ids key P time limit rows = map key (take (nat limit) (sort_key time (filter P rows)))"

definition delete_oldest ::
  "('r \<Rightarrow> string) \<Rightarrow> ('r \<Rightarrow> bool) \<Rightarrow> ('r \<Rightarrow> int) \<Rightarrow> int \<Rightarrow> 'r list \<Rightarrow> int \<times> 'r list" where
  "delete_oldest key P time limit rows =
     (let ids = stale_ids key P time limit rows
      in (int (count_if (\<lambda>r. key r \<in> set ids) rows), filter (\<lambda>r. key r \<notin> set ids) rows))"

section \<open>Constants\<close>

definition prunable_realtime_event_types :: "string list" where
  "prunable_realtime_event_types = [''rainfall'', ''water_level'', ''flood_warning'']"

definition default_realtime_retention_hours :: int where
  "default_realtime_retention_hours = 48"

definition default_prune_batch_limit :: int where
  "default_prune_batch_limit = 50000"

definition default_query_retention_hours :: int where
  "default_query_retention_hours = 720"

definition default_accepted_max_window_seconds :: int where
  "default_accepted_max_window_seconds = 86400"

definition rejected_index :: string where
  "rejected_index = ''idx_staging_evidence_rejected_created_at''"

definition accepted_index :: string where
  "accepted_index = ''idx_staging_evidence_accepted_created_at''"

definition historical_coverage_adapter_keys :: "string list" where
  "historical_coverage_adapter_keys =
     [''official.nstc.flood_disaster_points'', ''official.wra.historical_flood'']"

definition orphan_prunable_cadences :: "freshness_cadence list" where
  "orphan_prunable_cadences = [RealtimeCadence, LegacyCadence]"

section \<open>Which adapters may lose accepted rows\<close>

definition is_orphan_prunable_adapter :: "string \<Rightarrow> bool" where
  "is_orphan_prunable_adapter key =
     (if key \<in> set historical_coverage_adapter_keys then False
      else cadence_for_adapter key \<in> set orphan_prunable_cadences)"

definition orphan_prunable_source_ids :: "(string option \<times> string option) list \<Rightarrow> string list" where
  "orphan_prunable_source_ids sources =
     dict_fromkeys (List.map_filter
       (\<lambda>(source_id, adapter_key).
          case adapter_key of
            None \<Rightarrow> None
          | Some key \<Rightarrow> if is_orphan_prunable_adapter key then source_id else None)
       sources)"

definition legacy_fallback_adapter_keys :: "(string option \<times> string option) list \<Rightarrow> string list" where
  "legacy_fallback_adapter_keys sources =
     sort (dict_fromkeys (List.map_filter
       (\<lambda>(source_id, adapter_key).
          case adapter_key of
            None \<Rightarrow> None
          | Some key \<Rightarrow>
              if cadence_for_adapter key \<noteq> LegacyCadence then None
              else if \<not> is_orphan_prunable_adapter key then None else Some key)
       sources))"

section \<open>Statements under faults\<close>

text \<open>
  A statement that fails was not executed, or its transaction was committed and the answer lost. The
  index of a statement counts the statements of the process so far.
\<close>

datatype db_fault = NoFault | Refused py_exc | Unconfirmed py_exc

record retention_env =
  re_fault :: "nat \<Rightarrow> db_fault"
  re_others :: "nat \<Rightarrow> retention_tables \<Rightarrow> retention_tables"
  re_sqlstate :: "py_exc \<Rightarrow> string option"

text \<open>The tables, the number of statements so far, and the variables of the module.\<close>

record retention_state =
  rn_tables :: retention_tables
  rn_clock :: nat
  rn_watermark :: "int option"
  rn_window :: "int option"
  rn_staging_streak :: nat
  rn_accepted_streak :: nat
  rn_fallback_keys :: "string list option"

type_synonym 'a retention_step = "(retention_state, 'a) step"

definition interact ::
  "retention_env \<Rightarrow> (retention_tables \<Rightarrow> 'a \<times> retention_tables) \<Rightarrow> 'a retention_step" where
  "interact env f st =
     (let tables = re_others env (rn_clock st) (rn_tables st);
          done = st\<lparr> rn_tables := snd (f tables), rn_clock := Suc (rn_clock st) \<rparr>;
          undone = st\<lparr> rn_tables := tables, rn_clock := Suc (rn_clock st) \<rparr>
      in case re_fault env (rn_clock st) of
           NoFault \<Rightarrow> (Inr (fst (f tables)), done)
         | Refused e \<Rightarrow> (Inl e, undone)
         | Unconfirmed e \<Rightarrow> (Inl e, done))"

text \<open>Statements that only read, and those that touch no modelled table (connect, configure).\<close>

definition db_read :: "retention_env \<Rightarrow> (retention_tables \<Rightarrow> 'a) \<Rightarrow> 'a retention_step" where
  "db_read env f = interact env (\<lambda>t. (f t, t))"

definition db_silent :: "retention_env \<Rightarrow> unit retention_step" where
  "db_silent env = db_read env (\<lambda>t. ())"

text \<open>An exception inside a \<open>try\<close> that reports \<open>EvidenceRetentionUnavailable(str(exc))\<close>.\<close>

definition retention_unavailable :: "py_exc \<Rightarrow> py_exc" where
  "retention_unavailable e = (''EvidenceRetentionUnavailable'', snd e)"

definition guarded :: "'a retention_step \<Rightarrow> 'a retention_step" where
  "guarded m = wcatch m (\<lambda>e st. (Inl (retention_unavailable e), st))"

section \<open>Realtime evidence, location queries, raw snapshots\<close>

text \<open>\<open>COALESCE(observed_at, ingested_at, created_at)\<close>.\<close>

definition evidence_time :: "evidence_entry \<Rightarrow> int" where
  "evidence_time e =
     (case ee_observed_at e of
        Some t \<Rightarrow> t
      | None \<Rightarrow> (case ee_ingested_at e of Some t \<Rightarrow> t | None \<Rightarrow> ee_created_at e))"

definition stale_evidence :: "string list \<Rightarrow> int \<Rightarrow> evidence_entry \<Rightarrow> bool" where
  "stale_evidence event_types cutoff e \<longleftrightarrow>
     ee_source_type e = ''official'' \<and> ee_event_type e \<in> set event_types \<and> evidence_time e < cutoff"

definition prune_realtime_evidence ::
  "string list \<Rightarrow> int \<Rightarrow> int \<Rightarrow> retention_tables \<Rightarrow> int \<times> retention_tables" where
  "prune_realtime_evidence event_types cutoff batch_limit t =
     (let (n, rows) = delete_oldest ee_id (stale_evidence event_types cutoff) evidence_time batch_limit
                        (rt_evidence t)
      in (n, t\<lparr> rt_evidence := rows \<rparr>))"

definition prune_location_query_rows ::
  "int \<Rightarrow> int \<Rightarrow> retention_tables \<Rightarrow> int \<times> retention_tables" where
  "prune_location_query_rows cutoff batch_limit t =
     (let (n, rows) = delete_oldest qe_id (\<lambda>r. qe_created_at r < cutoff) qe_created_at batch_limit
                        (rt_queries t)
      in (n, t\<lparr> rt_queries := rows \<rparr>))"

definition expired_snapshot :: "int \<Rightarrow> snapshot_entry \<Rightarrow> bool" where
  "expired_snapshot expired_before s =
     (case sp_expires_at s of None \<Rightarrow> False | Some e \<Rightarrow> e < expired_before)"

text \<open>\<open>staging_evidence.raw_snapshot_id\<close> refers to snapshots \<open>ON DELETE SET NULL\<close>.\<close>

definition forget_snapshots :: "string list \<Rightarrow> staging_entry \<Rightarrow> staging_entry" where
  "forget_snapshots kept r =
     (case se_snapshot r of
        None \<Rightarrow> r
      | Some i \<Rightarrow> if i \<in> set kept then r else r\<lparr> se_snapshot := None \<rparr>)"

definition prune_snapshot_rows :: "int \<Rightarrow> int \<Rightarrow> retention_tables \<Rightarrow> int \<times> retention_tables" where
  "prune_snapshot_rows expired_before batch_limit t =
     (let (n, rows) = delete_oldest sp_id (expired_snapshot expired_before)
                        (\<lambda>s. case sp_expires_at s of None \<Rightarrow> 0 | Some e \<Rightarrow> e) batch_limit (rt_snapshots t)
      in (n, t\<lparr> rt_snapshots := rows,
                rt_staging := map (forget_snapshots (map sp_id rows)) (rt_staging t) \<rparr>))"

text \<open>A run of one statement on a fresh connection; the times frame it.\<close>

record evidence_retention =
  er_event_types :: "string list"
  er_retention_hours :: int
  er_cutoff :: int
  er_rows_deleted :: int
  er_started_at :: int
  er_finished_at :: int

record query_retention =
  lq_retention_hours :: int
  lq_cutoff :: int
  lq_rows_deleted :: int
  lq_started_at :: int
  lq_finished_at :: int

record snapshot_retention =
  xr_rows_deleted :: int
  xr_started_at :: int
  xr_finished_at :: int

definition run_statement ::
  "retention_env \<Rightarrow> (retention_tables \<Rightarrow> 'a \<times> retention_tables) \<Rightarrow> 'a retention_step" where
  "run_statement env f = guarded (wbind (db_silent env) (\<lambda>_. interact env f))"

text \<open>\<open>now\<close> is the resolved time, \<open>clock\<close> the time at the start and at the end.\<close>

definition prune_realtime ::
  "retention_env \<Rightarrow> int \<times> int \<Rightarrow> int \<Rightarrow> string list \<Rightarrow> int \<Rightarrow> int \<Rightarrow> evidence_retention retention_step" where
  "prune_realtime env clock retention_hours event_types batch_limit now =
     checked
       [(1 \<le> retention_hours, ''retention_hours must be a positive integer''),
        (1 \<le> batch_limit, ''batch_limit must be a positive integer'')]
       (let types = dict_fromkeys event_types;
            cutoff = now - hours retention_hours;
            summary = (\<lambda>n. \<lparr> er_event_types = types, er_retention_hours = retention_hours,
              er_cutoff = cutoff, er_rows_deleted = n, er_started_at = fst clock,
              er_finished_at = snd clock \<rparr>)
        in if types = [] then wreturn (summary 0)
           else wbind (run_statement env (prune_realtime_evidence types cutoff batch_limit))
                  (\<lambda>n. wreturn (summary n)))"

definition prune_location_queries ::
  "retention_env \<Rightarrow> int \<times> int \<Rightarrow> int \<Rightarrow> int \<Rightarrow> int \<Rightarrow> query_retention retention_step" where
  "prune_location_queries env clock retention_hours batch_limit now =
     checked
       [(1 \<le> retention_hours, ''retention_hours must be a positive integer''),
        (1 \<le> batch_limit, ''batch_limit must be a positive integer'')]
       (let cutoff = now - hours retention_hours
        in wbind (run_statement env (prune_location_query_rows cutoff batch_limit))
             (\<lambda>n. wreturn \<lparr> lq_retention_hours = retention_hours, lq_cutoff = cutoff,
                lq_rows_deleted = n, lq_started_at = fst clock, lq_finished_at = snd clock \<rparr>))"

definition prune_expired_raw_snapshots ::
  "retention_env \<Rightarrow> int \<times> int \<Rightarrow> int \<Rightarrow> int \<Rightarrow> snapshot_retention retention_step" where
  "prune_expired_raw_snapshots env clock batch_limit now =
     checked [(1 \<le> batch_limit, ''batch_limit must be a positive integer'')]
       (wbind (run_statement env (prune_snapshot_rows now batch_limit))
          (\<lambda>n. wreturn \<lparr> xr_rows_deleted = n, xr_started_at = fst clock, xr_finished_at = snd clock \<rparr>))"

section \<open>The partial indexes of the staging passes\<close>

datatype stop_reason =
  Exhausted | MaxBatches | StatementTimeout | LockTimeout | IndexNotReady | PassDisabled
| NoAdapterSources | CaughtUp

datatype index_state = IndexReady | IndexBuilding | IndexSkipped | IndexUnavailable

definition index_is_valid :: "retention_env \<Rightarrow> string \<Rightarrow> bool retention_step" where
  "index_is_valid env index_name = db_read env (\<lambda>t. rt_indexes t index_name = Some True)"

definition drop_index :: "retention_env \<Rightarrow> string \<Rightarrow> unit retention_step" where
  "drop_index env index_name =
     interact env (\<lambda>t. ((), t\<lparr> rt_indexes := (rt_indexes t)(index_name := None) \<rparr>))"

definition create_index :: "retention_env \<Rightarrow> string \<Rightarrow> unit retention_step" where
  "create_index env index_name =
     interact env (\<lambda>t. ((), if rt_indexes t index_name = None
                            then t\<lparr> rt_indexes := (rt_indexes t)(index_name \<mapsto> True) \<rparr> else t))"

definition ensure_partial_index :: "retention_env \<Rightarrow> string \<Rightarrow> bool \<Rightarrow> index_state retention_step" where
  "ensure_partial_index env index_name enabled =
     wcatch
       (wbind (db_silent env) (\<lambda>_.
        wbind (index_is_valid env index_name) (\<lambda>valid.
          if valid then wreturn IndexReady
          else if \<not> enabled then wreturn IndexSkipped
          else
            wbind (db_silent env) (\<lambda>_.
            wbind (drop_index env index_name) (\<lambda>_.
            wbind (create_index env index_name) (\<lambda>_.
            wbind (index_is_valid env index_name) (\<lambda>valid.
              wreturn (if valid then IndexReady else IndexBuilding))))))))
       (\<lambda>_. wreturn IndexUnavailable)"

definition timeout_stop_reason :: "retention_env \<Rightarrow> py_exc \<Rightarrow> stop_reason option" where
  "timeout_stop_reason env e =
     (if re_sqlstate env e = Some ''57014'' then Some StatementTimeout
      else if re_sqlstate env e = Some ''55P03'' then Some LockTimeout
      else None)"

section \<open>The rejected pass\<close>

definition stale_rejected :: "int \<Rightarrow> staging_entry \<Rightarrow> bool" where
  "stale_rejected cutoff r \<longleftrightarrow> se_status r = ''rejected'' \<and> se_created_at r < cutoff"

definition delete_staging_evidence_batch ::
  "int \<Rightarrow> int \<Rightarrow> retention_tables \<Rightarrow> int \<times> retention_tables" where
  "delete_staging_evidence_batch cutoff batch_size t =
     (let (n, rows) = delete_oldest se_id (stale_rejected cutoff) se_created_at batch_size (rt_staging t)
      in (n, t\<lparr> rt_staging := rows \<rparr>))"

record batch_progress =
  bp_deleted :: int
  bp_batches :: int
  bp_reason :: stop_reason

text \<open>The loop \<open>while batches < max_batches\<close>.\<close>

function delete_batches ::
  "retention_env \<Rightarrow> int \<Rightarrow> int \<Rightarrow> int \<Rightarrow> batch_progress \<Rightarrow> batch_progress retention_step" where
  "delete_batches env cutoff batch_size max_batches p st =
     (if \<not> bp_batches p < max_batches then (Inr p, st)
      else case interact env (delete_staging_evidence_batch cutoff batch_size) st of
             (Inl e, st') \<Rightarrow>
               (case timeout_stop_reason env e of
                  None \<Rightarrow> (Inl e, st')
                | Some reason \<Rightarrow> (Inr (p\<lparr> bp_reason := reason \<rparr>), st'))
           | (Inr n, st') \<Rightarrow>
               (if n = 0
                then (Inr (p\<lparr> bp_batches := bp_batches p + 1, bp_reason := Exhausted \<rparr>), st')
                else delete_batches env cutoff batch_size max_batches
                       (p\<lparr> bp_batches := bp_batches p + 1, bp_deleted := bp_deleted p + n \<rparr>) st'))"
  by pat_completeness auto
termination
  by (relation "measure (\<lambda>(env, cutoff, batch_size, max_batches, p, st).
        nat (max_batches - bp_batches p))") auto

definition delete_staging_batches ::
  "retention_env \<Rightarrow> int \<Rightarrow> int \<Rightarrow> int \<Rightarrow> batch_progress retention_step" where
  "delete_staging_batches env cutoff batch_size max_batches =
     wbind (db_silent env) (\<lambda>_.
       delete_batches env cutoff batch_size max_batches
         \<lparr> bp_deleted = 0, bp_batches = 0, bp_reason = MaxBatches \<rparr>)"

section \<open>The sweep over accepted rows\<close>

text \<open>No evidence row refers to the staging row.\<close>

definition unreferenced :: "evidence_entry list \<Rightarrow> staging_entry \<Rightarrow> bool" where
  "unreferenced evidence r \<longleftrightarrow> list_all (\<lambda>e. ee_staging_id e \<noteq> Some (se_id r)) evidence"

definition orphan_in ::
  "int \<Rightarrow> int \<Rightarrow> string list \<Rightarrow> evidence_entry list \<Rightarrow> staging_entry \<Rightarrow> bool" where
  "orphan_in window_start window_end source_ids evidence r \<longleftrightarrow>
     se_status r = ''accepted'' \<and> window_start \<le> se_created_at r \<and> se_created_at r < window_end
     \<and> (case se_source r of None \<Rightarrow> False | Some s \<Rightarrow> s \<in> set source_ids)
     \<and> unreferenced evidence r"

definition delete_accepted_staging_evidence_batch ::
  "int \<Rightarrow> int \<Rightarrow> int \<Rightarrow> string list \<Rightarrow> retention_tables \<Rightarrow> int \<times> retention_tables" where
  "delete_accepted_staging_evidence_batch window_start window_end batch_size source_ids t =
     (let (n, rows) = delete_oldest se_id
                        (orphan_in window_start window_end source_ids (rt_evidence t))
                        se_created_at batch_size (rt_staging t)
      in (n, t\<lparr> rt_staging := rows \<rparr>))"

text \<open>
  The read of the adapters also sets the variable of the module that remembers the adapters admitted by
  the fallback, unless the statement itself fails.
\<close>

definition fetch_orphan_prunable_source_ids :: "retention_env \<Rightarrow> string list retention_step" where
  "fetch_orphan_prunable_source_ids env st =
     (let (answer, st') = db_read env rt_sources st;
          keys = legacy_fallback_adapter_keys (rt_sources (rn_tables st'))
      in (case answer of Inl e \<Rightarrow> Inl e | Inr sources \<Rightarrow> Inr (orphan_prunable_source_ids sources),
          case re_fault env (rn_clock st) of
            Refused _ \<Rightarrow> st'
          | _ \<Rightarrow> st'\<lparr> rn_fallback_keys := Some keys \<rparr>))"

definition oldest_accepted :: "retention_tables \<Rightarrow> int option" where
  "oldest_accepted t =
     (case map se_created_at (filter (\<lambda>r. se_status r = ''accepted'') (rt_staging t)) of
        [] \<Rightarrow> None
      | c # cs \<Rightarrow> Some (foldl min c cs))"

definition fetch_oldest_accepted_created_at :: "retention_env \<Rightarrow> int option retention_step" where
  "fetch_oldest_accepted_created_at env = db_read env oldest_accepted"

record sweep_policy =
  sy_batch_size :: int
  sy_max_batches :: int
  sy_window_seconds :: int
  sy_min_window_seconds :: int
  sy_max_window_seconds :: int

record sweep_progress =
  sw_watermark :: int
  sw_window :: int
  sw_deleted :: int
  sw_batches :: int

record sweep_result =
  sz_deleted_rows :: int
  sz_batches :: int
  sz_stopped_reason :: stop_reason
  sz_source_count :: nat
  sz_watermark :: "int option"
  sz_window_seconds :: int

function sweep_loop ::
  "retention_env \<Rightarrow> sweep_policy \<Rightarrow> int \<Rightarrow> string list \<Rightarrow> sweep_progress
    \<Rightarrow> (sweep_progress \<times> stop_reason) retention_step" where
  "sweep_loop env pol cutoff source_ids p st =
     (if \<not> sw_batches p < sy_max_batches pol then (Inr (p, MaxBatches), st)
      else if cutoff \<le> sw_watermark p then (Inr (p, CaughtUp), st)
      else
        let window_end = min (sw_watermark p + seconds (sw_window p)) cutoff
        in case interact env (delete_accepted_staging_evidence_batch (sw_watermark p) window_end
                   (sy_batch_size pol) source_ids) st of
             (Inl e, st') \<Rightarrow>
               (case timeout_stop_reason env e of
                  None \<Rightarrow> (Inl e, st')
                | Some reason \<Rightarrow>
                    let p' = p\<lparr> sw_batches := sw_batches p + 1 \<rparr>
                    in if reason \<noteq> StatementTimeout \<or> sw_window p \<le> sy_min_window_seconds pol
                       then (Inr (p', reason), st')
                       else sweep_loop env pol cutoff source_ids
                              (p'\<lparr> sw_window := max (sy_min_window_seconds pol) (sw_window p div 2) \<rparr>)
                              st')
           | (Inr n, st') \<Rightarrow>
               (let p' = p\<lparr> sw_batches := sw_batches p + 1, sw_deleted := sw_deleted p + n \<rparr>
                in if n \<ge> sy_batch_size pol
                   then sweep_loop env pol cutoff source_ids
                          (p'\<lparr> sw_window := min (sw_window p) (sy_window_seconds pol) \<rparr>) st'
                   else sweep_loop env pol cutoff source_ids
                          (p'\<lparr> sw_watermark := window_end,
                              sw_window := min (if n = 0 then sy_max_window_seconds pol
                                                else sy_window_seconds pol) (sw_window p * 2) \<rparr>)
                          st'))"
  by pat_completeness auto
termination
  by (relation "measure (\<lambda>(env, pol, cutoff, source_ids, p, st).
        nat (sy_max_batches pol - sw_batches p))") auto

definition unswept :: "stop_reason \<Rightarrow> nat \<Rightarrow> int option \<Rightarrow> int \<Rightarrow> sweep_result" where
  "unswept reason source_count watermark window =
     \<lparr> sz_deleted_rows = 0, sz_batches = 0, sz_stopped_reason = reason,
       sz_source_count = source_count, sz_watermark = watermark, sz_window_seconds = window \<rparr>"

definition start_window :: "sweep_policy \<Rightarrow> int option \<Rightarrow> int" where
  "start_window pol saved =
     min (sy_max_window_seconds pol)
       (max (sy_min_window_seconds pol)
          (case saved of
             None \<Rightarrow> sy_window_seconds pol
           | Some w \<Rightarrow> if w = 0 then sy_window_seconds pol else w))"

text \<open>What the sweep reads first: the adapters and, without a watermark, the oldest accepted row.\<close>

definition sweep_setup :: "retention_env \<Rightarrow> int option \<Rightarrow> (string list \<times> int option) retention_step" where
  "sweep_setup env watermark =
     wbind (fetch_orphan_prunable_source_ids env) (\<lambda>source_ids.
       case watermark of
         Some w \<Rightarrow> wreturn (source_ids, Some w)
       | None \<Rightarrow> wbind (fetch_oldest_accepted_created_at env) (\<lambda>w. wreturn (source_ids, w)))"

definition run_sweep ::
  "retention_env \<Rightarrow> sweep_policy \<Rightarrow> int \<Rightarrow> string list \<Rightarrow> int \<Rightarrow> int \<Rightarrow> sweep_result retention_step" where
  "run_sweep env pol cutoff source_ids watermark window =
     wbind (sweep_loop env pol cutoff source_ids
              \<lparr> sw_watermark = watermark, sw_window = window, sw_deleted = 0, sw_batches = 0 \<rparr>)
       (\<lambda>(p, reason) st.
          (Inr \<lparr> sz_deleted_rows = sw_deleted p, sz_batches = sw_batches p,
                 sz_stopped_reason = reason, sz_source_count = length source_ids,
                 sz_watermark = Some (sw_watermark p), sz_window_seconds = sw_window p \<rparr>,
           st\<lparr> rn_watermark := Some (sw_watermark p), rn_window := Some (sw_window p) \<rparr>))"

definition sweep_accepted_staging ::
  "retention_env \<Rightarrow> sweep_policy \<Rightarrow> int \<Rightarrow> sweep_result retention_step" where
  "sweep_accepted_staging env pol cutoff st =
     (let window = start_window pol (rn_window st); watermark = rn_watermark st
      in wbind (db_silent env) (\<lambda>_ st.
           case sweep_setup env watermark st of
             (Inl e, st') \<Rightarrow>
               (case timeout_stop_reason env e of
                  None \<Rightarrow> (Inl e, st')
                | Some reason \<Rightarrow> (Inr (unswept reason 0 watermark window), st'))
           | (Inr ([], w), st') \<Rightarrow> (Inr (unswept NoAdapterSources 0 w window), st')
           | (Inr (source_ids, None), st') \<Rightarrow>
               (Inr (unswept CaughtUp (length source_ids) None window), st')
           | (Inr (source_ids, Some w), st') \<Rightarrow>
               run_sweep env pol cutoff source_ids w window st') st)"

section \<open>The two passes\<close>

record staging_policy =
  pl_retention_days :: int
  pl_batch_size :: int
  pl_max_batches :: int
  pl_statement_timeout_ms :: int
  pl_lock_timeout_ms :: int
  pl_ensure_index :: bool
  pl_accepted_enabled :: bool
  pl_accepted_max_batches :: int
  pl_window_seconds :: int
  pl_min_window_seconds :: int
  pl_max_window_seconds :: "int option"

record staging_retention =
  sx_retention_days :: int
  sx_cutoff :: int
  sx_deleted_rows :: int
  sx_batches :: int
  sx_index_state :: index_state
  sx_stopped_reason :: stop_reason
  sx_accepted_deleted_rows :: int
  sx_accepted_batches :: int
  sx_accepted_index_state :: index_state
  sx_accepted_stopped_reason :: stop_reason
  sx_accepted_source_count :: nat
  sx_accepted_watermark :: "int option"
  sx_accepted_window_seconds :: int
  sx_started_at :: int
  sx_finished_at :: int

definition resolved_max_window :: "staging_policy \<Rightarrow> int" where
  "resolved_max_window pol =
     (case pl_max_window_seconds pol of
        None \<Rightarrow> max default_accepted_max_window_seconds (pl_window_seconds pol)
      | Some w \<Rightarrow> w)"

definition sweep_policy_of :: "staging_policy \<Rightarrow> sweep_policy" where
  "sweep_policy_of pol =
     \<lparr> sy_batch_size = pl_batch_size pol, sy_max_batches = pl_accepted_max_batches pol,
       sy_window_seconds = pl_window_seconds pol, sy_min_window_seconds = pl_min_window_seconds pol,
       sy_max_window_seconds = resolved_max_window pol \<rparr>"

definition staging_policy_checks :: "staging_policy \<Rightarrow> (bool \<times> string) list" where
  "staging_policy_checks pol =
     [(1 \<le> pl_retention_days pol, ''retention_days must be a positive integer''),
      (1 \<le> pl_batch_size pol, ''batch_size must be a positive integer''),
      (1 \<le> pl_max_batches pol, ''max_batches must be a positive integer''),
      (1 \<le> pl_accepted_max_batches pol, ''accepted_max_batches must be a positive integer''),
      (1 \<le> pl_min_window_seconds pol, ''accepted_min_window_seconds must be a positive integer''),
      (pl_min_window_seconds pol \<le> pl_window_seconds pol,
       ''accepted_window_seconds must not be below accepted_min_window_seconds''),
      (pl_window_seconds pol \<le> resolved_max_window pol,
       ''accepted_max_window_seconds must not be below accepted_window_seconds''),
      (1 \<le> pl_statement_timeout_ms pol, ''statement_timeout_ms must be a positive integer''),
      (1 \<le> pl_lock_timeout_ms pol, ''lock_timeout_ms must be a positive integer'')]"

definition rejected_pass ::
  "retention_env \<Rightarrow> staging_policy \<Rightarrow> int \<Rightarrow> (index_state \<times> batch_progress) retention_step" where
  "rejected_pass env pol cutoff =
     wbind (ensure_partial_index env rejected_index (pl_ensure_index pol)) (\<lambda>state.
       if state = IndexReady
       then wbind (delete_staging_batches env cutoff (pl_batch_size pol) (pl_max_batches pol))
              (\<lambda>p. wreturn (state, p))
       else wreturn (state, \<lparr> bp_deleted = 0, bp_batches = 0, bp_reason = IndexNotReady \<rparr>))"

text \<open>\<open>watermark\<close> is the variable of the module when the cycle began.\<close>

definition accepted_pass ::
  "retention_env \<Rightarrow> staging_policy \<Rightarrow> int \<Rightarrow> int option \<Rightarrow> (index_state \<times> sweep_result) retention_step" where
  "accepted_pass env pol cutoff watermark =
     (if \<not> pl_accepted_enabled pol
      then wreturn (IndexSkipped, unswept PassDisabled 0 watermark (pl_window_seconds pol))
      else
        wbind (ensure_partial_index env accepted_index (pl_ensure_index pol)) (\<lambda>state.
          if state = IndexReady
          then wbind (sweep_accepted_staging env (sweep_policy_of pol) cutoff) (\<lambda>r. wreturn (state, r))
          else wreturn (state, unswept IndexNotReady 0 watermark (pl_window_seconds pol))))"

definition next_streak :: "stop_reason \<Rightarrow> nat \<Rightarrow> nat" where
  "next_streak reason streak =
     (if reason \<notin> {StatementTimeout, LockTimeout} then 0 else Suc streak)"

definition record_streaks :: "stop_reason \<Rightarrow> stop_reason \<Rightarrow> unit retention_step" where
  "record_streaks reason accepted_reason st =
     (Inr (), st\<lparr> rn_staging_streak := next_streak reason (rn_staging_streak st),
                  rn_accepted_streak := next_streak accepted_reason (rn_accepted_streak st) \<rparr>)"

definition staging_summary ::
  "staging_policy \<Rightarrow> int \<Rightarrow> int \<times> int \<Rightarrow> (index_state \<times> batch_progress) \<times> (index_state \<times> sweep_result)
    \<Rightarrow> staging_retention" where
  "staging_summary pol cutoff clock passes =
     (let ((index, p), (accepted_index, s)) = passes
      in \<lparr> sx_retention_days = pl_retention_days pol, sx_cutoff = cutoff,
           sx_deleted_rows = bp_deleted p, sx_batches = bp_batches p, sx_index_state = index,
           sx_stopped_reason = bp_reason p, sx_accepted_deleted_rows = sz_deleted_rows s,
           sx_accepted_batches = sz_batches s, sx_accepted_index_state = accepted_index,
           sx_accepted_stopped_reason = sz_stopped_reason s,
           sx_accepted_source_count = sz_source_count s, sx_accepted_watermark = sz_watermark s,
           sx_accepted_window_seconds = sz_window_seconds s, sx_started_at = fst clock,
           sx_finished_at = snd clock \<rparr>)"

definition prune_staging_evidence ::
  "retention_env \<Rightarrow> int \<times> int \<Rightarrow> staging_policy \<Rightarrow> int \<Rightarrow> staging_retention retention_step" where
  "prune_staging_evidence env clock pol now st =
     checked (staging_policy_checks pol)
       (let cutoff = now - hours (24 * pl_retention_days pol)
        in wbind (guarded (wbind (rejected_pass env pol cutoff)
                    (\<lambda>r. wbind (accepted_pass env pol cutoff (rn_watermark st)) (\<lambda>a. wreturn (r, a)))))
             (\<lambda>passes.
                wbind (record_streaks (bp_reason (snd (fst passes)))
                         (sz_stopped_reason (snd (snd passes))))
                  (\<lambda>_. wreturn (staging_summary pol cutoff clock passes))))
       st"

end
