(* ===== verification/Step_Triples.thy ===== *)
theory Step_Triples
  imports Python_Values
begin

text \<open>
  Triples for the steps of \<^verbatim>\<open>Python_Values\<close>: what holds before a step, after it returned and after it
  raised. The rules are collected in \<open>triples\<close>. What a step answers, and relations of its states that
  are kept however steps are composed, are read off them.
\<close>

section \<open>Triples\<close>

text \<open>Before, after a value, after an exception.\<close>

definition triple ::
  "('s \<Rightarrow> bool) \<Rightarrow> ('s, 'a) step \<Rightarrow> ('a \<Rightarrow> 's \<Rightarrow> bool) \<Rightarrow> ('s \<Rightarrow> bool) \<Rightarrow> bool" where
  "triple P m Q E \<longleftrightarrow>
     (\<forall>st. P st \<longrightarrow> (case m st of (Inr a, st') \<Rightarrow> Q a st' | (Inl _, st') \<Rightarrow> E st'))"

named_theorems triples

lemma tripleD:
  assumes "triple P m Q E" and "P st" and "m st = (r, st')"
  shows "case r of Inr a \<Rightarrow> Q a st' | Inl _ \<Rightarrow> E st'"
proof -
  have "case m st of (Inr a, st') \<Rightarrow> Q a st' | (Inl _, st') \<Rightarrow> E st'"
    by (rule assms(1) [unfolded triple_def, rule_format, OF assms(2)])
  then show ?thesis using assms(3) by (cases r) auto
qed

lemma triple_return [triples]: "(\<And>st. P st \<Longrightarrow> Q a st) \<Longrightarrow> triple P (wreturn a) Q E"
  by (simp add: triple_def wreturn_def)

lemma triple_bind [triples]:
  assumes "triple P m R E" and "\<And>a. triple (R a) (f a) Q E"
  shows "triple P (wbind m f) Q E"
  unfolding triple_def wbind_def
proof (intro allI impI)
  fix st assume "P st"
  obtain r st' where m: "m st = (r, st')" by (cases "m st")
  from tripleD [OF assms(1) \<open>P st\<close> m] assms(2)
  show "case case m st of (Inl e, st') \<Rightarrow> (Inl e, st') | (Inr a, st') \<Rightarrow> f a st' of
          (Inl _, st') \<Rightarrow> E st' | (Inr a, st') \<Rightarrow> Q a st'"
    unfolding m by (cases r) (auto simp: triple_def)
qed

lemma triple_catch [triples]:
  assumes "triple P m Q E'" and "\<And>e. triple E' (h e) Q E"
  shows "triple P (wcatch m h) Q E"
  unfolding triple_def wcatch_def
proof (intro allI impI)
  fix st assume "P st"
  obtain r st' where m: "m st = (r, st')" by (cases "m st")
  from tripleD [OF assms(1) \<open>P st\<close> m] assms(2)
  show "case case m st of (Inl e, st') \<Rightarrow> h e st' | (Inr r, st') \<Rightarrow> (Inr r, st') of
          (Inl _, st') \<Rightarrow> E st' | (Inr a, st') \<Rightarrow> Q a st'"
    unfolding m by (cases r) (auto simp: triple_def)
qed

lemma triple_weaken:
  assumes "triple P m Q E" and "\<And>st. P' st \<Longrightarrow> P st" and "\<And>a st. Q a st \<Longrightarrow> Q' a st"
    and "\<And>st. E st \<Longrightarrow> E' st"
  shows "triple P' m Q' E'"
  unfolding triple_def
proof (intro allI impI)
  fix st assume "P' st"
  obtain r st' where m: "m st = (r, st')" by (cases "m st")
  from tripleD [OF assms(1) assms(2) [OF \<open>P' st\<close>] m] assms(3,4)
  show "case m st of (Inl _, st') \<Rightarrow> E' st' | (Inr a, st') \<Rightarrow> Q' a st'"
    unfolding m by (cases r) auto
qed

lemma triple_both:
  assumes "triple P m Q E" and "triple P m Q' E'"
  shows "triple P m (\<lambda>a st. Q a st \<and> Q' a st) (\<lambda>_. True)"
  unfolding triple_def
proof (intro allI impI)
  fix st assume "P st"
  obtain r st' where m: "m st = (r, st')" by (cases "m st")
  from tripleD [OF assms(1) \<open>P st\<close> m] tripleD [OF assms(2) \<open>P st\<close> m]
  show "case m st of (Inl _, st') \<Rightarrow> True | (Inr a, st') \<Rightarrow> Q a st' \<and> Q' a st'"
    unfolding m by (cases r) auto
qed

lemma triple_if [triples]:
  assumes "b \<Longrightarrow> triple P m Q E" and "\<not> b \<Longrightarrow> triple P m' Q E"
  shows "triple P (if b then m else m') Q E"
  using assms by simp

lemma triple_checked [triples]:
  "(\<And>st. P st \<Longrightarrow> E st) \<Longrightarrow> triple P m Q E \<Longrightarrow> triple P (checked cs m) Q E"
  by (induction cs m rule: checked.induct) (auto simp: triple_def raise_error_def)

section \<open>What a step may answer\<close>

abbreviation yields :: "('a \<Rightarrow> bool) \<Rightarrow> ('s, 'a) step \<Rightarrow> bool" where
  "yields Q m \<equiv> triple (\<lambda>_. True) m (\<lambda>a _. Q a) (\<lambda>_. True)"

lemma yields_any: "yields (\<lambda>_. True) m"
  unfolding triple_def by (auto split: sum.split prod.split)

lemma yields_then: "(\<And>a. yields Q (f a)) \<Longrightarrow> yields Q (wbind m f)"
  by (rule triple_bind [OF yields_any]) simp

lemma yields_raise: "yields Q (\<lambda>st. (Inl e, st))"
  by (simp add: triple_def)

lemma yieldsI: "(\<And>st a st'. m st = (Inr a, st') \<Longrightarrow> Q a) \<Longrightarrow> yields Q m"
  unfolding triple_def by (auto split: sum.split prod.split)

lemma yieldsD: "yields Q m \<Longrightarrow> m st = (Inr a, st') \<Longrightarrow> Q a"
  using tripleD [of "\<lambda>_. True" m "\<lambda>a _. Q a" "\<lambda>_. True" st "Inr a" st'] by simp

lemma yields_bind: "yields R m \<Longrightarrow> (\<And>a. R a \<Longrightarrow> yields Q (f a)) \<Longrightarrow> yields Q (wbind m f)"
  by (rule yieldsI) (auto simp: wbind_Inr dest: yieldsD)

lemma yields_return: "Q a \<Longrightarrow> yields Q (wreturn a)"
  by (simp add: triple_return)

section \<open>Steps that advance the state\<close>

text \<open>Every run of a step leads from a state to a related one.\<close>

definition advances :: "('s \<Rightarrow> 's \<Rightarrow> bool) \<Rightarrow> ('s, 'a) step \<Rightarrow> bool" where
  "advances R m \<longleftrightarrow> (\<forall>st r st'. m st = (r, st') \<longrightarrow> R st st')"

lemma advancesI: "(\<And>st r st'. m st = (r, st') \<Longrightarrow> R st st') \<Longrightarrow> advances R m"
  by (simp add: advances_def)

lemma advancesD: "advances R m \<Longrightarrow> m st = (r, st') \<Longrightarrow> R st st'"
  unfolding advances_def by blast

lemma advances_if: "(b \<Longrightarrow> advances R m) \<Longrightarrow> (\<not> b \<Longrightarrow> advances R m') \<Longrightarrow> advances R (if b then m else m')"
  by simp

lemma advances_weaken: "advances R m \<Longrightarrow> (\<And>st st'. R st st' \<Longrightarrow> R' st st') \<Longrightarrow> advances R' m"
  unfolding advances_def by blast

locale step_relation =
  fixes R :: "'s \<Rightarrow> 's \<Rightarrow> bool"
  assumes same: "R st st"
    and chain: "R st st1 \<Longrightarrow> R st1 st2 \<Longrightarrow> R st st2"
begin

lemma return: "advances R (wreturn a)"
  by (simp add: advances_def wreturn_def same)

lemma outcome: "advances R (\<lambda>st. (x st, st))"
  by (simp add: advances_def same)

lemma bind_yields:
  assumes "advances R m" and "yields Q m" and "\<And>a. Q a \<Longrightarrow> advances R (f a)"
  shows "advances R (wbind m f)"
proof (rule advancesI)
  fix st r st'
  assume run: "wbind m f st = (r, st')"
  obtain x st1 where m: "m st = (x, st1)" by (metis surj_pair)
  note first = advancesD [OF assms(1) m]
  show "R st st'"
  proof (cases x)
    case (Inr a)
    with run m have "f a st1 = (r, st')" by (simp add: wbind_def)
    from chain [OF first advancesD [OF assms(3) [OF yieldsD [OF assms(2) m [unfolded Inr]]] this]]
    show ?thesis .
  qed (use run m first in \<open>simp add: wbind_def\<close>)
qed

lemma bind: "advances R m \<Longrightarrow> (\<And>a. advances R (f a)) \<Longrightarrow> advances R (wbind m f)"
  by (rule bind_yields [where Q = "\<lambda>_. True"]) (simp_all add: yields_any)

lemma catch:
  assumes "advances R m" and "\<And>e. advances R (h e)"
  shows "advances R (wcatch m h)"
  using assms unfolding advances_def wcatch_def by (auto split: prod.splits sum.splits) (blast intro: chain)

lemmas rules = return outcome bind catch advances_if

end

end
