(* ===== verification/Retention_Passes.thy ===== *)
theory Retention_Passes
  imports Evidence_Retention Step_Triples
begin

text \<open>
  What the retention promises. The lemmas reason about tables that other processes change between any
  two statements, and about statements that fail before or after their commit: what other processes
  preserve and a batch preserves, a pass preserves. The theorems: only expendable rows go; the sweep
  leaves no orphan behind its watermark; a cycle ends within its budget; left alone, the rejected pass
  takes the oldest rows and the sweep catches up.
\<close>

section \<open>What a statement preserves\<close>

text \<open>
  A property of the tables (and of the watermark, which statements leave alone) that other processes
  preserve is preserved by a statement that preserves it, whether the statement fails or not.
\<close>

abbreviation tables_hold :: "(int option \<Rightarrow> retention_tables \<Rightarrow> bool) \<Rightarrow> retention_state \<Rightarrow> bool" where
  "tables_hold I st \<equiv> I (rn_watermark st) (rn_tables st)"

definition stable :: "retention_env \<Rightarrow> (retention_tables \<Rightarrow> bool) \<Rightarrow> bool" where
  "stable env I \<longleftrightarrow> (\<forall>n t. I t \<longrightarrow> I (re_others env n t))"

lemma triple_update:
  assumes "\<And>w. stable env (I w)" and "\<And>w t. I w t \<Longrightarrow> I w (snd (f t))"
  shows "triple (tables_hold I) (interact env f) (\<lambda>_. tables_hold I) (tables_hold I)"
proof -
  have "I w (re_others env n t)" if "I w t" for n t w using assms(1) that by (simp add: stable_def)
  then show ?thesis using assms(2)
    by (auto simp: triple_def interact_def Let_def split: db_fault.splits)
qed

lemma triple_read:
  "(\<And>w. stable env (I w)) \<Longrightarrow>
   triple (tables_hold I) (db_read env f) (\<lambda>_. tables_hold I) (tables_hold I)"
  unfolding db_read_def by (rule triple_update) simp_all

lemma triple_silent:
  "(\<And>w. stable env (I w)) \<Longrightarrow>
   triple (tables_hold I) (db_silent env) (\<lambda>_. tables_hold I) (tables_hold I)"
  unfolding db_silent_def by (rule triple_read)

lemma triple_guarded [triples]: "triple P m Q E \<Longrightarrow> triple P (guarded m) Q E"
  unfolding guarded_def by (rule triple_catch [where E' = E]) (simp_all add: triple_def)

lemma triple_run_statement:
  assumes "\<And>w. stable env (I w)" and "\<And>w t. I w t \<Longrightarrow> I w (snd (f t))"
  shows "triple (tables_hold I) (run_statement env f) (\<lambda>_. tables_hold I) (tables_hold I)"
  unfolding run_statement_def
  by (intro triple_guarded triple_bind [OF triple_silent] triple_update assms)

section \<open>Deleting the oldest\<close>

lemma stale_idsD: "i \<in> set (stale_ids key P time n rows) \<Longrightarrow> \<exists>r\<in>set rows. key r = i \<and> P r"
  unfolding stale_ids_def by (auto dest!: in_set_takeD)

lemma delete_oldest_keeps:
  assumes "r \<in> set rows" and "\<not> P r" and "distinct (map key rows)"
  shows "r \<in> set (snd (delete_oldest key P time n rows))"
proof -
  have "key r \<notin> set (stale_ids key P time n rows)"
  proof
    assume "key r \<in> set (stale_ids key P time n rows)"
    then obtain r' where "r' \<in> set rows" "key r' = key r" "P r'" by (auto dest: stale_idsD)
    with assms show False by (auto simp: distinct_map inj_on_def)
  qed
  then show ?thesis using assms(1) by (simp add: delete_oldest_def Let_def)
qed

lemma set_delete_oldest: "set (snd (delete_oldest key P time n rows)) \<subseteq> set rows"
  by (auto simp: delete_oldest_def Let_def)

lemma distinct_delete_oldest:
  "distinct (map key rows) \<Longrightarrow> distinct (map key (snd (delete_oldest key P time n rows)))"
  by (simp add: delete_oldest_def Let_def distinct_map_filter)

lemma delete_oldest_count: "0 \<le> fst (delete_oldest key P time n rows)"
  by (simp add: delete_oldest_def Let_def)

text \<open>A batch that deletes fewer rows than it may has deleted all that match.\<close>

lemma delete_oldest_short:
  assumes "fst (delete_oldest key P time n rows) < n"
  shows "\<forall>r\<in>set (snd (delete_oldest key P time n rows)). \<not> P r"
proof -
  let ?L = "sort_key time (filter P rows)" and ?ids = "stale_ids key P time n rows"
  have "mset (take (nat n) ?L) \<subseteq># mset ?L"
    by (metis append_take_drop_id mset_append mset_subset_eq_add_left)
  also have "mset ?L \<subseteq># mset rows" by (simp add: multiset_filter_subset)
  finally have sub: "mset (take (nat n) ?L) \<subseteq># mset rows" .
  have "filter_mset (\<lambda>r. key r \<in> set ?ids) (mset (take (nat n) ?L)) = mset (take (nat n) ?L)"
    by (auto simp: stale_ids_def filter_mset_eq_conv)
  with multiset_filter_mono [OF sub, of "\<lambda>r. key r \<in> set ?ids"]
  have "mset (take (nat n) ?L) \<subseteq># mset (filter (\<lambda>r. key r \<in> set ?ids) rows)" by simp
  from size_mset_mono [OF this]
  have "length (take (nat n) ?L) \<le> length (filter (\<lambda>r. key r \<in> set ?ids) rows)"
    by (simp only: size_mset)
  with assms have "length (take (nat n) ?L) < nat n"
    by (simp add: delete_oldest_def Let_def count_if_def)
  then have all: "take (nat n) ?L = ?L" by simp
  have "set ?ids = key ` {r\<in>set rows. P r}" unfolding stale_ids_def all by (simp add: set_sort)
  then show ?thesis by (auto simp: delete_oldest_def Let_def)
qed

lemma interactE:
  assumes "interact env f st = (r, st')"
  obtains
    (answered) "r = Inr (fst (f (re_others env (rn_clock st) (rn_tables st))))"
      "st' = st\<lparr> rn_tables := snd (f (re_others env (rn_clock st) (rn_tables st))),
                 rn_clock := Suc (rn_clock st) \<rparr>"
  | (failed) e t where "r = Inl e" "st' = st\<lparr> rn_tables := t, rn_clock := Suc (rn_clock st) \<rparr>"
      "t = re_others env (rn_clock st) (rn_tables st)
       \<or> t = snd (f (re_others env (rn_clock st) (rn_tables st)))"
  using assms by (auto simp: interact_def Let_def split: db_fault.splits)

declare delete_batches.simps [simp del] sweep_loop.simps [simp del]

section \<open>What the passes preserve\<close>

definition ignores_indexes :: "(retention_tables \<Rightarrow> bool) \<Rightarrow> bool" where
  "ignores_indexes I \<longleftrightarrow> (\<forall>t ix. I t \<longrightarrow> I (t\<lparr> rt_indexes := ix \<rparr>))"

lemma triple_ensure_index:
  assumes "\<And>w. stable env (I w)" and "\<And>w. ignores_indexes (I w)"
  shows "triple (tables_hold I) (ensure_partial_index env i enabled) (\<lambda>_. tables_hold I) (tables_hold I)"
proof -
  note silent = triple_bind [OF triple_silent [OF assms(1)]]
  have drop: "triple (tables_hold I) (drop_index env i) (\<lambda>_. tables_hold I) (tables_hold I)"
    unfolding drop_index_def
    by (rule triple_update [OF assms(1)]) (use assms(2) in \<open>simp add: ignores_indexes_def\<close>)
  have create: "triple (tables_hold I) (create_index env i) (\<lambda>_. tables_hold I) (tables_hold I)"
    unfolding create_index_def
    by (rule triple_update [OF assms(1)]) (use assms(2) in \<open>simp add: ignores_indexes_def\<close>)
  have valid: "triple (tables_hold I) (index_is_valid env i) (\<lambda>_. tables_hold I) (tables_hold I)"
    unfolding index_is_valid_def by (rule triple_read [OF assms(1)])
  show ?thesis
    unfolding ensure_partial_index_def
    by (intro triple_catch [where E' = "tables_hold I"] triple_if triple_return silent
        triple_bind [OF valid] triple_bind [OF drop] triple_bind [OF create])
qed

lemma delete_batches_preserves:
  assumes "stable env I" and "\<And>t. I t \<Longrightarrow> I (snd (delete_staging_evidence_batch cutoff batch_size t))"
  shows "I (rn_tables st) \<Longrightarrow> delete_batches env cutoff batch_size max_batches p st = (r, st')
    \<Longrightarrow> I (rn_tables st')"
proof (induction "nat (max_batches - bp_batches p)" arbitrary: p st rule: less_induct)
  case less
  obtain a st1 where i: "interact env (delete_staging_evidence_batch cutoff batch_size) st = (a, st1)"
    by (metis surj_pair)
  have st1: "I (rn_tables st1)"
    using i by (rule interactE) (use less.prems(1) assms in \<open>auto simp: stable_def\<close>)
  let ?p = "\<lambda>n. p\<lparr> bp_batches := bp_batches p + 1, bp_deleted := bp_deleted p + n \<rparr>"
  show ?case
  proof (cases "bp_batches p < max_batches \<and> (\<exists>n. a = Inr n \<and> n \<noteq> 0)")
    case True
    then obtain n where n: "a = Inr n" "n \<noteq> 0" and lt: "bp_batches p < max_batches" by blast
    then have "delete_batches env cutoff batch_size max_batches (?p n) st1 = (r, st')"
      using less.prems(2) i by (simp add: delete_batches.simps [of env cutoff batch_size max_batches p])
    then show ?thesis by (rule less.hyps [rotated 2]) (use lt st1 in simp_all)
  next
    case False
    then show ?thesis
      using less.prems i st1
      by (auto simp: delete_batches.simps [of env cutoff batch_size max_batches p]
          split: if_splits sum.splits option.splits)
  qed
qed

text \<open>
  The loop of the sweep under an invariant that may speak of the watermark: it holds after every
  batch, and a batch that deletes fewer rows than it may establishes it for the end of the window.
\<close>

lemma sweep_loop_preserves:
  assumes st: "\<And>w. stable env (I w)"
    and delete: "\<And>w b t. w < cutoff \<Longrightarrow> b \<le> cutoff \<Longrightarrow> I w t
        \<Longrightarrow> I w (snd (delete_accepted_staging_evidence_batch w b (sy_batch_size pol) source_ids t))"
    and advance: "\<And>w b t. w < cutoff \<Longrightarrow> b \<le> cutoff \<Longrightarrow> I w t
        \<Longrightarrow> fst (delete_accepted_staging_evidence_batch w b (sy_batch_size pol) source_ids t) < sy_batch_size pol
        \<Longrightarrow> I b (snd (delete_accepted_staging_evidence_batch w b (sy_batch_size pol) source_ids t))"
  shows "I (sw_watermark p) (rn_tables st) \<Longrightarrow> sweep_loop env pol cutoff source_ids p st = (r, st')
    \<Longrightarrow> (case r of
          Inr (p', reason) \<Rightarrow> I (sw_watermark p') (rn_tables st')
            \<and> (reason = CaughtUp \<longrightarrow> cutoff \<le> sw_watermark p')
        | Inl _ \<Rightarrow> \<exists>w. I w (rn_tables st'))"
proof (induction "nat (sy_max_batches pol - sw_batches p)" arbitrary: p st rule: less_induct)
  case less
  note unfold = sweep_loop.simps [of env pol cutoff source_ids p st]
  let ?w = "sw_watermark p"
  let ?until = "min (?w + seconds (sw_window p)) cutoff"
  let ?f = "delete_accepted_staging_evidence_batch ?w ?until (sy_batch_size pol) source_ids"
  show ?case
  proof (cases "sw_batches p < sy_max_batches pol \<and> ?w < cutoff")
    case False
    then show ?thesis using less.prems by (auto simp: unfold split: if_splits)
  next
    case True
    obtain a st1 where i: "interact env ?f st = (a, st1)" by (metis surj_pair)
    let ?t = "re_others env (rn_clock st) (rn_tables st)"
    have t: "I ?w ?t" using st less.prems(1) by (simp add: stable_def)
    from True have d: "I ?w (snd (?f ?t))" by (intro delete t) simp_all
    note IH = less.hyps
    from i show ?thesis
    proof (cases rule: interactE)
      case answered
      let ?n = "fst (?f ?t)"
      show ?thesis
      proof (cases "sy_batch_size pol \<le> ?n")
        case full: True
        show ?thesis
          by (rule IH [of "p\<lparr> sw_batches := sw_batches p + 1, sw_deleted := sw_deleted p + ?n,
                sw_window := min (sw_window p) (sy_window_seconds pol) \<rparr>" st1])
            (use True full less.prems(2) i answered d in
              \<open>simp_all add: unfold Let_def\<close>)
      next
        case short: False
        have "I ?until (snd (?f ?t))" using True short by (intro advance t) simp_all
        then show ?thesis
          by (intro IH [of "p\<lparr> sw_batches := sw_batches p + 1, sw_deleted := sw_deleted p + ?n,
                sw_watermark := ?until,
                sw_window := min (if ?n = 0 then sy_max_window_seconds pol else sy_window_seconds pol)
                  (sw_window p * 2) \<rparr>" st1])
            (use True short less.prems(2) i answered in \<open>simp_all add: unfold Let_def\<close>)
      qed
    next
      case (failed e t')
      then have st1: "I ?w (rn_tables st1)" using t d by auto
      show ?thesis
      proof (cases "timeout_stop_reason env e = Some StatementTimeout
          \<and> sy_min_window_seconds pol < sw_window p")
        case shrink: True
        show ?thesis
          by (rule IH [of "p\<lparr> sw_batches := sw_batches p + 1,
                sw_window := max (sy_min_window_seconds pol) (sw_window p div 2) \<rparr>" st1])
            (use True shrink less.prems(2) i failed(1) st1 in \<open>simp_all add: unfold Let_def\<close>)
      next
        case False
        with True less.prems(2) i failed(1) st1 show ?thesis
          by (auto simp: unfold Let_def timeout_stop_reason_def split: if_splits option.splits)
      qed
    qed
  qed
qed

lemma db_readE:
  assumes "db_read env f st = (r, st')"
  obtains "st' = st\<lparr> rn_tables := re_others env (rn_clock st) (rn_tables st), rn_clock := Suc (rn_clock st) \<rparr>"
    "\<And>a. r = Inr a \<Longrightarrow> a = f (rn_tables st')"
  using assms by (auto simp: db_read_def interact_def Let_def split: db_fault.splits)

text \<open>The setup reads the adapters and keeps or finds the watermark.\<close>

lemma sweep_setupD:
  assumes "sweep_setup env wm st = (r, st')" and "stable env I" and "I (rn_tables st)"
  shows "rn_watermark st' = rn_watermark st \<and> rn_window st' = rn_window st \<and> I (rn_tables st')
    \<and> (\<forall>ids w. r = Inr (ids, w) \<longrightarrow>
         (\<exists>t. I t \<and> ids = orphan_prunable_source_ids (rt_sources t))
         \<and> w = (case wm of Some w0 \<Rightarrow> Some w0 | None \<Rightarrow> oldest_accepted (rn_tables st')))"
proof -
  have others: "I (re_others env n t)" if "I t" for n t using assms(2) that by (simp add: stable_def)
  obtain a st1 where 1: "fetch_orphan_prunable_source_ids env st = (a, st1)" by (metis surj_pair)
  obtain b st2 where read: "db_read env rt_sources st = (b, st2)" by (metis surj_pair)
  from read have st2: "rn_watermark st2 = rn_watermark st" "rn_window st2 = rn_window st"
    "rn_tables st2 = re_others env (rn_clock st) (rn_tables st)"
    "\<And>x. b = Inr x \<Longrightarrow> x = rt_sources (rn_tables st2)"
    by (auto elim!: db_readE)
  have "rn_watermark st1 = rn_watermark st2 \<and> rn_window st1 = rn_window st2
      \<and> rn_tables st1 = rn_tables st2 \<and> (\<forall>ids. a = Inr ids \<longrightarrow> (\<exists>x. b = Inr x \<and> ids = orphan_prunable_source_ids x))"
    using 1 by (cases b; cases "re_fault env (rn_clock st)")
      (auto simp: fetch_orphan_prunable_source_ids_def read)
  with st2 have st1: "rn_watermark st1 = rn_watermark st" "rn_window st1 = rn_window st"
    "rn_tables st1 = re_others env (rn_clock st) (rn_tables st)"
    "\<And>ids. a = Inr ids \<Longrightarrow> ids = orphan_prunable_source_ids (rt_sources (rn_tables st1))"
    by auto
  have I1: "I (rn_tables st1)" using st1(3) others assms(3) by simp
  obtain c st3 where oldest: "db_read env oldest_accepted st1 = (c, st3)" by (metis surj_pair)
  from oldest have st3: "rn_watermark st3 = rn_watermark st1" "rn_window st3 = rn_window st1"
    "I (rn_tables st3)" "\<And>w. c = Inr w \<Longrightarrow> w = oldest_accepted (rn_tables st3)"
    using others [OF I1] by (auto elim!: db_readE)
  from assms(1) 1 oldest show ?thesis
    using st1 I1 st3 by (cases a; cases c; cases wm)
      (auto simp: sweep_setup_def wbind_def wreturn_def fetch_oldest_accepted_created_at_def)
qed

lemma interact_frame:
  "interact env f st = (r, st') \<Longrightarrow>
   rn_watermark st' = rn_watermark st \<and> rn_window st' = rn_window st \<and> rn_clock st' = Suc (rn_clock st)"
  by (auto simp: interact_def Let_def split: db_fault.splits)

text \<open>
  A sweep leaves the variables of the module alone, sends no more statements than its budget of batches
  and keeps its window within the configured bounds.
\<close>

definition window_ok :: "sweep_policy \<Rightarrow> int \<Rightarrow> bool" where
  "window_ok pol w \<longleftrightarrow> sy_min_window_seconds pol \<le> w \<and> w \<le> sy_max_window_seconds pol"

lemma sweep_loop_frame:
  "sweep_loop env pol cutoff source_ids p st = (r, st') \<Longrightarrow>
   rn_watermark st' = rn_watermark st \<and> rn_window st' = rn_window st
   \<and> rn_clock st' \<le> rn_clock st + nat (sy_max_batches pol - sw_batches p)
   \<and> (\<forall>p' reason. r = Inr (p', reason) \<longrightarrow>
        sw_batches p \<le> sw_batches p' \<and> sw_batches p' \<le> max (sw_batches p) (sy_max_batches pol)
        \<and> (1 \<le> sy_min_window_seconds pol \<longrightarrow> sy_min_window_seconds pol \<le> sy_window_seconds pol
             \<longrightarrow> sy_window_seconds pol \<le> sy_max_window_seconds pol
             \<longrightarrow> window_ok pol (sw_window p) \<longrightarrow> window_ok pol (sw_window p')))"
proof (induction "nat (sy_max_batches pol - sw_batches p)" arbitrary: p st rule: less_induct)
  case less
  note unfold = sweep_loop.simps [of env pol cutoff source_ids p st]
  let ?until = "min (sw_watermark p + seconds (sw_window p)) cutoff"
  let ?f = "delete_accepted_staging_evidence_batch (sw_watermark p) ?until (sy_batch_size pol) source_ids"
  show ?case
  proof (cases "sw_batches p < sy_max_batches pol \<and> sw_watermark p < cutoff")
    case False
    then show ?thesis using less.prems by (auto simp: unfold split: if_splits)
  next
    case True
    obtain a st1 where i: "interact env ?f st = (a, st1)" by (metis surj_pair)
    note frame = interact_frame [OF i]
    have IH: ?thesis if run: "sweep_loop env pol cutoff source_ids p1 st1 = (r, st')"
      and b: "sw_batches p1 = sw_batches p + 1"
      and w: "1 \<le> sy_min_window_seconds pol \<Longrightarrow> sy_min_window_seconds pol \<le> sy_window_seconds pol
          \<Longrightarrow> sy_window_seconds pol \<le> sy_max_window_seconds pol \<Longrightarrow> window_ok pol (sw_window p)
          \<Longrightarrow> window_ok pol (sw_window p1)" for p1
      using less.hyps [OF _ run] True b w frame by auto
    show ?thesis
    proof (cases a)
      case (Inr n)
      show ?thesis
      proof (cases "sy_batch_size pol \<le> n")
        case full: True
        show ?thesis
          by (rule IH [of "p\<lparr> sw_batches := sw_batches p + 1, sw_deleted := sw_deleted p + n,
                sw_window := min (sw_window p) (sy_window_seconds pol) \<rparr>"])
            (use True full Inr i less.prems in \<open>auto simp: unfold Let_def window_ok_def\<close>)
      next
        case short: False
        show ?thesis
          by (rule IH [of "p\<lparr> sw_batches := sw_batches p + 1, sw_deleted := sw_deleted p + n,
                sw_watermark := ?until,
                sw_window := min (if n = 0 then sy_max_window_seconds pol else sy_window_seconds pol)
                  (sw_window p * 2) \<rparr>"])
            (use True short Inr i less.prems in \<open>auto simp: unfold Let_def window_ok_def\<close>)
      qed
    next
      case (Inl e)
      show ?thesis
      proof (cases "timeout_stop_reason env e = Some StatementTimeout
          \<and> sy_min_window_seconds pol < sw_window p")
        case shrink: True
        show ?thesis
          by (rule IH [of "p\<lparr> sw_batches := sw_batches p + 1,
                sw_window := max (sy_min_window_seconds pol) (sw_window p div 2) \<rparr>"])
            (use True shrink Inl i less.prems in \<open>auto simp: unfold Let_def window_ok_def\<close>)
      next
        case False
        with True Inl i less.prems frame show ?thesis
          by (auto simp: unfold Let_def split: if_splits option.splits)
      qed
    qed
  qed
qed

text \<open>The state of a sweep between cycles: what is known of the watermark and of the tables.\<close>

fun sweep_state :: "(int \<Rightarrow> retention_tables \<Rightarrow> bool) \<Rightarrow> (retention_tables \<Rightarrow> bool) \<Rightarrow> int option
    \<Rightarrow> retention_tables \<Rightarrow> bool" where
  "sweep_state I J None t = J t"
| "sweep_state I J (Some w) t = (J t \<and> I w t)"

lemma sweep_preserves:
  assumes stable: "\<And>w. stable env (I w)" "stable env J"
    and sources: "\<And>t. J t \<Longrightarrow> orphan_prunable_source_ids (rt_sources t) = source_ids"
    and oldest: "\<And>t w. J t \<Longrightarrow> oldest_accepted t = Some w \<Longrightarrow> I w t"
    and J_delete: "\<And>w b t. b \<le> cutoff \<Longrightarrow> J t
        \<Longrightarrow> J (snd (delete_accepted_staging_evidence_batch w b (sy_batch_size pol) source_ids t))"
    and delete: "\<And>v w b t. b \<le> cutoff \<Longrightarrow> J t \<Longrightarrow> I v t
        \<Longrightarrow> I v (snd (delete_accepted_staging_evidence_batch w b (sy_batch_size pol) source_ids t))"
    and advance: "\<And>w b t. w < cutoff \<Longrightarrow> b \<le> cutoff \<Longrightarrow> J t \<Longrightarrow> I w t
        \<Longrightarrow> fst (delete_accepted_staging_evidence_batch w b (sy_batch_size pol) source_ids t) < sy_batch_size pol
        \<Longrightarrow> I b (snd (delete_accepted_staging_evidence_batch w b (sy_batch_size pol) source_ids t))"
    and init: "sweep_state I J (rn_watermark st) (rn_tables st)"
    and run: "sweep_accepted_staging env pol cutoff st = (r, st')"
  shows "sweep_state I J (rn_watermark st') (rn_tables st')
    \<and> (\<forall>s. r = Inr s \<and> sz_stopped_reason s = CaughtUp \<longrightarrow>
         (\<exists>w\<ge>cutoff. I w (rn_tables st')) \<or> oldest_accepted (rn_tables st') = None)"
proof -
  let ?wm = "rn_watermark st" and ?K = "sweep_state I J (rn_watermark st)"
  have K: "stable env ?K" using stable by (cases ?wm) (simp_all add: stable_def)
  have KJ: "J t" if "?K t" for t using that by (cases ?wm) simp_all
  obtain a st1 where 1: "db_silent env st = (a, st1)" by (metis surj_pair)
  then have st1: "rn_watermark st1 = ?wm" "rn_window st1 = rn_window st" "?K (rn_tables st1)"
    unfolding db_silent_def using K init by (auto elim!: db_readE simp: stable_def)
  obtain b st2 where 2: "sweep_setup env ?wm st1 = (b, st2)" by (metis surj_pair)
  from sweep_setupD [OF 2 K st1(3)] have st2: "rn_watermark st2 = ?wm" "?K (rn_tables st2)"
    and ids: "\<And>ids w. b = Inr (ids, w) \<Longrightarrow> ids = source_ids
        \<and> w = (case ?wm of Some w0 \<Rightarrow> Some w0 | None \<Rightarrow> oldest_accepted (rn_tables st2))"
    using st1(1) KJ sources by auto
  note run = run [unfolded sweep_accepted_staging_def Let_def wbind_def 1 prod.case]
  show ?thesis
  proof (cases "\<exists>w. a = Inr () \<and> b = Inr (source_ids, Some w) \<and> source_ids \<noteq> []")
    case False
    show ?thesis
    proof (cases a)
      case (Inl e)
      with run st1 show ?thesis
        by (auto simp: timeout_stop_reason_def unswept_def split: option.splits if_splits)
    next
      case (Inr u)
      show ?thesis
      proof (cases b)
        case (Inl e)
        with run st2 Inr 2 show ?thesis
          by (auto simp: timeout_stop_reason_def unswept_def split: option.splits if_splits)
      next
        case b: (Inr x)
        obtain xs y where x: "x = (xs, y)" by (cases x)
        with ids b have xs: "xs = source_ids" by blast
        show ?thesis
        proof (cases "xs = []")
          case True
          with run st2 Inr b x 2 show ?thesis by (cases y) (auto simp: unswept_def)
        next
          case ne: False
          with False Inr b x xs have y: "y = None" by (cases y) auto
          with ids b x have "oldest_accepted (rn_tables st2) = None" by (auto split: option.splits)
          with run st2 Inr b x y ne 2 show ?thesis by (cases xs) (auto simp: unswept_def)
        qed
      qed
    qed
  next
    case True
    then obtain w where ab: "a = Inr ()" "b = Inr (source_ids, Some w)" "source_ids \<noteq> []" by blast
    from ids [OF ab(2)] st2 have w: "?K (rn_tables st2)" "I w (rn_tables st2)"
      using oldest by (cases ?wm; auto)+
    let ?p = "\<lparr> sw_watermark = w, sw_window = start_window pol (rn_window st), sw_deleted = 0, sw_batches = 0 \<rparr>"
    obtain c st3 where loop: "sweep_loop env pol cutoff source_ids ?p st2 = (c, st3)" by (metis surj_pair)
    have inv: "case c of
          Inr (p', reason) \<Rightarrow> (?K (rn_tables st3) \<and> I (sw_watermark p') (rn_tables st3))
            \<and> (reason = CaughtUp \<longrightarrow> cutoff \<le> sw_watermark p')
        | Inl _ \<Rightarrow> \<exists>w. ?K (rn_tables st3) \<and> I w (rn_tables st3)"
    proof (rule sweep_loop_preserves [where I = "\<lambda>w t. ?K t \<and> I w t" and p = ?p and st = st2, simplified])
      show "stable env (\<lambda>t. ?K t \<and> I w t)" for w using K stable by (simp add: stable_def)
      show "?K (rn_tables st2) \<and> I w (rn_tables st2)" using w by simp
      show "sweep_loop env pol cutoff source_ids ?p st2 = (c, st3)" by (rule loop)
      let ?d = "\<lambda>w b t. delete_accepted_staging_evidence_batch w b (sy_batch_size pol) source_ids t"
      have Kd: "?K (snd (?d w b t))" if "b \<le> cutoff" "?K t" for w b t
        using that J_delete delete by (cases ?wm) simp_all
      show "?K (snd (?d w b t)) \<and> I w (snd (?d w b t))"
        if "w < cutoff" "b \<le> cutoff" "?K t \<and> I w t" for w b t
        using that Kd delete KJ by blast
      show "?K (snd (?d w b t)) \<and> I b (snd (?d w b t))"
        if "w < cutoff" "b \<le> cutoff" "?K t \<and> I w t" "fst (?d w b t) < sy_batch_size pol" for w b t
        using that Kd advance KJ by blast
    qed
    obtain s ss where "source_ids = s # ss" using ab(3) by (cases source_ids) auto
    with run ab 2 have "run_sweep env pol cutoff source_ids w (start_window pol (rn_window st)) st2 = (r, st')"
      by simp
    with loop inv KJ st2(1) sweep_loop_frame [OF loop] show ?thesis
      by (cases c) (auto simp: run_sweep_def wbind_def)
  qed
qed

lemma delete_batches_frame:
  "delete_batches env cutoff batch_size max_batches p st = (r, st') \<Longrightarrow>
   rn_watermark st' = rn_watermark st \<and> rn_window st' = rn_window st
   \<and> rn_clock st' \<le> rn_clock st + nat (max_batches - bp_batches p)
   \<and> (\<forall>p'. r = Inr p' \<longrightarrow> bp_batches p \<le> bp_batches p' \<and> bp_batches p' \<le> max (bp_batches p) max_batches)"
proof (induction "nat (max_batches - bp_batches p)" arbitrary: p st rule: less_induct)
  case less
  obtain a st1 where i: "interact env (delete_staging_evidence_batch cutoff batch_size) st = (a, st1)"
    by (metis surj_pair)
  note frame = interact_frame [OF i] and unfold = delete_batches.simps [of env cutoff batch_size max_batches p]
  show ?case
  proof (cases "bp_batches p < max_batches \<and> (\<exists>n. a = Inr n \<and> n \<noteq> 0)")
    case True
    then obtain n where n: "a = Inr n" "n \<noteq> 0" and lt: "bp_batches p < max_batches" by blast
    let ?p = "p\<lparr> bp_batches := bp_batches p + 1, bp_deleted := bp_deleted p + n \<rparr>"
    have "delete_batches env cutoff batch_size max_batches ?p st1 = (r, st')"
      using less.prems lt i n by (simp add: unfold)
    from less.hyps [OF _ this] lt frame show ?thesis by auto
  next
    case False
    then show ?thesis using less.prems i frame
      by (auto simp: unfold split: if_splits sum.splits option.splits)
  qed
qed

lemma triple_sweep:
  assumes "\<And>w. stable env (I w)" "stable env J"
    and "\<And>t. J t \<Longrightarrow> orphan_prunable_source_ids (rt_sources t) = source_ids"
    and "\<And>t w. J t \<Longrightarrow> oldest_accepted t = Some w \<Longrightarrow> I w t"
    and "\<And>w b t. b \<le> cutoff \<Longrightarrow> J t
        \<Longrightarrow> J (snd (delete_accepted_staging_evidence_batch w b (sy_batch_size pol) source_ids t))"
    and "\<And>v w b t. b \<le> cutoff \<Longrightarrow> J t \<Longrightarrow> I v t
        \<Longrightarrow> I v (snd (delete_accepted_staging_evidence_batch w b (sy_batch_size pol) source_ids t))"
    and "\<And>w b t. w < cutoff \<Longrightarrow> b \<le> cutoff \<Longrightarrow> J t \<Longrightarrow> I w t
        \<Longrightarrow> fst (delete_accepted_staging_evidence_batch w b (sy_batch_size pol) source_ids t) < sy_batch_size pol
        \<Longrightarrow> I b (snd (delete_accepted_staging_evidence_batch w b (sy_batch_size pol) source_ids t))"
  shows "triple (tables_hold (sweep_state I J)) (sweep_accepted_staging env pol cutoff)
     (\<lambda>s st. tables_hold (sweep_state I J) st \<and> (sz_stopped_reason s = CaughtUp \<longrightarrow>
        (\<exists>w\<ge>cutoff. I w (rn_tables st)) \<or> oldest_accepted (rn_tables st) = None))
     (tables_hold (sweep_state I J))"
  unfolding triple_def
proof (intro allI impI)
  fix st :: retention_state
  assume st: "tables_hold (sweep_state I J) st"
  obtain r st' where run: "sweep_accepted_staging env pol cutoff st = (r, st')" by (metis surj_pair)
  have p: "sweep_state I J (rn_watermark st') (rn_tables st')
    \<and> (\<forall>s. r = Inr s \<and> sz_stopped_reason s = CaughtUp \<longrightarrow>
         (\<exists>w\<ge>cutoff. I w (rn_tables st')) \<or> oldest_accepted (rn_tables st') = None)"
    by (rule sweep_preserves [OF assms st run])
  show "case sweep_accepted_staging env pol cutoff st of
      (Inl _, st') \<Rightarrow> tables_hold (sweep_state I J) st'
    | (Inr s, st') \<Rightarrow> tables_hold (sweep_state I J) st' \<and> (sz_stopped_reason s = CaughtUp \<longrightarrow>
        (\<exists>w\<ge>cutoff. I w (rn_tables st')) \<or> oldest_accepted (rn_tables st') = None)"
  proof (cases r)
    case (Inl e)
    show ?thesis unfolding run Inl prod.case sum.case by (rule conjunct1 [OF p])
  next
    case (Inr s)
    have "(\<exists>w\<ge>cutoff. I w (rn_tables st')) \<or> oldest_accepted (rn_tables st') = None"
      if "sz_stopped_reason s = CaughtUp"
      by (rule conjunct2 [OF p, rule_format, of s]) (rule conjI [OF Inr that])
    then show ?thesis unfolding run Inr prod.case sum.case
      by (intro conjI impI) (rule conjunct1 [OF p], simp)
  qed
qed

lemma triple_rejected_pass:
  assumes "\<And>w. stable env (I w)" and "\<And>w. ignores_indexes (I w)"
    and delete: "\<And>w t n. I w t \<Longrightarrow> I w (snd (delete_staging_evidence_batch cutoff n t))"
  shows "triple (tables_hold I) (rejected_pass env pol cutoff) (\<lambda>_. tables_hold I) (tables_hold I)"
proof -
  have "triple (tables_hold I) (delete_batches env cutoff bs mb p) (\<lambda>_. tables_hold I) (tables_hold I)"
    for bs mb p
    unfolding triple_def
  proof (intro allI impI)
    fix st assume st: "tables_hold I st"
    obtain r st' where run: "delete_batches env cutoff bs mb p st = (r, st')" by (metis surj_pair)
    have "I (rn_watermark st) (rn_tables st')"
      by (rule delete_batches_preserves [OF assms(1) delete st run])
    then show "case delete_batches env cutoff bs mb p st of
        (Inl _, st') \<Rightarrow> tables_hold I st' | (Inr a, st') \<Rightarrow> tables_hold I st'"
      using run delete_batches_frame [OF run] by (cases r) simp_all
  qed
  then show ?thesis
    unfolding rejected_pass_def delete_staging_batches_def
    by (intro triple_bind [OF triple_ensure_index [OF assms(1,2)]] triple_if triple_return
        triple_bind [OF triple_bind [OF triple_silent [OF assms(1)]]])
qed

lemma triple_param:
  "(\<And>x. triple P (F x) Q E) \<Longrightarrow> m = (\<lambda>st. F (g st) st) \<Longrightarrow> triple P m Q E"
  by (simp add: triple_def)

lemma triple_record_streaks:
  "triple (tables_hold I) (record_streaks a b) (\<lambda>_. tables_hold I) E"
  by (simp add: triple_def record_streaks_def)

lemma triple_staging:
  assumes "\<And>w. stable env (I w)" and "\<And>w. ignores_indexes (I w)"
    and "\<And>w t n. I w t \<Longrightarrow> I w (snd (delete_staging_evidence_batch cutoff n t))"
    and sweep: "triple (tables_hold I) (sweep_accepted_staging env (sweep_policy_of pol) cutoff)
        (\<lambda>s st. tables_hold I st \<and> (sz_stopped_reason s = CaughtUp \<longrightarrow> C (rn_tables st))) (tables_hold I)"
    and cutoff: "cutoff = now - hours (24 * pl_retention_days pol)"
  shows "triple (tables_hold I) (prune_staging_evidence env clock pol now)
    (\<lambda>s st. tables_hold I st \<and> (sx_accepted_stopped_reason s = CaughtUp \<longrightarrow> C (rn_tables st)))
    (tables_hold I)"
proof -
  let ?Q = "\<lambda>s st. tables_hold I st \<and> (sz_stopped_reason s = CaughtUp \<longrightarrow> C (rn_tables st))"
  have "triple (tables_hold I) (accepted_pass env pol cutoff wm) (\<lambda>a. ?Q (snd a)) (tables_hold I)" for wm
    unfolding accepted_pass_def
    by (intro triple_if triple_return triple_bind [OF triple_ensure_index [OF assms(1,2)]]
        triple_bind [OF sweep]) (simp_all add: unswept_def)
  then have both: "triple (tables_hold I)
      (guarded (wbind (rejected_pass env pol cutoff)
         (\<lambda>r. wbind (accepted_pass env pol cutoff wm) (\<lambda>a. wreturn (r, a)))))
      (\<lambda>ra. ?Q (snd (snd ra))) (tables_hold I)" for wm
    by (intro triple_guarded triple_bind [OF triple_rejected_pass [OF assms(1-3)]] triple_bind triple_return)
      simp_all
  let ?F = "\<lambda>wm. checked (staging_policy_checks pol)
     (wbind (guarded (wbind (rejected_pass env pol cutoff)
         (\<lambda>r. wbind (accepted_pass env pol cutoff wm) (\<lambda>a. wreturn (r, a)))))
       (\<lambda>ra. wbind (record_streaks (bp_reason (snd (fst ra))) (sz_stopped_reason (snd (snd ra))))
         (\<lambda>_. wreturn (staging_summary pol cutoff clock ra))))"
  show ?thesis
  proof (rule triple_param [where F = ?F and g = rn_watermark])
    show "triple (tables_hold I) (?F wm) (\<lambda>s st. tables_hold I st
        \<and> (sx_accepted_stopped_reason s = CaughtUp \<longrightarrow> C (rn_tables st))) (tables_hold I)" for wm
    proof (intro triple_checked triple_bind [OF both])
      fix ra show "triple (\<lambda>st. ?Q (snd (snd ra)) st)
         (wbind (record_streaks (bp_reason (snd (fst ra))) (sz_stopped_reason (snd (snd ra))))
           (\<lambda>_. wreturn (staging_summary pol cutoff clock ra)))
         (\<lambda>s st. tables_hold I st \<and> (sx_accepted_stopped_reason s = CaughtUp \<longrightarrow> C (rn_tables st)))
         (tables_hold I)"
        by (auto simp: triple_def record_streaks_def wbind_def wreturn_def staging_summary_def
            split: prod.splits)
    qed
    show "prune_staging_evidence env clock pol now = (\<lambda>st. ?F (rn_watermark st) st)"
      by (simp add: prune_staging_evidence_def cutoff fun_eq_iff Let_def)
  qed
qed

section \<open>Properties\<close>

text \<open>An accepted row that no evidence refers to, of an adapter whose old rows may go.\<close>

definition orphan :: "retention_tables \<Rightarrow> staging_entry \<Rightarrow> bool" where
  "orphan t r \<longleftrightarrow>
     se_status r = ''accepted'' \<and> unreferenced (rt_evidence t) r
     \<and> (\<exists>s key. se_source r = Some s \<and> (Some s, Some key) \<in> set (rt_sources t)
          \<and> is_orphan_prunable_adapter key)"

definition expendable :: "int \<Rightarrow> retention_tables \<Rightarrow> staging_entry \<Rightarrow> bool" where
  "expendable cutoff t r \<longleftrightarrow> se_created_at r < cutoff \<and> (se_status r = ''rejected'' \<or> orphan t r)"

lemma set_prunable_ids:
  "s \<in> set (orphan_prunable_source_ids sources) \<longleftrightarrow>
   (\<exists>key. (Some s, Some key) \<in> set sources \<and> is_orphan_prunable_adapter key)"
  by (force simp: orphan_prunable_source_ids_def map_filter_def split: option.splits if_splits)

lemma orphan_in_iff:
  "orphan_in a b (orphan_prunable_source_ids (rt_sources t)) (rt_evidence t) r \<longleftrightarrow>
   a \<le> se_created_at r \<and> se_created_at r < b \<and> orphan t r"
  by (auto simp: orphan_in_def orphan_def set_prunable_ids split: option.splits)

lemma rejected_batch_tables:
  "snd (delete_staging_evidence_batch cutoff n t) =
   t\<lparr> rt_staging := snd (delete_oldest se_id (stale_rejected cutoff) se_created_at n (rt_staging t)) \<rparr>"
  by (simp add: delete_staging_evidence_batch_def split: prod.split)

lemma accepted_batch_tables:
  "snd (delete_accepted_staging_evidence_batch a b n ids t) =
   t\<lparr> rt_staging := snd (delete_oldest se_id (orphan_in a b ids (rt_evidence t)) se_created_at n (rt_staging t)) \<rparr>"
  "fst (delete_accepted_staging_evidence_batch a b n ids t) =
   fst (delete_oldest se_id (orphan_in a b ids (rt_evidence t)) se_created_at n (rt_staging t))"
  by (simp_all add: delete_accepted_staging_evidence_batch_def split: prod.split)

lemma orphan_cong:
  "rt_evidence t = rt_evidence t' \<Longrightarrow> rt_sources t = rt_sources t' \<Longrightarrow> orphan t r = orphan t' r"
  by (simp add: orphan_def)

text \<open>
  C18. The retention of staging rows deletes only expendable rows: rejected ones, and accepted ones of a
  realtime or unclassified adapter that no evidence refers to, in both cases older than the retention.
  Any other row survives the cycle, whichever statements fail and whether the cycle itself fails,
  provided the other processes neither delete the row nor make it expendable.
\<close>

theorem only_expendable_rows_are_pruned:
  assumes others: "\<And>n t. distinct (map se_id (rt_staging t)) \<Longrightarrow> r \<in> set (rt_staging t)
      \<Longrightarrow> \<not> expendable (now - hours (24 * pl_retention_days pol)) t r
      \<Longrightarrow> distinct (map se_id (rt_staging (re_others env n t))) \<and> r \<in> set (rt_staging (re_others env n t))
        \<and> \<not> expendable (now - hours (24 * pl_retention_days pol)) (re_others env n t) r
        \<and> rt_sources (re_others env n t) = rt_sources t"
    and ids: "distinct (map se_id (rt_staging (rn_tables st)))"
    and row: "r \<in> set (rt_staging (rn_tables st))"
    and kept: "\<not> expendable (now - hours (24 * pl_retention_days pol)) (rn_tables st) r"
    and run: "prune_staging_evidence env clock pol now st = (answer, st')"
  shows "r \<in> set (rt_staging (rn_tables st'))"
proof -
  let ?cutoff = "now - hours (24 * pl_retention_days pol)"
  let ?pol = "sweep_policy_of pol"
  define S where "S = rt_sources (rn_tables st)"
  define J where "J t \<longleftrightarrow> distinct (map se_id (rt_staging t)) \<and> r \<in> set (rt_staging t)
      \<and> \<not> expendable ?cutoff t r \<and> rt_sources t = S" for t
  have J: "stable env J" using others by (auto simp: stable_def J_def)
  have init: "J (rn_tables st)" using ids row kept by (simp add: J_def S_def)
  have ignores: "ignores_indexes J"
    by (simp add: ignores_indexes_def J_def expendable_def orphan_def)
  have rejected: "J (snd (delete_staging_evidence_batch ?cutoff n t))" if "J t" for n t
    using that delete_oldest_keeps [of r "rt_staging t" "stale_rejected ?cutoff" se_id]
    by (auto simp: J_def rejected_batch_tables distinct_delete_oldest expendable_def stale_rejected_def
        orphan_def)
  have accepted: "J (snd (delete_accepted_staging_evidence_batch a b n (orphan_prunable_source_ids S) t))"
    if "b \<le> ?cutoff" "J t" for a b n t
  proof -
    have "\<not> orphan_in a b (orphan_prunable_source_ids S) (rt_evidence t) r"
      using that orphan_in_iff [of a b t r] by (auto simp: J_def expendable_def)
    then show ?thesis
      using that delete_oldest_keeps [of r "rt_staging t"
          "orphan_in a b (orphan_prunable_source_ids S) (rt_evidence t)" se_id]
      by (auto simp: J_def accepted_batch_tables distinct_delete_oldest expendable_def orphan_def)
  qed
  have [simp]: "sweep_state (\<lambda>_ _. True) J wm t = J t" for wm t by (cases wm) simp_all
  have "triple (tables_hold (sweep_state (\<lambda>_ _. True) J)) (prune_staging_evidence env clock pol now)
      (\<lambda>s st. tables_hold (sweep_state (\<lambda>_ _. True) J) st
        \<and> (sx_accepted_stopped_reason s = CaughtUp \<longrightarrow> True))
      (tables_hold (sweep_state (\<lambda>_ _. True) J))"
  proof (rule triple_staging [OF _ _ _ triple_weaken [OF triple_sweep
          [where I = "\<lambda>_ _. True" and J = J and source_ids = "orphan_prunable_source_ids S"]] refl])
  qed (use J ignores rejected accepted in \<open>simp_all add: stable_def ignores_indexes_def\<close>,
       simp_all add: J_def)
  from tripleD [OF this _ run] init have "J (rn_tables st')" by (cases answer) simp_all
  then show ?thesis by (simp add: J_def)
qed

lemma foldl_min_le: "foldl min (c::int) cs \<le> c \<and> (\<forall>x\<in>set cs. foldl min c cs \<le> x)"
proof (induction cs arbitrary: c)
  case (Cons a cs)
  from Cons [of "min c a"] show ?case by fastforce
qed simp

lemma oldest_acceptedD:
  assumes "r \<in> set (rt_staging t)" and "se_status r = ''accepted''"
  shows "\<exists>w. oldest_accepted t = Some w \<and> w \<le> se_created_at r"
proof -
  let ?cs = "map se_created_at (filter (\<lambda>r. se_status r = ''accepted'') (rt_staging t))"
  have m: "se_created_at r \<in> set ?cs" using assms by auto
  then obtain c cs where cs: "?cs = c # cs" by (cases ?cs) auto
  with m foldl_min_le [of c cs] have "foldl min c cs \<le> se_created_at r" by auto
  then show ?thesis unfolding oldest_accepted_def cs by simp
qed

text \<open>No orphan older than the cutoff lies before the watermark.\<close>

definition swept :: "int \<Rightarrow> int \<Rightarrow> retention_tables \<Rightarrow> bool" where
  "swept cutoff w t \<longleftrightarrow>
     (\<forall>r\<in>set (rt_staging t). se_created_at r < w \<and> se_created_at r < cutoff \<longrightarrow> \<not> orphan t r)"

lemma batch_sources [simp]:
  "rt_sources (snd (delete_staging_evidence_batch c n t)) = rt_sources t"
  "rt_sources (snd (delete_accepted_staging_evidence_batch a b n ids t)) = rt_sources t"
  by (simp_all add: rejected_batch_tables accepted_batch_tables)

lemma swept_batches:
  assumes "swept cutoff w t"
  shows "swept cutoff w (snd (delete_staging_evidence_batch c n t))"
    and "swept cutoff w (snd (delete_accepted_staging_evidence_batch a b n ids t))"
  using assms set_delete_oldest unfolding swept_def rejected_batch_tables accepted_batch_tables orphan_def
  by fastforce+

lemma swept_advance:
  assumes "swept cutoff w t"
    and "fst (delete_accepted_staging_evidence_batch w b n (orphan_prunable_source_ids (rt_sources t)) t) < n"
  shows "swept cutoff b (snd (delete_accepted_staging_evidence_batch w b n
      (orphan_prunable_source_ids (rt_sources t)) t))"
proof -
  let ?ids = "orphan_prunable_source_ids (rt_sources t)"
  let ?P = "orphan_in w b ?ids (rt_evidence t)"
  let ?t = "snd (delete_accepted_staging_evidence_batch w b n ?ids t)"
  have "\<not> orphan ?t r" if "r \<in> set (rt_staging ?t)" "se_created_at r < b" "se_created_at r < cutoff" for r
  proof -
    have eq: "orphan ?t r = orphan t r"
      by (rule orphan_cong) (simp_all add: accepted_batch_tables)
    from that(1) have r: "r \<in> set (snd (delete_oldest se_id ?P se_created_at n (rt_staging t)))"
      by (simp add: accepted_batch_tables)
    with delete_oldest_short [of se_id ?P se_created_at n "rt_staging t"] assms(2)
    have "\<not> ?P r" by (simp add: accepted_batch_tables)
    then show ?thesis
      using that(2,3) assms(1) r set_delete_oldest [of se_id ?P se_created_at n "rt_staging t"]
      by (auto simp: eq orphan_in_iff swept_def)
  qed
  then show ?thesis by (simp add: swept_def)
qed

text \<open>
  C19. The sweep over accepted rows leaves nothing behind: after a cycle, also one that fails, no orphan
  older than the retention lies before the watermark if that was so before; and a cycle that reports
  to have caught up has left no orphan older than the retention at all, an accepted row that was never
  promoted included. Other processes are assumed to change neither the adapters nor to make orphans
  that old.
\<close>

theorem sweep_leaves_no_orphan_behind:
  assumes others: "\<And>n t w. rt_sources (re_others env n t) = rt_sources t
      \<and> (swept (now - hours (24 * pl_retention_days pol)) w t \<longrightarrow>
         swept (now - hours (24 * pl_retention_days pol)) w (re_others env n t))"
    and before_: "case rn_watermark st of None \<Rightarrow> True
      | Some w \<Rightarrow> swept (now - hours (24 * pl_retention_days pol)) w (rn_tables st)"
    and run: "prune_staging_evidence env clock pol now st = (answer, st')"
  shows "(case rn_watermark st' of None \<Rightarrow> True
      | Some w \<Rightarrow> swept (now - hours (24 * pl_retention_days pol)) w (rn_tables st'))
    \<and> (\<forall>s. answer = Inr s \<and> sx_accepted_stopped_reason s = CaughtUp \<longrightarrow>
        (\<forall>r\<in>set (rt_staging (rn_tables st')).
           se_created_at r < now - hours (24 * pl_retention_days pol) \<longrightarrow> \<not> orphan (rn_tables st') r))"
proof -
  let ?cutoff = "now - hours (24 * pl_retention_days pol)"
  define S where "S = rt_sources (rn_tables st)"
  define J where "J t \<longleftrightarrow> rt_sources t = S" for t :: retention_tables
  let ?I = "swept ?cutoff" and ?K = "sweep_state (swept ?cutoff) J"
  have IJ: "stable env (?I w)" "stable env J" for w using others by (simp_all add: stable_def J_def)
  have K: "stable env (?K wm)" for wm using IJ by (cases wm) (simp_all add: stable_def)
  have ix: "ignores_indexes (?K wm)" for wm
    by (cases wm) (simp_all add: ignores_indexes_def J_def swept_def orphan_def)
  have rejected: "?K wm (snd (delete_staging_evidence_batch ?cutoff n t))" if "?K wm t" for wm t n
    using that by (cases wm) (auto simp: swept_batches J_def)
  have oldest: "?I w t" if "oldest_accepted t = Some w" for w t
    using that oldest_acceptedD [of _ t] by (force simp: swept_def orphan_def)
  let ?C = "\<lambda>t. \<forall>r\<in>set (rt_staging t). se_created_at r < ?cutoff \<longrightarrow> \<not> orphan t r"
  have finished: "?C t" if "(\<exists>w\<ge>?cutoff. ?I w t) \<or> oldest_accepted t = None" for t
    using that oldest_acceptedD [of _ t] by (force simp: swept_def orphan_def)
  have "triple (tables_hold ?K) (sweep_accepted_staging env (sweep_policy_of pol) ?cutoff)
      (\<lambda>s st. tables_hold ?K st \<and> (sz_stopped_reason s = CaughtUp \<longrightarrow> ?C (rn_tables st)))
      (tables_hold ?K)"
  proof (rule triple_weaken [OF triple_sweep
        [where I = ?I and J = J and source_ids = "orphan_prunable_source_ids S"]])
    show "?I b (snd (delete_accepted_staging_evidence_batch w b (sy_batch_size (sweep_policy_of pol))
        (orphan_prunable_source_ids S) t))"
      if "J t" "?I w t" "fst (delete_accepted_staging_evidence_batch w b
          (sy_batch_size (sweep_policy_of pol)) (orphan_prunable_source_ids S) t)
          < sy_batch_size (sweep_policy_of pol)" for w b t
      using that swept_advance [of ?cutoff w t b] by (simp add: J_def)
  qed (use IJ oldest finished in \<open>auto simp: J_def swept_batches\<close>)
  from triple_staging [OF K ix rejected this refl]
  have t: "triple (tables_hold ?K) (prune_staging_evidence env clock pol now)
      (\<lambda>s st. tables_hold ?K st \<and> (sx_accepted_stopped_reason s = CaughtUp \<longrightarrow> ?C (rn_tables st)))
      (tables_hold ?K)" .
  have "tables_hold ?K st" using before_ by (cases "rn_watermark st") (simp_all add: J_def S_def)
  from tripleD [OF t this run] have r: "case answer of Inl _ \<Rightarrow> tables_hold ?K st'
    | Inr s \<Rightarrow> tables_hold ?K st' \<and> (sx_accepted_stopped_reason s = CaughtUp \<longrightarrow> ?C (rn_tables st'))" .
  then have "tables_hold ?K st'" by (cases answer) simp_all
  then have "case rn_watermark st' of None \<Rightarrow> True | Some w \<Rightarrow> ?I w (rn_tables st')"
    by (cases "rn_watermark st'") simp_all
  with r show ?thesis by (cases answer) simp_all
qed

section \<open>The cost of a cycle\<close>

text \<open>At most \<open>k\<close> statements, whatever they answer.\<close>

definition costs :: "nat \<Rightarrow> 'a retention_step \<Rightarrow> bool" where
  "costs k m \<longleftrightarrow> (\<forall>st. rn_clock (snd (m st)) \<le> rn_clock st + k)"

lemma costs_return: "costs 0 (wreturn a)"
  by (simp add: costs_def wreturn_def)

lemma costs_mono: "costs k m \<Longrightarrow> k \<le> n \<Longrightarrow> costs n m"
  unfolding costs_def by (meson add_left_mono le_trans)

lemma costs_bind: "costs k m \<Longrightarrow> (\<And>a. costs n (f a)) \<Longrightarrow> costs (k + n) (wbind m f)"
proof (unfold costs_def, intro allI)
  fix st
  assume m: "\<forall>st. rn_clock (snd (m st)) \<le> rn_clock st + k"
    and f: "\<And>a. \<forall>st. rn_clock (snd (f a st)) \<le> rn_clock st + n"
  obtain r st' where "m st = (r, st')" by (metis surj_pair)
  then show "rn_clock (snd (wbind m f st)) \<le> rn_clock st + (k + n)"
    using m [rule_format, of st] f [rule_format, of "projr r" st']
    by (cases r) (simp_all add: wbind_def)
qed

lemma costs_catch: "costs k m \<Longrightarrow> (\<And>e. costs n (h e)) \<Longrightarrow> costs (k + n) (wcatch m h)"
proof (unfold costs_def, intro allI)
  fix st
  assume m: "\<forall>st. rn_clock (snd (m st)) \<le> rn_clock st + k"
    and h: "\<And>e. \<forall>st. rn_clock (snd (h e st)) \<le> rn_clock st + n"
  obtain r st' where "m st = (r, st')" by (metis surj_pair)
  then show "rn_clock (snd (wcatch m h st)) \<le> rn_clock st + (k + n)"
    using m [rule_format, of st] h [rule_format, of "projl r" st']
    by (cases r) (simp_all add: wcatch_def)
qed

lemma costs_interact: "costs 1 (interact env f)"
  by (auto simp: costs_def interact_def Let_def split: db_fault.split)

lemma costs_read: "costs 1 (db_read env f)" "costs 1 (db_silent env)"
  unfolding db_silent_def db_read_def by (rule costs_interact)+

lemma costs_if: "(b \<Longrightarrow> costs k m) \<Longrightarrow> (\<not> b \<Longrightarrow> costs k m') \<Longrightarrow> costs k (if b then m else m')"
  by simp

lemma costs_guarded: "costs k m \<Longrightarrow> costs k (guarded m)"
  unfolding guarded_def using costs_catch [of k m 0] by (simp add: costs_def)

lemma costs_checked: "costs k m \<Longrightarrow> costs k (checked cs m)"
  by (induction cs m rule: checked.induct) (auto simp: costs_def raise_error_def)

lemma costs_ensure_index: "costs 6 (ensure_partial_index env i enabled)"
proof -
  have "costs (1 + (1 + (1 + (1 + (1 + (1 + 0)))))) (wbind (db_silent env) (\<lambda>_.
        wbind (index_is_valid env i) (\<lambda>valid.
          if valid then wreturn IndexReady
          else if \<not> enabled then wreturn IndexSkipped
          else
            wbind (db_silent env) (\<lambda>_.
            wbind (drop_index env i) (\<lambda>_.
            wbind (create_index env i) (\<lambda>_.
            wbind (index_is_valid env i) (\<lambda>valid.
              wreturn (if valid then IndexReady else IndexBuilding))))))))"
    unfolding index_is_valid_def drop_index_def create_index_def
    by (intro costs_bind costs_read costs_interact costs_if costs_return)
      (rule costs_mono [OF costs_return], simp)+
  from costs_catch [OF this costs_return]
  show ?thesis unfolding ensure_partial_index_def by (rule costs_mono) simp
qed

lemma costs_delete_batches: "costs (1 + nat mb) (delete_staging_batches env cutoff bs mb)"
proof -
  have "costs (nat mb) (delete_batches env cutoff bs mb \<lparr> bp_deleted = 0, bp_batches = 0, bp_reason = MaxBatches \<rparr>)"
    unfolding costs_def
  proof
    fix st :: retention_state
    obtain r st' where run: "delete_batches env cutoff bs mb
        \<lparr> bp_deleted = 0, bp_batches = 0, bp_reason = MaxBatches \<rparr> st = (r, st')" by (metis surj_pair)
    from delete_batches_frame [OF run] show "rn_clock (snd (delete_batches env cutoff bs mb
        \<lparr> bp_deleted = 0, bp_batches = 0, bp_reason = MaxBatches \<rparr> st)) \<le> rn_clock st + nat mb"
      by (simp add: run)
  qed
  then show ?thesis unfolding delete_staging_batches_def by (intro costs_bind costs_read)
qed

lemma costs_setup: "costs 2 (sweep_setup env wm)"
proof -
  have "costs 1 (fetch_orphan_prunable_source_ids env)"
    unfolding costs_def fetch_orphan_prunable_source_ids_def db_read_def interact_def Let_def
    by (auto split: db_fault.split prod.split)
  moreover have "costs (1 + 0) (case wm of
         Some w \<Rightarrow> wreturn (ids, Some w)
       | None \<Rightarrow> wbind (fetch_oldest_accepted_created_at env) (\<lambda>w. wreturn (ids, w)))" for ids
    unfolding fetch_oldest_accepted_created_at_def
    using costs_bind [OF costs_read(1) costs_return, of env oldest_accepted "Pair ids"]
    by (cases wm) (simp_all add: costs_def wreturn_def)
  ultimately have "costs (1 + (1 + 0)) (sweep_setup env wm)"
    unfolding sweep_setup_def by (rule costs_bind)
  then show ?thesis by (simp add: numeral_2_eq_2)
qed

text \<open>The results of a sweep: batches within the budget, a window within the bounds.\<close>

definition sweep_within :: "sweep_policy \<Rightarrow> sweep_result \<Rightarrow> bool" where
  "sweep_within pol s \<longleftrightarrow> 0 \<le> sz_batches s \<and> sz_batches s \<le> sy_max_batches pol
     \<and> window_ok pol (sz_window_seconds s)"

lemma start_window_ok:
  "sy_min_window_seconds pol \<le> sy_max_window_seconds pol \<Longrightarrow> window_ok pol (start_window pol saved)"
  by (auto simp: window_ok_def start_window_def split: option.split)

lemma sweep_cost:
  assumes ok: "1 \<le> sy_min_window_seconds pol" "sy_min_window_seconds pol \<le> sy_window_seconds pol"
    "sy_window_seconds pol \<le> sy_max_window_seconds pol" "0 \<le> sy_max_batches pol"
    and run: "sweep_accepted_staging env pol cutoff st = (r, st')"
  shows "rn_clock st' \<le> rn_clock st + 3 + nat (sy_max_batches pol)
    \<and> (\<forall>s. r = Inr s \<longrightarrow> sweep_within pol s)"
proof -
  let ?w = "start_window pol (rn_window st)"
  have w: "window_ok pol ?w" using ok by (intro start_window_ok) simp
  have u: "sweep_within pol (unswept reason n wm ?w)" for reason n wm
    using w ok by (simp add: sweep_within_def unswept_def)
  obtain a st1 where 1: "db_silent env st = (a, st1)" by (metis surj_pair)
  obtain b st2 where 2: "sweep_setup env (rn_watermark st) st1 = (b, st2)" by (metis surj_pair)
  have c1: "rn_clock st1 \<le> rn_clock st + 1" using costs_read(2) [of env] 1 by (metis costs_def snd_conv)
  have c2: "rn_clock st2 \<le> rn_clock st1 + 2" using costs_setup 2 by (metis costs_def snd_conv)
  note run = run [unfolded sweep_accepted_staging_def Let_def wbind_def 1 prod.case]
  show ?thesis
  proof (cases "\<exists>s ss w. a = Inr () \<and> b = Inr (s # ss, Some w)")
    case False
    then consider "\<exists>e. a = Inl e" | e where "a = Inr ()" "b = Inl e"
      | y where "a = Inr ()" "b = Inr ([], y)" | s ss where "a = Inr ()" "b = Inr (s # ss, None)"
      by (cases a; cases b; cases "fst (projr b)"; cases "snd (projr b)") auto
    then show ?thesis
    proof cases
      case 1
      then show ?thesis using run c1 by auto
    next
      case 2
      then show ?thesis using run c1 c2 u \<open>sweep_setup env (rn_watermark st) st1 = (b, st2)\<close>
        by (auto split: option.splits)
    next
      case 3
      then show ?thesis using run c1 c2 u 2 by (cases y) auto
    next
      case 4
      then show ?thesis using run c1 c2 u 2 by auto
    qed
  next
    case True
    then obtain s ss w' where ab: "a = Inr ()" "b = Inr (s # ss, Some w')" by blast
    let ?p = "\<lparr> sw_watermark = w', sw_window = ?w, sw_deleted = 0, sw_batches = 0 \<rparr>"
    obtain c st3 where loop: "sweep_loop env pol cutoff (s # ss) ?p st2 = (c, st3)" by (metis surj_pair)
    from run ab 2 have "run_sweep env pol cutoff (s # ss) w' ?w st2 = (r, st')" by simp
    with loop sweep_loop_frame [OF loop] c1 c2 ok w show ?thesis
      by (cases c) (auto simp: run_sweep_def wbind_def sweep_within_def max_def)
  qed
qed


lemma rejected_pass_cost:
  assumes run: "rejected_pass env pol cutoff st = (r, st')" and max: "1 \<le> pl_max_batches pol"
  shows "rn_clock st' \<le> rn_clock st + (7 + nat (pl_max_batches pol))
    \<and> (\<forall>i p. r = Inr (i, p) \<longrightarrow> 0 \<le> bp_batches p \<and> bp_batches p \<le> pl_max_batches pol)"
proof
  let ?del = "delete_staging_batches env cutoff (pl_batch_size pol) (pl_max_batches pol)"
  have "costs (6 + (1 + nat (pl_max_batches pol))) (rejected_pass env pol cutoff)"
    unfolding rejected_pass_def
  proof (rule costs_bind [OF costs_ensure_index], rule costs_if)
    fix i show "costs (1 + nat (pl_max_batches pol)) (wbind ?del (\<lambda>p. wreturn (i, p)))"
      using costs_bind [OF costs_delete_batches costs_return] by (simp only: add_0_right)
  qed (rule costs_mono [OF costs_return], simp)
  then show "rn_clock st' \<le> rn_clock st + (7 + nat (pl_max_batches pol))"
    unfolding costs_def by (metis add.assoc numeral_plus_one one_plus_numeral run semiring_norm(3,4,5) snd_conv)
  have "0 \<le> bp_batches p \<and> bp_batches p \<le> pl_max_batches pol"
    if d: "?del s1 = (Inr p, s2)" for s1 s2 p
  proof -
    obtain x s3 where "db_silent env s1 = (x, s3)" by (metis surj_pair)
    with d have "delete_batches env cutoff (pl_batch_size pol) (pl_max_batches pol)
        \<lparr> bp_deleted = 0, bp_batches = 0, bp_reason = MaxBatches \<rparr> s3 = (Inr p, s2)"
      by (cases x) (simp_all add: delete_staging_batches_def wbind_def)
    from delete_batches_frame [OF this] max show ?thesis by simp
  qed
  with run max show "\<forall>i p. r = Inr (i, p) \<longrightarrow> 0 \<le> bp_batches p \<and> bp_batches p \<le> pl_max_batches pol"
    by (auto simp: rejected_pass_def wbind_Inr wreturn_eq split: if_splits)
qed

lemma accepted_pass_cost:
  assumes run: "accepted_pass env pol cutoff wm st = (r, st')"
    and ok: "1 \<le> pl_accepted_max_batches pol" "1 \<le> pl_min_window_seconds pol"
      "pl_min_window_seconds pol \<le> pl_window_seconds pol" "pl_window_seconds pol \<le> resolved_max_window pol"
  shows "rn_clock st' \<le> rn_clock st + (9 + nat (pl_accepted_max_batches pol))
    \<and> (\<forall>i s. r = Inr (i, s) \<longrightarrow> sweep_within (sweep_policy_of pol) s)"
proof (cases "pl_accepted_enabled pol")
  case False
  with run ok show ?thesis
    by (auto simp: accepted_pass_def wreturn_def sweep_within_def unswept_def window_ok_def sweep_policy_of_def)
next
  case True
  obtain a st1 where 1: "ensure_partial_index env accepted_index (pl_ensure_index pol) st = (a, st1)"
    by (metis surj_pair)
  with costs_ensure_index have c1: "rn_clock st1 \<le> rn_clock st + 6" by (metis costs_def snd_conv)
  obtain b st2 where 2: "sweep_accepted_staging env (sweep_policy_of pol) cutoff st1 = (b, st2)"
    by (metis surj_pair)
  have "rn_clock st2 \<le> rn_clock st1 + 3 + nat (pl_accepted_max_batches pol)
    \<and> (\<forall>s. b = Inr s \<longrightarrow> sweep_within (sweep_policy_of pol) s)"
    using sweep_cost [OF _ _ _ _ 2] ok by (simp add: sweep_policy_of_def)
  with run True 1 2 c1 ok show ?thesis
    by (cases a; cases b)
      (auto simp: accepted_pass_def wbind_def wreturn_def sweep_within_def unswept_def window_ok_def
        sweep_policy_of_def split: if_splits)
qed

text \<open>
  C20. A cycle of the staging retention ends: whatever its statements answer, it sends at most 17 besides
  one per batch of its budgets, and returns or raises. If it returns, neither pass took more batches
  than its budget, and the window of the sweep is within the configured bounds.
\<close>

theorem retention_cycle_ends:
  assumes run: "prune_staging_evidence env clock pol now st = (answer, st')"
  shows "rn_clock st' \<le> rn_clock st + 17 + nat (pl_max_batches pol) + nat (pl_accepted_max_batches pol)
    \<and> (\<forall>s. answer = Inr s \<longrightarrow>
        0 \<le> sx_batches s \<and> sx_batches s \<le> pl_max_batches pol
        \<and> 0 \<le> sx_accepted_batches s \<and> sx_accepted_batches s \<le> pl_accepted_max_batches pol
        \<and> pl_min_window_seconds pol \<le> sx_accepted_window_seconds s
        \<and> sx_accepted_window_seconds s \<le> resolved_max_window pol)"
proof (cases "list_all fst (staging_policy_checks pol)")
  case False
  from run have "st' = st \<and> (\<exists>e. answer = Inl e)"
    unfolding prune_staging_evidence_def by (rule checked_failed [OF False])
  then show ?thesis by auto
next
  case True
  let ?cutoff = "now - hours (24 * pl_retention_days pol)"
  have ok: "1 \<le> pl_max_batches pol" "1 \<le> pl_accepted_max_batches pol" "1 \<le> pl_min_window_seconds pol"
    "pl_min_window_seconds pol \<le> pl_window_seconds pol" "pl_window_seconds pol \<le> resolved_max_window pol"
    using True by (simp_all add: staging_policy_checks_def)
  obtain a st1 where 1: "rejected_pass env pol ?cutoff st = (a, st1)" by (metis surj_pair)
  obtain b st2 where 2: "accepted_pass env pol ?cutoff (rn_watermark st) st1 = (b, st2)" by (metis surj_pair)
  note r = rejected_pass_cost [OF 1 ok(1)] and c = accepted_pass_cost [OF 2 ok(2-5)]
  have go: "prune_staging_evidence env clock pol now st =
      wbind (guarded (wbind (rejected_pass env pol ?cutoff)
          (\<lambda>r. wbind (accepted_pass env pol ?cutoff (rn_watermark st)) (\<lambda>a. wreturn (r, a)))))
        (\<lambda>passes. wbind (record_streaks (bp_reason (snd (fst passes))) (sz_stopped_reason (snd (snd passes))))
          (\<lambda>_. wreturn (staging_summary pol ?cutoff clock passes))) st"
    by (simp only: prune_staging_evidence_def checked_pass [OF True] Let_def)
  show ?thesis
  proof (cases a)
    case (Inl e)
    with run go 1 have "answer = Inl (retention_unavailable e)" "st' = st1"
      by (simp_all add: wbind_def guarded_def wcatch_def)
    then show ?thesis using r by simp
  next
    case a: (Inr x)
    show ?thesis
    proof (cases b)
      case (Inl e)
      with run go 1 2 a have "answer = Inl (retention_unavailable e)" "st' = st2"
        by (simp_all add: wbind_def guarded_def wcatch_def)
      then show ?thesis using r c by simp
    next
      case b: (Inr y)
      obtain i p j s where xy: "x = (i, p)" "y = (j, s)" by (metis surj_pair)
      from run go 1 2 a b have "answer = Inr (staging_summary pol ?cutoff clock (x, y))"
          "rn_clock st' = rn_clock st2"
        by (auto simp: wbind_def guarded_def wcatch_def wreturn_def record_streaks_def)
      then show ?thesis using r c
        by (simp add: a b xy staging_summary_def sweep_within_def window_ok_def sweep_policy_of_def)
    qed
  qed
qed

section \<open>Undisturbed passes\<close>

definition undisturbed :: "retention_env \<Rightarrow> bool" where
  "undisturbed env \<longleftrightarrow> (\<forall>n. re_fault env n = NoFault) \<and> (\<forall>n t. re_others env n t = t)"

lemma undisturbed_interact:
  "undisturbed env \<Longrightarrow> interact env f st =
     (Inr (fst (f (rn_tables st))),
      st\<lparr> rn_tables := snd (f (rn_tables st)), rn_clock := Suc (rn_clock st) \<rparr>)"
  by (simp add: undisturbed_def interact_def Let_def)

lemma same_key: "distinct (map key rows) \<Longrightarrow> r \<in> set rows \<Longrightarrow> r' \<in> set rows \<Longrightarrow> key r = key r' \<Longrightarrow> r = r'"
  by (auto simp: distinct_map inj_on_def)

lemma stale_ids_rows:
  assumes "distinct (map key rows)" and "r \<in> set rows"
  shows "key r \<in> set (stale_ids key P time n rows) \<longleftrightarrow>
    r \<in> set (take (nat n) (sort_key time (filter P rows)))"
proof -
  have "set (take (nat n) (sort_key time (filter P rows))) \<subseteq> set rows"
    by (auto dest!: in_set_takeD)
  then have "r' = r" if "r' \<in> set (take (nat n) (sort_key time (filter P rows)))" "key r' = key r" for r'
    using that assms(2) same_key [OF assms(1)] by blast
  then show ?thesis unfolding stale_ids_def set_map by (metis (no_types, lifting) image_iff)
qed

lemma stale_left:
  assumes "distinct (map key rows)"
  shows "sort_key time (filter P (snd (delete_oldest key P time n rows))) =
    drop (nat n) (sort_key time (filter P rows))"
proof -
  let ?L = "sort_key time (filter P rows)"
  have d: "distinct ?L" using assms by (simp add: distinct_map)
  have "filter P (snd (delete_oldest key P time n rows)) =
      filter (\<lambda>r. r \<notin> set (take (nat n) ?L)) (filter P rows)"
    using stale_ids_rows [OF assms] by (auto simp: delete_oldest_def Let_def intro!: filter_cong)
  then have "sort_key time (filter P (snd (delete_oldest key P time n rows))) =
      filter (\<lambda>r. r \<notin> set (take (nat n) ?L)) ?L"
    by (simp only: filter_sort)
  also have "\<dots> = filter (\<lambda>r. r \<notin> set (take (nat n) ?L)) (take (nat n) ?L @ drop (nat n) ?L)"
    by (simp only: append_take_drop_id)
  also have "\<dots> = filter (\<lambda>r. r \<notin> set (take (nat n) ?L)) (drop (nat n) ?L)"
    by (simp only: filter_append) simp
  also have "\<dots> = drop (nat n) ?L"
    using d set_take_disj_set_drop_if_distinct [of ?L "nat n" "nat n"] by (intro filter_True) auto
  finally show ?thesis .
qed

lemma delete_oldest_fst:
  assumes "distinct (map key rows)"
  shows "fst (delete_oldest key P time n rows) = int (min (nat n) (count_if P rows))"
proof -
  let ?L = "take (nat n) (sort_key time (filter P rows))"
  have d: "distinct rows" using assms by (simp add: distinct_map)
  have sub: "set ?L \<subseteq> set rows" by (auto dest!: in_set_takeD)
  have "filter (\<lambda>r. key r \<in> set (stale_ids key P time n rows)) rows = filter (\<lambda>r. r \<in> set ?L) rows"
    using stale_ids_rows [OF assms] by (intro filter_cong) auto
  moreover have "length (filter (\<lambda>r. r \<in> set ?L) rows) = length ?L"
  proof -
    have "set (filter (\<lambda>r. r \<in> set ?L) rows) = set ?L" using sub by auto
    moreover have "distinct ?L" using d by (simp add: distinct_take)
    ultimately show ?thesis using d by (metis distinct_card distinct_filter)
  qed
  ultimately show ?thesis by (simp add: delete_oldest_def Let_def count_if_def min.commute)
qed

lemma count_left:
  assumes "distinct (map key rows)"
  shows "count_if P (snd (delete_oldest key P time n rows)) = count_if P rows - nat n"
proof -
  have "length (sort_key time (filter P (snd (delete_oldest key P time n rows)))) =
      length (drop (nat n) (sort_key time (filter P rows)))"
    by (simp only: stale_left [OF assms])
  then show ?thesis by (simp add: count_if_def)
qed

text \<open>Two batches are one larger batch.\<close>

lemma delete_oldest_twice:
  assumes "distinct (map key rows)" and "0 \<le> a" "0 \<le> b"
  shows "snd (delete_oldest key P time b (snd (delete_oldest key P time a rows))) =
      snd (delete_oldest key P time (a + b) rows)"
    and "fst (delete_oldest key P time a rows)
       + fst (delete_oldest key P time b (snd (delete_oldest key P time a rows))) =
      fst (delete_oldest key P time (a + b) rows)"
proof -
  let ?L = "sort_key time (filter P rows)"
  let ?rows = "snd (delete_oldest key P time a rows)"
  have "stale_ids key P time b ?rows = map key (take (nat b) (drop (nat a) ?L))"
    by (simp add: stale_ids_def stale_left [OF assms(1)])
  then have "set (stale_ids key P time (a + b) rows) =
      set (stale_ids key P time a rows) \<union> set (stale_ids key P time b ?rows)"
    using assms(2,3) by (simp add: stale_ids_def nat_add_distrib take_add image_Un)
  then show "snd (delete_oldest key P time b ?rows) = snd (delete_oldest key P time (a + b) rows)"
    by (auto simp: delete_oldest_def Let_def intro!: filter_cong)
  show "fst (delete_oldest key P time a rows) + fst (delete_oldest key P time b ?rows) =
      fst (delete_oldest key P time (a + b) rows)"
    using assms(2,3)
    by (simp add: delete_oldest_fst assms(1) distinct_delete_oldest count_left nat_add_distrib
        flip: of_nat_add) linarith
qed

lemma delete_oldest_none:
  assumes "distinct (map key rows)" and "fst (delete_oldest key P time n rows) = 0"
  shows "snd (delete_oldest key P time n rows) = rows"
proof -
  have "n \<le> 0 \<or> count_if P rows = 0" using assms by (simp add: delete_oldest_fst min_def split: if_splits)
  then have "stale_ids key P time n rows = []" by (auto simp: stale_ids_def count_if_def)
  then show ?thesis by (simp add: delete_oldest_def)
qed

lemma undisturbed_batches:
  assumes env: "undisturbed env" and bs: "1 \<le> batch_size"
  shows "distinct (map se_id (rt_staging (rn_tables st))) \<Longrightarrow> bp_batches p \<le> max_batches \<Longrightarrow>
    bp_reason p = MaxBatches \<Longrightarrow>
    \<exists>p' st'. delete_batches env cutoff batch_size max_batches p st = (Inr p', st')
      \<and> rt_staging (rn_tables st') = snd (delete_oldest se_id (stale_rejected cutoff) se_created_at
           (batch_size * (max_batches - bp_batches p)) (rt_staging (rn_tables st)))
      \<and> bp_deleted p' = bp_deleted p + fst (delete_oldest se_id (stale_rejected cutoff) se_created_at
           (batch_size * (max_batches - bp_batches p)) (rt_staging (rn_tables st)))
      \<and> bp_reason p' =
          (if int (count_if (stale_rejected cutoff) (rt_staging (rn_tables st)))
                \<le> batch_size * (max_batches - bp_batches p - 1)
           then Exhausted else MaxBatches)"
proof (induction "nat (max_batches - bp_batches p)" arbitrary: p st rule: less_induct)
  case less
  let ?rows = "rt_staging (rn_tables st)"
  let ?del = "delete_oldest se_id (stale_rejected cutoff) se_created_at"
  let ?n = "fst (?del batch_size ?rows)"
  let ?left = "max_batches - bp_batches p"
  note unfold = delete_batches.simps [of env cutoff batch_size max_batches p st]
  show ?case
  proof (cases "bp_batches p < max_batches")
    case False
    then have run: "delete_batches env cutoff batch_size max_batches p st = (Inr p, st)"
      by (simp add: unfold)
    from False less.prems(2) have "?left = 0" by simp
    moreover have "?del 0 ?rows = (0, ?rows)" by (simp add: delete_oldest_def stale_ids_def count_if_def)
    moreover have "\<not> int (count_if (stale_rejected cutoff) ?rows) \<le> batch_size * (0 - 1)"
      using bs by simp
    ultimately show ?thesis unfolding run using less.prems(3) by simp
  next
    case True
    let ?t = "snd (delete_staging_evidence_batch cutoff batch_size (rn_tables st))"
    let ?st = "st\<lparr> rn_tables := ?t, rn_clock := Suc (rn_clock st) \<rparr>"
    have rows: "rt_staging ?t = snd (?del batch_size ?rows)" by (simp add: rejected_batch_tables)
    have n: "fst (delete_staging_evidence_batch cutoff batch_size (rn_tables st)) = ?n"
      by (simp add: delete_staging_evidence_batch_def split: prod.split)
    let ?c = "count_if (stale_rejected cutoff) ?rows"
    have cn: "?n = int (min (nat batch_size) ?c)" by (rule delete_oldest_fst [OF less.prems(1)])
    have run: "delete_batches env cutoff batch_size max_batches p st =
        (if ?n = 0
         then (Inr (p\<lparr> bp_batches := bp_batches p + 1, bp_reason := Exhausted \<rparr>), ?st)
         else delete_batches env cutoff batch_size max_batches
                (p\<lparr> bp_batches := bp_batches p + 1, bp_deleted := bp_deleted p + ?n \<rparr>) ?st)"
      using True by (simp add: unfold undisturbed_interact [OF env] n)
    have pos: "0 \<le> batch_size * (?left - 1)" using bs True by simp
    have split: "batch_size * ?left = batch_size + batch_size * (?left - 1)" by (simp add: algebra_simps)
    show ?thesis
    proof (cases "?n = 0")
      case zero: True
      then have c: "?c = 0" using cn bs by (simp add: min_def split: if_splits)
      have none: "fst (?del m ?rows) = 0" "snd (?del m ?rows) = ?rows" for m
      proof -
        show "fst (?del m ?rows) = 0" by (simp add: delete_oldest_fst [OF less.prems(1)] c)
        then show "snd (?del m ?rows) = ?rows" by (rule delete_oldest_none [OF less.prems(1)])
      qed
      show ?thesis using pos by (simp add: run zero rows none c)
    next
      case False
      let ?p = "p\<lparr> bp_batches := bp_batches p + 1, bp_deleted := bp_deleted p + ?n \<rparr>"
      have "int ?c \<le> batch_size * (?left - 1) \<longleftrightarrow>
          int (?c - nat batch_size) \<le> batch_size * (?left - 1 - 1)"
      proof (cases "?left = 1")
        case True
        then show ?thesis using False cn bs by auto
      next
        case False
        with True have "0 \<le> batch_size * (?left - 1 - 1)" using bs by simp
        moreover have "batch_size * (?left - 1) = batch_size + batch_size * (?left - 1 - 1)"
          by (simp add: algebra_simps)
        ultimately show ?thesis using bs by linarith
      qed
      moreover have "\<exists>p' st'. delete_batches env cutoff batch_size max_batches ?p ?st = (Inr p', st')
          \<and> rt_staging (rn_tables st') = snd (?del (batch_size * (?left - 1)) (rt_staging ?t))
          \<and> bp_deleted p' = bp_deleted p + ?n + fst (?del (batch_size * (?left - 1)) (rt_staging ?t))
          \<and> bp_reason p' = (if int (count_if (stale_rejected cutoff) (rt_staging ?t))
                \<le> batch_size * (?left - 1 - 1) then Exhausted else MaxBatches)"
        using less.hyps [of ?p ?st] True less.prems
        by (simp add: rows distinct_delete_oldest algebra_simps)
      ultimately obtain p' st' where r: "delete_batches env cutoff batch_size max_batches ?p ?st = (Inr p', st')"
          "rt_staging (rn_tables st') = snd (?del (batch_size * (?left - 1)) (rt_staging ?t))"
          "bp_deleted p' = bp_deleted p + ?n + fst (?del (batch_size * (?left - 1)) (rt_staging ?t))"
          "bp_reason p' = (if int ?c \<le> batch_size * (?left - 1) then Exhausted else MaxBatches)"
        by (auto simp only: rows count_left [OF less.prems(1)])
      have b: "0 \<le> batch_size" using bs by simp
      note twice = delete_oldest_twice [OF less.prems(1) b pos, of "stale_rejected cutoff" se_created_at]
      show ?thesis
      proof (intro exI conjI)
        show "delete_batches env cutoff batch_size max_batches p st = (Inr p', st')"
          using False r(1) by (simp only: run if_False)
        show "rt_staging (rn_tables st') = snd (?del (batch_size * ?left) ?rows)"
          by (simp only: r(2) rows twice(1) split)
        show "bp_deleted p' = bp_deleted p + fst (?del (batch_size * ?left) ?rows)"
          by (simp only: r(3) rows twice(2) split add.assoc)
      qed (rule r(4))
    qed
  qed
qed


text \<open>
  Left alone, the rejected pass deletes exactly the oldest rejected rows older than the retention, as
  many as all its batches together may take, counts them, and reports that none is left if and only
  if a batch was left to see that.
\<close>

theorem rejected_pass_deletes_the_oldest:
  assumes "undisturbed env" and "distinct (map se_id (rt_staging (rn_tables st)))"
    and "1 \<le> batch_size" "0 \<le> max_batches"
  shows "\<exists>p st'. delete_staging_batches env cutoff batch_size max_batches st = (Inr p, st')
    \<and> rt_staging (rn_tables st') = snd (delete_oldest se_id (stale_rejected cutoff) se_created_at
         (batch_size * max_batches) (rt_staging (rn_tables st)))
    \<and> bp_deleted p =
        min (batch_size * max_batches) (int (count_if (stale_rejected cutoff) (rt_staging (rn_tables st))))
    \<and> (bp_reason p = Exhausted \<longleftrightarrow>
        int (count_if (stale_rejected cutoff) (rt_staging (rn_tables st))) \<le> batch_size * (max_batches - 1))"
proof -
  let ?st = "st\<lparr> rn_clock := Suc (rn_clock st) \<rparr>"
  have start: "delete_staging_batches env cutoff batch_size max_batches st =
      delete_batches env cutoff batch_size max_batches
        \<lparr> bp_deleted = 0, bp_batches = 0, bp_reason = MaxBatches \<rparr> ?st"
    by (simp add: delete_staging_batches_def wbind_def db_silent_def db_read_def
        undisturbed_interact [OF assms(1)])
  have "0 \<le> batch_size * max_batches" using assms(3,4) by simp
  then have "int (min (nat (batch_size * max_batches)) n) = min (batch_size * max_batches) (int n)" for n
    by (simp add: of_nat_min)
  with undisturbed_batches [OF assms(1,3), of ?st "\<lparr> bp_deleted = 0, bp_batches = 0, bp_reason = MaxBatches \<rparr>"
      max_batches cutoff] assms(2,4)
  show ?thesis unfolding start by (auto simp: delete_oldest_fst)
qed

text \<open>What a sweep has left: full batches of orphans, and windows of the least size.\<close>

definition remaining_work :: "sweep_policy \<Rightarrow> int \<Rightarrow> int \<Rightarrow> retention_tables \<Rightarrow> nat" where
  "remaining_work pol cutoff w t =
     count_if (orphan_in w cutoff (orphan_prunable_source_ids (rt_sources t)) (rt_evidence t)) (rt_staging t)
       div nat (sy_batch_size pol)
     + nat ((cutoff - w + seconds (sy_min_window_seconds pol) - 1) div seconds (sy_min_window_seconds pol))"

lemma fewer_batches:
  fixes b n c :: nat
  assumes "1 \<le> b" "b \<le> n" "n \<le> c" "c' + n \<le> c"
  shows "c' div b + 1 \<le> c div b"
proof -
  have "(c' + b) div b \<le> c div b" using assms by (intro div_le_mono) simp
  then show ?thesis using assms(1) by simp
qed

lemma fewer_windows:
  fixes s w cutoff :: int
  assumes "0 < s" "w < cutoff" "s \<le> step"
  shows "nat ((cutoff - min (w + step) cutoff + s - 1) div s) + 1 \<le> nat ((cutoff - w + s - 1) div s)"
proof -
  have "(cutoff - min (w + step) cutoff + s - 1) div s \<le> (max 0 (cutoff - w - s) + s - 1) div s"
    using assms by (intro zdiv_mono1) auto
  also have "\<dots> + 1 \<le> (cutoff - w + s - 1) div s"
  proof (cases "s \<le> cutoff - w")
    case True
    have "cutoff - w + s - 1 = (cutoff - w - 1) + s" by simp
    then have "(cutoff - w + s - 1) div s = (cutoff - w - 1) div s + 1"
      using assms(1) by (metis div_add_self2 less_irrefl)
    with True show ?thesis by (simp add: max_def)
  next
    case False
    then have "(max 0 (cutoff - w - s) + s - 1) div s = 0" using assms(1) by (simp add: div_pos_pos_trivial)
    moreover have "1 \<le> (cutoff - w + s - 1) div s"
    proof -
      have "s div s \<le> (cutoff - w + s - 1) div s" using assms(1,2) by (intro zdiv_mono1) auto
      then show ?thesis using assms(1) by simp
    qed
    ultimately show ?thesis by simp
  qed
  finally have "(cutoff - min (w + step) cutoff + s - 1) div s + 1 \<le> (cutoff - w + s - 1) div s" by simp
  moreover have "0 \<le> (cutoff - min (w + step) cutoff + s - 1) div s"
    using assms(1) by (intro pos_imp_zdiv_nonneg_iff [THEN iffD2]) auto
  ultimately show ?thesis by linarith
qed

lemma count_matching_left:
  assumes "distinct (map key rows)" and "\<And>r. P r \<Longrightarrow> Q r"
  shows "count_if Q (snd (delete_oldest key P time n rows)) + nat (fst (delete_oldest key P time n rows))
    = count_if Q rows"
proof -
  let ?in = "\<lambda>r. key r \<in> set (stale_ids key P time n rows)"
  have "?in r \<Longrightarrow> Q r" if "r \<in> set rows" for r
    using stale_ids_rows [OF assms(1) that, of P time n] assms(2) by (auto dest: in_set_takeD)
  then have "filter ?in rows = filter (\<lambda>r. Q r \<and> ?in r) rows" by (intro filter_cong) auto
  moreover have "length (filter (\<lambda>r. Q r \<and> \<not> ?in r) xs) + length (filter (\<lambda>r. Q r \<and> ?in r) xs) =
      length (filter Q xs)" for xs by (induction xs) auto
  ultimately show ?thesis by (simp add: delete_oldest_def Let_def count_if_def conj_commute)
qed

lemma sweep_loop_progress:
  assumes env: "undisturbed env"
    and ok: "1 \<le> sy_batch_size pol" "1 \<le> sy_min_window_seconds pol"
      "sy_min_window_seconds pol \<le> sy_window_seconds pol" "sy_window_seconds pol \<le> sy_max_window_seconds pol"
  shows "distinct (map se_id (rt_staging (rn_tables st))) \<Longrightarrow> window_ok pol (sw_window p) \<Longrightarrow>
    source_ids = orphan_prunable_source_ids (rt_sources (rn_tables st)) \<Longrightarrow>
    \<exists>p' reason st'. sweep_loop env pol cutoff source_ids p st = (Inr (p', reason), st')
      \<and> (reason = CaughtUp \<or> reason = MaxBatches
          \<and> remaining_work pol cutoff (sw_watermark p') (rn_tables st') + nat (sy_max_batches pol - sw_batches p)
            \<le> remaining_work pol cutoff (sw_watermark p) (rn_tables st))"
proof (induction "nat (sy_max_batches pol - sw_batches p)" arbitrary: p st rule: less_induct)
  case less
  let ?t = "rn_tables st" and ?w = "sw_watermark p" and ?bs = "sy_batch_size pol"
  let ?until = "min (?w + seconds (sw_window p)) cutoff"
  let ?f = "delete_accepted_staging_evidence_batch ?w ?until ?bs source_ids"
  note unfold = sweep_loop.simps [of env pol cutoff source_ids p st]
  show ?case
  proof (cases "sw_batches p < sy_max_batches pol \<and> ?w < cutoff")
    case False
    then show ?thesis by (auto simp: unfold)
  next
    case True
    let ?n = "fst (?f ?t)"
    let ?st = "st\<lparr> rn_tables := snd (?f ?t), rn_clock := Suc (rn_clock st) \<rparr>"
    let ?Q = "orphan_in ?w cutoff source_ids (rt_evidence ?t)"
    have step: "sweep_loop env pol cutoff source_ids p st = sweep_loop env pol cutoff source_ids q ?st"
      if "q = (if ?bs \<le> ?n
           then p\<lparr> sw_batches := sw_batches p + 1, sw_deleted := sw_deleted p + ?n,
                  sw_window := min (sw_window p) (sy_window_seconds pol) \<rparr>
           else p\<lparr> sw_batches := sw_batches p + 1, sw_deleted := sw_deleted p + ?n,
                  sw_watermark := ?until,
                  sw_window := min (if ?n = 0 then sy_max_window_seconds pol else sy_window_seconds pol)
                    (sw_window p * 2) \<rparr>)" for q
      using True that by (simp add: unfold undisturbed_interact [OF env] Let_def)
    define q where "q = (if ?bs \<le> ?n
           then p\<lparr> sw_batches := sw_batches p + 1, sw_deleted := sw_deleted p + ?n,
                  sw_window := min (sw_window p) (sy_window_seconds pol) \<rparr>
           else p\<lparr> sw_batches := sw_batches p + 1, sw_deleted := sw_deleted p + ?n,
                  sw_watermark := ?until,
                  sw_window := min (if ?n = 0 then sy_max_window_seconds pol else sy_window_seconds pol)
                    (sw_window p * 2) \<rparr>)"
    have b: "sw_batches q = sw_batches p + 1" by (simp add: q_def)
    have win: "window_ok pol (sw_window q)" using less.prems(2) ok by (auto simp: q_def window_ok_def)
    have t': "rt_sources (snd (?f ?t)) = rt_sources ?t" "rt_evidence (snd (?f ?t)) = rt_evidence ?t"
      "distinct (map se_id (rt_staging (snd (?f ?t))))"
      using less.prems(1) by (simp_all add: accepted_batch_tables distinct_delete_oldest)
    let ?c = "count_if ?Q (rt_staging ?t)" and ?c' = "count_if ?Q (rt_staging (snd (?f ?t)))"
    have c: "?c' + nat ?n = ?c"
      unfolding accepted_batch_tables
      by (simp, rule count_matching_left [OF less.prems(1)]) (auto simp: orphan_in_def)
    have n0: "0 \<le> ?n" by (simp add: accepted_batch_tables delete_oldest_count)
    have work: "remaining_work pol cutoff (sw_watermark q) (snd (?f ?t)) + 1
        \<le> remaining_work pol cutoff ?w ?t"
    proof (cases "?bs \<le> ?n")
      case full: True
      have "?c' div nat ?bs + 1 \<le> ?c div nat ?bs"
        using c full ok(1) by (intro fewer_batches [where n = "nat ?n"]) auto
      then show ?thesis
        using full by (simp add: q_def remaining_work_def t' less.prems(3) [symmetric])
    next
      case False
      have "0 \<le> seconds (sw_window p)" using less.prems(2) ok(2) by (simp add: seconds_def window_ok_def)
      then have "count_if (orphan_in ?until cutoff source_ids (rt_evidence ?t)) (rt_staging (snd (?f ?t))) \<le> ?c'"
        using True by (intro count_if_mono) (auto simp: orphan_in_def)
      also have "\<dots> \<le> ?c" using c by simp
      finally have "count_if (orphan_in ?until cutoff source_ids (rt_evidence ?t)) (rt_staging (snd (?f ?t)))
          div nat ?bs \<le> ?c div nat ?bs" by (rule div_le_mono)
      moreover have "nat ((cutoff - ?until + seconds (sy_min_window_seconds pol) - 1) div seconds (sy_min_window_seconds pol)) + 1
          \<le> nat ((cutoff - ?w + seconds (sy_min_window_seconds pol) - 1) div seconds (sy_min_window_seconds pol))"
        using True ok(2) less.prems(2) by (intro fewer_windows) (auto simp: seconds_def window_ok_def)
      ultimately show ?thesis
        using False by (simp add: q_def remaining_work_def t' less.prems(3) [symmetric])
    qed
    from less.hyps [of q ?st] True b win t' less.prems(3)
    obtain p' reason st' where r: "sweep_loop env pol cutoff source_ids q ?st = (Inr (p', reason), st')"
      "reason = CaughtUp \<or> reason = MaxBatches
        \<and> remaining_work pol cutoff (sw_watermark p') (rn_tables st') + nat (sy_max_batches pol - sw_batches q)
          \<le> remaining_work pol cutoff (sw_watermark q) (snd (?f ?t))"
      by auto
    show ?thesis
    proof (intro exI conjI)
      show "sweep_loop env pol cutoff source_ids p st = (Inr (p', reason), st')"
        using step [OF q_def] r(1) by simp
      show "reason = CaughtUp \<or> reason = MaxBatches
          \<and> remaining_work pol cutoff (sw_watermark p') (rn_tables st') + nat (sy_max_batches pol - sw_batches p)
            \<le> remaining_work pol cutoff ?w ?t"
        using r(2) work b True by auto
    qed
  qed
qed

text \<open>
  Left alone, the sweep gets on: a cycle either catches up with the retention or uses its whole budget
  of batches, and each of them takes a full batch of orphans or a window off the work that remains.
  So a cycle whose budget exceeds that work catches up, however large the rows that stay are.
\<close>

theorem sweep_catches_up:
  assumes env: "undisturbed env" and ids: "distinct (map se_id (rt_staging (rn_tables st)))"
    and "1 \<le> sy_batch_size pol" "1 \<le> sy_min_window_seconds pol"
      "sy_min_window_seconds pol \<le> sy_window_seconds pol" "sy_window_seconds pol \<le> sy_max_window_seconds pol"
    and sources: "orphan_prunable_source_ids (rt_sources (rn_tables st)) \<noteq> []"
    and w: "rn_watermark st = Some w"
  shows "\<exists>s w' st'. sweep_accepted_staging env pol cutoff st = (Inr s, st') \<and> rn_watermark st' = Some w'
    \<and> (sz_stopped_reason s = CaughtUp \<or> sz_stopped_reason s = MaxBatches
        \<and> remaining_work pol cutoff w' (rn_tables st') + nat (sy_max_batches pol)
          \<le> remaining_work pol cutoff w (rn_tables st))"
proof -
  let ?ids = "orphan_prunable_source_ids (rt_sources (rn_tables st))"
  let ?p = "\<lparr> sw_watermark = w, sw_window = start_window pol (rn_window st), sw_deleted = 0, sw_batches = 0 \<rparr>"
  let ?st = "st\<lparr> rn_clock := Suc (Suc (rn_clock st)),
      rn_fallback_keys := Some (legacy_fallback_adapter_keys (rt_sources (rn_tables st))) \<rparr>"
  obtain s ss where s: "?ids = s # ss" using sources by (cases ?ids) auto
  have "re_fault env n = NoFault" for n using env by (simp add: undisturbed_def)
  then have run: "sweep_accepted_staging env pol cutoff st =
      run_sweep env pol cutoff ?ids w (start_window pol (rn_window st)) ?st"
    using s w by (simp add: sweep_accepted_staging_def Let_def wbind_def db_silent_def db_read_def
        undisturbed_interact [OF env] sweep_setup_def fetch_orphan_prunable_source_ids_def wreturn_def)
  have "window_ok pol (start_window pol (rn_window st))" using assms(4-6) by (intro start_window_ok) simp
  from sweep_loop_progress [OF env assms(3-6), of ?st ?p ?ids cutoff] this ids
  obtain p' reason st' where "sweep_loop env pol cutoff ?ids ?p ?st = (Inr (p', reason), st')"
    "reason = CaughtUp \<or> reason = MaxBatches
      \<and> remaining_work pol cutoff (sw_watermark p') (rn_tables st') + nat (sy_max_batches pol)
        \<le> remaining_work pol cutoff w (rn_tables st)"
    by auto
  then show ?thesis by (auto simp: run run_sweep_def wbind_def)
qed

section \<open>Evidence and snapshots\<close>

lemma realtime_batch_tables:
  "snd (prune_realtime_evidence types cutoff n t) =
   t\<lparr> rt_evidence := snd (delete_oldest ee_id (stale_evidence types cutoff) evidence_time n (rt_evidence t)) \<rparr>"
  by (simp add: prune_realtime_evidence_def split: prod.split)

text \<open>
  The pruning of realtime evidence spares history: a row survives unless it is official, of one of the
  named event types and older than the retention, whether the statement fails or not. With the event
  types of the maintenance no flood report is ever pruned.
\<close>

theorem realtime_pruning_spares_history:
  assumes others: "\<And>n t. distinct (map ee_id (rt_evidence t)) \<Longrightarrow> e \<in> set (rt_evidence t)
      \<Longrightarrow> distinct (map ee_id (rt_evidence (re_others env n t))) \<and> e \<in> set (rt_evidence (re_others env n t))"
    and ids: "distinct (map ee_id (rt_evidence (rn_tables st)))"
    and e: "e \<in> set (rt_evidence (rn_tables st))"
    and kept: "ee_source_type e \<noteq> ''official'' \<or> ee_event_type e \<notin> set types
      \<or> now - hours retention_hours \<le> evidence_time e"
    and run: "prune_realtime env clock retention_hours types batch_limit now st = (answer, st')"
  shows "e \<in> set (rt_evidence (rn_tables st'))"
proof -
  define I where "I (w :: int option) t \<longleftrightarrow> distinct (map ee_id (rt_evidence t)) \<and> e \<in> set (rt_evidence t)"
    for w and t :: retention_tables
  have stable: "stable env (I w)" for w using others by (simp add: stable_def I_def)
  have batch: "I w (snd (prune_realtime_evidence (dict_fromkeys types) c batch_limit t))"
    if "c = now - hours retention_hours" "I w t" for w t c
    using that kept delete_oldest_keeps [of e "rt_evidence t" "stale_evidence (dict_fromkeys types) c" ee_id]
    by (auto simp: I_def realtime_batch_tables stale_evidence_def distinct_delete_oldest)
  have "triple (tables_hold I) (prune_realtime env clock retention_hours types batch_limit now)
      (\<lambda>_. tables_hold I) (tables_hold I)"
    unfolding prune_realtime_def Let_def
    by (intro triple_checked triple_if triple_return
        triple_bind [OF triple_run_statement [OF stable batch]]) simp_all
  from tripleD [OF this _ run] ids e have "tables_hold I st'" by (cases answer) (simp_all add: I_def)
  then show ?thesis by (simp add: I_def)
qed

section \<open>Samples\<close>

definition sample_staged :: "string \<Rightarrow> string \<Rightarrow> int \<Rightarrow> string \<Rightarrow> staging_entry" where
  "sample_staged i status created source =
     \<lparr> se_id = i, se_status = status, se_created_at = created, se_source = Some source, se_snapshot = None \<rparr>"

text \<open>A rejected row, an orphan, a promoted row and a row of the historical floods, all old; a new row.\<close>

definition sample_tables :: retention_tables where
  "sample_tables =
     \<lparr> rt_evidence = [\<lparr> ee_id = ''e'', ee_source_type = ''official'', ee_event_type = ''rainfall'',
         ee_observed_at = Some 0, ee_ingested_at = None, ee_created_at = 0, ee_staging_id = Some ''c'' \<rparr>],
       rt_queries = [], rt_snapshots = [],
       rt_staging = [sample_staged ''a'' ''rejected'' 0 ''s1'', sample_staged ''b'' ''accepted'' 1 ''s1'',
         sample_staged ''c'' ''accepted'' 2 ''s1'', sample_staged ''d'' ''accepted'' 3 ''s2'',
         sample_staged ''e'' ''accepted'' (hours 168) ''s1''],
       rt_sources = [(Some ''s1'', Some ''official.cwa.rainfall''),
         (Some ''s2'', Some ''official.wra.historical_flood'')],
       rt_indexes = (\<lambda>_. Some True) \<rparr>"

definition sample_retention :: retention_state where
  "sample_retention =
     \<lparr> rn_tables = sample_tables, rn_clock = 0, rn_watermark = None, rn_window = None,
       rn_staging_streak = 0, rn_accepted_streak = 0, rn_fallback_keys = None \<rparr>"

definition calm_env :: retention_env where
  "calm_env = \<lparr> re_fault = (\<lambda>_. NoFault), re_others = (\<lambda>_ t. t), re_sqlstate = (\<lambda>_. None) \<rparr>"

text \<open>The first batch of the rejected pass is committed, but the connection breaks before the answer.\<close>

definition stormy_env :: retention_env where
  "stormy_env =
     \<lparr> re_fault = (\<lambda>n. if n = 3 then Unconfirmed (''OperationalError'', ''connection lost'') else NoFault),
       re_others = (\<lambda>_ t. t), re_sqlstate = (\<lambda>_. None) \<rparr>"

definition sample_policy :: staging_policy where
  "sample_policy =
     \<lparr> pl_retention_days = 7, pl_batch_size = 5000, pl_max_batches = 10, pl_statement_timeout_ms = 5000,
       pl_lock_timeout_ms = 2000, pl_ensure_index = True, pl_accepted_enabled = True,
       pl_accepted_max_batches = 200, pl_window_seconds = 3600, pl_min_window_seconds = 300,
       pl_max_window_seconds = None \<rparr>"

lemma only_expendable_rows_are_pruned_witness:
  "sample_staged ''d'' ''accepted'' 3 ''s2''
     \<in> set (rt_staging (rn_tables (snd (prune_staging_evidence stormy_env (0, 0) sample_policy
         (hours 170) sample_retention))))"
  by (rule only_expendable_rows_are_pruned [OF _ _ _ _ surjective_pairing])
    (simp_all add: stormy_env_def sample_retention_def sample_tables_def sample_policy_def
      sample_staged_def expendable_def orphan_def is_orphan_prunable_adapter_def
      historical_coverage_adapter_keys_def)

lemma sweep_leaves_no_orphan_behind_witness:
  "filter (\<lambda>r. se_created_at r < hours 2
       \<and> orphan (rn_tables (snd (prune_staging_evidence calm_env (0, 0) sample_policy (hours 170)
           sample_retention))) r)
     (rt_staging (rn_tables (snd (prune_staging_evidence calm_env (0, 0) sample_policy (hours 170)
        sample_retention)))) = []"
proof -
  have caught: "\<exists>s. fst (prune_staging_evidence calm_env (0, 0) sample_policy (hours 170) sample_retention) = Inr s
      \<and> sx_accepted_stopped_reason s = CaughtUp"
  proof -
    have "case fst (prune_staging_evidence calm_env (0, 0) sample_policy (hours 170) sample_retention) of
      Inl _ \<Rightarrow> False | Inr s \<Rightarrow> sx_accepted_stopped_reason s = CaughtUp" by code_simp
    then show ?thesis by (auto split: sum.splits)
  qed
  have c: "hours 170 - hours (24 * pl_retention_days sample_policy) = hours 2"
    by (simp add: sample_policy_def hours_def seconds_def)
  show ?thesis
    using sweep_leaves_no_orphan_behind [where env = calm_env and pol = sample_policy and now = "hours 170"
        and st = sample_retention and clock = "(0, 0)", OF _ _ surjective_pairing] caught
    unfolding c filter_empty_conv by (auto simp: calm_env_def sample_retention_def)
qed


lemma retention_cycle_ends_witness:
  "rn_clock (snd (prune_staging_evidence stormy_env (0, 0) sample_policy (hours 170) sample_retention)) \<le> 227"
  using retention_cycle_ends [OF surjective_pairing, of stormy_env "(0, 0)" sample_policy "hours 170" sample_retention]
  by (simp add: sample_policy_def sample_retention_def)

lemma rejected_pass_deletes_the_oldest_witness:
  "\<exists>p st'. delete_staging_batches calm_env 5 1 1 sample_retention = (Inr p, st')
    \<and> bp_deleted p = 1 \<and> bp_reason p \<noteq> Exhausted"
  using rejected_pass_deletes_the_oldest [of calm_env sample_retention 1 1 5]
  by (auto simp: calm_env_def undisturbed_def sample_retention_def sample_tables_def sample_staged_def
      count_if_def stale_rejected_def)

lemma sweep_catches_up_witness:
  "\<exists>s w' st'. sweep_accepted_staging calm_env
      \<lparr> sy_batch_size = 1, sy_max_batches = 2, sy_window_seconds = 3600, sy_min_window_seconds = 300,
        sy_max_window_seconds = 86400 \<rparr> (hours 10) (sample_retention\<lparr> rn_watermark := Some 0 \<rparr>) = (Inr s, st')
    \<and> rn_watermark st' = Some w'
    \<and> (sz_stopped_reason s = CaughtUp \<or> sz_stopped_reason s = MaxBatches)"
proof -
  let ?pol = "\<lparr> sy_batch_size = 1, sy_max_batches = 2, sy_window_seconds = 3600, sy_min_window_seconds = 300,
        sy_max_window_seconds = 86400 \<rparr>"
  have "orphan_prunable_source_ids (rt_sources sample_tables) \<noteq> []" by code_simp
  then show ?thesis
    using sweep_catches_up [of calm_env "sample_retention\<lparr> rn_watermark := Some 0 \<rparr>" ?pol 0 "hours 10"]
    by (auto simp: calm_env_def undisturbed_def sample_retention_def sample_tables_def sample_staged_def)
qed

lemma realtime_pruning_spares_history_witness:
  "\<lparr> ee_id = ''f'', ee_source_type = ''official'', ee_event_type = ''flood_report'',
     ee_observed_at = Some 0, ee_ingested_at = None, ee_created_at = 0, ee_staging_id = None \<rparr>
   \<in> set (rt_evidence (rn_tables (snd (prune_realtime stormy_env (0, 0) 48 prunable_realtime_event_types
        50000 (hours 170) (sample_retention\<lparr> rn_tables := sample_tables\<lparr> rt_evidence :=
          [\<lparr> ee_id = ''f'', ee_source_type = ''official'', ee_event_type = ''flood_report'',
             ee_observed_at = Some 0, ee_ingested_at = None, ee_created_at = 0, ee_staging_id = None \<rparr>] \<rparr> \<rparr>)))))"
  by (rule realtime_pruning_spares_history [OF _ _ _ _ surjective_pairing])
    (simp_all add: stormy_env_def prunable_realtime_event_types_def)

end
