(* ===== verification/Index_Maintenance.thy ===== *)
theory Index_Maintenance
  imports Step_Triples
begin

text \<open>
  The online rebuild of the indexes of the evidence table, \<open>apps/workers/app/jobs/index_maintenance.py\<close>:
  the maintenance window, the choice of an index, the budget of a rebuild, the removal of dead copies
  and the answer of a cycle. The database is seen through its answers: the catalog at each statement,
  the failure of a statement, and the journal of the statements that were sent. What was logged last is
  not modelled.
\<close>

section \<open>Constants\<close>

definition evidence_reindex_indexes :: "string list" where
  "evidence_reindex_indexes =
     [''idx_evidence_nearby_non_realtime_geom'', ''idx_evidence_official_water_level_geom'',
      ''idx_evidence_official_rainfall_geom'', ''idx_evidence_observed_flood_history_geom'',
      ''idx_evidence_geom_geography'', ''idx_evidence_staging_evidence_id'',
      ''evidence_source_raw_ref_unique'']"

definition minimum_server_version :: int where
  "minimum_server_version = 120000"

definition cc_leftover_infix :: string where
  "cc_leftover_infix = ''_cc''"

section \<open>The window\<close>

text \<open>A time of the day is a number of microseconds since midnight, UTC; so is the rest of a day.\<close>

definition day :: int where
  "day = hours 24"

definition time_of_day :: "int \<Rightarrow> int" where
  "time_of_day t = t mod day"

definition at_time :: "int \<Rightarrow> int \<Rightarrow> int" where
  "at_time t clock = t - time_of_day t + clock"

text \<open>\<open>datetime.time(hour, minute)\<close>.\<close>

definition clock_time :: "int \<Rightarrow> int \<Rightarrow> string + int" where
  "clock_time hour minute =
     (if hour > 23 then Inl ''hour must be in 0..23''
      else if minute > 59 then Inl ''minute must be in 0..59''
      else Inr (hours hour + minutes minute))"

text \<open>\<open>^(\d{1,2}):(\d{2})-(\d{1,2}):(\d{2})$\<close>: a number of the given least and most digits, and the rest.\<close>

definition read_number :: "nat \<Rightarrow> nat \<Rightarrow> string \<Rightarrow> (int \<times> string) option" where
  "read_number least most s =
     (let digits = takeWhile is_digit_char s
      in if least \<le> length digits \<and> length digits \<le> most
         then Some (decimal_value digits, dropWhile is_digit_char s) else None)"

fun read_char :: "char \<Rightarrow> string \<Rightarrow> string option" where
  "read_char c [] = None"
| "read_char c (d # s) = (if c = d then Some s else None)"

definition read_clock :: "string \<Rightarrow> ((int \<times> int) \<times> string) option" where
  "read_clock s =
     Option.bind (read_number 1 2 s) (\<lambda>(h, s).
     Option.bind (read_char CHR '':'' s) (\<lambda>s.
     Option.bind (read_number 2 2 s) (\<lambda>(m, s). Some ((h, m), s))))"

definition match_window :: "string \<Rightarrow> ((int \<times> int) \<times> (int \<times> int)) option" where
  "match_window s =
     Option.bind (read_clock s) (\<lambda>(a, s).
     Option.bind (read_char CHR ''-'' s) (\<lambda>s.
     Option.bind (read_clock s) (\<lambda>(b, s). if s = [] then Some (a, b) else None)))"

text \<open>\<open>repr\<close> of the library is an argument.\<close>

definition window_error :: "(string \<Rightarrow> string) \<Rightarrow> string \<Rightarrow> string \<Rightarrow> py_exc" where
  "window_error repr window_utc reason =
     value_error (''invalid maintenance window '' @ repr window_utc @ '': '' @ reason)"

definition parse_window :: "(string \<Rightarrow> string) \<Rightarrow> string \<Rightarrow> (int \<times> int) outcome" where
  "parse_window repr window_utc =
     (case match_window (strip_str window_utc) of
        None \<Rightarrow> Inl (window_error repr window_utc ''expected HH:MM-HH:MM in UTC'')
      | Some ((h1, m1), (h2, m2)) \<Rightarrow>
          (case clock_time h1 m1 of
             Inl e \<Rightarrow> Inl (window_error repr window_utc e)
           | Inr start \<Rightarrow>
               (case clock_time h2 m2 of
                  Inl e \<Rightarrow> Inl (window_error repr window_utc e)
                | Inr stop \<Rightarrow>
                    if start = stop
                    then Inl (window_error repr window_utc ''start and end must differ'')
                    else Inr (start, stop))))"

definition window_started_at :: "int \<Rightarrow> int \<times> int \<Rightarrow> int option" where
  "window_started_at now window =
     (let (start, stop) = window; day_start = at_time now start; current = time_of_day now
      in if start < stop
         then (if start \<le> current \<and> current < stop then Some day_start else None)
         else if start \<le> current then Some day_start
         else if current < stop then Some (day_start - day)
         else None)"

definition window_ends_at :: "int \<Rightarrow> int \<times> int \<Rightarrow> int" where
  "window_ends_at started window =
     (let ends = at_time started (snd window)
      in if ends \<le> started then ends + day else ends)"

section \<open>Names\<close>

definition is_index_name_char :: "char \<Rightarrow> bool" where
  "is_index_name_char c \<longleftrightarrow>
     (let n = (of_char c :: int) in (97 \<le> n \<and> n \<le> 122) \<or> (48 \<le> n \<and> n \<le> 57) \<or> n = 95)"

definition validated_index_names :: "(string \<Rightarrow> string) \<Rightarrow> string list \<Rightarrow> string list outcome" where
  "validated_index_names repr names =
     (let resolved = dict_fromkeys (filter (\<lambda>n. n \<noteq> []) (map strip_str names))
      in if resolved = [] then Inl (value_error ''index_names must contain at least one index name'')
         else case find (\<lambda>n. \<not> list_all is_index_name_char n) resolved of
                Some n \<Rightarrow> Inl (value_error (''invalid index name '' @ repr n
                            @ '': expected only [a-z0-9_] characters''))
              | None \<Rightarrow> Inr resolved)"

text \<open>\<open>_like_prefix\<close>, and \<open>LIKE\<close> of SQL with the backslash as escape.\<close>

fun like_escape :: "string \<Rightarrow> string" where
  "like_escape [] = []"
| "like_escape (c # s) =
     (if c = CHR 0x5C \<or> c = CHR ''%'' \<or> c = CHR ''_'' then CHR 0x5C # c # like_escape s
      else c # like_escape s)"

definition like_prefix :: "string \<Rightarrow> string" where
  "like_prefix p = like_escape p @ ''%''"

fun sql_like :: "string \<Rightarrow> string \<Rightarrow> bool" where
  "sql_like [] s = (s = [])"
| "sql_like [p] s =
     (if p = CHR ''%'' then True
      else case s of [] \<Rightarrow> False | c # s' \<Rightarrow> s' = [] \<and> (p = CHR ''_'' \<or> (p \<noteq> CHR 0x5C \<and> p = c)))"
| "sql_like (p # q # ps) s =
     (if p = CHR ''%'' then list_ex (sql_like (q # ps)) (suffixes s)
      else if p = CHR 0x5C
      then (case s of [] \<Rightarrow> False | c # s' \<Rightarrow> q = c \<and> sql_like ps s')
      else (case s of [] \<Rightarrow> False | c # s' \<Rightarrow> (p = CHR ''_'' \<or> p = c) \<and> sql_like (q # ps) s'))"

section \<open>The catalog and the statements\<close>

text \<open>A row of the probe of an index, and what the code makes of it.\<close>

record catalog_row =
  ca_size :: "int option"
  ca_reltuples :: "rat option"
  ca_valid :: bool
  ca_filenode :: "int option"

record index_entry =
  ix_size :: int
  ix_reltuples :: rat
  ix_valid :: bool
  ix_filenode :: int

datatype db_command =
  Connect | ShowVersion | SetTimeouts int int | ListLeftovers "string list" | DropIndex string
| ProbeIndex string | SetBudget int | Reindex string

text \<open>
  The catalog of the schema at each statement, whatever made it so; the statements that fail; the
  answer to \<open>SHOW server_version_num\<close> where it is a number.
\<close>

record index_env =
  xe_catalog :: "nat \<Rightarrow> (string \<times> catalog_row) list"
  xe_fault :: "nat \<Rightarrow> py_exc option"
  xe_version :: "int option"
  xe_sqlstate :: "py_exc \<Rightarrow> string option"

text \<open>The dictionaries of the module, and the statements sent so far.\<close>

record index_state_vars =
  xs_last_reindex :: "(string \<times> int) list"
  xs_last_attempt :: "(string \<times> int) list"
  xs_journal :: "db_command list"

type_synonym 'a index_step = "(index_state_vars, 'a) step"

definition send ::
  "index_env \<Rightarrow> db_command \<Rightarrow> ((string \<times> catalog_row) list \<Rightarrow> 'a) \<Rightarrow> 'a index_step" where
  "send env command answer st =
     (let n = length (xs_journal st); st' = st\<lparr> xs_journal := xs_journal st @ [command] \<rparr>
      in case xe_fault env n of
           Some e \<Rightarrow> (Inl e, st')
         | None \<Rightarrow> (Inr (answer (xe_catalog env n)), st'))"

definition failure_code :: "index_env \<Rightarrow> py_exc \<Rightarrow> string" where
  "failure_code env e =
     (case xe_sqlstate env e of
        None \<Rightarrow> fst e
      | Some s \<Rightarrow> if s = [] then fst e else s)"

definition index_entry_of :: "string \<Rightarrow> (string \<times> catalog_row) list \<Rightarrow> index_entry option" where
  "index_entry_of name catalog =
     map_option
       (\<lambda>r. \<lparr> ix_size = (case ca_size r of None \<Rightarrow> 0 | Some n \<Rightarrow> n),
              ix_reltuples = (case ca_reltuples r of None \<Rightarrow> 0 | Some x \<Rightarrow> x),
              ix_valid = ca_valid r,
              ix_filenode = (case ca_filenode r of None \<Rightarrow> 0 | Some n \<Rightarrow> n) \<rparr>)
       (map_of catalog name)"

definition probe_index :: "index_env \<Rightarrow> string \<Rightarrow> index_entry option index_step" where
  "probe_index env name = send env (ProbeIndex name) (index_entry_of name)"

section \<open>Dead copies\<close>

fun drop_all :: "index_env \<Rightarrow> string list \<Rightarrow> string list index_step" where
  "drop_all env [] = wreturn []"
| "drop_all env (name # names) =
     wbind (wcatch (send env (DropIndex name) (\<lambda>_. True)) (\<lambda>_. wreturn False)) (\<lambda>dropped.
     wbind (drop_all env names) (\<lambda>rest. wreturn (if dropped then name # rest else rest)))"

definition leftover_patterns :: "string list \<Rightarrow> string list" where
  "leftover_patterns index_names = map (\<lambda>n. like_prefix (n @ cc_leftover_infix)) index_names"

definition dead_copies :: "string list \<Rightarrow> (string \<times> catalog_row) list \<Rightarrow> string list" where
  "dead_copies patterns catalog =
     sort (map fst (filter (\<lambda>(name, r). \<not> ca_valid r \<and> list_ex (\<lambda>p. sql_like p name) patterns) catalog))"

definition sweep_invalid_cc_leftovers :: "index_env \<Rightarrow> string list \<Rightarrow> string list index_step" where
  "sweep_invalid_cc_leftovers env index_names =
     (let patterns = leftover_patterns index_names
      in wcatch (wbind (send env (ListLeftovers patterns) (dead_copies patterns)) (drop_all env))
           (\<lambda>_. wreturn []))"

section \<open>The choice of an index\<close>

datatype skip_reason =
  SkipMissing | SkipInvalid | SkipSmall | SkipTooLarge | SkipInterval | SkipAttempted | SkipWindowClosing

datatype reindex_outcome =
  OutsideWindow | WindowBudget | WindowClosing | Unsupported | NoCandidate | ReindexFailed string
| Reindexed | ReindexedAfterLockTimeout

record reindex_summary =
  rx_outcome :: reindex_outcome
  rx_index :: "string option"
  rx_window_utc :: string
  rx_before_bytes :: "int option"
  rx_after_bytes :: "int option"
  rx_reltuples :: "rat option"
  rx_elapsed_ms :: int
  rx_skipped :: "(string \<times> skip_reason) list"
  rx_leftovers_dropped :: "string list"
  rx_budget_ms :: "int option"

definition reindexed :: "reindex_summary \<Rightarrow> bool" where
  "reindexed s \<longleftrightarrow> rx_outcome s \<in> {Reindexed, ReindexedAfterLockTimeout}"

record reindex_policy =
  rp_index_names :: "string list option"
  rp_window_utc :: string
  rp_interval_hours :: int
  rp_min_size_bytes :: int
  rp_max_index_bytes :: int
  rp_max_per_window :: int
  rp_lock_timeout_ms :: int
  rp_statement_timeout_ms :: int
  rp_min_remaining_seconds :: int

text \<open>The readings of the clock within a cycle.\<close>

record index_clock =
  xc_cycle :: int
  xc_budget :: int
  xc_started :: int
  xc_finished :: int

definition plain_summary :: "reindex_policy \<Rightarrow> reindex_outcome \<Rightarrow> reindex_summary" where
  "plain_summary pol outcome =
     \<lparr> rx_outcome = outcome, rx_index = None, rx_window_utc = rp_window_utc pol,
       rx_before_bytes = None, rx_after_bytes = None, rx_reltuples = None, rx_elapsed_ms = 0,
       rx_skipped = [], rx_leftovers_dropped = [], rx_budget_ms = None \<rparr>"

text \<open>The reason to skip an index, or the entry to rebuild.\<close>

definition skip_reason_of ::
  "reindex_policy \<Rightarrow> int \<Rightarrow> int \<Rightarrow> index_state_vars \<Rightarrow> string \<Rightarrow> index_entry option
    \<Rightarrow> skip_reason + index_entry" where
  "skip_reason_of pol window_started now st name entry =
     (case entry of
        None \<Rightarrow> Inl SkipMissing
      | Some e \<Rightarrow>
          if \<not> ix_valid e then Inl SkipInvalid
          else if ix_size e < rp_min_size_bytes pol then Inl SkipSmall
          else if ix_size e > rp_max_index_bytes pol then Inl SkipTooLarge
          else if (case map_of (xs_last_reindex st) name of
                     None \<Rightarrow> False
                   | Some t \<Rightarrow> now - t < hours (rp_interval_hours pol))
          then Inl SkipInterval
          else if (case map_of (xs_last_attempt st) name of
                     None \<Rightarrow> False
                   | Some t \<Rightarrow> window_started \<le> t)
          then Inl SkipAttempted
          else Inr e)"

definition rebuilds_in_window :: "int \<Rightarrow> index_state_vars \<Rightarrow> nat" where
  "rebuilds_in_window window_started st =
     count_if (\<lambda>t. window_started \<le> t) (map snd (xs_last_reindex st))"

definition statement_budget_ms :: "int \<Rightarrow> int \<Rightarrow> index_clock \<Rightarrow> int" where
  "statement_budget_ms statement_timeout_ms remaining_seconds clock =
     (let spent = int_seconds (xc_budget clock - xc_cycle clock) + 1;
          left_ms = max 0 (remaining_seconds - spent) * 1000
      in min statement_timeout_ms left_ms)"

text \<open>\<open>int(delta.total_seconds() * 1000)\<close>.\<close>

definition int_milliseconds :: "int \<Rightarrow> int" where
  "int_milliseconds delta = (if 0 \<le> delta then delta div 1000 else - ((- delta) div 1000))"

definition set_last_reindex :: "string \<Rightarrow> int \<Rightarrow> unit index_step" where
  "set_last_reindex name now st =
     (Inr (), st\<lparr> xs_last_reindex := AList.update name now (xs_last_reindex st) \<rparr>)"

definition set_last_attempt :: "string \<Rightarrow> int \<Rightarrow> unit index_step" where
  "set_last_attempt name now st =
     (Inr (), st\<lparr> xs_last_attempt := AList.update name now (xs_last_attempt st) \<rparr>)"

section \<open>The rebuild\<close>

text \<open>
  After a lock or statement timeout: a changed file of a still valid index is a rebuild that was done.
  The recovered answer knows no budget.
\<close>

definition recover_post_swap_success ::
  "index_env \<Rightarrow> py_exc \<Rightarrow> string \<Rightarrow> index_entry \<Rightarrow> int \<Rightarrow> reindex_summary \<Rightarrow> reindex_summary option index_step" where
  "recover_post_swap_success env e name old now summary =
     (if failure_code env e \<notin> {''55P03'', ''57014''} then wreturn None
      else wcatch
        (wbind (probe_index env name) (\<lambda>after.
           case after of
             None \<Rightarrow> wreturn None
           | Some a \<Rightarrow>
               if \<not> ix_valid a \<or> ix_filenode a = ix_filenode old then wreturn None
               else wbind (set_last_reindex name now) (\<lambda>_.
                 wreturn (Some (summary\<lparr> rx_outcome := ReindexedAfterLockTimeout,
                   rx_after_bytes := Some (ix_size a), rx_reltuples := Some (ix_reltuples a),
                   rx_budget_ms := None \<rparr>)))))
        (\<lambda>_. wreturn None))"

definition reindex_one ::
  "index_env \<Rightarrow> reindex_policy \<Rightarrow> index_clock \<Rightarrow> int \<Rightarrow> int \<Rightarrow> string \<Rightarrow> index_entry
    \<Rightarrow> (string \<times> skip_reason) list \<Rightarrow> string list \<Rightarrow> reindex_summary index_step" where
  "reindex_one env pol clock remaining_seconds now name old skipped leftovers =
     (let budget_ms = statement_budget_ms (rp_statement_timeout_ms pol) remaining_seconds clock;
          summary = (plain_summary pol Reindexed)
            \<lparr> rx_index := Some name, rx_before_bytes := Some (ix_size old),
              rx_reltuples := Some (ix_reltuples old),
              rx_elapsed_ms := int_milliseconds (xc_finished clock - xc_started clock),
              rx_skipped := skipped, rx_leftovers_dropped := leftovers,
              rx_budget_ms := Some budget_ms \<rparr>
      in if budget_ms < rp_min_remaining_seconds pol * 1000
         then wreturn ((plain_summary pol WindowClosing)
           \<lparr> rx_skipped := AList.update name SkipWindowClosing skipped,
             rx_leftovers_dropped := leftovers, rx_budget_ms := Some budget_ms \<rparr>)
         else
           wbind (send env (SetBudget budget_ms) (\<lambda>_. ())) (\<lambda>_.
           wbind (set_last_attempt name now) (\<lambda>_.
           wbind (wcatch (wbind (send env (Reindex name) (\<lambda>_. ())) (\<lambda>_. wreturn None)) (\<lambda>e. wreturn (Some e)))
             (\<lambda>failure.
                case failure of
                  Some e \<Rightarrow>
                    wbind (recover_post_swap_success env e name old now summary) (\<lambda>recovered.
                      wreturn (case recovered of
                          Some r \<Rightarrow> r
                        | None \<Rightarrow> summary\<lparr> rx_outcome := ReindexFailed (failure_code env e) \<rparr>))
                | None \<Rightarrow>
                    wbind (set_last_reindex name now) (\<lambda>_.
                    wbind (probe_index env name) (\<lambda>after.
                      wreturn (summary\<lparr> rx_after_bytes := map_option ix_size after,
                        rx_reltuples := map_option ix_reltuples after \<rparr>)))))))"

section \<open>A cycle\<close>

fun first_eligible ::
  "index_env \<Rightarrow> reindex_policy \<Rightarrow> index_clock \<Rightarrow> int \<Rightarrow> int \<Rightarrow> int \<Rightarrow> string list
    \<Rightarrow> (string \<times> skip_reason) list \<Rightarrow> string list \<Rightarrow> reindex_summary index_step" where
  "first_eligible env pol clock remaining started now [] skipped leftovers =
     wreturn ((plain_summary pol NoCandidate)
       \<lparr> rx_skipped := skipped, rx_leftovers_dropped := leftovers \<rparr>)"
| "first_eligible env pol clock remaining started now (name # names) skipped leftovers =
     wbind (probe_index env name) (\<lambda>entry st.
       case skip_reason_of pol started now st name entry of
         Inr old \<Rightarrow> reindex_one env pol clock remaining now name old skipped leftovers st
       | Inl reason \<Rightarrow>
           first_eligible env pol clock remaining started now names
             (AList.update name reason skipped) leftovers st)"

definition reindex_first_eligible ::
  "index_env \<Rightarrow> reindex_policy \<Rightarrow> index_clock \<Rightarrow> int \<Rightarrow> int \<Rightarrow> int \<Rightarrow> string list
    \<Rightarrow> reindex_summary index_step" where
  "reindex_first_eligible env pol clock remaining started now index_names =
     wbind (send env Connect (\<lambda>_. ())) (\<lambda>_.
     wbind (send env ShowVersion (\<lambda>_. case xe_version env of None \<Rightarrow> 0 | Some v \<Rightarrow> v)) (\<lambda>version.
       if version < minimum_server_version then wreturn (plain_summary pol Unsupported)
       else
         wbind (send env (SetTimeouts (rp_lock_timeout_ms pol) (rp_statement_timeout_ms pol)) (\<lambda>_. ())) (\<lambda>_.
         wbind (sweep_invalid_cc_leftovers env index_names) (\<lambda>leftovers.
           first_eligible env pol clock remaining started now index_names [] leftovers))))"

definition reindex_policy_checks :: "reindex_policy \<Rightarrow> (bool \<times> string) list" where
  "reindex_policy_checks pol =
     [(1 \<le> rp_interval_hours pol, ''interval_hours must be a positive integer''),
      (0 \<le> rp_min_size_bytes pol, ''min_size_bytes must not be negative''),
      (1 \<le> rp_max_index_bytes pol, ''max_index_bytes must be a positive integer''),
      (rp_min_size_bytes pol < rp_max_index_bytes pol,
       ''max_index_bytes must be greater than min_size_bytes''),
      (1 \<le> rp_max_per_window pol, ''max_per_window must be a positive integer''),
      (1 \<le> rp_lock_timeout_ms pol, ''lock_timeout_ms must be a positive integer''),
      (1 \<le> rp_statement_timeout_ms pol, ''statement_timeout_ms must be a positive integer''),
      (1 \<le> rp_min_remaining_seconds pol, ''min_remaining_seconds must be a positive integer'')]"

text \<open>The cycle for names and a window that were found to be in order.\<close>

definition reindex_in_window ::
  "index_env \<Rightarrow> reindex_policy \<Rightarrow> index_clock \<Rightarrow> int \<Rightarrow> string list \<Rightarrow> int \<times> int
    \<Rightarrow> reindex_summary index_step" where
  "reindex_in_window env pol clock now names window st =
     (case window_started_at now window of
        None \<Rightarrow> wreturn (plain_summary pol OutsideWindow) st
      | Some started \<Rightarrow>
          if int (rebuilds_in_window started st) \<ge> rp_max_per_window pol
          then wreturn (plain_summary pol WindowBudget) st
          else
            let remaining = int_seconds (window_ends_at started window - now)
            in if remaining \<le> rp_min_remaining_seconds pol
               then wreturn (plain_summary pol WindowClosing) st
               else wcatch (reindex_first_eligible env pol clock remaining started now names)
                      (\<lambda>e. wreturn (plain_summary pol (ReindexFailed (failure_code env e)))) st)"

definition reindex_evidence_indexes ::
  "(string \<Rightarrow> string) \<Rightarrow> index_env \<Rightarrow> reindex_policy \<Rightarrow> index_clock \<Rightarrow> int \<Rightarrow> reindex_summary index_step" where
  "reindex_evidence_indexes repr env pol clock now st =
     (case validated_index_names repr
             (case rp_index_names pol of None \<Rightarrow> evidence_reindex_indexes | Some ns \<Rightarrow> ns) of
        Inl e \<Rightarrow> (Inl e, st)
      | Inr names \<Rightarrow>
          (case parse_window repr (rp_window_utc pol) of
             Inl e \<Rightarrow> (Inl e, st)
           | Inr window \<Rightarrow>
               checked (reindex_policy_checks pol) (reindex_in_window env pol clock now names window) st))"

end
