(* ===== verification/Index_Rebuilds.thy ===== *)
theory Index_Rebuilds
  imports Index_Maintenance
begin

text \<open>
  What the cycles of \<^verbatim>\<open>Index_Maintenance\<close> do: the window a cycle lies in, the names of dead
  copies, and, by triples over the statements that were sent, what is rebuilt and dropped.
\<close>


section \<open>The window\<close>

text \<open>
  The window a time lies in is the one occurrence that has begun and not ended: it opens at the start
  of the window on its day, and closes at the next time of its end, after midnight where the end is
  the earlier time of the day.
\<close>

theorem window_is_the_open_occurrence:
  assumes "0 \<le> start" "start < day" "0 \<le> stop" "stop < day" "start \<noteq> stop"
  shows "window_started_at now (start, stop) = Some w \<longleftrightarrow>
    time_of_day w = start \<and> w \<le> now \<and> now < window_ends_at w (start, stop)"
proof -
  have d: "day = 86400000000" by (simp add: day_def hours_def seconds_def)
  define k where "k = now div day"
  define T where "T = now mod day"
  have now: "now = k * day + T" "0 \<le> T" "T < day" by (simp_all add: k_def T_def d)
  have at: "at_time (k * day + T) c = k * day + c" for c
    unfolding now(1) [symmetric] by (simp add: at_time_def time_of_day_def k_def minus_mod_eq_div_mult)
  have ends: "window_ends_at w (start, stop) = (if stop \<le> start then w - start + stop + day else w - start + stop)"
    if "time_of_day w = start" for w
    using that by (simp add: window_ends_at_def at_time_def Let_def)
  have started: "time_of_day (j * day + start) = start" for j
    using assms(1,2) by (simp add: time_of_day_def)
  show ?thesis
  proof
    assume w: "window_started_at now (start, stop) = Some w"
    have T: "time_of_day (k * day + T) = T" using now(2,3) by (simp add: time_of_day_def)
    from w consider "w = k * day + start" | "w = k * day + start - day"
      by (auto simp: now(1) window_started_at_def Let_def at split: if_splits)
    then have s: "time_of_day w = start"
      using started [of k] started [of "k - 1"] by cases (simp_all add: left_diff_distrib add_diff_eq diff_add_eq)
    from w T now(1) have "w \<le> now \<and> now < window_ends_at w (start, stop)"
      unfolding ends [OF s] using now(2,3) assms
      by (auto simp: now(1) window_started_at_def Let_def at split: if_splits)
    with s show "time_of_day w = start \<and> w \<le> now \<and> now < window_ends_at w (start, stop)" by blast
  next
    assume w: "time_of_day w = start \<and> w \<le> now \<and> now < window_ends_at w (start, stop)"
    then have s: "time_of_day w = start" by blast
    define j where "j = w div day"
    have wj: "w = j * day + start"
      using s by (simp add: j_def time_of_day_def flip: minus_mod_eq_div_mult)
    from w have b: "j * day + start \<le> k * day + T"
      "k * day + T < (if stop \<le> start then j * day + stop + day else j * day + stop)"
      using ends [OF s] unfolding now(1) wj by (auto split: if_splits)
    have T: "time_of_day (k * day + T) = T" using now(2,3) by (simp add: time_of_day_def)
    have "j * 86400000000 < (k + 1) * 86400000000 \<and> (k - 1) * 86400000000 < (j + 1) * 86400000000"
      using b now(2,3) assms unfolding d by (auto simp: distrib_right left_diff_distrib split: if_splits)
    then have "j = k \<or> j = k - 1" by auto
    then show "window_started_at now (start, stop) = Some w"
      using b now(2,3) assms
      by (auto simp: now(1) window_started_at_def Let_def at T wj left_diff_distrib split: if_splits)
  qed
qed

section \<open>Names of dead copies\<close>

lemma sql_like_any: "sql_like ''%'' s"
  by simp

lemma sql_like_escape: "sql_like (like_escape p @ ''%'') s \<longleftrightarrow> prefix p s"
proof (induction p arbitrary: s)
  case (Cons c p)
  obtain q qs where q: "like_escape p @ ''%'' = q # qs" by (cases "like_escape p") auto
  show ?case
  proof (cases "c = CHR 0x5C \<or> c = CHR ''%'' \<or> c = CHR ''_''")
    case True
    then have "like_escape (c # p) @ ''%'' = CHR 0x5C # c # q # qs" by (simp add: q)
    then show ?thesis using Cons.IH by (cases s) (auto simp: q)
  next
    case False
    then have "like_escape (c # p) @ ''%'' = c # q # qs" by (simp add: q)
    then show ?thesis using Cons.IH False by (cases s) (auto simp: q)
  qed
qed simp

text \<open>
  The pattern for the dead copies of an index matches exactly the names that begin with the index and
  the infix, although \<open>LIKE\<close> reads an underscore as any character.
\<close>

lemma like_prefix_matches_the_prefix: "sql_like (like_prefix p) s \<longleftrightarrow> prefix p s"
  by (simp only: like_prefix_def sql_like_escape)


section \<open>What a cycle sends\<close>

definition rebuilt :: "db_command list \<Rightarrow> string list" where
  "rebuilt js = List.map_filter (\<lambda>c. case c of Reindex n \<Rightarrow> Some n | _ \<Rightarrow> None) js"

lemma rebuilt_simps [simp]:
  "rebuilt [] = []" "rebuilt (Reindex n # js) = n # rebuilt js" "rebuilt (js @ ks) = rebuilt js @ rebuilt ks"
  "(\<forall>n. c \<noteq> Reindex n) \<Longrightarrow> rebuilt (c # js) = rebuilt js"
  by (auto simp: rebuilt_def map_filter_simps map_filter_def split: db_command.splits option.splits)

definition quiet :: "index_state_vars \<Rightarrow> index_state_vars \<Rightarrow> bool" where
  "quiet st0 st \<longleftrightarrow> (\<exists>js. xs_journal st = xs_journal st0 @ js \<and> rebuilt js = [])
     \<and> xs_last_reindex st = xs_last_reindex st0 \<and> xs_last_attempt st = xs_last_attempt st0"

definition sent_rebuild ::
  "int \<Rightarrow> string \<Rightarrow> int \<Rightarrow> index_state_vars \<Rightarrow> index_state_vars \<Rightarrow> bool" where
  "sent_rebuild budget name now st0 st \<longleftrightarrow>
     (\<exists>pre post. xs_journal st = xs_journal st0 @ pre @ [SetBudget budget, Reindex name] @ post
        \<and> rebuilt pre = [] \<and> rebuilt post = [])
     \<and> xs_last_attempt st = AList.update name now (xs_last_attempt st0)
     \<and> xs_last_reindex st \<in> {xs_last_reindex st0, AList.update name now (xs_last_reindex st0)}"

lemma triple_send [triples]:
  assumes "\<And>a st. P st \<Longrightarrow> Q a (st\<lparr> xs_journal := xs_journal st @ [c] \<rparr>)"
    and "\<And>st. P st \<Longrightarrow> E (st\<lparr> xs_journal := xs_journal st @ [c] \<rparr>)"
  shows "triple P (send env c f) Q E"
  using assms by (auto simp: triple_def send_def Let_def split: option.splits)

lemma quiet_refl [simp]: "quiet st st"
  by (auto simp: quiet_def)

lemma quiet_send [simp]:
  assumes "quiet st0 st" and "\<forall>n. c \<noteq> Reindex n"
  shows "quiet st0 (st\<lparr> xs_journal := xs_journal st @ [c] \<rparr>)"
proof -
  from assms(1) obtain js where "xs_journal st = xs_journal st0 @ js" "rebuilt js = []"
    by (auto simp: quiet_def)
  with assms show ?thesis
    by (auto simp: quiet_def intro!: exI [of _ "js @ [c]"])
qed

lemma triple_quiet: 
  "\<forall>n. c \<noteq> Reindex n \<Longrightarrow> triple (quiet st0) (send env c f) (\<lambda>_. quiet st0) (quiet st0)"
  by (rule triple_send) simp_all

lemma triple_drop_all: "triple (quiet st0) (drop_all env names) (\<lambda>_. quiet st0) (quiet st0)"
proof (induction names)
  case Nil show ?case by (auto intro: triples)
next
  case (Cons n ns)
  show ?case unfolding drop_all.simps
    by (rule triple_bind [where R = "\<lambda>_. quiet st0"], rule triple_catch [where E' = "quiet st0"],
        rule triple_quiet, simp, rule triple_return, assumption,
        rule triple_bind [OF Cons.IH], rule triple_return, assumption)
qed

lemma triple_leftovers: "triple (quiet st0) (sweep_invalid_cc_leftovers env names) (\<lambda>_. quiet st0) (quiet st0)"
  unfolding sweep_invalid_cc_leftovers_def Let_def
  by (rule triple_catch [where E' = "quiet st0"], rule triple_bind [OF triple_quiet triple_drop_all], simp,
      rule triple_return)

lemma triple_sent:
  assumes "\<forall>n. c \<noteq> Reindex n"
  shows "triple (sent_rebuild b n now st0) (send env c f) (\<lambda>_. sent_rebuild b n now st0) (sent_rebuild b n now st0)"
proof (rule triple_send)
  fix st assume "sent_rebuild b n now st0 st"
  then obtain pre post where "xs_journal st = xs_journal st0 @ pre @ [SetBudget b, Reindex n] @ post"
    "rebuilt pre = []" "rebuilt post = []" "xs_last_attempt st = AList.update n now (xs_last_attempt st0)"
    "xs_last_reindex st \<in> {xs_last_reindex st0, AList.update n now (xs_last_reindex st0)}"
    by (auto simp: sent_rebuild_def)
  with assms show "sent_rebuild b n now st0 (st\<lparr> xs_journal := xs_journal st @ [c] \<rparr>)"
    unfolding sent_rebuild_def
    by (intro conjI exI [of _ pre] exI [of _ "post @ [c]"]) simp_all
  then show "sent_rebuild b n now st0 (st\<lparr> xs_journal := xs_journal st @ [c] \<rparr>)" .
qed

lemma triple_set_last_reindex:
  "triple (sent_rebuild b n now st0) (set_last_reindex n now) (\<lambda>_. sent_rebuild b n now st0)
     (sent_rebuild b n now st0)"
  by (auto simp: triple_def set_last_reindex_def sent_rebuild_def)

lemma triple_recover:
  "triple (sent_rebuild b n now st0) (recover_post_swap_success env e n old now s)
     (\<lambda>_. sent_rebuild b n now st0) (sent_rebuild b n now st0)"
  unfolding recover_post_swap_success_def probe_index_def
  by (rule triple_if, rule triple_return, assumption,
      rule triple_catch [where E' = "sent_rebuild b n now st0"],
      rule triple_bind [OF triple_sent], simp,
      (auto split: option.splits intro!: triple_return triple_if triple_bind [OF triple_set_last_reindex])[1],
      rule triple_return)

lemma sent_now:
  "xs_journal st = xs_journal st0 @ js @ [SetBudget b, Reindex n] \<Longrightarrow> rebuilt js = []
    \<Longrightarrow> xs_last_attempt st = AList.update n now (xs_last_attempt st0)
    \<Longrightarrow> xs_last_reindex st = xs_last_reindex st0 \<Longrightarrow> sent_rebuild b n now st0 st"
  unfolding sent_rebuild_def by (intro conjI exI [of _ js] exI [of _ "[]"]) simp_all

definition rebuild_or_quiet :: "int \<Rightarrow> int \<Rightarrow> string \<Rightarrow> int \<Rightarrow> index_state_vars \<Rightarrow> index_state_vars \<Rightarrow> bool" where
  "rebuild_or_quiet least budget name now st0 st \<longleftrightarrow>
     quiet st0 st \<or> least \<le> budget \<and> sent_rebuild budget name now st0 st"

lemma triple_reindex_one:
  assumes b: "b = statement_budget_ms (rp_statement_timeout_ms pol) remaining clock"
    and least: "least = rp_min_remaining_seconds pol * 1000"
  shows "triple (quiet st0) (reindex_one env pol clock remaining now n old skipped leftovers)
     (\<lambda>_. rebuild_or_quiet least b n now st0) (rebuild_or_quiet least b n now st0)"
proof (cases "b < least")
  case True
  then show ?thesis
    unfolding reindex_one_def b [symmetric] least [symmetric] Let_def
    by (simp add: triple_def wreturn_def rebuild_or_quiet_def)
next
  case False
  let ?Q = "sent_rebuild b n now st0"
  let ?ready = "\<lambda>st. (\<exists>js. xs_journal st = xs_journal st0 @ js @ [SetBudget b] \<and> rebuilt js = [])
    \<and> xs_last_reindex st = xs_last_reindex st0"
  have 1: "triple (quiet st0) (send env (SetBudget b) (\<lambda>_. ()))
      (\<lambda>_ st. ?ready st \<and> xs_last_attempt st = xs_last_attempt st0) (quiet st0)"
    by (rule triple_send) (auto simp: quiet_def)
  have 2: "triple (\<lambda>st. ?ready st \<and> xs_last_attempt st = xs_last_attempt st0) (set_last_attempt n now)
      (\<lambda>_ st. ?ready st \<and> xs_last_attempt st = AList.update n now (xs_last_attempt st0)) (quiet st0)"
    by (auto simp: triple_def set_last_attempt_def)
  have 3: "triple (\<lambda>st. ?ready st \<and> xs_last_attempt st = AList.update n now (xs_last_attempt st0))
      (send env (Reindex n) (\<lambda>_. ())) (\<lambda>_. ?Q) ?Q"
    by (rule triple_send) (auto intro: sent_now)
  have 4: "triple ?Q (set_last_reindex n now) (\<lambda>_. ?Q) ?Q" by (rule triple_set_last_reindex)
  have 5: "triple ?Q (probe_index env n) (\<lambda>_. ?Q) ?Q"
    unfolding probe_index_def by (rule triple_sent) simp
  let ?D = "\<lambda>st. quiet st0 st \<or> ?Q st"
  have sent: "triple (\<lambda>st. ?ready st \<and> xs_last_attempt st = AList.update n now (xs_last_attempt st0))
      (wbind (wcatch (wbind (send env (Reindex n) (\<lambda>_. ())) (\<lambda>_. wreturn None)) (\<lambda>e. wreturn (Some e))) f)
      (\<lambda>_. ?D) ?D" if f: "\<And>failure. triple ?Q (f failure) (\<lambda>_. ?Q) ?Q"
    for f :: "py_exc option \<Rightarrow> reindex_summary index_step"
    by (rule triple_weaken, rule triple_bind, rule triple_catch, rule triple_bind [OF 3],
        rule triple_return, assumption, rule triple_return, assumption, rule f) auto
  have "triple (quiet st0) (reindex_one env pol clock remaining now n old skipped leftovers) (\<lambda>_. ?D) ?D"
    unfolding reindex_one_def Let_def b [symmetric] least [symmetric] if_not_P [OF False]
  proof (rule triple_bind, rule triple_weaken [OF 1], assumption, assumption, simp,
      rule triple_bind, rule triple_weaken [OF 2], assumption, assumption, simp, rule sent)
    fix failure :: "py_exc option"
    show "triple ?Q
      (case failure of
         None \<Rightarrow> wbind (set_last_reindex n now) (\<lambda>_. wbind (probe_index env n) (\<lambda>after.
           wreturn (F after)))
       | Some e \<Rightarrow> wbind (recover_post_swap_success env e n old now S) (\<lambda>r. wreturn (G e r)))
      (\<lambda>_. ?Q) ?Q" for F S G
      by (cases failure)
        (auto intro: triple_bind [OF triple_recover] triple_bind [OF 4] triple_bind [OF 5] triple_return)
  qed
  with False show ?thesis
    by (auto simp: rebuild_or_quiet_def elim!: triple_weaken)
qed

definition cycle_effect ::
  "reindex_policy \<Rightarrow> index_clock \<Rightarrow> int \<Rightarrow> int \<Rightarrow> int \<Rightarrow> string list \<Rightarrow> index_state_vars \<Rightarrow> index_state_vars \<Rightarrow> bool"
where
  "cycle_effect pol clock remaining started now names st0 st \<longleftrightarrow>
     quiet st0 st
     \<or> (let b = statement_budget_ms (rp_statement_timeout_ms pol) remaining clock
         in \<exists>n \<in> set names. (\<exists>old. skip_reason_of pol started now st0 n (Some old) = Inr old)
              \<and> rp_min_remaining_seconds pol * 1000 \<le> b \<and> sent_rebuild b n now st0 st)"

lemma skip_reason_of_quiet:
  "quiet st0 st \<Longrightarrow> skip_reason_of pol started now st n entry = skip_reason_of pol started now st0 n entry"
  unfolding quiet_def skip_reason_of_def by (elim conjE) (simp only:)

lemma skip_reason_of_Inr:
  "skip_reason_of pol started now st n entry = Inr old \<Longrightarrow> entry = Some old"
  by (auto simp: skip_reason_of_def split: option.splits if_splits)

lemma triple_first_eligible:
  "triple (quiet st0) (first_eligible env pol clock remaining started now names skipped leftovers)
     (\<lambda>_. cycle_effect pol clock remaining started now names st0)
     (cycle_effect pol clock remaining started now names st0)"
proof (induction names arbitrary: skipped)
  case Nil
  show ?case unfolding first_eligible.simps by (rule triple_return) (simp add: cycle_effect_def)
next
  case (Cons n ns)
  let ?E = "cycle_effect pol clock remaining started now (n # ns) st0"
  have 1: "triple (quiet st0) (probe_index env n) (\<lambda>_. quiet st0) ?E"
    unfolding probe_index_def
    by (rule triple_weaken [OF triple_quiet]) (auto simp: cycle_effect_def)
  show ?case unfolding first_eligible.simps
  proof (rule triple_bind [OF 1], unfold triple_def, intro allI impI)
    fix entry st assume q: "quiet st0 st"
    show "case case skip_reason_of pol started now st n entry of
           Inl reason \<Rightarrow> first_eligible env pol clock remaining started now ns
             (AList.update n reason skipped) leftovers st
         | Inr old \<Rightarrow> reindex_one env pol clock remaining now n old skipped leftovers st of
        (Inl _, st') \<Rightarrow> ?E st' | (Inr _, st') \<Rightarrow> ?E st'"
    proof (cases "skip_reason_of pol started now st n entry")
      case (Inl reason)
      obtain r st' where run: "first_eligible env pol clock remaining started now ns
          (AList.update n reason skipped) leftovers st = (r, st')" by (metis surj_pair)
      from tripleD [OF Cons.IH q run] have "cycle_effect pol clock remaining started now ns st0 st'"
        by (cases r) auto
      then show ?thesis using Inl run by (cases r) (auto simp: cycle_effect_def Let_def)
    next
      case (Inr old)
      obtain r st' where run: "reindex_one env pol clock remaining now n old skipped leftovers st = (r, st')"
        by (metis surj_pair)
      from tripleD [OF triple_reindex_one [OF refl refl] q run]
      have "rebuild_or_quiet (rp_min_remaining_seconds pol * 1000)
          (statement_budget_ms (rp_statement_timeout_ms pol) remaining clock) n now st0 st'"
        by (cases r) auto
      with Inr skip_reason_of_Inr [OF Inr] skip_reason_of_quiet [OF q]
      have "?E st'" by (auto simp: cycle_effect_def rebuild_or_quiet_def Let_def)
      then show ?thesis using Inr run by (cases r) auto
    qed
  qed
qed

lemma triple_reindex_first_eligible:
  "triple (quiet st0) (reindex_first_eligible env pol clock remaining started now names)
     (\<lambda>_. cycle_effect pol clock remaining started now names st0)
     (cycle_effect pol clock remaining started now names st0)"
proof -
  have E: "triple P m Q (cycle_effect pol clock remaining started now names st0)"
    if "triple P m Q (quiet st0)" for P Q and m :: "'a index_step"
    using that by (rule triple_weaken) (auto simp: cycle_effect_def)
  show ?thesis
    unfolding reindex_first_eligible_def
    by (rule triple_bind [OF E], rule triple_quiet, simp)+
      (auto simp: cycle_effect_def intro!: triple_if triple_return triple_first_eligible
        triple_bind [OF E [OF triple_quiet]] triple_bind [OF E [OF triple_leftovers]])
qed

lemma reindex_in_window_effect:
  assumes run: "reindex_in_window env pol clock now names window st = (r, st')"
  shows "(\<exists>s. r = Inr s) \<and>
    (quiet st st' \<or>
     (\<exists>started. window_started_at now window = Some started
        \<and> int (rebuilds_in_window started st) < rp_max_per_window pol
        \<and> cycle_effect pol clock (int_seconds (window_ends_at started window - now)) started now names st st'))"
proof (cases "window_started_at now window")
  case None
  with run show ?thesis by (auto simp: reindex_in_window_def wreturn_def)
next
  case (Some started)
  let ?m = "reindex_first_eligible env pol clock (int_seconds (window_ends_at started window - now)) started now names"
  obtain a st1 where m: "?m st = (a, st1)" by (metis surj_pair)
  from tripleD [OF triple_reindex_first_eligible quiet_refl m]
  have "cycle_effect pol clock (int_seconds (window_ends_at started window - now)) started now names st st1"
    by (cases a) auto
  with run Some m show ?thesis
    by (cases a) (auto simp: reindex_in_window_def Let_def wreturn_def wcatch_def split: if_splits)
qed

definition maintained_names :: "reindex_policy \<Rightarrow> string list" where
  "maintained_names pol = (case rp_index_names pol of None \<Rightarrow> evidence_reindex_indexes | Some ns \<Rightarrow> ns)"

text \<open>The configuration is in order, for these names and this window.\<close>

definition in_order :: "(string \<Rightarrow> string) \<Rightarrow> reindex_policy \<Rightarrow> string list \<Rightarrow> int \<times> int \<Rightarrow> bool" where
  "in_order repr pol names window \<longleftrightarrow>
     validated_index_names repr (maintained_names pol) = Inr names
     \<and> parse_window repr (rp_window_utc pol) = Inr window
     \<and> list_all fst (reindex_policy_checks pol)"

lemma reindex_cases:
  assumes run: "reindex_evidence_indexes repr env pol clock now st = (r, st')"
  obtains (raised) e where "r = Inl e" "st' = st" "\<And>names window. \<not> in_order repr pol names window"
  | (ran) names window where "in_order repr pol names window"
      "reindex_in_window env pol clock now names window st = (r, st')"
proof (cases "\<exists>names window. in_order repr pol names window")
  case True
  then obtain names window where o: "in_order repr pol names window" by blast
  then have "reindex_evidence_indexes repr env pol clock now st =
      reindex_in_window env pol clock now names window st"
    by (simp add: reindex_evidence_indexes_def in_order_def maintained_names_def checked_pass)
  with run o ran show thesis by simp
next
  case False
  have "st' = st \<and> (\<exists>e. r = Inl e)"
  proof (cases "list_all fst (reindex_policy_checks pol)")
    case True
    with False run show ?thesis
      by (auto simp: reindex_evidence_indexes_def in_order_def maintained_names_def split: sum.splits)
  next
    case bad: False
    from run show ?thesis
      by (auto simp: reindex_evidence_indexes_def dest: checked_failed [OF bad] split: sum.splits)
  qed
  with raised False show thesis by blast
qed

lemma statement_budget_in_time:
  assumes "1 \<le> b" and "b \<le> statement_budget_ms timeout (int_seconds rest) clock"
    and "xc_cycle clock \<le> xc_budget clock"
  shows "b \<le> timeout \<and> xc_budget clock + b * 1000 \<le> xc_cycle clock + rest"
proof -
  let ?d = "xc_budget clock - xc_cycle clock"
  have s: "int_seconds ?d = ?d div 1000000" using assms(3) by (simp add: int_seconds_def)
  from assms have b: "b \<le> timeout" "b \<le> max 0 (int_seconds rest - (int_seconds ?d + 1)) * 1000"
    by (simp_all add: statement_budget_ms_def Let_def)
  with assms(1) have pos: "0 \<le> int_seconds rest" "b \<le> (int_seconds rest - (int_seconds ?d + 1)) * 1000"
    using assms(3) by (auto simp: max_def s split: if_splits)
  have "0 \<le> int_seconds ?d" using assms(3) by (simp add: int_seconds_nonneg)
  moreover have "1 \<le> i" if "0 \<le> d" "1 \<le> b" "b \<le> (i - (d + 1)) * 1000" for d i :: int
    using that by (simp add: left_diff_distrib)
  ultimately have "1 \<le> int_seconds rest" using pos(2) assms(1) by blast
  then have "0 \<le> rest"
    using pos_imp_zdiv_nonneg_iff [of 1000000 "- rest"] by (auto simp: int_seconds_def split: if_splits)
  then have "int_seconds rest * 1000000 \<le> rest" by (simp add: int_seconds_def)
  moreover have "?d < (int_seconds ?d + 1) * 1000000" unfolding s by simp
  ultimately show ?thesis using b(1) pos(2) by simp
qed

text \<open>
  C21. A rebuild is only sent by a cycle whose configuration is in order (reviewed index names, a window
  that parses, and a policy that passes its checks), for one of the configured indexes, and inside the
  window: the window has an open occurrence when the cycle starts. It is the only rebuild of the cycle
  and is sent right after a statement timeout, which is at least the configured minimum and at most
  the configured limit, and which, counted from the moment at which the cycle computes it, ends no
  later than the window does. The cycle's clock is assumed not to run backwards up to that moment.
\<close>

theorem rebuild_fits_the_window:
  assumes run: "reindex_evidence_indexes repr env pol clock now st = (r, st')"
    and sent: "xs_journal st' = xs_journal st @ js" "n \<in> set (rebuilt js)"
    and clock: "xc_cycle clock \<le> xc_budget clock"
  shows "\<exists>names window started pre b post.
    in_order repr pol names window \<and> n \<in> set names \<and> window_started_at now window = Some started
    \<and> js = pre @ [SetBudget b, Reindex n] @ post \<and> rebuilt pre = [] \<and> rebuilt post = []
    \<and> rp_min_remaining_seconds pol * 1000 \<le> b \<and> b \<le> rp_statement_timeout_ms pol
    \<and> xc_budget clock + b * 1000 \<le> xc_cycle clock + (window_ends_at started window - now)"
  using run
proof (cases rule: reindex_cases)
  case (raised e)
  with sent show ?thesis by simp
next
  case (ran names window)
  from sent have not_quiet: "\<not> quiet st st'" by (auto simp: quiet_def)
  with reindex_in_window_effect [OF ran(2)] obtain started where
    started: "window_started_at now window = Some started"
    and effect: "cycle_effect pol clock (int_seconds (window_ends_at started window - now)) started now names st st'"
    by blast
  define b where "b = statement_budget_ms (rp_statement_timeout_ms pol)
    (int_seconds (window_ends_at started window - now)) clock"
  from effect not_quiet obtain m where m: "m \<in> set names" "rp_min_remaining_seconds pol * 1000 \<le> b"
    "sent_rebuild b m now st st'"
    by (auto simp: cycle_effect_def Let_def b_def)
  from m(3) sent(1) obtain pre post where js: "js = pre @ [SetBudget b, Reindex m] @ post"
    "rebuilt pre = []" "rebuilt post = []"
    by (auto simp: sent_rebuild_def)
  with sent(2) have "n = m" by simp
  moreover from ran(1) have "1 \<le> rp_min_remaining_seconds pol"
    by (simp add: in_order_def reindex_policy_checks_def)
  with m(2) have "1 \<le> b" by simp
  ultimately show ?thesis
    using statement_budget_in_time [OF _ eq_refl [OF b_def] clock] ran(1) started m(1,2) js by blast
qed

text \<open>
  The cycle answers.
\<close>

theorem database_faults_are_answered:
  "(case reindex_evidence_indexes repr env pol clock now st of
      (Inr s, st') \<Rightarrow> \<exists>names window. in_order repr pol names window
    | (Inl e, st') \<Rightarrow> st' = st \<and> (\<forall>names window. \<not> in_order repr pol names window))"
proof -
  obtain r st' where run: "reindex_evidence_indexes repr env pol clock now st = (r, st')"
    by (metis surj_pair)
  then show ?thesis
  proof (cases rule: reindex_cases)
    case (ran names window)
    from reindex_in_window_effect [OF ran(2)] obtain s where "r = Inr s" by blast
    with ran(1) show ?thesis by (simp only: run prod.case sum.case) blast
  qed (simp add: run)
qed

fun reindex_cycles ::
  "(string \<Rightarrow> string) \<Rightarrow> index_env \<Rightarrow> reindex_policy \<Rightarrow> (index_clock \<times> int) list \<Rightarrow> index_state_vars
    \<Rightarrow> (int \<times> string list) list" where
  "reindex_cycles repr env pol [] st = []"
| "reindex_cycles repr env pol ((clock, now) # cycles) st =
     (let st' = snd (reindex_evidence_indexes repr env pol clock now st)
      in (now, rebuilt (drop (length (xs_journal st)) (xs_journal st'))) # reindex_cycles repr env pol cycles st')"

definition rebuilt_in :: "int \<times> int \<Rightarrow> int \<Rightarrow> (int \<times> string list) list \<Rightarrow> string list" where
  "rebuilt_in window started history =
     concat (map snd (filter (\<lambda>(t, _). window_started_at t window = Some started) history))"

lemma cycle_dictionary:
  assumes run: "reindex_evidence_indexes repr env pol clock now st = (r, st')"
    and window: "parse_window repr (rp_window_utc pol) = Inr window"
  shows "let ns = rebuilt (drop (length (xs_journal st)) (xs_journal st')) in
    ns = [] \<and> xs_last_attempt st' = xs_last_attempt st
    \<or> (\<exists>n started. ns = [n] \<and> window_started_at now window = Some started
        \<and> \<not> (\<exists>t. map_of (xs_last_attempt st) n = Some t \<and> started \<le> t)
        \<and> xs_last_attempt st' = AList.update n now (xs_last_attempt st))"
  using run
proof (cases rule: reindex_cases)
  case (ran names window')
  with window have w: "window' = window" by (simp add: in_order_def)
  from reindex_in_window_effect [OF ran(2)] show ?thesis
  proof (elim conjE disjE exE)
    assume "quiet st st'"
    then show ?thesis by (auto simp: quiet_def)
  next
    fix started
    assume s: "window_started_at now window' = Some started"
      and e: "cycle_effect pol clock (int_seconds (window_ends_at started window' - now)) started now names st st'"
    from e consider "quiet st st'" | b n old where "skip_reason_of pol started now st n (Some old) = Inr old"
      "sent_rebuild b n now st st'"
      by (auto simp: cycle_effect_def Let_def)
    then show ?thesis
    proof cases
      case 1
      then show ?thesis by (auto simp: quiet_def)
    next
      case 2
      from 2(2) have "rebuilt (drop (length (xs_journal st)) (xs_journal st')) = [n]"
        "xs_last_attempt st' = AList.update n now (xs_last_attempt st)"
        by (auto simp: sent_rebuild_def)
      moreover from 2(1) have "\<not> (\<exists>t. map_of (xs_last_attempt st) n = Some t \<and> started \<le> t)"
        by (auto simp: skip_reason_of_def split: if_splits)
      ultimately show ?thesis using s w by auto
    qed
  qed
qed (simp add: Let_def)

lemma clock_time_bounds:
  "clock_time h m = Inr c \<Longrightarrow> 0 \<le> h \<Longrightarrow> 0 \<le> m \<Longrightarrow> 0 \<le> c \<and> c < day"
  by (auto simp: clock_time_def day_def hours_def minutes_def seconds_def split: if_splits)

lemma decimal_value_nonneg: "list_all is_digit_char s \<Longrightarrow> 0 \<le> decimal_value s"
  by (induction s rule: rev_induct) (auto simp: decimal_value_def is_digit_char_def Let_def)

lemma read_number_nonneg: "read_number least most s = Some (n, s') \<Longrightarrow> 0 \<le> n"
  using set_takeWhileD by (fastforce simp: read_number_def Let_def list_all_iff intro!: decimal_value_nonneg split: if_splits)

lemma read_clock_nonneg: "read_clock s = Some ((h, m), s') \<Longrightarrow> 0 \<le> h \<and> 0 \<le> m"
  by (auto simp: read_clock_def bind_eq_Some_conv dest: read_number_nonneg)

lemma match_window_nonneg:
  "match_window s = Some ((h1, m1), (h2, m2)) \<Longrightarrow> 0 \<le> h1 \<and> 0 \<le> m1 \<and> 0 \<le> h2 \<and> 0 \<le> m2"
  by (auto simp: match_window_def bind_eq_Some_conv dest!: read_clock_nonneg split: if_splits)

lemma parse_window_bounds:
  assumes "parse_window repr s = Inr (start, stop)"
  shows "0 \<le> start \<and> start < day \<and> 0 \<le> stop \<and> stop < day \<and> start \<noteq> stop"
  using assms
  by (auto simp: parse_window_def dest!: match_window_nonneg clock_time_bounds
      split: option.splits prod.splits sum.splits if_splits)

lemma open_occurrence:
  assumes "parse_window repr s = Inr window"
  shows "window_started_at now window = Some w \<longleftrightarrow>
    time_of_day w = fst window \<and> w \<le> now \<and> now < window_ends_at w window"
proof -
  obtain start stop where w: "window = (start, stop)" by (cases window)
  with parse_window_bounds assms window_is_the_open_occurrence show ?thesis by auto
qed

lemma rebuilt_in_simps [simp]:
  "rebuilt_in window w [] = []"
  "rebuilt_in window w ((t, ns) # history) =
     (if window_started_at t window = Some w then ns @ rebuilt_in window w history else rebuilt_in window w history)"
  by (simp_all add: rebuilt_in_def)

lemma once_per_window_from:
  assumes window: "parse_window repr (rp_window_utc pol) = Inr window"
    and "\<forall>c \<in> set cycles. w \<le> snd c"
  shows "distinct (rebuilt_in window w (reindex_cycles repr env pol cycles st))
    \<and> (\<forall>n \<in> set (rebuilt_in window w (reindex_cycles repr env pol cycles st)).
         \<not> (\<exists>t. map_of (xs_last_attempt st) n = Some t \<and> w \<le> t))"
  using assms(2)
proof (induction cycles arbitrary: st)
  case (Cons c cycles)
  obtain clock now where c: "c = (clock, now)" by (cases c)
  obtain r st1 where run: "reindex_evidence_indexes repr env pol clock now st = (r, st1)" by (metis surj_pair)
  define ns where "ns = rebuilt (drop (length (xs_journal st)) (xs_journal st1))"
  define later where "later = rebuilt_in window w (reindex_cycles repr env pol cycles st1)"
  have IH: "distinct later" "\<And>n. n \<in> set later \<Longrightarrow> \<not> (\<exists>t. map_of (xs_last_attempt st1) n = Some t \<and> w \<le> t)"
    using Cons.IH [of st1] Cons.prems by (auto simp: later_def)
  have all: "rebuilt_in window w (reindex_cycles repr env pol (c # cycles) st) =
      (if window_started_at now window = Some w then ns @ later else later)"
    by (simp add: c run ns_def later_def Let_def)
  from cycle_dictionary [OF run window] consider
    "ns = []" "xs_last_attempt st1 = xs_last_attempt st"
  | n started where "ns = [n]" "window_started_at now window = Some started"
      "\<not> (\<exists>t. map_of (xs_last_attempt st) n = Some t \<and> started \<le> t)"
      "xs_last_attempt st1 = AList.update n now (xs_last_attempt st)"
    unfolding Let_def ns_def [symmetric] by blast
  then show ?case
  proof cases
    case 1
    with IH show ?thesis unfolding all by simp
  next
    case 2
    have "w \<le> now" using Cons.prems c by simp
    with 2 IH(2) [of n] have "n \<notin> set later" by (auto simp: update_conv')
    moreover have "\<not> (\<exists>t. map_of (xs_last_attempt st) m = Some t \<and> w \<le> t)" if "m \<in> set later" for m
    proof -
      from that \<open>n \<notin> set later\<close> have "m \<noteq> n" by blast
      with IH(2) [OF that] 2(4) show ?thesis by (simp add: update_conv')
    qed
    ultimately show ?thesis unfolding all using 2 IH(1) by auto
  qed
qed simp

lemma none_before_the_window:
  assumes "parse_window repr (rp_window_utc pol) = Inr window"
    and "\<forall>c \<in> set cycles. snd c < w"
  shows "rebuilt_in window w (reindex_cycles repr env pol cycles st) = []"
  using assms(2)
proof (induction cycles arbitrary: st)
  case (Cons c cycles)
  then show ?case using open_occurrence [OF assms(1)] by (cases c) (auto simp: Let_def)
qed simp

lemma reindex_cycles_append:
  "\<exists>st'. reindex_cycles repr env pol (cs @ ds) st =
     reindex_cycles repr env pol cs st @ reindex_cycles repr env pol ds st'"
proof (induction cs arbitrary: st)
  case (Cons c cs)
  then show ?case by (cases c) (simp add: Let_def)
qed auto

text \<open>
  Once.
\<close>

theorem each_index_once_per_window:
  assumes window: "parse_window repr (rp_window_utc pol) = Inr window"
    and sorted: "sorted (map snd cycles)"
  shows "distinct (rebuilt_in window started (reindex_cycles repr env pol cycles st))"
proof -
  define early late where "early = takeWhile (\<lambda>c. snd c < started) cycles"
    and "late = dropWhile (\<lambda>c. snd c < started) cycles"
  have parts: "cycles = early @ late" by (simp add: early_def late_def)
  have early: "\<forall>c \<in> set early. snd c < started" by (auto simp: early_def dest: set_takeWhileD)
  have late: "\<forall>c \<in> set late. started \<le> snd c"
  proof (cases late)
    case (Cons c cs)
    then have "started \<le> snd c" unfolding late_def by (metis hd_dropWhile linorder_not_less list.distinct(1) list.sel(1))
    moreover have "sorted (map snd (early @ c # cs))" using sorted parts Cons by simp
    ultimately show ?thesis using Cons by (auto simp: sorted_append)
  qed simp
  obtain st' where "reindex_cycles repr env pol cycles st =
      reindex_cycles repr env pol early st @ reindex_cycles repr env pol late st'"
    unfolding parts using reindex_cycles_append by blast
  then have "rebuilt_in window started (reindex_cycles repr env pol cycles st) =
      rebuilt_in window started (reindex_cycles repr env pol early st)
      @ rebuilt_in window started (reindex_cycles repr env pol late st')"
    by (simp add: rebuilt_in_def)
  then show ?thesis
    using none_before_the_window [OF window early] once_per_window_from [OF window late] by simp
qed

section \<open>Dead copies\<close>

definition dead_copy_at :: "index_env \<Rightarrow> string list \<Rightarrow> nat \<Rightarrow> string \<Rightarrow> bool" where
  "dead_copy_at env names k x \<longleftrightarrow>
     (\<exists>row. (x, row) \<in> set (xe_catalog env k) \<and> \<not> ca_valid row)
     \<and> (\<exists>n \<in> set names. prefix (n @ cc_leftover_infix) x)"

lemma dead_copies_are_dead:
  "x \<in> set (dead_copies (leftover_patterns names) (xe_catalog env k)) \<Longrightarrow> dead_copy_at env names k x"
  by (auto simp: dead_copies_def leftover_patterns_def dead_copy_at_def list_ex_iff
      like_prefix_def sql_like_escape)

definition drops_dead :: "index_env \<Rightarrow> string list \<Rightarrow> index_state_vars \<Rightarrow> index_state_vars \<Rightarrow> bool" where
  "drops_dead env names st0 st \<longleftrightarrow>
     (\<exists>js. xs_journal st = xs_journal st0 @ js \<and>
        (\<forall>x. DropIndex x \<in> set js \<longrightarrow>
           (\<exists>k. length (xs_journal st0) \<le> k \<and> k < length (xs_journal st) \<and> dead_copy_at env names k x)))"

lemma drops_dead_refl [simp]: "drops_dead env names st st"
  by (simp add: drops_dead_def)

lemma drops_dead_send:
  assumes "drops_dead env names st0 st"
    and "\<And>x. c = DropIndex x \<Longrightarrow> \<exists>k. length (xs_journal st0) \<le> k \<and> k < length (xs_journal st) \<and> dead_copy_at env names k x"
  shows "drops_dead env names st0 (st\<lparr> xs_journal := xs_journal st @ [c] \<rparr>)"
proof -
  from assms(1) obtain js where "xs_journal st = xs_journal st0 @ js"
    "\<And>x. DropIndex x \<in> set js \<Longrightarrow>
       \<exists>k. length (xs_journal st0) \<le> k \<and> k < length (xs_journal st) \<and> dead_copy_at env names k x"
    by (auto simp: drops_dead_def)
  with assms(2) show ?thesis
    unfolding drops_dead_def by (intro exI [of _ "js @ [c]"]) (auto; metis less_SucI)
qed

abbreviation keeps :: "index_env \<Rightarrow> string list \<Rightarrow> index_state_vars \<Rightarrow> 'a index_step \<Rightarrow> bool" where
  "keeps env names st0 m \<equiv> triple (drops_dead env names st0) m (\<lambda>_. drops_dead env names st0) (drops_dead env names st0)"

lemma keeps_send: "\<forall>x. c \<noteq> DropIndex x \<Longrightarrow> keeps env names st0 (send env c f)"
  by (rule triple_send) (auto intro!: drops_dead_send)

lemma keeps_bind: "keeps env names st0 m \<Longrightarrow> (\<And>a. keeps env names st0 (f a)) \<Longrightarrow> keeps env names st0 (wbind m f)"
  by (rule triple_bind)

lemma keeps_return: "keeps env names st0 (wreturn a)"
  by (rule triple_return)

lemma keeps_dictionaries: "keeps env names st0 (set_last_reindex n now)" "keeps env names st0 (set_last_attempt n now)"
  by (auto simp: triple_def set_last_reindex_def set_last_attempt_def drops_dead_def)

lemmas keeps_rules = keeps_return keeps_dictionaries keeps_bind

lemma triple_drop_dead:
  assumes "\<forall>x \<in> set xs. \<exists>k. length (xs_journal st0) \<le> k \<and> k < m \<and> dead_copy_at env names k x"
  shows "triple (\<lambda>st. drops_dead env names st0 st \<and> m \<le> length (xs_journal st)) (drop_all env xs)
    (\<lambda>_. drops_dead env names st0) (drops_dead env names st0)"
  using assms
proof (induction xs)
  case Nil
  show ?case by (auto intro: triples)
next
  case (Cons x xs)
  let ?P = "\<lambda>st. drops_dead env names st0 st \<and> m \<le> length (xs_journal st)"
  have "?P (st\<lparr> xs_journal := xs_journal st @ [DropIndex x] \<rparr>)" if "?P st" for st
    using that Cons.prems by (auto intro!: drops_dead_send) 
  then have 1: "triple ?P (wcatch (send env (DropIndex x) (\<lambda>_. True)) (\<lambda>_. wreturn False)) (\<lambda>_. ?P) ?P"
    by (intro triple_catch [where E' = ?P] triple_send triple_return) simp_all
  show ?case unfolding drop_all.simps
    by (rule triple_bind [where R = "\<lambda>_. ?P"], rule triple_weaken [OF 1], assumption, assumption, simp,
        rule triple_bind [OF Cons.IH triple_return]) (use Cons.prems in auto)
qed

lemma keeps_sweep: "keeps env names st0 (sweep_invalid_cc_leftovers env names)"
proof -
  let ?J = "drops_dead env names st0"
  let ?list = "send env (ListLeftovers (leftover_patterns names)) (dead_copies (leftover_patterns names))"
  have "keeps env names st0 (wbind ?list (drop_all env))"
    unfolding triple_def wbind_def
  proof (intro allI impI)
    fix st assume J: "?J st"
    let ?k = "length (xs_journal st)"
    let ?xs = "dead_copies (leftover_patterns names) (xe_catalog env ?k)"
    let ?st = "st\<lparr> xs_journal := xs_journal st @ [ListLeftovers (leftover_patterns names)] \<rparr>"
    have J': "?J ?st" using J by (auto intro: drops_dead_send)
    have "length (xs_journal st0) \<le> ?k" using J by (auto simp: drops_dead_def)
    then have found: "\<forall>x \<in> set ?xs. \<exists>k. length (xs_journal st0) \<le> k \<and> k < Suc ?k \<and> dead_copy_at env names k x"
      using dead_copies_are_dead by (metis lessI)
    obtain r st' where drop: "drop_all env ?xs ?st = (r, st')" by (metis surj_pair)
    from tripleD [OF triple_drop_dead [OF found] _ drop] J' have "?J st'" by (cases r) auto
    with J' drop show "case case ?list st of (Inl e, st') \<Rightarrow> (Inl e, st') | (Inr a, st') \<Rightarrow> drop_all env a st' of
        (Inl _, st') \<Rightarrow> ?J st' | (Inr _, st') \<Rightarrow> ?J st'"
      by (auto simp: send_def Let_def split: option.splits sum.splits)
  qed
  then show ?thesis
    unfolding sweep_invalid_cc_leftovers_def Let_def by (rule triple_catch) (rule keeps_return)
qed

lemma keeps_probe: "keeps env names st0 (probe_index env n)"
  unfolding probe_index_def by (rule keeps_send) simp

lemma keeps_recover: "keeps env names st0 (recover_post_swap_success env e n old now s)"
  unfolding recover_post_swap_success_def
  by (rule triple_if, rule keeps_return, rule triple_catch, rule keeps_bind [OF keeps_probe])
    (auto split: option.splits intro!: keeps_rules triple_if)

lemma keeps_reindex_one: "keeps env names st0 (reindex_one env pol clock remaining now n old skipped leftovers)"
  unfolding reindex_one_def Let_def
  by (rule triple_if, rule keeps_return, rule keeps_bind, rule keeps_send, simp, rule keeps_bind,
      rule keeps_dictionaries, rule keeps_bind, rule triple_catch, rule keeps_bind, rule keeps_send, simp)
    (auto split: option.splits intro!: keeps_rules keeps_probe keeps_recover)

lemma keeps_first_eligible:
  "keeps env names st0 (first_eligible env pol clock remaining started now ns skipped leftovers)"
proof (induction ns arbitrary: skipped)
  case (Cons n ns)
  show ?case unfolding first_eligible.simps
  proof (rule keeps_bind [OF keeps_probe])
    show "keeps env names st0 (\<lambda>st.
        case skip_reason_of pol started now st n entry of
          Inl reason \<Rightarrow> first_eligible env pol clock remaining started now ns (AList.update n reason skipped) leftovers st
        | Inr old \<Rightarrow> reindex_one env pol clock remaining now n old skipped leftovers st)" for entry
      using Cons.IH keeps_reindex_one unfolding triple_def by (auto split: sum.split)
  qed
qed (simp add: keeps_return)

lemma keeps_reindex_first_eligible:
  "keeps env names st0 (reindex_first_eligible env pol clock remaining started now names)"
  unfolding reindex_first_eligible_def
  by (auto intro!: keeps_bind keeps_send triple_if keeps_return keeps_sweep keeps_first_eligible)

text \<open>
  C22. Only dead copies are dropped: if a cycle sends the drop of an index, then its configuration is in
  order and at one of the statements of this cycle the catalog held that index as invalid, under a
  name that begins with the name of a maintained index followed by the infix of the transient copies
  of a concurrent rebuild. So neither a valid index nor one of another name is ever dropped, whatever
  statements fail and whatever the other sessions do to the catalog in between.
\<close>

theorem only_dead_copies_are_dropped:
  assumes run: "reindex_evidence_indexes repr env pol clock now st = (r, st')"
    and sent: "xs_journal st' = xs_journal st @ js" "DropIndex x \<in> set js"
  shows "\<exists>names window k. in_order repr pol names window
    \<and> length (xs_journal st) \<le> k \<and> k < length (xs_journal st') \<and> dead_copy_at env names k x"
  using run
proof (cases rule: reindex_cases)
  case (raised e)
  with sent show ?thesis by simp
next
  case (ran names window)
  have "drops_dead env names st st'"
  proof (cases "st' = st")
    case False
    obtain started a st1 where m: "reindex_first_eligible env pol clock
        (int_seconds (window_ends_at started window - now)) started now names st = (a, st1)" "st1 = st'"
      using ran(2) False
      by (auto simp: reindex_in_window_def Let_def wreturn_def wcatch_def
          split: option.splits if_splits prod.splits sum.splits)
    from tripleD [OF keeps_reindex_first_eligible [of env names st] _ m(1)] m(2) show ?thesis
      by (cases a) auto
  qed simp
  with sent obtain k where "length (xs_journal st) \<le> k" "k < length (xs_journal st')" "dead_copy_at env names k x"
    by (auto simp: drops_dead_def)
  with ran(1) show ?thesis by blast
qed

section \<open>A catalog and two cycles\<close>

definition sample_index_env :: index_env where
  "sample_index_env =
     \<lparr> xe_catalog = \<lambda>k.
         [(''idx_a'', \<lparr> ca_size = Some 900, ca_reltuples = Some 10, ca_valid = True, ca_filenode = Some 1 \<rparr>),
          (''idx_a_cc1'', \<lparr> ca_size = None, ca_reltuples = None, ca_valid = False, ca_filenode = None \<rparr>)],
       xe_fault = \<lambda>k. None, xe_version = Some 150000, xe_sqlstate = \<lambda>e. None \<rparr>"

definition sample_reindex_policy :: reindex_policy where
  "sample_reindex_policy =
     \<lparr> rp_index_names = Some [''idx_a''], rp_window_utc = ''23:00-1:00'', rp_interval_hours = 1,
       rp_min_size_bytes = 100, rp_max_index_bytes = 1000, rp_max_per_window = 3, rp_lock_timeout_ms = 5,
       rp_statement_timeout_ms = 10000000, rp_min_remaining_seconds = 600 \<rparr>"

definition sample_reindex_clock :: index_clock where
  "sample_reindex_clock = \<lparr> xc_cycle = 0, xc_budget = seconds 2, xc_started = seconds 2, xc_finished = seconds 9 \<rparr>"

definition sample_index_state :: index_state_vars where
  "sample_index_state = \<lparr> xs_last_reindex = [], xs_last_attempt = [], xs_journal = [] \<rparr>"

definition sample_journal :: "db_command list" where
  "sample_journal = [Connect, ShowVersion, SetTimeouts 5 10000000, ListLeftovers [like_prefix ''idx_a_cc''],
     DropIndex ''idx_a_cc1'', ProbeIndex ''idx_a'', SetBudget 3597000, Reindex ''idx_a'', ProbeIndex ''idx_a'']"

lemma sample_reindex_cycle:
  "xs_journal (snd (reindex_evidence_indexes id sample_index_env sample_reindex_policy sample_reindex_clock
      (hours 48) sample_index_state)) = sample_journal"
  by code_simp

lemma sample_reindex_cycle':
  "xs_journal (snd (reindex_evidence_indexes id sample_index_env sample_reindex_policy sample_reindex_clock
      (hours 48) sample_index_state)) = xs_journal sample_index_state @ sample_journal"
  by (simp add: sample_reindex_cycle) (simp add: sample_index_state_def)

lemma rebuild_fits_the_window_witness:
  "\<exists>names window started pre b post.
    in_order id sample_reindex_policy names window \<and> ''idx_a'' \<in> set names
    \<and> window_started_at (hours 48) window = Some started
    \<and> sample_journal = pre @ [SetBudget b, Reindex ''idx_a''] @ post \<and> rebuilt pre = [] \<and> rebuilt post = []
    \<and> rp_min_remaining_seconds sample_reindex_policy * 1000 \<le> b
    \<and> b \<le> rp_statement_timeout_ms sample_reindex_policy
    \<and> xc_budget sample_reindex_clock + b * 1000 \<le> xc_cycle sample_reindex_clock + (window_ends_at started window - hours 48)"
  by (rule rebuild_fits_the_window [OF surjective_pairing sample_reindex_cycle'])
    (simp_all add: sample_journal_def sample_reindex_clock_def seconds_def)

lemma only_dead_copies_are_dropped_witness:
  "\<exists>names window k. in_order id sample_reindex_policy names window \<and> k < length sample_journal
    \<and> dead_copy_at sample_index_env names k ''idx_a_cc1''"
proof -
  have "DropIndex ''idx_a_cc1'' \<in> set sample_journal" by (simp add: sample_journal_def)
  from only_dead_copies_are_dropped [OF surjective_pairing sample_reindex_cycle' this]
  show ?thesis unfolding sample_reindex_cycle by blast
qed

lemma each_index_once_per_window_witness:
  "distinct (rebuilt_in (hours 23, hours 1) (hours 47)
     (reindex_cycles id sample_index_env sample_reindex_policy
        [(sample_reindex_clock, hours 47), (sample_reindex_clock, hours 48)] sample_index_state))"
  by (rule each_index_once_per_window) code_simp+

lemma window_is_the_open_occurrence_witness:
  "window_started_at (hours 48) (hours 23, hours 1) = Some (hours 47) \<longleftrightarrow>
    time_of_day (hours 47) = hours 23 \<and> hours 47 \<le> hours 48
    \<and> hours 48 < window_ends_at (hours 47) (hours 23, hours 1)"
  by (rule window_is_the_open_occurrence) code_simp+

end
