(* ===== verification/Managed_Cycle.thy ===== *)
theory Managed_Cycle
  imports Queue_Worker
begin

text \<open>
  The managed ingestion cycle, \<open>apps/workers/app/jobs/runtime_managed.py\<close>: the sources of a cycle are
  selected and checked against the catalog, their batches run, warnings that ended are retired, the
  staged evidence is promoted, and the status of every pipeline is recorded. Writers, the builder of
  adapters and the catalog are arguments; an effect's answer may depend on how many were tried before.
  Log events are left out.
\<close>

section \<open>Sources of the baseline\<close>

definition v1_baseline_adapter_keys :: "string list" where
  "v1_baseline_adapter_keys =
    [''official.civil_iot.flood_sensor'', ''official.civil_iot.gate_water_level'',
     ''official.civil_iot.pond_water_level'', ''official.civil_iot.pump_water_level'',
     ''official.civil_iot.river_water_level'', ''official.civil_iot.sewer_water_level'',
     ''official.cwa.heavy_rain_warning'', ''official.cwa.rainfall'', ''official.cwa.tide_level'',
     ''official.flood_potential.geojson'', ''official.ncdr.cap'',
     ''official.nstc.flood_disaster_points'', ''official.wra.flood_incident'',
     ''official.wra.historical_flood'', ''official.wra.water_level'',
     ''official.wra_iow.flood_depth'', ''local.changhua.flood_sensor'',
     ''local.chiayi_city.rainfall'', ''local.chiayi_city.water_level'',
     ''local.chiayi_county.flood_sensor'', ''local.hsinchu_city.flood_sensor'',
     ''local.hsinchu_city.sewer_water_level'', ''local.hsinchu_county.flood_sensor'',
     ''local.hualien.flood_sensor'', ''local.kaohsiung.flood_sensor'',
     ''local.kaohsiung.rainfall'', ''local.kaohsiung.sewer_water_level'',
     ''local.keelung.flood_sensor'', ''local.keelung.rainfall'', ''local.keelung.water_level'',
     ''local.kinmen.kwis_pump_station'', ''local.miaoli.flood_sensor'',
     ''local.nantou.sewer_water_level'', ''local.new_taipei.drainage_water_level'',
     ''local.new_taipei.flood_sensor'', ''local.new_taipei.rainfall'',
     ''local.new_taipei.water_level'', ''local.penghu.water_level'',
     ''local.pingtung.flood_sensor'', ''local.taichung.water_level'',
     ''local.tainan.flood_sensor'', ''local.taipei.pump_station'',
     ''local.taipei.river_water_level'', ''local.taipei.sewer_water_level'',
     ''local.taitung.flood_sensor'', ''local.taoyuan.flood_sensor'', ''local.taoyuan.rainfall'',
     ''local.taoyuan.water_level'', ''local.yilan.flood_sensor'',
     ''local.yilan.mobile_pump_status'', ''local.yilan.water_level'',
     ''local.yunlin.water_level'']"

section \<open>Environment\<close>

text \<open>\<open>replace(settings, enabled_adapter_keys=...)\<close> is the list of keys; none is the settings as given.\<close>

record run_writer =
  iw_summary :: "nat \<Rightarrow> run_summary \<Rightarrow> py_exc option"
  iw_selection :: "(nat \<Rightarrow> string list \<Rightarrow> py_exc option) option"
  iw_pipeline :: "(nat \<Rightarrow> pipeline_entry \<Rightarrow> py_exc option) option"

record retirement =
  rt_adapter_key :: string
  rt_generation_started_at :: py_datetime
  rt_completed_at :: py_datetime

record promotion_request =
  pq_limit :: "int option"
  pq_adapter_keys :: "string list"
  pq_raw_refs :: "string list"

record promotion_writer =
  pw_retire :: "nat \<Rightarrow> retirement \<Rightarrow> py_exc option"
  pw_promote :: "nat \<Rightarrow> promotion_request \<Rightarrow> py_exc + (int \<times> string list)"

text \<open>A link of the chain of causes of an exception: its SQLSTATE, module and class.\<close>

record exc_link =
  el_sqlstate :: "string option"
  el_module :: string
  el_name :: string

record managed_env =
  mg_enabled_keys :: "string list option \<Rightarrow> py_exc + string list"
  mg_has_database_url :: bool
  mg_source_catalog_reader :: "(string list \<Rightarrow> string list option) option"
  mg_postgres_catalog :: "string list \<Rightarrow> string list option"
  mg_staging_writer :: "(nat \<Rightarrow> staging_batch \<Rightarrow> py_exc option) option"
  mg_run_writer :: "run_writer option"
  mg_promotion_writer :: "promotion_writer option"
  mg_postgres_staging :: "nat \<Rightarrow> staging_batch \<Rightarrow> py_exc option"
  mg_postgres_run :: run_writer
  mg_postgres_promotion :: promotion_writer
  mg_adapter_by_key :: "(string \<times> source_adapter) list option"
  mg_adapter_builder :: "(string list \<Rightarrow> py_exc + (string \<times> source_adapter) list) option"
  mg_freshness_max_age_seconds :: int
  mg_exc_chain :: "py_exc \<Rightarrow> exc_link list"

record managed_request =
  mq_runtime_selection_adapter_keys :: "string list option"
  mq_write_runtime_selection_revision :: bool
  mq_promote :: bool
  mq_promotion_limit :: "int option"
  mq_promotion_adapter_keys :: "string list option"

text \<open>The readings of the clock.\<close>

record managed_clock =
  mc_cycle_started_at :: int
  mc_batches :: "nat \<Rightarrow> batch_clock"
  mc_missing_checked_at :: int
  mc_freshness_checked_at :: int
  mc_status_checked_at :: "nat \<Rightarrow> int"

record managed_state =
  mst_ingest :: ingest_state
  mst_retired :: "retirement list"
  mst_promotions :: "promotion_request list"

type_synonym 'a managed = "(managed_state, 'a) step"

datatype managed_status = ManagedSucceeded | ManagedPartial | ManagedFailed | ManagedSkipped

record managed_result =
  mr_status :: managed_status
  mr_reason :: "string option"
  mr_summaries :: "run_summary list"
  mr_freshness_checks :: "freshness_check list"
  mr_promoted :: int
  mr_evidence_ids :: "string list"
  mr_error_code :: "string option"
  mr_error_message :: "string option"

definition freshness_alerts :: "managed_result \<Rightarrow> freshness_check list" where
  "freshness_alerts r = filter is_alert (mr_freshness_checks r)"

definition has_alerts :: "managed_result \<Rightarrow> bool" where
  "has_alerts r \<longleftrightarrow> freshness_alerts r \<noteq> []"

definition managed_failed :: "managed_result \<Rightarrow> bool" where
  "managed_failed r \<longleftrightarrow> mr_status r = ManagedFailed"

definition bare_result :: "managed_status \<Rightarrow> string option \<Rightarrow> managed_result" where
  "bare_result status reason =
     \<lparr> mr_status = status, mr_reason = reason, mr_summaries = [], mr_freshness_checks = [],
       mr_promoted = 0, mr_evidence_ids = [], mr_error_code = None, mr_error_message = None \<rparr>"

section \<open>Effects\<close>

definition on_ingest :: "(ingest_state, 'a) step \<Rightarrow> 'a managed" where
  "on_ingest m st = (case m (mst_ingest st) of (r, s) \<Rightarrow> (r, st\<lparr> mst_ingest := s \<rparr>))"

definition tried_effects :: "managed_state \<Rightarrow> nat" where
  "tried_effects st = ws_writes (mst_ingest st)"

definition count_effect :: "managed_state \<Rightarrow> managed_state" where
  "count_effect st = st\<lparr> mst_ingest := (mst_ingest st)\<lparr> ws_writes := Suc (tried_effects st) \<rparr> \<rparr>"

definition retire_warning_latest :: "promotion_writer \<Rightarrow> retirement \<Rightarrow> unit managed" where
  "retire_warning_latest w r st =
     (let st' = count_effect st
      in case pw_retire w (tried_effects st) r of
           Some e \<Rightarrow> (Inl e, st')
         | None \<Rightarrow> (Inr (), st'\<lparr> mst_retired := mst_retired st @ [r] \<rparr>))"

definition promote_staging :: "promotion_writer \<Rightarrow> promotion_request \<Rightarrow> (int \<times> string list) managed" where
  "promote_staging w q st =
     (let st' = count_effect st
      in case pw_promote w (tried_effects st) q of
           Inl e \<Rightarrow> (Inl e, st')
         | Inr r \<Rightarrow> (Inr r, st'\<lparr> mst_promotions := mst_promotions st @ [q] \<rparr>))"

text \<open>The writers of audit rows that a cycle without any has.\<close>

definition audit_of :: "run_writer option \<Rightarrow> audit_env" where
  "audit_of w =
     \<lparr> we_pipeline_writer = Option.bind w iw_pipeline, we_selection_writer = Option.bind w iw_selection \<rparr>"

definition write_runtime_selection_revision :: "run_writer option \<Rightarrow> string list \<Rightarrow> bool \<Rightarrow> unit managed" where
  "write_runtime_selection_revision w keys enabled =
     (if \<not> enabled then wreturn () else on_ingest (record_runtime_selection (audit_of w) keys))"

definition resolve_runtime_status_writer :: "managed_env \<Rightarrow> run_writer option" where
  "resolve_runtime_status_writer env =
     (case mg_run_writer env of
        Some w \<Rightarrow> Some w
      | None \<Rightarrow> if mg_has_database_url env then Some (mg_postgres_run env) else None)"

record persistence_writers =
  ps_staging :: "nat \<Rightarrow> staging_batch \<Rightarrow> py_exc option"
  ps_run :: run_writer
  ps_promotion :: "promotion_writer option"

definition resolve_persistence_writers ::
  "managed_env \<Rightarrow> run_writer option \<Rightarrow> bool \<Rightarrow> persistence_writers option" where
  "resolve_persistence_writers env run promote =
     (if (mg_staging_writer env = None \<or> run = None \<or> (promote \<and> mg_promotion_writer env = None))
         \<and> \<not> mg_has_database_url env
      then None
      else Some
        \<lparr> ps_staging = (case mg_staging_writer env of None \<Rightarrow> mg_postgres_staging env | Some w \<Rightarrow> w),
          ps_run = (case run of None \<Rightarrow> mg_postgres_run env | Some w \<Rightarrow> w),
          ps_promotion = (case mg_promotion_writer env of
             None \<Rightarrow> if promote then Some (mg_postgres_promotion env) else None | Some w \<Rightarrow> Some w) \<rparr>)"

definition resolve_adapters ::
  "managed_env \<Rightarrow> string list \<Rightarrow> (string \<times> source_adapter) list option outcome" where
  "resolve_adapters env keys =
     (case mg_adapter_by_key env of
        Some adapters \<Rightarrow> Inr (Some adapters)
      | None \<Rightarrow>
          (case mg_adapter_builder env of
             None \<Rightarrow> Inr None
           | Some build \<Rightarrow> map_sum id Some (build keys)))"

definition ingest_env_of :: "persistence_writers \<Rightarrow> ingest_env" where
  "ingest_env_of p =
     \<lparr> we_pipeline_writer = iw_pipeline (ps_run p), we_selection_writer = iw_selection (ps_run p),
       in_batch_writer = Some (ps_staging p), in_summary_writer = Some (iw_summary (ps_run p)) \<rparr>"

text \<open>Where the database is configured by an empty text, the code would build a reader all the same.\<close>

definition resolve_source_catalog_reader :: "managed_env \<Rightarrow> (string list \<Rightarrow> string list option) option" where
  "resolve_source_catalog_reader env =
     (case mg_source_catalog_reader env of
        Some r \<Rightarrow> Some r
      | None \<Rightarrow> if mg_has_database_url env then Some (mg_postgres_catalog env) else None)"

section \<open>Status of a cycle\<close>

definition status_from_cycle :: "run_summary list \<Rightarrow> managed_status" where
  "status_from_cycle summaries =
     (if summaries = [] then ManagedSkipped
      else if list_ex (\<lambda>s. rs_status s = BatchFailed) summaries then ManagedFailed
      else if list_ex (\<lambda>s. rs_status s \<in> {BatchPartial, BatchSkipped}) summaries then ManagedPartial
      else ManagedSucceeded)"

definition reason_from_cycle :: "run_summary list \<Rightarrow> string list \<Rightarrow> string option" where
  "reason_from_cycle summaries missing =
     (if missing \<noteq> [] then Some ''missing_enabled_adapters''
      else if summaries = [] then Some ''no_matching_adapters''
      else None)"

definition summary_promotion_keys :: "run_summary list \<Rightarrow> string list" where
  "summary_promotion_keys summaries = dict_fromkeys (map rs_adapter_key summaries)"

definition current_raw_refs :: "string list \<Rightarrow> run_summary list \<Rightarrow> string list" where
  "current_raw_refs keys summaries =
     dict_fromkeys (List.map_filter rs_raw_ref
       (filter (\<lambda>s. rs_adapter_key s \<in> set keys \<and> rs_status s \<in> {BatchSucceeded, BatchPartial}) summaries))"

section \<open>Promotion\<close>

definition transient_sqlstates :: "string list" where
  "transient_sqlstates = [''53300'', ''55P03'', ''57014'', ''57P01'', ''57P02'', ''57P03'']"

definition is_transient_link :: "exc_link \<Rightarrow> bool" where
  "is_transient_link l \<longleftrightarrow>
     (case el_sqlstate l of
        None \<Rightarrow> False
      | Some s \<Rightarrow> s \<in> set transient_sqlstates \<or> prefix ''08'' s \<or> prefix ''40'' s)
     \<or> (prefix ''psycopg'' (el_module l) \<and> el_name l \<in> {''InterfaceError'', ''OperationalError''})"

definition is_transient_promotion_error :: "managed_env \<Rightarrow> py_exc \<Rightarrow> bool" where
  "is_transient_promotion_error env e = list_ex is_transient_link (mg_exc_chain env e)"

definition promote_with_retry ::
  "managed_env \<Rightarrow> promotion_writer \<Rightarrow> promotion_request \<Rightarrow> (int \<times> string list) managed" where
  "promote_with_retry env w q =
     wcatch (promote_staging w q)
       (\<lambda>e. if is_transient_promotion_error env e then promote_staging w q else (\<lambda>st. (Inl e, st)))"

fun retire_all :: "promotion_writer \<Rightarrow> run_summary list \<Rightarrow> unit managed" where
  "retire_all w [] = wreturn ()"
| "retire_all w (s # ss) =
     wbind (retire_warning_latest w
         \<lparr> rt_adapter_key = rs_adapter_key s, rt_generation_started_at = rs_started_at s,
           rt_completed_at = rs_finished_at s \<rparr>)
       (\<lambda>_. retire_all w ss)"

section \<open>Pipeline statuses\<close>

definition active_snapshot_of :: "bool \<Rightarrow> bool \<Rightarrow> run_summary option \<Rightarrow> string option" where
  "active_snapshot_of succeeded finished summary =
     (case summary of
        None \<Rightarrow> None
      | Some s \<Rightarrow>
          if succeeded \<and> finished \<and> rs_status s \<in> {BatchSucceeded, BatchPartial}
             \<and> rs_snapshot_generation_mode s = Some CompleteReplace \<and> rs_snapshot_activation_eligible s
          then rs_raw_ref s else None)"

fun record_statuses ::
  "persistence_writers \<Rightarrow> (nat \<Rightarrow> int) \<Rightarrow> string list \<Rightarrow> run_summary list \<Rightarrow> bool \<Rightarrow> bool
    \<Rightarrow> string option \<Rightarrow> unit managed" where
  "record_statuses p checked_at [] summaries succeeded finished error = wreturn ()"
| "record_statuses p checked_at (key # keys) summaries succeeded finished error =
     (let summary = map_of (rev (map (\<lambda>s. (rs_adapter_key s, s)) summaries)) key
      in if succeeded \<and> (case summary of None \<Rightarrow> True | Some s \<Rightarrow> rs_status s = BatchFailed)
         then record_statuses p (\<lambda>n. checked_at (Suc n)) keys summaries succeeded finished error
         else wbind (on_ingest (record_pipeline_entry (audit_of (Some (ps_run p)))
                \<lparr> pe_adapter_keys = [key], pe_succeeded = succeeded, pe_complete = finished,
                  pe_run_at = (case summary of None \<Rightarrow> utc_at (checked_at 0) | Some s \<Rightarrow> rs_started_at s),
                  pe_active_snapshot_raw_ref = active_snapshot_of succeeded finished summary,
                  pe_error_code = error \<rparr>))
              (\<lambda>_. record_statuses p (\<lambda>n. checked_at (Suc n)) keys summaries succeeded finished error))"

definition record_source_catalog_unavailable_audit ::
  "run_writer option \<Rightarrow> string list \<Rightarrow> py_datetime \<Rightarrow> bool \<Rightarrow> unit managed" where
  "record_source_catalog_unavailable_audit w keys run_at write_selection =
     wcatch
       (wbind (write_runtime_selection_revision w keys write_selection)
         (\<lambda>_. on_ingest (record_pipeline_status (audit_of w) keys False False run_at)))
       (\<lambda>_. wreturn ())"

section \<open>The cycle\<close>

definition execute_scheduled_ingestion_cycle ::
  "text_library \<Rightarrow> managed_env \<Rightarrow> persistence_writers \<Rightarrow> managed_clock \<Rightarrow> (string \<times> source_adapter) list
    \<Rightarrow> string list \<Rightarrow> string list \<Rightarrow> (run_summary list \<times> freshness_check list) managed" where
  "execute_scheduled_ingestion_cycle lib env p clock adapters selected reported =
     wbind (on_ingest (run_enabled_adapter_batches lib (ingest_env_of p) (mc_batches clock)
         (mc_missing_checked_at clock) adapters (mg_enabled_keys env (Some selected)) (Some reported)
         False (Some (utc_at (mc_cycle_started_at clock)))))
       (\<lambda>summaries. wreturn (summaries, check_batch_freshness summaries
          (utc_at (mc_freshness_checked_at clock)) (mg_freshness_max_age_seconds env)))"

definition cycle_result ::
  "managed_status \<Rightarrow> string option \<Rightarrow> run_summary list \<times> freshness_check list \<Rightarrow> int \<times> string list \<Rightarrow> managed_result"
where
  "cycle_result status reason cycle promotion = (bare_result status reason)
     \<lparr> mr_summaries := fst cycle, mr_freshness_checks := snd cycle, mr_promoted := fst promotion,
       mr_evidence_ids := snd promotion \<rparr>"

definition failed_after ::
  "persistence_writers \<Rightarrow> managed_clock \<Rightarrow> string list \<Rightarrow> string \<Rightarrow> run_summary list \<times> freshness_check list
    \<Rightarrow> py_exc \<Rightarrow> managed_result managed" where
  "failed_after p clock keys reason cycle e =
     wbind (record_statuses p (mc_status_checked_at clock) keys (fst cycle) False False (Some (fst e)))
       (\<lambda>_. wreturn ((cycle_result ManagedFailed (Some reason) cycle (0, []))
          \<lparr> mr_error_code := Some (fst e), mr_error_message := Some (snd e) \<rparr>))"

definition promote_cycle ::
  "managed_env \<Rightarrow> managed_request \<Rightarrow> persistence_writers \<Rightarrow> managed_clock \<Rightarrow> promotion_writer \<Rightarrow> string list
    \<Rightarrow> managed_status \<Rightarrow> string option \<Rightarrow> run_summary list \<times> freshness_check list \<Rightarrow> managed_result managed"
where
  "promote_cycle env rq p clock w keys status reason cycle =
     (let quiet_runs = filter is_successful_no_active_warning_summary (fst cycle);
          refs = current_raw_refs keys (fst cycle);
          request = \<lparr> pq_limit = mq_promotion_limit rq, pq_adapter_keys = keys, pq_raw_refs = refs \<rparr>
      in wbind (wcatch (wbind (retire_all w quiet_runs) (\<lambda>_. wreturn None)) (\<lambda>e. wreturn (Some e)))
        (\<lambda>failure.
           case failure of
             Some e \<Rightarrow> failed_after p clock (map rs_adapter_key quiet_runs)
               ''no_active_event_retirement_failed'' cycle e
           | None \<Rightarrow>
               wbind (wcatch (wbind (if refs = [] then wreturn (0, []) else promote_with_retry env w request)
                    (\<lambda>r. wreturn (Inr r))) (\<lambda>e. wreturn (Inl e)))
                 (\<lambda>promotion.
                    case promotion of
                      Inl e \<Rightarrow> failed_after p clock keys ''promotion_failed'' cycle e
                    | Inr r \<Rightarrow>
                        wbind (record_statuses p (mc_status_checked_at clock) keys (fst cycle) True
                            (mq_promotion_limit rq = None) None)
                          (\<lambda>_. wreturn (cycle_result status reason cycle r)))))"

definition finish_cycle ::
  "managed_env \<Rightarrow> managed_request \<Rightarrow> persistence_writers \<Rightarrow> managed_clock \<Rightarrow> string list option
    \<Rightarrow> string list \<Rightarrow> run_summary list \<times> freshness_check list \<Rightarrow> managed_result managed" where
  "finish_cycle env rq p clock promotion_keys missing cycle =
     (let status = (if missing \<noteq> [] then ManagedFailed else status_from_cycle (fst cycle));
          reason = reason_from_cycle (fst cycle) missing;
          keys = (case promotion_keys of None \<Rightarrow> summary_promotion_keys (fst cycle) | Some ks \<Rightarrow> ks)
      in if mq_promote rq \<and> fst cycle \<noteq> []
         then if keys = [] then wreturn (cycle_result status reason cycle (0, []))
              else case ps_promotion p of
                     None \<Rightarrow> (\<lambda>st. (Inl (''RuntimeError'', ''promotion writer is required when promote=True''), st))
                   | Some w \<Rightarrow> promote_cycle env rq p clock w keys status reason cycle
         else wreturn (cycle_result status reason cycle (0, [])))"

definition run_persisted_cycle ::
  "text_library \<Rightarrow> managed_env \<Rightarrow> managed_request \<Rightarrow> managed_clock \<Rightarrow> persistence_writers \<Rightarrow> string list
    \<Rightarrow> string list \<Rightarrow> managed_result managed" where
  "run_persisted_cycle lib env rq clock p selected reported =
     (let fail_all = on_ingest (record_pipeline_status (audit_of (Some (ps_run p))) selected False False
            (utc_at (mc_cycle_started_at clock)))
      in wbind (write_runtime_selection_revision (Some (ps_run p)) reported
           (mq_write_runtime_selection_revision rq)) (\<lambda>_.
         case resolve_adapters env selected of
           Inl e \<Rightarrow> wbind fail_all (\<lambda>_ st. (Inl e, st))
         | Inr None \<Rightarrow> wbind fail_all (\<lambda>_. wreturn (bare_result ManagedSkipped (Some ''no_adapters'')))
         | Inr (Some adapters) \<Rightarrow>
             wbind (execute_scheduled_ingestion_cycle lib env p clock adapters selected reported)
               (finish_cycle env rq p clock
                 (map_option (filter (\<lambda>k. k \<in> set selected)) (mq_promotion_adapter_keys rq))
                 (filter (\<lambda>k. map_of adapters k = None) selected))))"

definition execute_managed_runtime_ingestion_cycle ::
  "text_library \<Rightarrow> managed_env \<Rightarrow> managed_request \<Rightarrow> managed_clock \<Rightarrow> managed_result managed" where
  "execute_managed_runtime_ingestion_cycle lib env rq clock =
     wbind (\<lambda>st. (mg_enabled_keys env None, st)) (\<lambda>enabled.
       let reported = (case mq_runtime_selection_adapter_keys rq of None \<Rightarrow> enabled | Some ks \<Rightarrow> ks);
           writer = resolve_runtime_status_writer env;
           revision = mq_write_runtime_selection_revision rq;
           skip = (\<lambda>reason. wbind (write_runtime_selection_revision writer reported revision)
             (\<lambda>_. wreturn (bare_result ManagedSkipped (Some reason))))
       in if enabled = [] then skip ''no_enabled_adapters''
          else case (case resolve_source_catalog_reader env of
                       None \<Rightarrow> Some enabled
                     | Some reader \<Rightarrow> filter_catalog_enabled_adapter_keys reader enabled) of
                 None \<Rightarrow>
                   wbind (record_source_catalog_unavailable_audit writer enabled
                       (utc_at (mc_cycle_started_at clock)) revision)
                     (\<lambda>_. wreturn ((bare_result ManagedFailed (Some ''source_catalog_unavailable''))
                        \<lparr> mr_error_code := Some ''source_catalog_unavailable'' \<rparr>))
               | Some selected \<Rightarrow>
                   if selected = [] then skip ''source_catalog_disabled''
                   else case resolve_persistence_writers env writer (mq_promote rq) of
                          None \<Rightarrow> skip ''no_database_url''
                        | Some p \<Rightarrow> run_persisted_cycle lib env rq clock p selected reported)"

section \<open>A cycle of one baseline source\<close>

definition invalid_v1_baseline_scope_result :: managed_result where
  "invalid_v1_baseline_scope_result = (bare_result ManagedFailed (Some ''invalid_v1_baseline_scope''))
     \<lparr> mr_error_code := Some ''invalid_v1_baseline_scope'' \<rparr>"

text \<open>\<open>configured\<close> is \<open>settings.enabled_adapter_keys\<close>.\<close>

definition v1_baseline_scope ::
  "managed_request \<Rightarrow> string list option \<Rightarrow> (string \<times> source_adapter) list \<Rightarrow> bool" where
  "v1_baseline_scope rq configured adapters \<longleftrightarrow>
     (case adapters of
        [(key, adapter)] \<Rightarrow>
          key \<in> set v1_baseline_adapter_keys \<and> configured = Some [key] \<and> sa_key adapter = key
          \<and> mq_promotion_adapter_keys rq \<in> {None, Some [key]}
          \<and> (case mq_runtime_selection_adapter_keys rq of
               None \<Rightarrow> True
             | Some ks \<Rightarrow> ks \<noteq> [] \<and> key \<in> set ks \<and> list_all (\<lambda>k. k \<in> set v1_baseline_adapter_keys) ks)
      | _ \<Rightarrow> False)"

definition run_v1_baseline_adapter_cycle ::
  "text_library \<Rightarrow> managed_env \<Rightarrow> managed_request \<Rightarrow> managed_clock \<Rightarrow> string list option
    \<Rightarrow> (string \<times> source_adapter) list \<Rightarrow> managed_result managed" where
  "run_v1_baseline_adapter_cycle lib env rq clock configured adapters =
     (if v1_baseline_scope rq configured adapters
      then execute_managed_runtime_ingestion_cycle lib (env\<lparr> mg_adapter_by_key := Some adapters \<rparr>) rq clock
      else wreturn invalid_v1_baseline_scope_result)"

end
