(* ===== verification/Baseline_Tick.thy ===== *)
theory Baseline_Tick
  imports Managed_Cycle Evidence_Retention
begin

text \<open>
  A tick of the baseline scheduler, \<open>_run_v1_baseline_tick\<close> of \<open>apps/workers/app/cli/runtime_cli.py\<close>: one
  managed cycle for every source that is configured, in scope, enabled in the catalog, due and built,
  and a recorded failure for every other one that should have run. The counts are those of the event
  that the tick logs at its end.
\<close>

section \<open>Environment\<close>

text \<open>
  \<open>tk_enabled_keys\<close> is \<open>enabled_adapter_keys(settings)\<close>; a source's environment is that of its narrowed
  settings, and its builder answers the adapters of these settings.
\<close>

record tick_env =
  tk_enabled_keys :: "py_exc + string list"
  tk_catalog :: "string list \<Rightarrow> string list option"
  tk_run_writer :: run_writer
  tk_due :: "string list option"
  tk_build :: "string \<Rightarrow> py_exc + (string \<times> source_adapter) list"
  tk_env :: "string \<Rightarrow> managed_env"
  tk_clock :: "string \<Rightarrow> managed_clock"
  tk_coverage :: "nat \<Rightarrow> string \<Rightarrow> string \<Rightarrow> py_datetime \<Rightarrow> py_exc option"

text \<open>Clock readings at a source: its failure before the cycles, its start, a failure of its cycle.\<close>

record tick_clock =
  tc_faulted :: "string \<Rightarrow> int"
  tc_source_started :: "string \<Rightarrow> int"
  tc_raised :: "string \<Rightarrow> int"

record tick_counts =
  ti_had_failure :: bool
  ti_completed :: nat
  ti_failed :: nat
  ti_gated_off :: nat

record tick_result = tick_counts +
  ti_configured :: nat
  ti_runnable :: nat

definition no_counts :: tick_counts where
  "no_counts = \<lparr> ti_had_failure = False, ti_completed = 0, ti_failed = 0, ti_gated_off = 0 \<rparr>"

definition one_failure :: "tick_counts \<Rightarrow> tick_counts" where
  "one_failure c = c\<lparr> ti_had_failure := True, ti_failed := Suc (ti_failed c) \<rparr>"

definition tick_result_of :: "nat \<Rightarrow> nat \<Rightarrow> tick_counts \<Rightarrow> tick_result" where
  "tick_result_of configured runnable c =
     \<lparr> ti_had_failure = ti_had_failure c, ti_completed = ti_completed c, ti_failed = ti_failed c,
       ti_gated_off = ti_gated_off c, ti_configured = configured, ti_runnable = runnable \<rparr>"

section \<open>Recording failures\<close>

definition record_v1_source_failure ::
  "run_writer \<Rightarrow> string \<Rightarrow> py_datetime \<Rightarrow> string option \<Rightarrow> unit managed" where
  "record_v1_source_failure w key run_at error =
     wcatch (on_ingest (record_pipeline_entry (audit_of (Some w))
         \<lparr> pe_adapter_keys = [key], pe_succeeded = False, pe_complete = False, pe_run_at = run_at,
           pe_active_snapshot_raw_ref = None, pe_error_code = error \<rparr>))
       (\<lambda>_. wreturn ())"

definition v1_source_failure_run_at ::
  "run_summary list \<Rightarrow> string \<Rightarrow> py_datetime \<Rightarrow> py_datetime outcome" where
  "v1_source_failure_run_at summaries key fallback =
     (case map rs_started_at (filter (\<lambda>s. rs_adapter_key s = key) summaries) of
        [] \<Rightarrow> Inr fallback
      | t # ts \<Rightarrow> max_datetime t ts)"

fun record_all_failures :: "run_writer \<Rightarrow> py_datetime \<Rightarrow> string \<Rightarrow> string list \<Rightarrow> unit managed" where
  "record_all_failures w run_at error [] = wreturn ()"
| "record_all_failures w run_at error (key # keys) =
     wbind (record_v1_source_failure w key run_at (Some error))
       (\<lambda>_. record_all_failures w run_at error keys)"

section \<open>Building the sources\<close>

text \<open>What is reported as selected, what can run, and the counts so far.\<close>

fun build_sources ::
  "tick_env \<Rightarrow> tick_clock \<Rightarrow> string list \<Rightarrow> string list \<Rightarrow> (string \<times> source_adapter) list \<Rightarrow> tick_counts
    \<Rightarrow> (string list \<times> (string \<times> source_adapter) list \<times> tick_counts) managed" where
  "build_sources env clock [] reported runnable c = wreturn (reported, runnable, c)"
| "build_sources env clock (key # keys) reported runnable c =
     (case tk_build env key of
        Inl e \<Rightarrow>
          wbind (record_v1_source_failure (tk_run_writer env) key (utc_at (tc_faulted clock key)) (Some (fst e)))
            (\<lambda>_. build_sources env clock keys (reported @ [key]) runnable (one_failure c))
      | Inr adapters \<Rightarrow>
          (case map_of adapters key of
             None \<Rightarrow> build_sources env clock keys reported runnable
               (c\<lparr> ti_gated_off := Suc (ti_gated_off c) \<rparr>)
           | Some adapter \<Rightarrow>
               build_sources env clock keys (reported @ [key]) (runnable @ [(key, adapter)]) c))"

section \<open>Running the sources\<close>

definition baseline_request :: "string \<Rightarrow> string list \<Rightarrow> managed_request" where
  "baseline_request key selection =
     \<lparr> mq_runtime_selection_adapter_keys = Some selection, mq_write_runtime_selection_revision = False,
       mq_promote = True, mq_promotion_limit = None, mq_promotion_adapter_keys = Some [key] \<rparr>"

definition pipeline_failed :: "managed_result \<Rightarrow> bool" where
  "pipeline_failed r \<longleftrightarrow>
     mr_error_code r \<noteq> None \<or> mr_reason r \<noteq> None
     \<or> list_ex (\<lambda>s. rs_status s = BatchFailed) (mr_summaries r)"

definition record_coverage :: "tick_env \<Rightarrow> string \<Rightarrow> string \<Rightarrow> py_datetime \<Rightarrow> unit managed" where
  "record_coverage env key ref at_time st =
     (case tk_coverage env (tried_effects st) key ref at_time of
        Some e \<Rightarrow> (Inl e, count_effect st)
      | None \<Rightarrow> (Inr (), count_effect st))"

definition complete_source :: "tick_counts \<Rightarrow> tick_counts" where
  "complete_source c = c\<lparr> ti_completed := Suc (ti_completed c) \<rparr>"

definition cover_source ::
  "tick_env \<Rightarrow> string \<Rightarrow> managed_result \<Rightarrow> tick_counts \<Rightarrow> tick_counts managed" where
  "cover_source env key r c =
     (case (if key \<in> set historical_coverage_adapter_keys
            then find (\<lambda>s. rs_adapter_key s = key \<and> rs_raw_ref s \<noteq> None) (mr_summaries r) else None) of
        None \<Rightarrow> wreturn (complete_source c)
      | Some s \<Rightarrow>
          wbind (wcatch (wbind (record_coverage env key (case rs_raw_ref s of None \<Rightarrow> [] | Some x \<Rightarrow> x)
                (rs_finished_at s)) (\<lambda>_. wreturn None)) (\<lambda>e. wreturn (Some e)))
            (\<lambda>failure.
               case failure of
                 None \<Rightarrow> wreturn (complete_source c)
               | Some e \<Rightarrow>
                   wbind (record_v1_source_failure (tk_run_writer env) key (rs_started_at s) (Some (fst e)))
                     (\<lambda>_. wreturn (one_failure c))))"

definition judge_source ::
  "tick_env \<Rightarrow> tick_clock \<Rightarrow> string \<Rightarrow> managed_result \<Rightarrow> tick_counts \<Rightarrow> tick_counts managed" where
  "judge_source env clock key r c =
     (if managed_failed r
      then if pipeline_failed r
           then wbind (\<lambda>st. (v1_source_failure_run_at (mr_summaries r) key
                    (utc_at (tc_source_started clock key)), st))
                  (\<lambda>run_at. wbind (record_v1_source_failure (tk_run_writer env) key run_at (mr_error_code r))
                  (\<lambda>_. wreturn (one_failure c)))
           else wreturn (one_failure c)
      else cover_source env key r c)"

fun run_sources ::
  "text_library \<Rightarrow> tick_env \<Rightarrow> tick_clock \<Rightarrow> string list \<Rightarrow> (string \<times> source_adapter) list \<Rightarrow> tick_counts
    \<Rightarrow> tick_counts managed" where
  "run_sources lib env clock selection [] c = wreturn c"
| "run_sources lib env clock selection ((key, adapter) # runnable) c =
     wbind (wcatch
         (wbind (run_v1_baseline_adapter_cycle lib (tk_env env key) (baseline_request key selection)
               (tk_clock env key) (Some [key]) [(key, adapter)])
           (\<lambda>r. wreturn (Inr r)))
         (\<lambda>e. wreturn (Inl e)))
       (\<lambda>cycle. wbind
         (case cycle of
            Inl e \<Rightarrow>
              wbind (record_v1_source_failure (tk_run_writer env) key (utc_at (tc_raised clock key)) (Some (fst e)))
                (\<lambda>_. wreturn (one_failure c))
          | Inr r \<Rightarrow> judge_source env clock key r c)
         (run_sources lib env clock selection runnable))"

section \<open>The tick\<close>

definition run_due_sources ::
  "text_library \<Rightarrow> tick_env \<Rightarrow> tick_clock \<Rightarrow> nat \<Rightarrow> string list \<Rightarrow> tick_result managed" where
  "run_due_sources lib env clock configured enabled =
     (let due = filter (\<lambda>k. case tk_due env of None \<Rightarrow> True | Some ks \<Rightarrow> k \<in> set ks) enabled;
          deferred = filter (\<lambda>k. k \<notin> set due) enabled
      in wbind (build_sources env clock due deferred []
             (no_counts\<lparr> ti_gated_off := configured - length enabled \<rparr>)) (\<lambda>built.
         let (reported, runnable, c) = built;
             selection = filter (\<lambda>k. k \<in> set reported) enabled
         in wbind (wcatch
              (wbind (on_ingest (record_runtime_selection (audit_of (Some (tk_run_writer env))) selection))
                (\<lambda>_. wreturn c))
              (\<lambda>_. wreturn (c\<lparr> ti_had_failure := True \<rparr>))) (\<lambda>c.
            wbind (run_sources lib env clock selection runnable c) (\<lambda>c.
              wreturn (tick_result_of configured (length runnable) c)))))"

definition run_v1_baseline_tick ::
  "text_library \<Rightarrow> tick_env \<Rightarrow> tick_clock \<Rightarrow> int \<Rightarrow> tick_result managed" where
  "run_v1_baseline_tick lib env clock catalog_failed_at =
     wbind (\<lambda>st. (tk_enabled_keys env, st)) (\<lambda>keys.
       let configured = filter (\<lambda>k. k \<in> set v1_baseline_adapter_keys) keys
       in if configured = [] then wreturn (tick_result_of 0 0 no_counts)
          else case filter_catalog_enabled_adapter_keys (tk_catalog env) configured of
                 None \<Rightarrow>
                   wbind (record_all_failures (tk_run_writer env) (utc_at catalog_failed_at)
                       ''SourceCatalogUnavailable'' configured)
                     (\<lambda>_. wreturn (tick_result_of (length configured) 0
                        (no_counts\<lparr> ti_had_failure := True, ti_failed := length configured \<rparr>)))
               | Some enabled \<Rightarrow> run_due_sources lib env clock (length configured) enabled)"

end
