(* ===== verification/Source_Ledger.thy ===== *)
theory Source_Ledger
  imports Batch_Ingestion Runtime_Queue
begin

text \<open>
  The ledger of the data sources, \<open>apps/workers/app/pipelines/ingestion_runs.py\<close>: what a worker records
  of a run, of the selection of sources and of the pipeline behind a source, with the tables and their
  constraints. An operation is one transaction: it raises and leaves the tables, or commits. Instants
  are microseconds. Connections, advisory locks, the parameters of a job and the times of the last
  update are not modelled, and a violated constraint is one exception, whatever class the driver gives it.
\<close>

section \<open>Tables\<close>

datatype ledger_health = LedgerHealthy | LedgerDegraded | LedgerFailed | LedgerDisabled | LedgerUnknown

text \<open>A row of \<open>data_sources\<close>; the active snapshot is a key of its metadata.\<close>

record source_entry =
  se_adapter_key :: string
  se_last_success_at :: "int option"
  se_last_failure_at :: "int option"
  se_health_status :: ledger_health
  se_source_timestamp_min :: "int option"
  se_source_timestamp_max :: "int option"
  se_runtime_enabled :: "bool option"
  se_runtime_enabled_checked_at :: "int option"
  se_pipeline_succeeded :: "bool option"
  se_pipeline_checked_at :: "int option"
  se_pipeline_complete :: bool
  se_pipeline_run_at :: "int option"
  se_pipeline_error_code :: "string option"
  se_active_snapshot_raw_ref :: "string option"

text \<open>A row of \<open>ingestion_jobs\<close>.\<close>

record job_entry =
  ij_id :: nat
  ij_adapter_key :: "string option"
  ij_started_at :: "int option"
  ij_finished_at :: "int option"
  ij_status :: batch_status
  ij_items_fetched :: int
  ij_items_promoted :: int
  ij_items_rejected :: int
  ij_error_code :: "string option"
  ij_error_message :: "string option"
  ij_source_timestamp_min :: "int option"
  ij_source_timestamp_max :: "int option"
  ij_created_at :: int

text \<open>A row of \<open>adapter_runs\<close>, whose metrics are the last two.\<close>

record run_entry =
  ae_job_id :: nat
  ae_adapter_key :: string
  ae_status :: batch_status
  ae_raw_ref :: "string option"
  ae_no_active_event :: bool
  ae_station_inventory_proof :: "station_inventory_proof option"

record inventory_entry =
  iv_job_id :: nat
  iv_adapter_key :: string
  iv_captured_at :: int
  iv_proof :: station_inventory_proof

record ledger =
  lg_sources :: "source_entry list"
  lg_jobs :: "job_entry list"
  lg_runs :: "run_entry list"
  lg_inventories :: "inventory_entry list"

definition row_rejected :: py_exc where
  "row_rejected = (''IntegrityError'', ''row violates a constraint'')"

section \<open>A run summary\<close>

definition job_status_of :: "run_summary \<Rightarrow> batch_status" where
  "job_status_of s = (if rs_status s = BatchPartial then BatchSucceeded else rs_status s)"

definition adapter_run_status :: "run_summary \<Rightarrow> batch_status outcome" where
  "adapter_run_status s =
     (if rs_status s = BatchSkipped
      then Inl (value_error ''skipped summaries do not create adapter_runs'') else Inr (rs_status s))"

definition items_admitted :: "run_summary \<Rightarrow> bool" where
  "items_admitted s \<longleftrightarrow>
     int4 (rs_items_fetched s) \<and> int4 (rs_items_promoted s) \<and> int4 (rs_items_rejected s)
     \<and> 0 \<le> rs_items_fetched s \<and> 0 \<le> rs_items_promoted s \<and> 0 \<le> rs_items_rejected s
     \<and> normalized_utc (rs_started_at s) \<le> normalized_utc (rs_finished_at s)"

definition insert_ingestion_job :: "int \<Rightarrow> nat \<Rightarrow> run_summary \<Rightarrow> ledger \<Rightarrow> ledger outcome" where
  "insert_ingestion_job now job_id s lg =
     (if \<not> items_admitted s then Inl row_rejected
      else Inr (lg\<lparr> lg_jobs := lg_jobs lg @
             [\<lparr> ij_id = job_id, ij_adapter_key = Some (rs_adapter_key s),
                ij_started_at = Some (normalized_utc (rs_started_at s)),
                ij_finished_at = Some (normalized_utc (rs_finished_at s)), ij_status = job_status_of s,
                ij_items_fetched = rs_items_fetched s, ij_items_promoted = rs_items_promoted s,
                ij_items_rejected = rs_items_rejected s, ij_error_code = rs_error_code s,
                ij_error_message = rs_error_message s,
                ij_source_timestamp_min = map_option normalized_utc (rs_source_timestamp_min s),
                ij_source_timestamp_max = map_option normalized_utc (rs_source_timestamp_max s),
                ij_created_at = now \<rparr>] \<rparr>))"

definition insert_adapter_run :: "nat \<Rightarrow> run_summary \<Rightarrow> ledger \<Rightarrow> ledger outcome" where
  "insert_adapter_run job_id s lg =
     (if rs_status s = BatchSkipped then Inr lg
      else obind (adapter_run_status s) (\<lambda>status.
        if \<not> items_admitted s then Inl row_rejected
        else Inr (lg\<lparr> lg_runs := lg_runs lg @
               [\<lparr> ae_job_id = job_id, ae_adapter_key = rs_adapter_key s, ae_status = status,
                  ae_raw_ref = rs_raw_ref s,
                  ae_no_active_event = (rs_error_code s = Some ''no_active_event''),
                  ae_station_inventory_proof = rs_station_inventory_proof s \<rparr>] \<rparr>)))"

definition inventory_admitted :: "station_inventory_proof \<Rightarrow> bool" where
  "inventory_admitted p \<longleftrightarrow>
     (case sp_upstream_total p of None \<Rightarrow> True | Some n \<Rightarrow> 0 \<le> n \<and> int4 n)
     \<and> list_all (\<lambda>n. 0 \<le> n \<and> int4 n)
          [sp_pages_fetched p, sp_source_items_seen p, int (length (sp_station_ids p)),
           sp_missing_station_id_count p, sp_duplicate_station_id_count p]
     \<and> (inventory_complete p \<longrightarrow>
          (case sp_upstream_total p of
             None \<Rightarrow> False
           | Some n \<Rightarrow> 0 < sp_pages_fetched p \<and> sp_pagination_complete p \<and> sp_source_items_seen p = n
               \<and> int (length (sp_station_ids p)) = n \<and> sp_missing_station_id_count p = 0
               \<and> sp_duplicate_station_id_count p = 0))"

definition insert_station_inventory_snapshot :: "nat \<Rightarrow> run_summary \<Rightarrow> ledger \<Rightarrow> ledger outcome" where
  "insert_station_inventory_snapshot job_id s lg =
     (case rs_station_inventory_proof s of
        None \<Rightarrow> Inr lg
      | Some p \<Rightarrow>
          if \<not> inventory_admitted p then Inl row_rejected
          else Inr (lg\<lparr> lg_inventories := lg_inventories lg @
                 [\<lparr> iv_job_id = job_id, iv_adapter_key = rs_adapter_key s,
                    iv_captured_at = normalized_utc (rs_finished_at s), iv_proof = p \<rparr>] \<rparr>))"

text \<open>\<open>EXISTS\<close> a job of the adapter that started, or else was created, after an instant.\<close>

definition newer_job :: "job_entry list \<Rightarrow> string \<Rightarrow> int \<Rightarrow> bool" where
  "newer_job jobs key t \<longleftrightarrow>
     list_ex (\<lambda>j. ij_adapter_key j = Some key
        \<and> t < (case ij_started_at j of Some s \<Rightarrow> s | None \<Rightarrow> ij_created_at j)) jobs"

fun health_of_run :: "batch_status \<Rightarrow> ledger_health" where
  "health_of_run BatchSucceeded = LedgerHealthy"
| "health_of_run BatchPartial = LedgerDegraded"
| "health_of_run BatchFailed = LedgerFailed"
| "health_of_run BatchSkipped = LedgerUnknown"

definition source_health_after :: "run_summary \<Rightarrow> source_entry \<Rightarrow> source_entry" where
  "source_health_after s e =
     (let finished = normalized_utc (rs_finished_at s); failed = rs_status s = BatchFailed
      in e\<lparr> se_last_success_at :=
              (if rs_status s \<in> {BatchSucceeded, BatchPartial} then Some finished else se_last_success_at e),
            se_last_failure_at := (if failed then Some finished else se_last_failure_at e),
            se_health_status := health_of_run (rs_status s),
            se_pipeline_succeeded := (if failed then Some False else se_pipeline_succeeded e),
            se_pipeline_checked_at := (if failed then Some finished else se_pipeline_checked_at e),
            se_pipeline_complete := (if failed then False else se_pipeline_complete e),
            se_pipeline_run_at :=
              (if failed then Some (normalized_utc (rs_started_at s)) else se_pipeline_run_at e),
            se_source_timestamp_min :=
              (case rs_source_timestamp_min s of
                 Some t \<Rightarrow> Some (normalized_utc t) | None \<Rightarrow> se_source_timestamp_min e),
            se_source_timestamp_max :=
              (case rs_source_timestamp_max s of
                 Some t \<Rightarrow> Some (normalized_utc t) | None \<Rightarrow> se_source_timestamp_max e) \<rparr>)"

definition update_data_source_health :: "run_summary \<Rightarrow> ledger \<Rightarrow> ledger" where
  "update_data_source_health s lg =
     lg\<lparr> lg_sources := map (\<lambda>e.
           if se_adapter_key e = rs_adapter_key s
              \<and> \<not> newer_job (lg_jobs lg) (se_adapter_key e) (normalized_utc (rs_started_at s))
           then source_health_after s e else e) (lg_sources lg) \<rparr>"

definition ledger_write_summary :: "int \<Rightarrow> nat \<Rightarrow> run_summary \<Rightarrow> ledger \<Rightarrow> ledger outcome" where
  "ledger_write_summary now job_id s lg =
     obind (insert_ingestion_job now job_id s lg) (\<lambda>lg.
     obind (insert_adapter_run job_id s lg) (\<lambda>lg.
     obind (insert_station_inventory_snapshot job_id s lg) (\<lambda>lg.
       Inr (update_data_source_health s lg))))"

section \<open>The selection of sources\<close>

definition ledger_write_runtime_selection ::
  "int \<Rightarrow> string list \<Rightarrow> string list \<Rightarrow> ledger \<Rightarrow> ledger outcome" where
  "ledger_write_runtime_selection checked_at enabled known lg =
     (if known = [] then Inr lg
      else Inr (lg\<lparr> lg_sources := map (\<lambda>e.
             if se_adapter_key e \<in> set known
             then e\<lparr> se_runtime_enabled := Some (se_adapter_key e \<in> set enabled),
                     se_runtime_enabled_checked_at := Some checked_at \<rparr>
             else e) (lg_sources lg) \<rparr>))"

section \<open>The status of a pipeline\<close>

definition raw_ref_admitted :: "string \<Rightarrow> bool" where
  "raw_ref_admitted r \<longleftrightarrow> r \<noteq> [] \<and> r = strip_str r \<and> length r \<le> 256"

definition status_checks :: "pipeline_entry \<Rightarrow> (bool \<times> string) list" where
  "status_checks p =
     (case pe_active_snapshot_raw_ref p of
        None \<Rightarrow> []
      | Some r \<Rightarrow>
          [(raw_ref_admitted r, ''active snapshot raw ref must be a trimmed 1..256 value''),
           (pe_succeeded p \<and> pe_complete p,
            ''active snapshot requires a succeeded complete pipeline status'')])"

definition status_applies :: "pipeline_entry \<Rightarrow> job_entry list \<Rightarrow> source_entry \<Rightarrow> bool" where
  "status_applies p jobs e \<longleftrightarrow>
     se_adapter_key e \<in> set (pe_adapter_keys p)
     \<and> (case se_pipeline_run_at e of None \<Rightarrow> True | Some t \<Rightarrow> t \<le> normalized_utc (pe_run_at p))
     \<and> \<not> newer_job jobs (se_adapter_key e) (normalized_utc (pe_run_at p))"

definition with_status :: "int \<Rightarrow> pipeline_entry \<Rightarrow> source_entry \<Rightarrow> source_entry" where
  "with_status checked_at p e =
     e\<lparr> se_pipeline_succeeded := Some (pe_succeeded p), se_pipeline_checked_at := Some checked_at,
        se_pipeline_complete := pe_complete p,
        se_pipeline_run_at := Some (normalized_utc (pe_run_at p)),
        se_pipeline_error_code := (if pe_succeeded p then None else pe_error_code p),
        se_active_snapshot_raw_ref :=
          (case pe_active_snapshot_raw_ref p of None \<Rightarrow> se_active_snapshot_raw_ref e | Some r \<Rightarrow> Some r) \<rparr>"

definition ledger_write_pipeline_status :: "int \<Rightarrow> pipeline_entry \<Rightarrow> ledger \<Rightarrow> ledger outcome" where
  "ledger_write_pipeline_status checked_at p lg =
     (if pe_adapter_keys p = [] then Inr lg
      else case find (\<lambda>(ok, _). \<not> ok) (status_checks p) of
             Some (_, message) \<Rightarrow> Inl (value_error message)
           | None \<Rightarrow>
               Inr (lg\<lparr> lg_sources := map (\<lambda>e. if status_applies p (lg_jobs lg) e
                      then with_status checked_at p e else e) (lg_sources lg) \<rparr>))"

section \<open>Executions\<close>

datatype ledger_op =
  WriteSummary int nat run_summary | WriteSelection int "string list" "string list"
| WriteStatus int pipeline_entry

fun ledger_apply :: "ledger_op \<Rightarrow> ledger \<Rightarrow> ledger outcome" where
  "ledger_apply (WriteSummary now i s) lg = ledger_write_summary now i s lg"
| "ledger_apply (WriteSelection t enabled known) lg = ledger_write_runtime_selection t enabled known lg"
| "ledger_apply (WriteStatus t p) lg = ledger_write_pipeline_status t p lg"

text \<open>A transaction that raises leaves the tables as they were.\<close>

definition ledger_step :: "ledger \<Rightarrow> ledger_op \<Rightarrow> ledger" where
  "ledger_step lg op = (case ledger_apply op lg of Inl _ \<Rightarrow> lg | Inr lg' \<Rightarrow> lg')"

definition ledger_run :: "ledger_op list \<Rightarrow> ledger \<Rightarrow> ledger" where
  "ledger_run ops lg = foldl ledger_step lg ops"

end
