(* ===== verification/Ledger_Generations.thy ===== *)
theory Ledger_Generations
  imports Source_Ledger
begin

text \<open>
  Which run the ledger of \<^verbatim>\<open>Source_Ledger\<close> speaks of when runs overlap and their records come in any
  order: the health of a source, the status of its pipeline, and the active snapshot.
\<close>


section \<open>Steps\<close>

lemma ledger_run_simps [simp]:
  "ledger_run [] lg = lg"
  "ledger_run (op # ops) lg = ledger_run ops (ledger_step lg op)"
  "ledger_run (ops @ ops') lg = ledger_run ops' (ledger_run ops lg)"
  by (simp_all add: ledger_run_def)

lemma newer_job_simps [simp]:
  "newer_job [] k t \<longleftrightarrow> False"
  "newer_job (j # js) k t \<longleftrightarrow> (ij_adapter_key j = Some k
     \<and> t < (case ij_started_at j of Some s \<Rightarrow> s | None \<Rightarrow> ij_created_at j)) \<or> newer_job js k t"
  "newer_job (js @ ks) k t \<longleftrightarrow> newer_job js k t \<or> newer_job ks k t"
  by (simp_all add: newer_job_def)

text \<open>What a committed_runs summary does to the jobs and to the sources.\<close>

definition summary_start :: "run_summary \<Rightarrow> int" where
  "summary_start s = normalized_utc (rs_started_at s)"

lemma ledger_write_summary_Inr:
  assumes "ledger_write_summary now i s lg = Inr lg'"
  shows "(\<exists>j. lg_jobs lg' = lg_jobs lg @ [j] \<and> ij_adapter_key j = Some (rs_adapter_key s)
      \<and> ij_started_at j = Some (summary_start s))
    \<and> lg_sources lg' = map (\<lambda>e. if se_adapter_key e = rs_adapter_key s
           \<and> \<not> newer_job (lg_jobs lg) (se_adapter_key e) (summary_start s)
         then source_health_after s e else e) (lg_sources lg)"
  using assms
  by (auto simp: ledger_write_summary_def obind_Inr_iff insert_ingestion_job_def insert_adapter_run_def
      insert_station_inventory_snapshot_def update_data_source_health_def summary_start_def
      split: if_splits option.splits)

lemma ledger_step_cases:
  obtains (same) "ledger_step lg op = lg"
  | (summary) now i s where "op = WriteSummary now i s" "ledger_write_summary now i s lg = Inr (ledger_step lg op)"
  | (selection) t enabled known where "op = WriteSelection t enabled known" "lg_jobs (ledger_step lg op) = lg_jobs lg"
      "lg_sources (ledger_step lg op) = map (\<lambda>e. if se_adapter_key e \<in> set known
         then e\<lparr> se_runtime_enabled := Some (se_adapter_key e \<in> set enabled),
                 se_runtime_enabled_checked_at := Some t \<rparr> else e) (lg_sources lg)"
  | (status) t p where "op = WriteStatus t p" "list_all fst (status_checks p)"
      "lg_jobs (ledger_step lg op) = lg_jobs lg"
      "lg_sources (ledger_step lg op) = map (\<lambda>e. if status_applies p (lg_jobs lg) e
         then with_status t p e else e) (lg_sources lg)"
proof (cases op)
  case (WriteSummary now i s)
  then show thesis using same summary by (cases "ledger_write_summary now i s lg") (auto simp: ledger_step_def)
next
  case (WriteSelection t enabled known)
  then show thesis using same selection
    by (cases "known = []") (auto simp: ledger_step_def ledger_write_runtime_selection_def)
next
  case (WriteStatus t p)
  show thesis
  proof (cases "pe_adapter_keys p = [] \<or> \<not> list_all fst (status_checks p)")
    case True
    then have "pe_adapter_keys p = [] \<or> (\<exists>c. find (\<lambda>(ok, _). \<not> ok) (status_checks p) = Some c)"
      using find_None_iff [of "\<lambda>(ok, _). \<not> ok" "status_checks p"] by (auto simp: list_all_iff)
    then have "ledger_step lg op = lg"
      using WriteStatus by (auto simp: ledger_step_def ledger_write_pipeline_status_def)
    then show thesis by (rule same)
  next
    case False
    then have "find (\<lambda>(ok, _). \<not> ok) (status_checks p) = None"
      by (auto simp: find_None_iff list_all_iff)
    with False show thesis using status [OF WriteStatus] WriteStatus
      by (simp add: ledger_step_def ledger_write_pipeline_status_def)
  qed
qed

lemma jobs_kept: "\<exists>js. lg_jobs (ledger_step lg op) = lg_jobs lg @ js"
  by (cases rule: ledger_step_cases [of lg op]) (auto dest: ledger_write_summary_Inr)

lemma newer_job_kept: "newer_job (lg_jobs lg) k t \<Longrightarrow> newer_job (lg_jobs (ledger_step lg op)) k t"
  using jobs_kept [of lg op] by auto

lemma with_status_simps [simp]:
  "se_adapter_key (with_status t p e) = se_adapter_key e"
  "se_health_status (with_status t p e) = se_health_status e"
  by (simp_all add: with_status_def)

lemma source_health_after_simps [simp]:
  "se_adapter_key (source_health_after s e) = se_adapter_key e"
  "se_health_status (source_health_after s e) = health_of_run (rs_status s)"
  by (simp_all add: source_health_after_def Let_def)

section \<open>A failed batch\<close>

definition all_failed :: "string \<Rightarrow> ledger \<Rightarrow> bool" where
  "all_failed k lg \<longleftrightarrow> list_all (\<lambda>e. se_adapter_key e = k \<longrightarrow>
     se_pipeline_succeeded e = Some False \<and> \<not> se_pipeline_complete e) (lg_sources lg)"

lemma all_failed_step:
  assumes "all_failed k lg" and "newer_job (lg_jobs lg) k t"
    and "case op of WriteStatus _ p \<Rightarrow> normalized_utc (pe_run_at p) \<le> t | _ \<Rightarrow> True"
  shows "all_failed k (ledger_step lg op)"
proof (cases rule: ledger_step_cases [of lg op])
  case (summary now i s)
  from ledger_write_summary_Inr [OF summary(2)] assms(1) show ?thesis
    by (auto simp: all_failed_def list_all_iff source_health_after_def Let_def split: if_splits)
next
  case (status u p)
  have "newer_job (lg_jobs lg) k (normalized_utc (pe_run_at p))"
    using assms(2,3) status(1) by (auto simp: newer_job_def list_ex_iff intro: order_le_less_trans)
  with status(4) assms(1) show ?thesis
    by (auto simp: all_failed_def list_all_iff status_applies_def)
qed (use assms(1) in \<open>auto simp: all_failed_def list_all_iff\<close>)

text \<open>
  A failed batch.
\<close>

theorem failed_batch_outlives_older_runs:
  assumes batch: "ledger_write_summary now i s lg = Inr lg'" "rs_status s = BatchFailed"
    and last: "\<not> newer_job (lg_jobs lg) (rs_adapter_key s) (summary_start s)"
    and older: "list_all (\<lambda>op. case op of
        WriteStatus _ p \<Rightarrow> normalized_utc (pe_run_at p) < summary_start s | _ \<Rightarrow> True) ops"
  shows "list_all (\<lambda>e. se_adapter_key e = rs_adapter_key s \<longrightarrow>
      se_pipeline_succeeded e = Some False \<and> \<not> se_pipeline_complete e) (lg_sources (ledger_run ops lg'))"
proof -
  note w = ledger_write_summary_Inr [OF batch(1)]
  have "all_failed (rs_adapter_key s) lg'"
    using w batch(2) last by (auto simp: all_failed_def list_all_iff source_health_after_def Let_def)
  moreover have "newer_job (lg_jobs lg') (rs_adapter_key s) (summary_start s - 1)"
    using w by (auto simp: newer_job_def)
  ultimately have "all_failed (rs_adapter_key s) (ledger_run ops lg')" using older
  proof (induction ops arbitrary: lg')
    case (Cons op ops)
    have "case op of WriteStatus _ p \<Rightarrow> normalized_utc (pe_run_at p) \<le> summary_start s - 1 | _ \<Rightarrow> True"
      using Cons.prems(3) by (cases op) auto
    from Cons.IH [OF all_failed_step [OF Cons.prems(1,2) this] newer_job_kept [OF Cons.prems(2)]] Cons.prems(3)
    show ?case by simp
  qed simp
  then show ?thesis by (simp add: all_failed_def)
qed

section \<open>The health of a source\<close>

fun committed_runs :: "ledger_op list \<Rightarrow> ledger \<Rightarrow> run_summary list" where
  "committed_runs [] lg = []"
| "committed_runs (op # ops) lg =
     (case (op, ledger_apply op lg) of
        (WriteSummary _ _ s, Inr _) \<Rightarrow> [s]
      | _ \<Rightarrow> []) @ committed_runs ops (ledger_step lg op)"

definition newest_run :: "run_summary list \<Rightarrow> run_summary option" where
  "newest_run ss = fold (\<lambda>s best. case best of
       None \<Rightarrow> Some s
     | Some b \<Rightarrow> Some (if summary_start b \<le> summary_start s then s else b)) ss None"

lemma newest_snoc:
  "newest_run (ss @ [s]) = (case newest_run ss of None \<Rightarrow> Some s | Some b \<Rightarrow> Some (if summary_start b \<le> summary_start s then s else b))"
  by (simp add: newest_run_def)

lemma newest_Nil [simp]: "newest_run [] = None"
  by (simp add: newest_run_def)

lemma newest_None [simp]: "newest_run ss = None \<longleftrightarrow> ss = []"
  by (cases ss rule: rev_cases) (auto simp: newest_snoc newest_run_def split: option.splits)

lemma newest_max: "newest_run ss = Some b \<Longrightarrow> b \<in> set ss \<and> (\<forall>s \<in> set ss. summary_start s \<le> summary_start b)"
  by (induction ss arbitrary: b rule: rev_induct)
    (force simp: newest_snoc split: option.splits if_splits)+

definition runs_of :: "string \<Rightarrow> run_summary list \<Rightarrow> run_summary list" where
  "runs_of k ss = filter (\<lambda>s. rs_adapter_key s = k) ss"

text \<open>A history: the jobs are those of the committed summaries, and the health is that of the newest.\<close>

definition health_follows :: "run_summary list \<Rightarrow> ledger \<Rightarrow> bool" where
  "health_follows ss lg \<longleftrightarrow>
     (\<forall>k t. newer_job (lg_jobs lg) k t \<longleftrightarrow> (\<exists>s \<in> set (runs_of k ss). t < summary_start s))
     \<and> list_all (\<lambda>e. case newest_run (runs_of (se_adapter_key e) ss) of
          None \<Rightarrow> True | Some s \<Rightarrow> se_health_status e = health_of_run (rs_status s)) (lg_sources lg)"

lemma runs_of_append [simp]: "runs_of k (ss @ ss') = runs_of k ss @ runs_of k ss'"
  by (simp add: runs_of_def)

lemma health_follows_summary:
  assumes "health_follows ss lg" and "ledger_write_summary now i s lg = Inr lg'"
  shows "health_follows (ss @ [s]) lg'"
proof -
  note w = ledger_write_summary_Inr [OF assms(2)]
  have "newer_job (lg_jobs lg') k t \<longleftrightarrow> (\<exists>s' \<in> set (runs_of k (ss @ [s])). t < summary_start s')" for k t
    using w assms(1) by (auto simp: health_follows_def newer_job_def runs_of_def)
  moreover have "case newest_run (runs_of (se_adapter_key e) (ss @ [s])) of
      None \<Rightarrow> True | Some s' \<Rightarrow> se_health_status e = health_of_run (rs_status s')"
    if e: "e \<in> set (lg_sources lg')" for e
  proof -
    let ?f = "\<lambda>d. if se_adapter_key d = rs_adapter_key s
        \<and> \<not> newer_job (lg_jobs lg) (se_adapter_key d) (summary_start s)
      then source_health_after s d else d"
    from w have "lg_sources lg' = map ?f (lg_sources lg)" by blast
    with e obtain d where d: "d \<in> set (lg_sources lg)" "e = ?f d" by (simp only: list.set_map) blast
    have key: "se_adapter_key e = se_adapter_key d" by (simp add: d(2) source_health_after_def Let_def)
    let ?b = "newest_run (runs_of (se_adapter_key d) ss)"
    have old: "case ?b of None \<Rightarrow> True | Some s' \<Rightarrow> se_health_status d = health_of_run (rs_status s')"
      and newer: "newer_job (lg_jobs lg) (se_adapter_key d) (summary_start s) \<longleftrightarrow>
        (\<exists>s' \<in> set (runs_of (se_adapter_key d) ss). summary_start s < summary_start s')"
      using assms(1) d(1) by (auto simp: health_follows_def list_all_iff)
    show ?thesis
    proof (cases "rs_adapter_key s = se_adapter_key d")
      case False
      then have "e = d" "runs_of (se_adapter_key d) (ss @ [s]) = runs_of (se_adapter_key d) ss"
        using d(2) by (auto simp: runs_of_def)
      then show ?thesis using old by (simp only:)
    next
      case True
      have r: "runs_of (se_adapter_key d) (ss @ [s]) = runs_of (se_adapter_key d) ss @ [s]"
        by (simp add: runs_of_def True)
      show ?thesis unfolding key r newest_snoc
      proof (cases ?b)
        case None
        then have "\<not> newer_job (lg_jobs lg) (se_adapter_key d) (summary_start s)" using newer by simp
        then show "case case ?b of None \<Rightarrow> Some s | Some b \<Rightarrow> Some (if summary_start b \<le> summary_start s then s else b) of
            None \<Rightarrow> True | Some s' \<Rightarrow> se_health_status e = health_of_run (rs_status s')"
          using None True d(2) by simp
      next
        case (Some b)
        from newest_max [OF Some] newer have "newer_job (lg_jobs lg) (se_adapter_key d) (summary_start s) \<longleftrightarrow> summary_start s < summary_start b"
          by (auto intro: order_less_le_trans)
        then show "case case ?b of None \<Rightarrow> Some s | Some b \<Rightarrow> Some (if summary_start b \<le> summary_start s then s else b) of
            None \<Rightarrow> True | Some s' \<Rightarrow> se_health_status e = health_of_run (rs_status s')"
          using Some True d(2) old by auto
      qed
    qed
  qed
  ultimately show ?thesis by (simp add: health_follows_def list_all_iff)
qed

lemma health_follows_step:
  assumes "health_follows ss lg"
  shows "health_follows (ss @ committed_runs [op] lg) (ledger_step lg op)"
proof (cases rule: ledger_step_cases [of lg op])
  case (summary now i s)
  then have "committed_runs [op] lg = [s]" by simp
  with health_follows_summary [OF assms summary(2)] show ?thesis by simp
next
  case same
  show ?thesis
  proof (cases "committed_runs [op] lg")
    case (Cons s l)
    then obtain now i lg' where "op = WriteSummary now i s" "l = []" "ledger_write_summary now i s lg = Inr lg'"
      by (auto split: ledger_op.splits sum.splits)
    with health_follows_summary [OF assms] Cons show ?thesis by (simp add: ledger_step_def)
  qed (use assms same in simp)
qed (use assms in \<open>auto simp: health_follows_def list_all_iff with_status_def split: option.splits\<close>)

text \<open>
  Health.
\<close>

theorem health_is_that_of_the_newest_run:
  assumes fresh: "lg_jobs lg = []" and e: "e \<in> set (lg_sources (ledger_run ops lg))"
    and s: "newest_run (runs_of (se_adapter_key e) (committed_runs ops lg)) = Some s"
  shows "se_health_status e = health_of_run (rs_status s)"
proof -
  have "health_follows [] lg" using fresh by (simp add: health_follows_def newer_job_def runs_of_def newest_run_def list_all_iff)
  moreover have "health_follows ss lg \<Longrightarrow> health_follows (ss @ committed_runs ops lg) (ledger_run ops lg)" for ss lg
  proof (induction ops arbitrary: ss lg)
    case (Cons op ops)
    have "committed_runs (op # ops) lg = committed_runs [op] lg @ committed_runs ops (ledger_step lg op)" by simp
    with Cons.IH [OF health_follows_step [OF Cons.prems], of op] show ?case by simp
  qed simp
  ultimately have "health_follows (committed_runs ops lg) (ledger_run ops lg)" by fastforce
  with e s show ?thesis by (auto simp: health_follows_def list_all_iff)
qed

section \<open>The status of a pipeline\<close>

definition pipeline_view :: "source_entry \<Rightarrow> bool option \<times> bool \<times> int option \<times> string option" where
  "pipeline_view e = (se_pipeline_succeeded e, se_pipeline_complete e, se_pipeline_run_at e, se_pipeline_error_code e)"

definition view_of_status :: "pipeline_entry \<Rightarrow> bool option \<times> bool \<times> int option \<times> string option" where
  "view_of_status p = (Some (pe_succeeded p), pe_complete p, Some (normalized_utc (pe_run_at p)),
     if pe_succeeded p then None else pe_error_code p)"

definition status_time :: "pipeline_entry \<Rightarrow> int" where
  "status_time p = normalized_utc (pe_run_at p)"

text \<open>The statuses that count for a row: well formed, about it, and as new as its jobs and its last status.\<close>

definition counts_for :: "job_entry list \<Rightarrow> source_entry \<Rightarrow> pipeline_entry \<Rightarrow> bool" where
  "counts_for jobs e p \<longleftrightarrow> list_all fst (status_checks p) \<and> status_applies p jobs e"

definition row_after :: "job_entry list \<Rightarrow> (int \<times> pipeline_entry) list \<Rightarrow> source_entry \<Rightarrow> source_entry" where
  "row_after jobs ps e = foldl (\<lambda>e (t, p). if counts_for jobs e p then with_status t p e else e) e ps"

lemma pipeline_view_with_status [simp]: "pipeline_view (with_status t p e) = view_of_status p"
  by (simp add: pipeline_view_def with_status_def view_of_status_def)

lemma statuses_run:
  "lg_jobs (ledger_run (map (case_prod WriteStatus) ps) lg) = lg_jobs lg
   \<and> lg_sources (ledger_run (map (case_prod WriteStatus) ps) lg) = map (row_after (lg_jobs lg) ps) (lg_sources lg)"
proof (induction ps arbitrary: lg)
  case (Cons x ps)
  obtain t p where x: "x = (t, p)" by (cases x)
  have "lg_jobs (ledger_step lg (WriteStatus t p)) = lg_jobs lg
    \<and> lg_sources (ledger_step lg (WriteStatus t p)) =
        map (\<lambda>e. if counts_for (lg_jobs lg) e p then with_status t p e else e) (lg_sources lg)"
  proof (cases "list_all fst (status_checks p)")
    case True
    then have "find (\<lambda>(ok, _). \<not> ok) (status_checks p) = None"
      by (auto simp: find_None_iff list_all_iff)
    with True show ?thesis
      by (auto simp: ledger_step_def ledger_write_pipeline_status_def counts_for_def status_applies_def)
  next
    case False
    then obtain c where "find (\<lambda>(ok, _). \<not> ok) (status_checks p) = Some c"
      using find_None_iff [of "\<lambda>(ok, _). \<not> ok" "status_checks p"] by (auto simp: list_all_iff)
    with False show ?thesis
      by (cases c) (auto simp: ledger_step_def ledger_write_pipeline_status_def counts_for_def)
  qed
  with Cons.IH [of "ledger_step lg (WriteStatus t p)"] show ?case
    by (simp add: x row_after_def comp_def)
qed (simp add: row_after_def map_idI)

lemma row_after_snoc:
  "row_after jobs (ps @ [(t, p)]) e =
     (let d = row_after jobs ps e in if counts_for jobs d p then with_status t p d else d)"
  by (simp add: row_after_def)

lemma row_after_Nil [simp]: "row_after jobs [] e = e"
  by (simp add: row_after_def)

lemma row_after_key [simp]: "se_adapter_key (row_after jobs ps e) = se_adapter_key e"
  by (induction ps rule: rev_induct) (auto simp: row_after_snoc Let_def)

lemma row_after_newest:
  "pipeline_view (row_after jobs ps e) = pipeline_view e \<and> filter (counts_for jobs e) (map snd ps) = []
   \<or> (\<exists>p. counts_for jobs e p \<and> p \<in> set (map snd ps) \<and> pipeline_view (row_after jobs ps e) = view_of_status p
        \<and> (\<forall>q \<in> set (map snd ps). counts_for jobs e q \<longrightarrow> status_time q \<le> status_time p))"
proof (induction ps rule: rev_induct)
  case (snoc x ps)
  obtain t q where x: "x = (t, q)" by (cases x)
  let ?d = "row_after jobs ps e"
  from snoc.IH show ?case
  proof (elim disjE conjE exE)
    assume same: "pipeline_view ?d = pipeline_view e" and none: "filter (counts_for jobs e) (map snd ps) = []"
    then have "counts_for jobs ?d q = counts_for jobs e q"
      by (simp add: counts_for_def status_applies_def pipeline_view_def)
    with same none show ?thesis
      by (cases "counts_for jobs e q") (auto simp: x row_after_snoc Let_def filter_empty_conv)
  next
    fix p
    assume p: "counts_for jobs e p" "p \<in> set (map snd ps)" "pipeline_view ?d = view_of_status p"
      "\<forall>q \<in> set (map snd ps). counts_for jobs e q \<longrightarrow> status_time q \<le> status_time p"
    from p(1,3) have "counts_for jobs ?d q \<longleftrightarrow> counts_for jobs e q \<and> status_time p \<le> status_time q"
      by (auto simp: counts_for_def status_applies_def pipeline_view_def view_of_status_def status_time_def
          split: option.splits)
    then have step: "row_after jobs (ps @ [x]) e = (if counts_for jobs e q \<and> status_time p \<le> status_time q
        then with_status t q ?d else ?d)"
      by (simp only: x row_after_snoc Let_def)
    have "counts_for jobs e q \<and> status_time p \<le> status_time q \<or> (counts_for jobs e q \<longrightarrow> status_time q \<le> status_time p)" by auto
    with step consider "counts_for jobs e q" "status_time p \<le> status_time q"
        "row_after jobs (ps @ [x]) e = with_status t q ?d"
      | "counts_for jobs e q \<longrightarrow> status_time q \<le> status_time p" "row_after jobs (ps @ [x]) e = ?d"
      by (cases "counts_for jobs e q \<and> status_time p \<le> status_time q") (simp_all only: if_True if_False simp_thms)
    then show ?thesis
    proof cases
      case 1
      have "\<forall>q' \<in> set (map snd (ps @ [x])). counts_for jobs e q' \<longrightarrow> status_time q' \<le> status_time q"
        using p(4) 1(2) x by auto
      with 1 x show ?thesis by (intro disjI2 exI [of _ q]) simp
    next
      case 2
      have "\<forall>q' \<in> set (map snd (ps @ [x])). counts_for jobs e q' \<longrightarrow> status_time q' \<le> status_time p"
        using p(4) 2(1) x by auto
      with 2 p show ?thesis by (intro disjI2 exI [of _ p]) simp
    qed
  qed
qed simp

text \<open>
  C23. Pipeline statuses may arrive in any order: two runs of writes of the same statuses (each with its own
  time of writing), in whatever two orders, leave every source with the same status, completeness,
  generation and error code, provided that the statuses about one source are of distinct generations.
\<close>

theorem pipeline_status_ignores_the_order:
  assumes same: "mset ps = mset qs"
    and times: "list_all (\<lambda>e. distinct (map status_time (filter (\<lambda>p. se_adapter_key e \<in> set (pe_adapter_keys p))
          (map snd ps)))) (lg_sources lg)"
  shows "map pipeline_view (lg_sources (ledger_run (map (case_prod WriteStatus) ps) lg)) =
    map pipeline_view (lg_sources (ledger_run (map (case_prod WriteStatus) qs) lg))"
proof -
  let ?jobs = "lg_jobs lg"
  have "pipeline_view (row_after ?jobs ps e) = pipeline_view (row_after ?jobs qs e)" if e: "e \<in> set (lg_sources lg)" for e
  proof -
    have set: "set (map snd ps) = set (map snd qs)" using mset_eq_setD [OF same] by simp
    let ?R = "filter (\<lambda>p. se_adapter_key e \<in> set (pe_adapter_keys p)) (map snd ps)"
    have "distinct (map status_time ?R)" using times e by (simp add: list_all_iff)
    then have inj: "p = q" if "p \<in> set ?R" "q \<in> set ?R" "status_time p = status_time q" for p q
      using that by (auto simp: distinct_map inj_on_def)
    show ?thesis
      using row_after_newest [of ?jobs ps e] row_after_newest [of ?jobs qs e]
    proof (elim disjE conjE exE)
      fix p q
      assume p: "counts_for ?jobs e p" "p \<in> set (map snd ps)" "pipeline_view (row_after ?jobs ps e) = view_of_status p"
          "\<forall>q \<in> set (map snd ps). counts_for ?jobs e q \<longrightarrow> status_time q \<le> status_time p"
        and q: "counts_for ?jobs e q" "q \<in> set (map snd qs)" "pipeline_view (row_after ?jobs qs e) = view_of_status q"
          "\<forall>p \<in> set (map snd qs). counts_for ?jobs e p \<longrightarrow> status_time p \<le> status_time q"
      have "status_time p = status_time q" using p q set by (metis order_antisym)
      moreover have "p \<in> set ?R" "q \<in> set ?R"
        using p q set by (auto simp: counts_for_def status_applies_def)
      ultimately have "p = q" by (intro inj)
      then show ?thesis using p q by simp
    next
      fix q
      assume "filter (counts_for ?jobs e) (map snd ps) = []" "counts_for ?jobs e q" "q \<in> set (map snd qs)"
      with set show ?thesis by (metis filter_empty_conv)
    next
      fix p
      assume "filter (counts_for ?jobs e) (map snd qs) = []" "counts_for ?jobs e p" "p \<in> set (map snd ps)"
      with set show ?thesis by (metis filter_empty_conv)
    qed simp
  qed
  then show ?thesis by (simp add: statuses_run)
qed

section \<open>The active snapshot\<close>

definition vouched :: "ledger_op list \<Rightarrow> source_entry \<Rightarrow> string \<Rightarrow> bool" where
  "vouched ops e r \<longleftrightarrow> (\<exists>t p. WriteStatus t p \<in> set ops \<and> se_adapter_key e \<in> set (pe_adapter_keys p)
     \<and> pe_active_snapshot_raw_ref p = Some r \<and> pe_succeeded p \<and> pe_complete p \<and> raw_ref_admitted r)"

lemma active_step:
  assumes "i < length (lg_sources lg)"
  shows "i < length (lg_sources (ledger_step lg op))
    \<and> se_adapter_key (lg_sources (ledger_step lg op) ! i) = se_adapter_key (lg_sources lg ! i)
    \<and> (se_active_snapshot_raw_ref (lg_sources (ledger_step lg op) ! i) = se_active_snapshot_raw_ref (lg_sources lg ! i)
       \<or> (\<exists>r. se_active_snapshot_raw_ref (lg_sources (ledger_step lg op) ! i) = Some r
            \<and> vouched [op] (lg_sources lg ! i) r))"
proof (cases rule: ledger_step_cases [of lg op])
  case (summary now k s)
  with ledger_write_summary_Inr [OF summary(2)] assms show ?thesis
    by (simp add: source_health_after_def Let_def)
next
  case (status t p)
  show ?thesis
  proof (cases "status_applies p (lg_jobs lg) (lg_sources lg ! i) \<and> pe_active_snapshot_raw_ref p \<noteq> None")
    case True
    then obtain r where r: "pe_active_snapshot_raw_ref p = Some r" by blast
    with status(2) have "raw_ref_admitted r \<and> pe_succeeded p \<and> pe_complete p" by (simp add: status_checks_def)
    with True r status assms show ?thesis
      by (auto simp: with_status_def vouched_def status_applies_def)
  qed (use status assms in \<open>auto simp: with_status_def\<close>)
qed (use assms in auto)

lemma newly_active_vouched:
  assumes "i < length (lg_sources lg)"
    and "se_active_snapshot_raw_ref (lg_sources (ledger_run ops lg) ! i) = Some r"
    and "se_active_snapshot_raw_ref (lg_sources lg ! i) \<noteq> Some r"
  shows "vouched ops (lg_sources lg ! i) r"
  using assms
proof (induction ops arbitrary: lg)
  case (Cons op ops)
  note step = active_step [OF Cons.prems(1), of op]
  show ?case
  proof (cases "se_active_snapshot_raw_ref (lg_sources (ledger_step lg op) ! i) = Some r")
    case True
    with step Cons.prems(3) have "vouched [op] (lg_sources lg ! i) r" by auto
    then show ?thesis by (auto simp: vouched_def)
  next
    case False
    with Cons.IH [of "ledger_step lg op"] step Cons.prems(2) show ?thesis by (auto simp: vouched_def)
  qed
qed simp

text \<open>
  Active.
\<close>

theorem active_snapshot_is_vouched:
  assumes i: "i < length (lg_sources lg)"
    and r: "se_active_snapshot_raw_ref (lg_sources (ledger_run ops lg) ! i) = Some r"
    and new: "se_active_snapshot_raw_ref (lg_sources lg ! i) \<noteq> Some r"
  shows "\<exists>t p. WriteStatus t p \<in> set ops \<and> se_adapter_key (lg_sources lg ! i) \<in> set (pe_adapter_keys p)
    \<and> pe_active_snapshot_raw_ref p = Some r \<and> pe_succeeded p \<and> pe_complete p \<and> raw_ref_admitted r"
  using newly_active_vouched [OF assms] by (simp add: vouched_def)

section \<open>A fault without a job\<close>

lemma write_bare_summary:
  assumes "items_admitted s" "rs_station_inventory_proof s = None"
  shows "\<exists>j lg'. ledger_write_summary now i s lg = Inr lg' \<and> lg_jobs lg' = lg_jobs lg @ [j]
    \<and> ij_adapter_key j = Some (rs_adapter_key s) \<and> ij_started_at j = Some (summary_start s)"
  using assms
  by (auto simp: ledger_write_summary_def insert_ingestion_job_def insert_adapter_run_def adapter_run_status_def
      insert_station_inventory_snapshot_def update_data_source_health_def summary_start_def)

lemma step_summary:
  assumes "items_admitted s" "rs_station_inventory_proof s = None" "lg_sources lg = [e]"
    "se_adapter_key e = rs_adapter_key s" "\<not> newer_job (lg_jobs lg) (rs_adapter_key s) (summary_start s)"
  shows "lg_sources (ledger_step lg (WriteSummary now i s)) = [source_health_after s e]"
    and "newer_job (lg_jobs (ledger_step lg (WriteSummary now i s))) (rs_adapter_key s) t \<longleftrightarrow>
      newer_job (lg_jobs lg) (rs_adapter_key s) t \<or> t < summary_start s"
proof -
  from write_bare_summary [OF assms(1,2)] obtain j lg' where
    w: "ledger_write_summary now i s lg = Inr lg'" "lg_jobs lg' = lg_jobs lg @ [j]"
      "ij_adapter_key j = Some (rs_adapter_key s)" "ij_started_at j = Some (summary_start s)" by blast
  then have lg': "ledger_step lg (WriteSummary now i s) = lg'" by (simp add: ledger_step_def)
  show "lg_sources (ledger_step lg (WriteSummary now i s)) = [source_health_after s e]"
    using ledger_write_summary_Inr [OF w(1)] assms by (simp add: lg')
  show "newer_job (lg_jobs (ledger_step lg (WriteSummary now i s))) (rs_adapter_key s) t \<longleftrightarrow>
      newer_job (lg_jobs lg) (rs_adapter_key s) t \<or> t < summary_start s"
    using w by (simp add: lg')
qed

lemma step_status:
  assumes "pe_active_snapshot_raw_ref p = None" "lg_sources lg = [e]" "pe_adapter_keys p = [se_adapter_key e]"
  shows "lg_sources (ledger_step lg (WriteStatus t p)) =
      [if status_applies p (lg_jobs lg) e then with_status t p e else e]"
    and "lg_jobs (ledger_step lg (WriteStatus t p)) = lg_jobs lg"
  using assms by (simp_all add: ledger_step_def ledger_write_pipeline_status_def status_checks_def)

text \<open>
  C24. A late failure lets an older success in. For a source without jobs and without a status, a fault
  that is recorded without a job (as the tick does for a source whose adapter cannot be built) keeps
  out the success of a batch that started before it: the source stays failed. But if between the two
  the failure of a batch is recorded that started no later than the successful one, the time of the
  fault is overwritten by the start of that batch, the older success is accepted, and the source
  counts as succeeded although the fault is the newest of the three.
\<close>

theorem late_failure_lets_an_older_success_in:
  assumes lg: "lg_sources lg = [e]" "lg_jobs lg = []" "se_pipeline_run_at e = None"
    and fault: "pe_adapter_keys f = [se_adapter_key e]" "\<not> pe_succeeded f" "pe_active_snapshot_raw_ref f = None"
    and late: "rs_adapter_key a = se_adapter_key e" "rs_status a = BatchFailed" "items_admitted a"
      "rs_station_inventory_proof a = None"
    and older: "rs_adapter_key c = se_adapter_key e" "rs_status c = BatchSucceeded" "items_admitted c"
      "rs_station_inventory_proof c = None"
    and ok: "pe_adapter_keys p = [se_adapter_key e]" "pe_succeeded p" "pe_active_snapshot_raw_ref p = None"
      "status_time p = summary_start c"
    and times: "summary_start a \<le> summary_start c" "summary_start c < status_time f"
  shows "map se_pipeline_succeeded (lg_sources (ledger_run
        [WriteStatus t1 f, WriteSummary t2 i c, WriteStatus t3 p] lg)) = [Some False]
    \<and> map se_pipeline_succeeded (lg_sources (ledger_run
        [WriteStatus t1 f, WriteSummary t4 k a, WriteSummary t2 i c, WriteStatus t3 p] lg)) = [Some True]"
proof -
  let ?l1 = "ledger_step lg (WriteStatus t1 f)"
  have l1: "lg_sources ?l1 = [with_status t1 f e]" "lg_jobs ?l1 = []"
    using step_status [OF fault(3) lg(1) fault(1)] lg by (simp_all add: status_applies_def fault(1))
  have key: "se_adapter_key (with_status t1 f e) = rs_adapter_key c" by (simp add: older(1))
  let ?l2 = "ledger_step ?l1 (WriteSummary t2 i c)"
  have l2: "lg_sources ?l2 = [source_health_after c (with_status t1 f e)]"
    using step_summary(1) [OF older(3,4) l1(1) key] l1(2) by simp
  have run2: "se_pipeline_run_at (source_health_after c (with_status t1 f e)) = Some (status_time f)"
    "se_pipeline_succeeded (source_health_after c (with_status t1 f e)) = Some False"
    using older(2) fault(2) by (simp_all add: source_health_after_def with_status_def status_time_def Let_def)
  have "pe_adapter_keys p = [se_adapter_key (source_health_after c (with_status t1 f e))]" using ok(1) by simp
  from step_status(1) [OF ok(3) l2 this] run2 ok(4) times
  have A: "map se_pipeline_succeeded (lg_sources (ledger_run
        [WriteStatus t1 f, WriteSummary t2 i c, WriteStatus t3 p] lg)) = [Some False]"
    by (simp add: status_applies_def status_time_def)
  let ?m2 = "ledger_step ?l1 (WriteSummary t4 k a)"
  have keya: "se_adapter_key (with_status t1 f e) = rs_adapter_key a" by (simp add: late(1))
  have m2: "lg_sources ?m2 = [source_health_after a (with_status t1 f e)]"
    and j2: "newer_job (lg_jobs ?m2) (se_adapter_key e) t \<longleftrightarrow> t < summary_start a" for t
    using step_summary [OF late(3,4) l1(1) keya] l1(2) late(1) by simp_all
  let ?m3 = "ledger_step ?m2 (WriteSummary t2 i c)"
  let ?e3 = "source_health_after c (source_health_after a (with_status t1 f e))"
  have "se_adapter_key (source_health_after a (with_status t1 f e)) = rs_adapter_key c" by (simp add: older(1))
  from step_summary [OF older(3,4) m2 this] j2 older(1) times(1)
  have m3: "lg_sources ?m3 = [?e3]"
    and j3: "newer_job (lg_jobs ?m3) (se_adapter_key e) t \<longleftrightarrow> t < summary_start a \<or> t < summary_start c" for t
    by simp_all
  have "se_pipeline_run_at ?e3 = Some (summary_start a)"
    using older(2) late(2) by (simp add: source_health_after_def summary_start_def Let_def)
  then have "status_applies p (lg_jobs ?m3) ?e3"
    using ok(1,4) times(1) j3 by (simp add: status_applies_def status_time_def [symmetric])
  moreover have "pe_adapter_keys p = [se_adapter_key ?e3]" using ok(1) by simp
  ultimately have "map se_pipeline_succeeded (lg_sources (ledger_run
        [WriteStatus t1 f, WriteSummary t4 k a, WriteSummary t2 i c, WriteStatus t3 p] lg)) = [Some True]"
    using step_status(1) [OF ok(3) m3] ok(2) by (simp add: with_status_def)
  with A show ?thesis by (rule conjI)
qed

section \<open>A source and three runs\<close>

definition sample_source_entry :: source_entry where
  "sample_source_entry =
     \<lparr> se_adapter_key = ''official.cwa.rainfall'', se_last_success_at = None, se_last_failure_at = None,
       se_health_status = LedgerUnknown, se_source_timestamp_min = None, se_source_timestamp_max = None,
       se_runtime_enabled = None, se_runtime_enabled_checked_at = None, se_pipeline_succeeded = None,
       se_pipeline_checked_at = None, se_pipeline_complete = False, se_pipeline_run_at = None,
       se_pipeline_error_code = None, se_active_snapshot_raw_ref = None \<rparr>"

definition sample_ledger :: ledger where
  "sample_ledger = \<lparr> lg_sources = [sample_source_entry], lg_jobs = [], lg_runs = [], lg_inventories = [] \<rparr>"

definition sample_run :: "batch_status \<Rightarrow> int \<Rightarrow> run_summary" where
  "sample_run status t = summary_with ''official.cwa.rainfall'' status (seconds t) (seconds (t + 3)) 1 1 0 None"

definition sample_status :: "bool \<Rightarrow> int \<Rightarrow> string option \<Rightarrow> pipeline_entry" where
  "sample_status ok t active =
     \<lparr> pe_adapter_keys = [''official.cwa.rainfall''], pe_succeeded = ok, pe_complete = ok,
       pe_run_at = utc_at (seconds t), pe_active_snapshot_raw_ref = active,
       pe_error_code = (if ok then None else Some ''OSError'') \<rparr>"

lemma failed_batch_outlives_older_runs_witness:
  "list_all (\<lambda>e. se_pipeline_succeeded e = Some False) (lg_sources (ledger_run
     [WriteStatus 0 (sample_status True 9 None), WriteSummary 0 2 (sample_run BatchSucceeded 8)]
     (ledger_step sample_ledger (WriteSummary 0 1 (sample_run BatchFailed 10)))))"
proof -
  have "ledger_write_summary 0 1 (sample_run BatchFailed 10) sample_ledger =
      Inr (ledger_step sample_ledger (WriteSummary 0 1 (sample_run BatchFailed 10)))"
    by code_simp
  from failed_batch_outlives_older_runs [OF this, of
      "[WriteStatus 0 (sample_status True 9 None), WriteSummary 0 2 (sample_run BatchSucceeded 8)]"]
  have "list_all (\<lambda>e. se_adapter_key e = ''official.cwa.rainfall'' \<longrightarrow>
      se_pipeline_succeeded e = Some False \<and> \<not> se_pipeline_complete e) (lg_sources (ledger_run
     [WriteStatus 0 (sample_status True 9 None), WriteSummary 0 2 (sample_run BatchSucceeded 8)]
     (ledger_step sample_ledger (WriteSummary 0 1 (sample_run BatchFailed 10)))))"
    by (simp add: sample_run_def summary_with_def sample_ledger_def sample_status_def summary_start_def utc_at_def
        instant_def seconds_def)
  moreover have "list_all (\<lambda>e. se_adapter_key e = ''official.cwa.rainfall'') (lg_sources (ledger_run
     [WriteStatus 0 (sample_status True 9 None), WriteSummary 0 2 (sample_run BatchSucceeded 8)]
     (ledger_step sample_ledger (WriteSummary 0 1 (sample_run BatchFailed 10)))))"
    by code_simp
  ultimately show ?thesis by (auto simp: list_all_iff)
qed

lemma health_is_that_of_the_newest_run_witness:
  "se_health_status (hd (lg_sources (ledger_run
     [WriteSummary 0 1 (sample_run BatchFailed 10), WriteSummary 0 2 (sample_run BatchSucceeded 8)]
     sample_ledger))) = health_of_run BatchFailed"
proof -
  let ?ops = "[WriteSummary 0 1 (sample_run BatchFailed 10), WriteSummary 0 2 (sample_run BatchSucceeded 8)]"
  have "lg_jobs sample_ledger = []" by (simp add: sample_ledger_def)
  moreover have "hd (lg_sources (ledger_run ?ops sample_ledger)) \<in> set (lg_sources (ledger_run ?ops sample_ledger))"
    by (rule hd_in_set) code_simp
  moreover have "newest_run (runs_of (se_adapter_key (hd (lg_sources (ledger_run ?ops sample_ledger))))
      (committed_runs ?ops sample_ledger)) = Some (sample_run BatchFailed 10)"
    by code_simp
  ultimately have "se_health_status (hd (lg_sources (ledger_run ?ops sample_ledger))) =
      health_of_run (rs_status (sample_run BatchFailed 10))"
    by (rule health_is_that_of_the_newest_run)
  then show ?thesis by (simp add: sample_run_def summary_with_def)
qed

lemma pipeline_status_ignores_the_order_witness:
  "map pipeline_view (lg_sources (ledger_run (map (case_prod WriteStatus)
       [(0, sample_status True 9 None), (0, sample_status False 10 None)]) sample_ledger)) =
   map pipeline_view (lg_sources (ledger_run (map (case_prod WriteStatus)
       [(0, sample_status False 10 None), (0, sample_status True 9 None)]) sample_ledger))"
  by (rule pipeline_status_ignores_the_order)
    (simp_all add: sample_ledger_def sample_status_def status_time_def utc_at_def instant_def seconds_def)

lemma active_snapshot_is_vouched_witness:
  "\<exists>t p. WriteStatus t p \<in> set [WriteStatus 0 (sample_status True 9 (Some ''r''))]
    \<and> se_adapter_key (lg_sources sample_ledger ! 0) \<in> set (pe_adapter_keys p)
    \<and> pe_active_snapshot_raw_ref p = Some ''r'' \<and> pe_succeeded p \<and> pe_complete p \<and> raw_ref_admitted ''r''"
  by (rule active_snapshot_is_vouched) code_simp+

lemma late_failure_lets_an_older_success_in_witness:
  "map se_pipeline_succeeded (lg_sources (ledger_run
      [WriteStatus 0 (sample_status False 20 None), WriteSummary 0 2 (sample_run BatchSucceeded 15),
       WriteStatus 0 (sample_status True 15 None)] sample_ledger)) = [Some False]
   \<and> map se_pipeline_succeeded (lg_sources (ledger_run
      [WriteStatus 0 (sample_status False 20 None), WriteSummary 0 1 (sample_run BatchFailed 10),
       WriteSummary 0 2 (sample_run BatchSucceeded 15), WriteStatus 0 (sample_status True 15 None)]
      sample_ledger)) = [Some True]"
  by (rule late_failure_lets_an_older_success_in [where e = sample_source_entry])
    (simp_all add: sample_ledger_def sample_source_entry_def sample_run_def sample_status_def
      summary_with_def items_admitted_def int4_def summary_start_def status_time_def utc_at_def instant_def seconds_def)

end
