(* ===== verification/Managed_Guarantees.thy ===== *)
theory Managed_Guarantees
  imports Baseline_Tick Ledger_Generations Step_Triples
begin

text \<open>
  What the managed cycles of \<^verbatim>\<open>Managed_Cycle\<close> and the ticks of \<^verbatim>\<open>Baseline_Tick\<close> guarantee, whatever the
  adapters, writers, builder and catalog answer: a snapshot becomes active only after its rows were
  promoted, in the log of statuses and in the ledger of \<^verbatim>\<open>Source_Ledger\<close>, and a tick accounts for every
  configured source.
\<close>

section \<open>What an ingestion leaves alone\<close>

text \<open>Only statuses without an active snapshot are added, and no summary is lost.\<close>

definition calmly :: "ingest_state \<Rightarrow> ingest_state \<Rightarrow> bool" where
  "calmly s s' \<longleftrightarrow>
     (\<exists>es. ws_pipeline s' = ws_pipeline s @ es \<and> list_all (\<lambda>e. pe_active_snapshot_raw_ref e = None) es)
     \<and> (\<exists>ss. is_summaries s' = is_summaries s @ ss)"

lemma calmly_refl [simp]: "calmly s s"
  by (simp add: calmly_def)

lemma calmly_trans: "calmly s t \<Longrightarrow> calmly t u \<Longrightarrow> calmly s u"
  unfolding calmly_def by (elim conjE exE) simp

abbreviation calm :: "(ingest_state, 'a) step \<Rightarrow> bool" where
  "calm m \<equiv> \<forall>s0. triple (calmly s0) m (\<lambda>_. calmly s0) (calmly s0)"

lemma calmI: "(\<And>s r s'. m s = (r, s') \<Longrightarrow> calmly s s') \<Longrightarrow> calm m"
  unfolding triple_def
  by (metis (mono_tags, lifting) calmly_trans split_beta surjective_pairing sum.case_eq_if)

lemma calmD: "calm m \<Longrightarrow> m s = (r, s') \<Longrightarrow> calmly s s'"
  using tripleD [of "calmly s" m "\<lambda>_. calmly s" "calmly s" s r s'] by (cases r) auto

lemma calm_bind: "calm m \<Longrightarrow> (\<And>a. calm (f a)) \<Longrightarrow> calm (wbind m f)"
  by (blast intro: triple_bind)

lemma calm_return: "calm (wreturn a)"
  by (simp add: triple_return)

lemma calm_value: "calm (\<lambda>st. (x, st))"
  by (rule calmI) simp

lemma calm_status: "calm (record_pipeline_status env keys ok fin t)"
  by (rule calmI)
    (auto simp: record_pipeline_status_def record_pipeline_entry_def calmly_def Let_def split: option.splits if_splits)

lemma calm_selection: "calm (record_runtime_selection env keys)"
  by (rule calmI) (auto simp: record_runtime_selection_def calmly_def Let_def split: option.splits)

lemma calmly_summaries: "ws_pipeline s' = ws_pipeline s \<Longrightarrow> is_summaries s' = is_summaries s @ ss \<Longrightarrow> calmly s s'"
  by (simp add: calmly_def)

lemma persist_keeps_summaries: "persist_staging_batch env b s = (x, s') \<Longrightarrow> is_summaries s' = is_summaries s"
  by (auto simp: persist_staging_batch_def Let_def split: option.splits)

lemma judge_keeps_summaries:
  "judge_adapter_run lib env clock adapter s = (x, s') \<Longrightarrow> is_summaries s' = is_summaries s"
  by (auto simp: judge_adapter_run_def summary_from_result_def wreturn_def wcatch_def wbind_def
      validate_adapter_result_identity_def split: sum.splits prod.splits option.splits if_splits
      dest!: persist_keeps_summaries)

lemma write_summary_grows:
  "write_summary env x s = (r, s') \<Longrightarrow> \<exists>ss. is_summaries s' = is_summaries s @ ss"
  by (auto simp: write_summary_def Let_def split: option.splits)

lemma run_batch_calmly:
  assumes "run_adapter_batch lib env clock a s = (r, s')"
  shows "calmly s s'"
proof -
  have "\<exists>ss. is_summaries s' = is_summaries s @ ss"
    by (rule run_adapter_batch_cases [of lib env clock a s])
      (use assms in \<open>auto dest!: judge_keeps_summaries write_summary_grows\<close>)
  with run_batch_keeps_pipeline [OF assms] show ?thesis by (auto intro: calmly_summaries)
qed

lemma run_batch_written:
  assumes "run_adapter_batch lib env clock a s = (Inr x, s')" "rs_status x \<noteq> BatchFailed"
    "in_summary_writer env \<noteq> None"
  shows "x \<in> set (is_summaries s')"
  using assms(1,2)
proof (cases rule: run_not_failed)
  case (1 r s1)
  with assms(3) write_summary_result [OF 1(4)] show ?thesis by auto
qed

definition written :: "run_summary list \<Rightarrow> ingest_state \<Rightarrow> bool" where
  "written ss s \<longleftrightarrow> list_all (\<lambda>x. rs_status x \<noteq> BatchFailed \<longrightarrow> x \<in> set (is_summaries s)) ss"

lemma written_calmly: "written ss s \<Longrightarrow> calmly s s' \<Longrightarrow> written ss s'"
  by (auto simp: written_def calmly_def list_all_iff)

lemma run_batches_calmly:
  assumes "run_adapter_batches lib env clocks n as s = (r, s')"
  shows "calmly s s' \<and> (\<forall>ss. in_summary_writer env \<noteq> None \<longrightarrow> r = Inr ss \<longrightarrow> written ss s')"
  using assms
proof (induction as arbitrary: n s r s')
  case Nil
  then show ?case by (auto simp: wreturn_def written_def)
next
  case (Cons a as)
  obtain x s1 where x: "run_adapter_batch lib env (clocks n) a s = (Inr x, s1)"
    using run_adapter_batch_total by blast
  obtain ss s2 where ss: "run_adapter_batches lib env clocks (Suc n) as s1 = (Inr ss, s2)"
    using run_batches_total by blast
  from Cons.prems x ss have r: "r = Inr (x # ss)" "s' = s2" by (auto simp: wbind_def wreturn_def)
  from Cons.IH [OF ss] have later: "calmly s1 s2" "in_summary_writer env \<noteq> None \<Longrightarrow> written ss s2" by auto
  have "in_summary_writer env \<noteq> None \<Longrightarrow> written [x] s2"
    using run_batch_written [OF x] later(1) by (intro written_calmly [OF _ later(1)]) (simp add: written_def)
  with r later calmly_trans [OF run_batch_calmly [OF x] later(1)] show ?case
    by (auto simp: written_def)
qed

lemma run_enabled_calmly:
  assumes "run_enabled_adapter_batches lib env clocks t adapters selected reported w at_time s = (r, s')"
  shows "calmly s s' \<and> (\<forall>ss. in_summary_writer env \<noteq> None \<longrightarrow> r = Inr ss \<longrightarrow> written ss s')"
proof -
  have "calm (run_adapter_batches lib env clocks 0 as)" for as
    using run_batches_calmly by (intro calmI) blast
  then have "calm (run_enabled_adapter_batches lib env clocks t adapters selected reported w at_time)"
    unfolding run_enabled_adapter_batches_def
    by (intro calm_bind calm_value calm_status) (simp_all add: calm_selection calm_return)
  from calmD [OF this assms] have "calmly s s'" .
  moreover have "written ss s'" if "in_summary_writer env \<noteq> None" "r = Inr ss" for ss
    using assms that run_batches_calmly
    by (fastforce simp: run_enabled_adapter_batches_def wbind_Inr)
  ultimately show ?thesis by blast
qed

section \<open>Activated snapshots\<close>

text \<open>An active snapshot in the log of statuses rests on a written run and a promotion of its rows.\<close>

definition activation_backed :: "managed_state \<Rightarrow> pipeline_entry \<Rightarrow> bool" where
  "activation_backed st e \<longleftrightarrow>
     (case pe_active_snapshot_raw_ref e of
        None \<Rightarrow> True
      | Some ref \<Rightarrow>
          pe_succeeded e \<and> pe_complete e
          \<and> (\<exists>s \<in> set (is_summaries (mst_ingest st)).
               pe_adapter_keys e = [rs_adapter_key s] \<and> pe_run_at e = rs_started_at s
               \<and> rs_raw_ref s = Some ref \<and> rs_status s \<in> {BatchSucceeded, BatchPartial}
               \<and> rs_snapshot_generation_mode s = Some CompleteReplace \<and> rs_snapshot_activation_eligible s
               \<and> (\<exists>q \<in> set (mst_promotions st). pq_limit q = None \<and> ref \<in> set (pq_raw_refs q)
                    \<and> rs_adapter_key s \<in> set (pq_adapter_keys q))))"

definition backed :: "managed_state \<Rightarrow> bool" where
  "backed st \<longleftrightarrow> list_all (activation_backed st) (ws_pipeline (mst_ingest st))"

definition backed_with :: "run_summary list \<Rightarrow> promotion_request list \<Rightarrow> managed_state \<Rightarrow> bool" where
  "backed_with ss qs st \<longleftrightarrow> backed st \<and> written ss (mst_ingest st) \<and> set qs \<subseteq> set (mst_promotions st)"

abbreviation backs :: "run_summary list \<Rightarrow> promotion_request list \<Rightarrow> 'a managed \<Rightarrow> bool" where
  "backs ss qs m \<equiv> triple (backed_with ss qs) m (\<lambda>_. backed_with ss qs) (backed_with ss qs)"

lemma activation_backed_mono:
  "activation_backed st e \<Longrightarrow> set (is_summaries (mst_ingest st)) \<subseteq> set (is_summaries (mst_ingest st'))
    \<Longrightarrow> set (mst_promotions st) \<subseteq> set (mst_promotions st') \<Longrightarrow> activation_backed st' e"
  unfolding activation_backed_def by (auto split: option.splits)

lemma backed_calmly:
  assumes "backed_with ss qs st" and "calmly (mst_ingest st) s"
  shows "backed_with ss qs (st\<lparr> mst_ingest := s \<rparr>)"
proof -
  let ?st = "st\<lparr> mst_ingest := s \<rparr>"
  from assms(2) obtain es xs where s: "ws_pipeline s = ws_pipeline (mst_ingest st) @ es"
    "list_all (\<lambda>e. pe_active_snapshot_raw_ref e = None) es" "is_summaries s = is_summaries (mst_ingest st) @ xs"
    by (auto simp: calmly_def)
  have "activation_backed ?st e" if "activation_backed st e" for e
    using that by (rule activation_backed_mono) (simp_all add: s(3))
  moreover have "activation_backed ?st e" if "e \<in> set es" for e
    using that s(2) by (simp add: activation_backed_def list_all_iff)
  ultimately show ?thesis
    using assms written_calmly [OF _ assms(2)] by (auto simp: backed_with_def backed_def list_all_iff s(1))
qed

lemma backs_ingest:
  assumes "calm m"
  shows "backs ss qs (on_ingest m)"
  unfolding triple_def
proof (intro allI impI)
  fix st assume b: "backed_with ss qs st"
  obtain r s where m: "m (mst_ingest st) = (r, s)" by (metis surj_pair)
  from backed_calmly [OF b calmD [OF assms m]] m
  show "case on_ingest m st of (Inl _, st') \<Rightarrow> backed_with ss qs st' | (Inr _, st') \<Rightarrow> backed_with ss qs st'"
    by (cases r) (simp_all add: on_ingest_def)
qed

lemma backs_return: "backs ss qs (wreturn a)"
  by (rule triple_return)

lemma backs_bind: "backs ss qs m \<Longrightarrow> (\<And>a. backs ss qs (f a)) \<Longrightarrow> backs ss qs (wbind m f)"
  by (rule triple_bind)

lemma backs_catch: "backs ss qs m \<Longrightarrow> (\<And>e. backs ss qs (h e)) \<Longrightarrow> backs ss qs (wcatch m h)"
  by (rule triple_catch)

lemma backs_raise: "backs ss qs (\<lambda>st. (Inl e, st))"
  by (simp add: triple_def)

lemma backs_option:
  "backs ss qs m \<Longrightarrow> (\<And>e. backs ss qs (f e)) \<Longrightarrow> backs ss qs (case x of None \<Rightarrow> m | Some e \<Rightarrow> f e)"
  by (cases x) simp_all

lemmas backs_rules = backs_return backs_bind backs_catch backs_raise backs_ingest

lemma backed_count [simp]: "backed_with ss qs (count_effect st) \<longleftrightarrow> backed_with ss qs st"
proof -
  have "activation_backed (count_effect st) = activation_backed st"
    by (rule ext) (simp add: activation_backed_def count_effect_def cong: option.case_cong)
  then show ?thesis by (simp add: backed_with_def backed_def written_def count_effect_def)
qed

lemma backs_retire: "backs ss qs (retire_warning_latest w r)"
proof -
  have "activation_backed (st\<lparr> mst_retired := rs \<rparr>) = activation_backed st" for st rs
    by (rule ext) (simp add: activation_backed_def cong: option.case_cong)
  then have "backed_with ss qs (st\<lparr> mst_retired := rs \<rparr>) \<longleftrightarrow> backed_with ss qs st" for st rs
    by (simp add: backed_with_def backed_def)
  then show ?thesis by (auto simp: triple_def retire_warning_latest_def Let_def split: option.splits)
qed

lemma backs_retire_all: "backs ss qs (retire_all w xs)"
  by (induction xs) (auto intro: backs_rules backs_retire)

lemma backs_promote:
  "triple (backed_with ss qs) (promote_staging w q) (\<lambda>_. backed_with ss (q # qs)) (backed_with ss qs)"
proof -
  have "backed_with ss (q # qs) (st\<lparr> mst_promotions := mst_promotions st @ [q] \<rparr>)" if "backed_with ss qs st" for st
  proof -
    have "activation_backed (st\<lparr> mst_promotions := mst_promotions st @ [q] \<rparr>) e" if "activation_backed st e" for e
      using that by (rule activation_backed_mono) auto
    with that show ?thesis by (auto simp: backed_with_def backed_def list_all_iff)
  qed
  then show ?thesis
    unfolding triple_def promote_staging_def Let_def
    by (auto split: sum.splits) (metis backed_count count_effect_def managed_state.select_convs(3) managed_state.surjective managed_state.update_convs(1))
qed

lemma backs_promote_with_retry:
  "triple (backed_with ss qs) (promote_with_retry env w q) (\<lambda>_. backed_with ss (q # qs)) (backed_with ss qs)"
  unfolding promote_with_retry_def
  by (rule triple_catch [OF backs_promote], rule triple_if, rule backs_promote, simp add: triple_def)

lemma calm_entry: "pe_active_snapshot_raw_ref e = None \<Longrightarrow> calm (record_pipeline_entry env e)"
  by (rule calmI) (auto simp: record_pipeline_entry_def calmly_def Let_def split: option.splits if_splits)

lemma backs_selection: "backs ss qs (write_runtime_selection_revision w keys enabled)"
  by (simp add: write_runtime_selection_revision_def backs_return backs_ingest calm_selection)

lemma backs_status: "backs ss qs (on_ingest (record_pipeline_status env keys ok fin t))"
  by (rule backs_ingest [OF calm_status])

lemma backs_failures: "backs ss qs (record_statuses p checked_at keys summaries False fin error)"
proof (induction keys arbitrary: checked_at)
  case (Cons k ks)
  show ?case unfolding record_statuses.simps Let_def
    by (rule triple_if, rule Cons.IH, rule backs_bind [OF backs_ingest [OF calm_entry] Cons.IH])
      (simp add: active_snapshot_of_def split: option.split)
qed (simp add: backs_return)

lemma backs_activating_entry:
  assumes "pe_active_snapshot_raw_ref e = None \<or> (\<forall>st. backed_with ss qs st \<longrightarrow> activation_backed st e)"
  shows "backs ss qs (on_ingest (record_pipeline_entry env e))"
proof (cases "pe_active_snapshot_raw_ref e = None")
  case True
  then show ?thesis by (rule backs_ingest [OF calm_entry])
next
  case False
  show ?thesis unfolding triple_def
  proof (intro allI impI)
    fix st assume b: "backed_with ss qs st"
    with assms False have e: "activation_backed st e" by blast
    obtain r s where run: "record_pipeline_entry env e (mst_ingest st) = (r, s)" by (metis surj_pair)
    then have s: "ws_pipeline s = ws_pipeline (mst_ingest st) \<or> ws_pipeline s = ws_pipeline (mst_ingest st) @ [e]"
      "is_summaries s = is_summaries (mst_ingest st)"
      by (auto simp: record_pipeline_entry_def Let_def split: option.splits if_splits)
    have "activation_backed (st\<lparr> mst_ingest := s \<rparr>) d" if "activation_backed st d" for d
      using that by (rule activation_backed_mono) (simp_all add: s(2))
    with b e s have "backed_with ss qs (st\<lparr> mst_ingest := s \<rparr>)"
      by (auto simp: backed_with_def backed_def written_def list_all_iff)
    with run show "case on_ingest (record_pipeline_entry env e) st of
        (Inl _, st') \<Rightarrow> backed_with ss qs st' | (Inr _, st') \<Rightarrow> backed_with ss qs st'"
      by (cases r) (simp_all add: on_ingest_def)
  qed
qed

lemma last_summary:
  "map_of (rev (map (\<lambda>s. (rs_adapter_key s, s)) ss)) k = Some s \<Longrightarrow> s \<in> set ss \<and> rs_adapter_key s = k"
  by (auto dest: map_of_SomeD)

lemma backs_successes:
  assumes "fin \<Longrightarrow> \<forall>s \<in> set ss. \<forall>ref. rs_adapter_key s \<in> set keys \<longrightarrow> rs_status s \<in> {BatchSucceeded, BatchPartial}
      \<longrightarrow> rs_raw_ref s = Some ref \<longrightarrow> (\<exists>q \<in> set qs. pq_limit q = None \<and> ref \<in> set (pq_raw_refs q)
        \<and> rs_adapter_key s \<in> set (pq_adapter_keys q))"
  shows "backs ss qs (record_statuses p checked_at keys ss True fin error)"
  using assms
proof (induction keys arbitrary: checked_at)
  case (Cons k ks)
  let ?s = "map_of (rev (map (\<lambda>s. (rs_adapter_key s, s)) ss)) k"
  have rest: "backs ss qs (record_statuses p c ks ss True fin error)" for c
    using Cons.prems by (intro Cons.IH) auto
  show ?case unfolding record_statuses.simps Let_def
  proof (rule triple_if, rule rest, rule backs_bind [OF backs_activating_entry rest])
    assume ok: "\<not> (True \<and> (case ?s of None \<Rightarrow> True | Some s \<Rightarrow> rs_status s = BatchFailed))"
    then obtain s where s: "?s = Some s" "rs_status s \<noteq> BatchFailed" by (auto split: option.splits)
    note m = last_summary [OF s(1)]
    let ?e = "\<lparr> pe_adapter_keys = [k], pe_succeeded = True, pe_complete = fin,
      pe_run_at = (case ?s of None \<Rightarrow> utc_at (checked_at 0) | Some s \<Rightarrow> rs_started_at s),
      pe_active_snapshot_raw_ref = active_snapshot_of True fin ?s, pe_error_code = error \<rparr>"
    have "activation_backed st ?e" if a: "active_snapshot_of True fin ?s = Some ref" and b: "backed_with ss qs st" for ref st
    proof -
      from a s have f: "fin" "rs_status s \<in> {BatchSucceeded, BatchPartial}"
        "rs_snapshot_generation_mode s = Some CompleteReplace" "rs_snapshot_activation_eligible s" "rs_raw_ref s = Some ref"
        by (auto simp: active_snapshot_of_def split: if_splits)
      from Cons.prems [OF f(1)] m f obtain q where q: "q \<in> set qs" "pq_limit q = None" "ref \<in> set (pq_raw_refs q)"
        "rs_adapter_key s \<in> set (pq_adapter_keys q)" by auto
      from b q(1) have "q \<in> set (mst_promotions st)" by (auto simp: backed_with_def)
      moreover from b m s(2) have "s \<in> set (is_summaries (mst_ingest st))"
        by (auto simp: backed_with_def written_def list_all_iff)
      ultimately show ?thesis using a f q m s(1) by (auto simp: activation_backed_def)
    qed
    then show "pe_active_snapshot_raw_ref ?e = None \<or> (\<forall>st. backed_with ss qs st \<longrightarrow> activation_backed st ?e)"
      by (cases "active_snapshot_of True fin ?s") simp_all
  qed
qed (simp add: backs_return)

lemma backed_with_weaken: "backed_with ss (q # qs) st \<Longrightarrow> backed_with ss qs st"
  by (simp add: backed_with_def)

lemma backs_failed_after: "backs ss qs (failed_after p clock keys reason cycle e)"
  unfolding failed_after_def by (rule backs_bind [OF backs_failures backs_return])

lemma current_raw_refs_iff:
  "ref \<in> set (current_raw_refs keys ss) \<longleftrightarrow>
     (\<exists>s \<in> set ss. rs_adapter_key s \<in> set keys \<and> rs_status s \<in> {BatchSucceeded, BatchPartial} \<and> rs_raw_ref s = Some ref)"
  by (force simp: current_raw_refs_def List.map_filter_def)

lemma backs_promote_cycle:
  assumes ss: "ss = fst cycle"
  shows "backs ss qs (promote_cycle env rq p clock w keys status reason cycle)"
proof -
  let ?refs = "current_raw_refs keys ss"
  let ?q = "\<lparr> pq_limit = mq_promotion_limit rq, pq_adapter_keys = keys, pq_raw_refs = ?refs \<rparr>"
  let ?qs = "if ?refs = [] then qs else ?q # qs"
  let ?R = "\<lambda>x st. backed_with ss (case x of Inl _ \<Rightarrow> qs | Inr _ \<Rightarrow> ?qs) st"
  have less: "backed_with ss ?qs st \<Longrightarrow> backed_with ss qs st" for st
    using backed_with_weaken by (auto split: if_splits)
  have promote: "triple (backed_with ss qs)
      (wcatch (wbind (if ?refs = [] then wreturn (0, []) else promote_with_retry env w ?q)
        (\<lambda>r. wreturn (Inr r))) (\<lambda>e. wreturn (Inl e))) ?R (backed_with ss qs)"
    by (rule triple_catch [where E' = "backed_with ss qs"],
        rule triple_bind [where R = "\<lambda>_. backed_with ss ?qs"], rule triple_if)
      (auto intro: triple_return backs_promote_with_retry)
  have statuses: "triple (backed_with ss ?qs) (record_statuses p c keys ss True (mq_promotion_limit rq = None) None)
      (\<lambda>_. backed_with ss ?qs) (backed_with ss ?qs)" for c
  proof (rule backs_successes, intro ballI allI impI)
    fix s ref
    assume "mq_promotion_limit rq = None" "s \<in> set ss" "rs_adapter_key s \<in> set keys"
      "rs_status s \<in> {BatchSucceeded, BatchPartial}" "rs_raw_ref s = Some ref"
    then have "ref \<in> set ?refs" by (auto simp: current_raw_refs_iff)
    then show "\<exists>q \<in> set ?qs. pq_limit q = None \<and> ref \<in> set (pq_raw_refs q) \<and> rs_adapter_key s \<in> set (pq_adapter_keys q)"
      using \<open>mq_promotion_limit rq = None\<close> \<open>rs_adapter_key s \<in> set keys\<close> by (cases ?refs) auto
  qed
  have finish: "triple (?R x) (case x of
        Inl e \<Rightarrow> failed_after p clock keys ''promotion_failed'' cycle e
      | Inr r \<Rightarrow> wbind (record_statuses p (mc_status_checked_at clock) keys ss True (mq_promotion_limit rq = None) None)
          (\<lambda>_. wreturn (cycle_result status reason cycle r))) (\<lambda>_. backed_with ss qs) (backed_with ss qs)" for x
  proof (cases x)
    case (Inr r)
    then show ?thesis
      by (simp only: sum.case)
        (rule triple_weaken [OF triple_bind [OF statuses triple_return]], assumption+, rule less, assumption, rule less, assumption)
  qed (simp add: backs_failed_after)
  show ?thesis
    unfolding promote_cycle_def Let_def ss [symmetric]
    by (rule backs_bind, rule backs_catch, rule backs_bind [OF backs_retire_all backs_return], rule backs_return,
        rule backs_option, rule triple_bind [OF promote finish], rule backs_failed_after)
qed

lemma backs_finish:
  "ss = fst cycle \<Longrightarrow> backs ss qs (finish_cycle env rq p clock promotion_keys missing cycle)"
  unfolding finish_cycle_def Let_def
  by (auto split: option.split intro!: triple_if backs_return backs_raise backs_promote_cycle)

lemma triple_scheduled:
  "triple (backed_with [] qs) (execute_scheduled_ingestion_cycle lib env p clock adapters selected reported)
     (\<lambda>cycle. backed_with (fst cycle) qs) (backed_with [] qs)"
  unfolding execute_scheduled_ingestion_cycle_def
proof (rule triple_bind)
  show "triple (backed_with [] qs)
      (on_ingest (run_enabled_adapter_batches lib (ingest_env_of p) (mc_batches clock) (mc_missing_checked_at clock)
        adapters (mg_enabled_keys env (Some selected)) (Some reported) False (Some (utc_at (mc_cycle_started_at clock)))))
      (\<lambda>ss. backed_with ss qs) (backed_with [] qs)" (is "triple _ (on_ingest ?m) _ _")
    unfolding triple_def
  proof (intro allI impI)
    fix st assume b: "backed_with [] qs st"
    obtain r s where run: "?m (mst_ingest st) = (r, s)" by (metis surj_pair)
    note calm = run_enabled_calmly [OF run]
    then have c: "calmly (mst_ingest st) s" by blast
    from backed_calmly [OF b c] have b': "backed_with [] qs (st\<lparr> mst_ingest := s \<rparr>)" .
    have "r = Inr ss \<Longrightarrow> written ss s" for ss using calm by (simp add: ingest_env_of_def)
    with b' run show "case on_ingest ?m st of (Inl _, st') \<Rightarrow> backed_with [] qs st' | (Inr ss, st') \<Rightarrow> backed_with ss qs st'"
      by (cases r) (simp_all add: on_ingest_def backed_with_def)
  qed
qed (rule triple_return, simp)

lemma backed_with_Nil: "backed_with ss qs st \<Longrightarrow> backed_with [] qs st"
  by (simp add: backed_with_def written_def)

lemma backs_persisted: "backs [] qs (run_persisted_cycle lib env rq clock p selected reported)"
proof -
  have "triple (backed_with [] qs) (wbind (execute_scheduled_ingestion_cycle lib env p clock adapters selected reported)
      (finish_cycle env rq p clock pk missing)) (\<lambda>_. backed_with [] qs) (backed_with [] qs)" for adapters pk missing
    by (rule triple_bind [OF triple_scheduled], rule triple_weaken [OF backs_finish [OF refl]])
      (auto intro: backed_with_Nil)
  then show ?thesis
    unfolding run_persisted_cycle_def Let_def
    by (intro backs_bind backs_selection)
      (auto split: sum.split option.split intro!: backs_bind backs_status backs_raise backs_return)
qed

lemma backs_managed: "backs [] qs (execute_managed_runtime_ingestion_cycle lib env rq clock)"
proof -
  have "backs [] qs (record_source_catalog_unavailable_audit w keys t rev)" for w keys t rev
    unfolding record_source_catalog_unavailable_audit_def
    by (intro backs_catch backs_bind backs_selection backs_status backs_return)
  moreover have "backs [] qs (\<lambda>st. (x, st))" for x :: "string list outcome"
    by (cases x) (simp_all add: triple_def)
  ultimately show ?thesis
    unfolding execute_managed_runtime_ingestion_cycle_def Let_def
    by (intro backs_bind)
      (auto split: option.split intro!: triple_if backs_bind backs_selection backs_return backs_persisted)
qed

section \<open>A tick\<close>

lemma backs_source_failure: "backs ss qs (record_v1_source_failure w key t error)"
  unfolding record_v1_source_failure_def
  by (intro backs_catch backs_ingest calm_entry backs_return) simp

lemma backs_all_failures: "backs ss qs (record_all_failures w t error keys)"
  by (induction keys) (auto intro: backs_return backs_bind backs_source_failure)

lemma backs_build: "backs ss qs (build_sources env clock keys reported runnable c)"
  by (induction keys arbitrary: reported runnable c)
    (auto split: sum.split option.split intro!: backs_return backs_bind [OF backs_source_failure])

lemma backs_coverage: "backs ss qs (record_coverage env key ref t)"
  by (auto simp: triple_def record_coverage_def split: option.splits)

lemma backs_judge: "backs ss qs (judge_source env clock key r c)"
proof -
  have "backs ss qs (\<lambda>st. (x, st))" for x :: "py_datetime outcome"
    by (cases x) (simp_all add: triple_def)
  then show ?thesis
    unfolding judge_source_def cover_source_def
    by (auto split: option.split intro!: triple_if backs_bind backs_return backs_catch backs_coverage backs_source_failure)
qed

lemma backs_baseline_cycle: "backs [] qs (run_v1_baseline_adapter_cycle lib env rq clock configured adapters)"
  unfolding run_v1_baseline_adapter_cycle_def by (intro triple_if backs_managed backs_return)

lemma backs_run_sources: "backs [] qs (run_sources lib env clock selection runnable c)"
proof (induction runnable arbitrary: c)
  case (Cons x xs)
  show ?case
    by (cases x) (auto split: sum.split
      intro!: backs_bind backs_catch backs_baseline_cycle backs_return backs_source_failure backs_judge Cons.IH)
qed (simp add: backs_return)

lemma backs_tick: "backs [] qs (run_v1_baseline_tick lib env clock t)"
proof -
  have "backs [] qs (run_due_sources lib env clock n enabled)" for n enabled
    unfolding run_due_sources_def Let_def
    by (intro backs_bind backs_build)
      (auto split: prod.split intro!: backs_bind backs_catch backs_ingest calm_selection backs_return backs_run_sources)
  moreover have "backs [] qs (\<lambda>st. (x, st))" for x :: "string list outcome"
    by (cases x) (simp_all add: triple_def)
  ultimately show ?thesis
    unfolding run_v1_baseline_tick_def Let_def
    by (intro backs_bind) (auto split: option.split intro!: triple_if backs_bind backs_return backs_all_failures)
qed

definition run_ticks ::
  "text_library \<Rightarrow> (tick_env \<times> tick_clock \<times> int) list \<Rightarrow> managed_state \<Rightarrow> managed_state" where
  "run_ticks lib ticks st = foldl (\<lambda>st (env, clock, t). snd (run_v1_baseline_tick lib env clock t st)) st ticks"

lemma backed_ticks: "backed st \<Longrightarrow> backed (run_ticks lib ticks st)"
proof (induction ticks arbitrary: st)
  case (Cons x ticks)
  obtain env clock t where x: "x = (env, clock, t)" by (cases x)
  obtain r st1 where run: "run_v1_baseline_tick lib env clock t st = (r, st1)" by (metis surj_pair)
  have "backed_with [] [] st" using Cons.prems by (simp add: backed_with_def written_def)
  from tripleD [OF backs_tick this run] have "backed st1" by (cases r) (simp_all add: backed_with_def)
  from Cons.IH [OF this] show ?case by (simp add: x run run_ticks_def)
qed (simp add: run_ticks_def)

text \<open>
  Activation.
\<close>

theorem activated_snapshots_were_promoted:
  assumes "list_all (activation_backed st) (ws_pipeline (mst_ingest st))"
  shows "list_all (activation_backed (run_ticks lib ticks st)) (ws_pipeline (mst_ingest (run_ticks lib ticks st)))"
  using backed_ticks [of st lib ticks] assms by (simp add: backed_def)

section \<open>The ledger behind the ticks\<close>

text \<open>
  C25. The ledger activates only promoted snapshots. Let any ticks run, from a state in which no pipeline
  status was recorded, and let the ledger then take any operations of which the status writes are
  among those that the ticks recorded, in any order and as often as you like. If a source of the ledger
  ends up with an active snapshot other than the one it had, then the ticks wrote the summary of a run
  of that very source, successful or partial, which staged that snapshot under complete replacement
  and was found eligible for activation, and they asked for a promotion without limit that names the
  snapshot and the source.
\<close>

theorem ledger_activates_promoted_snapshots:
  assumes fresh: "ws_pipeline (mst_ingest st) = []"
    and ticks: "st' = run_ticks lib ticks st"
    and log: "list_all (\<lambda>op. case op of WriteStatus _ p \<Rightarrow> p \<in> set (ws_pipeline (mst_ingest st')) | _ \<Rightarrow> True) ops"
    and i: "i < length (lg_sources lg)"
    and r: "se_active_snapshot_raw_ref (lg_sources (ledger_run ops lg) ! i) = Some r"
    and new: "se_active_snapshot_raw_ref (lg_sources lg ! i) \<noteq> Some r"
  shows "\<exists>s q. s \<in> set (is_summaries (mst_ingest st')) \<and> rs_adapter_key s = se_adapter_key (lg_sources lg ! i)
    \<and> rs_raw_ref s = Some r \<and> rs_status s \<in> {BatchSucceeded, BatchPartial}
    \<and> rs_snapshot_generation_mode s = Some CompleteReplace \<and> rs_snapshot_activation_eligible s
    \<and> q \<in> set (mst_promotions st') \<and> pq_limit q = None \<and> r \<in> set (pq_raw_refs q)
    \<and> rs_adapter_key s \<in> set (pq_adapter_keys q)"
proof -
  from newly_active_vouched [OF i r new] obtain t p where p: "WriteStatus t p \<in> set ops"
    "se_adapter_key (lg_sources lg ! i) \<in> set (pe_adapter_keys p)" "pe_active_snapshot_raw_ref p = Some r"
    by (auto simp: vouched_def)
  have "backed st'" unfolding ticks by (rule backed_ticks) (simp add: backed_def fresh)
  moreover have "p \<in> set (ws_pipeline (mst_ingest st'))" using log p(1) by (auto simp: list_all_iff)
  ultimately have "activation_backed st' p" by (simp add: backed_def list_all_iff)
  with p(2,3) show ?thesis by (auto simp: activation_backed_def)
qed

section \<open>Accounts of a tick\<close>

definition aware_starts :: "run_summary list \<Rightarrow> bool" where
  "aware_starts ss \<longleftrightarrow> list_all (\<lambda>s. is_aware (rs_started_at s)) ss"

lemma run_batch_aware:
  assumes "run_adapter_batch lib env clock a s = (Inr x, s')"
  shows "is_aware (rs_started_at x)"
proof -
  have start: "rs_started_at (summary_with k b st f p q r m) = utc_at st" for k b st f p q r m
    by (simp add: summary_with_def)
  have judged: "is_aware (rs_started_at y)" if "judge_adapter_run lib env clock a s = (Inr y, s1)" for y s1
    using that
    by (auto simp: judge_adapter_run_def wreturn_eq wcatch_Inr wbind_Inr failed_summary_def with_error_def start utc_at_def
        empty_fetch_summary_def staged_summary_def Let_def
        split: sum.splits elim!: summary_from_result_Inr)
  show ?thesis
  proof (cases rule: run_adapter_batch_cases [of lib env clock a s])
    case (audited y s1 s2)
    then show ?thesis using assms judged by simp
  next
    case (unwritten y s1 e s2)
    then have "x = unwritten_summary y clock e" using assms by simp
    then show ?thesis using judged [OF unwritten(1)] by (simp add: unwritten_summary_def with_error_def)
  qed
qed

lemma run_batches_aware: "run_adapter_batches lib env clocks n as s = (Inr ss, s') \<Longrightarrow> aware_starts ss"
  by (induction as arbitrary: n s ss)
    (auto simp: wbind_Inr wreturn_eq aware_starts_def dest: run_batch_aware)

lemma scheduled_aware:
  "yields (\<lambda>cycle. aware_starts (fst cycle)) (execute_scheduled_ingestion_cycle lib env p clock adapters selected reported)"
proof -
  have "yields aware_starts (on_ingest (run_enabled_adapter_batches lib e clocks t adapters selected reported w u))"
    for e clocks t adapters selected reported w u
    by (rule yieldsI)
      (auto simp: on_ingest_def run_enabled_adapter_batches_def wbind_Inr split: prod.splits dest: run_batches_aware)
  then show ?thesis
    unfolding execute_scheduled_ingestion_cycle_def by (rule yields_bind) (simp add: yields_return)
qed

definition sound_result :: "managed_result \<Rightarrow> bool" where
  "sound_result r \<longleftrightarrow> aware_starts (mr_summaries r)"

lemma sound_simps [simp]:
  "sound_result (bare_result s r)" "aware_starts (fst c) \<Longrightarrow> sound_result (cycle_result s r c q)"
  "aware_starts (fst c) \<Longrightarrow> sound_result ((cycle_result s r c q)\<lparr> mr_error_code := x, mr_error_message := y \<rparr>)"
  "sound_result ((bare_result s r)\<lparr> mr_error_code := x \<rparr>)"
  by (simp_all add: sound_result_def bare_result_def cycle_result_def aware_starts_def)

lemma failed_after_sound: "aware_starts (fst cycle) \<Longrightarrow> yields sound_result (failed_after p clock keys reason cycle e)"
  unfolding failed_after_def by (rule yields_then, rule yields_return, simp)

lemma promote_sound:
  assumes "aware_starts (fst cycle)"
  shows "yields sound_result (promote_cycle env rq p clock w keys status reason cycle)"
proof -
  have failed: "yields sound_result (failed_after p clock ks why cycle e)" for ks why e
    by (rule failed_after_sound [OF assms])
  have fine: "yields sound_result (wbind m (\<lambda>_. wreturn (cycle_result status reason cycle r)))" for m :: "unit managed" and r
    by (rule yields_then, rule yields_return, simp add: assms)
  show ?thesis
    unfolding promote_cycle_def Let_def
    by (rule yields_then, simp only: failed fine yields_then split: option.split sum.split, simp add: failed fine yields_then split: sum.split)
qed

lemma finish_sound: "aware_starts (fst cycle) \<Longrightarrow> yields sound_result (finish_cycle env rq p clock pk missing cycle)"
  unfolding finish_cycle_def Let_def
  by (auto split: option.split intro: promote_sound yields_return yields_raise)

lemma managed_sound: "yields sound_result (execute_managed_runtime_ingestion_cycle lib env rq clock)"
proof -
  have "yields sound_result (run_persisted_cycle lib env rq clock p selected reported)" for p selected reported
    unfolding run_persisted_cycle_def Let_def
    by (rule yields_then)
      (auto split: sum.split option.split
        intro!: yields_then [of _ _ "on_ingest _"] yields_return yields_raise yields_bind [OF scheduled_aware] finish_sound)
  then show ?thesis
    unfolding execute_managed_runtime_ingestion_cycle_def Let_def
    by (intro yields_then) (auto split: option.split intro!: triple_if yields_then yields_return)
qed

lemma baseline_sound: "yields sound_result (run_v1_baseline_adapter_cycle lib env rq clock configured adapters)"
  unfolding run_v1_baseline_adapter_cycle_def invalid_v1_baseline_scope_result_def
  by (intro triple_if managed_sound yields_return) simp

text \<open>The sources a stage of the tick has accounted for.\<close>

definition accounted :: "tick_counts \<Rightarrow> nat" where
  "accounted c = ti_completed c + ti_failed c + ti_gated_off c"

definition flagged :: "tick_counts \<Rightarrow> bool" where
  "flagged c \<longleftrightarrow> (0 < ti_failed c \<longrightarrow> ti_had_failure c)"

lemma accounted_simps [simp]:
  "accounted (one_failure c) = Suc (accounted c)" "accounted (complete_source c) = Suc (accounted c)"
  "accounted (c\<lparr> ti_gated_off := Suc (ti_gated_off c) \<rparr>) = Suc (accounted c)"
  "accounted (c\<lparr> ti_had_failure := b \<rparr>) = accounted c"
  "flagged (one_failure c)" "flagged (complete_source c) = flagged c"
  "flagged (c\<lparr> ti_gated_off := n \<rparr>) = flagged c" "flagged (c\<lparr> ti_had_failure := True \<rparr>)"
  by (simp_all add: accounted_def flagged_def one_failure_def complete_source_def)

text \<open>A step that always answers, with what holds of the answer.\<close>

definition answers :: "('a \<Rightarrow> bool) \<Rightarrow> ('s, 'a) step \<Rightarrow> bool" where
  "answers Q m \<longleftrightarrow> (\<forall>st. \<exists>a st'. m st = (Inr a, st') \<and> Q a)"

lemma answers_return: "Q a \<Longrightarrow> answers Q (wreturn a)"
  by (simp add: answers_def wreturn_def)

lemma answers_bind:
  assumes "answers R m" and "\<And>a. R a \<Longrightarrow> answers Q (f a)"
  shows "answers Q (wbind m f)"
  unfolding answers_def
proof
  fix st
  obtain a st1 where m: "m st = (Inr a, st1)" "R a" using assms(1) unfolding answers_def by blast
  obtain b st2 where "f a st1 = (Inr b, st2)" "Q b"
    using assms(2) [OF m(2)] unfolding answers_def by blast
  with m show "\<exists>a st'. wbind m f st = (Inr a, st') \<and> Q a" by (simp add: wbind_def)
qed

lemma answers_catch:
  assumes "yields Q m" and "\<And>e. answers Q (h e)"
  shows "answers Q (wcatch m h)"
  unfolding answers_def
proof
  fix st
  obtain x st1 where m: "m st = (x, st1)" by (metis surj_pair)
  show "\<exists>a st'. wcatch m h st = (Inr a, st') \<and> Q a"
  proof (cases x)
    case (Inl e)
    with m assms(2) [of e] show ?thesis unfolding answers_def wcatch_def by simp
  next
    case (Inr a)
    with m yieldsD [OF assms(1)] show ?thesis by (simp add: wcatch_def)
  qed
qed

lemma answers_failure: "answers (\<lambda>_. True) (record_v1_source_failure w key t error)"
  unfolding record_v1_source_failure_def by (intro answers_catch yields_any answers_return) simp

lemma max_datetime_total: "\<forall>x \<in> set (m # xs). is_aware x \<Longrightarrow> \<exists>y. max_datetime m xs = Inr y"
  by (induction xs arbitrary: m) auto

lemma failure_time_total: "aware_starts ss \<Longrightarrow> \<exists>t. v1_source_failure_run_at ss key fallback = Inr t"
proof (cases "map rs_started_at (filter (\<lambda>s. rs_adapter_key s = key) ss)")
  case (Cons t ts)
  assume a: "aware_starts ss"
  have "\<forall>x \<in> set (t # ts). is_aware x" unfolding Cons [symmetric] using a by (auto simp: aware_starts_def list_all_iff)
  from max_datetime_total [OF this] show ?thesis by (simp add: v1_source_failure_run_at_def Cons)
qed (simp add: v1_source_failure_run_at_def)

abbreviation one_more :: "tick_counts \<Rightarrow> tick_counts \<Rightarrow> bool" where
  "one_more c c' \<equiv> accounted c' = Suc (accounted c) \<and> (flagged c \<longrightarrow> flagged c')"

lemma answers_judge:
  assumes "sound_result r"
  shows "answers (one_more c) (judge_source env clock key r c)"
proof -
  obtain t where t: "v1_source_failure_run_at (mr_summaries r) key (utc_at (tc_source_started clock key)) = Inr t"
    using failure_time_total assms unfolding sound_result_def by blast
  have time: "answers (\<lambda>_. True) (\<lambda>st. (v1_source_failure_run_at (mr_summaries r) key (utc_at (tc_source_started clock key)), st))"
    by (simp add: answers_def t)
  have "answers (one_more c) (cover_source env key r c)"
    unfolding cover_source_def
    by (auto split: option.split
      intro!: answers_return answers_bind [OF answers_catch [OF yields_any]] answers_bind [OF answers_failure])
  then show ?thesis
    unfolding judge_source_def
    by (auto intro!: answers_bind [OF time] answers_bind [OF answers_failure] answers_return)
qed

lemma answers_run_sources:
  "answers (\<lambda>c'. accounted c' = accounted c + length runnable \<and> (flagged c \<longrightarrow> flagged c'))
     (run_sources lib env clock selection runnable c)"
proof (induction runnable arbitrary: c)
  case Nil show ?case by (simp add: answers_return)
next
  case (Cons x xs)
  obtain key adapter where x: "x = (key, adapter)" by (cases x)
  let ?ok = "\<lambda>cycle. case cycle of Inl _ \<Rightarrow> True | Inr r \<Rightarrow> sound_result r"
  have run: "answers ?ok (wcatch
      (wbind (run_v1_baseline_adapter_cycle lib (tk_env env key) (baseline_request key selection)
          (tk_clock env key) (Some [key]) [(key, adapter)]) (\<lambda>r. wreturn (Inr r)))
      (\<lambda>e. wreturn (Inl e)))"
    by (intro answers_catch yields_bind [OF baseline_sound] yields_return answers_return) simp_all
  have judge: "answers (one_more c) (case cycle of
        Inl e \<Rightarrow> wbind (record_v1_source_failure (tk_run_writer env) key (utc_at (tc_raised clock key)) (Some (fst e)))
          (\<lambda>_. wreturn (one_failure c))
      | Inr r \<Rightarrow> judge_source env clock key r c)" if "?ok cycle" for cycle
    using that by (cases cycle) (auto intro!: answers_bind [OF answers_failure] answers_return answers_judge)
  have rest: "answers (\<lambda>c'. accounted c' = accounted c + length (x # xs) \<and> (flagged c \<longrightarrow> flagged c'))
      (run_sources lib env clock selection xs c1)" if "one_more c c1" for c1
    using Cons.IH [of c1] that unfolding answers_def by (metis add_Suc_right add_Suc_shift length_Cons)
  show ?case unfolding x run_sources.simps
    by (rule answers_bind [OF run], rule answers_bind [OF judge], assumption, rule rest [unfolded x])
qed

lemma answers_weaken: "answers R m \<Longrightarrow> (\<And>a. R a \<Longrightarrow> Q a) \<Longrightarrow> answers Q m"
  unfolding answers_def by metis

lemma answers_build:
  "answers (\<lambda>(reported', runnable', c'). accounted c' + length runnable' = accounted c + length runnable + length keys
      \<and> (flagged c \<longrightarrow> flagged c')) (build_sources env clock keys reported runnable c)"
proof (induction keys arbitrary: reported runnable c)
  case Nil show ?case by (simp add: answers_return)
next
  case (Cons k ks)
  show ?case
  proof (cases "tk_build env k")
    case (Inl e)
    then show ?thesis unfolding build_sources.simps
      by (simp only: sum.case, intro answers_bind [OF answers_failure] answers_weaken [OF Cons.IH])
        (auto split: prod.splits)
  next
    case (Inr adapters)
    then show ?thesis unfolding build_sources.simps
      by (cases "map_of adapters k") (auto intro!: answers_weaken [OF Cons.IH])
  qed
qed

lemma answers_if: "(b \<Longrightarrow> answers Q m) \<Longrightarrow> (\<not> b \<Longrightarrow> answers Q m') \<Longrightarrow> answers Q (if b then m else m')"
  by simp

text \<open>
  C26. A tick accounts for every source. Where the enabled keys can be read, a tick always answers, whatever
  catalog, builders, adapters, cycles and writers raise. It answers the number of configured baseline
  sources; those that it counts as completed, failed and gated off are together no more than these, and
  exactly as many where no cadence filter is set (with one, the deferred sources are the others); and
  it reports a failure whenever it counts a failed source.
\<close>

theorem tick_accounts_for_every_source:
  assumes keys: "tk_enabled_keys env = Inr keys"
  shows "\<exists>r st'. run_v1_baseline_tick lib env clock t st = (Inr r, st')
    \<and> ti_configured r = length (filter (\<lambda>k. k \<in> set v1_baseline_adapter_keys) keys)
    \<and> ti_completed r + ti_failed r + ti_gated_off r \<le> ti_configured r
    \<and> (tk_due env = None \<longrightarrow> ti_completed r + ti_failed r + ti_gated_off r = ti_configured r)
    \<and> (0 < ti_failed r \<longrightarrow> ti_had_failure r)"
proof -
  let ?configured = "filter (\<lambda>k. k \<in> set v1_baseline_adapter_keys) keys"
  let ?n = "length ?configured"
  let ?Q = "\<lambda>r. ti_configured r = ?n \<and> ti_completed r + ti_failed r + ti_gated_off r \<le> ?n
    \<and> (tk_due env = None \<longrightarrow> ti_completed r + ti_failed r + ti_gated_off r = ?n)
    \<and> (0 < ti_failed r \<longrightarrow> ti_had_failure r)"
  have due: "answers ?Q (run_due_sources lib env clock ?n enabled)" if le: "length enabled \<le> ?n" for enabled
  proof -
    let ?due = "filter (\<lambda>k. case tk_due env of None \<Rightarrow> True | Some ks \<Rightarrow> k \<in> set ks) enabled"
    have d: "length ?due \<le> length enabled" by (rule length_filter_le)
    have d': "tk_due env = None \<Longrightarrow> length ?due = length enabled" by simp
    have c: "accounted (no_counts\<lparr> ti_gated_off := ?n - length enabled \<rparr>) = ?n - length enabled"
      by (simp add: accounted_def no_counts_def)
    have start: "accounted (no_counts\<lparr> ti_gated_off := ?n - length enabled \<rparr>) + length ?due \<le> ?n"
      "tk_due env = None \<Longrightarrow> accounted (no_counts\<lparr> ti_gated_off := ?n - length enabled \<rparr>) + length ?due = ?n"
      "flagged (no_counts\<lparr> ti_gated_off := ?n - length enabled \<rparr>)"
      unfolding c using le d d' by (linarith, linarith, simp add: flagged_def no_counts_def)
    let ?B = "\<lambda>c len. accounted c + len \<le> ?n \<and> (tk_due env = None \<longrightarrow> accounted c + len = ?n) \<and> flagged c"
    have select: "answers (\<lambda>c'. ?B c' len) (wcatch (wbind (on_ingest (record_runtime_selection w sel))
        (\<lambda>_. wreturn c)) (\<lambda>_. wreturn (c\<lparr> ti_had_failure := True \<rparr>)))" if "?B c len" for c len w sel
      using that by (intro answers_catch yields_then yields_return answers_return) auto
    have run: "answers (\<lambda>c'. ?B c' 0) (run_sources lib env clock sel runnable c)"
      if "?B c (length runnable)" for c runnable sel
      using that by (intro answers_weaken [OF answers_run_sources]) auto
    have result: "answers ?Q (wreturn (tick_result_of ?n m c))" if "?B c 0" for c m
      using that by (intro answers_return) (auto simp: tick_result_of_def accounted_def flagged_def)
    show ?thesis
      unfolding run_due_sources_def Let_def
      by (rule answers_bind [OF answers_build], clarsimp, rule answers_bind [OF select], use start in force,
          rule answers_bind [OF run], assumption, rule result, assumption)
  qed
  have all: "answers (\<lambda>_. True) (record_all_failures w u error ks)" for w u error ks
    by (induction ks) (auto intro: answers_return answers_bind [OF answers_failure])
  have "answers ?Q (case filter_catalog_enabled_adapter_keys (tk_catalog env) ?configured of
      None \<Rightarrow> wbind (record_all_failures (tk_run_writer env) (utc_at t) ''SourceCatalogUnavailable'' ?configured)
        (\<lambda>_. wreturn (tick_result_of ?n 0 (no_counts\<lparr> ti_had_failure := True, ti_failed := ?n \<rparr>)))
    | Some enabled \<Rightarrow> run_due_sources lib env clock ?n enabled)"
  proof (cases "filter_catalog_enabled_adapter_keys (tk_catalog env) ?configured")
    case None
    show ?thesis unfolding None option.case
      by (rule answers_bind [OF all], rule answers_return) (simp add: tick_result_of_def no_counts_def)
  next
    case (Some enabled)
    then have "length enabled \<le> ?n"
      by (auto simp: filter_catalog_enabled_adapter_keys_def simp del: filter_filter
          intro: length_filter_le split: if_splits option.splits)
    then show ?thesis unfolding Some option.case by (rule due)
  qed
  note catalog = this
  have none: "answers ?Q (wreturn (tick_result_of 0 0 no_counts))" if "?configured = []"
    unfolding that by (rule answers_return) (simp add: tick_result_of_def no_counts_def)
  have "answers ?Q (run_v1_baseline_tick lib env clock t)"
    unfolding run_v1_baseline_tick_def keys Let_def
    by (rule answers_bind [where R = "\<lambda>ks. ks = keys"], simp add: answers_def, hypsubst, rule answers_if,
        erule none, rule catalog)
  then show ?thesis unfolding answers_def by (metis (no_types, lifting))
qed

section \<open>Witnesses\<close>

definition sample_writer :: run_writer where
  "sample_writer =
     \<lparr> iw_summary = (\<lambda>_ _. None), iw_selection = Some (\<lambda>_ _. None), iw_pipeline = Some (\<lambda>_ _. None) \<rparr>"

definition sample_promoter :: promotion_writer where
  "sample_promoter = \<lparr> pw_retire = (\<lambda>_ _. None), pw_promote = (\<lambda>_ _. Inr (1, [''e1''])) \<rparr>"

definition sample_managed_env :: "string \<Rightarrow> managed_env" where
  "sample_managed_env key =
     \<lparr> mg_enabled_keys = (\<lambda>ks. Inr (case ks of None \<Rightarrow> [key] | Some ks \<Rightarrow> ks)), mg_has_database_url = False,
       mg_source_catalog_reader = Some Some, mg_postgres_catalog = Some,
       mg_staging_writer = Some (\<lambda>_ _. None), mg_run_writer = Some sample_writer,
       mg_promotion_writer = Some sample_promoter, mg_postgres_staging = (\<lambda>_ _. None),
       mg_postgres_run = sample_writer, mg_postgres_promotion = sample_promoter,
       mg_adapter_by_key = Some [(key, sample_cap_adapter ''Update'')], mg_adapter_builder = None,
       mg_freshness_max_age_seconds = 3600, mg_exc_chain = (\<lambda>_. []) \<rparr>"

definition sample_managed_clock :: managed_clock where
  "sample_managed_clock =
     \<lparr> mc_cycle_started_at = 1, mc_batches = (\<lambda>_. sample_batch_clock), mc_missing_checked_at = 1,
       mc_freshness_checked_at = 8, mc_status_checked_at = (\<lambda>_. 9) \<rparr>"

definition nothing_managed :: managed_state where
  "nothing_managed = \<lparr> mst_ingest = nothing_written, mst_retired = [], mst_promotions = [] \<rparr>"

text \<open>Two sources are configured; the second one's builder raises, and a third is not in scope.\<close>

definition sample_tick_env :: tick_env where
  "sample_tick_env =
     \<lparr> tk_enabled_keys = Inr [''official.ncdr.cap'', ''official.cwa.rainfall'', ''local.unknown''],
       tk_catalog = Some, tk_run_writer = sample_writer, tk_due = None,
       tk_build = (\<lambda>key. if key = ''official.ncdr.cap'' then Inr [(key, sample_cap_adapter ''Update'')]
         else Inl (''ValueError'', ''missing key'')),
       tk_env = sample_managed_env, tk_clock = (\<lambda>_. sample_managed_clock), tk_coverage = (\<lambda>_ _ _ _. None) \<rparr>"

definition sample_tick_clock :: tick_clock where
  "sample_tick_clock = \<lparr> tc_faulted = (\<lambda>_. 1), tc_source_started = (\<lambda>_. 1), tc_raised = (\<lambda>_. 9) \<rparr>"

definition sample_tick :: "tick_result outcome \<times> managed_state" where
  "sample_tick = run_v1_baseline_tick sample_library sample_tick_env sample_tick_clock 1 nothing_managed"

lemma sample_tick_eq:
  "run_v1_baseline_tick sample_library sample_tick_env sample_tick_clock 1 nothing_managed
     = (fst sample_tick, snd sample_tick)"
  by (simp add: sample_tick_def)

abbreviation after_sample_tick :: managed_state where
  "after_sample_tick \<equiv> run_ticks sample_library [(sample_tick_env, sample_tick_clock, 1)] nothing_managed"

definition sample_cap_ledger :: ledger where
  "sample_cap_ledger =
     \<lparr> lg_sources = [sample_source_entry\<lparr> se_adapter_key := ''official.ncdr.cap'' \<rparr>], lg_jobs = [], lg_runs = [],
       lg_inventories = [] \<rparr>"

lemma activated_snapshots_were_promoted_witness:
  "list_all (activation_backed after_sample_tick) (ws_pipeline (mst_ingest after_sample_tick))"
  by (rule activated_snapshots_were_promoted) (simp add: nothing_managed_def nothing_written_def)

lemma sample_tick_log:
  "ws_pipeline (mst_ingest after_sample_tick) =
     [\<lparr> pe_adapter_keys = [''official.cwa.rainfall''], pe_succeeded = False, pe_complete = False,
        pe_run_at = Aware (AwareAt 1 0), pe_active_snapshot_raw_ref = None, pe_error_code = Some ''ValueError'' \<rparr>,
      \<lparr> pe_adapter_keys = [''official.ncdr.cap''], pe_succeeded = True, pe_complete = True,
        pe_run_at = Aware (AwareAt 2 0),
        pe_active_snapshot_raw_ref = Some ''raw/official/ncdr/cap/hash.json'', pe_error_code = None \<rparr>]"
  by code_simp

lemma ledger_activates_promoted_snapshots_witness:
  "\<exists>s q. s \<in> set (is_summaries (mst_ingest after_sample_tick)) \<and> rs_adapter_key s = ''official.ncdr.cap''
    \<and> rs_raw_ref s = Some ''raw/official/ncdr/cap/hash.json'' \<and> rs_status s \<in> {BatchSucceeded, BatchPartial}
    \<and> rs_snapshot_generation_mode s = Some CompleteReplace \<and> rs_snapshot_activation_eligible s
    \<and> q \<in> set (mst_promotions after_sample_tick) \<and> pq_limit q = None
    \<and> ''raw/official/ncdr/cap/hash.json'' \<in> set (pq_raw_refs q) \<and> rs_adapter_key s \<in> set (pq_adapter_keys q)"
proof -
  let ?ops = "map (WriteStatus 0) (ws_pipeline (mst_ingest after_sample_tick))"
  have "se_active_snapshot_raw_ref (lg_sources (ledger_run ?ops sample_cap_ledger) ! 0)
      = Some ''raw/official/ncdr/cap/hash.json''"
    unfolding sample_tick_log by code_simp
  from ledger_activates_promoted_snapshots [OF _ refl _ _ this] show ?thesis
    by (simp add: nothing_managed_def nothing_written_def list_all_iff sample_cap_ledger_def sample_source_entry_def)
qed

lemma tick_accounts_for_every_source_witness:
  "\<exists>r st'. run_v1_baseline_tick sample_library sample_tick_env sample_tick_clock 1 nothing_managed = (Inr r, st')
    \<and> ti_configured r = 2 \<and> ti_completed r + ti_failed r + ti_gated_off r = 2"
proof -
  have keys: "tk_enabled_keys sample_tick_env = Inr [''official.ncdr.cap'', ''official.cwa.rainfall'', ''local.unknown'']"
    by (simp add: sample_tick_env_def)
  have n: "length (filter (\<lambda>k. k \<in> set v1_baseline_adapter_keys)
      [''official.ncdr.cap'', ''official.cwa.rainfall'', ''local.unknown'']) = 2"
    by code_simp
  show ?thesis
    using tick_accounts_for_every_source [OF keys, of sample_library sample_tick_clock 1 nothing_managed]
    unfolding n by (auto simp: sample_tick_env_def)
qed

end
