(* ===== verification/Managed_Outcomes.thy ===== *)
theory Managed_Outcomes
  imports Managed_Guarantees
begin

text \<open>
  What the cycles of \<^verbatim>\<open>Managed_Cycle\<close> and the ticks of \<^verbatim>\<open>Baseline_Tick\<close> write: a tick writes only about
  sources that are configured, in scope, enabled in the catalog and due, and a cycle that reports success
  has promoted what its runs staged.
\<close>

section \<open>What a step writes\<close>

text \<open>All effects but statuses and selections are added, and those added are about sources of \<open>K\<close>.\<close>

definition about :: "string set \<Rightarrow> (managed_state \<Rightarrow> 'a list) \<Rightarrow> ('a \<Rightarrow> string set) \<Rightarrow> managed_state \<Rightarrow> managed_state \<Rightarrow> bool" where
  "about K part keys st st' \<longleftrightarrow> (\<exists>xs. part st' = part st @ xs \<and> list_all (\<lambda>x. keys x \<subseteq> K) xs)"

definition only_about :: "string set \<Rightarrow> managed_state \<Rightarrow> managed_state \<Rightarrow> bool" where
  "only_about K st st' \<longleftrightarrow>
     about K (\<lambda>st. is_summaries (mst_ingest st)) (\<lambda>s. {rs_adapter_key s}) st st'
     \<and> about K (\<lambda>st. is_batches (mst_ingest st)) (\<lambda>b. {sb_adapter_key b}) st st'
     \<and> about K mst_retired (\<lambda>r. {rt_adapter_key r}) st st'
     \<and> about K mst_promotions (\<lambda>q. set (pq_adapter_keys q)) st st'"

lemma about_refl [simp]: "about K part keys st st"
  by (simp add: about_def)

lemma about_same: "part st' = part st \<Longrightarrow> about K part keys st st'"
  by (simp add: about_def)

lemma about_one: "part st' = part st @ [x] \<Longrightarrow> keys x \<subseteq> K \<Longrightarrow> about K part keys st st'"
  by (simp add: about_def)

lemma about_trans: "about K part keys st st' \<Longrightarrow> about K part keys st' st'' \<Longrightarrow> about K part keys st st''"
  unfolding about_def by (elim exE conjE) simp

lemma about_mono: "about K part keys st st' \<Longrightarrow> K \<subseteq> K' \<Longrightarrow> about K' part keys st st'"
  unfolding about_def list_all_iff by blast

lemma within_refl [simp]: "only_about K st st"
  by (simp add: only_about_def)

lemma within_trans: "only_about K st st' \<Longrightarrow> only_about K st' st'' \<Longrightarrow> only_about K st st''"
  unfolding only_about_def by (blast intro: about_trans)

lemma within_mono: "only_about K st st' \<Longrightarrow> K \<subseteq> K' \<Longrightarrow> only_about K' st st'"
  unfolding only_about_def by (blast intro: about_mono)

interpretation only_about: step_relation "only_about K" for K
  by unfold_locales (simp, rule within_trans)

abbreviation stays :: "string set \<Rightarrow> 'a managed \<Rightarrow> bool" where
  "stays K m \<equiv> advances (only_about K) m"

lemma stays_mono: "stays K m \<Longrightarrow> K \<subseteq> K' \<Longrightarrow> stays K' m"
  by (erule advances_weaken, erule within_mono)

text \<open>Steps of an ingestion.\<close>

definition ingest_within :: "string set \<Rightarrow> ingest_state \<Rightarrow> ingest_state \<Rightarrow> bool" where
  "ingest_within K s s' \<longleftrightarrow>
     (\<exists>xs. is_summaries s' = is_summaries s @ xs \<and> list_all (\<lambda>x. rs_adapter_key x \<in> K) xs)
     \<and> (\<exists>bs. is_batches s' = is_batches s @ bs \<and> list_all (\<lambda>b. sb_adapter_key b \<in> K) bs)"

lemma ingest_within_same:
  "is_summaries s' = is_summaries s \<Longrightarrow> is_batches s' = is_batches s \<Longrightarrow> ingest_within K s s'"
  by (simp add: ingest_within_def)

lemma ingest_within_trans: "ingest_within K s t \<Longrightarrow> ingest_within K t u \<Longrightarrow> ingest_within K s u"
  unfolding ingest_within_def by (elim exE conjE) simp

interpretation ingest_within: step_relation "ingest_within K" for K
  by unfold_locales (simp add: ingest_within_same, rule ingest_within_trans)

lemma stays_ingest: "advances (ingest_within K) m \<Longrightarrow> stays K (on_ingest m)"
  unfolding advances_def by (fastforce simp: on_ingest_def only_about_def about_def ingest_within_def split: prod.splits)

lemma status_within:
  "advances (ingest_within K) (record_pipeline_entry env e)"
  "advances (ingest_within K) (record_pipeline_status env keys ok fin t)"
  "advances (ingest_within K) (record_runtime_selection env keys)"
  by (rule advancesI, rule ingest_within_same;
      auto simp: record_pipeline_status_def record_pipeline_entry_def record_runtime_selection_def Let_def
        split: option.splits if_splits)+

lemma summary_within:
  assumes "summary_from_result lib env clock mode r s = (x, s')"
  shows "ingest_within {ar_adapter_key r} s s'"
proof -
  have "persist_staging_batch env b t = (y, t') \<Longrightarrow> sb_adapter_key b = ar_adapter_key r \<Longrightarrow>
      ingest_within {ar_adapter_key r} t t'" for b t y t'
    by (auto simp: persist_staging_batch_def Let_def ingest_within_def split: option.splits)
  moreover have "build_staging_batch lib r ref gen mode = Inr b \<Longrightarrow> sb_adapter_key b = ar_adapter_key r" for ref gen b
    by (erule build_staging_batch_Inr)
  ultimately show ?thesis using assms
    by (fastforce simp: summary_from_result_def wreturn_def wbind_def ingest_within_same
        split: if_splits sum.splits prod.splits)
qed

lemma judge_within:
  assumes "judge_adapter_run lib env clock a s = (Inr x, s')"
  shows "ingest_within {sa_key a} s s' \<and> rs_adapter_key x = sa_key a"
proof
  show "ingest_within {sa_key a} s s'"
    using assms
    by (auto simp: judge_adapter_run_def wreturn_def wcatch_def wbind_def validate_adapter_result_identity_def
        ingest_within_same
        split: sum.splits prod.splits option.splits dest!: summary_within dest: no_key_mismatch(1))
  show "rs_adapter_key x = sa_key a"
    using assms by (cases rule: judge_cases) (auto elim!: summary_from_result_Inr dest: no_key_mismatch(1))
qed

lemma run_batch_within:
  assumes "run_adapter_batch lib env clock a s = (r, s')"
  shows "ingest_within {sa_key a} s s'"
proof -
  have "write_summary env x t = (y, t') \<Longrightarrow> rs_adapter_key x = sa_key a \<Longrightarrow> ingest_within {sa_key a} t t'" for x t y t'
    by (auto simp: write_summary_def Let_def ingest_within_def split: option.splits)
  then show ?thesis
    by (cases rule: run_adapter_batch_cases [of lib env clock a s])
      (use assms in \<open>auto dest!: judge_within intro: ingest_within_trans\<close>)
qed

lemma run_batches_within:
  assumes "run_adapter_batches lib env clocks n as s = (r, s')" and "sa_key ` set as \<subseteq> K"
  shows "ingest_within K s s'"
  using assms
proof (induction as arbitrary: n s r s')
  case (Cons a as)
  obtain x s1 where x: "run_adapter_batch lib env (clocks n) a s = (Inr x, s1)"
    using run_adapter_batch_total by blast
  obtain ss s2 where ss: "run_adapter_batches lib env clocks (Suc n) as s1 = (Inr ss, s2)"
    using run_batches_total by blast
  from Cons.prems(1) x ss have "s' = s2" by (auto simp: wbind_def wreturn_def)
  moreover have "ingest_within K s s1"
    using run_batch_within [OF x] Cons.prems(2) by (auto simp: ingest_within_def list_all_iff)
  moreover from Cons.IH [OF ss] Cons.prems(2) have "ingest_within K s1 s2" by simp
  ultimately show ?case by (blast intro: ingest_within_trans)
qed (simp add: wreturn_def ingest_within_same)


lemma run_enabled_within:
  assumes "(sa_key \<circ> snd) ` set adapters \<subseteq> K"
  shows "advances (ingest_within K) (run_enabled_adapter_batches lib env clocks t adapters selected reported w at_time)"
proof -
  have "sa_key ` set (List.map_filter (map_of adapters) ks) \<subseteq> K" for ks
    using assms by (force simp: set_map_filter dest: map_of_SomeD)
  then have "advances (ingest_within K) (run_adapter_batches lib env clocks 0 (List.map_filter (map_of adapters) ks))" for ks
    by (intro advancesI) (rule run_batches_within)
  then show ?thesis
    unfolding run_enabled_adapter_batches_def by (intro ingest_within.rules status_within)
qed

text \<open>Runs are those of the keys asked for that have an adapter, each under the key of its adapter.\<close>

lemma run_enabled_ran:
  assumes "run_enabled_adapter_batches lib env clocks t adapters selected reported w at_time s = (Inr ss, s')"
  obtains ks where "selected = Inr ks"
    and "rs_adapter_key ` set ss = sa_key ` set (List.map_filter (map_of adapters) ks)"
proof -
  from assms obtain ks s1 where ks: "selected = Inr ks"
    and run: "run_adapter_batches lib env clocks 0 (List.map_filter (map_of adapters) ks) s1 = (Inr ss, s')"
    by (auto simp: run_enabled_adapter_batches_def wbind_Inr)
  obtain ss' st' where tot: "run_adapter_batches lib env clocks 0 (List.map_filter (map_of adapters) ks) s1 = (Inr ss', st')"
    "map rs_adapter_key ss' = map sa_key (List.map_filter (map_of adapters) ks)" using run_batches_total by blast
  with run have "map rs_adapter_key ss = map sa_key (List.map_filter (map_of adapters) ks)" by simp
  then have "rs_adapter_key ` set ss = sa_key ` set (List.map_filter (map_of adapters) ks)"
    by (metis list.set_map)
  with ks show thesis by (rule that)
qed

lemma run_enabled_keys:
  assumes "run_enabled_adapter_batches lib env clocks t adapters selected reported w at_time s = (Inr ss, s')"
    and "(sa_key \<circ> snd) ` set adapters \<subseteq> K"
  shows "rs_adapter_key ` set ss \<subseteq> K"
proof -
  obtain ks where "rs_adapter_key ` set ss = sa_key ` set (List.map_filter (map_of adapters) ks)"
    by (rule run_enabled_ran [OF assms(1)])
  also have "\<dots> \<subseteq> K" using assms(2) by (force simp: set_map_filter dest: map_of_SomeD)
  finally show ?thesis .
qed

section \<open>A cycle of one source\<close>

lemma stays_retire_all: "rs_adapter_key ` set xs \<subseteq> K \<Longrightarrow> stays K (retire_all w xs)"
proof (induction xs)
  case (Cons s ss)
  have "stays K (retire_warning_latest w r)" if "rt_adapter_key r \<in> K" for r
    by (rule advancesI)
      (use that in \<open>auto simp: retire_warning_latest_def count_effect_def only_about_def about_def Let_def split: option.splits\<close>)
  with Cons show ?case by (auto intro!: only_about.bind)
qed (simp add: only_about.return)

lemma stays_promote: "set (pq_adapter_keys q) \<subseteq> K \<Longrightarrow> stays K (promote_with_retry env w q)"
proof -
  assume "set (pq_adapter_keys q) \<subseteq> K"
  then have "stays K (promote_staging w q)"
    by (intro advancesI) (auto simp: promote_staging_def count_effect_def only_about_def about_def Let_def split: sum.splits)
  then show ?thesis unfolding promote_with_retry_def
    by (intro only_about.rules)
qed

lemma stays_status:
  "stays K (on_ingest (record_pipeline_status env keys ok fin t))"
  "stays K (on_ingest (record_pipeline_entry env e))"
  "stays K (on_ingest (record_runtime_selection env keys))"
  by (rule stays_ingest, rule status_within)+

lemma stays_statuses: "stays K (record_statuses p checked_at keys summaries ok fin error)"
  by (induction keys arbitrary: checked_at)
    (simp add: only_about.return, unfold record_statuses.simps Let_def, intro only_about.rules stays_status)

lemma stays_revision: "stays K (write_runtime_selection_revision w keys enabled)"
  unfolding write_runtime_selection_revision_def by (intro only_about.rules stays_status)

lemma stays_failed_after: "stays K (failed_after p clock keys reason cycle e)"
  unfolding failed_after_def by (intro only_about.rules stays_statuses)

lemma stays_promote_cycle:
  assumes "set keys \<subseteq> K" "rs_adapter_key ` set (fst cycle) \<subseteq> K"
  shows "stays K (promote_cycle env rq p clock w keys status reason cycle)"
proof -
  have retire: "stays K (retire_all w (filter is_successful_no_active_warning_summary (fst cycle)))"
    by (rule stays_retire_all) (use assms(2) in auto)
  have promote: "stays K (promote_with_retry env w \<lparr> pq_limit = n, pq_adapter_keys = keys, pq_raw_refs = refs \<rparr>)" for n refs
    by (rule stays_promote) (simp add: assms(1))
  have second: "stays K (case x of Inl e \<Rightarrow> failed_after p clock keys s cycle e
      | Inr r \<Rightarrow> wbind (record_statuses p c keys (fst cycle) True b None) (\<lambda>_. wreturn (cycle_result status reason cycle r)))"
    for x :: "(int \<times> string list) outcome" and s c b
    by (cases x) (simp_all only: sum.case stays_failed_after only_about.rules stays_statuses)
  show ?thesis
    unfolding promote_cycle_def Let_def
    by (rule only_about.bind, intro only_about.rules retire)
      (simp split: option.split add: stays_failed_after only_about.rules promote second)
qed


lemma stays_finish:
  assumes "rs_adapter_key ` set (fst cycle) \<subseteq> K" "case pk of None \<Rightarrow> True | Some ks \<Rightarrow> set ks \<subseteq> K"
  shows "stays K (finish_cycle env rq p clock pk missing cycle)"
proof -
  have "set (summary_promotion_keys (fst cycle)) \<subseteq> K"
    using assms(1) by (simp add: summary_promotion_keys_def set_dict_fromkeys)
  then have "set (case pk of None \<Rightarrow> summary_promotion_keys (fst cycle) | Some ks \<Rightarrow> ks) \<subseteq> K"
    using assms(2) by (cases pk) simp_all
  from stays_promote_cycle [OF this assms(1)] show ?thesis
    unfolding finish_cycle_def Let_def
    by (intro advances_if only_about.return) (cases "ps_promotion p"; simp add: only_about.outcome)
qed

lemma stays_scheduled:
  assumes "(sa_key \<circ> snd) ` set adapters \<subseteq> K"
  shows "stays K (execute_scheduled_ingestion_cycle lib env p clock adapters selected reported)"
    and "yields (\<lambda>cycle. rs_adapter_key ` set (fst cycle) \<subseteq> K)
      (execute_scheduled_ingestion_cycle lib env p clock adapters selected reported)"
proof -
  show "stays K (execute_scheduled_ingestion_cycle lib env p clock adapters selected reported)"
    unfolding execute_scheduled_ingestion_cycle_def
    by (intro only_about.rules stays_ingest run_enabled_within assms)
  show "yields (\<lambda>cycle. rs_adapter_key ` set (fst cycle) \<subseteq> K)
      (execute_scheduled_ingestion_cycle lib env p clock adapters selected reported)"
    by (rule yieldsI)
      (auto simp: execute_scheduled_ingestion_cycle_def on_ingest_def wbind_Inr wreturn_eq split: prod.splits
        dest!: run_enabled_keys [OF _ assms])
qed

lemma stays_managed:
  assumes adapters: "mg_adapter_by_key env = Some adapters" "(sa_key \<circ> snd) ` set adapters \<subseteq> K"
    and pk: "case mq_promotion_adapter_keys rq of None \<Rightarrow> True | Some ks \<Rightarrow> set ks \<subseteq> K"
  shows "stays K (execute_managed_runtime_ingestion_cycle lib env rq clock)"
proof -
  have pk': "case map_option (filter P) (mq_promotion_adapter_keys rq) of None \<Rightarrow> True | Some ks \<Rightarrow> set ks \<subseteq> K" for P
    using pk by (cases "mq_promotion_adapter_keys rq") auto
  have "stays K (run_persisted_cycle lib env rq clock p selected reported)" for p selected reported
    unfolding run_persisted_cycle_def Let_def resolve_adapters_def adapters(1) option.case sum.case
    by (intro only_about.bind stays_revision only_about.bind_yields [OF stays_scheduled [OF adapters(2)]]
        stays_finish pk')
  moreover have "stays K (record_source_catalog_unavailable_audit w keys t rev)" for w keys t rev
    unfolding record_source_catalog_unavailable_audit_def
    by (intro only_about.rules stays_revision stays_status)
  ultimately show ?thesis
    unfolding execute_managed_runtime_ingestion_cycle_def Let_def
    by (intro only_about.bind only_about.outcome advances_if)
      (auto split: option.split intro!: only_about.rules stays_revision)
qed

lemma stays_baseline_cycle:
  "stays {key} (run_v1_baseline_adapter_cycle lib env rq clock (Some [key]) [(key, adapter)])"
proof -
  have "stays {key} (execute_managed_runtime_ingestion_cycle lib (env\<lparr> mg_adapter_by_key := Some [(key, adapter)] \<rparr>) rq clock)"
    if "v1_baseline_scope rq (Some [key]) [(key, adapter)]"
    using that by (intro stays_managed) (auto simp: v1_baseline_scope_def)
  then show ?thesis
    unfolding run_v1_baseline_adapter_cycle_def by (intro advances_if only_about.return) simp_all
qed

section \<open>A tick writes about enabled sources only\<close>

lemma stays_failures: "stays K (record_v1_source_failure w key t error)" "stays K (record_all_failures w t' error' keys)"
proof -
  show failure: "stays K (record_v1_source_failure w key t error)" for w key t error
    unfolding record_v1_source_failure_def by (intro only_about.rules stays_status)
  show "stays K (record_all_failures w t' error' keys)"
    by (induction keys) (simp_all add: only_about.return only_about.bind failure)
qed

lemma stays_judge: "stays K (judge_source env clock key r c)"
proof -
  have "stays K (record_coverage env key ref t)" for key ref t
    by (rule advancesI) (auto simp: record_coverage_def count_effect_def only_about_def intro!: about_same split: option.splits)
  then show ?thesis
    unfolding judge_source_def cover_source_def
    by (auto split: option.split intro!: only_about.rules stays_failures)
qed

lemma stays_run_sources: "fst ` set runnable \<subseteq> K \<Longrightarrow> stays K (run_sources lib env clock selection runnable c)"
proof (induction runnable arbitrary: c)
  case (Cons x xs)
  obtain key adapter where x: "x = (key, adapter)" by (cases x)
  have cycle: "stays K (run_v1_baseline_adapter_cycle lib (tk_env env key) (baseline_request key selection)
      (tk_clock env key) (Some [key]) [(key, adapter)])"
    by (rule stays_mono [OF stays_baseline_cycle]) (use Cons.prems x in auto)
  have after: "stays K (case y of Inl e \<Rightarrow> wbind (record_v1_source_failure w key (t e) (Some (fst e))) (\<lambda>_. wreturn (one_failure c))
      | Inr r \<Rightarrow> judge_source env clock key r c)" for y :: "managed_result outcome" and w t
    by (cases y) (auto intro!: only_about.rules stays_failures stays_judge)
  from Cons show ?case unfolding x run_sources.simps
    by (intro only_about.rules cycle after) auto
qed (simp add: only_about.return)

lemma stays_build:
  "stays K (build_sources env clock keys reported runnable c)"
  "yields (\<lambda>(reported', runnable', c'). fst ` set runnable' \<subseteq> fst ` set runnable \<union> set keys)
     (build_sources env clock keys reported runnable c)"
proof -
  show "stays K (build_sources env clock keys reported runnable c)"
    by (induction keys arbitrary: reported runnable c)
      (auto split: sum.split option.split intro!: only_about.rules stays_failures)
  show "yields (\<lambda>(reported', runnable', c'). fst ` set runnable' \<subseteq> fst ` set runnable \<union> set keys)
     (build_sources env clock keys reported runnable c)"
  proof (induction keys arbitrary: reported runnable c)
    case (Cons k ks)
    have rest: "yields (\<lambda>(reported', runnable', c'). fst ` set runnable' \<subseteq> fst ` set runnable \<union> set (k # ks))
        (build_sources env clock ks reported1 runnable1 c1)"
      if "fst ` set runnable1 \<subseteq> insert k (fst ` set runnable)" for reported1 runnable1 c1
      using Cons.IH by (rule triple_weaken) (use that in auto)
    show ?case
    proof (cases "tk_build env k")
      case (Inr adapters)
      then show ?thesis by (cases "map_of adapters k") (simp_all, (rule rest [simplified], auto)+)
    qed (simp, intro yields_then rest [simplified], auto)
  qed (simp add: yields_return)
qed

text \<open>The sources that a tick may run: configured, in scope, enabled in the catalog and due.\<close>

definition sources_on :: "tick_env \<Rightarrow> string list \<Rightarrow> string list" where
  "sources_on env keys =
     (case filter_catalog_enabled_adapter_keys (tk_catalog env)
         (filter (\<lambda>k. k \<in> set v1_baseline_adapter_keys) keys) of
        None \<Rightarrow> []
      | Some enabled \<Rightarrow> filter (\<lambda>k. case tk_due env of None \<Rightarrow> True | Some ks \<Rightarrow> k \<in> set ks) enabled)"

lemma stays_tick:
  assumes "tk_enabled_keys env = Inr keys"
  shows "stays (set (sources_on env keys)) (run_v1_baseline_tick lib env clock t)"
proof -
  let ?configured = "filter (\<lambda>k. k \<in> set v1_baseline_adapter_keys) keys"
  let ?due = "\<lambda>enabled. filter (\<lambda>k. case tk_due env of None \<Rightarrow> True | Some ks \<Rightarrow> k \<in> set ks) enabled"
  have due: "stays (set (?due enabled)) (run_due_sources lib env clock n enabled)" for n enabled
  proof -
    have run: "stays (set (?due enabled)) (run_sources lib env clock sel runnable c)"
      if "fst ` set runnable \<subseteq> set (?due enabled)" for sel runnable c
      using that by (rule stays_run_sources)
    show ?thesis unfolding run_due_sources_def Let_def
      by (rule only_about.bind_yields [OF stays_build])
        (auto simp del: set_filter intro!: only_about.rules stays_status run)
  qed
  have "stays (set (sources_on env keys)) (case filter_catalog_enabled_adapter_keys (tk_catalog env) ?configured of
      None \<Rightarrow> wbind (record_all_failures w u e ?configured) (\<lambda>_. wreturn x)
    | Some enabled \<Rightarrow> run_due_sources lib env clock n enabled)" for w u e x n
    using due by (cases "filter_catalog_enabled_adapter_keys (tk_catalog env) ?configured")
      (simp_all add: sources_on_def only_about.rules stays_failures)
  note catalog = this
  show ?thesis
    unfolding run_v1_baseline_tick_def assms Let_def
    by (rule only_about.bind_yields [where Q = "\<lambda>ks. ks = keys", OF only_about.outcome])
      (simp add: triple_def, hypsubst, intro advances_if only_about.return catalog)
qed

text \<open>
  A tick whose enabled keys can be read only adds to what was written before, and what it adds (run
  summaries, staging batches, retirements and promotion requests) is about sources that are on:
  configured, in the scope of the baseline, enabled in the catalog, and due.
\<close>

theorem tick_writes_about_sources_that_are_on:
  assumes keys: "tk_enabled_keys env = Inr keys"
    and run: "run_v1_baseline_tick lib env clock t st = (r, st')"
  shows "\<exists>ss bs rs qs. is_summaries (mst_ingest st') = is_summaries (mst_ingest st) @ ss
    \<and> is_batches (mst_ingest st') = is_batches (mst_ingest st) @ bs
    \<and> mst_retired st' = mst_retired st @ rs \<and> mst_promotions st' = mst_promotions st @ qs
    \<and> list_all (\<lambda>s. rs_adapter_key s \<in> set (sources_on env keys)) ss
    \<and> list_all (\<lambda>b. sb_adapter_key b \<in> set (sources_on env keys)) bs
    \<and> list_all (\<lambda>r. rt_adapter_key r \<in> set (sources_on env keys)) rs
    \<and> list_all (\<lambda>q. set (pq_adapter_keys q) \<subseteq> set (sources_on env keys)) qs"
  using advancesD [OF stays_tick [OF keys] run] by (auto simp: only_about_def about_def)


section \<open>A cycle that did not fail\<close>

text \<open>The snapshot of a run is named, with its adapter, by a promotion asked for since there were \<open>n\<close>.\<close>

definition promoted_since :: "nat \<Rightarrow> managed_state \<Rightarrow> run_summary \<Rightarrow> bool" where
  "promoted_since n st s \<longleftrightarrow>
     (case rs_raw_ref s of
        None \<Rightarrow> True
      | Some ref \<Rightarrow> list_ex (\<lambda>q. ref \<in> set (pq_raw_refs q) \<and> rs_adapter_key s \<in> set (pq_adapter_keys q))
          (drop n (mst_promotions st)))"

text \<open>A run that staged what it fetched, and a cycle whose runs all passed.\<close>

definition staged_run :: "run_summary \<Rightarrow> bool" where
  "staged_run s \<longleftrightarrow> rs_status s \<in> {BatchSucceeded, BatchPartial}"

definition all_passed :: "managed_result \<Rightarrow> bool" where
  "all_passed r \<longleftrightarrow>
     mr_summaries r \<noteq> [] \<and> list_all (\<lambda>s. rs_status s \<noteq> BatchFailed) (mr_summaries r)
     \<and> mr_reason r = None \<and> mr_error_code r = None"

text \<open>What a cycle that reports success promises, of the promotions as far as adapters in \<open>K\<close> go.\<close>

definition promises :: "string set \<Rightarrow> nat \<Rightarrow> managed_request \<Rightarrow> managed_result \<Rightarrow> managed_state \<Rightarrow> bool" where
  "promises K n rq r st \<longleftrightarrow>
     (mr_status r \<in> {ManagedSucceeded, ManagedPartial} \<longrightarrow>
        all_passed r
        \<and> (mq_promote rq \<longrightarrow>
             list_all (\<lambda>s. staged_run s \<and> rs_adapter_key s \<in> K \<longrightarrow> promoted_since n st s) (mr_summaries r)))"

abbreviation delivers :: "string set \<Rightarrow> nat \<Rightarrow> managed_request \<Rightarrow> managed_result managed \<Rightarrow> bool" where
  "delivers K n rq m \<equiv> triple (\<lambda>st. n \<le> length (mst_promotions st)) m (promises K n rq) (\<lambda>_. True)"

lemma promotions_grow:
  assumes "stays UNIV m"
  shows "triple (\<lambda>st. n \<le> length (mst_promotions st)) m (\<lambda>_ st. n \<le> length (mst_promotions st))
     (\<lambda>st. n \<le> length (mst_promotions st))"
  unfolding triple_def
proof (intro allI impI)
  fix st :: managed_state assume n: "n \<le> length (mst_promotions st)"
  obtain r st' where m: "m st = (r, st')" by (cases "m st")
  from advancesD [OF assms m] obtain xs where "mst_promotions st' = mst_promotions st @ xs"
    by (auto simp: only_about_def about_def)
  with n m show "case m st of (Inl _, st') \<Rightarrow> n \<le> length (mst_promotions st')
      | (Inr _, st') \<Rightarrow> n \<le> length (mst_promotions st')"
    by (cases r) simp_all
qed

lemma delivers_then:
  assumes "stays UNIV m" and "\<And>a. delivers K n rq (f a)"
  shows "delivers K n rq (wbind m f)"
  by (rule triple_bind [OF triple_weaken [OF promotions_grow [OF assms(1)]] assms(2)]) simp_all

lemma delivers_then_yields:
  assumes "stays UNIV m" and "yields Q m" and "\<And>a. Q a \<Longrightarrow> delivers K n rq (f a)"
  shows "delivers K n rq (wbind m f)"
proof (rule triple_bind)
  have "triple (\<lambda>st. n \<le> length (mst_promotions st)) m (\<lambda>a _. Q a) (\<lambda>_. True)"
    by (rule triple_weaken [OF assms(2)]) simp_all
  from triple_both [OF this promotions_grow [OF assms(1)]]
  show "triple (\<lambda>st. n \<le> length (mst_promotions st)) m
      (\<lambda>a st. Q a \<and> n \<le> length (mst_promotions st)) (\<lambda>_. True)" .
  show "triple (\<lambda>st. Q a \<and> n \<le> length (mst_promotions st)) (f a) (promises K n rq) (\<lambda>_. True)" for a
    by (cases "Q a") (simp_all add: assms(3), simp add: triple_def)
qed

lemma delivers_raise: "delivers K n rq (\<lambda>st. (Inl e, st))"
  by (simp add: triple_def)

lemma delivers_return: "(\<And>st. promises K n rq r st) \<Longrightarrow> delivers K n rq (wreturn r)"
  by (simp add: triple_return)

lemma promises_bare [simp]: "s \<notin> {ManagedSucceeded, ManagedPartial} \<Longrightarrow> promises K n rq (bare_result s x) st"
  "s \<notin> {ManagedSucceeded, ManagedPartial} \<Longrightarrow> promises K n rq ((bare_result s x)\<lparr> mr_error_code := y \<rparr>) st"
  "promises K n rq ((cycle_result ManagedFailed x c q)\<lparr> mr_error_code := y, mr_error_message := z \<rparr>) st"
  by (simp_all add: promises_def bare_result_def cycle_result_def)

lemma delivers_failed_after: "delivers K n rq (failed_after p clock keys reason cycle e)"
  unfolding failed_after_def by (rule delivers_then [OF stays_statuses], rule delivers_return) simp

text \<open>What a cycle that goes on to promote is known to be.\<close>

definition passing :: "managed_status \<Rightarrow> string option \<Rightarrow> run_summary list \<Rightarrow> bool" where
  "passing status reason ss \<longleftrightarrow>
     (status \<in> {ManagedSucceeded, ManagedPartial} \<longrightarrow>
        ss \<noteq> [] \<and> list_all (\<lambda>s. rs_status s \<noteq> BatchFailed) ss \<and> reason = None)"

lemma passing_cycle:
  "passing (if missing \<noteq> [] then ManagedFailed else status_from_cycle ss) (reason_from_cycle ss missing) ss"
  by (auto simp: passing_def status_from_cycle_def reason_from_cycle_def list_all_iff list_ex_iff split: if_splits)

lemma promises_cycle:
  assumes "passing status reason (fst cycle)"
    and "mq_promote rq \<Longrightarrow> status \<in> {ManagedSucceeded, ManagedPartial} \<Longrightarrow>
      list_all (\<lambda>s. staged_run s \<and> rs_adapter_key s \<in> K \<longrightarrow> promoted_since n st s) (fst cycle)"
  shows "promises K n rq (cycle_result status reason cycle q) st"
  using assms by (auto simp: promises_def all_passed_def passing_def cycle_result_def bare_result_def)

lemma promote_with_retry_promotes:
  "triple (\<lambda>st. n \<le> length (mst_promotions st)) (promote_with_retry env w q)
     (\<lambda>_ st. q \<in> set (drop n (mst_promotions st))) (\<lambda>_. True)"
proof -
  have attempt: "triple (\<lambda>st. n \<le> length (mst_promotions st)) (promote_staging w q)
      (\<lambda>_ st. q \<in> set (drop n (mst_promotions st))) (\<lambda>st. n \<le> length (mst_promotions st))"
    by (simp add: triple_def promote_staging_def count_effect_def Let_def split: sum.split prod.split)
  show ?thesis unfolding promote_with_retry_def
    by (rule triple_catch [OF attempt], rule triple_if, rule triple_weaken [OF attempt]) (simp_all add: triple_def)
qed

lemma statuses_keep_promotions:
  "triple (\<lambda>st. P (mst_promotions st)) (record_statuses p checked_at keys summaries ok fin error)
     (\<lambda>_ st. P (mst_promotions st)) (\<lambda>_. True)"
proof (induction keys arbitrary: checked_at)
  case (Cons k ks)
  have "triple (\<lambda>st. P (mst_promotions st)) (on_ingest m) (\<lambda>_ st. P (mst_promotions st)) (\<lambda>_. True)"
    for m :: "(ingest_state, unit) step"
    by (auto simp: triple_def on_ingest_def split: prod.splits sum.splits)
  with Cons show ?case unfolding record_statuses.simps Let_def by (intro triple_if triple_bind)
qed (simp add: triple_return)

text \<open>The keys of a promotion have to cover the runs that are to be promoted.\<close>

lemma delivers_promote_cycle:
  assumes ok: "passing status reason (fst cycle)"
    and keys: "status \<in> {ManagedSucceeded, ManagedPartial} \<Longrightarrow> rs_adapter_key ` set (fst cycle) \<inter> K \<subseteq> set keys"
  shows "delivers K n rq (promote_cycle env rq p clock w keys status reason cycle)"
proof -
  let ?refs = "current_raw_refs keys (fst cycle)"
  let ?q = "\<lparr> pq_limit = mq_promotion_limit rq, pq_adapter_keys = keys, pq_raw_refs = ?refs \<rparr>"
  let ?P = "\<lambda>qs. ?refs \<noteq> [] \<longrightarrow> ?q \<in> set (drop n qs)"
  have all: "promises K n rq (cycle_result status reason cycle r) st" if q: "?P (mst_promotions st)" for r st
  proof (rule promises_cycle [OF ok])
    assume "status \<in> {ManagedSucceeded, ManagedPartial}"
    note keys = keys [OF this]
    have "promoted_since n st s" if s: "s \<in> set (fst cycle)" "staged_run s" "rs_adapter_key s \<in> K" for s
    proof (cases "rs_raw_ref s")
      case (Some ref)
      have k: "rs_adapter_key s \<in> set keys" using s(1,3) keys by auto
      then have ref: "ref \<in> set ?refs" using s(1,2) Some by (auto simp: current_raw_refs_iff staged_run_def)
      then have "?q \<in> set (drop n (mst_promotions st))" using q by auto
      with ref k show ?thesis by (auto simp: promoted_since_def Some list_ex_iff intro: bexI [of _ ?q])
    qed (simp add: promoted_since_def)
    then show "list_all (\<lambda>s. staged_run s \<and> rs_adapter_key s \<in> K \<longrightarrow> promoted_since n st s) (fst cycle)"
      by (simp add: list_all_iff)
  qed
  have fine: "triple (\<lambda>st. ?P (mst_promotions st)) (wbind (record_statuses p c keys (fst cycle) True b None)
      (\<lambda>_. wreturn (cycle_result status reason cycle r))) (promises K n rq) (\<lambda>_. True)" for c b r
    by (rule triple_bind [OF statuses_keep_promotions], rule triple_return, rule all)
  let ?Q = "\<lambda>x st. n \<le> length (mst_promotions st) \<and> (case x of Inl _ \<Rightarrow> True | Inr _ \<Rightarrow> ?P (mst_promotions st))"
  have grow: "stays UNIV (wcatch (wbind (if ?refs = [] then wreturn (0, []) else promote_with_retry env w ?q)
        (\<lambda>r. wreturn (Inr r))) (\<lambda>e. wreturn (Inl e)))"
    by (intro only_about.rules stays_promote) simp
  have "triple (\<lambda>st. n \<le> length (mst_promotions st))
      (wcatch (wbind (if ?refs = [] then wreturn (0, []) else promote_with_retry env w ?q)
        (\<lambda>r. wreturn (Inr r))) (\<lambda>e. wreturn (Inl e)))
      (\<lambda>x st. case x of Inl _ \<Rightarrow> True | Inr _ \<Rightarrow> ?P (mst_promotions st)) (\<lambda>_. True)"
    by (rule triple_catch, rule triple_bind [where R = "\<lambda>_ st. ?P (mst_promotions st)"], rule triple_if,
        simp add: triple_return, rule triple_weaken [OF promote_with_retry_promotes]) (simp_all add: triple_return)
  note tried = triple_both [OF promotions_grow [OF grow] this]
  have second: "triple (?Q x) (case x of Inl e \<Rightarrow> failed_after p clock keys u cycle e
       | Inr r \<Rightarrow> wbind (record_statuses p c keys (fst cycle) True b None) (\<lambda>_. wreturn (cycle_result status reason cycle r)))
      (promises K n rq) (\<lambda>_. True)" for x :: "(int \<times> string list) outcome" and u c b
  proof (cases x)
    case (Inl e)
    then show ?thesis by (simp only: sum.case simp_thms delivers_failed_after)
  next
    case (Inr r)
    then show ?thesis by (simp only: sum.case) (rule triple_weaken [OF fine], simp_all)
  qed
  have quiet: "stays UNIV (wcatch (wbind (retire_all w xs) (\<lambda>_. wreturn None)) (\<lambda>e. wreturn (Some e)))" for xs
    by (intro only_about.rules stays_retire_all) simp
  show ?thesis
    unfolding promote_cycle_def Let_def
    by (rule delivers_then [OF quiet])
      (simp only: split: option.split, simp only: delivers_failed_after triple_bind [OF tried second] simp_thms)
qed

lemma delivers_finish:
  assumes "missing = [] \<Longrightarrow> (case pk of None \<Rightarrow> True | Some ks \<Rightarrow> rs_adapter_key ` set (fst cycle) \<inter> K \<subseteq> set ks)"
  shows "delivers K n rq (finish_cycle env rq p clock pk missing cycle)"
proof -
  let ?status = "if missing \<noteq> [] then ManagedFailed else status_from_cycle (fst cycle)"
  let ?reason = "reason_from_cycle (fst cycle) missing"
  let ?keys = "case pk of None \<Rightarrow> summary_promotion_keys (fst cycle) | Some ks \<Rightarrow> ks"
  have keys: "?status \<in> {ManagedSucceeded, ManagedPartial} \<Longrightarrow> rs_adapter_key ` set (fst cycle) \<inter> K \<subseteq> set ?keys"
    using assms by (cases pk) (auto simp: summary_promotion_keys_def split: if_splits)
  have quiet: "delivers K n rq (wreturn (cycle_result ?status ?reason cycle (0, [])))"
    if "mq_promote rq \<Longrightarrow> fst cycle \<noteq> [] \<Longrightarrow> ?keys = []"
  proof (rule delivers_return, rule promises_cycle [OF passing_cycle])
    fix st assume "mq_promote rq" "?status \<in> {ManagedSucceeded, ManagedPartial}"
    with that keys show "list_all (\<lambda>s. staged_run s \<and> rs_adapter_key s \<in> K \<longrightarrow> promoted_since n st s) (fst cycle)"
      by (cases "fst cycle = []") (auto simp: list_all_iff)
  qed
  have promote: "delivers K n rq (case ps_promotion p of
        None \<Rightarrow> (\<lambda>st. (Inl e, st)) | Some w \<Rightarrow> promote_cycle env rq p clock w ?keys ?status ?reason cycle)" for e
    by (cases "ps_promotion p")
      (simp_all only: option.case delivers_raise delivers_promote_cycle [OF passing_cycle keys])
  show ?thesis
    unfolding finish_cycle_def Let_def by (intro triple_if quiet promote) auto
qed

text \<open>
  What the filter of a cycle lets through, of the runs of one in which no selected adapter is missing:
  a step on its way from the selection and the adapters to the summaries.
\<close>

definition lets_through :: "text_library \<Rightarrow> managed_env \<Rightarrow> managed_clock \<Rightarrow> string list option \<Rightarrow> string set \<Rightarrow> bool" where
  "lets_through lib env clock pk K \<longleftrightarrow>
     (\<forall>ks p selected reported adapters. pk = Some ks \<longrightarrow> selected \<noteq> [] \<longrightarrow>
        resolve_adapters env selected = Inr (Some adapters) \<longrightarrow>
        filter (\<lambda>k. map_of adapters k = None) selected = [] \<longrightarrow>
        yields (\<lambda>cycle. rs_adapter_key ` set (fst cycle) \<inter> K \<subseteq> set ks \<inter> set selected)
          (execute_scheduled_ingestion_cycle lib env p clock adapters selected reported))"

lemma delivers_managed:
  assumes lets: "lets_through lib env clock (mq_promotion_adapter_keys rq) K"
  shows "delivers K n rq (execute_managed_runtime_ingestion_cycle lib env rq clock)"
proof -
  have "delivers K n rq (run_persisted_cycle lib env rq clock p selected reported)"
    if "selected \<noteq> []" for p selected reported
  proof -
    let ?missing = "\<lambda>adapters. filter (\<lambda>k. map_of adapters k = None) selected"
    let ?pk = "map_option (filter (\<lambda>k. k \<in> set selected)) (mq_promotion_adapter_keys rq)"
    have ran: "delivers K n rq (wbind (execute_scheduled_ingestion_cycle lib env p clock adapters selected reported)
        (finish_cycle env rq p clock ?pk (?missing adapters)))"
      if a: "resolve_adapters env selected = Inr (Some adapters)" for adapters
    proof (rule delivers_then_yields [OF stays_scheduled(1)])
      show "yields (\<lambda>cycle. ?missing adapters = [] \<longrightarrow> (case ?pk of None \<Rightarrow> True
          | Some ks \<Rightarrow> rs_adapter_key ` set (fst cycle) \<inter> K \<subseteq> set ks))
          (execute_scheduled_ingestion_cycle lib env p clock adapters selected reported)"
      proof (cases "mq_promotion_adapter_keys rq")
        case None
        then show ?thesis by (simp add: yields_any)
      next
        case (Some ks)
        show ?thesis
        proof (cases "?missing adapters = []")
          case True
          with lets [unfolded lets_through_def] Some \<open>selected \<noteq> []\<close> a
          have "yields (\<lambda>cycle. rs_adapter_key ` set (fst cycle) \<inter> K \<subseteq> set ks \<inter> set selected)
              (execute_scheduled_ingestion_cycle lib env p clock adapters selected reported)" by blast
          then show ?thesis by (rule triple_weaken) (auto simp: Some)
        qed (simp add: yields_any)
      qed
      show "delivers K n rq (finish_cycle env rq p clock ?pk (?missing adapters) cycle)"
        if "?missing adapters = [] \<longrightarrow> (case ?pk of None \<Rightarrow> True
          | Some ks \<Rightarrow> rs_adapter_key ` set (fst cycle) \<inter> K \<subseteq> set ks)" for cycle
        using that by (intro delivers_finish) blast
    qed simp
    show ?thesis unfolding run_persisted_cycle_def Let_def
      by (rule delivers_then [OF stays_revision])
        (auto split: sum.split option.split intro!: ran delivers_then delivers_raise delivers_return stays_status)
  qed
  note persisted = this
  have skip: "delivers K n rq (wbind (write_runtime_selection_revision w keys rev) (\<lambda>_. wreturn (bare_result ManagedSkipped u)))"
    for w keys rev u
    by (rule delivers_then [OF stays_revision], rule delivers_return) simp
  have "stays UNIV (record_source_catalog_unavailable_audit w keys t rev)" for w keys t rev
    unfolding record_source_catalog_unavailable_audit_def
    by (intro only_about.rules stays_revision stays_status)
  then have lost: "delivers K n rq (wbind (record_source_catalog_unavailable_audit w keys t rev)
      (\<lambda>_. wreturn ((bare_result ManagedFailed u)\<lparr> mr_error_code := v \<rparr>)))" for w keys t rev u v
    by (rule delivers_then, intro delivers_return) simp
  show ?thesis
    unfolding execute_managed_runtime_ingestion_cycle_def Let_def
    by (rule delivers_then [OF only_about.outcome], intro triple_if skip)
      (simp split: option.split add: skip lost persisted)
qed

text \<open>Three ways through the filter: there is none, the sources keep to their keys, there is one source.\<close>

definition keeps_to_keys :: "managed_env \<Rightarrow> bool" where
  "keeps_to_keys env \<longleftrightarrow>
     (\<forall>selected ks. mg_enabled_keys env (Some selected) = Inr ks \<longrightarrow> set ks \<subseteq> set selected)
     \<and> (\<forall>selected adapters k a. resolve_adapters env selected = Inr (Some adapters) \<longrightarrow>
          map_of adapters k = Some a \<longrightarrow> sa_key a = k)"

lemma scheduled_ran:
  "yields (\<lambda>cycle. \<exists>ks. mg_enabled_keys env (Some selected) = Inr ks
       \<and> rs_adapter_key ` set (fst cycle) = sa_key ` set (List.map_filter (map_of adapters) ks))
     (execute_scheduled_ingestion_cycle lib env p clock adapters selected reported)"
  by (rule yieldsI)
    (auto simp: execute_scheduled_ingestion_cycle_def on_ingest_def wbind_Inr wreturn_eq split: prod.splits
      elim!: run_enabled_ran)

lemma lets_through_none: "lets_through lib env clock None K"
  by (simp add: lets_through_def)

lemma lets_through_own_keys:
  assumes "keeps_to_keys env"
  shows "lets_through lib env clock (Some ks) (set ks)"
  unfolding lets_through_def
proof (intro allI impI)
  fix ks' p selected reported adapters
  assume ks: "Some ks = Some ks'" and a: "resolve_adapters env selected = Inr (Some adapters)"
  from assms a have own: "map_of adapters k = Some a \<Longrightarrow> sa_key a = k" for k a
    unfolding keeps_to_keys_def by blast
  from assms have asked: "mg_enabled_keys env (Some selected) = Inr es \<Longrightarrow> set es \<subseteq> set selected" for es
    unfolding keeps_to_keys_def by blast
  have "sa_key ` set (List.map_filter (map_of adapters) es) \<subseteq> set es" for es
    using own by (force simp: set_map_filter)
  with asked ks show "yields (\<lambda>cycle. rs_adapter_key ` set (fst cycle) \<inter> set ks \<subseteq> set ks' \<inter> set selected)
      (execute_scheduled_ingestion_cycle lib env p clock adapters selected reported)"
    by (intro triple_weaken [OF scheduled_ran]) (simp, blast, simp)
qed

lemma lets_through_one:
  assumes "sa_key adapter = key" and pk: "pk \<in> {None, Some [key]}"
  shows "lets_through lib (env\<lparr> mg_adapter_by_key := Some [(key, adapter)] \<rparr>) clock pk UNIV"
  unfolding lets_through_def
proof (intro allI impI)
  fix ks p selected reported adapters
  let ?env = "env\<lparr> mg_adapter_by_key := Some [(key, adapter)] \<rparr>"
  assume ks: "pk = Some ks" and sel: "selected \<noteq> []" and "resolve_adapters ?env selected = Inr (Some adapters)"
    and none: "filter (\<lambda>k. map_of adapters k = None) selected = []"
  then have a: "adapters = [(key, adapter)]" by (simp add: resolve_adapters_def)
  from none have "\<forall>k\<in>set selected. k = key" by (auto simp: a filter_empty_conv split: if_splits)
  with sel have k: "key \<in> set selected" by (cases selected) auto
  have "(sa_key \<circ> snd) ` set adapters \<subseteq> {key}" using assms(1) by (simp add: a)
  from stays_scheduled(2) [OF this]
  show "yields (\<lambda>cycle. rs_adapter_key ` set (fst cycle) \<inter> UNIV \<subseteq> set ks \<inter> set selected)
      (execute_scheduled_ingestion_cycle lib ?env p clock adapters selected reported)"
    by (rule triple_weaken) (use ks pk k in auto)
qed

lemma managed_promises:
  assumes "lets_through lib env clock (mq_promotion_adapter_keys rq) K"
    and "execute_managed_runtime_ingestion_cycle lib env rq clock st = (Inr r, st')"
  shows "promises K (length (mst_promotions st)) rq r st'"
  using tripleD [OF delivers_managed [OF assms(1)] order_refl assms(2)] by (simp only: sum.case)

lemma baseline_promises:
  assumes run: "run_v1_baseline_adapter_cycle lib env rq clock configured adapters st = (Inr r, st')"
    and ok: "mr_status r \<in> {ManagedSucceeded, ManagedPartial}"
  shows "promises UNIV (length (mst_promotions st)) rq r st'"
proof -
  have scope: "v1_baseline_scope rq configured adapters"
    using run ok by (auto simp: run_v1_baseline_adapter_cycle_def invalid_v1_baseline_scope_result_def
        bare_result_def wreturn_def split: if_splits)
  then obtain key adapter where one: "adapters = [(key, adapter)]" "sa_key adapter = key"
    "mq_promotion_adapter_keys rq \<in> {None, Some [key]}"
    by (cases adapters; cases "tl adapters") (auto simp: v1_baseline_scope_def)
  from run scope show ?thesis
    unfolding run_v1_baseline_adapter_cycle_def one(1)
    by (simp only: if_True) (rule managed_promises [OF lets_through_one [OF one(2,3)]])
qed

text \<open>
  C27. A managed cycle that reports success, full or partial, ran at least one source, none of its runs
  failed, and it reports no reason and no error code. Where it is to promote, every snapshot that one
  of its successful or partial runs staged was handed to the promotion by this very cycle, in a request
  that names the snapshot and the run's adapter: for the cycle of one baseline source, which is what
  the production tick runs with the source as its own filter, without further condition (the scope
  check admits no other filter, and a cycle whose source is not selected is not a success); for the
  general cycle without a filter, likewise; and for the general cycle with a filter, of the adapters
  that the filter names, if the enabled keys are among those configured and each adapter is found under
  its own key.
\<close>

theorem managed_success_is_promoted:
  assumes ok: "mr_status r \<in> {ManagedSucceeded, ManagedPartial}"
  shows "(run_v1_baseline_adapter_cycle lib env rq clock configured adapters st = (Inr r, st') \<longrightarrow>
      all_passed r
      \<and> (mq_promote rq \<longrightarrow> list_all
           (\<lambda>s. staged_run s \<longrightarrow> promoted_since (length (mst_promotions st)) st' s) (mr_summaries r)))
    \<and> (execute_managed_runtime_ingestion_cycle lib env rq clock st = (Inr r, st') \<longrightarrow>
      all_passed r
      \<and> (mq_promote rq \<and> mq_promotion_adapter_keys rq = None \<longrightarrow> list_all
           (\<lambda>s. staged_run s \<longrightarrow> promoted_since (length (mst_promotions st)) st' s) (mr_summaries r))
      \<and> (\<forall>ks. mq_promote rq \<and> mq_promotion_adapter_keys rq = Some ks \<and> keeps_to_keys env \<longrightarrow> list_all
           (\<lambda>s. staged_run s \<and> rs_adapter_key s \<in> set ks \<longrightarrow>
              promoted_since (length (mst_promotions st)) st' s) (mr_summaries r)))"
proof (intro conjI impI allI)
  let ?n = "length (mst_promotions st)"
  assume "run_v1_baseline_adapter_cycle lib env rq clock configured adapters st = (Inr r, st')"
  note p = baseline_promises [OF this ok, unfolded promises_def, rule_format, OF ok]
  show "all_passed r" using p by (rule conjunct1)
  assume "mq_promote rq"
  with p show "list_all (\<lambda>s. staged_run s \<longrightarrow> promoted_since ?n st' s) (mr_summaries r)" by simp
next
  let ?n = "length (mst_promotions st)"
  assume run: "execute_managed_runtime_ingestion_cycle lib env rq clock st = (Inr r, st')"
  have empty: "lets_through lib env clock pk {}" for pk
    by (simp add: lets_through_def yields_any)
  show "all_passed r"
    using managed_promises [OF empty run, unfolded promises_def, rule_format, OF ok] by (rule conjunct1)
  show "list_all (\<lambda>s. staged_run s \<longrightarrow> promoted_since ?n st' s) (mr_summaries r)"
    if "mq_promote rq \<and> mq_promotion_adapter_keys rq = None"
    using managed_promises [OF _ run, of UNIV, unfolded promises_def] that ok lets_through_none by auto
  show "list_all (\<lambda>s. staged_run s \<and> rs_adapter_key s \<in> set ks \<longrightarrow> promoted_since ?n st' s) (mr_summaries r)"
    if "mq_promote rq \<and> mq_promotion_adapter_keys rq = Some ks \<and> keeps_to_keys env" for ks
    using managed_promises [OF _ run, of "set ks", unfolded promises_def] that ok
      lets_through_own_keys [of env lib clock ks] by auto
qed

section \<open>Witnesses of the outcomes\<close>

lemma tick_writes_about_sources_that_are_on_witness:
  "list_all (\<lambda>s. rs_adapter_key s \<in> {''official.ncdr.cap'', ''official.cwa.rainfall''})
     (is_summaries (mst_ingest (snd sample_tick)))"
proof -
  have keys: "tk_enabled_keys sample_tick_env = Inr [''official.ncdr.cap'', ''official.cwa.rainfall'', ''local.unknown'']"
    by (simp add: sample_tick_env_def)
  have "set (sources_on sample_tick_env [''official.ncdr.cap'', ''official.cwa.rainfall'', ''local.unknown''])
      = {''official.ncdr.cap'', ''official.cwa.rainfall''}"
    by code_simp
  with tick_writes_about_sources_that_are_on [OF keys sample_tick_eq] show ?thesis
    by (auto simp: nothing_managed_def nothing_written_def)
qed

text \<open>The cycle of the tick for one source, whose filter is that source, promotes its snapshot.\<close>

definition sample_baseline_run :: "managed_result outcome \<times> managed_state" where
  "sample_baseline_run = run_v1_baseline_adapter_cycle sample_library (sample_managed_env ''official.ncdr.cap'')
     (baseline_request ''official.ncdr.cap'' [''official.ncdr.cap'']) sample_managed_clock
     (Some [''official.ncdr.cap'']) [(''official.ncdr.cap'', sample_cap_adapter ''Update'')] nothing_managed"

lemma sample_baseline_run_eq:
  "run_v1_baseline_adapter_cycle sample_library (sample_managed_env ''official.ncdr.cap'')
     (baseline_request ''official.ncdr.cap'' [''official.ncdr.cap'']) sample_managed_clock
     (Some [''official.ncdr.cap'']) [(''official.ncdr.cap'', sample_cap_adapter ''Update'')] nothing_managed
   = (Inr (projr (fst sample_baseline_run)), snd sample_baseline_run)"
  "execute_managed_runtime_ingestion_cycle sample_library (sample_managed_env ''official.ncdr.cap'')
     (baseline_request ''official.ncdr.cap'' [''official.ncdr.cap'']) sample_managed_clock nothing_managed
   = (Inr (projr (fst sample_baseline_run)), snd sample_baseline_run)"
proof -
  have "isl (fst sample_baseline_run) = False" by code_simp
  then show run: "run_v1_baseline_adapter_cycle sample_library (sample_managed_env ''official.ncdr.cap'')
      (baseline_request ''official.ncdr.cap'' [''official.ncdr.cap'']) sample_managed_clock
      (Some [''official.ncdr.cap'']) [(''official.ncdr.cap'', sample_cap_adapter ''Update'')] nothing_managed
      = (Inr (projr (fst sample_baseline_run)), snd sample_baseline_run)"
    by (cases "fst sample_baseline_run") (simp_all add: sample_baseline_run_def prod_eq_iff)
  have "v1_baseline_scope (baseline_request ''official.ncdr.cap'' [''official.ncdr.cap''])
      (Some [''official.ncdr.cap'']) [(''official.ncdr.cap'', sample_cap_adapter ''Update'')]" by code_simp
  moreover have "(sample_managed_env ''official.ncdr.cap'')
      \<lparr> mg_adapter_by_key := Some [(''official.ncdr.cap'', sample_cap_adapter ''Update'')] \<rparr>
      = sample_managed_env ''official.ncdr.cap''" by (simp add: sample_managed_env_def)
  ultimately show "execute_managed_runtime_ingestion_cycle sample_library (sample_managed_env ''official.ncdr.cap'')
      (baseline_request ''official.ncdr.cap'' [''official.ncdr.cap'']) sample_managed_clock nothing_managed
      = (Inr (projr (fst sample_baseline_run)), snd sample_baseline_run)"
    using run by (simp only: run_v1_baseline_adapter_cycle_def if_True)
qed

lemma managed_success_is_promoted_witness:
  "mr_status (projr (fst sample_baseline_run)) = ManagedSucceeded
   \<and> keeps_to_keys (sample_managed_env ''official.ncdr.cap'')
   \<and> mr_summaries (projr (fst sample_baseline_run)) \<noteq> []
   \<and> list_all (\<lambda>s. staged_run s \<and> rs_raw_ref s \<noteq> None \<and> promoted_since 0 (snd sample_baseline_run) s)
       (mr_summaries (projr (fst sample_baseline_run)))"
proof -
  let ?r = "projr (fst sample_baseline_run)"
  let ?rq = "baseline_request ''official.ncdr.cap'' [''official.ncdr.cap'']"
  have ok: "mr_status ?r = ManagedSucceeded" by code_simp
  have rq: "mq_promote ?rq" "mq_promotion_adapter_keys ?rq = Some [''official.ncdr.cap'']"
    by (simp_all add: baseline_request_def)
  have keeps: "keeps_to_keys (sample_managed_env ''official.ncdr.cap'')"
    by (auto simp: keeps_to_keys_def sample_managed_env_def resolve_adapters_def sample_cap_adapter_def split: if_splits)
  have "all_passed ?r" "list_all (\<lambda>s. staged_run s \<longrightarrow> promoted_since 0 (snd sample_baseline_run) s) (mr_summaries ?r)"
    using managed_success_is_promoted [THEN conjunct1, THEN mp, OF _ sample_baseline_run_eq(1)] ok rq(1)
    by (simp_all add: nothing_managed_def)
  moreover have "list_all (\<lambda>s. staged_run s \<and> rs_adapter_key s \<in> set [''official.ncdr.cap''] \<longrightarrow>
      promoted_since 0 (snd sample_baseline_run) s) (mr_summaries ?r)"
    using managed_success_is_promoted [THEN conjunct2, THEN mp, OF _ sample_baseline_run_eq(2)] ok rq keeps
    by (simp add: nothing_managed_def)
  moreover have "list_all (\<lambda>s. staged_run s \<and> rs_raw_ref s \<noteq> None) (mr_summaries ?r)" by code_simp
  ultimately show ?thesis using ok keeps by (simp add: list_all_iff all_passed_def)
qed

end
