(* ===== verification/Promotion_Rules.thy ===== *)
theory Promotion_Rules
  imports Batch_Ingestion Risk_Scoring
begin

text \<open>
  The rules by which the promotion of staged evidence (\<open>apps/workers/app/pipelines/promotion.py\<close>) judges
  a candidate without the database: its identity as a station or as a warning message, its geometry,
  its times, and what it would publish. The text of a GeoJSON geometry is the dictionary it was printed
  from. An infinite number has no place among the rational numbers.
\<close>

section \<open>Environment\<close>

text \<open>
  Library functions and what PostgreSQL and PostGIS answer: \<open>float\<close> of a text, the digest of a message,
  \<open>str(UUID(text))\<close>, the text of a JSON value that is no string, a text cast to \<open>timestamptz\<close>, a point as
  it is read back, points within 150 metres, the validity of an area, and the reviewed areas.
\<close>

record promotion_env =
  pv_text :: text_library
  pv_float :: "string \<Rightarrow> rat option"
  pv_digest :: "string \<Rightarrow> string \<Rightarrow> int \<Rightarrow> string"
  pv_uuid :: "string \<Rightarrow> string option"
  pv_json_text :: "py_value \<Rightarrow> string"
  pv_timestamptz :: "string \<Rightarrow> int option"
  pv_stored_point :: "py_dict \<Rightarrow> py_value"
  pv_near :: "py_value \<Rightarrow> py_dict \<Rightarrow> bool"
  pv_valid_area :: "py_dict \<Rightarrow> bool"
  pv_admin_area :: "py_dict \<Rightarrow> (py_value \<times> py_value \<times> py_value) option"
  pv_warning_boundary :: "string \<Rightarrow> (py_dict \<times> py_dict) option"
  pv_ncdr_boundary :: "string \<Rightarrow> (py_dict \<times> py_dict \<times> string \<times> string \<times> string) option"

record promotion_payload =
  pp_data_source_id :: "string option"
  pp_adapter_key :: "string option"
  pp_source_id :: string
  pp_source_type :: string
  pp_event_type :: string
  pp_title :: string
  pp_summary :: string
  pp_url :: "string option"
  pp_occurred_at :: "py_datetime option"
  pp_observed_at :: "py_datetime option"
  pp_confidence :: rat
  pp_raw_ref :: "string option"
  pp_properties :: py_dict

definition property :: "promotion_payload \<Rightarrow> string \<Rightarrow> py_value" where
  "property p k = dict_get (pp_properties p) k"

section \<open>Values\<close>

definition optional_text :: "promotion_env \<Rightarrow> py_value \<Rightarrow> string option" where
  "optional_text env v =
     (if v = PyNone then None
      else let t = strip_str (str_of (pv_text env) v) in if t = [] then None else Some t)"

definition optional_float :: "promotion_env \<Rightarrow> py_value \<Rightarrow> rat option" where
  "optional_float env v =
     (case v of
        PyBool b \<Rightarrow> Some (if b then 1 else 0)
      | PyInt n \<Rightarrow> Some (of_int n)
      | PyFloat x \<Rightarrow> Some x
      | PyStr s \<Rightarrow> if s = [] then None else pv_float env s
      | _ \<Rightarrow> None)"

text \<open>The instant of a value with a time zone.\<close>

definition aware_instant :: "py_datetime option \<Rightarrow> int option" where
  "aware_instant t = (case t of Some (Aware a) \<Rightarrow> Some (instant a) | _ \<Rightarrow> None)"

definition parse_aware :: "promotion_env \<Rightarrow> py_value \<Rightarrow> int option" where
  "parse_aware env v = aware_instant (parse_datetime (pv_text env) v)"

definition ingestion_generation :: "promotion_env \<Rightarrow> promotion_payload \<Rightarrow> int option" where
  "ingestion_generation env p = parse_aware env (property p ''ingestion_generation_started_at'')"

section \<open>Kinds of candidates\<close>

definition reviewed_warning_adapter_keys :: "string list" where
  "reviewed_warning_adapter_keys = [''official.cwa.heavy_rain_warning'', ''official.ncdr.cap'']"

definition reviewed_official_realtime_adapter_events :: "(string \<times> string) list" where
  "reviewed_official_realtime_adapter_events =
     [(''official.cwa.rainfall'', ''rainfall''), (''official.cwa.tide_level'', ''water_level''),
      (''official.wra.water_level'', ''water_level''), (''official.wra_iow.flood_depth'', ''flood_report''),
      (''official.civil_iot.flood_sensor'', ''flood_report''),
      (''official.civil_iot.river_water_level'', ''water_level''),
      (''official.civil_iot.pond_water_level'', ''water_level''),
      (''official.civil_iot.sewer_water_level'', ''water_level''),
      (''official.civil_iot.pump_water_level'', ''water_level''),
      (''official.civil_iot.gate_water_level'', ''water_level''),
      (''local.tainan.flood_sensor'', ''flood_report''),
      (''official.cwa.heavy_rain_warning'', ''flood_warning''), (''official.ncdr.cap'', ''flood_warning'')]"

definition in_pairs :: "promotion_payload \<Rightarrow> (string \<times> string) list \<Rightarrow> bool" where
  "in_pairs p pairs \<longleftrightarrow>
     (case pp_adapter_key p of None \<Rightarrow> False | Some k \<Rightarrow> (k, pp_event_type p) \<in> set pairs)"

definition is_reviewed_current_candidate :: "promotion_payload \<Rightarrow> bool" where
  "is_reviewed_current_candidate p \<longleftrightarrow>
     pp_source_type p = ''official'' \<and> property p ''evidence_scope'' = PyStr ''current''
     \<and> in_pairs p reviewed_official_realtime_adapter_events"

definition is_current_cap_lifecycle_candidate :: "promotion_payload \<Rightarrow> bool" where
  "is_current_cap_lifecycle_candidate p \<longleftrightarrow>
     pp_source_type p = ''official'' \<and> property p ''evidence_scope'' = PyStr ''current''
     \<and> in_pairs p [(''official.cwa.heavy_rain_warning'', ''flood_warning''),
                    (''official.ncdr.cap'', ''flood_warning'')]"

definition should_upsert_official_realtime_latest :: "promotion_payload \<Rightarrow> bool" where
  "should_upsert_official_realtime_latest p \<longleftrightarrow>
     pp_source_type p = ''official'' \<and> property p ''evidence_scope'' = PyStr ''current''
     \<and> in_pairs p reviewed_official_realtime_adapter_events \<and> pp_observed_at p \<noteq> None"

definition is_tainan_report :: "promotion_payload \<Rightarrow> bool" where
  "is_tainan_report p \<longleftrightarrow>
     pp_adapter_key p = Some ''local.tainan.flood_sensor'' \<and> pp_event_type p = ''flood_report''"

definition is_metadata_inactive_station_candidate :: "promotion_payload \<Rightarrow> bool" where
  "is_metadata_inactive_station_candidate p \<longleftrightarrow>
     is_tainan_report p \<and> property p ''metadata_station_enabled'' = PyBool False"

definition is_realtime_inactive_station_candidate :: "promotion_payload \<Rightarrow> bool" where
  "is_realtime_inactive_station_candidate p \<longleftrightarrow>
     is_tainan_report p \<and> property p ''realtime_station_enabled'' = PyBool False"

section \<open>Messages of the Common Alerting Protocol\<close>

definition cap_triple :: "promotion_env \<Rightarrow> py_value \<Rightarrow> py_value \<Rightarrow> py_value \<Rightarrow> (string \<times> string \<times> int) option" where
  "cap_triple env sender identifier sent =
     (if bounded_text 512 sender \<and> bounded_text 512 identifier
      then map_option (\<lambda>t. (stripped sender, stripped identifier, t)) (parse_aware env sent)
      else None)"

definition own_triple :: "promotion_env \<Rightarrow> py_dict \<Rightarrow> (string \<times> string \<times> int) option" where
  "own_triple env d =
     cap_triple env (dict_get d ''cap_sender'') (dict_get d ''cap_identifier'') (dict_get d ''cap_sent'')"

definition reference_triple :: "promotion_env \<Rightarrow> py_value \<Rightarrow> (string \<times> string \<times> int) option" where
  "reference_triple env v =
     (case v of
        PyDict d \<Rightarrow>
          if set (map fst d) = {''sender'', ''identifier'', ''sent''}
          then cap_triple env (dict_get d ''sender'') (dict_get d ''identifier'') (dict_get d ''sent'')
          else None
      | _ \<Rightarrow> None)"

definition cap_reference_triples :: "promotion_env \<Rightarrow> py_value \<Rightarrow> (string \<times> string \<times> int) list option" where
  "cap_reference_triples env v =
     (case v of
        PyList items \<Rightarrow>
          if list_all (\<lambda>i. reference_triple env i \<noteq> None) items
          then let canonical = sorted_list_of_set (set (List.map_filter (reference_triple env) items))
               in if length canonical > 64 then None else Some canonical
          else None
      | _ \<Rightarrow> None)"

definition effectful_cap_references :: "promotion_env \<Rightarrow> promotion_payload \<Rightarrow> (string \<times> string \<times> int) list" where
  "effectful_cap_references env p =
     (case (own_triple env (pp_properties p), cap_reference_triples env (property p ''cap_references'')) of
        (Some (_, _, own_sent), Some refs) \<Rightarrow> filter (\<lambda>(_, _, sent). sent < own_sent) refs
      | _ \<Rightarrow> [])"

definition is_expired_cap :: "promotion_env \<Rightarrow> py_dict \<Rightarrow> bool" where
  "is_expired_cap env d \<longleftrightarrow>
     dict_get d ''expired'' = PyBool True
     \<or> (case optional_text env (dict_get d ''cap_status'') of
          None \<Rightarrow> False | Some s \<Rightarrow> s \<in> {''expired'', ''cancelled'', ''canceled''})"

definition message_is :: "promotion_payload \<Rightarrow> string list \<Rightarrow> bool" where
  "message_is p kinds \<longleftrightarrow> property p ''cap_message_type'' \<in> PyStr ` set kinds"

definition in_cap_window :: "promotion_env \<Rightarrow> int \<Rightarrow> promotion_payload \<Rightarrow> bool" where
  "in_cap_window env now p \<longleftrightarrow>
     (case (parse_aware env (property p ''active_from''), parse_aware env (property p ''active_until'')) of
        (Some a, Some b) \<Rightarrow> a \<le> now \<and> now < b
      | _ \<Rightarrow> False)"

text \<open>The part of \<open>_cap_rejection_reason\<close> before the database is asked.\<close>

definition cap_form_rejection :: "promotion_env \<Rightarrow> int \<Rightarrow> promotion_payload \<Rightarrow> string option" where
  "cap_form_rejection env now p =
     (if is_expired_cap env (pp_properties p) then Some ''inactive_cap_window''
      else if property p ''cap_status'' \<noteq> PyStr ''Actual'' \<or> \<not> message_is p [''Alert'', ''Update'', ''Cancel'']
      then Some ''invalid_cap_lifecycle''
      else case own_triple env (pp_properties p) of
        None \<Rightarrow> Some ''invalid_cap_identity''
      | Some (_, _, sent) \<Rightarrow>
          (let code = optional_text env (property p ''admin_code'')
           in if (if message_is p [''Cancel''] then code \<noteq> None else True)
                 \<and> \<not> (case code of None \<Rightarrow> False | Some c \<Rightarrow> is_digits 8 c)
              then Some ''invalid_cap_identity''
              else case cap_reference_triples env (property p ''cap_references'') of
                None \<Rightarrow> Some ''invalid_cap_lifecycle''
              | Some refs \<Rightarrow>
                  if message_is p [''Update'', ''Cancel''] \<and> \<not> list_ex (\<lambda>(_, _, t). t < sent) refs
                  then Some ''invalid_cap_lifecycle''
                  else if ingestion_generation env p = None then Some ''invalid_ingestion_generation''
                  else if message_is p [''Alert'', ''Update'']
                          \<and> \<not> in_cap_window env now p
                  then Some ''inactive_cap_window''
                  else None))"

section \<open>Stations\<close>

definition looks_like_station_id :: "string \<Rightarrow> bool" where
  "looks_like_station_id s \<longleftrightarrow>
     (length s = 1 \<or> 3 \<le> length s \<and> length s \<le> 32)
     \<and> is_alnum_char (hd s) \<and> is_alnum_char (last s)
     \<and> list_all (\<lambda>c. is_alnum_char c \<or> c = CHR ''_'' \<or> c = CHR ''-'') s
     \<and> list_ex (\<lambda>c. is_digit_char c \<or> is_upper_char c) s"

text \<open>The text before a separator, where there is one.\<close>

definition head_before :: "char \<Rightarrow> string \<Rightarrow> string option" where
  "head_before c s = (if c \<in> set s then Some (strip_str (takeWhile (\<lambda>x. x \<noteq> c) s)) else None)"

definition station_id_from_source_id :: "string \<Rightarrow> string option" where
  "station_id_from_source_id s =
     find looks_like_station_id (List.map_filter (\<lambda>c. head_before c s) [CHR '':'', CHR ''|'', CHR ''@''])"

definition can_fallback_station_id :: "promotion_payload \<Rightarrow> bool" where
  "can_fallback_station_id p \<longleftrightarrow>
     in_pairs p [(''official.cwa.rainfall'', ''rainfall''), (''official.wra.water_level'', ''water_level''),
                 (''official.civil_iot.flood_sensor'', ''flood_report'')]"

text \<open>\<open>cap_message_digest\<close> strips its texts.\<close>

definition message_digest :: "promotion_env \<Rightarrow> string \<Rightarrow> string \<Rightarrow> int \<Rightarrow> string" where
  "message_digest env sender identifier sent = pv_digest env (strip_str sender) (strip_str identifier) sent"

definition official_realtime_station_id :: "promotion_env \<Rightarrow> promotion_payload \<Rightarrow> string option" where
  "official_realtime_station_id env p =
     (if pp_event_type p = ''flood_warning''
      then (case (optional_text env (property p ''admin_code''), optional_text env (property p ''cap_sender''),
                  optional_text env (property p ''cap_identifier''), parse_aware env (property p ''cap_sent'')) of
              (Some code, Some sender, Some identifier, Some sent) \<Rightarrow>
                if is_digits 8 code
                then Some (''cap:'' @ code @ '':'' @ message_digest env sender identifier sent) else None
            | _ \<Rightarrow> None)
      else case optional_text env (property p ''station_id'') of
             Some s \<Rightarrow> Some s
           | None \<Rightarrow> if can_fallback_station_id p then station_id_from_source_id (pp_source_id p) else None)"

section \<open>Geometry\<close>

definition as_number :: "py_value \<Rightarrow> rat option" where
  "as_number v = (case v of PyInt n \<Rightarrow> Some (of_int n) | PyFloat x \<Rightarrow> Some x | _ \<Rightarrow> None)"

definition wgs84_position :: "py_value \<Rightarrow> (rat \<times> rat) option" where
  "wgs84_position v =
     (case list_elements v of
        Some [a, b] \<Rightarrow>
          (case (as_number a, as_number b) of
             (Some x, Some y) \<Rightarrow>
               if - 180 \<le> x \<and> x \<le> 180 \<and> - 90 \<le> y \<and> y \<le> 90 then Some (x, y) else None
           | _ \<Rightarrow> None)
      | _ \<Rightarrow> None)"

definition valid_wgs84_point :: "py_dict \<Rightarrow> bool" where
  "valid_wgs84_point g \<longleftrightarrow> wgs84_position (dict_get g ''coordinates'') \<noteq> None"

definition valid_linear_ring :: "py_value \<Rightarrow> bool" where
  "valid_linear_ring v \<longleftrightarrow>
     (case list_elements v of
        None \<Rightarrow> False
      | Some ps \<Rightarrow>
          length ps \<ge> 4 \<and> list_all (\<lambda>p. wgs84_position p \<noteq> None) ps
          \<and> wgs84_position (hd ps) = wgs84_position (last ps)
          \<and> card (set (map wgs84_position (butlast ps))) \<ge> 3)"

definition valid_polygon_coordinates :: "py_value \<Rightarrow> bool" where
  "valid_polygon_coordinates v \<longleftrightarrow>
     (case list_elements v of None \<Rightarrow> False | Some rings \<Rightarrow> rings \<noteq> [] \<and> list_all valid_linear_ring rings)"

definition valid_wgs84_area_geometry :: "py_dict \<Rightarrow> bool" where
  "valid_wgs84_area_geometry g \<longleftrightarrow>
     (if dict_get g ''type'' = PyStr ''Polygon'' then valid_polygon_coordinates (dict_get g ''coordinates'')
      else dict_get g ''type'' = PyStr ''MultiPolygon''
           \<and> (case list_elements (dict_get g ''coordinates'') of
                None \<Rightarrow> False
              | Some polygons \<Rightarrow> polygons \<noteq> [] \<and> list_all valid_polygon_coordinates polygons))"

text \<open>The dictionary of a value, where it is one.\<close>

definition as_dict :: "py_value \<Rightarrow> py_dict option" where
  "as_dict v = (case v of PyDict d \<Rightarrow> Some d | _ \<Rightarrow> None)"

definition explicit_location_geometry :: "py_dict \<Rightarrow> py_dict option" where
  "explicit_location_geometry d =
     Option.bind (as_dict (dict_get d ''location_payload'')) (\<lambda>l. as_dict (dict_get l ''geometry''))"

definition geojson_geometry :: "py_dict \<Rightarrow> py_dict option" where
  "geojson_geometry d = explicit_location_geometry d"

definition geojson_point_geometry :: "py_dict \<Rightarrow> py_dict option" where
  "geojson_point_geometry d =
     (let is_point = (\<lambda>g. if dict_get g ''type'' = PyStr ''Point'' then Some g else None)
      in case Option.bind (as_dict (dict_get d ''latest_point_geometry'')) is_point of
           Some g \<Rightarrow> Some g
         | None \<Rightarrow> Option.bind (explicit_location_geometry d) is_point)"

text \<open>\<open>round(x, 7)\<close> of the coordinates of a point.\<close>

definition round7 :: "rat \<Rightarrow> rat" where
  "round7 x = of_int (round_half_even (x * 10000000)) / 10000000"

definition rounded_geometry :: "promotion_env \<Rightarrow> py_value \<Rightarrow> (rat \<times> rat) option" where
  "rounded_geometry env v =
     (case v of
        PyDict g \<Rightarrow>
          if dict_get g ''type'' = PyStr ''Point''
          then (case dict_get g ''coordinates'' of
                  PyList [a, b] \<Rightarrow>
                    (case (optional_float env a, optional_float env b) of
                       (Some x, Some y) \<Rightarrow> Some (round7 x, round7 y)
                     | _ \<Rightarrow> None)
                | _ \<Rightarrow> None)
          else None
      | _ \<Rightarrow> None)"

definition explicit_geometry_rejection_reason :: "promotion_payload \<Rightarrow> string option outcome" where
  "explicit_geometry_rejection_reason p =
     (let d = pp_properties p; point = as_dict (dict_get d ''latest_point_geometry'')
      in if ''latest_point_geometry'' \<in> set (map fst d)
            \<and> \<not> (case point of None \<Rightarrow> False
                  | Some g \<Rightarrow> dict_get g ''type'' = PyStr ''Point'' \<and> valid_wgs84_point g)
         then Inr (Some ''invalid_point_geometry'')
         else if ''location_payload'' \<notin> set (map fst d) then Inr None
         else case as_dict (dict_get d ''location_payload'') of
           None \<Rightarrow> Inr (Some ''invalid_geometry'')
         | Some l \<Rightarrow>
             if ''geometry'' \<notin> set (map fst l) then Inr None
             else case as_dict (dict_get l ''geometry'') of
               None \<Rightarrow> Inr (Some ''invalid_geometry'')
             | Some g \<Rightarrow>
                 if is_current_cap_lifecycle_candidate p
                 then if \<not> valid_wgs84_area_geometry g then Inr (Some ''invalid_geometry'')
                      else obind (in_strings (property p ''cap_message_type'') [''Alert'', ''Update''])
                        (\<lambda>active. Inr (if active \<and> point = None then Some ''invalid_point_geometry'' else None))
                 else if dict_get g ''type'' \<noteq> PyStr ''Point'' then Inr (Some ''invalid_geometry'')
                 else if \<not> valid_wgs84_point g then Inr (Some ''invalid_point_geometry'')
                 else Inr None)"

section \<open>Rejection of a current candidate\<close>

text \<open>\<open>now\<close> is the clock, read where the candidate does not tell its generation.\<close>

definition current_candidate_rejection_reason ::
  "promotion_env \<Rightarrow> int \<Rightarrow> promotion_payload \<Rightarrow> string option outcome" where
  "current_candidate_rejection_reason env now p =
     (if \<not> is_reviewed_current_candidate p then Inr None
      else if is_metadata_inactive_station_candidate p then Inr (Some ''inactive_station'')
      else case aware_instant (pp_observed_at p) of
        None \<Rightarrow> Inr (Some ''invalid_observation_time'')
      | Some observed \<Rightarrow>
          if (case pp_occurred_at p of None \<Rightarrow> False | Some t \<Rightarrow> \<not> is_aware t)
          then Inr (Some ''invalid_observation_time'')
          else if observed > (case ingestion_generation env p of None \<Rightarrow> now | Some g \<Rightarrow> g) + 900 * 1000000
          then Inr (Some ''future_observation'')
          else if is_realtime_inactive_station_candidate p then Inr (Some ''inactive_station'')
          else explicit_geometry_rejection_reason p)"

text \<open>With the topology, which the database checks for the area of a warning.\<close>

definition candidate_rejection_reason ::
  "promotion_env \<Rightarrow> int \<Rightarrow> promotion_payload \<Rightarrow> string option outcome" where
  "candidate_rejection_reason env now p =
     obind (current_candidate_rejection_reason env now p) (\<lambda>reason.
       Inr (case reason of
              Some r \<Rightarrow> Some r
            | None \<Rightarrow>
                if is_current_cap_lifecycle_candidate p
                   \<and> (case explicit_location_geometry (pp_properties p) of
                        None \<Rightarrow> False | Some g \<Rightarrow> \<not> pv_valid_area env g)
                then Some ''invalid_geometry'' else None))"

section \<open>What is published\<close>

definition worker_rainfall_risk_factor :: "rat \<Rightarrow> rat" where
  "worker_rainfall_risk_factor mm =
     (if mm \<ge> 80 then 1 else if mm \<ge> 40 then 7 / 10 else if mm \<ge> 20 then 35 / 100
      else if mm \<ge> 10 then 15 / 100 else 0)"

definition official_realtime_risk_factor :: "promotion_env \<Rightarrow> promotion_payload \<Rightarrow> rat option" where
  "official_realtime_risk_factor env p =
     (let number = (\<lambda>k. optional_float env (property p k))
      in if pp_event_type p = ''rainfall''
         then map_option worker_rainfall_risk_factor (number ''rainfall_mm_1h'')
         else if pp_event_type p = ''water_level''
         then (case (number ''water_level_m'', number ''warning_level_m'') of
                 (Some level, Some warning) \<Rightarrow>
                   if warning \<le> 0 then None
                   else Some (let ratio = level / warning
                          in if ratio \<ge> 1 then 1 else if ratio \<ge> 8 / 10 then 8 / 10
                             else if ratio \<ge> 1 / 2 then 1 / 2 else if ratio \<ge> 1 / 4 then 1 / 4 else 0)
               | _ \<Rightarrow> None)
         else if pp_event_type p = ''flood_report''
         then map_option (\<lambda>cm. if cm \<ge> 50 then 1 else if cm \<ge> 30 then 8 / 10 else if cm \<ge> 15 then 1 / 2
                else if cm \<ge> 3 then 1 / 4 else 0) (number ''flood_depth_cm'')
         else if pp_event_type p = ''flood_warning'' then Some 1
         else None)"

definition quality_flags_of :: "promotion_env \<Rightarrow> py_dict \<Rightarrow> string option \<Rightarrow> py_dict" where
  "quality_flags_of env d raw_ref =
     (let base = (case dict_get d ''quality_flags'' of PyDict q \<Rightarrow> q | _ \<Rightarrow> []);
          texts = filter (\<lambda>(k, v). v \<noteq> PyStr [] \<and> is_str v)
            (map (\<lambda>k. (k, dict_get d k))
               [''location_precision'', ''active_from'', ''active_until'', ''ingestion_generation_started_at'']);
          marked = (case raw_ref of None \<Rightarrow> [] | Some r \<Rightarrow> [(''active_snapshot_raw_ref'', PyStr r)]);
          digest = (case own_triple env d of
             None \<Rightarrow> []
           | Some (sender, identifier, sent) \<Rightarrow>
               [(''cap_message_digest'', PyStr (message_digest env sender identifier sent))])
      in dict_merge base (texts @ marked @ digest))"

section \<open>Areas\<close>

definition needs_admin_area_enrichment :: "promotion_env \<Rightarrow> py_dict \<Rightarrow> bool" where
  "needs_admin_area_enrichment env d \<longleftrightarrow>
     list_ex (\<lambda>k. optional_text env (dict_get d k) = None) [''county'', ''town'', ''village'']"

definition admin_area_from_row :: "promotion_env \<Rightarrow> py_value \<times> py_value \<times> py_value \<Rightarrow> (string \<times> string) list" where
  "admin_area_from_row env row =
     (case row of (county, town, village) \<Rightarrow>
        List.map_filter (\<lambda>(k, v). map_option (Pair k) (optional_text env v))
          [(''county'', county), (''town'', town), (''village'', village)])"

definition with_properties :: "promotion_payload \<Rightarrow> py_dict \<Rightarrow> promotion_payload" where
  "with_properties p d = p\<lparr> pp_properties := d \<rparr>"

text \<open>A boundary of one polygon becomes one of several.\<close>

definition as_multi_polygon :: "py_dict \<Rightarrow> py_dict" where
  "as_multi_polygon g =
     (if dict_get g ''type'' = PyStr ''Polygon''
      then [(''type'', PyStr ''MultiPolygon''),
            (''coordinates'', PyList [case map_of g ''coordinates'' of None \<Rightarrow> PyList [] | Some c \<Rightarrow> c])]
      else g)"

definition with_boundary :: "promotion_payload \<Rightarrow> py_dict \<Rightarrow> py_dict \<Rightarrow> py_dict \<Rightarrow> promotion_payload" where
  "with_boundary p boundary point extra =
     (let boundary = as_multi_polygon boundary
      in if dict_get boundary ''type'' \<noteq> PyStr ''MultiPolygon'' \<or> dict_get point ''type'' \<noteq> PyStr ''Point''
         then p
         else with_properties p (dict_merge (pp_properties p)
           ([(''location_payload'', PyDict [(''geometry'', PyDict boundary)]),
             (''latest_point_geometry'', PyDict point), (''location_precision'', PyStr ''admin_area'')] @ extra)))"

definition with_reviewed_ncdr_warning_boundary :: "promotion_env \<Rightarrow> promotion_payload \<Rightarrow> promotion_payload" where
  "with_reviewed_ncdr_warning_boundary env p =
     (case optional_text env (property p ''ncdr_geocode'') of
        None \<Rightarrow> p
      | Some code \<Rightarrow>
          if optional_text env (property p ''ncdr_geocode_profile'') = Some ''Taiwan_Geocode_103''
             \<and> is_digits 7 code \<and> optional_text env (property p ''admin_code'') = Some (code @ ''0'')
          then (case pv_ncdr_boundary env code of
                  None \<Rightarrow> p
                | Some (boundary, point, county, town, snapshot) \<Rightarrow>
                    with_boundary p boundary point
                      [(''county'', PyStr county), (''town'', PyStr town),
                       (''ncdr_boundary_snapshot_id'', PyStr snapshot)])
          else p)"

definition with_reviewed_warning_boundary :: "promotion_env \<Rightarrow> promotion_payload \<Rightarrow> promotion_payload" where
  "with_reviewed_warning_boundary env p =
     (if geojson_geometry (pp_properties p) \<noteq> None then p
      else if pp_adapter_key p = Some ''official.ncdr.cap'' then with_reviewed_ncdr_warning_boundary env p
      else case optional_text env (property p ''admin_code'') of
        None \<Rightarrow> p
      | Some code \<Rightarrow>
          if is_digits 8 code
          then (case pv_warning_boundary env code of
                  None \<Rightarrow> p
                | Some (boundary, point) \<Rightarrow> with_boundary p boundary point [])
          else p)"

definition with_admin_area_enrichment :: "promotion_env \<Rightarrow> promotion_payload \<Rightarrow> promotion_payload" where
  "with_admin_area_enrichment env p =
     (if \<not> should_upsert_official_realtime_latest p then p
      else if pp_event_type p = ''flood_warning'' then with_reviewed_warning_boundary env p
      else if official_realtime_station_id env p = None
              \<or> \<not> needs_admin_area_enrichment env (pp_properties p) then p
      else case Option.bind (geojson_point_geometry (pp_properties p)) (pv_admin_area env) of
        None \<Rightarrow> p
      | Some row \<Rightarrow>
          with_properties p (fold
            (\<lambda>(k, v) d. if optional_text env (dict_get d k) = None then AList.update k (PyStr v) d else d)
            (admin_area_from_row env row) (pp_properties p)))"

definition warning_boundary_rejection_reason :: "promotion_payload \<Rightarrow> string option" where
  "warning_boundary_rejection_reason p =
     (if is_current_cap_lifecycle_candidate p \<and> message_is p [''Alert'', ''Update'']
         \<and> geojson_geometry (pp_properties p) = None
      then Some ''unreviewed_warning_boundary'' else None)"

end
