(* ===== verification/Evidence_Promotion.thy ===== *)
theory Evidence_Promotion
  imports Promotion_Rules Source_Ledger
begin

text \<open>
  The promotion of staged evidence (\<open>apps/workers/app/pipelines/promotion.py\<close>) on the tables it reads and
  writes, with the writer of staging batches (\<open>postgres_writer.py\<close>). A transaction either commits as a
  whole or raises and leaves the tables; transactions do not overlap. The scale of numeric columns,
  columns that nothing here reads, and log events are left out.
\<close>

section \<open>Tables\<close>

datatype staged_status = StagedPending | StagedAccepted | StagedRejected | StagedQuarantined

record raw_row =
  rr_id :: string
  rr_data_source_id :: "string option"
  rr_adapter_key :: string
  rr_raw_ref :: string

record staged_row =
  sd_id :: string
  sd_raw_snapshot_id :: "string option"
  sd_data_source_id :: "string option"
  sd_source_id :: "string option"
  sd_source_type :: string
  sd_event_type :: string
  sd_title :: string
  sd_summary :: string
  sd_url :: "string option"
  sd_occurred_at :: "int option"
  sd_observed_at :: "int option"
  sd_confidence :: "rat option"
  sd_status :: staged_status
  sd_rejection_reason :: "string option"
  sd_payload :: py_dict
  sd_created_at :: int

record promoted_row =
  pd_id :: string
  pd_data_source_id :: "string option"
  pd_source_id :: string
  pd_source_type :: string
  pd_event_type :: string
  pd_title :: string
  pd_summary :: string
  pd_url :: "string option"
  pd_occurred_at :: "int option"
  pd_observed_at :: "int option"
  pd_confidence :: rat
  pd_geometry :: "py_dict option"
  pd_raw_ref :: "string option"
  pd_properties :: py_dict

record latest_row =
  lt_source_id :: string
  lt_adapter_key :: string
  lt_event_type :: string
  lt_station_id :: string
  lt_station_name :: "string option"
  lt_authority :: "string option"
  lt_observed_at :: int
  lt_point :: py_value
  lt_rainfall_mm_1h :: "rat option"
  lt_rainfall_mm_24h :: "rat option"
  lt_water_level_m :: "rat option"
  lt_flood_depth_cm :: "rat option"
  lt_warning_level_m :: "rat option"
  lt_confidence :: rat
  lt_freshness_score :: "rat option"
  lt_source_weight :: "rat option"
  lt_risk_factor :: "rat option"
  lt_evidence_id :: "string option"
  lt_source_url :: "string option"
  lt_attribution :: "string option"
  lt_quality_flags :: py_dict

text \<open>\<open>pt_sources\<close> pairs the identifiers of \<open>data_sources\<close> with their adapter keys.\<close>

record promotion_tables =
  pt_sources :: "(string \<times> string) list"
  pt_raw :: "raw_row list"
  pt_staged :: "staged_row list"
  pt_evidence :: "promoted_row list"
  pt_latest :: "latest_row list"
  pt_jobs :: "job_entry list"

text \<open>What a transaction meets: a fault of the database, two readings of the clock, a fresh identifier.\<close>

record promotion_reading =
  rd_fault :: "py_exc option"
  rd_now :: int
  rd_checked_at :: int
  rd_new_id :: string

text \<open>\<open>COALESCE\<close>, and \<open>document ->> key\<close>.\<close>

definition coalesce :: "'a option \<Rightarrow> 'a option \<Rightarrow> 'a option" where
  "coalesce x y = (case x of None \<Rightarrow> y | Some _ \<Rightarrow> x)"

definition text_at :: "promotion_env \<Rightarrow> py_dict \<Rightarrow> string \<Rightarrow> string option" where
  "text_at env d k =
     (case dict_get d k of PyNone \<Rightarrow> None | PyStr s \<Rightarrow> Some s | v \<Rightarrow> Some (pv_json_text env v))"

definition time_at :: "promotion_env \<Rightarrow> py_dict \<Rightarrow> string \<Rightarrow> int option" where
  "time_at env d k = Option.bind (text_at env d k) (pv_timestamptz env)"

definition adapter_of_source :: "promotion_tables \<Rightarrow> string option \<Rightarrow> string option" where
  "adapter_of_source t i = Option.bind i (map_of (pt_sources t))"

definition source_of_adapter :: "promotion_tables \<Rightarrow> string option \<Rightarrow> string option" where
  "source_of_adapter t key =
     (case key of
        None \<Rightarrow> None
      | Some k \<Rightarrow> map_option fst (find (\<lambda>s. snd s = k) (pt_sources t)))"

section \<open>Equality of JSON documents\<close>

fun json_ready :: "py_value \<Rightarrow> bool" where
  "json_ready (PyDatetime _) = False"
| "json_ready (PyList xs) = list_all json_ready xs"
| "json_ready (PyTuple xs) = list_all json_ready xs"
| "json_ready (PyDict d) = list_all (\<lambda>x. json_ready (snd x)) d"
| "json_ready _ = True"

fun json_canon :: "py_value \<Rightarrow> py_value" where
  "json_canon (PyInt n) = PyFloat (of_int n)"
| "json_canon (PyList xs) = PyList (map json_canon xs)"
| "json_canon (PyTuple xs) = PyList (map json_canon xs)"
| "json_canon (PyDict d) = PyDict (sort_key fst (map (\<lambda>x. (fst x, json_canon (snd x))) d))"
| "json_canon v = v"

section \<open>Staging rows\<close>

definition validated_staging_id :: "promotion_env \<Rightarrow> promotion_payload \<Rightarrow> string option" where
  "validated_staging_id env p =
     (case property p ''staging_evidence_id'' of PyStr s \<Rightarrow> pv_uuid env s | _ \<Rightarrow> None)"

definition staged_properties :: "py_dict \<Rightarrow> py_dict" where
  "staged_properties d = filter (\<lambda>x. fst x \<notin> {''staging_evidence_id'', ''raw_snapshot_id''}) d"

definition raw_of_staged :: "promotion_tables \<Rightarrow> staged_row \<Rightarrow> raw_row option" where
  "raw_of_staged t s =
     (case sd_raw_snapshot_id s of None \<Rightarrow> None | Some i \<Rightarrow> find (\<lambda>r. rr_id r = i) (pt_raw t))"

definition authorizes ::
  "promotion_env \<Rightarrow> promotion_tables \<Rightarrow> promotion_payload \<Rightarrow> string \<Rightarrow> staged_row \<Rightarrow> bool" where
  "authorizes env t p staging_id s \<longleftrightarrow>
     (case raw_of_staged t s of
        None \<Rightarrow> False
      | Some r \<Rightarrow>
          let source = coalesce (sd_data_source_id s) (rr_data_source_id r)
          in sd_id s = staging_id \<and> sd_status s = StagedAccepted
             \<and> source = pp_data_source_id p
             \<and> sd_source_id s = Some (pp_source_id p) \<and> sd_source_type s = pp_source_type p
             \<and> sd_event_type s = pp_event_type p
             \<and> sd_occurred_at s = map_option normalized_utc (pp_occurred_at p)
             \<and> sd_observed_at s = map_option normalized_utc (pp_observed_at p)
             \<and> sd_title s = pp_title p \<and> sd_summary s = pp_summary p \<and> sd_url s = pp_url p
             \<and> sd_confidence s = Some (pp_confidence p)
             \<and> coalesce (text_at env (sd_payload s) ''adapter_key'') (Some (rr_adapter_key r)) = pp_adapter_key p
             \<and> Some (rr_raw_ref r) = pp_raw_ref p
             \<and> sd_raw_snapshot_id s = (case property p ''raw_snapshot_id'' of
                  PyNone \<Rightarrow> None | v \<Rightarrow> Some (str_of (pv_text env) v))
             \<and> json_canon (PyDict (sd_payload s)) = json_canon (PyDict (staged_properties (pp_properties p))))"

text \<open>\<open>None\<close> is a payload that names no staging row.\<close>

definition authorize_staging_candidate :: "promotion_env \<Rightarrow> promotion_payload \<Rightarrow> promotion_tables \<Rightarrow> bool option" where
  "authorize_staging_candidate env p t =
     (if ''staging_evidence_id'' \<notin> set (map fst (pp_properties p)) then None
      else case validated_staging_id env p of
        None \<Rightarrow> Some False
      | Some i \<Rightarrow>
          Some (json_ready (PyDict (staged_properties (pp_properties p)))
                \<and> list_ex (authorizes env t p i) (pt_staged t)))"

definition mark_rejected :: "string \<Rightarrow> string \<Rightarrow> staged_row \<Rightarrow> staged_row" where
  "mark_rejected reason i s =
     (if sd_id s = i \<and> sd_status s = StagedAccepted
      then s\<lparr> sd_status := StagedRejected, sd_rejection_reason := Some reason \<rparr> else s)"

definition terminally_reject_staging ::
  "promotion_env \<Rightarrow> promotion_payload \<Rightarrow> string \<Rightarrow> bool \<Rightarrow> promotion_tables \<Rightarrow> promotion_tables" where
  "terminally_reject_staging env p reason authorized t =
     (case (if authorized then validated_staging_id env p else None) of
        None \<Rightarrow> t
      | Some i \<Rightarrow> t\<lparr> pt_staged := map (mark_rejected reason i) (pt_staged t) \<rparr>)"

definition staging_evidence_was_already_used :: "promotion_env \<Rightarrow> promotion_payload \<Rightarrow> promotion_tables \<Rightarrow> bool" where
  "staging_evidence_was_already_used env p t \<longleftrightarrow>
     (case validated_staging_id env p of
        None \<Rightarrow> False
      | Some i \<Rightarrow> list_ex (\<lambda>e. text_at env (pd_properties e) ''staging_evidence_id'' = Some i) (pt_evidence t))"

section \<open>Warnings in evidence\<close>

definition adapter_of_evidence :: "promotion_env \<Rightarrow> promotion_tables \<Rightarrow> promoted_row \<Rightarrow> string option" where
  "adapter_of_evidence env t e =
     coalesce (adapter_of_source t (pd_data_source_id e)) (text_at env (pd_properties e) ''adapter_key'')"

definition is_current_warning_row :: "promotion_env \<Rightarrow> promoted_row \<Rightarrow> bool" where
  "is_current_warning_row env e \<longleftrightarrow>
     pd_source_type e = ''official'' \<and> pd_event_type e = ''flood_warning''
     \<and> text_at env (pd_properties e) ''evidence_scope'' = Some ''current''
     \<and> text_at env (pd_properties e) ''cap_status'' = Some ''Actual''"

definition canonical_cap_message_evidence_id ::
  "promotion_env \<Rightarrow> promotion_payload \<Rightarrow> promotion_tables \<Rightarrow> string option" where
  "canonical_cap_message_evidence_id env p t =
     (case (pp_adapter_key p, own_triple env (pp_properties p)) of
        (Some key, Some (sender, identifier, sent)) \<Rightarrow>
          map_option pd_id (find (\<lambda>e.
            adapter_of_evidence env t e = Some key \<and> is_current_warning_row env e
            \<and> text_at env (pd_properties e) ''cap_sender'' = Some sender
            \<and> text_at env (pd_properties e) ''cap_identifier'' = Some identifier
            \<and> time_at env (pd_properties e) ''cap_sent'' = Some sent
            \<and> text_at env (pd_properties e) ''admin_code'' = optional_text env (property p ''admin_code''))
            (pt_evidence t))
      | _ \<Rightarrow> None)"

text \<open>A reference of an update or cancellation in evidence, as SQL reads it.\<close>

definition row_refers_to :: "promotion_env \<Rightarrow> int \<Rightarrow> string \<times> string \<times> int \<Rightarrow> py_value \<Rightarrow> bool" where
  "row_refers_to env own_sent triple v \<longleftrightarrow>
     (case (triple, v) of
        ((sender, identifier, sent), PyDict d) \<Rightarrow>
          set (map fst d) = {''sender'', ''identifier'', ''sent''}
          \<and> text_at env d ''sender'' = Some sender \<and> text_at env d ''identifier'' = Some identifier
          \<and> time_at env d ''sent'' = Some sent \<and> sent < own_sent
      | _ \<Rightarrow> False)"

definition is_tombstone_of ::
  "promotion_env \<Rightarrow> promotion_tables \<Rightarrow> string \<times> string \<times> int \<Rightarrow> promoted_row \<Rightarrow> bool" where
  "is_tombstone_of env t triple e \<longleftrightarrow>
     is_current_warning_row env e
     \<and> (case adapter_of_evidence env t e of None \<Rightarrow> False | Some k \<Rightarrow> k \<in> set reviewed_warning_adapter_keys)
     \<and> text_at env (pd_properties e) ''cap_message_type'' \<in> {Some ''Update'', Some ''Cancel''}
     \<and> time_at env (pd_properties e) ''ingestion_generation_started_at'' \<noteq> None
     \<and> (case (time_at env (pd_properties e) ''cap_sent'', dict_get (pd_properties e) ''cap_references'') of
          (Some own_sent, PyList refs) \<Rightarrow>
            1 \<le> length refs \<and> length refs \<le> 64 \<and> list_ex (row_refers_to env own_sent triple) refs
        | _ \<Rightarrow> False)"

definition cap_rejection_reason ::
  "promotion_env \<Rightarrow> int \<Rightarrow> promotion_payload \<Rightarrow> promotion_tables \<Rightarrow> string option" where
  "cap_rejection_reason env checked_at p t =
     (case cap_form_rejection env checked_at p of
        Some r \<Rightarrow> Some r
      | None \<Rightarrow>
          if message_is p [''Alert'', ''Update'']
             \<and> (case own_triple env (pp_properties p) of
                  None \<Rightarrow> False | Some triple \<Rightarrow> list_ex (is_tombstone_of env t triple) (pt_evidence t))
          then Some ''retired_cap_replay'' else None)"

text \<open>The start of the latest poll that found no warning.\<close>

definition is_empty_poll :: "string \<Rightarrow> job_entry \<Rightarrow> bool" where
  "is_empty_poll key j \<longleftrightarrow>
     ij_adapter_key j = Some key \<and> ij_status j = BatchSucceeded \<and> ij_error_code j = Some ''no_active_event''
     \<and> ij_started_at j \<noteq> None \<and> ij_items_fetched j = 0 \<and> ij_items_promoted j = 0 \<and> ij_items_rejected j = 0"

definition max_successful_no_active_event_generation ::
  "promotion_payload \<Rightarrow> promotion_tables \<Rightarrow> int option" where
  "max_successful_no_active_event_generation p t =
     (case pp_adapter_key p of
        None \<Rightarrow> None
      | Some key \<Rightarrow>
          if key \<in> set reviewed_warning_adapter_keys \<and> message_is p [''Alert'', ''Update'']
          then (case List.map_filter ij_started_at (filter (is_empty_poll key) (pt_jobs t)) of
                  [] \<Rightarrow> None | s # ss \<Rightarrow> Some (foldl max s ss))
          else None)"

section \<open>The latest rows\<close>

definition latest_at :: "string \<Rightarrow> string \<Rightarrow> string \<Rightarrow> latest_row \<Rightarrow> bool" where
  "latest_at key event station l \<longleftrightarrow>
     lt_adapter_key l = key \<and> lt_event_type l = event \<and> lt_station_id l = station"

definition latest_generation :: "promotion_env \<Rightarrow> latest_row \<Rightarrow> int option" where
  "latest_generation env l = time_at env (lt_quality_flags l) ''ingestion_generation_started_at''"

definition retire_inactive_station_latest ::
  "promotion_env \<Rightarrow> promotion_payload \<Rightarrow> promotion_tables \<Rightarrow> promotion_tables" where
  "retire_inactive_station_latest env p t =
     (let metadata = is_metadata_inactive_station_candidate p; generation = ingestion_generation env p
      in case (pp_adapter_key p, official_realtime_station_id env p) of
           (Some key, Some station) \<Rightarrow>
             if metadata \<and> generation = None then t
             else t\<lparr> pt_latest := filter (\<lambda>l. \<not> (latest_at key (pp_event_type p) station l
                  \<and> (if metadata
                     then (case (latest_generation env l, generation) of
                             (Some a, Some g) \<Rightarrow> a \<le> g | _ \<Rightarrow> True)
                     else (case pp_observed_at p of
                             None \<Rightarrow> False | Some o' \<Rightarrow> lt_observed_at l \<le> normalized_utc o'))))
                  (pt_latest t) \<rparr>
         | _ \<Rightarrow> t)"

datatype latest_decision = DecideInsert | DecideUpdate | DecideIdempotent | DecideConflict | DecideHistorical

definition same_fingerprint :: "promotion_env \<Rightarrow> promotion_payload \<Rightarrow> latest_row \<Rightarrow> bool" where
  "same_fingerprint env p l \<longleftrightarrow>
     (let number = (\<lambda>k. optional_float env (property p k))
      in lt_rainfall_mm_1h l = number ''rainfall_mm_1h'' \<and> lt_rainfall_mm_24h l = number ''rainfall_mm_24h''
         \<and> lt_water_level_m l = number ''water_level_m'' \<and> lt_flood_depth_cm l = number ''flood_depth_cm''
         \<and> lt_warning_level_m l = number ''warning_level_m''
         \<and> rounded_geometry env (lt_point l) =
             Option.bind (geojson_point_geometry (pp_properties p)) (\<lambda>g. rounded_geometry env (PyDict g))
         \<and> Some (lt_observed_at l) = map_option normalized_utc (pp_observed_at p))"

definition classify_latest_decision ::
  "promotion_env \<Rightarrow> promotion_payload \<Rightarrow> promotion_tables \<Rightarrow> latest_decision" where
  "classify_latest_decision env p t =
     (case (official_realtime_station_id env p, pp_adapter_key p, pp_observed_at p) of
        (Some station, Some key, Some observed) \<Rightarrow>
          (case find (latest_at key (pp_event_type p) station) (pt_latest t) of
             None \<Rightarrow> DecideInsert
           | Some l \<Rightarrow>
               if normalized_utc observed < lt_observed_at l then DecideHistorical
               else if normalized_utc observed > lt_observed_at l then DecideUpdate
               else if same_fingerprint env p l then DecideIdempotent else DecideConflict)
      | _ \<Rightarrow> DecideHistorical)"

text \<open>A sensor that the city and the central agency both publish: the central row is kept.\<close>

definition is_exact_duplicate ::
  "promotion_env \<Rightarrow> string \<Rightarrow> int \<Rightarrow> rat \<Rightarrow> string \<Rightarrow> py_dict \<Rightarrow> latest_row \<Rightarrow> bool" where
  "is_exact_duplicate env peer observed depth station point l \<longleftrightarrow>
     lt_adapter_key l = peer \<and> lt_event_type l = ''flood_report'' \<and> lt_observed_at l = observed
     \<and> lt_flood_depth_cm l = Some depth
     \<and> (lt_station_id l = station \<or> pv_near env (lt_point l) point)"

datatype duplicate_decision = NoDuplicate | DuplicateCentral | ReplacedLocal

definition handle_exact_central_local_duplicate ::
  "promotion_env \<Rightarrow> promotion_payload \<Rightarrow> promotion_tables \<Rightarrow> duplicate_decision \<times> promotion_tables" where
  "handle_exact_central_local_duplicate env p t =
     (let local_candidate = pp_adapter_key p = Some ''local.tainan.flood_sensor'';
          peer = (if local_candidate then ''official.wra_iow.flood_depth'' else ''local.tainan.flood_sensor'')
      in if pp_event_type p = ''flood_report''
            \<and> (local_candidate \<or> pp_adapter_key p = Some ''official.wra_iow.flood_depth'')
         then (case (pp_observed_at p, official_realtime_station_id env p, geojson_point_geometry (pp_properties p),
                     optional_float env (property p ''flood_depth_cm'')) of
                 (Some observed, Some station, Some point, Some depth) \<Rightarrow>
                   (case sort_key lt_station_id (filter
                           (is_exact_duplicate env peer (normalized_utc observed) depth station point) (pt_latest t)) of
                      [] \<Rightarrow> (NoDuplicate, t)
                    | l # _ \<Rightarrow>
                        if local_candidate then (DuplicateCentral, t)
                        else (ReplacedLocal, t\<lparr> pt_latest := filter (\<lambda>m. \<not> (latest_at peer ''flood_report'' (lt_station_id l) m
                               \<and> lt_observed_at m = normalized_utc observed \<and> lt_flood_depth_cm m = Some depth))
                               (pt_latest t) \<rparr>))
               | _ \<Rightarrow> (NoDuplicate, t))
         else (NoDuplicate, t))"

definition latest_admitted :: "latest_row \<Rightarrow> bool" where
  "latest_admitted l \<longleftrightarrow>
     0 \<le> lt_confidence l \<and> lt_confidence l \<le> 1
     \<and> (case lt_freshness_score l of None \<Rightarrow> True | Some x \<Rightarrow> 0 \<le> x \<and> x \<le> 1)
     \<and> (case lt_source_weight l of None \<Rightarrow> True | Some x \<Rightarrow> 0 \<le> x)
     \<and> (case lt_risk_factor l of None \<Rightarrow> True | Some x \<Rightarrow> 0 \<le> x)"

definition latest_row_of ::
  "promotion_env \<Rightarrow> promotion_payload \<Rightarrow> string \<Rightarrow> string \<Rightarrow> string \<Rightarrow> int \<Rightarrow> py_dict \<Rightarrow> latest_row" where
  "latest_row_of env p evidence_id key station observed point =
     (let number = (\<lambda>k. optional_float env (property p k)); text_of = (\<lambda>k. optional_text env (property p k))
      in \<lparr> lt_source_id = pp_source_id p, lt_adapter_key = key, lt_event_type = pp_event_type p,
           lt_station_id = station, lt_station_name = text_of ''station_name'', lt_authority = text_of ''authority'',
           lt_observed_at = observed, lt_point = pv_stored_point env point,
           lt_rainfall_mm_1h = number ''rainfall_mm_1h'', lt_rainfall_mm_24h = number ''rainfall_mm_24h'',
           lt_water_level_m = number ''water_level_m'', lt_flood_depth_cm = number ''flood_depth_cm'',
           lt_warning_level_m = number ''warning_level_m'', lt_confidence = pp_confidence p,
           lt_freshness_score = number ''freshness_score'', lt_source_weight = number ''source_weight'',
           lt_risk_factor = official_realtime_risk_factor env p, lt_evidence_id = Some evidence_id,
           lt_source_url = text_of ''source_url'', lt_attribution = text_of ''attribution'',
           lt_quality_flags = quality_flags_of env (pp_properties p)
             (if key = ''official.ncdr.cap'' then pp_raw_ref p else None) \<rparr>)"

text \<open>\<open>INSERT ... ON CONFLICT DO UPDATE ... WHERE\<close> the new observation is newer.\<close>

definition upsert_latest :: "latest_row \<Rightarrow> latest_row list \<Rightarrow> latest_row list" where
  "upsert_latest l ls =
     (let here = latest_at (lt_adapter_key l) (lt_event_type l) (lt_station_id l)
      in if list_ex here ls
         then map (\<lambda>m. if here m \<and> lt_observed_at m < lt_observed_at l then l else m) ls
         else ls @ [l])"

definition upsert_official_realtime_latest ::
  "promotion_env \<Rightarrow> promotion_payload \<Rightarrow> string \<Rightarrow> (promotion_tables, unit) step" where
  "upsert_official_realtime_latest env p evidence_id t =
     (case (official_realtime_station_id env p, geojson_point_geometry (pp_properties p),
            pp_adapter_key p, pp_observed_at p) of
        (Some station, Some point, Some key, Some observed) \<Rightarrow>
          (let l = latest_row_of env p evidence_id key station (normalized_utc observed) point
           in if latest_admitted l then (Inr (), t\<lparr> pt_latest := upsert_latest l (pt_latest t) \<rparr>)
              else (Inl row_rejected, t))
      | _ \<Rightarrow> (Inr (), t))"

definition refresh_ncdr_latest_snapshot_marker ::
  "promotion_env \<Rightarrow> promotion_payload \<Rightarrow> promotion_tables \<Rightarrow> promotion_tables" where
  "refresh_ncdr_latest_snapshot_marker env p t =
     (case (pp_raw_ref p, official_realtime_station_id env p) of
        (Some ref, Some station) \<Rightarrow>
          if pp_adapter_key p = Some ''official.ncdr.cap''
          then t\<lparr> pt_latest := map (\<lambda>l.
                 if latest_at ''official.ncdr.cap'' ''flood_warning'' station l
                 then l\<lparr> lt_quality_flags := AList.update ''active_snapshot_raw_ref'' (PyStr ref)
                        (lt_quality_flags l) \<rparr>
                 else l) (pt_latest t) \<rparr>
          else t
      | _ \<Rightarrow> t)"

section \<open>Retiring what a message refers to\<close>

text \<open>\<open>btrim\<close> takes off spaces only.\<close>

definition trimmed_length :: "string \<Rightarrow> nat" where
  "trimmed_length s =
     length (dropWhile (\<lambda>c. c = CHR '' '') (rev (dropWhile (\<lambda>c. c = CHR '' '') s)))"

definition is_retirable_evidence ::
  "promotion_env \<Rightarrow> promotion_tables \<Rightarrow> (string \<times> string \<times> int) list \<Rightarrow> latest_row \<Rightarrow> promoted_row \<Rightarrow> bool" where
  "is_retirable_evidence env t refs l e \<longleftrightarrow>
     (let d = pd_properties e; short = (\<lambda>k. case text_at env d k of
            None \<Rightarrow> False | Some s \<Rightarrow> 1 \<le> trimmed_length s \<and> trimmed_length s \<le> 512)
      in lt_evidence_id l = Some (pd_id e) \<and> is_current_warning_row env e
         \<and> text_at env d ''cap_message_type'' \<in> {Some ''Alert'', Some ''Update''}
         \<and> adapter_of_evidence env t e = Some (lt_adapter_key l)
         \<and> (case text_at env d ''admin_code'' of None \<Rightarrow> False | Some c \<Rightarrow> is_digits 8 c)
         \<and> short ''cap_sender'' \<and> short ''cap_identifier''
         \<and> list_ex (\<lambda>(sender, identifier, sent).
              text_at env d ''cap_sender'' = Some sender \<and> text_at env d ''cap_identifier'' = Some identifier
              \<and> time_at env d ''cap_sent'' = Some sent) refs)"

definition retire_cap_references ::
  "promotion_env \<Rightarrow> promotion_payload \<Rightarrow> promotion_tables \<Rightarrow> promotion_tables" where
  "retire_cap_references env p t =
     (case (effectful_cap_references env p, ingestion_generation env p) of
        (ref # refs, Some generation) \<Rightarrow>
          t\<lparr> pt_latest := filter (\<lambda>l. \<not> (lt_event_type l = ''flood_warning''
               \<and> lt_adapter_key l \<in> set reviewed_warning_adapter_keys
               \<and> list_ex (is_retirable_evidence env t (ref # refs) l) (pt_evidence t)
               \<and> (case latest_generation env l of None \<Rightarrow> False | Some g \<Rightarrow> g \<le> generation))) (pt_latest t) \<rparr>
      | _ \<Rightarrow> t)"

end
