(* ===== verification/Promotion_Writer.thy ===== *)
theory Promotion_Writer
  imports Evidence_Promotion
begin

text \<open>
  The transactions of the promotion, \<open>PostgresEvidencePromotionWriter\<close>, from one candidate to all that
  are ready, on the tables of \<^verbatim>\<open>Evidence_Promotion\<close>; the retirement of warnings after a poll that found
  none; and the writer of staging batches. The advisory locks of a transaction exclude others; here one
  transaction follows the other, and of the locks only the error is left that their keys can raise.
\<close>

section \<open>One candidate\<close>

definition transaction :: "py_exc option \<Rightarrow> ('s, 'a) step \<Rightarrow> ('s, 'a) step" where
  "transaction fault m st =
     (case m st of
        (Inl e, _) \<Rightarrow> (Inl e, st)
      | (Inr a, st') \<Rightarrow> (case fault of None \<Rightarrow> (Inr a, st') | Some e \<Rightarrow> (Inl e, st)))"

text \<open>A candidate that is not written: its staging row is settled for good.\<close>

definition reject ::
  "promotion_env \<Rightarrow> promotion_payload \<Rightarrow> bool \<Rightarrow> string \<Rightarrow> (promotion_tables, string option) step" where
  "reject env p authorized reason t = (Inr None, terminally_reject_staging env p reason authorized t)"

definition source_types :: "string list" where
  "source_types = [''official'', ''news'', ''forum'', ''social'', ''user_report'', ''derived'']"

definition event_types :: "string list" where
  "event_types =
     [''rainfall'', ''water_level'', ''flood_warning'', ''flood_potential'', ''flood_report'', ''status_only'',
      ''road_closure'', ''discussion'']"

definition evidence_admitted :: "promotion_payload \<Rightarrow> bool" where
  "evidence_admitted p \<longleftrightarrow>
     0 \<le> pp_confidence p \<and> pp_confidence p \<le> 1 \<and> pp_source_type p \<in> set source_types
     \<and> pp_event_type p \<in> set event_types"

definition resolved_source :: "promotion_tables \<Rightarrow> promotion_payload \<Rightarrow> string option" where
  "resolved_source t p =
     (case pp_data_source_id p of
        Some i \<Rightarrow> if i \<in> set (map fst (pt_sources t)) then Some i else None
      | None \<Rightarrow> source_of_adapter t (pp_adapter_key p))"

definition promoted_row_of :: "string \<Rightarrow> string \<Rightarrow> promotion_payload \<Rightarrow> promoted_row" where
  "promoted_row_of new_id source p =
     \<lparr> pd_id = new_id, pd_data_source_id = Some source, pd_source_id = pp_source_id p,
       pd_source_type = pp_source_type p, pd_event_type = pp_event_type p, pd_title = pp_title p,
       pd_summary = pp_summary p, pd_url = pp_url p,
       pd_occurred_at = map_option normalized_utc (pp_occurred_at p),
       pd_observed_at = map_option normalized_utc (pp_observed_at p), pd_confidence = pp_confidence p,
       pd_geometry = geojson_geometry (pp_properties p), pd_raw_ref = pp_raw_ref p,
       pd_properties = pp_properties p \<rparr>"

datatype insertion = Inserted | SourceMissing | AlreadyThere

definition insert_evidence ::
  "string \<Rightarrow> promotion_payload \<Rightarrow> (promotion_tables, insertion) step" where
  "insert_evidence new_id p t =
     (case resolved_source t p of
        None \<Rightarrow> (Inr SourceMissing, t)
      | Some source \<Rightarrow>
          if \<not> evidence_admitted p then (Inl row_rejected, t)
          else if list_ex (\<lambda>e. pd_source_id e = pp_source_id p \<and> pd_raw_ref e = pp_raw_ref p) (pt_evidence t)
          then (Inr AlreadyThere, t)
          else (Inr Inserted, t\<lparr> pt_evidence := pt_evidence t @ [promoted_row_of new_id source p] \<rparr>))"

definition historical_warning_payload :: "promotion_env \<Rightarrow> int \<Rightarrow> promotion_payload \<Rightarrow> promotion_payload" where
  "historical_warning_payload env no_active_generation p =
     with_properties p (dict_merge (pp_properties p)
       [(''evidence_scope'', PyStr ''historical''), (''historical_reason'', PyStr ''superseded_by_no_active_event''),
        (''no_active_event_generation_started_at'',
           PyStr (tl_isoformat (pv_text env) (Aware (AwareAt no_active_generation 0))))])"

text \<open>A message that is in evidence already.\<close>

definition repeat_cap_message ::
  "promotion_env \<Rightarrow> promotion_payload \<Rightarrow> bool \<Rightarrow> string \<Rightarrow> (promotion_tables, string option) step" where
  "repeat_cap_message env p authorized evidence_id =
     (if pp_adapter_key p = Some ''official.ncdr.cap''
      then let enriched = with_admin_area_enrichment env p
           in case warning_boundary_rejection_reason enriched of
                Some r \<Rightarrow> reject env p authorized r
              | None \<Rightarrow>
                  wbind (if message_is enriched [''Alert'', ''Update''] \<and> should_upsert_official_realtime_latest enriched
                         then wbind (upsert_official_realtime_latest env enriched evidence_id)
                           (\<lambda>_ t. (Inr (), refresh_ncdr_latest_snapshot_marker env enriched t))
                         else wreturn ())
                    (\<lambda>_. reject env p authorized ''idempotent_existing_cap_message'')
      else reject env p authorized ''idempotent_existing_cap_message'')"

text \<open>The evidence is inserted, and what follows from it.\<close>

definition publish ::
  "promotion_env \<Rightarrow> promotion_reading \<Rightarrow> promotion_payload \<Rightarrow> promotion_payload \<Rightarrow> bool \<Rightarrow> bool \<Rightarrow> bool
    \<Rightarrow> (promotion_tables, string option) step" where
  "publish env rd p weighted authorized promote_latest blocked =
     wbind (insert_evidence (rd_new_id rd) weighted) (\<lambda>result.
       case result of
         SourceMissing \<Rightarrow> reject env p authorized ''source_catalog_missing''
       | AlreadyThere \<Rightarrow> reject env p authorized ''idempotent_existing_evidence''
       | Inserted \<Rightarrow>
           wbind (\<lambda>t. (Inr (),
              if is_current_cap_lifecycle_candidate p \<and> \<not> blocked \<and> message_is weighted [''Update'', ''Cancel'']
              then retire_cap_references env weighted t else t))
           (\<lambda>_. wbind
             (if promote_latest \<and> \<not> message_is weighted [''Cancel'']
                 \<and> should_upsert_official_realtime_latest weighted
              then upsert_official_realtime_latest env weighted (rd_new_id rd) else wreturn ())
           (\<lambda>_. wreturn (Some (rd_new_id rd)))))"

text \<open>A newer poll found no warning, so that this one has ended.\<close>

definition no_active_generation :: "promotion_payload \<Rightarrow> promotion_tables \<Rightarrow> int option" where
  "no_active_generation p t =
     (if is_current_cap_lifecycle_candidate p then max_successful_no_active_event_generation p t else None)"

definition blocked_by_no_active_event :: "promotion_env \<Rightarrow> promotion_payload \<Rightarrow> promotion_tables \<Rightarrow> bool" where
  "blocked_by_no_active_event env p t \<longleftrightarrow>
     (case (no_active_generation p t, ingestion_generation env p) of
        (Some n, Some g) \<Rightarrow> g \<le> n \<and> message_is p [''Alert'', ''Update''] | _ \<Rightarrow> False)"

definition weighted_payload :: "promotion_env \<Rightarrow> promotion_payload \<Rightarrow> promotion_tables \<Rightarrow> promotion_payload" where
  "weighted_payload env p t =
     (let enriched = with_admin_area_enrichment env p
      in case no_active_generation p t of
           None \<Rightarrow> enriched
         | Some n \<Rightarrow> if blocked_by_no_active_event env p t then historical_warning_payload env n enriched else enriched)"

definition write_new_evidence ::
  "promotion_env \<Rightarrow> promotion_reading \<Rightarrow> promotion_payload \<Rightarrow> bool \<Rightarrow> (promotion_tables, string option) step" where
  "write_new_evidence env rd p authorized t =
     (let blocked = blocked_by_no_active_event env p t;
          promote_latest = should_upsert_official_realtime_latest p \<and> \<not> blocked;
          (duplicate, t') = (if promote_latest then handle_exact_central_local_duplicate env p t
             else (NoDuplicate, t));
          decision = (if promote_latest \<and> pp_event_type p \<noteq> ''flood_warning''
             then classify_latest_decision env p t' else DecideInsert)
      in if duplicate = DuplicateCentral then reject env p authorized ''duplicate_central'' t'
         else if decision = DecideIdempotent then reject env p authorized ''idempotent_existing_observation'' t'
         else if decision = DecideConflict then reject env p authorized ''conflicting_latest'' t'
         else case warning_boundary_rejection_reason (with_admin_area_enrichment env p) of
              Some r \<Rightarrow> reject env p authorized r t'
            | None \<Rightarrow>
                publish env rd p (weighted_payload env p t) authorized
                  (promote_latest \<and> decision \<noteq> DecideHistorical) blocked t')"

definition write_accepted_candidate ::
  "promotion_env \<Rightarrow> promotion_reading \<Rightarrow> promotion_payload \<Rightarrow> bool \<Rightarrow> (promotion_tables, string option) step" where
  "write_accepted_candidate env rd p authorized t =
     (let cap = is_current_cap_lifecycle_candidate p
      in if cap \<and> \<not> py_hashable (property p ''cap_message_type'') then (Inl unhashable, t)
         else if authorized \<and> staging_evidence_was_already_used env p t then (Inr None, t)
         else case (if cap then cap_rejection_reason env (rd_checked_at rd) p t else None) of
           Some r \<Rightarrow> reject env p authorized r t
         | None \<Rightarrow>
             (case (if cap then canonical_cap_message_evidence_id env p t else None) of
                Some i \<Rightarrow> repeat_cap_message env p authorized i t
              | None \<Rightarrow> write_new_evidence env rd p authorized t))"

definition write_evidence ::
  "promotion_env \<Rightarrow> promotion_reading \<Rightarrow> promotion_payload \<Rightarrow> (promotion_tables, string option) step" where
  "write_evidence env rd p = transaction (rd_fault rd) (\<lambda>t.
     let authorization = authorize_staging_candidate env p t; authorized = (authorization = Some True)
     in if authorization = Some False then (Inr None, t)
        else case candidate_rejection_reason env (rd_now rd) p of
          Inl e \<Rightarrow> (Inl e, t)
        | Inr (Some r) \<Rightarrow>
            reject env p authorized r
              (if r = ''inactive_station'' \<and> authorized then retire_inactive_station_latest env p t else t)
        | Inr None \<Rightarrow> write_accepted_candidate env rd p authorized t)"

section \<open>A chunk of candidates\<close>

definition batch_idempotent_station_key ::
  "promotion_env \<Rightarrow> int \<Rightarrow> promotion_payload \<Rightarrow> (string \<times> string \<times> string) option outcome" where
  "batch_idempotent_station_key env now p =
     (if is_current_cap_lifecycle_candidate p \<or> pp_event_type p = ''flood_warning''
         \<or> \<not> should_upsert_official_realtime_latest p
      then Inr None
      else obind (current_candidate_rejection_reason env now p) (\<lambda>reason. Inr
        (case (reason, official_realtime_station_id env p, pp_adapter_key p) of
           (None, Some station, Some key) \<Rightarrow> Some (key, pp_event_type p, station)
         | _ \<Rightarrow> None)))"

text \<open>The candidates by staging row, the first of each, with the key of its latest row.\<close>

fun keyed_candidates ::
  "promotion_env \<Rightarrow> int \<Rightarrow> promotion_payload list
    \<Rightarrow> (string \<times> promotion_payload \<times> string \<times> string \<times> string) list
    \<Rightarrow> (string \<times> promotion_payload \<times> string \<times> string \<times> string) list outcome" where
  "keyed_candidates env now [] keyed = Inr keyed"
| "keyed_candidates env now (p # ps) keyed =
     (case validated_staging_id env p of
        None \<Rightarrow> keyed_candidates env now ps keyed
      | Some i \<Rightarrow>
          if i \<in> set (map fst keyed) then keyed_candidates env now ps keyed
          else obind (batch_idempotent_station_key env now p) (\<lambda>key.
            keyed_candidates env now ps
              (case key of None \<Rightarrow> keyed | Some k \<Rightarrow> keyed @ [(i, p, k)])))"

definition is_unchanged ::
  "promotion_env \<Rightarrow> promotion_tables \<Rightarrow> string \<times> promotion_payload \<times> string \<times> string \<times> string \<Rightarrow> bool" where
  "is_unchanged env t c \<longleftrightarrow>
     (case c of (i, p, key, event, station) \<Rightarrow>
        (case find (latest_at key event station) (pt_latest t) of
           None \<Rightarrow> False
         | Some l \<Rightarrow> same_fingerprint env p l \<and> authorize_staging_candidate env p t = Some True))"

definition settle_keyed ::
  "promotion_env \<Rightarrow> (string \<times> promotion_payload \<times> string \<times> string \<times> string) list
    \<Rightarrow> (promotion_tables, string list) step" where
  "settle_keyed env keyed t =
     (let settled = map fst (filter (is_unchanged env t) keyed)
      in (Inr settled, t\<lparr> pt_staged := map (\<lambda>s.
            if sd_id s \<in> set settled then mark_rejected ''idempotent_existing_observation'' (sd_id s) s else s)
            (pt_staged t) \<rparr>))"

definition settle_unchanged_observations ::
  "promotion_env \<Rightarrow> promotion_reading \<Rightarrow> promotion_payload list \<Rightarrow> (promotion_tables, string list) step" where
  "settle_unchanged_observations env rd ps t =
     (case keyed_candidates env (rd_now rd) ps [] of
        Inl e \<Rightarrow> (Inl e, t)
      | Inr keyed \<Rightarrow> if keyed = [] then (Inr [], t) else transaction (rd_fault rd) (settle_keyed env keyed) t)"

text \<open>The readings are those of the transactions, one for each candidate.\<close>

fun write_all ::
  "promotion_env \<Rightarrow> string list \<Rightarrow> promotion_reading list \<Rightarrow> promotion_payload list
    \<Rightarrow> (promotion_tables, string option list) step" where
  "write_all env settled (rd # rds) (p # ps) =
     wbind (if (case validated_staging_id env p of None \<Rightarrow> False | Some i \<Rightarrow> i \<in> set settled)
            then wreturn None else write_evidence env rd p)
       (\<lambda>r. wbind (write_all env settled rds ps) (\<lambda>rs. wreturn (r # rs)))"
| "write_all env settled _ _ = wreturn []"

definition write_evidence_batch ::
  "promotion_env \<Rightarrow> promotion_reading \<Rightarrow> promotion_reading list \<Rightarrow> promotion_payload list
    \<Rightarrow> (promotion_tables, string option list) step" where
  "write_evidence_batch env rd rds ps =
     (if ps = [] then wreturn []
      else wbind (settle_unchanged_observations env rd ps) (\<lambda>settled. write_all env settled rds ps))"

section \<open>All candidates that are ready\<close>

record promotion_candidate =
  cd_staging_evidence_id :: string
  cd_raw_snapshot_id :: "string option"
  cd_raw_ref :: "string option"
  cd_data_source_id :: "string option"
  cd_source_id :: string
  cd_source_type :: string
  cd_event_type :: string
  cd_title :: string
  cd_summary :: string
  cd_url :: "string option"
  cd_occurred_at :: "py_datetime option"
  cd_observed_at :: "py_datetime option"
  cd_confidence :: rat
  cd_validation_status :: staged_status
  cd_payload :: py_dict

definition normalized_raw_refs :: "string list option \<Rightarrow> string list option outcome" where
  "normalized_raw_refs refs =
     (case refs of
        None \<Rightarrow> Inr None
      | Some rs \<Rightarrow>
          if rs = [] then Inl (value_error ''raw_refs must contain at least one reference when provided'')
          else if \<not> list_all (\<lambda>r. r \<noteq> [] \<and> r = strip_str r) rs
          then Inl (value_error ''raw_refs must contain trimmed non-empty strings'')
          else Inr (Some (dict_fromkeys rs)))"

definition staging_query_checks :: "int option \<Rightarrow> string list option \<Rightarrow> unit outcome" where
  "staging_query_checks limit adapter_keys =
     (if adapter_keys = Some []
      then Inl (value_error ''adapter_keys must contain at least one key when provided'')
      else if (case limit of None \<Rightarrow> False | Some n \<Rightarrow> n < 1)
      then Inl (value_error ''limit must be greater than 0'')
      else Inr ())"

definition raw_ref_of_staged :: "promotion_tables \<Rightarrow> staged_row \<Rightarrow> string option" where
  "raw_ref_of_staged t s = map_option rr_raw_ref (raw_of_staged t s)"

definition is_ready ::
  "promotion_env \<Rightarrow> promotion_tables \<Rightarrow> string list option \<Rightarrow> string list option \<Rightarrow> staged_row \<Rightarrow> bool" where
  "is_ready env t adapter_keys raw_refs s \<longleftrightarrow>
     sd_status s = StagedAccepted
     \<and> (case adapter_keys of
          None \<Rightarrow> True
        | Some ks \<Rightarrow>
            (case coalesce (text_at env (sd_payload s) ''adapter_key'')
                    (map_option rr_adapter_key (raw_of_staged t s)) of
               None \<Rightarrow> False | Some k \<Rightarrow> k \<in> set ks))
     \<and> (case raw_refs of
          None \<Rightarrow> True
        | Some rs \<Rightarrow> (case raw_ref_of_staged t s of None \<Rightarrow> False | Some r \<Rightarrow> r \<in> set rs))
     \<and> \<not> list_ex (\<lambda>e. Some (pd_source_id e) = sd_source_id s \<and> pd_raw_ref e = raw_ref_of_staged t s) (pt_evidence t)"

text \<open>\<open>ORDER BY source_id, raw_ref, created_at, id\<close> with nulls last, and the first of each pair.\<close>

definition staging_rank ::
  "promotion_tables \<Rightarrow> staged_row \<Rightarrow> (bool \<times> string) \<times> (bool \<times> string) \<times> int \<times> string" where
  "staging_rank t s =
     (let nulls_last = (\<lambda>x. case x of None \<Rightarrow> (True, []) | Some v \<Rightarrow> (False, v))
      in (nulls_last (sd_source_id s), nulls_last (raw_ref_of_staged t s), sd_created_at s, sd_id s))"

fun distinct_on :: "('a \<Rightarrow> 'b) \<Rightarrow> 'a list \<Rightarrow> 'a list" where
  "distinct_on key [] = []"
| "distinct_on key (x # xs) = x # filter (\<lambda>y. key y \<noteq> key x) (distinct_on key xs)"

definition timestamp :: "int option \<Rightarrow> py_datetime option" where
  "timestamp x = map_option (\<lambda>i. Aware (AwareAt i 0)) x"

definition candidate_from_row :: "promotion_env \<Rightarrow> promotion_tables \<Rightarrow> staged_row \<Rightarrow> promotion_candidate outcome" where
  "candidate_from_row env t s =
     (case sd_confidence s of
        None \<Rightarrow> Inl (''TypeError'', ''float() argument must be a string or a real number'')
      | Some number \<Rightarrow> Inr
          \<lparr> cd_staging_evidence_id = sd_id s, cd_raw_snapshot_id = sd_raw_snapshot_id s,
            cd_raw_ref = raw_ref_of_staged t s,
            cd_data_source_id =
              coalesce (sd_data_source_id s) (coalesce (Option.bind (raw_of_staged t s) rr_data_source_id)
                (source_of_adapter t (coalesce (text_at env (sd_payload s) ''adapter_key'')
                   (map_option rr_adapter_key (raw_of_staged t s))))),
            cd_source_id = (case sd_source_id s of None \<Rightarrow> ''None'' | Some x \<Rightarrow> x),
            cd_source_type = sd_source_type s, cd_event_type = sd_event_type s, cd_title = sd_title s,
            cd_summary = sd_summary s, cd_url = sd_url s, cd_occurred_at = timestamp (sd_occurred_at s),
            cd_observed_at = timestamp (sd_observed_at s), cd_confidence = number,
            cd_validation_status = sd_status s, cd_payload = sd_payload s \<rparr>)"

definition fetch_accepted_staging ::
  "promotion_env \<Rightarrow> int option \<Rightarrow> string list option \<Rightarrow> string list option \<Rightarrow> promotion_tables
    \<Rightarrow> promotion_candidate list outcome" where
  "fetch_accepted_staging env limit adapter_keys raw_refs t =
     obind (normalized_raw_refs raw_refs) (\<lambda>refs.
     obind (staging_query_checks limit adapter_keys) (\<lambda>_.
       let rows = distinct_on (\<lambda>s. (sd_source_id s, raw_ref_of_staged t s))
             (sort_key (staging_rank t) (filter (is_ready env t adapter_keys refs) (pt_staged t)))
       in otraverse (candidate_from_row env t)
            (case limit of None \<Rightarrow> rows | Some n \<Rightarrow> take (nat n) rows)))"

definition payload_adapter_key :: "promotion_env \<Rightarrow> py_dict \<Rightarrow> string option" where
  "payload_adapter_key env d =
     (let v = dict_get d ''adapter_key'' in if py_truthy v then Some (str_of (pv_text env) v) else None)"

definition build_evidence_promotion_payload :: "promotion_env \<Rightarrow> promotion_candidate \<Rightarrow> promotion_payload outcome" where
  "build_evidence_promotion_payload env c =
     (if cd_validation_status c \<noteq> StagedAccepted
      then Inl (value_error ''only accepted staging evidence can be promoted'')
      else Inr
        \<lparr> pp_data_source_id = cd_data_source_id c, pp_adapter_key = payload_adapter_key env (cd_payload c),
          pp_source_id = cd_source_id c, pp_source_type = cd_source_type c, pp_event_type = cd_event_type c,
          pp_title = cd_title c, pp_summary = cd_summary c, pp_url = cd_url c,
          pp_occurred_at = cd_occurred_at c, pp_observed_at = cd_observed_at c,
          pp_confidence = cd_confidence c, pp_raw_ref = cd_raw_ref c,
          pp_properties = dict_merge (cd_payload c)
            [(''staging_evidence_id'', PyStr (cd_staging_evidence_id c)),
             (''raw_snapshot_id'', option_str (cd_raw_snapshot_id c))] \<rparr>)"

text \<open>The chunks of \<open>DEFAULT_PROMOTION_BATCH_SIZE\<close> candidates.\<close>

definition promotion_batch_size :: nat where
  "promotion_batch_size = 100"

function promote_chunks ::
  "promotion_env \<Rightarrow> (nat \<Rightarrow> promotion_reading) \<Rightarrow> nat \<Rightarrow> promotion_payload list
    \<Rightarrow> (promotion_tables, string list) step" where
  "promote_chunks env rds n ps =
     (if ps = [] then wreturn []
      else let chunk = take promotion_batch_size ps
           in wbind (write_evidence_batch env (rds n) (map rds [Suc n ..< Suc n + length chunk]) chunk)
                (\<lambda>results. wbind (promote_chunks env rds (Suc n + length chunk) (drop promotion_batch_size ps))
                (\<lambda>ids. wreturn (List.map_filter id results @ ids))))"
  by pat_completeness auto
termination
  by (relation "measure (\<lambda>(_, _, _, ps). length ps)") (auto simp: promotion_batch_size_def)

definition promote_accepted_staging ::
  "promotion_env \<Rightarrow> (nat \<Rightarrow> promotion_reading) \<Rightarrow> int option \<Rightarrow> string list option \<Rightarrow> string list option
    \<Rightarrow> (promotion_tables, int \<times> string list) step" where
  "promote_accepted_staging env rds limit adapter_keys raw_refs =
     wbind (\<lambda>t. (normalized_raw_refs raw_refs, t)) (\<lambda>refs.
     wbind (\<lambda>t. (obind (case rd_fault (rds 0) of None \<Rightarrow> Inr () | Some e \<Rightarrow> Inl e)
          (\<lambda>_. fetch_accepted_staging env limit adapter_keys refs t), t)) (\<lambda>candidates.
     wbind (\<lambda>t. (otraverse (build_evidence_promotion_payload env)
          (distinct_on (\<lambda>c. (cd_source_id c, cd_raw_ref c)) candidates), t)) (\<lambda>payloads.
     wbind (promote_chunks env rds 1 payloads) (\<lambda>ids. wreturn (int (length ids), ids)))))"

section \<open>A poll that found no warning\<close>

definition retire_warning_latest_for_no_active_event ::
  "promotion_env \<Rightarrow> py_exc option \<Rightarrow> string \<Rightarrow> py_datetime \<Rightarrow> py_datetime \<Rightarrow> (promotion_tables, int) step" where
  "retire_warning_latest_for_no_active_event env fault key generation completed =
     checked
       [(key \<in> set reviewed_warning_adapter_keys, ''no-active retirement requires a reviewed warning adapter''),
        (is_aware generation \<and> is_aware completed, ''no-active retirement timestamps must be timezone-aware''),
        (normalized_utc generation \<le> normalized_utc completed,
         ''no-active retirement completion precedes its generation'')]
       (transaction fault (\<lambda>t.
          let retired = (\<lambda>l. lt_adapter_key l = key \<and> lt_event_type l = ''flood_warning''
                \<and> (case latest_generation env l of None \<Rightarrow> False | Some g \<Rightarrow> g \<le> normalized_utc generation))
          in (Inr (int (length (filter retired (pt_latest t)))),
              t\<lparr> pt_latest := filter (\<lambda>l. \<not> retired l) (pt_latest t) \<rparr>)))"

section \<open>Writing a staged batch\<close>

definition upsert_raw_snapshot :: "string \<Rightarrow> staging_batch \<Rightarrow> promotion_tables \<Rightarrow> string \<times> promotion_tables" where
  "upsert_raw_snapshot new_id b t =
     (let snapshot = sb_raw_snapshot b; source = source_of_adapter t (Some (rw_adapter_key snapshot));
          here = (\<lambda>r. rr_raw_ref r = rw_raw_ref snapshot)
      in case find here (pt_raw t) of
           Some r \<Rightarrow> (rr_id r, t\<lparr> pt_raw := map (\<lambda>r.
             if here r then r\<lparr> rr_data_source_id := coalesce source (rr_data_source_id r) \<rparr> else r) (pt_raw t) \<rparr>)
         | None \<Rightarrow> (new_id, t\<lparr> pt_raw := pt_raw t @
             [\<lparr> rr_id = new_id, rr_data_source_id = source, rr_adapter_key = rw_adapter_key snapshot,
                rr_raw_ref = rw_raw_ref snapshot \<rparr>] \<rparr>))"

definition staged_row_of :: "promotion_tables \<Rightarrow> string \<Rightarrow> int \<Rightarrow> string \<Rightarrow> staging_row \<Rightarrow> staged_row" where
  "staged_row_of t new_id now raw_id g =
     \<lparr> sd_id = new_id, sd_raw_snapshot_id = Some raw_id,
       sd_data_source_id = source_of_adapter t (Some (sg_adapter_key g)), sd_source_id = Some (sg_source_id g),
       sd_source_type = sg_source_type g, sd_event_type = sg_event_type g, sd_title = sg_title g,
       sd_summary = sg_summary g, sd_url = Some (sg_url g),
       sd_occurred_at = Some (normalized_utc (sg_occurred_at g)),
       sd_observed_at = Some (normalized_utc (sg_observed_at g)), sd_confidence = Some (sg_confidence g),
       sd_status = (case sg_validation_status g of
          ValidationAccepted \<Rightarrow> StagedAccepted | ValidationRejected \<Rightarrow> StagedRejected),
       sd_rejection_reason = sg_rejection_reason g,
       sd_payload = dict_merge (sg_payload g)
         [(''evidence_id'', PyStr (sg_evidence_id g)), (''adapter_key'', PyStr (sg_adapter_key g)),
          (''raw_ref'', PyStr (sg_raw_ref g))],
       sd_created_at = now \<rparr>"

definition staging_admitted :: "staging_row \<Rightarrow> bool" where
  "staging_admitted g \<longleftrightarrow>
     0 \<le> sg_confidence g \<and> sg_confidence g \<le> 1 \<and> sg_source_type g \<in> set source_types
     \<and> sg_event_type g \<in> set event_types"

text \<open>\<open>ids\<close> are fresh identifiers, the first for the snapshot.\<close>

definition write_staging_batch ::
  "py_exc option \<Rightarrow> (nat \<Rightarrow> string) \<Rightarrow> int \<Rightarrow> staging_batch \<Rightarrow> (promotion_tables, unit) step" where
  "write_staging_batch fault ids now b = transaction fault (\<lambda>t.
     let (raw_id, t') = upsert_raw_snapshot (ids 0) b t; items = sb_accepted b @ sb_rejected b
     in if \<not> list_all (\<lambda>g. json_ready (PyDict (sg_payload g))) items
        then (Inl (''TypeError'', ''Object of type datetime is not JSON serializable''), t)
        else if \<not> list_all staging_admitted items then (Inl row_rejected, t)
        else (Inr (), t'\<lparr> pt_staged := pt_staged t' @
          map (\<lambda>(n, g). staged_row_of t' (ids (Suc n)) now raw_id g) (enumerate 0 items) \<rparr>))"

end
