(* ===== verification/Promotion_Writes.thy ===== *)
theory Promotion_Writes
  imports Promotion_Writer Step_Triples
begin

text \<open>
  What one write of a candidate does to the tables: how staging rows, evidence and jobs move on, and that
  evidence is inserted once or not at all.
\<close>

section \<open>What a write changes\<close>

text \<open>Sources, snapshots and jobs stay; evidence is added to; staging rows are settled for good.\<close>

definition settles :: "staged_row \<Rightarrow> staged_row \<Rightarrow> bool" where
  "settles s s' \<longleftrightarrow>
     s' = s \<or> (sd_status s = StagedAccepted
       \<and> (\<exists>reason. s' = s\<lparr> sd_status := StagedRejected, sd_rejection_reason := Some reason \<rparr>))"

definition moves_on :: "promotion_tables \<Rightarrow> promotion_tables \<Rightarrow> bool" where
  "moves_on t t' \<longleftrightarrow>
     pt_sources t' = pt_sources t \<and> pt_raw t' = pt_raw t \<and> pt_jobs t' = pt_jobs t
     \<and> (\<exists>new. pt_evidence t' = pt_evidence t @ new)
     \<and> list_all2 settles (pt_staged t) (pt_staged t')"

lemma settles_refl [simp]: "settles s s"
  by (simp add: settles_def)

lemma settles_trans: "settles a b \<Longrightarrow> settles b c \<Longrightarrow> settles a c"
  by (auto simp: settles_def)

lemma settles_mark [simp]: "settles s (mark_rejected reason i s)"
  by (auto simp: settles_def mark_rejected_def)

lemma moves_on_refl [simp]: "moves_on t t"
  by (simp add: moves_on_def list_all2_refl)

lemma moves_on_trans: "moves_on a b \<Longrightarrow> moves_on b c \<Longrightarrow> moves_on a c"
  unfolding moves_on_def
  by (elim conjE exE) (auto intro: list_all2_trans [OF settles_trans])

interpretation moves_on: step_relation moves_on
  by unfold_locales (simp, rule moves_on_trans)

lemma moves_on_latest [simp]: "moves_on t (t'\<lparr> pt_latest := ls \<rparr>) \<longleftrightarrow> moves_on t t'"
  by (simp add: moves_on_def)

lemma terminally_reject_simps [simp]:
  "pt_evidence (terminally_reject_staging env p reason authorized t) = pt_evidence t"
  "pt_latest (terminally_reject_staging env p reason authorized t) = pt_latest t"
  "moves_on t (terminally_reject_staging env p reason authorized t)"
  by (auto simp: terminally_reject_staging_def moves_on_def list_all2_refl list.rel_map split: option.splits)

lemma terminally_reject_keep [simp]:
  "pt_sources (terminally_reject_staging env p reason authorized t) = pt_sources t"
  "pt_raw (terminally_reject_staging env p reason authorized t) = pt_raw t"
  "pt_jobs (terminally_reject_staging env p reason authorized t) = pt_jobs t"
  by (auto simp: terminally_reject_staging_def split: option.splits)

lemma reject_advances: "advances moves_on (reject env p authorized reason)"
  by (rule advancesI) (auto simp: reject_def)

lemma duplicate_moves: "handle_exact_central_local_duplicate env p t = (d, t') \<Longrightarrow> \<exists>ls. t' = t\<lparr> pt_latest := ls \<rparr>"
  by (fastforce simp: handle_exact_central_local_duplicate_def Let_def split: if_splits option.splits list.splits
      intro: exI [of _ "pt_latest t"])

lemma upsert_moves: "advances moves_on (upsert_official_realtime_latest env p i)"
  by (rule advancesI) (auto simp: upsert_official_realtime_latest_def Let_def split: option.splits if_splits)

lemma refresh_moves: "\<exists>ls. refresh_ncdr_latest_snapshot_marker env p t = t\<lparr> pt_latest := ls \<rparr>"
  by (auto simp: refresh_ncdr_latest_snapshot_marker_def split: option.splits intro: exI [of _ "pt_latest t"])

lemma retire_references_moves: "\<exists>ls. retire_cap_references env p t = t\<lparr> pt_latest := ls \<rparr>"
  by (auto simp: retire_cap_references_def split: list.splits option.splits intro: exI [of _ "pt_latest t"])

lemma retire_inactive_moves: "\<exists>ls. retire_inactive_station_latest env p t = t\<lparr> pt_latest := ls \<rparr>"
  by (auto simp: retire_inactive_station_latest_def Let_def split: option.splits intro: exI [of _ "pt_latest t"])

lemma insert_moves: "advances moves_on (insert_evidence new_id p)"
  by (rule advancesI) (auto simp: insert_evidence_def moves_on_def list_all2_refl split: option.splits if_splits)

lemma repeat_advances: "advances moves_on (repeat_cap_message env p authorized i)"
proof -
  have "advances moves_on (\<lambda>t. (Inr (), refresh_ncdr_latest_snapshot_marker env q t))" for q
    by (rule advancesI) (use refresh_moves in \<open>metis Pair_inject moves_on_latest moves_on_refl\<close>)
  then show ?thesis
    unfolding repeat_cap_message_def Let_def
    by (auto intro!: moves_on.rules reject_advances upsert_moves split: option.split)
qed

lemma publish_advances: "advances moves_on (publish env rd p weighted authorized promote blocked)"
proof -
  have "advances moves_on (\<lambda>t. (Inr (), if b then retire_cap_references env weighted t else t))" for b
    by (rule advancesI) (use retire_references_moves in \<open>auto, metis moves_on_latest moves_on_refl\<close>)
  then show ?thesis
    unfolding publish_def
    by (auto intro!: moves_on.rules reject_advances upsert_moves insert_moves split: insertion.split)
qed


lemma transaction_advances: "(\<And>st. R st st) \<Longrightarrow> advances R m \<Longrightarrow> advances R (transaction fault m)"
  unfolding advances_def transaction_def by (auto split: prod.splits sum.splits option.splits)

text \<open>A candidate whose message is new is settled, or published.\<close>

lemma write_new_cases:
  assumes "write_new_evidence env rd p authorized t = (r, t')"
  obtains (settled) ls reason where "reject env p authorized reason (t\<lparr> pt_latest := ls \<rparr>) = (r, t')"
      "ls = pt_latest (snd (handle_exact_central_local_duplicate env p t)) \<or> ls = pt_latest t"
  | (published) ls promote where
      "publish env rd p (weighted_payload env p t) authorized promote (blocked_by_no_active_event env p t)
         (t\<lparr> pt_latest := ls \<rparr>) = (r, t')"
      "ls = pt_latest (snd (handle_exact_central_local_duplicate env p t)) \<or> ls = pt_latest t"
      "promote \<Longrightarrow> should_upsert_official_realtime_latest p \<and> \<not> blocked_by_no_active_event env p t"
      "promote \<Longrightarrow> pp_event_type p \<noteq> ''flood_warning'' \<Longrightarrow>
         classify_latest_decision env p (t\<lparr> pt_latest := ls \<rparr>) \<in> {DecideInsert, DecideUpdate}"
      "warning_boundary_rejection_reason (with_admin_area_enrichment env p) = None"
proof -
  let ?promote = "should_upsert_official_realtime_latest p \<and> \<not> blocked_by_no_active_event env p t"
  obtain d t1 where dup: "(if ?promote then handle_exact_central_local_duplicate env p t else (NoDuplicate, t)) = (d, t1)"
    by (metis surj_pair)
  then obtain ls where t1: "t1 = t\<lparr> pt_latest := ls \<rparr>"
    using duplicate_moves [of env p t d t1] by (metis (no_types, lifting) Pair_inject promotion_tables.surjective promotion_tables.update_convs(5))
  have ls: "ls = pt_latest (snd (handle_exact_central_local_duplicate env p t)) \<or> ls = pt_latest t"
    using dup t1 by (auto split: if_splits dest: arg_cong [where f = pt_latest])
  let ?decision = "if ?promote \<and> pp_event_type p \<noteq> ''flood_warning'' then classify_latest_decision env p t1 else DecideInsert"
  show thesis
  proof (cases "\<exists>reason. reject env p authorized reason t1 = (r, t')")
    case True
    then show thesis using settled ls t1 by metis
  next
    case False
    then have "warning_boundary_rejection_reason (with_admin_area_enrichment env p) = None"
      "publish env rd p (weighted_payload env p t) authorized (?promote \<and> ?decision \<noteq> DecideHistorical)
        (blocked_by_no_active_event env p t) t1 = (r, t')" "?decision \<noteq> DecideIdempotent" "?decision \<noteq> DecideConflict"
      using assms unfolding write_new_evidence_def Let_def dup prod.case
      by (auto split: if_splits option.splits)
    then show thesis using t1 ls
      by (intro published [of "?promote \<and> ?decision \<noteq> DecideHistorical" ls]) (auto split: if_splits intro: latest_decision.exhaust)
  qed
qed

lemma write_new_advances: "advances moves_on (write_new_evidence env rd p authorized)"
proof (rule advancesI)
  fix t r t'
  assume "write_new_evidence env rd p authorized t = (r, t')"
  then show "moves_on t t'"
    by (cases rule: write_new_cases) (auto dest!: advancesD [OF reject_advances] advancesD [OF publish_advances] simp: moves_on_def)
qed

lemma write_accepted_advances: "advances moves_on (write_accepted_candidate env rd p authorized)"
  by (rule advancesI)
    (auto simp: write_accepted_candidate_def Let_def split: if_splits option.splits
      elim: advancesD [OF reject_advances] advancesD [OF repeat_advances] advancesD [OF write_new_advances])

lemma write_evidence_advances: "advances moves_on (write_evidence env rd p)"
proof -
  have "moves_on t t'" if "reject env p authorized r (if b then retire_inactive_station_latest env p t else t) = (x, t')"
    for authorized r b t x t'
    using advancesD [OF reject_advances that] retire_inactive_moves [of env p t] by (auto split: if_splits simp: moves_on_def)
  then show ?thesis
    unfolding write_evidence_def
    by (intro transaction_advances advancesI)
      (auto simp: Let_def split: if_splits sum.splits option.splits elim: advancesD [OF write_accepted_advances])
qed

section \<open>What is inserted\<close>

text \<open>Fields of a payload but its properties, which areas and a newer poll may change.\<close>

definition same_candidate :: "promotion_payload \<Rightarrow> promotion_payload \<Rightarrow> bool" where
  "same_candidate p q \<longleftrightarrow> q = with_properties p (pp_properties q)"

lemma same_candidate_refl [simp]: "same_candidate p p"
  by (simp add: same_candidate_def with_properties_def)

lemma same_candidate_with [simp]: "same_candidate p (with_properties q d) \<longleftrightarrow> same_candidate p q"
  by (cases p; cases q) (auto simp: same_candidate_def with_properties_def)

lemma same_boundary [simp]: "same_candidate p (with_boundary q b pt ex) \<longleftrightarrow> same_candidate p q"
  by (simp add: with_boundary_def Let_def)

lemma same_enriched [simp]: "same_candidate p (with_admin_area_enrichment env p)"
  by (auto simp: with_admin_area_enrichment_def with_reviewed_warning_boundary_def
      with_reviewed_ncdr_warning_boundary_def split: option.split)

lemma same_weighted [simp]: "same_candidate p (weighted_payload env p t)"
  by (auto simp: weighted_payload_def Let_def historical_warning_payload_def split: option.split)

lemma same_candidateD:
  assumes "same_candidate p q"
  shows "pp_source_id q = pp_source_id p" "pp_raw_ref q = pp_raw_ref p" "pp_adapter_key q = pp_adapter_key p"
    "pp_event_type q = pp_event_type p" "pp_source_type q = pp_source_type p" "pp_observed_at q = pp_observed_at p"
    "pp_confidence q = pp_confidence p" "pp_data_source_id q = pp_data_source_id p" "pp_title q = pp_title p"
    "pp_summary q = pp_summary p" "pp_url q = pp_url p" "pp_occurred_at q = pp_occurred_at p"
proof -
  have q: "q = p\<lparr> pp_properties := pp_properties q \<rparr>"
    using assms by (simp only: same_candidate_def with_properties_def)
  show "pp_source_id q = pp_source_id p" "pp_raw_ref q = pp_raw_ref p" "pp_adapter_key q = pp_adapter_key p"
    "pp_event_type q = pp_event_type p" "pp_source_type q = pp_source_type p" "pp_observed_at q = pp_observed_at p"
    "pp_confidence q = pp_confidence p" "pp_data_source_id q = pp_data_source_id p" "pp_title q = pp_title p"
    "pp_summary q = pp_summary p" "pp_url q = pp_url p" "pp_occurred_at q = pp_occurred_at p"
    by (subst q, simp)+
qed

text \<open>The evidence after a write that answered: as before, or with the row of the candidate.\<close>

definition inserts :: "promotion_payload \<Rightarrow> string \<Rightarrow> promotion_tables \<Rightarrow> string option \<Rightarrow> promotion_tables \<Rightarrow> bool" where
  "inserts p new_id t r t' \<longleftrightarrow>
     (case r of
        None \<Rightarrow> pt_evidence t' = pt_evidence t
      | Some i \<Rightarrow>
          i = new_id \<and> list_all (\<lambda>e. (pd_source_id e, pd_raw_ref e) \<noteq> (pp_source_id p, pp_raw_ref p)) (pt_evidence t)
          \<and> (\<exists>source q. same_candidate p q \<and> evidence_admitted q
               \<and> pt_evidence t' = pt_evidence t @ [promoted_row_of i source q]))"

lemma reject_inserts: "reject env p authorized reason t = (Inr r, t') \<Longrightarrow> inserts p i t r t'"
  by (auto simp: reject_def inserts_def)

lemma upsert_evidence: "upsert_official_realtime_latest env p i t = (x, t') \<Longrightarrow> pt_evidence t' = pt_evidence t"
  by (auto simp: upsert_official_realtime_latest_def Let_def split: option.splits if_splits)

lemma retire_references_evidence [simp]: "pt_evidence (retire_cap_references env p t) = pt_evidence t"
  by (auto simp: retire_cap_references_def split: list.splits option.splits)

lemma refresh_evidence [simp]: "pt_evidence (refresh_ncdr_latest_snapshot_marker env p t) = pt_evidence t"
  by (auto simp: refresh_ncdr_latest_snapshot_marker_def split: option.splits)

lemma publish_inserts:
  assumes "publish env rd p weighted authorized promote blocked t = (Inr r, t')" and same: "same_candidate p weighted"
  shows "inserts p (rd_new_id rd) t r t'"
  using assms(1) same_candidateD(1,2) [OF same]
  by (auto simp: publish_def insert_evidence_def wbind_def wreturn_def reject_def inserts_def list_all_iff list_ex_iff
      split: option.splits if_splits sum.splits prod.splits dest!: upsert_evidence intro!: exI [of _ weighted] same)

lemma inserts_latest [simp]: "inserts p i (t\<lparr> pt_latest := ls \<rparr>) r t' \<longleftrightarrow> inserts p i t r t'"
  by (cases r) (simp_all add: inserts_def)

lemma inserts_nothing [simp]: "inserts p i t None t"
  by (simp add: inserts_def)

lemma write_new_inserts:
  "write_new_evidence env rd p authorized t = (Inr r, t') \<Longrightarrow> inserts p (rd_new_id rd) t r t'"
  by (erule write_new_cases) (auto dest: reject_inserts publish_inserts)

lemma repeat_inserts: "repeat_cap_message env p authorized j t = (Inr r, t') \<Longrightarrow> inserts p i t r t'"
  by (auto simp: repeat_cap_message_def Let_def wbind_def wreturn_def reject_def inserts_def
      split: if_splits option.splits prod.splits sum.splits dest!: upsert_evidence)

lemma write_accepted_inserts:
  "write_accepted_candidate env rd p authorized t = (Inr r, t') \<Longrightarrow> inserts p (rd_new_id rd) t r t'"
  by (auto simp: write_accepted_candidate_def Let_def split: if_splits option.splits
      dest: reject_inserts repeat_inserts write_new_inserts)

lemma transaction_Inr: "transaction fault m t = (Inr r, t') \<longleftrightarrow> fault = None \<and> m t = (Inr r, t')"
  by (auto simp: transaction_def split: prod.splits sum.splits option.splits)

lemma transaction_Inl: "transaction fault m t = (Inl e, t') \<Longrightarrow> t' = t"
  by (auto simp: transaction_def split: prod.splits sum.splits option.splits)

text \<open>A write that answered: not authorized, rejected by its form, or accepted as a candidate.\<close>

lemma write_evidence_cases:
  assumes "write_evidence env rd p t = (Inr r, t')"
  obtains (refused) "authorize_staging_candidate env p t = Some False" "r = None" "t' = t"
  | (rejected) reason where "authorize_staging_candidate env p t \<noteq> Some False"
      "candidate_rejection_reason env (rd_now rd) p = Inr (Some reason)" "r = None"
      "t' = terminally_reject_staging env p reason (authorize_staging_candidate env p t = Some True)
        (if reason = ''inactive_station'' \<and> authorize_staging_candidate env p t = Some True
         then retire_inactive_station_latest env p t else t)"
  | (judged) "authorize_staging_candidate env p t \<noteq> Some False"
      "candidate_rejection_reason env (rd_now rd) p = Inr None"
      "write_accepted_candidate env rd p (authorize_staging_candidate env p t = Some True) t = (Inr r, t')"
  using assms unfolding write_evidence_def transaction_Inr Let_def
  by (auto split: if_splits sum.splits option.splits simp: reject_def intro: that)

lemma retire_inactive_evidence [simp]: "pt_evidence (retire_inactive_station_latest env p t) = pt_evidence t"
  by (auto simp: retire_inactive_station_latest_def Let_def split: option.splits)

lemma write_inserts:
  assumes "write_evidence env rd p t = (Inr r, t')"
  shows "inserts p (rd_new_id rd) t r t'"
  using assms by (cases rule: write_evidence_cases) (auto simp: inserts_def dest: write_accepted_inserts)

lemma write_raises: "write_evidence env rd p t = (Inl e, t') \<Longrightarrow> t' = t"
  by (auto simp: write_evidence_def dest: transaction_Inl)

lemma write_authorized:
  assumes "write_evidence env rd p t = (Inr (Some i), t')"
  shows "authorize_staging_candidate env p t \<noteq> Some False"
  using assms by (cases rule: write_evidence_cases) auto

text \<open>
  C33. A candidate is promoted once or not at all: a write of a candidate either raises and leaves the tables
  as they were, or answers nothing and adds no evidence, or answers the identifier of the one evidence row
  that it appended. That row holds the fields of the candidate, no row of the same source reference and raw
  reference was there before, and the candidate's staging row, where it names one, authorized it. Staging
  rows change only from accepted to rejected, with a reason.
\<close>

theorem candidate_is_promoted_once_or_not_at_all:
  assumes run: "write_evidence env rd p t = (x, t')"
  shows "list_all2 settles (pt_staged t) (pt_staged t') \<and> pt_jobs t' = pt_jobs t
    \<and> (case x of
         Inl _ \<Rightarrow> t' = t
       | Inr None \<Rightarrow> pt_evidence t' = pt_evidence t
       | Inr (Some i) \<Rightarrow>
           i = rd_new_id rd \<and> authorize_staging_candidate env p t \<noteq> Some False
           \<and> list_all (\<lambda>e. (pd_source_id e, pd_raw_ref e) \<noteq> (pp_source_id p, pp_raw_ref p)) (pt_evidence t)
           \<and> (\<exists>source q. same_candidate p q \<and> evidence_admitted q
                \<and> pt_evidence t' = pt_evidence t @ [promoted_row_of i source q]))"
proof -
  have "moves_on t t'" using advancesD [OF write_evidence_advances run] .
  moreover have "t' = t" if "x = Inl e" for e
    using run write_raises unfolding that by blast
  moreover have "inserts p (rd_new_id rd) t r t'" if "x = Inr r" for r
    using run write_inserts unfolding that by blast
  moreover have "authorize_staging_candidate env p t \<noteq> Some False" if "x = Inr (Some i)" for i
    using run write_authorized unfolding that by blast
  ultimately show ?thesis by (auto simp: moves_on_def inserts_def split: sum.split option.split)
qed

end
