(* ===== verification/Promotion_Latest.thy ===== *)
theory Promotion_Latest
  imports Promotion_Writes
begin

text \<open>
  What one write of a candidate does to the latest rows: which rows may go, which row may come, and when a
  warning may be among them.
\<close>

section \<open>What enrichment leaves\<close>

definition enriched_keys :: "string list" where
  "enriched_keys = [''county'', ''town'', ''village'', ''location_payload'', ''latest_point_geometry'',
     ''location_precision'', ''ncdr_boundary_snapshot_id'']"

lemma property_with [simp]: "property (with_properties p d) k = dict_get d k"
  by (simp add: property_def with_properties_def)

lemma property_boundary: "k \<notin> set enriched_keys \<Longrightarrow> fst ` set ex \<subseteq> set enriched_keys \<Longrightarrow>
    property (with_boundary p b pt ex) k = property p k"
proof -
  assume k: "k \<notin> set enriched_keys" "fst ` set ex \<subseteq> set enriched_keys"
  have "dict_get (dict_merge d ([(''location_payload'', a), (''latest_point_geometry'', b), (''location_precision'', c)] @ ex)) k
      = dict_get d k" for d a b c
    by (rule dict_get_merge_other) (use k in \<open>auto simp: enriched_keys_def\<close>)
  then show ?thesis by (simp add: with_boundary_def Let_def) (simp add: property_def)
qed

lemma get_fold_area:
  "k \<notin> fst ` set kvs \<Longrightarrow>
   dict_get (fold (\<lambda>(k, v) d. if c (dict_get d k) then AList.update k (PyStr v) d else d) kvs d) k = dict_get d k"
  by (induction kvs arbitrary: d) auto

lemma admin_area_keys: "fst ` set (admin_area_from_row env row) \<subseteq> {''county'', ''town'', ''village''}"
  by (cases row) (auto simp: admin_area_from_row_def List.map_filter_simps split: option.splits)

lemma property_enriched:
  assumes "k \<notin> set enriched_keys"
  shows "property (with_admin_area_enrichment env p) k = property p k"
proof -
  have "k \<notin> fst ` set (admin_area_from_row env row)" for row
    using admin_area_keys [of env row] assms by (auto simp: enriched_keys_def)
  then have "dict_get (fold (\<lambda>(k, v) d. if optional_text env (dict_get d k) = None then AList.update k (PyStr v) d else d)
      (admin_area_from_row env row) (pp_properties p)) k = property p k" for row
    using get_fold_area [where c = "\<lambda>v. optional_text env v = None"] by (simp add: property_def)
  moreover have "property (with_reviewed_warning_boundary env p) k = property p k"
    using assms by (auto simp: with_reviewed_warning_boundary_def with_reviewed_ncdr_warning_boundary_def property_boundary
        enriched_keys_def split: option.split)
  ultimately show ?thesis
    by (simp add: with_admin_area_enrichment_def split: option.split)
qed

definition message_keys :: "string list" where
  "message_keys = [''admin_code'', ''cap_sender'', ''cap_identifier'', ''cap_sent'', ''cap_message_type'',
     ''station_id'', ''evidence_scope'']"

lemma message_key_enriched [simp]:
  "k \<in> set message_keys \<Longrightarrow> property (with_admin_area_enrichment env p) k = property p k"
  by (rule property_enriched) (auto simp: message_keys_def enriched_keys_def)

lemma station_enriched [simp]:
  "official_realtime_station_id env (with_admin_area_enrichment env p) = official_realtime_station_id env p"
  using same_candidateD [OF same_enriched [of p env]]
  by (simp add: official_realtime_station_id_def message_keys_def can_fallback_station_id_def in_pairs_def cong: option.case_cong)

lemma message_enriched [simp]: "message_is (with_admin_area_enrichment env p) ks \<longleftrightarrow> message_is p ks"
  by (simp add: message_is_def message_keys_def)

lemma cap_enriched [simp]:
  "is_current_cap_lifecycle_candidate (with_admin_area_enrichment env p) \<longleftrightarrow> is_current_cap_lifecycle_candidate p"
  "should_upsert_official_realtime_latest (with_admin_area_enrichment env p) \<longleftrightarrow> should_upsert_official_realtime_latest p"
  using same_candidateD [OF same_enriched [of p env]]
  by (simp_all add: is_current_cap_lifecycle_candidate_def should_upsert_official_realtime_latest_def in_pairs_def message_keys_def
      cong: option.case_cong)

lemma weighted_unblocked:
  "\<not> blocked_by_no_active_event env p t \<Longrightarrow> weighted_payload env p t = with_admin_area_enrichment env p"
  by (simp add: weighted_payload_def Let_def split: option.split)

section \<open>What comes to be the latest\<close>

definition latest_key :: "latest_row \<Rightarrow> string \<times> string \<times> string" where
  "latest_key l = (lt_adapter_key l, lt_event_type l, lt_station_id l)"

definition keyed_latest :: "promotion_tables \<Rightarrow> bool" where
  "keyed_latest t \<longleftrightarrow> distinct (map latest_key (pt_latest t))"

lemma latest_at_key: "latest_at k e s l \<longleftrightarrow> latest_key l = (k, e, s)"
  by (simp add: latest_at_def latest_key_def)

lemma upsert_latest_mem:
  assumes "l \<in> set (upsert_latest x ls)" "distinct (map latest_key ls)"
  shows "l \<in> set ls \<or> (l = x \<and> (\<forall>m \<in> set ls. latest_key m = latest_key x \<longrightarrow> lt_observed_at m < lt_observed_at x))"
proof (cases "l \<in> set ls")
  case False
  let ?here = "latest_at (lt_adapter_key x) (lt_event_type x) (lt_station_id x)"
  have here: "?here m \<longleftrightarrow> latest_key m = latest_key x" for m by (simp add: latest_at_key latest_key_def)
  show ?thesis
  proof (cases "list_ex ?here ls")
    case True
    with False assms(1) obtain m where m: "m \<in> set ls" "l = x" "?here m" "lt_observed_at m < lt_observed_at x"
      by (auto simp: upsert_latest_def Let_def split: if_splits)
    with assms(2) show ?thesis unfolding here by (metis distinct_map inj_onD)
  next
    case 2: False
    with False assms(1) show ?thesis by (auto simp: upsert_latest_def Let_def list_ex_iff here)
  qed
qed simp

lemma upsert_latest_keys: "distinct (map latest_key ls) \<Longrightarrow> distinct (map latest_key (upsert_latest x ls))"
proof -
  assume d: "distinct (map latest_key ls)"
  let ?here = "latest_at (lt_adapter_key x) (lt_event_type x) (lt_station_id x)"
  have here: "?here m \<longleftrightarrow> latest_key m = latest_key x" for m by (simp add: latest_at_key latest_key_def)
  have "map latest_key (map (\<lambda>m. if ?here m \<and> lt_observed_at m < lt_observed_at x then x else m) ls) = map latest_key ls"
    by (simp add: here)
  note same = this
  show ?thesis
  proof (cases "list_ex ?here ls")
    case True
    then show ?thesis unfolding upsert_latest_def Let_def by (simp only: if_True same d)
  next
    case False
    then show ?thesis using d by (auto simp: upsert_latest_def Let_def list_ex_iff here)
  qed
qed

lemma keyed_filter [simp]: "distinct (map latest_key ls) \<Longrightarrow> distinct (map latest_key (filter P ls))"
  by (induction ls) auto

text \<open>The candidate may be the latest: it is judged as accepted and, as a warning, in force.\<close>

definition may_be_latest :: "promotion_env \<Rightarrow> promotion_reading \<Rightarrow> promotion_payload \<Rightarrow> promotion_tables \<Rightarrow> bool" where
  "may_be_latest env rd p t \<longleftrightarrow>
     authorize_staging_candidate env p t \<noteq> Some False
     \<and> candidate_rejection_reason env (rd_now rd) p = Inr None \<and> should_upsert_official_realtime_latest p
     \<and> (is_current_cap_lifecycle_candidate p \<longrightarrow>
          cap_rejection_reason env (rd_checked_at rd) p t = None \<and> message_is p [''Alert'', ''Update'']
          \<and> geojson_geometry (pp_properties (with_admin_area_enrichment env p)) \<noteq> None)"

text \<open>The row that the candidate publishes, or a row of its station with the reference refreshed.\<close>

definition published_by :: "promotion_env \<Rightarrow> promotion_payload \<Rightarrow> string option \<Rightarrow> latest_row \<Rightarrow> bool" where
  "published_by env p r l \<longleftrightarrow>
     Some (lt_adapter_key l) = pp_adapter_key p \<and> lt_event_type l = pp_event_type p
     \<and> Some (lt_station_id l) = official_realtime_station_id env p
     \<and> Some (lt_observed_at l) = map_option normalized_utc (pp_observed_at p)
     \<and> (r \<noteq> None \<longrightarrow> lt_evidence_id l = r)"

definition becomes_latest ::
  "promotion_env \<Rightarrow> promotion_payload \<Rightarrow> string option \<Rightarrow> promotion_tables \<Rightarrow> latest_row \<Rightarrow> bool" where
  "becomes_latest env p r t l \<longleftrightarrow>
     ((published_by env p r l
        \<and> (\<forall>m \<in> set (pt_latest t). latest_key m = latest_key l \<longrightarrow> lt_event_type l = ''flood_warning'' \<or> lt_observed_at m < lt_observed_at l)
        \<and> (r = None \<longrightarrow> is_current_cap_lifecycle_candidate p))
      \<or> (r = None \<and> is_current_cap_lifecycle_candidate p \<and> lt_adapter_key l = ''official.ncdr.cap''
          \<and> lt_event_type l = ''flood_warning'' \<and> Some (lt_station_id l) = official_realtime_station_id env p))
     \<and> (r = None \<longrightarrow> (lt_evidence_id l \<noteq> None \<and> lt_evidence_id l = canonical_cap_message_evidence_id env p t)
          \<or> (\<exists>m \<in> set (pt_latest t). lt_evidence_id m = lt_evidence_id l \<and> lt_event_type m = lt_event_type l))"

text \<open>Rows are only taken away, and none of the candidate's own adapter.\<close>

definition thins :: "string option \<Rightarrow> latest_row list \<Rightarrow> latest_row list \<Rightarrow> bool" where
  "thins own ls ls' \<longleftrightarrow> set ls' \<subseteq> set ls \<and> (distinct (map latest_key ls) \<longrightarrow> distinct (map latest_key ls'))
     \<and> (\<forall>m \<in> set ls. Some (lt_adapter_key m) = own \<longrightarrow> m \<in> set ls')"

lemma thins_refl [simp]: "thins own ls ls"
  by (simp add: thins_def)

lemma duplicate_thins:
  "thins (pp_adapter_key p) (pt_latest t) (pt_latest (snd (handle_exact_central_local_duplicate env p t)))"
  by (auto simp: handle_exact_central_local_duplicate_def Let_def thins_def latest_at_def
      split: if_splits option.splits list.splits)

lemma retire_references_mem:
  "set (pt_latest (retire_cap_references env p t)) \<subseteq> set (pt_latest t)"
  "m \<in> set (pt_latest t) \<Longrightarrow> lt_event_type m \<noteq> ''flood_warning'' \<Longrightarrow> m \<in> set (pt_latest (retire_cap_references env p t))"
  "distinct (map latest_key (pt_latest t)) \<Longrightarrow> distinct (map latest_key (pt_latest (retire_cap_references env p t)))"
  by (auto simp: retire_cap_references_def split: list.splits option.splits)

lemma latest_row_simps [simp]:
  "lt_adapter_key (latest_row_of env q i key station observed point) = key"
  "lt_event_type (latest_row_of env q i key station observed point) = pp_event_type q"
  "lt_station_id (latest_row_of env q i key station observed point) = station"
  "lt_observed_at (latest_row_of env q i key station observed point) = observed"
  "lt_evidence_id (latest_row_of env q i key station observed point) = Some i"
  by (simp_all add: latest_row_of_def Let_def)

lemma upsert_published:
  assumes "upsert_official_realtime_latest env q i t = (Inr u, t')" "l \<in> set (pt_latest t')" "keyed_latest t"
  shows "l \<in> set (pt_latest t) \<or> (published_by env q (Some i) l
      \<and> (\<forall>m \<in> set (pt_latest t). latest_key m = latest_key l \<longrightarrow> lt_observed_at m < lt_observed_at l))"
proof -
  from assms(1) consider "t' = t"
    | station point key observed where "official_realtime_station_id env q = Some station" "pp_adapter_key q = Some key"
      "pp_observed_at q = Some observed"
      "t' = t\<lparr> pt_latest := upsert_latest (latest_row_of env q i key station (normalized_utc observed) point) (pt_latest t) \<rparr>"
    by (auto simp: upsert_official_realtime_latest_def Let_def split: option.splits if_splits)
  then show ?thesis
  proof cases
    case 2
    let ?x = "latest_row_of env q i key station (normalized_utc observed) point"
    have "l \<in> set (pt_latest t) \<or> (l = ?x
        \<and> (\<forall>m \<in> set (pt_latest t). latest_key m = latest_key ?x \<longrightarrow> lt_observed_at m < lt_observed_at ?x))"
      by (rule upsert_latest_mem) (use 2(4) assms(2,3) in \<open>simp_all add: keyed_latest_def\<close>)
    moreover have "published_by env q (Some i) ?x" using 2(1-3) by (simp add: published_by_def)
    ultimately show ?thesis by blast
  qed (use assms(2) in simp)
qed

lemma upsert_keyed: "upsert_official_realtime_latest env q i t = (x, t') \<Longrightarrow> keyed_latest t \<Longrightarrow> keyed_latest t'"
  by (auto simp: upsert_official_realtime_latest_def Let_def keyed_latest_def upsert_latest_keys split: option.splits if_splits)

lemma publish_latest:
  assumes run: "publish env rd p q authorized promote blocked t = (Inr r, t')" and keyed: "keyed_latest t"
  shows "keyed_latest t' \<and> (\<forall>l \<in> set (pt_latest t'). l \<in> set (pt_latest t)
    \<or> (r = Some (rd_new_id rd) \<and> promote \<and> \<not> message_is q [''Cancel''] \<and> should_upsert_official_realtime_latest q
       \<and> published_by env q r l
       \<and> (\<forall>m \<in> set (pt_latest t). latest_key m = latest_key l \<longrightarrow> lt_event_type l = ''flood_warning'' \<or> lt_observed_at m < lt_observed_at l)))"
proof -
  obtain x t1 where ins: "insert_evidence (rd_new_id rd) q t = (Inr x, t1)" "pt_latest t1 = pt_latest t"
    using run by (auto simp: publish_def wbind_def insert_evidence_def split: option.splits if_splits)
  show ?thesis
  proof (cases x)
    case Inserted
    define t2 where "t2 = (if is_current_cap_lifecycle_candidate p \<and> \<not> blocked \<and> message_is q [''Update'', ''Cancel'']
        then retire_cap_references env q t1 else t1)"
    have t2: "set (pt_latest t2) \<subseteq> set (pt_latest t)" "keyed_latest t2"
      "\<And>m. m \<in> set (pt_latest t) \<Longrightarrow> lt_event_type m \<noteq> ''flood_warning'' \<Longrightarrow> m \<in> set (pt_latest t2)"
      using retire_references_mem [where env = env and p = q and t = t1] keyed ins(2)
      by (auto simp: t2_def keyed_latest_def split: if_splits)
    have r: "r = Some (rd_new_id rd)"
      and up: "(if promote \<and> \<not> message_is q [''Cancel''] \<and> should_upsert_official_realtime_latest q
          then upsert_official_realtime_latest env q (rd_new_id rd) t2 else (Inr (), t2)) = (Inr (), t')"
      using run ins(1) by (auto simp: publish_def Inserted wbind_def wreturn_def t2_def split: if_splits sum.splits prod.splits)
    show ?thesis
    proof (cases "promote \<and> \<not> message_is q [''Cancel''] \<and> should_upsert_official_realtime_latest q")
      case True
      with up have up: "upsert_official_realtime_latest env q (rd_new_id rd) t2 = (Inr (), t')" by simp
      have "l \<in> set (pt_latest t) \<or> (published_by env q r l
          \<and> (\<forall>m \<in> set (pt_latest t). latest_key m = latest_key l \<longrightarrow> lt_event_type l = ''flood_warning'' \<or> lt_observed_at m < lt_observed_at l))"
        if "l \<in> set (pt_latest t')" for l
      proof -
        have kept: "m \<in> set (pt_latest t2)"
          if "m \<in> set (pt_latest t)" "latest_key m = latest_key l" "lt_event_type l \<noteq> ''flood_warning''" for m
          using that t2(3) by (simp add: latest_key_def)
        from upsert_published [OF up that t2(2)] t2(1) r kept show ?thesis by blast
      qed
      with True r upsert_keyed [OF up t2(2)] show ?thesis by blast
    qed (use up t2 r in auto)
  qed (use run ins keyed in \<open>auto simp: publish_def wbind_def reject_def keyed_latest_def\<close>)
qed

lemma published_enriched [simp]: "published_by env (with_admin_area_enrichment env p) r l \<longleftrightarrow> published_by env p r l"
  using same_candidateD [OF same_enriched [of p env]] by (simp add: published_by_def)

lemma published_weaker: "published_by env p r l \<Longrightarrow> published_by env p None l"
  by (simp add: published_by_def)

lemma thins_latest:
  "thins own (pt_latest t) ls \<Longrightarrow> keyed_latest t \<Longrightarrow> keyed_latest (t\<lparr> pt_latest := ls \<rparr>)"
  by (simp add: thins_def keyed_latest_def)

text \<open>A transaction may leave behind a candidate that came to be the latest, and no other new row.\<close>

definition latest_follows ::
  "promotion_env \<Rightarrow> promotion_reading \<Rightarrow> promotion_payload \<Rightarrow> string option \<Rightarrow> promotion_tables \<Rightarrow> promotion_tables \<Rightarrow> bool" where
  "latest_follows env rd p r t t' \<longleftrightarrow>
     keyed_latest t' \<and> (\<forall>l \<in> set (pt_latest t'). l \<in> set (pt_latest t) \<or> becomes_latest env p r t l)"

lemma latest_follows_thinned:
  "keyed_latest t' \<Longrightarrow> set (pt_latest t') \<subseteq> set (pt_latest t) \<Longrightarrow> latest_follows env rd p r t t'"
  by (auto simp: latest_follows_def)

lemma publish_follows:
  assumes run: "publish env rd p (weighted_payload env p t0) authorized promote blocked (t\<lparr> pt_latest := ls \<rparr>) = (Inr r, t')"
    and thin: "thins (pp_adapter_key p) (pt_latest t) ls" and keyed: "keyed_latest t"
    and unblocked: "promote \<Longrightarrow> \<not> blocked_by_no_active_event env p t0"
  shows "latest_follows env rd p r t t'
    \<and> (set (pt_latest t') \<subseteq> set (pt_latest t) \<or> promote \<and> \<not> message_is p [''Cancel''] \<and> should_upsert_official_realtime_latest p)"
proof -
  note base = publish_latest [OF run thins_latest [OF thin keyed]]
  have new: "becomes_latest env p r t l \<and> promote \<and> \<not> message_is p [''Cancel''] \<and> should_upsert_official_realtime_latest p"
    if "l \<in> set (pt_latest t')" "l \<notin> set ls" for l
  proof -
    from base that have l: "r = Some (rd_new_id rd)" "promote"
      "\<not> message_is (weighted_payload env p t0) [''Cancel'']"
      "should_upsert_official_realtime_latest (weighted_payload env p t0)"
      "published_by env (weighted_payload env p t0) r l"
      "\<forall>m \<in> set ls. latest_key m = latest_key l \<longrightarrow> lt_event_type l = ''flood_warning'' \<or> lt_observed_at m < lt_observed_at l"
      by auto
    from weighted_unblocked [OF unblocked [OF l(2)]] l(3-5)
    have p: "\<not> message_is p [''Cancel'']" "should_upsert_official_realtime_latest p" "published_by env p r l" by simp_all
    have "m \<in> set ls" if "m \<in> set (pt_latest t)" "latest_key m = latest_key l" for m
      using thin that p(3) by (simp add: thins_def latest_key_def published_by_def)
    with l p show ?thesis by (simp add: becomes_latest_def)
  qed
  have "set ls \<subseteq> set (pt_latest t)" using thin by (simp add: thins_def)
  with base new show ?thesis unfolding latest_follows_def by blast
qed

lemma write_new_latest:
  assumes run: "write_new_evidence env rd p authorized t = (Inr r, t')" and keyed: "keyed_latest t"
  shows "latest_follows env rd p r t t'
    \<and> (set (pt_latest t') \<subseteq> set (pt_latest t)
       \<or> \<not> message_is p [''Cancel''] \<and> should_upsert_official_realtime_latest p
         \<and> warning_boundary_rejection_reason (with_admin_area_enrichment env p) = None)"
  using run
proof (cases rule: write_new_cases)
  case (settled ls reason)
  then have "thins (pp_adapter_key p) (pt_latest t) ls" using duplicate_thins [of p t env] by auto
  then have "keyed_latest t'" "set (pt_latest t') \<subseteq> set (pt_latest t)"
    using settled(1) keyed by (auto simp: reject_def thins_def keyed_latest_def)
  then show ?thesis using latest_follows_thinned by blast
next
  case (published ls promote)
  have "thins (pp_adapter_key p) (pt_latest t) ls" using published(2) duplicate_thins [of p t env] by auto
  from publish_follows [OF published(1) this keyed] published(3,5) show ?thesis by blast
qed

lemma refresh_mem:
  assumes "l \<in> set (pt_latest (refresh_ncdr_latest_snapshot_marker env p t))"
  shows "l \<in> set (pt_latest t)
    \<or> (lt_adapter_key l = ''official.ncdr.cap'' \<and> lt_event_type l = ''flood_warning''
       \<and> Some (lt_station_id l) = official_realtime_station_id env p
       \<and> (\<exists>m \<in> set (pt_latest t). lt_evidence_id m = lt_evidence_id l \<and> lt_event_type m = lt_event_type l))"
  using assms by (fastforce simp: refresh_ncdr_latest_snapshot_marker_def latest_at_def split: option.splits if_splits)

lemma refresh_keyed: "keyed_latest t \<Longrightarrow> keyed_latest (refresh_ncdr_latest_snapshot_marker env p t)"
  by (auto simp: refresh_ncdr_latest_snapshot_marker_def keyed_latest_def comp_def latest_key_def [abs_def] if_distrib
      split: option.split cong: if_cong)

lemma repeat_latest:
  assumes run: "repeat_cap_message env p authorized i t = (Inr r, t')" and keyed: "keyed_latest t"
    and cap: "is_current_cap_lifecycle_candidate p" and known: "canonical_cap_message_evidence_id env p t = Some i"
  shows "latest_follows env rd p r t t'
    \<and> (set (pt_latest t') \<subseteq> set (pt_latest t)
       \<or> message_is p [''Alert'', ''Update''] \<and> should_upsert_official_realtime_latest p
         \<and> warning_boundary_rejection_reason (with_admin_area_enrichment env p) = None)"
proof -
  let ?q = "with_admin_area_enrichment env p"
  consider (same) "pt_latest t' = pt_latest t"
    | (upserted) t1 u where "upsert_official_realtime_latest env ?q i t = (Inr u, t1)" "r = None"
      "pt_latest t' = pt_latest (refresh_ncdr_latest_snapshot_marker env ?q t1)"
      "message_is p [''Alert'', ''Update'']" "should_upsert_official_realtime_latest p"
      "warning_boundary_rejection_reason ?q = None"
    using run unfolding repeat_cap_message_def Let_def
    by (auto simp: wbind_def wreturn_def reject_def split: if_splits option.splits prod.splits sum.splits)
  then show ?thesis
  proof cases
    case same
    then show ?thesis using keyed by (auto simp: latest_follows_def keyed_latest_def)
  next
    case upserted
    have keyed': "keyed_latest t'"
      using refresh_keyed [OF upsert_keyed [OF upserted(1) keyed], of env ?q] upserted(3) by (simp add: keyed_latest_def)
    have stored: "m \<in> set (pt_latest t) \<or> becomes_latest env p r t m \<and> lt_evidence_id m = Some i"
      if "m \<in> set (pt_latest t1)" for m
      using upsert_published [OF upserted(1) that keyed] cap upserted(2) known
      by (auto simp: becomes_latest_def published_by_def same_candidateD [OF same_enriched])
    have "l \<in> set (pt_latest t) \<or> becomes_latest env p r t l" if "l \<in> set (pt_latest t')" for l
    proof (cases "l \<in> set (pt_latest t1)")
      case False
      with refresh_mem [of l env ?q t1] that upserted(3) obtain m where m: "m \<in> set (pt_latest t1)"
        "lt_adapter_key l = ''official.ncdr.cap''" "lt_event_type l = ''flood_warning''"
        "Some (lt_station_id l) = official_realtime_station_id env p"
        "lt_evidence_id m = lt_evidence_id l" "lt_event_type m = lt_event_type l" by auto
      with stored [OF m(1)] cap upserted(2) known show ?thesis by (auto simp: becomes_latest_def)
    qed (use stored in blast)
    with keyed' upserted(4-6) show ?thesis by (simp add: latest_follows_def)
  qed
qed

lemma terminally_reject_latest [simp]:
  "keyed_latest (terminally_reject_staging env p reason authorized t) \<longleftrightarrow> keyed_latest t"
  by (simp add: keyed_latest_def)

lemma retire_inactive_latest:
  "set (pt_latest (retire_inactive_station_latest env p t)) \<subseteq> set (pt_latest t)"
  "keyed_latest t \<Longrightarrow> keyed_latest (retire_inactive_station_latest env p t)"
  by (auto simp: retire_inactive_station_latest_def Let_def keyed_latest_def split: option.split)

lemma cap_form_kinds:
  "cap_form_rejection env now p = None \<Longrightarrow> message_is p [''Alert'', ''Update'', ''Cancel'']"
  by (auto simp: cap_form_rejection_def Let_def split: if_splits)

lemma cap_accepted_kinds:
  "cap_rejection_reason env now p t = None \<Longrightarrow> \<not> message_is p [''Cancel''] \<Longrightarrow> message_is p [''Alert'', ''Update'']"
  using cap_form_kinds [of env now p] by (auto simp: cap_rejection_reason_def message_is_def split: option.splits)

lemma write_latest:
  assumes run: "write_evidence env rd p t = (Inr r, t')" and keyed: "keyed_latest t"
  shows "latest_follows env rd p r t t'
    \<and> (set (pt_latest t') \<subseteq> set (pt_latest t) \<or> may_be_latest env rd p t)"
  using run
proof (cases rule: write_evidence_cases)
  case refused
  then show ?thesis using keyed by (simp add: latest_follows_thinned)
next
  case (rejected reason)
  have "keyed_latest t' \<and> set (pt_latest t') \<subseteq> set (pt_latest t)"
    unfolding rejected(4) using retire_inactive_latest [where env = env and p = p and t = t] keyed by auto
  then show ?thesis using latest_follows_thinned by blast
next
  case judged
  let ?cap = "is_current_cap_lifecycle_candidate p"
  let ?ok = "(?cap \<longrightarrow> message_is p [''Alert'', ''Update'']) \<and> should_upsert_official_realtime_latest p
    \<and> warning_boundary_rejection_reason (with_admin_area_enrichment env p) = None"
  from judged(3) consider (settled) "pt_latest t' = pt_latest t"
    | (repeated) i where "canonical_cap_message_evidence_id env p t = Some i" "?cap" "cap_rejection_reason env (rd_checked_at rd) p t = None"
        "repeat_cap_message env p (authorize_staging_candidate env p t = Some True) i t = (Inr r, t')"
    | (new) "?cap \<longrightarrow> cap_rejection_reason env (rd_checked_at rd) p t = None"
        "write_new_evidence env rd p (authorize_staging_candidate env p t = Some True) t = (Inr r, t')"
    unfolding write_accepted_candidate_def Let_def
    by (auto simp: reject_def split: if_splits option.splits)
  then have "latest_follows env rd p r t t' \<and> (set (pt_latest t') \<subseteq> set (pt_latest t)
      \<or> (?cap \<longrightarrow> cap_rejection_reason env (rd_checked_at rd) p t = None) \<and> ?ok)"
  proof cases
    case settled
    then show ?thesis using keyed by (simp add: latest_follows_thinned keyed_latest_def)
  next
    case repeated
    from repeat_latest [OF repeated(4) keyed repeated(2,1), of rd] repeated(2,3) show ?thesis by blast
  next
    case new
    from write_new_latest [OF new(2) keyed] new(1) cap_accepted_kinds show ?thesis by blast
  qed
  moreover have "may_be_latest env rd p t"
    if "?cap \<longrightarrow> cap_rejection_reason env (rd_checked_at rd) p t = None" ?ok
    using that judged(1,2) by (auto simp: may_be_latest_def warning_boundary_rejection_reason_def split: if_splits)
  ultimately show ?thesis by blast
qed

section \<open>Observations and warnings\<close>

lemma warnings_are_cap:
  "should_upsert_official_realtime_latest p \<Longrightarrow> pp_event_type p = ''flood_warning'' \<Longrightarrow> is_current_cap_lifecycle_candidate p"
  by (auto simp: should_upsert_official_realtime_latest_def is_current_cap_lifecycle_candidate_def in_pairs_def
      reviewed_official_realtime_adapter_events_def split: option.splits)

lemma cap_is_warning: "is_current_cap_lifecycle_candidate p \<Longrightarrow> pp_event_type p = ''flood_warning''"
  by (auto simp: is_current_cap_lifecycle_candidate_def in_pairs_def split: option.splits)

lemma becomes_latest_observation:
  assumes "becomes_latest env p r t l" "lt_event_type l \<noteq> ''flood_warning''"
  shows "published_by env p r l" "r \<noteq> None"
    "m \<in> set (pt_latest t) \<Longrightarrow> latest_key m = latest_key l \<Longrightarrow> lt_observed_at m < lt_observed_at l"
  using assms cap_is_warning [of p] by (auto simp: becomes_latest_def published_by_def)

lemma becomes_latest_about:
  assumes "becomes_latest env p r t l" "is_current_cap_lifecycle_candidate p \<longrightarrow> pp_event_type p = ''flood_warning''"
  shows "lt_event_type l = pp_event_type p" "Some (lt_station_id l) = official_realtime_station_id env p"
  using assms by (auto simp: becomes_latest_def published_by_def)

text \<open>
  C30. The latest observation of a station never moves back: where the write of a candidate leaves a row among
  the latest that was not there before and that is no warning, the write answered the identifier of new
  evidence, the row cites that evidence, is of the candidate's station and time of observation, the candidate
  was not refused by its staging row, and every earlier row of the same adapter, event and station was
  observed strictly before.
\<close>

theorem latest_observation_never_moves_back:
  assumes run: "write_evidence env rd p t = (x, t')" and keyed: "keyed_latest t"
    and new: "l \<in> set (pt_latest t')" "l \<notin> set (pt_latest t)" "lt_event_type l \<noteq> ''flood_warning''"
  shows "x = Inr (Some (rd_new_id rd)) \<and> lt_evidence_id l = Some (rd_new_id rd)
    \<and> Some (lt_station_id l) = official_realtime_station_id env p
    \<and> Some (lt_observed_at l) = map_option normalized_utc (pp_observed_at p)
    \<and> authorize_staging_candidate env p t \<noteq> Some False
    \<and> (\<forall>m \<in> set (pt_latest t). latest_key m = latest_key l \<longrightarrow> lt_observed_at m < lt_observed_at l)"
proof -
  obtain r where x: "x = Inr r"
    using run new(1,2) by (cases x) (auto dest: write_raises)
  from write_latest [OF run [unfolded x] keyed] new(1,2)
  have l: "becomes_latest env p r t l" "may_be_latest env rd p t" by (auto simp: latest_follows_def)
  note obs = becomes_latest_observation [OF l(1) new(3)]
  with write_inserts [OF run [unfolded x]] obtain "r = Some (rd_new_id rd)" by (auto simp: inserts_def)
  with obs l(2) show ?thesis by (auto simp: x published_by_def may_be_latest_def)
qed

lemma rejects_unless: "(if b then Some x else y) = None \<longleftrightarrow> \<not> b \<and> y = None"
  by simp

lemma cap_form_accepts:
  assumes "cap_form_rejection env now p = None"
  shows "property p ''cap_status'' = PyStr ''Actual''" "\<exists>msg. own_triple env (pp_properties p) = Some msg"
    "\<exists>refs. cap_reference_triples env (property p ''cap_references'') = Some refs"
    "ingestion_generation env p \<noteq> None"
    "message_is p [''Alert'', ''Update''] \<Longrightarrow> \<exists>a b. parse_aware env (property p ''active_from'') = Some a
      \<and> parse_aware env (property p ''active_until'') = Some b \<and> a \<le> now \<and> now < b"
proof -
  show "property p ''cap_status'' = PyStr ''Actual''"
    using assms by (simp add: cap_form_rejection_def split: if_splits)
  obtain sender ident sent where own: "own_triple env (pp_properties p) = Some (sender, ident, sent)"
    using assms by (auto simp: cap_form_rejection_def split: if_splits option.splits)
  then show "\<exists>msg. own_triple env (pp_properties p) = Some msg" by simp
  obtain refs where refs: "cap_reference_triples env (property p ''cap_references'') = Some refs"
    using assms own by (auto simp: cap_form_rejection_def Let_def split: if_splits option.splits)
  then show "\<exists>refs. cap_reference_triples env (property p ''cap_references'') = Some refs" by simp
  show "ingestion_generation env p \<noteq> None"
    using assms unfolding cap_form_rejection_def Let_def own refs option.case prod.case rejects_unless by blast
  show "\<exists>a b. parse_aware env (property p ''active_from'') = Some a
      \<and> parse_aware env (property p ''active_until'') = Some b \<and> a \<le> now \<and> now < b"
    if "message_is p [''Alert'', ''Update'']"
  proof -
    have "in_cap_window env now p"
      using assms that unfolding cap_form_rejection_def Let_def own refs option.case prod.case rejects_unless by blast
    then show ?thesis 
      by (cases "parse_aware env (property p ''active_from'')"; cases "parse_aware env (property p ''active_until'')";
          simp add: in_cap_window_def)
  qed
qed

text \<open>
  C29. A warning among the latest rows is in force: where the write of a candidate leaves a warning among the
  latest that was not there before (or refreshes one), the candidate is an actual alert or update, the clock
  of the check lies within its window, its message is identified and no update or cancellation in evidence
  refers to it, and it has the geometry of an area.
\<close>

theorem latest_warning_is_in_force:
  assumes run: "write_evidence env rd p t = (x, t')" and keyed: "keyed_latest t"
    and new: "l \<in> set (pt_latest t')" "l \<notin> set (pt_latest t)" "lt_event_type l = ''flood_warning''"
  shows "property p ''cap_status'' = PyStr ''Actual'' \<and> message_is p [''Alert'', ''Update'']
    \<and> (\<exists>a b. parse_aware env (property p ''active_from'') = Some a
         \<and> parse_aware env (property p ''active_until'') = Some b \<and> a \<le> rd_checked_at rd \<and> rd_checked_at rd < b)
    \<and> (\<exists>msg. own_triple env (pp_properties p) = Some msg \<and> \<not> list_ex (is_tombstone_of env t msg) (pt_evidence t))
    \<and> geojson_geometry (pp_properties (with_admin_area_enrichment env p)) \<noteq> None"
proof -
  obtain r where x: "x = Inr r"
    using run new(1,2) by (cases x) (auto dest: write_raises)
  from write_latest [OF run [unfolded x] keyed] new(1,2)
  have l: "becomes_latest env p r t l" "may_be_latest env rd p t" by (auto simp: latest_follows_def)
  have "is_current_cap_lifecycle_candidate p"
  proof (rule warnings_are_cap)
    show "should_upsert_official_realtime_latest p" using l(2) by (simp add: may_be_latest_def)
    show "pp_event_type p = ''flood_warning''"
      using becomes_latest_about(1) [OF l(1)] cap_is_warning new(3) by metis
  qed
  with l(2) have rejection: "cap_rejection_reason env (rd_checked_at rd) p t = None" and kind: "message_is p [''Alert'', ''Update'']"
    and geo: "geojson_geometry (pp_properties (with_admin_area_enrichment env p)) \<noteq> None"
    by (simp_all add: may_be_latest_def)
  have form: "cap_form_rejection env (rd_checked_at rd) p = None"
    using rejection by (simp add: cap_rejection_reason_def split: option.splits)
  obtain msg where msg: "own_triple env (pp_properties p) = Some msg"
    using cap_form_accepts(2) [OF form] by blast
  then have "\<not> list_ex (is_tombstone_of env t msg) (pt_evidence t)"
    using rejection kind by (auto simp: cap_rejection_reason_def split: option.splits if_splits)
  with msg kind geo cap_form_accepts(1,5) [OF form] show ?thesis by blast
qed

end
