(* ===== verification/Promotion_Guarantees.thy ===== *)
theory Promotion_Guarantees
  imports Promotion_Latest Risk_Assessment
begin

text \<open>
  What holds of whole promotions: a relation that every write of a staged candidate and every settlement
  respects is respected by a promotion (the locale \<open>promotion_relation\<close>, interpreted for four relations).
  From it follow where promoted evidence comes from, what a promotion reports, that latest rows stay
  sound, and that a cancelled warning does not come back.
\<close>

section \<open>Cancellation\<close>

definition retired_message :: "promotion_env \<Rightarrow> promotion_tables \<Rightarrow> string \<times> string \<times> int \<Rightarrow> bool" where
  "retired_message env t msg \<longleftrightarrow> list_ex (is_tombstone_of env t msg) (pt_evidence t)"

lemma tombstone_sources: "pt_sources t' = pt_sources t \<Longrightarrow> is_tombstone_of env t' msg e = is_tombstone_of env t msg e"
  by (simp add: is_tombstone_of_def adapter_of_evidence_def adapter_of_source_def)

lemma retired_moves: "moves_on t t' \<Longrightarrow> retired_message env t msg \<Longrightarrow> retired_message env t' msg"
  by (auto simp: moves_on_def retired_message_def list_ex_iff dest: tombstone_sources)

lemma settle_moves: "advances moves_on (settle_keyed env keyed)"
  by (rule advancesI)
    (auto simp: settle_keyed_def Let_def moves_on_def list.rel_map intro!: list.rel_refl_strong)

lemma settle_advances: "advances moves_on (settle_unchanged_observations env rd ps)"
  by (rule advancesI)
    (auto simp: settle_unchanged_observations_def split: sum.splits if_splits
      elim: advancesD [OF transaction_advances [OF moves_on_refl settle_moves]])

section \<open>A whole promotion\<close>

declare promote_chunks.simps [simp del]

text \<open>What every write of a candidate and every settlement keeps, a whole promotion keeps.\<close>

definition names_staging :: "promotion_payload \<Rightarrow> bool" where
  "names_staging p \<longleftrightarrow> ''staging_evidence_id'' \<in> set (map fst (pp_properties p))"

lemma built_names_staging: "build_evidence_promotion_payload env c = Inr p \<Longrightarrow> names_staging p"
  by (auto simp: build_evidence_promotion_payload_def names_staging_def dict_merge_def dom_update split: if_splits)

lemma otraverse_all: "otraverse f xs = Inr ys \<Longrightarrow> (\<And>x y. f x = Inr y \<Longrightarrow> P y) \<Longrightarrow> list_all P ys"
  by (induction xs arbitrary: ys) (auto simp: obind_Inr_iff)

locale promotion_relation = step_relation R for R :: "promotion_tables \<Rightarrow> promotion_tables \<Rightarrow> bool" +
  assumes written: "names_staging p \<Longrightarrow> advances R (write_evidence env rd p)"
    and settled: "advances R (settle_unchanged_observations env rd ps)"
begin

lemma writes_all: "list_all names_staging ps \<Longrightarrow> advances R (write_all env done_ids rds ps)"
  by (induction env done_ids rds ps rule: write_all.induct) (auto intro!: rules written)

lemma writes_batch: "list_all names_staging ps \<Longrightarrow> advances R (write_evidence_batch env rd rds ps)"
  unfolding write_evidence_batch_def by (intro rules settled writes_all)

lemma promotes_chunks: "list_all names_staging ps \<Longrightarrow> advances R (promote_chunks env rds n ps)"
proof (induction env rds n ps rule: promote_chunks.induct)
  case (1 env rds n ps)
  have "list_all names_staging (take k ps)" "list_all names_staging (drop k ps)" for k
    using 1(2) by (auto simp: list_all_iff dest: in_set_takeD in_set_dropD)
  then show ?case
    by (subst promote_chunks.simps, unfold Let_def) (intro rules writes_batch 1(1) refl, simp_all)
qed

lemma promotes: "advances R (promote_accepted_staging env rds limit keys refs)"
  unfolding promote_accepted_staging_def
  by (rule bind, rule outcome, rule bind, rule outcome, rule bind_yields [where Q = "list_all names_staging", OF outcome])
    (auto intro!: yieldsI rules promotes_chunks elim: otraverse_all [OF _ built_names_staging])

end

interpretation moving: promotion_relation moves_on
  by unfold_locales (rule write_evidence_advances, rule settle_advances)

lemma cancellation_is_final:
  assumes "retired_message env t msg"
    and "promote_accepted_staging env rds limit keys refs t = (x, t1)"
    and "own_triple env (pp_properties p) = Some msg" and "pp_event_type p = ''flood_warning''"
    and "write_evidence env rd p t1 = (y, t2)" and "keyed_latest t1"
  shows "set (pt_latest t2) \<subseteq> set (pt_latest t1)"
proof -
  have "retired_message env t1 msg"
    using retired_moves [OF advancesD [OF moving.promotes assms(2)] assms(1)] .
  then have "\<not> may_be_latest env rd p t1" if "should_upsert_official_realtime_latest p"
    using warnings_are_cap [OF that assms(4)] assms(3)
    by (auto simp: may_be_latest_def cap_rejection_reason_def retired_message_def split: option.splits)
  then have "\<not> may_be_latest env rd p t1" by (auto simp: may_be_latest_def)
  moreover have "t2 = t1" if "y = Inl e" for e
    using assms(5) that by (auto simp: write_evidence_def dest: transaction_Inl)
  ultimately show ?thesis
    using write_latest [OF _ assms(6), of env rd p _ t2] assms(5) by (cases y) auto
qed

section \<open>The latest rows of a whole promotion\<close>

definition cited :: "promotion_tables \<Rightarrow> bool" where
  "cited t \<longleftrightarrow> (\<forall>l \<in> set (pt_latest t). \<exists>e \<in> set (pt_evidence t).
     lt_evidence_id l = Some (pd_id e) \<and> pd_event_type e = lt_event_type l \<and> pd_source_type e = ''official'')"

lemma canonical_cited:
  assumes "canonical_cap_message_evidence_id env p t = Some i"
  shows "\<exists>e \<in> set (pt_evidence t). pd_id e = i \<and> pd_event_type e = ''flood_warning'' \<and> pd_source_type e = ''official''"
  using assms by (auto simp: canonical_cap_message_evidence_id_def is_current_warning_row_def find_Some_iff
      split: option.splits prod.splits intro!: bexI [OF _ nth_mem])

lemma write_keeps_cited:
  assumes run: "write_evidence env rd p t = (Inr r, t')" and keyed: "keyed_latest t" and cited: "cited t"
  shows "cited t'"
proof -
  note follows = write_latest [OF run keyed]
  obtain new where grown: "pt_evidence t' = pt_evidence t @ new"
    using advancesD [OF write_evidence_advances run] by (auto simp: moves_on_def)
  have "\<exists>e \<in> set (pt_evidence t'). lt_evidence_id l = Some (pd_id e) \<and> pd_event_type e = lt_event_type l
      \<and> pd_source_type e = ''official''" if l: "l \<in> set (pt_latest t')" "l \<notin> set (pt_latest t)" for l
  proof (cases r)
    case (Some i)
    from l follows have l': "becomes_latest env p (Some i) t l" "may_be_latest env rd p t"
      by (auto simp: latest_follows_def Some)
    from write_inserts [OF run] obtain source q where q: "same_candidate p q"
      "pt_evidence t' = pt_evidence t @ [promoted_row_of i source q]" by (auto simp: inserts_def Some)
    have "lt_evidence_id l = Some i" "lt_event_type l = pp_event_type p"
      using l'(1) by (auto simp: becomes_latest_def published_by_def)
    moreover have "pp_source_type p = ''official''"
      using l'(2) by (simp add: may_be_latest_def should_upsert_official_realtime_latest_def)
    ultimately show ?thesis using same_candidateD [OF q(1)] by (simp add: q(2) promoted_row_of_def)
  next
    case None
    from l follows have l': "becomes_latest env p None t l" by (auto simp: latest_follows_def None)
    then consider i where "lt_evidence_id l = Some i" "canonical_cap_message_evidence_id env p t = Some i"
        "lt_event_type l = ''flood_warning''"
      | m where "m \<in> set (pt_latest t)" "lt_evidence_id m = lt_evidence_id l" "lt_event_type m = lt_event_type l"
      using cap_is_warning [of p] by (auto simp: becomes_latest_def published_by_def) metis+
    then show ?thesis
    proof cases
      case 1
      with canonical_cited [OF 1(2)] grown show ?thesis by auto
    next
      case 2
      with cited obtain e where "e \<in> set (pt_evidence t)" "lt_evidence_id l = Some (pd_id e)"
        "pd_event_type e = lt_event_type l" "pd_source_type e = ''official''" by (auto simp: cited_def)
      with grown show ?thesis by auto
    qed
  qed
  moreover have "\<exists>e \<in> set (pt_evidence t'). lt_evidence_id l = Some (pd_id e) \<and> pd_event_type e = lt_event_type l
      \<and> pd_source_type e = ''official''" if "l \<in> set (pt_latest t)" for l
    using cited that grown by (auto simp: cited_def)
  ultimately show ?thesis unfolding cited_def by blast
qed

definition sound_latest :: "promotion_tables \<Rightarrow> bool" where
  "sound_latest t \<longleftrightarrow> keyed_latest t \<and> cited t"

definition stays_sound :: "promotion_tables \<Rightarrow> promotion_tables \<Rightarrow> bool" where
  "stays_sound t t' \<longleftrightarrow> (sound_latest t \<longrightarrow> sound_latest t')"

lemma write_stays_sound: "advances stays_sound (write_evidence env rd p)"
proof (rule advancesI)
  fix t x t'
  assume run: "write_evidence env rd p t = (x, t')"
  show "stays_sound t t'"
  proof (cases x)
    case (Inl e)
    with run show ?thesis by (auto simp: write_evidence_def stays_sound_def dest: transaction_Inl)
  next
    case (Inr r)
    note run = run [unfolded Inr]
    show ?thesis
      using write_latest [OF run] write_keeps_cited [OF run] by (simp add: stays_sound_def sound_latest_def latest_follows_def)
  qed
qed

lemma settle_stays_sound: "advances stays_sound (settle_unchanged_observations env rd ps)"
proof (rule advancesI)
  fix t x t'
  assume "settle_unchanged_observations env rd ps t = (x, t')"
  then have "pt_latest t' = pt_latest t \<and> pt_evidence t' = pt_evidence t"
    by (auto simp: settle_unchanged_observations_def transaction_def settle_keyed_def Let_def
        split: sum.splits if_splits option.splits prod.splits)
  then show "stays_sound t t'" by (simp add: stays_sound_def sound_latest_def keyed_latest_def cited_def)
qed

interpretation sound: promotion_relation stays_sound
  by unfold_locales (auto simp: stays_sound_def intro!: write_stays_sound settle_stays_sound)

text \<open>
  C31. A promotion keeps the latest rows sound, whatever it answers and wherever it stops: there is one row for
  each adapter, event and station, and each cites official evidence of its event type that is in the table.
\<close>

theorem latest_rows_stay_sound:
  assumes "sound_latest t" and "promote_accepted_staging env rds limit keys refs t = (x, t')"
  shows "sound_latest t'"
  using advancesD [OF sound.promotes assms(2)] assms(1) by (simp add: stays_sound_def)

section \<open>A repeated warning and the polls that found none\<close>

text \<open>A step that does not look at the jobs.\<close>

definition blind_to_jobs :: "(promotion_tables, 'a) step \<Rightarrow> bool" where
  "blind_to_jobs m \<longleftrightarrow> (\<forall>t js. m (t\<lparr> pt_jobs := js \<rparr>) = map_prod id (\<lambda>t'. t'\<lparr> pt_jobs := js \<rparr>) (m t))"

lemma blind_return: "blind_to_jobs (wreturn a)"
  by (simp add: blind_to_jobs_def wreturn_def)

lemma blind_bind: "blind_to_jobs m \<Longrightarrow> (\<And>a. blind_to_jobs (f a)) \<Longrightarrow> blind_to_jobs (wbind m f)"
  by (auto simp: blind_to_jobs_def wbind_def split: prod.split sum.split)

lemma blind_if: "blind_to_jobs m \<Longrightarrow> blind_to_jobs m' \<Longrightarrow> blind_to_jobs (if b then m else m')"
  by simp

lemma blind_reject: "blind_to_jobs (reject env p authorized reason)"
  by (auto simp: blind_to_jobs_def reject_def terminally_reject_staging_def split: option.split)

lemma blind_upsert: "blind_to_jobs (upsert_official_realtime_latest env p i)"
  by (auto simp: blind_to_jobs_def upsert_official_realtime_latest_def Let_def split: option.split)

lemma blind_refresh: "blind_to_jobs (\<lambda>t. (Inr (), refresh_ncdr_latest_snapshot_marker env p t))"
  by (auto simp: blind_to_jobs_def refresh_ncdr_latest_snapshot_marker_def split: option.split)

lemma blind_repeat: "blind_to_jobs (repeat_cap_message env p authorized i)"
  unfolding repeat_cap_message_def Let_def
  by (auto intro!: blind_if blind_bind blind_reject blind_upsert blind_refresh blind_return split: option.split)

lemma raw_jobs [simp]: "raw_of_staged (t\<lparr> pt_jobs := js \<rparr>) = raw_of_staged t"
  by (intro ext) (simp add: raw_of_staged_def cong: option.case_cong)

lemma authorizes_jobs [simp]: "authorizes env (t\<lparr> pt_jobs := js \<rparr>) = authorizes env t"
  by (intro ext) (simp add: authorizes_def)

lemma authorize_jobs [simp]: "authorize_staging_candidate env p (t\<lparr> pt_jobs := js \<rparr>) = authorize_staging_candidate env p t"
  by (simp add: authorize_staging_candidate_def cong: option.case_cong)

lemma used_jobs [simp]:
  "staging_evidence_was_already_used env p (t\<lparr> pt_jobs := js \<rparr>) = staging_evidence_was_already_used env p t"
  by (simp add: staging_evidence_was_already_used_def cong: option.case_cong)

lemma tombstone_jobs [simp]: "is_tombstone_of env (t\<lparr> pt_jobs := js \<rparr>) = is_tombstone_of env t"
  by (intro ext tombstone_sources) simp

lemma rejection_jobs [simp]: "cap_rejection_reason env now p (t\<lparr> pt_jobs := js \<rparr>) = cap_rejection_reason env now p t"
  by (simp add: cap_rejection_reason_def cong: option.case_cong)

lemma canonical_jobs [simp]:
  "canonical_cap_message_evidence_id env p (t\<lparr> pt_jobs := js \<rparr>) = canonical_cap_message_evidence_id env p t"
  by (simp add: canonical_cap_message_evidence_id_def adapter_of_evidence_def adapter_of_source_def
      cong: option.case_cong)

lemma retire_inactive_jobs [simp]:
  "retire_inactive_station_latest env p (t\<lparr> pt_jobs := js \<rparr>) = (retire_inactive_station_latest env p t)\<lparr> pt_jobs := js \<rparr>"
  by (auto simp: retire_inactive_station_latest_def Let_def split: option.split)

text \<open>
  C36. The write of a warning whose message is in evidence already does not depend on the polls that found no
  warning: with any ingestion jobs in the table it answers the same and leaves the same rows. So a newer poll
  that found none cannot keep a repeated message from becoming the latest again; the witness is a table in
  which a poll had retired the message and its repetition brings it back.
\<close>

theorem repeated_message_overrules_empty_polls:
  assumes "is_current_cap_lifecycle_candidate p" and "canonical_cap_message_evidence_id env p t = Some i"
  shows "write_evidence env rd p (t\<lparr> pt_jobs := js \<rparr>)
    = map_prod id (\<lambda>t'. t'\<lparr> pt_jobs := js \<rparr>) (write_evidence env rd p t)"
proof -
  note blind = blind_reject [unfolded blind_to_jobs_def, rule_format] blind_repeat [unfolded blind_to_jobs_def, rule_format]
  have "write_accepted_candidate env rd p authorized (t\<lparr> pt_jobs := js \<rparr>)
      = map_prod id (\<lambda>t'. t'\<lparr> pt_jobs := js \<rparr>) (write_accepted_candidate env rd p authorized t)" for authorized
    using assms blind by (auto simp: write_accepted_candidate_def Let_def split: option.split)
  with blind show ?thesis
    by (auto simp: write_evidence_def transaction_def Let_def map_prod_def split: option.split sum.split prod.split)
qed

section \<open>Where promoted evidence comes from\<close>

definition copies :: "staged_row \<Rightarrow> promoted_row \<Rightarrow> bool" where
  "copies s e \<longleftrightarrow>
     sd_status s = StagedAccepted \<and> sd_source_id s = Some (pd_source_id e) \<and> sd_source_type s = pd_source_type e
     \<and> sd_event_type s = pd_event_type e \<and> sd_title s = pd_title e \<and> sd_summary s = pd_summary e
     \<and> sd_url s = pd_url e \<and> sd_occurred_at s = pd_occurred_at e \<and> sd_observed_at s = pd_observed_at e
     \<and> sd_confidence s = Some (pd_confidence e)"

definition ref_key :: "promoted_row \<Rightarrow> string \<times> string option" where
  "ref_key e = (pd_source_id e, pd_raw_ref e)"

text \<open>Evidence is only added to, from rows that were accepted at first, and once for each reference.\<close>

definition vouched_growth :: "promotion_tables \<Rightarrow> promotion_tables \<Rightarrow> bool" where
  "vouched_growth t t' \<longleftrightarrow>
     moves_on t t'
     \<and> (\<exists>new. pt_evidence t' = pt_evidence t @ new \<and> (\<forall>e \<in> set new. \<exists>s \<in> set (pt_staged t). copies s e))
     \<and> (distinct (map ref_key (pt_evidence t)) \<longrightarrow> distinct (map ref_key (pt_evidence t')))"

lemma vouched_growth_refl [simp]: "vouched_growth t t"
  by (simp add: vouched_growth_def)

lemma copies_settled: "settles s s' \<Longrightarrow> copies s' e \<Longrightarrow> copies s e"
  by (auto simp: settles_def copies_def)

lemma vouched_growth_trans:
  assumes "vouched_growth a b" "vouched_growth b c"
  shows "vouched_growth a c"
proof -
  obtain new where new: "pt_evidence b = pt_evidence a @ new" "\<forall>e \<in> set new. \<exists>s \<in> set (pt_staged a). copies s e"
    using assms(1) by (auto simp: vouched_growth_def)
  obtain new' where new': "pt_evidence c = pt_evidence b @ new'" "\<forall>e \<in> set new'. \<exists>s \<in> set (pt_staged b). copies s e"
    using assms(2) by (auto simp: vouched_growth_def)
  have staged: "list_all2 settles (pt_staged a) (pt_staged b)"
    using assms(1) by (simp add: vouched_growth_def moves_on_def)
  have "\<exists>s \<in> set (pt_staged a). copies s e" if "e \<in> set new'" for e
  proof -
    from new'(2) that obtain s' where s': "s' \<in> set (pt_staged b)" "copies s' e" by blast
    from list_all2_mem2 [OF staged s'(1)] copies_settled s'(2) show ?thesis by blast
  qed
  with new new' assms show ?thesis
    unfolding vouched_growth_def by (intro conjI) (blast intro: moves_on_trans, auto)
qed

lemma authorized_copies:
  assumes "authorize_staging_candidate env p t = Some True" "same_candidate p q"
  shows "\<exists>s \<in> set (pt_staged t). copies s (promoted_row_of i source q)"
proof -
  from assms(1) obtain s j where s: "s \<in> set (pt_staged t)" "authorizes env t p j s"
    by (auto simp: authorize_staging_candidate_def list_ex_iff split: if_splits option.splits)
  then obtain r where "raw_of_staged t s = Some r" by (auto simp: authorizes_def split: option.splits)
  with s(2) same_candidateD [OF assms(2)] have "copies s (promoted_row_of i source q)"
    by (simp add: authorizes_def copies_def promoted_row_of_def Let_def)
  with s(1) show ?thesis by blast
qed

lemma names_staging_authorized:
  "names_staging p \<Longrightarrow> authorize_staging_candidate env p t \<noteq> Some False \<Longrightarrow> authorize_staging_candidate env p t = Some True"
  by (auto simp: names_staging_def authorize_staging_candidate_def split: option.splits)

lemma write_vouched:
  assumes names: "names_staging p"
  shows "advances vouched_growth (write_evidence env rd p)"
proof (rule advancesI)
  fix t x t'
  assume run: "write_evidence env rd p t = (x, t')"
  note moved = advancesD [OF write_evidence_advances run]
  consider (raised) "t' = t" | (settled) "pt_evidence t' = pt_evidence t"
    | (inserted) i source q where "same_candidate p q" "pt_evidence t' = pt_evidence t @ [promoted_row_of i source q]"
        "list_all (\<lambda>e. (pd_source_id e, pd_raw_ref e) \<noteq> (pp_source_id p, pp_raw_ref p)) (pt_evidence t)"
        "authorize_staging_candidate env p t \<noteq> Some False"
  proof (cases x)
    case (Inl e)
    then show thesis using run raised write_raises by blast
  next
    case (Inr r)
    then show thesis
      using write_inserts [OF run [unfolded Inr]] settled inserted write_authorized run
      by (cases r) (auto simp: inserts_def Inr)
  qed
  then show "vouched_growth t t'"
  proof cases
    case inserted
    have "ref_key (promoted_row_of i source q) \<notin> ref_key ` set (pt_evidence t)"
      using inserted(3) same_candidateD(1,2) [OF inserted(1)]
      by (auto simp: ref_key_def promoted_row_of_def list_all_iff)
    moreover from authorized_copies [OF names_staging_authorized [OF names inserted(4)] inserted(1)]
    have "\<exists>s \<in> set (pt_staged t). copies s (promoted_row_of i source q)" .
    ultimately show ?thesis using moved inserted(2) by (auto simp: vouched_growth_def)
  qed (use moved in \<open>auto simp: vouched_growth_def\<close>)
qed

lemma settle_vouched: "advances vouched_growth (settle_unchanged_observations env rd ps)"
proof (rule advancesI)
  fix t x t'
  assume run: "settle_unchanged_observations env rd ps t = (x, t')"
  then have "pt_evidence t' = pt_evidence t"
    by (auto simp: settle_unchanged_observations_def transaction_def settle_keyed_def Let_def
        split: sum.splits if_splits option.splits prod.splits)
  with advancesD [OF settle_advances run] show "vouched_growth t t'" by (simp add: vouched_growth_def)
qed

interpretation vouched: promotion_relation vouched_growth
  by unfold_locales (auto intro: vouched_growth_trans write_vouched settle_vouched)

text \<open>
  C32. Evidence that a promotion adds, even one that raises halfway, repeats a staging row that was accepted when
  the promotion began: its source, type, title, summary, address, times and confidence are those of the row.
\<close>

theorem promoted_evidence_was_accepted:
  assumes run: "promote_accepted_staging env rds limit keys refs t = (x, t')"
    and "e \<in> set (pt_evidence t')"
  shows "e \<in> set (pt_evidence t) \<or> (\<exists>s \<in> set (pt_staged t). copies s e)"
  using advancesD [OF vouched.promotes run] assms(2) by (auto simp: vouched_growth_def)

section \<open>What a promotion reports\<close>

definition new_ids :: "promotion_tables \<Rightarrow> promotion_tables \<Rightarrow> string list \<Rightarrow> bool" where
  "new_ids t t' ids \<longleftrightarrow> (\<exists>new. pt_evidence t' = pt_evidence t @ new \<and> map pd_id new = ids)"

lemma new_ids_trans: "new_ids t t1 ids \<Longrightarrow> new_ids t1 t2 ids' \<Longrightarrow> new_ids t t2 (ids @ ids')"
  by (auto simp: new_ids_def)

lemma write_ids: "write_evidence env rd p t = (Inr r, t') \<Longrightarrow> new_ids t t' (List.map_filter id [r])"
  by (drule write_inserts) (auto simp: inserts_def new_ids_def List.map_filter_def promoted_row_of_def split: option.splits)

lemma write_all_ids:
  "write_all env done_ids rds ps t = (Inr rs, t') \<Longrightarrow> new_ids t t' (List.map_filter id rs)"
proof (induction env done_ids rds ps arbitrary: t rs rule: write_all.induct)
  case (1 env done_ids rd rds p ps)
  let ?skip = "case validated_staging_id env p of None \<Rightarrow> False | Some i \<Rightarrow> i \<in> set done_ids"
  from 1(2) obtain r t1 rs' where run: "(if ?skip then wreturn None else write_evidence env rd p) t = (Inr r, t1)"
    "write_all env done_ids rds ps t1 = (Inr rs', t')" "rs = r # rs'"
    by (auto simp: wbind_Inr wreturn_def)
  have "new_ids t t1 (List.map_filter id [r])"
  proof (cases ?skip)
    case True
    with run(1) show ?thesis by (simp add: wreturn_def new_ids_def List.map_filter_def)
  next
    case False
    with run(1) have "write_evidence env rd p t = (Inr r, t1)" by simp
    then show ?thesis by (rule write_ids)
  qed
  from new_ids_trans [OF this 1(1) [OF run(2)]] show ?case
    by (cases r) (simp_all add: run(3) List.map_filter_simps)
qed (auto simp: wreturn_def new_ids_def List.map_filter_def)

lemma batch_ids: "write_evidence_batch env rd rds ps t = (Inr rs, t') \<Longrightarrow> new_ids t t' (List.map_filter id rs)"
proof -
  assume run: "write_evidence_batch env rd rds ps t = (Inr rs, t')"
  show ?thesis
  proof (cases "ps = []")
    case False
    with run obtain settled t1 where s: "settle_unchanged_observations env rd ps t = (Inr settled, t1)"
      "write_all env settled rds ps t1 = (Inr rs, t')" by (auto simp: write_evidence_batch_def wbind_Inr)
    have "pt_evidence t1 = pt_evidence t"
      using s(1) by (auto simp: settle_unchanged_observations_def transaction_def settle_keyed_def Let_def
          split: sum.splits if_splits option.splits prod.splits)
    with write_all_ids [OF s(2)] show ?thesis by (simp add: new_ids_def)
  qed (use run in \<open>auto simp: write_evidence_batch_def wreturn_def new_ids_def List.map_filter_def\<close>)
qed

lemma chunks_ids: "promote_chunks env rds n ps t = (Inr ids, t') \<Longrightarrow> new_ids t t' ids"
proof (induction env rds n ps arbitrary: t ids rule: promote_chunks.induct)
  case (1 env rds n ps)
  show ?case
  proof (cases "ps = []")
    case True
    with 1(2) show ?thesis by (subst (asm) promote_chunks.simps) (auto simp: wreturn_def new_ids_def)
  next
    case False
    let ?chunk = "take promotion_batch_size ps"
    obtain rs t1 ids' where run:
      "write_evidence_batch env (rds n) (map rds [Suc n ..< Suc n + length ?chunk]) ?chunk t = (Inr rs, t1)"
      "promote_chunks env rds (Suc n + length ?chunk) (drop promotion_batch_size ps) t1 = (Inr ids', t')"
      "ids = List.map_filter id rs @ ids'"
      using 1(2) [unfolded promote_chunks.simps [of env rds n ps]] False
      by (auto simp: wbind_Inr wreturn_def Let_def simp del: upt_Suc length_take add_Suc)
    from new_ids_trans [OF batch_ids [OF run(1)] 1(1) [OF False refl run(2)]] show ?thesis by (simp add: run(3))
  qed
qed

text \<open>
  C34. A promotion reports what it wrote: the identifiers it answers are those of the rows it appended to the
  evidence, in their order, and the count is their number; and if each pair of source reference and raw
  reference occurred once in the evidence before, it still does.
\<close>

theorem promotion_reports_new_evidence:
  assumes "promote_accepted_staging env rds limit keys refs t = (Inr (n, ids), t')"
  shows "n = int (length ids) \<and> (\<exists>new. pt_evidence t' = pt_evidence t @ new \<and> map pd_id new = ids)
    \<and> (distinct (map ref_key (pt_evidence t)) \<longrightarrow> distinct (map ref_key (pt_evidence t')))"
proof -
  obtain ps where ps: "promote_chunks env rds 1 ps t = (Inr ids, t')" "n = int (length ids)"
    using assms by (auto simp: promote_accepted_staging_def wbind_Inr wreturn_def)
  from chunks_ids [OF ps(1)] ps(2) advancesD [OF vouched.promotes assms]
  show ?thesis by (simp add: new_ids_def vouched_growth_def)
qed

section \<open>The shortcut for unchanged observations\<close>

text \<open>
  C37. The settlement of unchanged observations in one statement agrees with the write of the candidate: where it
  settles the one candidate of a chunk, the staging row was not used before and the candidate has no double of
  the other agency, the write leaves the same tables and promotes nothing.
\<close>

theorem shortcut_agrees_with_the_full_path:
  assumes "settle_unchanged_observations env rd [p] t = (Inr [i], t')"
    and "\<not> staging_evidence_was_already_used env p t"
    and "handle_exact_central_local_duplicate env p t = (NoDuplicate, t)"
  shows "write_evidence env rd p t = (Inr None, t')"
proof -
  obtain keyed where keyed: "keyed_candidates env (rd_now rd) [p] [] = Inr keyed" "keyed \<noteq> []"
    and run: "rd_fault rd = None" "settle_keyed env keyed t = (Inr [i], t')"
    using assms(1) by (auto simp: settle_unchanged_observations_def transaction_Inr split: sum.splits if_splits)
  then obtain j k where k: "validated_staging_id env p = Some j" "keyed = [(j, p, k)]"
    "batch_idempotent_station_key env (rd_now rd) p = Inr (Some k)"
    by (auto simp: obind_Inr_iff split: option.splits)
  obtain key event station where kk: "k = (key, event, station)" by (cases k)
  have facts: "\<not> is_current_cap_lifecycle_candidate p" "pp_event_type p \<noteq> ''flood_warning''"
      "should_upsert_official_realtime_latest p" "current_candidate_rejection_reason env (rd_now rd) p = Inr None"
      "official_realtime_station_id env p = Some station" "pp_adapter_key p = Some key" "event = pp_event_type p"
    using k(3) by (auto simp: batch_idempotent_station_key_def obind_Inr_iff kk split: if_splits option.splits)
  have unchanged: "is_unchanged env t (j, p, k)"
    using run(2) by (simp add: settle_keyed_def k(2) Let_def split: if_splits)
  then obtain l where l: "find (latest_at key event station) (pt_latest t) = Some l" "same_fingerprint env p l"
    "authorize_staging_candidate env p t = Some True"
    by (auto simp: is_unchanged_def kk split: option.splits)
  have t': "t' = t\<lparr> pt_staged := map (mark_rejected ''idempotent_existing_observation'' j) (pt_staged t) \<rparr>"
    using run(2) unchanged
    by (auto simp: settle_keyed_def k(2) Let_def mark_rejected_def intro!: promotion_tables.fold_congs)
  obtain observed where observed: "pp_observed_at p = Some observed" "normalized_utc observed = lt_observed_at l"
    using l(2) by (cases "pp_observed_at p") (auto simp: same_fingerprint_def Let_def)
  have "classify_latest_decision env p t = DecideIdempotent"
    using facts l observed by (simp add: classify_latest_decision_def)
  moreover have "\<not> blocked_by_no_active_event env p t"
    using facts(1) by (simp add: blocked_by_no_active_event_def no_active_generation_def)
  ultimately have "write_new_evidence env rd p True t = (Inr None, t')"
    using facts assms(3) k(1) by (simp add: write_new_evidence_def Let_def reject_def terminally_reject_staging_def t')
  with facts assms(2) l(3) run(1) show ?thesis
    by (simp add: write_evidence_def transaction_def candidate_rejection_reason_def write_accepted_candidate_def Let_def)
qed

section \<open>A cancellation and what it refers to\<close>

text \<open>SQL reads the texts and times of a document as the worker does.\<close>

definition sql_reads_alike :: "promotion_env \<Rightarrow> string list \<Rightarrow> string list \<Rightarrow> py_dict \<Rightarrow> bool" where
  "sql_reads_alike env texts stamps d \<longleftrightarrow>
     list_all (\<lambda>k. case dict_get d k of PyStr s \<Rightarrow> strip_str s = s | _ \<Rightarrow> True) texts
     \<and> list_all (\<lambda>k. case parse_aware env (dict_get d k) of None \<Rightarrow> True | Some u \<Rightarrow> time_at env d k = Some u) stamps"

definition references_read_alike :: "promotion_env \<Rightarrow> py_value \<Rightarrow> bool" where
  "references_read_alike env v \<longleftrightarrow>
     (case v of
        PyList refs \<Rightarrow>
          length refs \<le> 64
          \<and> list_all (\<lambda>r. case as_dict r of None \<Rightarrow> True
              | Some d \<Rightarrow> sql_reads_alike env [''sender'', ''identifier''] [''sent''] d) refs
      | _ \<Rightarrow> True)"

lemma alike_text:
  assumes "sql_reads_alike env texts stamps d" "k \<in> set texts" "bounded_text n (dict_get d k)"
  shows "text_at env d k = Some (stripped (dict_get d k))"
  using assms by (auto simp: sql_reads_alike_def list_all_iff bounded_text_def text_at_def stripped_def split: py_value.splits)

lemma alike_time:
  assumes "sql_reads_alike env texts stamps d" "k \<in> set stamps" "parse_aware env (dict_get d k) = Some u"
  shows "time_at env d k = Some u"
  using assms by (auto simp: sql_reads_alike_def list_all_iff)

lemma effectful_reference:
  assumes "msg \<in> set (effectful_cap_references env c)"
  obtains sender ident sent own_sender own_ident own_sent refs r where "msg = (sender, ident, sent)"
    "own_triple env (pp_properties c) = Some (own_sender, own_ident, own_sent)"
    "property c ''cap_references'' = PyList refs" "r \<in> set refs" "reference_triple env r = Some msg" "sent < own_sent"
proof -
  obtain own_sender own_ident own_sent canonical where own:
    "own_triple env (pp_properties c) = Some (own_sender, own_ident, own_sent)"
    "cap_reference_triples env (property c ''cap_references'') = Some canonical"
    "msg \<in> set (filter (\<lambda>(_, _, sent). sent < own_sent) canonical)"
    using assms
    by (cases "own_triple env (pp_properties c)"; cases "cap_reference_triples env (property c ''cap_references'')")
      (auto simp: effectful_cap_references_def)
  obtain refs where refs: "property c ''cap_references'' = PyList refs"
    "canonical = sorted_list_of_set (set (List.map_filter (reference_triple env) refs))"
    using own(2) by (auto simp: cap_reference_triples_def Let_def split: py_value.splits if_splits)
  then have "set canonical = set (List.map_filter (reference_triple env) refs)" by simp
  with own(3) have msg: "msg \<in> set (List.map_filter (reference_triple env) refs)" by auto
  obtain r where "r \<in> set refs" "reference_triple env r = Some msg"
    using msg by (auto simp: List.map_filter_def)
  moreover obtain sender ident sent where "msg = (sender, ident, sent)" by (cases msg)
  moreover from this own(3) have "sent < own_sent" by auto
  ultimately show thesis using that own(1) refs(1) by blast
qed

lemma alike_reference:
  assumes "references_read_alike env (PyList refs)" "r \<in> set refs" "reference_triple env r = Some (sender, ident, sent)"
    and "sent < own_sent"
  shows "row_refers_to env own_sent (sender, ident, sent) r"
proof -
  obtain d where d: "r = PyDict d" "set (map fst d) = {''sender'', ''identifier'', ''sent''}"
    "cap_triple env (dict_get d ''sender'') (dict_get d ''identifier'') (dict_get d ''sent'') = Some (sender, ident, sent)"
    using assms(3) by (auto simp: reference_triple_def split: py_value.splits if_splits)
  have alike: "sql_reads_alike env [''sender'', ''identifier''] [''sent''] d"
    using assms(1,2) d(1) by (force simp: references_read_alike_def list_all_iff as_dict_def)
  from d(3) have t: "bounded_text 512 (dict_get d ''sender'')" "bounded_text 512 (dict_get d ''identifier'')"
    "parse_aware env (dict_get d ''sent'') = Some sent" "sender = stripped (dict_get d ''sender'')"
    "ident = stripped (dict_get d ''identifier'')" by (auto simp: cap_triple_def split: if_splits)
  from alike_text [OF alike _ t(1)] alike_text [OF alike _ t(2)] alike_time [OF alike _ t(3)] d(1,2) t(4,5) assms(4)
  show ?thesis by (simp add: row_refers_to_def)
qed

lemma publish_row:
  assumes "publish env rd p q authorized promote blocked t = (Inr (Some i), t')"
  obtains source where "resolved_source t q = Some source" "pt_evidence t' = pt_evidence t @ [promoted_row_of i source q]"
  using assms
  by (auto simp: publish_def insert_evidence_def wbind_def wreturn_def reject_def
      split: option.splits if_splits sum.splits prod.splits dest!: upsert_evidence)

lemma repeat_answers_nothing: "repeat_cap_message env p authorized j t = (Inr (Some i), t') \<Longrightarrow> False"
  by (auto simp: repeat_cap_message_def Let_def wbind_def wreturn_def reject_def
      split: if_splits option.splits prod.splits sum.splits)

lemma resolved_latest [simp]: "resolved_source (t\<lparr> pt_latest := ls \<rparr>) p = resolved_source t p"
  by (simp add: resolved_source_def source_of_adapter_def cong: option.case_cong)

lemma promoted_row_written:
  assumes run: "write_evidence env rd p t = (Inr (Some i), t')"
  obtains source where "resolved_source t p = Some source"
    "pt_evidence t' = pt_evidence t @ [promoted_row_of i source (weighted_payload env p t)]"
    "is_current_cap_lifecycle_candidate p \<Longrightarrow> cap_rejection_reason env (rd_checked_at rd) p t = None"
  using run
proof (cases rule: write_evidence_cases)
  case judged
  then have new: "write_new_evidence env rd p (authorize_staging_candidate env p t = Some True) t = (Inr (Some i), t')"
    "is_current_cap_lifecycle_candidate p \<Longrightarrow> cap_rejection_reason env (rd_checked_at rd) p t = None"
    by (auto simp: write_accepted_candidate_def Let_def reject_def dest: repeat_answers_nothing split: if_splits option.splits)
  show thesis
    using new(1)
  proof (cases rule: write_new_cases)
    case (published ls promote)
    have "resolved_source t (weighted_payload env p t) = resolved_source t p"
      using same_candidateD(3,8) [OF same_weighted [of p env t]] by (simp add: resolved_source_def cong: option.case_cong)
    then obtain source where "resolved_source t p = Some source"
      "pt_evidence t' = pt_evidence t @ [promoted_row_of i source (weighted_payload env p t)]"
      using publish_row [OF published(1)] by auto
    then show thesis using new(2) that by blast
  qed (simp add: reject_def)
qed simp_all

lemma cancellation_leaves_tombstone:
  assumes run: "write_evidence env rd c t = (Inr (Some i), t')"
    and cap: "is_current_cap_lifecycle_candidate c" "message_is c [''Cancel'']"
    and ref: "msg \<in> set (effectful_cap_references env c)"
    and source: "adapter_of_source t (resolved_source t c) = pp_adapter_key c"
    and alike: "sql_reads_alike env [] [''cap_sent'', ''ingestion_generation_started_at''] (pp_properties c)"
      "references_read_alike env (property c ''cap_references'')"
  shows "retired_message env t' msg"
proof -
  from promoted_row_written [OF run] cap(1) obtain src where row: "resolved_source t c = Some src"
    "pt_evidence t' = pt_evidence t @ [promoted_row_of i src (weighted_payload env c t)]"
    "cap_rejection_reason env (rd_checked_at rd) c t = None" by metis
  let ?q = "with_admin_area_enrichment env c"
  have "\<not> blocked_by_no_active_event env c t"
    using cap(2) by (auto simp: blocked_by_no_active_event_def message_is_def split: option.split)
  then have q: "weighted_payload env c t = ?q" by (rule weighted_unblocked)
  define e where "e = promoted_row_of i src ?q"
  have get: "dict_get (pp_properties ?q) k = dict_get (pp_properties c) k" if "k \<notin> set enriched_keys" for k
    using property_enriched [OF that, of env c] by (simp add: property_def)
  have texts: "text_at env (pd_properties e) k = text_at env (pp_properties c) k"
    and time: "time_at env (pd_properties e) k = time_at env (pp_properties c) k" if "k \<notin> set enriched_keys" for k
    by (simp_all add: e_def promoted_row_of_def text_at_def time_at_def get [OF that])
  have form: "cap_form_rejection env (rd_checked_at rd) c = None"
    using row(3) by (simp add: cap_rejection_reason_def split: option.splits)
  note form = cap_form_accepts(1,4) [OF form]
  from ref obtain sender ident sent own_sender own_ident own_sent refs r where r: "msg = (sender, ident, sent)"
    "own_triple env (pp_properties c) = Some (own_sender, own_ident, own_sent)"
    "property c ''cap_references'' = PyList refs" "r \<in> set refs" "reference_triple env r = Some msg" "sent < own_sent"
    by (rule effectful_reference)
  have refers: "row_refers_to env own_sent msg r"
    using alike_reference [of env refs r sender ident sent own_sent] alike(2) r by simp
  obtain generation where generation: "ingestion_generation env c = Some generation" using form(2) by blast
  have times: "time_at env (pp_properties c) ''cap_sent'' = Some own_sent"
    "time_at env (pp_properties c) ''ingestion_generation_started_at'' = Some generation"
    using r(2) generation alike_time [OF alike(1)]
    by (auto simp: own_triple_def cap_triple_def ingestion_generation_def property_def split: if_splits)
  have kinds: "pp_source_type c = ''official''" "property c ''evidence_scope'' = PyStr ''current''"
    "pp_event_type c = ''flood_warning''" "\<exists>k. pp_adapter_key c = Some k \<and> k \<in> set reviewed_warning_adapter_keys"
    using cap(1) by (auto simp: is_current_cap_lifecycle_candidate_def in_pairs_def reviewed_warning_adapter_keys_def
        split: option.splits)
  have current: "is_current_warning_row env e"
    using kinds form(1) texts same_candidateD [OF same_enriched [of c env]]
    by (simp add: is_current_warning_row_def enriched_keys_def text_at_def [of env "pp_properties c"] property_def)
      (simp add: e_def promoted_row_of_def)
  have adapter: "adapter_of_evidence env t' e = pp_adapter_key c"
    using source kinds(4) advancesD [OF write_evidence_advances run] row(1)
    by (auto simp: adapter_of_evidence_def e_def promoted_row_of_def coalesce_def adapter_of_source_def moves_on_def)
  have "text_at env (pd_properties e) ''cap_message_type'' = Some ''Cancel''"
    using cap(2) texts by (simp add: enriched_keys_def text_at_def [of env "pp_properties c"] message_is_def property_def)
  moreover have "dict_get (pd_properties e) ''cap_references'' = PyList refs"
    using r(3) get by (simp add: e_def promoted_row_of_def enriched_keys_def property_def)
  moreover have "1 \<le> length refs" "length refs \<le> 64"
    using r(3,4) alike(2) by (auto simp: references_read_alike_def Suc_le_eq)
  moreover have "list_ex (row_refers_to env own_sent msg) refs" using refers r(4) by (auto simp: list_ex_iff)
  moreover have "time_at env (pd_properties e) ''cap_sent'' = Some own_sent"
    "time_at env (pd_properties e) ''ingestion_generation_started_at'' = Some generation"
    using times time by (simp_all add: enriched_keys_def)
  moreover obtain k where "adapter_of_evidence env t' e = Some k" "k \<in> set reviewed_warning_adapter_keys"
    using adapter kinds(4) by auto
  ultimately have "is_tombstone_of env t' msg e"
    using current by (simp add: is_tombstone_of_def)
  then show ?thesis by (simp add: retired_message_def row(2) q e_def)
qed

definition stays_keyed :: "promotion_tables \<Rightarrow> promotion_tables \<Rightarrow> bool" where
  "stays_keyed t t' \<longleftrightarrow> (keyed_latest t \<longrightarrow> keyed_latest t')"

lemma write_stays_keyed: "advances stays_keyed (write_evidence env rd p)"
proof (rule advancesI)
  fix t x t'
  assume run: "write_evidence env rd p t = (x, t')"
  show "stays_keyed t t'"
  proof (cases x)
    case (Inr r)
    then show ?thesis using write_latest [OF run [unfolded Inr]] by (simp add: stays_keyed_def latest_follows_def)
  qed (use run in \<open>auto simp: write_evidence_def stays_keyed_def dest: transaction_Inl\<close>)
qed

lemma settle_stays_keyed: "advances stays_keyed (settle_unchanged_observations env rd ps)"
  by (rule advancesI) (auto simp: settle_unchanged_observations_def transaction_def settle_keyed_def Let_def
      stays_keyed_def keyed_latest_def split: sum.splits if_splits option.splits prod.splits)

interpretation keyed: promotion_relation stays_keyed
  by unfold_locales (auto simp: stays_keyed_def intro!: write_stays_keyed settle_stays_keyed)

text \<open>
  C28. A cancelled warning stays cancelled: after a cancellation is written, whatever is promoted in between, no
  candidate with the message that the cancellation refers to adds a row to the latest, given that the data
  source to which the cancellation resolves is one of its own adapter and that SQL reads the texts and times
  of the cancellation as the worker does.
\<close>

theorem cancelled_warning_stays_cancelled:
  assumes cancelled: "write_evidence env rd c t = (Inr (Some i), t0)"
    and cap: "is_current_cap_lifecycle_candidate c" "message_is c [''Cancel'']"
    and source: "adapter_of_source t (resolved_source t c) = pp_adapter_key c"
    and alike: "sql_reads_alike env [] [''cap_sent'', ''ingestion_generation_started_at''] (pp_properties c)"
      "references_read_alike env (property c ''cap_references'')"
    and promoted: "promote_accepted_staging env rds limit keys refs t0 = (x, t1)"
    and replay: "own_triple env (pp_properties p) = Some msg" "msg \<in> set (effectful_cap_references env c)"
      "pp_event_type p = ''flood_warning''"
    and written: "write_evidence env rd' p t1 = (y, t2)" and keyed: "keyed_latest t"
  shows "set (pt_latest t2) \<subseteq> set (pt_latest t1)"
proof -
  have "keyed_latest t1"
    using keyed advancesD [OF keyed.promotes promoted] advancesD [OF write_stays_keyed cancelled]
    by (simp add: stays_keyed_def)
  with cancellation_is_final [OF cancellation_leaves_tombstone [OF cancelled cap replay(2) source alike] promoted
      replay(1,3) written] show ?thesis .
qed

section \<open>A fetched candidate and its authorization\<close>

lemma update_new: "k \<notin> fst ` set d \<Longrightarrow> AList.update k v d = d @ [(k, v)]"
  by (induction d) auto

lemma staged_properties_merged:
  assumes "''staging_evidence_id'' \<notin> fst ` set d" "''raw_snapshot_id'' \<notin> fst ` set d"
  shows "staged_properties (dict_merge d [(''staging_evidence_id'', a), (''raw_snapshot_id'', b)]) = d"
    "dict_get (dict_merge d [(''staging_evidence_id'', a), (''raw_snapshot_id'', b)]) ''staging_evidence_id'' = a"
    "dict_get (dict_merge d [(''staging_evidence_id'', a), (''raw_snapshot_id'', b)]) ''raw_snapshot_id'' = b"
proof -
  have m: "dict_merge d [(''staging_evidence_id'', a), (''raw_snapshot_id'', b)]
      = d @ [(''staging_evidence_id'', a), (''raw_snapshot_id'', b)]"
    using assms by (simp add: dict_merge_def update_new)
  have "filter (\<lambda>x. fst x \<notin> {''staging_evidence_id'', ''raw_snapshot_id''}) d = d"
    using assms by (force simp: filter_id_conv)
  then show "staged_properties (dict_merge d [(''staging_evidence_id'', a), (''raw_snapshot_id'', b)]) = d"
    unfolding m by (simp add: staged_properties_def)
  have "map_of d ''staging_evidence_id'' = None" "map_of d ''raw_snapshot_id'' = None"
    using assms by (simp_all add: map_of_eq_None_iff)
  then show "dict_get (dict_merge d [(''staging_evidence_id'', a), (''raw_snapshot_id'', b)]) ''staging_evidence_id'' = a"
    "dict_get (dict_merge d [(''staging_evidence_id'', a), (''raw_snapshot_id'', b)]) ''raw_snapshot_id'' = b"
    unfolding m by (simp_all add: dict_get_def map_add_def)
qed

lemma timestamp_instant [simp]: "map_option normalized_utc (timestamp x) = x"
  by (cases x) (simp_all add: timestamp_def instant_def)

lemma coalesce_keeps: "coalesce a b = coalesce a (coalesce b c) \<longleftrightarrow> coalesce a b \<noteq> None \<or> c = None"
  by (cases a; cases b) (auto simp: coalesce_def)

text \<open>
  C35. A candidate that is fetched from a staging row is authorized by that row in turn exactly when the row or its
  snapshot names a data source, or no data source is registered for its adapter. A row that was staged before
  its data source was registered is thus fetched by every promotion and refused by each.
\<close>

theorem fetched_candidate_is_authorized_by_its_source:
  assumes row: "s \<in> set (pt_staged t)" "sd_status s = StagedAccepted" "distinct (map sd_id (pt_staged t))"
    and snapshot: "raw_of_staged t s = Some r"
    and built: "candidate_from_row env t s = Inr c" "build_evidence_promotion_payload env c = Inr p"
    and stored: "sd_source_id s \<noteq> None" "pv_uuid env (sd_id s) = Some (sd_id s)"
      "json_ready (PyDict (sd_payload s))" "dict_get (sd_payload s) ''adapter_key'' = PyStr key" "key \<noteq> []"
      "''staging_evidence_id'' \<notin> fst ` set (sd_payload s)" "''raw_snapshot_id'' \<notin> fst ` set (sd_payload s)"
  shows "authorize_staging_candidate env p t
    = Some (coalesce (sd_data_source_id s) (rr_data_source_id r) \<noteq> None \<or> source_of_adapter t (Some key) = None)"
proof -
  obtain confidence' where conf: "sd_confidence s = Some confidence'"
    using built(1) by (auto simp: candidate_from_row_def split: option.splits)
  have key: "text_at env (sd_payload s) ''adapter_key'' = Some key" "payload_adapter_key env (sd_payload s) = Some key"
    using stored(4,5) by (simp_all add: text_at_def payload_adapter_key_def Let_def str_of_def py_truthy.simps)
  note c = built(1) [unfolded candidate_from_row_def conf option.case sum.inject, symmetric]
  have p: "p = \<lparr> pp_data_source_id = cd_data_source_id c, pp_adapter_key = payload_adapter_key env (cd_payload c),
          pp_source_id = cd_source_id c, pp_source_type = cd_source_type c, pp_event_type = cd_event_type c,
          pp_title = cd_title c, pp_summary = cd_summary c, pp_url = cd_url c,
          pp_occurred_at = cd_occurred_at c, pp_observed_at = cd_observed_at c,
          pp_confidence = cd_confidence c, pp_raw_ref = cd_raw_ref c,
          pp_properties = dict_merge (cd_payload c)
            [(''staging_evidence_id'', PyStr (cd_staging_evidence_id c)),
             (''raw_snapshot_id'', option_str (cd_raw_snapshot_id c))] \<rparr>"
    using built(2) by (auto simp: build_evidence_promotion_payload_def split: if_splits)
  have fields: "pp_source_id p = the (sd_source_id s)" "pp_source_type p = sd_source_type s" "pp_event_type p = sd_event_type s"
    "pp_title p = sd_title s" "pp_summary p = sd_summary s" "pp_url p = sd_url s"
    "map_option normalized_utc (pp_occurred_at p) = sd_occurred_at s"
    "map_option normalized_utc (pp_observed_at p) = sd_observed_at s"
    "Some (pp_confidence p) = sd_confidence s" "pp_adapter_key p = Some key" "pp_raw_ref p = Some (rr_raw_ref r)"
    "pp_properties p = dict_merge (sd_payload s)
      [(''staging_evidence_id'', PyStr (sd_id s)), (''raw_snapshot_id'', option_str (sd_raw_snapshot_id s))]"
    "pp_data_source_id p = coalesce (sd_data_source_id s) (coalesce (rr_data_source_id r) (source_of_adapter t (Some key)))"
    using stored(1) conf key snapshot by (auto simp: p c raw_ref_of_staged_def coalesce_def)
  note props = staged_properties_merged [OF stored(6,7)]
  have same: "staged_properties (pp_properties p) = sd_payload s" by (simp add: fields(12) props)
  have snap: "(case property p ''raw_snapshot_id'' of PyNone \<Rightarrow> None | v \<Rightarrow> Some (str_of (pv_text env) v)) = sd_raw_snapshot_id s"
    by (cases "sd_raw_snapshot_id s") (simp_all add: property_def props fields(12) option_str_def str_of_def)
  have valid: "validated_staging_id env p = Some (sd_id s)"
    by (simp add: validated_staging_id_def property_def props fields(12) stored(2))
  have own: "authorizes env t p (sd_id s) s \<longleftrightarrow> coalesce (sd_data_source_id s) (rr_data_source_id r) = pp_data_source_id p"
    using stored(1) snap row(2) fields(1-11) key(1)
    by (auto simp: authorizes_def snapshot Let_def same coalesce_def [of "Some key"])
  have "authorizes env t p (sd_id s) s' \<Longrightarrow> s' \<in> set (pt_staged t) \<Longrightarrow> s' = s" for s'
    using row(1,3) by (auto simp: authorizes_def Let_def distinct_map inj_on_def split: option.splits)
  with row(1) have "list_ex (authorizes env t p (sd_id s)) (pt_staged t) \<longleftrightarrow> authorizes env t p (sd_id s) s"
    by (auto simp: list_ex_iff)
  moreover have "''staging_evidence_id'' \<in> set (map fst (pp_properties p))"
    by (simp add: fields(12) dict_merge_def dom_update)
  ultimately show ?thesis
    using stored(3) by (simp add: authorize_staging_candidate_def valid same own fields(13) coalesce_keeps del: json_ready.simps)
qed

section \<open>Risk factors of the worker and of the API\<close>

lemma ratio_steps:
  "(if 1 \<le> x then 1 else if 8 / 10 \<le> x then 8 / 10 else if 1 / 2 \<le> x then 1 / 2 else if 1 / 4 \<le> x then 1 / 4 else 0)
     = ratio_risk_factor x"
  by (simp add: ratio_risk_factor_def)

text \<open>
  The risk factor that the worker stores for a rainfall, water level or flood report is the one that the
  interface computes from the same measurements when none is stored.
\<close>

theorem worker_and_api_risk_factors_agree:
  assumes "er_realtime_risk_factor r = None" and "er_event_type r = pp_event_type p"
    and "er_rainfall_mm_1h r = optional_float env (property p ''rainfall_mm_1h'')"
    and "er_water_level_m r = optional_float env (property p ''water_level_m'')"
    and "er_warning_level_m r = optional_float env (property p ''warning_level_m'')"
    and "er_flood_depth_cm r = optional_float env (property p ''flood_depth_cm'')"
    and "pp_event_type p \<in> {''rainfall'', ''water_level'', ''flood_report''}"
  shows "official_realtime_risk_factor env p = evidence_realtime_risk_factor r"
proof -
  note factors = official_realtime_risk_factor_def evidence_realtime_risk_factor_def Let_def assms(1-6)
  from assms(7) consider "pp_event_type p = ''rainfall''" | "pp_event_type p = ''water_level''"
    | "pp_event_type p = ''flood_report''" by auto
  then show ?thesis
  proof cases
    case 1
    then show ?thesis
      by (simp add: factors worker_rainfall_risk_factor_def rainfall_realtime_risk_factor_def split: option.split)
  next
    case 2
    then show ?thesis
      unfolding factors ratio_steps water_level_realtime_risk_factor_def
      by (cases "optional_float env (property p ''water_level_m'')";
          cases "optional_float env (property p ''warning_level_m'')"; simp)
  next
    case 3
    then show ?thesis
      by (simp add: factors flood_depth_realtime_risk_factor_def split: option.split)
  qed
qed

end
