(* ===== verification/Promotion_Samples.thy ===== *)
theory Promotion_Samples
  imports Promotion_Guarantees
begin

text \<open>
  Concrete runs of the promotion: an alert, its cancellation and a replay; a rainfall observation staged
  twice; and the instances of the properties on them.
\<close>

definition sample_env :: promotion_env where
  "sample_env =
     \<lparr> pv_text = sample_library, pv_float = (\<lambda>_. None), pv_digest = (\<lambda>sender ident sent. sender @ '':'' @ ident),
       pv_uuid = Some, pv_json_text = (\<lambda>_. ''json''),
       pv_timestamptz = (\<lambda>s. aware_instant (sample_fromisoformat s)), pv_stored_point = PyDict,
       pv_near = (\<lambda>_ _. False), pv_valid_area = (\<lambda>_. True), pv_admin_area = (\<lambda>_. None),
       pv_warning_boundary = (\<lambda>_. None), pv_ncdr_boundary = (\<lambda>_. None) \<rparr>"

definition sample_point :: py_dict where
  "sample_point = [(''type'', PyStr ''Point''), (''coordinates'', PyList [PyInt 120, PyInt 23])]"

definition sample_area :: py_dict where
  "sample_area =
     [(''type'', PyStr ''Polygon''),
      (''coordinates'', PyList [PyList [PyList [PyInt 120, PyInt 23], PyList [PyInt 121, PyInt 23],
          PyList [PyInt 121, PyInt 24], PyList [PyInt 120, PyInt 23]]])]"

definition sample_message :: "string \<Rightarrow> string \<Rightarrow> string \<Rightarrow> py_value list \<Rightarrow> py_dict" where
  "sample_message kind ident sent refs =
     [(''evidence_scope'', PyStr ''current''), (''cap_status'', PyStr ''Actual''), (''cap_message_type'', PyStr kind),
      (''cap_sender'', PyStr ''ncdr''), (''cap_identifier'', PyStr ident), (''cap_sent'', PyStr sent),
      (''cap_references'', PyList refs), (''ingestion_generation_started_at'', PyStr ''+11''),
      (''active_from'', PyStr ''+''), (''active_until'', PyStr ''+11111111'')]"

definition sample_candidate :: "string \<Rightarrow> string \<Rightarrow> string \<Rightarrow> string \<Rightarrow> py_dict \<Rightarrow> promotion_payload" where
  "sample_candidate key event source_id raw d =
     \<lparr> pp_data_source_id = None, pp_adapter_key = Some key, pp_source_id = source_id, pp_source_type = ''official'',
       pp_event_type = event, pp_title = ''t'', pp_summary = ''s'', pp_url = None, pp_occurred_at = None,
       pp_observed_at = Some (Aware (AwareAt 5 0)), pp_confidence = 9 / 10, pp_raw_ref = Some raw, pp_properties = d \<rparr>"

definition sample_alert :: promotion_payload where
  "sample_alert = sample_candidate ''official.ncdr.cap'' ''flood_warning'' ''alert-a'' ''raw-a''
     (sample_message ''Alert'' ''a'' ''+1'' [] @
      [(''admin_code'', PyStr ''63000010''), (''location_payload'', PyDict [(''geometry'', PyDict sample_area)]),
       (''latest_point_geometry'', PyDict sample_point)])"

definition sample_cancel :: promotion_payload where
  "sample_cancel = sample_candidate ''official.ncdr.cap'' ''flood_warning'' ''cancel-b'' ''raw-b''
     (sample_message ''Cancel'' ''b'' ''+11''
        [PyDict [(''sender'', PyStr ''ncdr''), (''identifier'', PyStr ''a''), (''sent'', PyStr ''+1'')]])"

definition sample_reading :: "string \<Rightarrow> promotion_reading" where
  "sample_reading i = \<lparr> rd_fault = None, rd_now = 6, rd_checked_at = 6, rd_new_id = i \<rparr>"

definition sample_promotion_tables :: promotion_tables where
  "sample_promotion_tables =
     \<lparr> pt_sources = [(''src-1'', ''official.cwa.rainfall''), (''src-2'', ''official.ncdr.cap'')], pt_raw = [],
       pt_staged = [], pt_evidence = [], pt_latest = [], pt_jobs = [] \<rparr>"

text \<open>An alert, its cancellation, and a replay.\<close>

definition alert_run :: "(py_exc + string option) \<times> promotion_tables" where
  "alert_run = write_evidence sample_env (sample_reading ''e1'') sample_alert sample_promotion_tables"

abbreviation alerted :: promotion_tables where
  "alerted \<equiv> snd alert_run"

definition cancel_run :: "(py_exc + string option) \<times> promotion_tables" where
  "cancel_run = write_evidence sample_env (sample_reading ''e2'') sample_cancel alerted"

abbreviation cancelled_tables :: promotion_tables where
  "cancelled_tables \<equiv> snd cancel_run"

text \<open>A promotion of one rainfall observation, staged twice under different references.\<close>

definition rain_properties :: "py_dict" where
  "rain_properties =
     [(''evidence_scope'', PyStr ''current''), (''station_id'', PyStr ''C0A520''), (''rainfall_mm_1h'', PyInt 45),
      (''adapter_key'', PyStr ''official.cwa.rainfall''), (''latest_point_geometry'', PyDict sample_point)]"

definition rain_row :: "string \<Rightarrow> string \<Rightarrow> staged_row" where
  "rain_row i raw =
     \<lparr> sd_id = i, sd_raw_snapshot_id = Some raw, sd_data_source_id = Some ''src-1'', sd_source_id = Some ''rain'',
       sd_source_type = ''official'', sd_event_type = ''rainfall'', sd_title = ''t'', sd_summary = ''s'', sd_url = None,
       sd_occurred_at = None, sd_observed_at = Some 5, sd_confidence = Some (9 / 10), sd_status = StagedAccepted,
       sd_rejection_reason = None, sd_payload = rain_properties, sd_created_at = 5 \<rparr>"

definition raw_sample :: "string \<Rightarrow> raw_row" where
  "raw_sample i = \<lparr> rr_id = i, rr_data_source_id = Some ''src-1'', rr_adapter_key = ''official.cwa.rainfall'',
     rr_raw_ref = ''ref-'' @ i \<rparr>"

definition rain_tables :: promotion_tables where
  "rain_tables = sample_promotion_tables\<lparr> pt_raw := [raw_sample ''w1'', raw_sample ''w2''], pt_staged := [rain_row ''s1'' ''w1''] \<rparr>"

definition sample_readings :: "nat \<Rightarrow> promotion_reading" where
  "sample_readings n = sample_reading (replicate n CHR ''e'')"

definition rain_promotion :: "(py_exc + int \<times> string list) \<times> promotion_tables" where
  "rain_promotion = promote_accepted_staging sample_env sample_readings None None None rain_tables"

abbreviation rained :: promotion_tables where
  "rained \<equiv> snd rain_promotion"

definition repeated_rain :: promotion_payload where
  "repeated_rain = projr (obind (candidate_from_row sample_env rained (rain_row ''s2'' ''w2''))
     (build_evidence_promotion_payload sample_env))"

definition rained_again :: promotion_tables where
  "rained_again = rained\<lparr> pt_staged := pt_staged rained @ [rain_row ''s2'' ''w2''] \<rparr>"

definition sample_settlement :: "(py_exc + string list) \<times> promotion_tables" where
  "sample_settlement = settle_unchanged_observations sample_env (sample_reading ''x'') [repeated_rain] rained_again"

definition empty_poll :: job_entry where
  "empty_poll =
     \<lparr> ij_id = 1, ij_adapter_key = Some ''official.ncdr.cap'', ij_started_at = Some 5, ij_finished_at = Some 6,
       ij_status = BatchSucceeded, ij_items_fetched = 0, ij_items_promoted = 0, ij_items_rejected = 0,
       ij_error_code = Some ''no_active_event'', ij_error_message = None, ij_source_timestamp_min = None,
       ij_source_timestamp_max = None, ij_created_at = 5 \<rparr>"

lemma alert_run_answers: "alert_run = (Inr (Some ''e1''), alerted)"
proof -
  have "fst alert_run = Inr (Some ''e1'')" by code_simp
  then show ?thesis by (metis prod.collapse)
qed

lemma cancel_run_answers: "cancel_run = (Inr (Some ''e2''), cancelled_tables)"
proof -
  have "fst cancel_run = Inr (Some ''e2'')" by code_simp
  then show ?thesis by (metis prod.collapse)
qed

lemma rain_promotion_answers: "rain_promotion = (Inr (1, [''ee'']), rained)"
proof -
  have "fst rain_promotion = Inr (1, [''ee''])" by code_simp
  then show ?thesis by (metis prod.collapse)
qed

lemma settlement_answers: "sample_settlement = (Inr [''s2''], snd sample_settlement)"
proof -
  have "fst sample_settlement = Inr [''s2'']" by code_simp
  then show ?thesis by (metis prod.collapse)
qed

lemma candidate_is_promoted_once_witness:
  "pt_staged alerted = [] \<and> list_all (\<lambda>e. pd_raw_ref e = Some ''raw-a'') (pt_evidence alerted) \<and> pt_evidence alerted \<noteq> []"
proof -
  have "list_all2 settles (pt_staged sample_promotion_tables) (pt_staged alerted)"
    using candidate_is_promoted_once_or_not_at_all [OF alert_run_answers [unfolded alert_run_def]]
    by (simp add: alert_run_def)
  then have "pt_staged alerted = []" by (simp add: sample_promotion_tables_def)
  moreover have "list_all (\<lambda>e. pd_raw_ref e = Some ''raw-a'') (pt_evidence alerted)" by code_simp
  moreover have "pt_evidence alerted \<noteq> []" by code_simp
  ultimately show ?thesis by blast
qed

lemma no_latest_keyed [simp]: "keyed_latest sample_promotion_tables"
  by (simp add: keyed_latest_def sample_promotion_tables_def)

lemma latest_warning_is_in_force_witness:
  "\<exists>l \<in> set (pt_latest alerted). lt_event_type l = ''flood_warning'' \<and> message_is sample_alert [''Alert'', ''Update'']"
proof -
  have "\<exists>l \<in> set (pt_latest alerted). lt_event_type l = ''flood_warning''" by code_simp
  then obtain l where l: "l \<in> set (pt_latest alerted)" "lt_event_type l = ''flood_warning''" by blast
  have "l \<notin> set (pt_latest sample_promotion_tables)" by (simp add: sample_promotion_tables_def)
  from latest_warning_is_in_force [OF alert_run_answers [unfolded alert_run_def] no_latest_keyed
      l(1) [unfolded alert_run_def] this l(2)] l
  show ?thesis by blast
qed

definition rain_candidate :: promotion_payload where
  "rain_candidate = sample_candidate ''official.cwa.rainfall'' ''rainfall'' ''rain'' ''raw-r'' rain_properties"

lemma latest_observation_never_moves_back_witness:
  "\<exists>l. pt_latest (snd (write_evidence sample_env (sample_reading ''e1'') rain_candidate sample_promotion_tables)) = [l]
     \<and> lt_evidence_id l = Some ''e1'' \<and> lt_observed_at l = 5"
proof -
  let ?run = "write_evidence sample_env (sample_reading ''e1'') rain_candidate sample_promotion_tables"
  have "length (pt_latest (snd ?run)) = 1 \<and> list_all (\<lambda>l. lt_event_type l = ''rainfall'') (pt_latest (snd ?run))" by code_simp
  then obtain l where l: "pt_latest (snd ?run) = [l]" "lt_event_type l \<noteq> ''flood_warning''"
    by (auto simp: length_Suc_conv)
  from l(1) have "l \<in> set (pt_latest (snd ?run))" "l \<notin> set (pt_latest sample_promotion_tables)" by (simp_all add: sample_promotion_tables_def)
  from latest_observation_never_moves_back [OF surjective_pairing no_latest_keyed this l(2)] l(1)
  show ?thesis by (simp add: rain_candidate_def sample_candidate_def sample_reading_def instant_def)
qed

definition sample_replay :: promotion_payload where
  "sample_replay = sample_alert\<lparr> pp_raw_ref := Some ''raw-c'', pp_source_id := ''alert-c'' \<rparr>"

lemma replay_is_of_the_cancelled_message:
  "own_triple sample_env (pp_properties sample_replay) = Some (''ncdr'', ''a'', 1)"
  "(''ncdr'', ''a'', 1) \<in> set (effectful_cap_references sample_env sample_cancel)"
  by code_simp+

lemma promotion_of_nothing:
  "promote_accepted_staging sample_env sample_readings None None None cancelled_tables = (Inr (0, []), cancelled_tables)"
proof -
  have staged: "pt_staged cancelled_tables = []" by code_simp
  have "fetch_accepted_staging sample_env None None None cancelled_tables = Inr []"
    by (simp add: fetch_accepted_staging_def normalized_raw_refs_def staging_query_checks_def staged)
  then show ?thesis
    by (simp add: promote_accepted_staging_def wbind_def wreturn_def normalized_raw_refs_def sample_readings_def
        sample_reading_def promote_chunks.simps)
qed

lemma cancelled_warning_stays_cancelled_witness:
  "fst cancel_run = Inr (Some ''e2'') \<and> pt_latest alerted \<noteq> [] \<and> pt_latest cancelled_tables = []
   \<and> pt_latest (snd (write_evidence sample_env (sample_reading ''e3'') sample_replay cancelled_tables)) = []"
proof -
  let ?replay = "write_evidence sample_env (sample_reading ''e3'') sample_replay cancelled_tables"
  have keyed: "keyed_latest alerted" by code_simp
  have cap: "is_current_cap_lifecycle_candidate sample_cancel" "message_is sample_cancel [''Cancel'']" by code_simp+
  have source: "adapter_of_source alerted (resolved_source alerted sample_cancel) = pp_adapter_key sample_cancel" by code_simp
  have alike: "sql_reads_alike sample_env [] [''cap_sent'', ''ingestion_generation_started_at''] (pp_properties sample_cancel)"
    "references_read_alike sample_env (property sample_cancel ''cap_references'')" by code_simp+
  have event: "pp_event_type sample_replay = ''flood_warning''" by code_simp
  from cancelled_warning_stays_cancelled [OF cancel_run_answers [unfolded cancel_run_def] cap source alike
      promotion_of_nothing [unfolded cancel_run_def] replay_is_of_the_cancelled_message event surjective_pairing keyed]
  have "set (pt_latest (snd ?replay)) \<subseteq> set (pt_latest cancelled_tables)" by (simp add: cancel_run_def)
  moreover have "pt_latest cancelled_tables = []" by code_simp
  moreover have "pt_latest alerted \<noteq> []" by code_simp
  ultimately show ?thesis using cancel_run_answers by (metis fst_conv set_empty subset_empty)
qed

lemma latest_rows_stay_sound_witness:
  "sound_latest rained \<and> length (pt_latest rained) = 1 \<and> fst rain_promotion = Inr (1, [''ee''])"
proof -
  have "sound_latest rain_tables"
    by (simp add: sound_latest_def keyed_latest_def cited_def rain_tables_def sample_promotion_tables_def)
  from latest_rows_stay_sound [OF this rain_promotion_answers [unfolded rain_promotion_def]]
  have "sound_latest rained" by (simp add: rain_promotion_def)
  moreover have "length (pt_latest rained) = 1" by code_simp
  ultimately show ?thesis using rain_promotion_answers by (metis fst_conv)
qed

lemma promoted_evidence_was_accepted_witness:
  "\<exists>e \<in> set (pt_evidence rained). copies (rain_row ''s1'' ''w1'') e"
proof -
  have "pt_evidence rained \<noteq> []" by code_simp
  then obtain e where e: "e \<in> set (pt_evidence rained)" by (meson last_in_set)
  from promoted_evidence_was_accepted [OF rain_promotion_answers [unfolded rain_promotion_def] e [unfolded rain_promotion_def]] e
  show ?thesis by (auto simp: rain_tables_def sample_promotion_tables_def)
qed

lemma promotion_reports_new_evidence_witness:
  "map pd_id (pt_evidence rained) = [''ee''] \<and> distinct (map ref_key (pt_evidence rained))"
  using promotion_reports_new_evidence [OF rain_promotion_answers [unfolded rain_promotion_def]]
  by (simp add: rain_promotion_def) (simp add: rain_tables_def sample_promotion_tables_def)

lemma shortcut_agrees_with_the_full_path_witness:
  "fst (write_evidence sample_env (sample_reading ''x'') repeated_rain rained_again) = Inr None
   \<and> map sd_status (pt_staged (snd sample_settlement)) = [StagedAccepted, StagedRejected]"
proof
  have "\<not> staging_evidence_was_already_used sample_env repeated_rain rained_again" by code_simp
  moreover have "pp_event_type repeated_rain = ''rainfall''" by code_simp
  then have "handle_exact_central_local_duplicate sample_env repeated_rain rained_again = (NoDuplicate, rained_again)"
    by (simp add: handle_exact_central_local_duplicate_def Let_def)
  ultimately show "fst (write_evidence sample_env (sample_reading ''x'') repeated_rain rained_again) = Inr None"
    using shortcut_agrees_with_the_full_path [OF settlement_answers [unfolded sample_settlement_def]] by simp
  show "map sd_status (pt_staged (snd sample_settlement)) = [StagedAccepted, StagedRejected]" by code_simp
qed

text \<open>The warning that an empty poll retired is the latest again.\<close>

lemma repeated_message_overrules_empty_polls_witness:
  "ingestion_generation sample_env sample_replay = Some 2
   \<and> pt_latest (snd (write_evidence sample_env (sample_reading ''e4'') sample_replay
        (alerted\<lparr> pt_latest := [], pt_jobs := [empty_poll] \<rparr>))) \<noteq> []"
proof
  let ?t = "alerted\<lparr> pt_latest := [] \<rparr>"
  show "ingestion_generation sample_env sample_replay = Some 2" by code_simp
  have cap: "is_current_cap_lifecycle_candidate sample_replay" by code_simp
  have "canonical_cap_message_evidence_id sample_env sample_replay ?t = Some ''e1''" by code_simp
  from repeated_message_overrules_empty_polls [OF cap this, of "sample_reading ''e4''" "[empty_poll]"]
  have "pt_latest (snd (write_evidence sample_env (sample_reading ''e4'') sample_replay (?t\<lparr> pt_jobs := [empty_poll] \<rparr>)))
      = pt_latest (snd (write_evidence sample_env (sample_reading ''e4'') sample_replay ?t))" by simp
  moreover have "pt_latest (snd (write_evidence sample_env (sample_reading ''e4'') sample_replay ?t)) \<noteq> []" by code_simp
  ultimately show "pt_latest (snd (write_evidence sample_env (sample_reading ''e4'') sample_replay
        (alerted\<lparr> pt_latest := [], pt_jobs := [empty_poll] \<rparr>))) \<noteq> []" by simp
qed

lemma fetched_candidate_is_authorized_witness:
  "authorize_staging_candidate sample_env repeated_rain rained_again = Some True"
proof -
  let ?s = "rain_row ''s2'' ''w2''"
  obtain c where c: "candidate_from_row sample_env rained_again ?s = Inr c"
    by (simp add: candidate_from_row_def rain_row_def)
  have "candidate_from_row sample_env rained ?s = Inr c"
    using c by (simp add: candidate_from_row_def rained_again_def raw_ref_of_staged_def raw_of_staged_def
        source_of_adapter_def cong: option.case_cong)
  moreover have "sd_status ?s = StagedAccepted" by (simp add: rain_row_def)
  ultimately have p: "build_evidence_promotion_payload sample_env c = Inr repeated_rain"
    using c by (auto simp: repeated_rain_def build_evidence_promotion_payload_def candidate_from_row_def rain_row_def)
  have raw: "raw_of_staged rained_again ?s = Some (raw_sample ''w2'')" by code_simp
  have in_rows: "?s \<in> set (pt_staged rained_again)" by (simp add: rained_again_def)
  have dist: "distinct (map sd_id (pt_staged rained_again))" by code_simp
  have ready: "json_ready (PyDict (sd_payload ?s))" by code_simp
  from fetched_candidate_is_authorized_by_its_source [OF in_rows _ dist raw c p _ _ ready, where key = "''official.cwa.rainfall''"]
  show ?thesis by (simp add: rain_row_def rain_properties_def dict_get_def sample_env_def coalesce_def)
qed

lemma worker_and_api_risk_factors_agree_witness:
  "evidence_realtime_risk_factor ((Assessment_Data.sample_warning ''w'' 1)\<lparr> er_event_type := ''rainfall'',
       er_realtime_risk_factor := None, er_rainfall_mm_1h := Some 45, er_water_level_m := None,
       er_warning_level_m := None, er_flood_depth_cm := None \<rparr>)
     = Some (7 / 10)"
proof -
  have numbers: "optional_float sample_env (property rain_candidate ''rainfall_mm_1h'') = Some 45"
    "optional_float sample_env (property rain_candidate ''water_level_m'') = None"
    "optional_float sample_env (property rain_candidate ''warning_level_m'') = None"
    "optional_float sample_env (property rain_candidate ''flood_depth_cm'') = None"
    "pp_event_type rain_candidate = ''rainfall''"
    by code_simp+
  have "official_realtime_risk_factor sample_env rain_candidate = Some (7 / 10)" by code_simp
  then show ?thesis
    using worker_and_api_risk_factors_agree [of "(Assessment_Data.sample_warning ''w'' 1)\<lparr> er_event_type := ''rainfall'',
       er_realtime_risk_factor := None, er_rainfall_mm_1h := Some 45, er_water_level_m := None,
       er_warning_level_m := None, er_flood_depth_cm := None \<rparr>" rain_candidate sample_env] numbers by simp
qed

end
