(* ===== verification/Spec2Isabelle.thy ===== *)
theory Spec2Isabelle
  imports Risk_Assessment Queue_Worker Queue_Lifecycle Ingestion_Readiness Retention_Passes Index_Rebuilds Managed_Outcomes
    Promotion_Samples
begin

text \<open>
  A model of the flood risk service of this repository, and the theorems that make its answers
  trustworthy. Every theorem numbered in a comment states a property of the program; each with a
  hypothesis has a witness beside it, the theorem applied at a concrete input.

  The program. A client asks for the flood risk at a point. The API loads evidence and station
  coverage from the database (\<open>app/domain/assessment/repository.py\<close>), explains for every kind of
  measurement what is near the point and why something is missing
  (\<open>app/domain/realtime/nearby_coverage.py\<close>), scores the evidence
  (\<open>app/domain/risk/scoring.py\<close>), holds back reassuring answers that the data does not support
  (\<open>app/domain/assessment/safety.py\<close>) and composes the answer
  (\<open>app/api/services/assessment.py\<close>). The database is filled by workers that take ingestion jobs from a
  durable queue (\<open>apps/workers/app/jobs/queue.py\<close>). Paths of the form \<open>app/\<close> are below \<open>src/apps/api\<close>.

  Theories, in the order in which they build on each other:

  \<^item> \<^verbatim>\<open>Flood_Prelude\<close>: results of Python functions that may raise, \<open>dict.fromkeys\<close>, least elements,
    stable sorting, date and time values, and their lemmas.
  \<^item> \<^verbatim>\<open>Risk_Scoring\<close>: the whole of \<open>scoring.py\<close>. One definition per function; the loop over the
    signals is \<open>accumulate_totals\<close>. Theorems: the loop has a closed form that does not depend on the
    order of the evidence; bounds of scores and confidence; stale evidence, more stations of the same
    kind and imprecise citations do not move a level; caps.
  \<^item> \<^verbatim>\<open>Coverage_Catalog\<close>: signal types, statuses, reasons and the catalog of adapters.
  \<^item> \<^verbatim>\<open>Source_Health\<close>: the diagnosis of each source from its database row, as a cascade of
    decisions in the order of the code. Theorems: what a healthy report implies, that reasons fit
    statuses, that a fault of the own database is not blamed on a source, that all sources appear.
  \<^item> \<^verbatim>\<open>Nearby_Coverage\<close>: the coverage answer per signal and overall. Theorems: levels are the best
    usable distances, every gap has an explanation, counts add up, and the claim that no station is
    in range is made only with proof.
  \<^item> \<^verbatim>\<open>Assessment_Data\<close>: the loader. A read is a parameter, \<open>None\<close> where it raises. Theorems: loading
    survives failing reads, flags them (but for the context of recent incidents, which has no flag)
    and keeps the rows of the others, one warning per origin is kept, and the claim about
    missing stations is traced through the whole load.
  \<^item> \<^verbatim>\<open>Risk_Assessment\<close>: conversion of records to signals, the safety override, the composition of the
    answer. Theorems: a low realtime level needs support; the overall level is the worse one; higher
    measurements never lower it; gaps are reported.
  \<^item> \<^verbatim>\<open>Runtime_Queue\<close>: the tables of the job queue and the operations of both queue classes.
  \<^item> \<^verbatim>\<open>Queue_Executions\<close>: executions of the queue as a step relation, its invariant by rule
    induction, the contract of every operation in a reachable state, and the interface that workers
    rely on as the locale \<open>runtime_queue\<close>, interpreted for the durable queue and for the one without a
    database.
  \<^item> \<^verbatim>\<open>Queue_Lifecycle\<close>: the queue refines the life of a single job (waiting, leased, finished, dead),
    by a forward simulation, and hands out a due job whatever else is done to it in between, once the
    queue is dequeued as often as there are attempts left or added.
  \<^item> \<^verbatim>\<open>Python_Values\<close>, \<^verbatim>\<open>Step_Triples\<close>: values of payloads, exceptions, steps that change a state and
    return or raise, and triples about them.
  \<^item> \<^verbatim>\<open>Evidence_Staging\<close>: results of adapters with the checks of their constructors, the review of
    evidence and its metadata, and the staged batch (\<open>apps/workers/app/pipelines/staging.py\<close>,
    \<open>validation.py\<close>, \<open>adapters/contracts.py\<close>). Theorems: every item ends in one row, accepted rows are
    reviewed field by field, canonical references read back.
  \<^item> \<^verbatim>\<open>Batch_Ingestion\<close>: \<open>apps/workers/app/jobs/ingestion.py\<close>, from one adapter to all enabled ones.
    Theorems: what success, activation, retired warnings and a published warning window rest on, and
    that every adapter is summed up whatever raises.
  \<^item> \<^verbatim>\<open>Source_Freshness\<close>, \<^verbatim>\<open>Queue_Worker\<close>: the freshness of a run (\<open>jobs/freshness.py\<close>), the worker that
    takes a job, runs it and marks it, and the producer (\<open>jobs/runtime.py\<close>). Theorems: a reported
    success is backed, a worker that returns lets go of its job, one active job per adapter.
  \<^item> \<^verbatim>\<open>Ingestion_Readiness\<close>: the public readiness (\<open>app/domain/ingestion/readiness.py\<close> and its route).
    Theorems: what ready means, when the answer is down, that it agrees with the lease of the
    scheduler and with the classification of errors in \<^verbatim>\<open>Source_Health\<close>.
  \<^item> \<^verbatim>\<open>Evidence_Retention\<close>, \<^verbatim>\<open>Retention_Passes\<close>: the deletion of old rows
    (\<open>jobs/evidence_retention.py\<close>). A statement may fail before or after its commit, and other processes
    may change the tables between any two statements. Theorems: only expendable rows go, the sweep
    leaves no orphan behind its watermark, a cycle ends within its budgets, the sweep gets on.
  \<^item> \<^verbatim>\<open>Index_Maintenance\<close>, \<^verbatim>\<open>Index_Rebuilds\<close>: the rebuild of indexes in a nightly window
    (\<open>jobs/index_maintenance.py\<close>), with the journal of the statements sent. Theorems: a rebuild ends
    before its window does, each index is rebuilt once in a window, only dead copies are dropped.
  \<^item> \<^verbatim>\<open>Source_Ledger\<close>, \<^verbatim>\<open>Ledger_Generations\<close>: the tables in which runs, selections and pipeline statuses
    are recorded (\<open>pipelines/ingestion_runs.py\<close>). Theorems: which run the ledger speaks of when writes
    come in any order, and what an active snapshot rests on.
  \<^item> \<^verbatim>\<open>Managed_Cycle\<close>, \<^verbatim>\<open>Baseline_Tick\<close>: the managed cycle over the selected sources
    (\<open>jobs/runtime_managed.py\<close>) and the tick of the scheduler, one cycle per due source
    (\<open>cli/runtime_cli.py\<close>).
  \<^item> \<^verbatim>\<open>Managed_Guarantees\<close>, \<^verbatim>\<open>Managed_Outcomes\<close>: over any ticks, and through the ledger behind them, a
    snapshot is activated only after its rows were promoted; a tick accounts for every source and
    writes only about those that are on; success means that what was staged was handed to the
    promotion, of the one source of a baseline cycle and of all sources of a cycle without a filter. Their
    proofs compose triples and relations along \<^verbatim>\<open>Step_Triples\<close>, whose locale \<open>step_relation\<close> is
    interpreted for what an ingestion and a cycle may write.
  \<^item> \<^verbatim>\<open>Promotion_Rules\<close>, \<^verbatim>\<open>Evidence_Promotion\<close>, \<^verbatim>\<open>Promotion_Writer\<close>: the promotion of staged rows to
    evidence and to the latest row of each station (\<open>apps/workers/app/pipelines/promotion.py\<close>), with the
    writer of staged batches (\<open>postgres_writer.py\<close>): the rules that judge a candidate, the tables and
    the statements on them, and the transactions, one definition for each stretch of
    \<open>_write_evidence_transaction\<close> between its early returns.
  \<^item> \<^verbatim>\<open>Promotion_Writes\<close>, \<^verbatim>\<open>Promotion_Latest\<close>, \<^verbatim>\<open>Promotion_Guarantees\<close>, \<^verbatim>\<open>Promotion_Samples\<close>: what one
    write does to staging rows, evidence and latest rows, and what follows for a whole promotion by the
    locale \<open>promotion_relation\<close>. Theorems: evidence comes once, from accepted rows; observations do not
    move back; a latest warning is in force, and cancelled it stays away; a promotion reports what it
    wrote. Two theorems show where the code falls short: a repeated message overrules a newer poll that
    found no warning, and a row staged before its data source is registered is never promoted.

  Conventions. A dataclass or model is a record with a two or three letter prefix on its fields; a
  \<open>Literal\<close> type is a datatype. Floating point numbers are rational numbers, so rounding errors of the
  machine are not modelled; \<open>round\<close> is round-half-even on them. Texts that the code composes for people
  are constructors carrying what varies in them. Time is in microseconds; a naive date and time is one
  without an offset, and comparing it with an aware one is a \<open>TypeError\<close> as in Python. An exception is
  the left summand of the result type; \<open>ValidationError\<close> of the schema library is a \<open>ValueError\<close>.
  Integers of Python are unbounded; columns of type \<open>integer\<close> have their range as a constraint. Loops
  are structural recursion or combinators over lists, and the two bounded loops of the retention are
  recursive functions whose measure is what is left of their budget, so nothing needs fuel.

  Parameters. Database queries are arguments of the loader, and what a theorem assumes of their answers
  is a hypothesis of it. The statements of the queue are modelled as SQL defines them, one
  transaction after the other; unique identifiers are fresh by hypothesis of a step. Adapters, writers,
  the promotion and the clocks are arguments of the worker; the ISO 8601 parser and printer, \<open>str\<close>,
  \<open>repr\<close> and the checksums are the record \<open>text_library\<close>. The faults of the retention's statements, the
  SQLSTATE of an exception and the doings of other processes are the record \<open>retention_env\<close>; the
  catalog at every statement of the index maintenance is in the record \<open>index_env\<close>. What PostgreSQL and
  PostGIS answer about casts, geometries and boundaries in a promotion is the record \<open>promotion_env\<close>; its
  transactions exclude one another, as their advisory locks make them do for one message or station.

  Not modelled: HTTP routing, SQL of the evidence repository, geocoding, reports, layers and tiles,
  parsers of the external feeds, the loops and the command line around the jobs, log events, the display of evidence previews, and the user interface.
\<close>

end
